(* ===== verification/Py_Prelude.thy ===== *)
theory Py_Prelude
  imports Main "HOL-Library.AList"
begin

text \<open>
  What the components share: Python values and the string, integer and dict operations of its
  standard library that the backend uses, exceptions as values, and lemmas about them.

  A Python \<open>str\<close> is a \<open>string\<close> holding its UTF-8 bytes.  The operations below treat bytes above
  127 as opaque letters, as Python does for the letters they encode: \<open>strip\<close>, \<open>lower\<close>, \<open>splitlines\<close>
  and \<open>int\<close> act on the ASCII characters only.  A \<open>dict\<close> is an association list in insertion
  order (\<open>map_of\<close> looks up, \<open>AList.update\<close> overwrites in place or appends), an exception is
  its class name and its \<open>str\<close>.
\<close>

named_theorems py_simps \<open>evaluation of the string and dict operations on concrete values\<close>

section \<open>Exceptions\<close>

datatype exn =
    Exn string string
  | HTTPException int string

fun exn_str :: "exn \<Rightarrow> string" where
  "exn_str (Exn c m) = m"
| "exn_str (HTTPException code d) = d"

fun exn_class :: "exn \<Rightarrow> string" where
  "exn_class (Exn c m) = c"
| "exn_class (HTTPException code d) = ''HTTPException''"

abbreviation ValueError :: "string \<Rightarrow> exn" where "ValueError m \<equiv> Exn ''ValueError'' m"
abbreviation RuntimeError :: "string \<Rightarrow> exn" where "RuntimeError m \<equiv> Exn ''RuntimeError'' m"
abbreviation TypeError :: "string \<Rightarrow> exn" where "TypeError m \<equiv> Exn ''TypeError'' m"
abbreviation KeyError :: "string \<Rightarrow> exn" where "KeyError m \<equiv> Exn ''KeyError'' m"

section \<open>Strings\<close>

definition ws_chars :: string where
  "ws_chars = [CHR '' '', CHR 0x09, CHR 0x0A, CHR 0x0B, CHR 0x0C, CHR 0x0D,
               CHR 0x1C, CHR 0x1D, CHR 0x1E, CHR 0x1F]"

definition py_ws :: "char \<Rightarrow> bool" where
  "py_ws c = (c \<in> set ws_chars)"

definition strip_by :: "(char \<Rightarrow> bool) \<Rightarrow> string \<Rightarrow> string" where
  "strip_by p s = rev (dropWhile p (rev (dropWhile p s)))"

definition strip :: "string \<Rightarrow> string" where
  "strip s = strip_by py_ws s"

definition strip_chars :: "string \<Rightarrow> string \<Rightarrow> string" where
  "strip_chars cs s = strip_by (\<lambda>c. c \<in> set cs) s"

definition rstrip_chars :: "string \<Rightarrow> string \<Rightarrow> string" where
  "rstrip_chars cs s = rev (dropWhile (\<lambda>c. c \<in> set cs) (rev s))"

definition lower_char :: "char \<Rightarrow> char" where
  "lower_char c = (let n = (of_char c :: int) in if 65 \<le> n \<and> n \<le> 90 then char_of (n + 32) else c)"

definition lower :: "string \<Rightarrow> string" where
  "lower s = map lower_char s"

text \<open>\<open>s.rpartition(c)[2]\<close> for a one-character separator: what follows its last occurrence.\<close>

definition after_last :: "char \<Rightarrow> string \<Rightarrow> string" where
  "after_last c s = rev (takeWhile (\<lambda>x. x \<noteq> c) (rev s))"

definition upper_char :: "char \<Rightarrow> char" where
  "upper_char c = (let n = (of_char c :: int) in if 97 \<le> n \<and> n \<le> 122 then char_of (n - 32) else c)"

definition upper :: "string \<Rightarrow> string" where
  "upper s = map upper_char s"

definition starts_with :: "string \<Rightarrow> string \<Rightarrow> bool" where
  "starts_with s p = (take (length p) s = p)"

definition ends_with :: "string \<Rightarrow> string \<Rightarrow> bool" where
  "ends_with s p = starts_with (rev s) (rev p)"

definition removesuffix :: "string \<Rightarrow> string \<Rightarrow> string" where
  "removesuffix s p = (if p \<noteq> [] \<and> ends_with s p then take (length s - length p) s else s)"

text \<open>\<open>find_sub p s\<close> splits \<open>s\<close> at the first occurrence of \<open>p\<close>: \<open>str.partition\<close>,
  \<open>p in s\<close> and \<open>s.split(p, 1)\<close> come from it.\<close>

fun find_sub :: "string \<Rightarrow> string \<Rightarrow> (string \<times> string) option" where
  "find_sub p [] = (if p = [] then Some ([], []) else None)"
| "find_sub p (c # s) =
     (if starts_with (c # s) p then Some ([], drop (length p) (c # s))
      else (case find_sub p s of None \<Rightarrow> None | Some (a, b) \<Rightarrow> Some (c # a, b)))"

definition contains :: "string \<Rightarrow> string \<Rightarrow> bool" where
  "contains s p = (find_sub p s \<noteq> None)"

definition partition_str :: "string \<Rightarrow> string \<Rightarrow> string \<times> string \<times> string" where
  "partition_str s p = (case find_sub p s of Some (a, b) \<Rightarrow> (a, p, b) | None \<Rightarrow> (s, [], []))"

text \<open>\<open>s.split(c)\<close> for a one-character separator; never empty.\<close>

fun split_on :: "char \<Rightarrow> string \<Rightarrow> string list" where
  "split_on c [] = [[]]"
| "split_on c (x # xs) =
     (if x = c then [] # split_on c xs
      else (case split_on c xs of [] \<Rightarrow> [[x]] | w # ws \<Rightarrow> (x # w) # ws))"

text \<open>\<open>s.split()\<close>: the maximal runs of non-space characters.\<close>

fun split_ws_acc :: "string \<Rightarrow> string \<Rightarrow> string list" where
  "split_ws_acc w [] = (if w = [] then [] else [rev w])"
| "split_ws_acc w (c # s) =
     (if py_ws c then (if w = [] then split_ws_acc [] s else rev w # split_ws_acc [] s)
      else split_ws_acc (c # w) s)"

definition split_ws :: "string \<Rightarrow> string list" where
  "split_ws s = split_ws_acc [] s"

text \<open>\<open>str.splitlines\<close>: line ends are LF, CR, CRLF, VT, FF and the separators 1C, 1D, 1E; a final
  line end opens no further line.\<close>

definition line_end :: "char \<Rightarrow> bool" where
  "line_end c = (c \<in> {CHR 0x0A, CHR 0x0B, CHR 0x0C, CHR 0x0D, CHR 0x1C, CHR 0x1D, CHR 0x1E})"

fun splitlines_acc :: "string \<Rightarrow> string \<Rightarrow> string list" where
  "splitlines_acc w [] = (if w = [] then [] else [rev w])"
| "splitlines_acc w (c # s) =
     (if line_end c then
        (case s of [] \<Rightarrow> [rev w]
         | d # s' \<Rightarrow> if c = CHR 0x0D \<and> d = CHR 0x0A then rev w # splitlines_acc [] s'
                     else rev w # splitlines_acc [] s)
      else splitlines_acc (c # w) s)"

definition splitlines :: "string \<Rightarrow> string list" where
  "splitlines s = splitlines_acc [] s"

fun join :: "string \<Rightarrow> string list \<Rightarrow> string" where
  "join sep [] = []"
| "join sep [x] = x"
| "join sep (x # y # xs) = x @ sep @ join sep (y # xs)"

text \<open>\<open>s.replace(c, r)\<close> for a one-character \<open>c\<close>.\<close>

definition replace_char :: "char \<Rightarrow> string \<Rightarrow> string \<Rightarrow> string" where
  "replace_char c r s = concat (map (\<lambda>x. if x = c then r else [x]) s)"

abbreviation nl :: string where "nl \<equiv> [CHR 0x0A]"
abbreviation sq :: string where "sq \<equiv> [CHR 0x27]"
abbreviation dq :: string where "dq \<equiv> [CHR 0x22]"

text \<open>Symbols that occur in messages, as UTF-8.\<close>

abbreviation em_dash :: string where "em_dash \<equiv> [CHR 0xE2, CHR 0x80, CHR 0x94]"
abbreviation warn_sign :: string where "warn_sign \<equiv> [CHR 0xE2, CHR 0x9A, CHR 0xA0]"
abbreviation cross_sign :: string where "cross_sign \<equiv> [CHR 0xE2, CHR 0x9C, CHR 0x97]"
abbreviation tick_sign :: string where "tick_sign \<equiv> [CHR 0xE2, CHR 0x9C, CHR 0x93]"
abbreviation bar_sign :: string where "bar_sign \<equiv> [CHR 0xE2, CHR 0x94, CHR 0x81]"

section \<open>Integers and their decimal strings\<close>

definition digit_char :: "int \<Rightarrow> char" where
  "digit_char d = char_of (48 + d)"

function show_pos :: "int \<Rightarrow> string" where
  "show_pos n = (if n < 10 then [digit_char n] else show_pos (n div 10) @ [digit_char (n mod 10)])"
  by pat_completeness auto
termination
  by (relation "measure nat") auto

declare show_pos.simps [simp del]

definition show_int :: "int \<Rightarrow> string" where
  "show_int n = (if n < 0 then ''-'' @ show_pos (- n) else show_pos n)"

definition is_digit :: "char \<Rightarrow> bool" where
  "is_digit c = (let n = (of_char c :: int) in 48 \<le> n \<and> n \<le> 57)"

definition digit_val :: "char \<Rightarrow> int" where
  "digit_val c = of_char c - 48"

definition nat_of_digits :: "string \<Rightarrow> int" where
  "nat_of_digits s = foldl (\<lambda>a c. 10 * a + digit_val c) 0 s"

text \<open>\<open>int(s)\<close>: surrounding space is dropped, one sign is allowed, and single underscores may stand
  between digits; anything else raises \<open>ValueError\<close> (\<open>None\<close> here).\<close>

fun underscores_ok :: "string \<Rightarrow> bool" where
  "underscores_ok [] = False"
| "underscores_ok [c] = is_digit c"
| "underscores_ok (c # d # s) =
     (is_digit c \<and> (if d = CHR ''_'' then underscores_ok s else underscores_ok (d # s)))"

definition parse_nat :: "string \<Rightarrow> int option" where
  "parse_nat s = (if underscores_ok s then Some (nat_of_digits (filter is_digit s)) else None)"

definition parse_int :: "string \<Rightarrow> int option" where
  "parse_int s0 =
     (case strip s0 of
        [] \<Rightarrow> None
      | c # s \<Rightarrow> if c = CHR ''-'' then map_option uminus (parse_nat s)
                 else if c = CHR ''+'' then parse_nat s
                 else parse_nat (c # s))"

section \<open>JSON values\<close>

text \<open>
  A JSON text column is modelled by what \<open>json.loads\<close> makes of it: \<open>Bad_Json\<close> for a text it
  rejects, \<open>Json v\<close> for a text that denotes \<open>v\<close>.  \<open>json.dumps\<close> writes \<open>Json\<close>.  Non-integer numbers
  do not occur in the columns the backend writes.
\<close>

datatype json =
    JNull
  | JBool bool
  | JInt int
  | JStr string
  | JArr "json list"
  | JObj "(string \<times> json) list"

datatype json_text = Bad_Json string | Json json

fun truthy :: "json \<Rightarrow> bool" where
  "truthy JNull = False"
| "truthy (JBool b) = b"
| "truthy (JInt i) = (i \<noteq> 0)"
| "truthy (JStr s) = (s \<noteq> [])"
| "truthy (JArr xs) = (xs \<noteq> [])"
| "truthy (JObj kvs) = (kvs \<noteq> [])"

definition int_arg_msg :: "string \<Rightarrow> string" where
  "int_arg_msg t = ''int() argument must be a string, a bytes-like object or a real number, not '' @ sq @ t @ sq"

fun py_int :: "json \<Rightarrow> exn + int" where
  "py_int JNull = Inl (TypeError (int_arg_msg ''NoneType''))"
| "py_int (JBool b) = Inr (if b then 1 else 0)"
| "py_int (JInt i) = Inr i"
| "py_int (JStr s) =
     (case parse_int s of Some i \<Rightarrow> Inr i
      | None \<Rightarrow> Inl (ValueError (''invalid literal for int() with base 10: '' @ sq @ s @ sq)))"
| "py_int (JArr xs) = Inl (TypeError (int_arg_msg ''list''))"
| "py_int (JObj kvs) = Inl (TypeError (int_arg_msg ''dict''))"

text \<open>\<open>d.get(k)\<close> on a dict that came out of JSON.\<close>

definition jget :: "(string \<times> json) list \<Rightarrow> string \<Rightarrow> json" where
  "jget d k = (case map_of d k of None \<Rightarrow> JNull | Some v \<Rightarrow> v)"

definition jget_default :: "(string \<times> json) list \<Rightarrow> string \<Rightarrow> json \<Rightarrow> json" where
  "jget_default d k v = (case map_of d k of None \<Rightarrow> v | Some x \<Rightarrow> x)"

section \<open>Optional strings\<close>

text \<open>\<open>s or d\<close> and the truth value of an optional string.\<close>

definition str_true :: "string option \<Rightarrow> bool" where
  "str_true x = (case x of None \<Rightarrow> False | Some s \<Rightarrow> s \<noteq> [])"

definition or_str :: "string option \<Rightarrow> string \<Rightarrow> string" where
  "or_str x d = (case x of None \<Rightarrow> d | Some s \<Rightarrow> if s = [] then d else s)"

text \<open>
  \<open>s[:n]\<close> on text held as UTF-8: \<open>n\<close> code points, each with its continuation bytes.
\<close>

definition utf8_continuation :: "char \<Rightarrow> bool" where
  "utf8_continuation c \<longleftrightarrow> of_char c div (64 :: nat) = 2"

fun take_chars :: "nat \<Rightarrow> string \<Rightarrow> string" where
  "take_chars n [] = []"
| "take_chars n (c # s) =
     (if utf8_continuation c then c # take_chars n s
      else case n of 0 \<Rightarrow> [] | Suc m \<Rightarrow> c # take_chars m s)"

text \<open>\<open>d.get(...)\<close> needs a dict; anything else has no such attribute.\<close>

fun as_dict :: "json \<Rightarrow> exn + (string \<times> json) list" where
  "as_dict (JObj d) = Inr d"
| "as_dict j = Inl (Exn ''AttributeError'' (''object has no attribute '' @ sq @ ''get'' @ sq))"

text \<open>\<open>d.get(k) or {}\<close>, used as a dict.\<close>

definition sub_dict :: "(string \<times> json) list \<Rightarrow> string \<Rightarrow> exn + (string \<times> json) list" where
  "sub_dict d k = (let v = jget d k in if truthy v then as_dict v else Inr [])"

text \<open>\<open>(d.get(k) or "")[:n] or None\<close>; only text can be sliced and stored.\<close>

definition short_text :: "nat \<Rightarrow> (string \<times> json) list \<Rightarrow> string \<Rightarrow> exn + string option" where
  "short_text n d k = (let v = jget d k in
     if \<not> truthy v then Inr None
     else case v of JStr s \<Rightarrow> Inr (Some (take_chars n s))
          | _ \<Rightarrow> Inl (TypeError ''object is not subscriptable text''))"

section \<open>Shell quoting\<close>

text \<open>\<open>shlex.quote\<close>.\<close>

definition shell_safe :: "char \<Rightarrow> bool" where
  "shell_safe c \<longleftrightarrow> c \<in> set ''abcdefghijklmnopqrstuvwxyzABCDEFGHIJKLMNOPQRSTUVWXYZ0123456789_@%+=:,./-''"

definition shlex_quote :: "string \<Rightarrow> string" where
  "shlex_quote s =
     (if s = [] then sq @ sq
      else if list_all shell_safe s then s
      else sq @ replace_char CHR 0x27 (sq @ dq @ sq @ dq @ sq) s @ sq)"

lemma find_append: "List.find P (xs @ ys) = (case List.find P xs of None \<Rightarrow> List.find P ys | Some x \<Rightarrow> Some x)"
  by (induction xs) auto

end
