(* ===== verification/Io_Monad.thy ===== *)
theory Io_Monad
  imports Py_Prelude
begin

text \<open>
  Effectful Python as functions on a state: a step returns its value or the exception it raised,
  together with the state it left.  State changes made before an exception stay, as in Python.
  The loops are those the backend writes: a \<open>for\<close> over a list, and the polling loop
  \<open>for _ in range(n): ... break ... else: ...\<close>.

  \<open>rel_io R m\<close> says that every run of \<open>m\<close> relates the state before to the state after by \<open>R\<close>.  The
  locale \<open>io_preorder\<close> is the interface between these combinators and the frame arguments of the
  components: for any preorder \<open>R\<close> the combinators keep \<open>rel_io R\<close>, so a component only has to look
  at its primitive steps.  It is interpreted for "the trace only grows" and for every projection of
  the state that a group of operations leaves alone, and for every invariant.
\<close>

named_theorems io_simps \<open>evaluation of the combinators\<close>

type_synonym ('s, 'a) io = "'s \<Rightarrow> (exn + 'a) \<times> 's"

definition ret :: "'a \<Rightarrow> ('s, 'a) io" where
  "ret x = (\<lambda>s. (Inr x, s))"

definition raise :: "exn \<Rightarrow> ('s, 'a) io" where
  "raise e = (\<lambda>s. (Inl e, s))"

definition bnd :: "('s, 'a) io \<Rightarrow> ('a \<Rightarrow> ('s, 'b) io) \<Rightarrow> ('s, 'b) io" where
  "bnd m k = (\<lambda>s. case m s of (Inl e, s') \<Rightarrow> (Inl e, s') | (Inr x, s') \<Rightarrow> k x s')"

definition seqm :: "('s, 'a) io \<Rightarrow> ('s, 'b) io \<Rightarrow> ('s, 'b) io" where
  "seqm m n = bnd m (\<lambda>_. n)"

text \<open>\<open>try: m except Exception as e: h e\<close>\<close>

definition catch :: "('s, 'a) io \<Rightarrow> (exn \<Rightarrow> ('s, 'a) io) \<Rightarrow> ('s, 'a) io" where
  "catch m h = (\<lambda>s. case m s of (Inl e, s') \<Rightarrow> h e s' | (Inr x, s') \<Rightarrow> (Inr x, s'))"

text \<open>\<open>try: m except Exception: pass\<close>\<close>

definition ignore :: "('s, 'a) io \<Rightarrow> ('s, unit) io" where
  "ignore m = catch (bnd m (\<lambda>_. ret ())) (\<lambda>_. ret ())"

text \<open>\<open>try: m finally: c\<close>\<close>

definition finally_do :: "('s, 'a) io \<Rightarrow> ('s, unit) io \<Rightarrow> ('s, 'a) io" where
  "finally_do m c = (\<lambda>s. case m s of (r, t) \<Rightarrow> (case c t of (Inl e, u) \<Rightarrow> (Inl e, u) | (Inr _, u) \<Rightarrow> (r, u)))"

text \<open>The outcome of a step as a value, for code that goes on after an exception.\<close>

definition attempt :: "('s, 'a) io \<Rightarrow> ('s, exn + 'a) io" where
  "attempt m = (\<lambda>s. case m s of (r, s') \<Rightarrow> (Inr r, s'))"

definition asks :: "('s \<Rightarrow> 'a) \<Rightarrow> ('s, 'a) io" where
  "asks f = (\<lambda>s. (Inr (f s), s))"

definition modify :: "('s \<Rightarrow> 's) \<Rightarrow> ('s, unit) io" where
  "modify f = (\<lambda>s. (Inr (), f s))"

fun for_each :: "('a \<Rightarrow> ('s, 'b) io) \<Rightarrow> 'a list \<Rightarrow> ('s, 'b list) io" where
  "for_each f [] = ret []"
| "for_each f (x # xs) = bnd (f x) (\<lambda>y. bnd (for_each f xs) (\<lambda>ys. ret (y # ys)))"

text \<open>A pure computation that may raise.\<close>

definition lift :: "exn + 'a \<Rightarrow> ('s, 'a) io" where
  "lift r = (\<lambda>s. (r, s))"

text \<open>
  \<open>for i in range(i, i + n): if body(i): break\<close>.  The value says whether the loop was left by
  \<open>break\<close>; Python's \<open>else\<close> branch runs when it is \<open>False\<close>.
\<close>

fun poll :: "nat \<Rightarrow> nat \<Rightarrow> (nat \<Rightarrow> ('s, bool) io) \<Rightarrow> ('s, bool) io" where
  "poll i 0 body = ret False"
| "poll i (Suc n) body = bnd (body i) (\<lambda>stop. if stop then ret True else poll (Suc i) n body)"

text \<open>
  A \<open>for\<close> loop whose body may leave the function: the body says whether to go on, the value whether
  the loop ran to its end.
\<close>

primrec each_until :: "('a \<Rightarrow> ('s, bool) io) \<Rightarrow> 'a list \<Rightarrow> ('s, bool) io" where
  "each_until body [] = ret True"
| "each_until body (x # xs) = bnd (body x) (\<lambda>go. if go then each_until body xs else ret False)"

section \<open>Evaluation\<close>

lemma ret_run [simp, io_simps]: "ret x s = (Inr x, s)" by (simp add: ret_def)
lemma raise_run [simp, io_simps]: "raise e s = (Inl e, s)" by (simp add: raise_def)
lemma asks_run [simp, io_simps]: "asks f s = (Inr (f s), s)" by (simp add: asks_def)
lemma modify_run [simp, io_simps]: "modify f s = (Inr (), f s)" by (simp add: modify_def)

lemma lift_run [simp, io_simps]: "lift r s = (r, s)" by (simp add: lift_def)

lemma lift_Inl [simp]: "lift (Inl e) = raise e" by (simp add: lift_def raise_def)
lemma lift_Inr [simp]: "lift (Inr x) = ret x" by (simp add: lift_def ret_def)

lemma bnd_run [io_simps]:
  "bnd m k s = (case m s of (Inl e, s') \<Rightarrow> (Inl e, s') | (Inr x, s') \<Rightarrow> k x s')"
  by (simp add: bnd_def)

lemma catch_run [io_simps]:
  "catch m h s = (case m s of (Inl e, s') \<Rightarrow> h e s' | (Inr x, s') \<Rightarrow> (Inr x, s'))"
  by (simp add: catch_def)

lemma attempt_run [io_simps]: "attempt m s = (case m s of (r, s') \<Rightarrow> (Inr r, s'))"
  by (simp add: attempt_def)

lemma bnd_Inl: "m s = (Inl e, s') \<Longrightarrow> bnd m k s = (Inl e, s')"
  by (simp add: bnd_def)

lemma bnd_Inr: "m s = (Inr x, s') \<Longrightarrow> bnd m k s = k x s'"
  by (simp add: bnd_def)

lemma catch_Inl: "m s = (Inl e, s') \<Longrightarrow> catch m h s = h e s'"
  by (simp add: catch_def)

lemma catch_Inr: "m s = (Inr x, s') \<Longrightarrow> catch m h s = (Inr x, s')"
  by (simp add: catch_def)

lemma ret_bnd [simp]: "bnd (ret x) k = k x"
  by (simp add: bnd_def fun_eq_iff)

lemma raise_bnd [simp]: "bnd (raise e) k = raise e"
  by (simp add: bnd_def fun_eq_iff)

lemma bnd_InrE:
  assumes "bnd m k s = (Inr y, t)"
  obtains x u where "m s = (Inr x, u)" and "k x u = (Inr y, t)"
  using assms by (auto simp: bnd_def split: prod.splits sum.splits)

lemma ignore_run: "ignore m s = (Inr (), snd (m s))"
  by (simp add: ignore_def catch_def bnd_def split: prod.splits sum.splits)

lemma seqm_run: "seqm m n s = (case m s of (Inl e, s') \<Rightarrow> (Inl e, s') | (Inr x, s') \<Rightarrow> n s')"
  by (simp add: seqm_def bnd_def)

lemma poll_True_stop:
  assumes "poll i n body s = (Inr True, t)"
  obtains j u where "i \<le> j" "j < i + n" "body j u = (Inr True, t)"
  using assms
proof (induction i n body arbitrary: s thesis rule: poll.induct)
  case (1 i body)
  then show ?case by simp
next
  case (2 i n body)
  from "2.prems"(2) obtain b u where b: "body i s = (Inr b, u)"
    and rest: "(if b then ret True else poll (Suc i) n body) u = (Inr True, t)"
    by (auto elim: bnd_InrE)
  show ?case
  proof (cases b)
    case True
    with b rest "2.prems"(1)[of i s] show ?thesis by simp
  next
    case False
    with rest have r: "poll (Suc i) n body u = (Inr True, t)" by simp
    obtain j v where "Suc i \<le> j" "j < Suc i + n" "body j v = (Inr True, t)"
      using "2.IH"[OF False _ r] by blast
    then show ?thesis by (intro "2.prems"(1)[of j v]) auto
  qed
qed

lemma length_for_each: "for_each f xs s = (Inr ys, t) \<Longrightarrow> length ys = length xs"
  by (induction xs arbitrary: s ys) (auto elim!: bnd_InrE)

text \<open>A loop whose body never raises never raises.\<close>

lemma for_each_total:
  assumes "\<And>x s. x \<in> set xs \<Longrightarrow> \<exists>y t. f x s = (Inr y, t)"
  shows "\<exists>ys t. for_each f xs s = (Inr ys, t)"
  using assms
proof (induction xs arbitrary: s)
  case Nil
  then show ?case by simp
next
  case (Cons x xs)
  obtain y u where "f x s = (Inr y, u)" using Cons.prems by fastforce
  moreover obtain ys t where "for_each f xs u = (Inr ys, t)"
    using Cons.IH Cons.prems by fastforce
  ultimately show ?case by (simp add: bnd_def)
qed

section \<open>Relations between the state before and after\<close>

definition rel_io :: "('s \<Rightarrow> 's \<Rightarrow> bool) \<Rightarrow> ('s, 'a) io \<Rightarrow> bool" where
  "rel_io R m = (\<forall>s. R s (snd (m s)))"

lemma rel_ioI: "(\<And>s. R s (snd (m s))) \<Longrightarrow> rel_io R m"
  by (simp add: rel_io_def)

lemma rel_ioD: "rel_io R m \<Longrightarrow> m s = (r, t) \<Longrightarrow> R s t"
  unfolding rel_io_def by (metis snd_conv)

locale io_preorder =
  fixes R :: "'s \<Rightarrow> 's \<Rightarrow> bool"
  assumes refl: "R s s"
    and trans: "R s t \<Longrightarrow> R t u \<Longrightarrow> R s u"
begin

lemma rel_ret: "rel_io R (ret x)"
  by (simp add: rel_io_def refl)

lemma rel_Pair: "rel_io R (Pair r)"
  by (simp add: rel_io_def refl)

lemma rel_raise: "rel_io R (raise e)"
  by (simp add: rel_io_def refl)

lemma rel_lift: "rel_io R (lift r)"
  by (simp add: rel_io_def refl)

lemma rel_asks: "rel_io R (asks f)"
  by (simp add: rel_io_def refl)

lemma rel_modify: "(\<And>s. R s (f s)) \<Longrightarrow> rel_io R (modify f)"
  by (simp add: rel_io_def)

lemma rel_bnd: "rel_io R m \<Longrightarrow> (\<And>x. rel_io R (k x)) \<Longrightarrow> rel_io R (bnd m k)"
  unfolding rel_io_def bnd_def
  by (auto split: prod.splits sum.splits) (metis snd_conv, metis snd_conv trans)

lemma rel_seqm: "rel_io R m \<Longrightarrow> rel_io R n \<Longrightarrow> rel_io R (seqm m n)"
  by (simp add: seqm_def rel_bnd)

lemma rel_catch: "rel_io R m \<Longrightarrow> (\<And>e. rel_io R (h e)) \<Longrightarrow> rel_io R (catch m h)"
  unfolding rel_io_def catch_def
  by (auto split: prod.splits sum.splits) (metis snd_conv trans, metis snd_conv)

lemma rel_attempt: "rel_io R m \<Longrightarrow> rel_io R (attempt m)"
  unfolding rel_io_def attempt_def by (auto split: prod.splits) (metis snd_conv)

lemma rel_finally: "rel_io R m \<Longrightarrow> rel_io R c \<Longrightarrow> rel_io R (finally_do m c)"
  unfolding rel_io_def finally_do_def by (auto split: prod.splits sum.splits intro: trans) (metis snd_conv trans)+

lemma rel_ignore: "rel_io R m \<Longrightarrow> rel_io R (ignore m)"
  unfolding ignore_def by (intro rel_catch rel_bnd rel_ret)

lemma rel_if: "(b \<Longrightarrow> rel_io R m) \<Longrightarrow> (\<not> b \<Longrightarrow> rel_io R n) \<Longrightarrow> rel_io R (if b then m else n)"
  by simp

lemma rel_for_each: "(\<And>x. x \<in> set xs \<Longrightarrow> rel_io R (f x)) \<Longrightarrow> rel_io R (for_each f xs)"
  by (induction xs) (auto intro!: rel_bnd rel_ret rel_Pair)

lemma rel_poll: "(\<And>j. rel_io R (body j)) \<Longrightarrow> rel_io R (poll i n body)"
proof (induction n arbitrary: i)
  case 0
  show ?case unfolding poll.simps by (rule rel_ret)
next
  case (Suc n)
  show ?case unfolding poll.simps
    using Suc by (auto intro!: rel_bnd intro: rel_ret rel_Pair rel_if)
qed

lemma rel_each_until: "(\<And>x. rel_io R (f x)) \<Longrightarrow> rel_io R (each_until f xs)"
  by (induction xs) (simp_all add: rel_bnd rel_ret rel_Pair)

lemma rel_option:
  "(x = None \<Longrightarrow> rel_io R m) \<Longrightarrow> (\<And>y. x = Some y \<Longrightarrow> rel_io R (k y)) \<Longrightarrow>
   rel_io R (case x of None \<Rightarrow> m | Some y \<Rightarrow> k y)"
  by (cases x) auto

lemma rel_prod: "(\<And>a b. x = (a, b) \<Longrightarrow> rel_io R (k a b)) \<Longrightarrow> rel_io R (case x of (a, b) \<Rightarrow> k a b)"
  by (cases x) auto

lemmas rel_intros = rel_ret rel_Pair rel_raise rel_lift rel_asks rel_bnd rel_seqm rel_catch rel_attempt rel_ignore rel_finally
  rel_for_each rel_each_until rel_poll rel_if rel_option rel_prod

end

text \<open>Leaving a projection of the state alone is such a relation, and so is growing a list.\<close>

definition keeps :: "('s \<Rightarrow> 'p) \<Rightarrow> 's \<Rightarrow> 's \<Rightarrow> bool" where
  "keeps f s t = (f t = f s)"

definition grows :: "('s \<Rightarrow> 'p list) \<Rightarrow> 's \<Rightarrow> 's \<Rightarrow> bool" where
  "grows f s t = (\<exists>new. f t = f s @ new)"

definition grows_by :: "('p \<Rightarrow> bool) \<Rightarrow> ('s \<Rightarrow> 'p list) \<Rightarrow> 's \<Rightarrow> 's \<Rightarrow> bool" where
  "grows_by P f s t = (\<exists>new. f t = f s @ new \<and> list_all P new)"

definition preserves :: "('s \<Rightarrow> bool) \<Rightarrow> 's \<Rightarrow> 's \<Rightarrow> bool" where
  "preserves P s t = (P s \<longrightarrow> P t)"

text \<open>A step that leaves the whole state alone.\<close>

abbreviation still :: "('s, 'a) io \<Rightarrow> bool" where
  "still m \<equiv> rel_io (keeps (\<lambda>s. s)) m"

lemma stillD: "still m \<Longrightarrow> snd (m s) = s"
  by (simp add: rel_io_def keeps_def)

lemma rel_still: "still m \<Longrightarrow> (\<And>s. R s s) \<Longrightarrow> rel_io R m"
  by (simp add: rel_io_def keeps_def)

interpretation preserves_io: io_preorder "preserves P" for P :: "'s \<Rightarrow> bool"
  by unfold_locales (auto simp: preserves_def)

interpretation keeps_io: io_preorder "keeps f" for f :: "'s \<Rightarrow> 'p"
  by unfold_locales (auto simp: keeps_def)

interpretation grows_io: io_preorder "grows f" for f :: "'s \<Rightarrow> 'p list"
  by unfold_locales (auto simp: grows_def)

interpretation grows_by_io: io_preorder "grows_by P f" for P and f :: "'s \<Rightarrow> 'p list"
proof unfold_locales
  show "grows_by P f s s" for s by (simp add: grows_by_def)
next
  fix s t u assume "grows_by P f s t" and "grows_by P f t u"
  then obtain a b where "f t = f s @ a" "list_all P a" "f u = f t @ b" "list_all P b"
    by (auto simp: grows_by_def)
  then show "grows_by P f s u" by (auto simp: grows_by_def)
qed

section \<open>What a step yields\<close>

text \<open>
  \<open>yields f A m\<close>: every run of \<open>m\<close> relates, by \<open>A\<close>, what \<open>f\<close> shows of the state before, the result and what
  \<open>f\<close> shows of the state after.  Steps that leave \<open>f\<close> alone are skipped (\<open>yields_skip\<close>), so a long handler is
  reduced to the few steps that matter for \<open>f\<close>.
\<close>

definition yields :: "('s \<Rightarrow> 'p) \<Rightarrow> ('p \<Rightarrow> exn + 'a \<Rightarrow> 'p \<Rightarrow> bool) \<Rightarrow> ('s, 'a) io \<Rightarrow> bool" where
  "yields f A m \<longleftrightarrow> (\<forall>s. A (f s) (fst (m s)) (f (snd (m s))))"

lemma yieldsD: "yields f A m \<Longrightarrow> m s = (r, t) \<Longrightarrow> A (f s) r (f t)"
  unfolding yields_def by (metis fst_conv snd_conv)

lemma yieldsI: "(\<And>s r t. m s = (r, t) \<Longrightarrow> A (f s) r (f t)) \<Longrightarrow> yields f A m"
  by (simp add: yields_def)

lemma yields_mono: "yields f B m \<Longrightarrow> (\<And>p r q. B p r q \<Longrightarrow> A p r q) \<Longrightarrow> yields f A m"
  by (simp add: yields_def)

lemma yields_ret: "(\<And>p. A p (Inr x) p) \<Longrightarrow> yields f A (ret x)"
  by (simp add: yields_def)

lemma yields_raise: "(\<And>p. A p (Inl e) p) \<Longrightarrow> yields f A (raise e)"
  by (simp add: yields_def)

lemma yields_bnd:
  assumes "yields f B m" and "\<And>x. yields f (C x) (k x)"
    and "\<And>p e q. B p (Inl e) q \<Longrightarrow> A p (Inl e) q"
    and "\<And>p x q r u. B p (Inr x) q \<Longrightarrow> C x q r u \<Longrightarrow> A p r u"
  shows "yields f A (bnd m k)"
proof (rule yieldsI)
  fix s r t assume run: "bnd m k s = (r, t)"
  obtain x u where m: "m s = (x, u)" by (cases "m s")
  show "A (f s) r (f t)"
  proof (cases x)
    case (Inl e)
    with run m yieldsD[OF assms(1) m] show ?thesis by (auto simp: bnd_def intro: assms(3))
  next
    case (Inr y)
    with run m have "k y u = (r, t)" by (simp add: bnd_def)
    from yieldsD[OF assms(2) this] yieldsD[OF assms(1) m] show ?thesis using Inr by (auto intro: assms(4))
  qed
qed

lemma yields_seqm:
  assumes "yields f B m" and "yields f C n"
    and "\<And>p e q. B p (Inl e) q \<Longrightarrow> A p (Inl e) q"
    and "\<And>p x q r u. B p (Inr x) q \<Longrightarrow> C q r u \<Longrightarrow> A p r u"
  shows "yields f A (seqm m n)"
  unfolding seqm_def by (rule yields_bnd[where C = "\<lambda>_. C", OF assms(1,2)]) (fact assms)+

lemma yields_catch:
  assumes "yields f B m" and "\<And>e. yields f (C e) (h e)"
    and "\<And>p x q. B p (Inr x) q \<Longrightarrow> A p (Inr x) q"
    and "\<And>p e q r u. B p (Inl e) q \<Longrightarrow> C e q r u \<Longrightarrow> A p r u"
  shows "yields f A (catch m h)"
proof (rule yieldsI)
  fix s r t assume run: "catch m h s = (r, t)"
  obtain x u where m: "m s = (x, u)" by (cases "m s")
  show "A (f s) r (f t)"
  proof (cases x)
    case (Inr y)
    with run m yieldsD[OF assms(1) m] show ?thesis by (auto simp: catch_def intro: assms(3))
  next
    case (Inl e)
    with run m have "h e u = (r, t)" by (simp add: catch_def)
    from yieldsD[OF assms(2) this] yieldsD[OF assms(1) m] show ?thesis using Inl by (auto intro: assms(4))
  qed
qed

lemma yields_keeps: "rel_io (keeps f) m \<Longrightarrow> yields f (\<lambda>p r q. q = p) m"
  by (simp add: rel_io_def keeps_def yields_def)

lemma yields_value: "yields f (\<lambda>p r q. r = Inr x \<and> q = p) (ret x)"
  by (simp add: yields_def)

lemma yields_skip: "rel_io (keeps f) m \<Longrightarrow> (\<And>p e. A p (Inl e) p) \<Longrightarrow> (\<And>x. yields f A (k x)) \<Longrightarrow> yields f A (bnd m k)"
  by (rule yields_bnd[OF yields_keeps]) auto

lemma yields_skip_seqm: "rel_io (keeps f) m \<Longrightarrow> (\<And>p e. A p (Inl e) p) \<Longrightarrow> yields f A n \<Longrightarrow> yields f A (seqm m n)"
  unfolding seqm_def by (rule yields_skip)

text \<open>Two views at once.\<close>

lemma yields_both: "yields f A m \<Longrightarrow> yields g B m \<Longrightarrow>
    yields (\<lambda>s. (f s, g s)) (\<lambda>p r q. A (fst p) r (fst q) \<and> B (snd p) r (snd q)) m"
  by (simp add: yields_def)

lemma yields_if: "(b \<Longrightarrow> yields f A m) \<Longrightarrow> (\<not> b \<Longrightarrow> yields f A n) \<Longrightarrow> yields f A (if b then m else n)"
  by simp

lemma yields_option: "(x = None \<Longrightarrow> yields f A m) \<Longrightarrow> (\<And>y. x = Some y \<Longrightarrow> yields f A (k y)) \<Longrightarrow>
    yields f A (case x of None \<Rightarrow> m | Some y \<Rightarrow> k y)"
  by (cases x) auto

lemma yields_prod: "(\<And>a b. x = (a, b) \<Longrightarrow> yields f A (k a b)) \<Longrightarrow> yields f A (case x of (a, b) \<Rightarrow> k a b)"
  by (cases x) auto

text \<open>A step that never raises.\<close>

definition calm :: "('s, 'a) io \<Rightarrow> bool" where
  "calm m \<longleftrightarrow> (\<forall>s e. fst (m s) \<noteq> Inl e)"

lemma calm_modify: "calm (modify f)" by (simp add: calm_def)
lemma calm_ret: "calm (ret x)" by (simp add: calm_def)
lemma calm_asks: "calm (asks f)" by (simp add: calm_def)

lemma calmE: "calm m \<Longrightarrow> (\<And>x u. m s = (Inr x, u) \<Longrightarrow> thesis) \<Longrightarrow> thesis"
  unfolding calm_def by (cases "m s") (metis fst_conv sum.exhaust)

lemma yields_skip_calm: "rel_io (keeps f) m \<Longrightarrow> calm m \<Longrightarrow> (\<And>x. yields f A (k x)) \<Longrightarrow> yields f A (bnd m k)"
  by (rule yields_bnd[where B = "\<lambda>p r q. q = p \<and> \<not> isl r"])
    (auto simp: yields_def rel_io_def keeps_def calm_def isl_def)

lemma yields_skip_seqm_calm: "rel_io (keeps f) m \<Longrightarrow> calm m \<Longrightarrow> yields f A n \<Longrightarrow> yields f A (seqm m n)"
  unfolding seqm_def by (rule yields_skip_calm)

end
