(* ===== verification/Models.thy ===== *)
theory Models
  imports Io_Monad
begin

text \<open>
  The rows of the database (\<open>backend/app/models/*.py\<close>), the tables of a session and what a request or a
  background task runs on.  A table is the list of its rows in the order they were inserted;
  \<open>query(T).filter(p).first()\<close> is \<open>List.find p\<close>, \<open>.all()\<close> is \<open>filter p\<close>.  An ORM object is identified
  by its primary key, so assigning to a field rewrites the row with that key (\<open>upd_by\<close>).
  \<open>sess\<close> is what the session sees, \<open>committed\<close> what other sessions see; \<open>db.commit()\<close> copies the one
  to the other, and work that is not committed is lost when the session closes.

  \<open>remote\<close> is the interface to everything outside the process: the SSH connection to a host, the
  tantor-agent of a host, the clock.  It is a parameter of every definition that needs it, over an
  arbitrary type \<open>'w\<close> of states of the outside world.
\<close>

section \<open>Rows\<close>

record cluster =
  c_id :: string
  c_name :: string
  c_kafka_version :: string
  c_mode :: string
  c_state :: string
  c_config_json :: "json_text option"
  c_cluster_uuid :: "string option"
  c_kind :: "string option"
  c_bootstrap_servers :: "string option"
  c_environment :: string
  c_ssl_enabled :: bool
  c_external_broker_hosts_json :: "json_text option"
  c_install_dir :: "string option"
  c_data_dir :: "string option"
  c_unit_name :: "string option"
  c_mtls_required :: bool
  c_tls_password :: "string option"
  c_security_protocol :: "string option"
  c_sasl_mechanism :: "string option"
  c_secrets :: "string option"
  c_ssl_verify :: bool
  c_created_at :: int

record host =
  h_id :: string
  h_hostname :: string
  h_ip_address :: string
  h_ssh_port :: int
  h_username :: string
  h_auth_type :: string
  h_encrypted_credential :: string
  h_os_info :: "string option"
  h_status :: string
  h_created_at :: int

record service =
  s_id :: string
  s_cluster_id :: string
  s_host_id :: string
  s_role :: string
  s_node_id :: int
  s_status :: string

record user =
  u_id :: string
  u_username :: string
  u_hashed_password :: string
  u_role :: string
  u_auth_source :: string
  u_ldap_dn :: "string option"
  u_is_active :: bool
  u_token_version :: int
  u_last_login :: "int option"

record agent =
  a_id :: string
  a_host_id :: string
  a_reg_hash :: "string option"
  a_reg_expires :: "int option"
  a_token_version :: int
  a_agent_version :: "string option"
  a_os_family :: "string option"
  a_os_version :: "string option"
  a_kernel :: "string option"
  a_features_json :: "json_text option"
  a_is_active :: bool
  a_last_registered :: "int option"
  a_last_heartbeat :: "int option"

record config_audit =
  ca_id :: string
  ca_cluster_id :: string
  ca_broker_id :: int
  ca_config_key :: string
  ca_old_value :: "string option"
  ca_new_value :: string
  ca_changed_by :: string
  ca_change_type :: string
  ca_created_at :: int

record alert_rule =
  al_id :: string
  al_cluster_id :: string
  al_name :: string
  al_expr :: string
  al_for_seconds :: int
  al_severity :: string
  al_summary :: "string option"
  al_description :: "string option"
  al_channel_ids :: "string option"
  al_template :: "string option"
  al_enabled :: bool
  al_created_at :: int
  al_updated_at :: int

record notification_channel =
  nc_id :: string
  nc_name :: string
  nc_kind :: string
  nc_encrypted_config :: string
  nc_enabled :: bool
  nc_created_at :: int
  nc_updated_at :: int

text \<open>The raw payload of an incident is left out.\<close>

record incident =
  ai_id :: string
  ai_fingerprint :: string
  ai_cluster_id :: "string option"
  ai_rule_id :: "string option"
  ai_alert_name :: string
  ai_severity :: string
  ai_status :: string
  ai_summary :: "string option"
  ai_description :: "string option"
  ai_started_at :: int
  ai_resolved_at :: "int option"
  ai_last_seen_at :: int

text \<open>Two flags of a monitoring configuration are never written and left out.\<close>

record monitoring_config =
  mc_id :: string
  mc_cluster_id :: "string option"
  mc_monitoring_host_id :: "string option"
  mc_deployed :: bool
  mc_prometheus_port :: int
  mc_grafana_port :: int
  mc_grafana_url :: "string option"
  mc_prometheus_url :: "string option"

text \<open>The log is stored as a JSON list of texts, which only this program writes.\<close>

record deployment_task =
  dt_id :: string
  dt_cluster_id :: string
  dt_status :: string
  dt_current_step :: "string option"
  dt_logs :: "string list"
  dt_error_message :: "string option"
  dt_started_at :: int
  dt_finished :: bool

record kafka_user =
  ku_id :: string
  ku_cluster_id :: string
  ku_username :: string
  ku_mechanism :: string
  ku_encrypted_password :: string
  ku_created_at :: int
  ku_updated_at :: int

record audit_log =
  au_id :: string
  au_cluster_id :: string
  au_action :: string
  au_resource_type :: string
  au_resource_name :: string
  au_details :: "string option"
  au_actor_user_id :: "string option"
  au_actor_username :: "string option"
  au_created_at :: int

record tables =
  clusters :: "cluster list"
  hosts :: "host list"
  services :: "service list"
  users :: "user list"
  agents :: "agent list"
  config_audits :: "config_audit list"
  alert_rules :: "alert_rule list"
  notification_channels :: "notification_channel list"
  incidents :: "incident list"
  monitoring_configs :: "monitoring_config list"
  deployment_tasks :: "deployment_task list"
  kafka_users :: "kafka_user list"
  audit_logs :: "audit_log list"

definition empty_tables :: tables where
  "empty_tables = \<lparr>clusters = [], hosts = [], services = [], users = [], agents = [], config_audits = [],
     alert_rules = [], notification_channels = [], incidents = [], monitoring_configs = [],
     deployment_tasks = [], kafka_users = [], audit_logs = []\<rparr>"

section \<open>Settings\<close>

record settings =
  KAFKA_INSTALL_DIR :: string
  KAFKA_DATA_DIR :: string
  KAFKA_REPO_DIR :: string
  ACCESS_TOKEN_EXPIRE_MINUTES :: int
  REFRESH_TOKEN_EXPIRE_DAYS :: int
  PROMETHEUS_PORT :: int
  ALERTMANAGER_PORT :: int
  TANTOR_PUBLIC_URL :: string
  KAFKA_SCALA_VERSION :: string
  KAFKA_LOG_DIR :: string
  KSQLDB_REPO_DIR :: string
  KSQLDB_INSTALL_DIR :: string
  APICURIO_VERSION :: string
  APICURIO_REPO_DIR :: string
  APICURIO_INSTALL_DIR :: string
  GRAFANA_PORT :: int
  ALERTMANAGER_VERSION :: string
  NODE_EXPORTER_VERSION :: string
  GRAFANA_VERSION :: string
  ANSIBLE_WORKING_DIR :: string
  CERTS_DIR :: string

text \<open>The defaults of \<open>config.py\<close>; the repository directory depends on where the program is installed, those of ksqlDB and
  Apicurio lie beside the one of Kafka, the workspaces of Ansible and the certificates beside the repository.\<close>

definition default_settings :: "string \<Rightarrow> settings" where
  "default_settings repo =
     \<lparr>KAFKA_INSTALL_DIR = ''/opt/kafka'', KAFKA_DATA_DIR = ''/var/lib/kafka/data'', KAFKA_REPO_DIR = repo,
      ACCESS_TOKEN_EXPIRE_MINUTES = 30, REFRESH_TOKEN_EXPIRE_DAYS = 7,
      PROMETHEUS_PORT = 9090, ALERTMANAGER_PORT = 9094,
      TANTOR_PUBLIC_URL = ''http://localhost'', KAFKA_SCALA_VERSION = ''2.13'', KAFKA_LOG_DIR = ''/var/log/kafka'',
      KSQLDB_REPO_DIR = repo @ ''/../ksqldb'', KSQLDB_INSTALL_DIR = ''/opt/ksqldb'', APICURIO_VERSION = ''3.1.7'',
      APICURIO_REPO_DIR = repo @ ''/../apicurio'', APICURIO_INSTALL_DIR = ''/opt/apicurio'', GRAFANA_PORT = 3000,
      ALERTMANAGER_VERSION = ''0.27.0'', NODE_EXPORTER_VERSION = ''1.7.0'', GRAFANA_VERSION = ''10.4.1'',
      ANSIBLE_WORKING_DIR = repo @ ''/../../ansible_work'', CERTS_DIR = repo @ ''/../../certs''\<rparr>"

section \<open>Tables\<close>

definition upd_by :: "('r \<Rightarrow> 'k) \<Rightarrow> 'k \<Rightarrow> ('r \<Rightarrow> 'r) \<Rightarrow> 'r list \<Rightarrow> 'r list" where
  "upd_by key k f rows = map (\<lambda>r. if key r = k then f r else r) rows"

text \<open>
  The laws of a keyed table, for any row type whose updates keep the key: what a lookup returns after
  an update, and that keys stay distinct.  Interpreted below on every table of the model.
\<close>

locale keyed_table =
  fixes key :: "'r \<Rightarrow> 'k" and ok :: "('r \<Rightarrow> 'r) \<Rightarrow> bool"
  assumes ok_key: "ok f \<Longrightarrow> key (f r) = key r"
begin

lemma map_key_upd: "ok f \<Longrightarrow> map key (upd_by key k f rows) = map key rows"
  by (simp add: upd_by_def ok_key)

lemma distinct_upd: "ok f \<Longrightarrow> distinct (map key rows) \<Longrightarrow> distinct (map key (upd_by key k f rows))"
  by (simp only: map_key_upd)

lemma find_upd_same:
  "ok f \<Longrightarrow> List.find (\<lambda>r. key r = k) (upd_by key k f rows) = map_option f (List.find (\<lambda>r. key r = k) rows)"
  by (induction rows) (auto simp: upd_by_def ok_key)

lemma find_upd_other:
  "ok f \<Longrightarrow> k' \<noteq> k \<Longrightarrow> List.find (\<lambda>r. key r = k') (upd_by key k f rows) = List.find (\<lambda>r. key r = k') rows"
  by (induction rows) (auto simp: upd_by_def ok_key)

lemma find_fold_other: "list_all (\<lambda>(i, f). ok f) ups \<Longrightarrow> k \<notin> set (map fst ups) \<Longrightarrow>
    List.find (\<lambda>r. key r = k) (fold (\<lambda>(i, f). upd_by key i f) ups rows) = List.find (\<lambda>r. key r = k) rows"
  by (induction ups arbitrary: rows) (auto simp: find_upd_other)

text \<open>Updates of distinct keys, one after the other: each shows at its key.\<close>

lemma find_fold_same:
  assumes "list_all (\<lambda>(i, f). ok f) ups" and "distinct (map fst ups)" and "(k, f) \<in> set ups"
  shows "List.find (\<lambda>r. key r = k) (fold (\<lambda>(i, f). upd_by key i f) ups rows) =
     map_option f (List.find (\<lambda>r. key r = k) rows)"
  using assms
proof (induction ups arbitrary: rows)
  case (Cons x ups)
  obtain i g where x: "x = (i, g)" by (cases x)
  show ?case
  proof (cases "i = k")
    case True
    then have "(k, f) \<notin> set ups" using Cons.prems(2) by (force simp: x)
    then have "f = g" using Cons.prems(3) by (simp add: x)
    moreover have "k \<notin> set (map fst ups)" using Cons.prems(2) True by (simp add: x)
    ultimately show ?thesis
      using Cons.prems(1) True find_fold_other[of ups k] find_upd_same[of g k rows] by (simp add: x)
  next
    case False
    with Cons show ?thesis by (auto simp: x find_upd_other)
  qed
qed simp

lemma set_upd: "r \<in> set (upd_by key k f rows) \<Longrightarrow>
    (r \<in> set rows \<and> key r \<noteq> k) \<or> (\<exists>r0\<in>set rows. key r0 = k \<and> r = f r0)"
  by (auto simp: upd_by_def split: if_splits)

lemma find_distinct:
  "distinct (map key rows) \<Longrightarrow> r \<in> set rows \<Longrightarrow> List.find (\<lambda>x. key x = key r) rows = Some r"
  by (induction rows) (auto simp: rev_image_eqI)

end

interpretation cluster_table: keyed_table c_id "\<lambda>f. \<forall>r. c_id (f r) = c_id r"
  by unfold_locales simp

interpretation host_table: keyed_table h_id "\<lambda>f. \<forall>r. h_id (f r) = h_id r"
  by unfold_locales simp

interpretation service_table: keyed_table s_id "\<lambda>f. \<forall>r. s_id (f r) = s_id r"
  by unfold_locales simp

interpretation user_table: keyed_table u_id "\<lambda>f. \<forall>r. u_id (f r) = u_id r"
  by unfold_locales simp

interpretation agent_table: keyed_table a_id "\<lambda>f. \<forall>r. a_id (f r) = a_id r"
  by unfold_locales simp

lemma upd_by_ident: "upd_by key k (\<lambda>r. r) rows = rows"
  by (simp add: upd_by_def)

lemma upd_by_twice: "(\<And>r. key (f r) = key r) \<Longrightarrow>
    upd_by key k g (upd_by key k f rows) = upd_by key k (\<lambda>r. g (f r)) rows"
  by (simp add: upd_by_def)

lemma length_upd_by [simp]: "length (upd_by key k f rows) = length rows"
  by (simp add: upd_by_def)

lemma find_Some_iff_first: "List.find P xs = Some x \<Longrightarrow> x \<in> set xs \<and> P x"
  by (induction xs) (auto split: if_splits)

text \<open>\<open>{h.id: h for h in rows}.get(k)\<close>: the last row with the key wins; keys are unique.\<close>

definition by_id :: "('r \<Rightarrow> 'k) \<Rightarrow> 'r list \<Rightarrow> 'k \<Rightarrow> 'r option" where
  "by_id key rows k = List.find (\<lambda>r. key r = k) (rev rows)"

lemma by_id_SomeD: "by_id key rows k = Some r \<Longrightarrow> r \<in> set rows \<and> key r = k"
  unfolding by_id_def by (drule find_Some_iff_first) simp

section \<open>The outside world\<close>

text \<open>
  A reply of the agent protocol: \<open>{"ok": True, "result": {...}}\<close> or \<open>{"ok": False, "error": {...}}\<close>,
  with the fields of the payload that the backend reads (\<open>None\<close> for a key that is absent or null).
\<close>

record agent_result =
  ar_exit_code :: "int option"
  ar_stdout :: "string option"
  ar_stderr :: "string option"

record agent_error =
  ae_code :: "string option"
  ae_message :: "string option"

datatype agent_reply = AgentOk agent_result | AgentErr "agent_error option"

record 'w remote =
  r_connect :: "host \<Rightarrow> ('w, unit) io"
  r_exec :: "host \<Rightarrow> string \<Rightarrow> int \<Rightarrow> ('w, int \<times> string \<times> string) io"
  r_write :: "host \<Rightarrow> string \<Rightarrow> string \<Rightarrow> ('w, unit) io"
  r_put :: "host \<Rightarrow> string \<Rightarrow> string \<Rightarrow> ('w, unit) io"
  r_sleep :: "int \<Rightarrow> 'w \<Rightarrow> 'w"
  r_clock :: "'w \<Rightarrow> int"
  r_agent_connected :: "string \<Rightarrow> 'w \<Rightarrow> bool"
  r_agent_send :: "string \<Rightarrow> string \<Rightarrow> (string \<times> json) list \<Rightarrow> int \<Rightarrow> ('w, agent_reply) io"

text \<open>Fernet on dicts, as columns hold them; \<open>None\<close> for a token that does not decrypt.\<close>

record fernet =
  fe_encrypt :: "(string \<times> json) list \<Rightarrow> string"
  fe_decrypt :: "string \<Rightarrow> (string \<times> json) list option"

section \<open>What a request or a task runs on\<close>

record progress =
  p_current :: int
  p_total :: int
  p_label :: "string option"

text \<open>
  The dictionaries of the process, of background tasks and of topic listings: the entry of a rolling restart (log lines are texts, \<open>p_label\<close> is
  \<open>current_broker\<close>) and of an upgrade (log lines have a level, \<open>p_label\<close> is the phase; time stamps are left
  out, \<open>t_completed\<close> says whether \<open>completed_at\<close> is set).
\<close>

record restart_task =
  rt_status :: string
  rt_logs :: "string list"
  rt_progress :: progress

record task =
  t_status :: string
  t_logs :: "(string \<times> string) list"
  t_progress :: progress
  t_error :: "string option"
  t_completed :: bool

text \<open>
  A topic as the listings show it (\<open>None\<close> for a key that is absent), and the cache of listings with the time of each.
\<close>

record partition_detail =
  pd_partition :: "int option"
  pd_leader :: "int option"
  pd_replicas :: "int list option"
  pd_isr :: "int list option"

record topic_info =
  ti_name :: "string option"
  ti_partitions :: int
  ti_rf :: int
  ti_configs :: "(string \<times> string) list option"
  ti_details :: "partition_detail list"

record task_tables =
  restart_tasks :: "(string \<times> restart_task) list"
  upgrade_tasks :: "(string \<times> task) list"
  topic_cache :: "(string \<times> int \<times> topic_info list) list"

definition no_tasks :: task_tables where
  "no_tasks = \<lparr>restart_tasks = [], upgrade_tasks = [], topic_cache = []\<rparr>"

record 'w sys =
  sess :: tables
  committed :: tables
  tasks :: task_tables
  wld :: 'w

text \<open>A remote operation acts on the outside world only.\<close>

definition on_wld :: "('w, 'a) io \<Rightarrow> ('w sys, 'a) io" where
  "on_wld m = (\<lambda>s. case m (wld s) of (r, w) \<Rightarrow> (r, s\<lparr>wld := w\<rparr>))"

definition sleep :: "'w remote \<Rightarrow> int \<Rightarrow> ('w sys, unit) io" where
  "sleep R n = modify (\<lambda>s. s\<lparr>wld := r_sleep R n (wld s)\<rparr>)"

definition commit :: "('w sys, unit) io" where
  "commit = modify (\<lambda>s. s\<lparr>committed := sess s\<rparr>)"

definition upd_sess :: "(tables \<Rightarrow> tables) \<Rightarrow> ('w sys, unit) io" where
  "upd_sess f = modify (\<lambda>s. s\<lparr>sess := f (sess s)\<rparr>)"

text \<open>A request runs in a session of its own, which sees the committed tables and is closed at the end.\<close>

definition request :: "('w sys, 'a) io \<Rightarrow> ('w sys, 'a) io" where
  "request m = (\<lambda>s. case m (s\<lparr>sess := committed s\<rparr>) of (r, t) \<Rightarrow> (r, t\<lparr>sess := committed t\<rparr>))"

definition set_service_status :: "string \<Rightarrow> string \<Rightarrow> ('w sys, unit) io" where
  "set_service_status i st =
     upd_sess (\<lambda>d. d\<lparr>services := upd_by s_id i (\<lambda>r. r\<lparr>s_status := st\<rparr>) (services d)\<rparr>)"

definition set_cluster_state :: "string \<Rightarrow> string \<Rightarrow> ('w sys, unit) io" where
  "set_cluster_state i st =
     upd_sess (\<lambda>d. d\<lparr>clusters := upd_by c_id i (\<lambda>r. r\<lparr>c_state := st\<rparr>) (clusters d)\<rparr>)"

definition service_status :: "string \<Rightarrow> 'w sys \<Rightarrow> string option" where
  "service_status i s = map_option s_status (List.find (\<lambda>r. s_id r = i) (services (sess s)))"

text \<open>A step that acts on the outside world only.\<close>

definition off_wld :: "'w sys \<Rightarrow> tables \<times> tables \<times> task_tables" where
  "off_wld s = (sess s, committed s, tasks s)"

abbreviation world_only :: "('w sys, 'a) io \<Rightarrow> bool" where
  "world_only m \<equiv> rel_io (keeps off_wld) m"

lemma world_onlyD: "world_only m \<Longrightarrow> m s = (r, t) \<Longrightarrow>
    sess t = sess s \<and> committed t = committed s \<and> tasks t = tasks s"
  by (drule (1) rel_ioD) (simp add: keeps_def off_wld_def)

lemma world_only_on_wld: "world_only (on_wld m)"
  by (auto simp: rel_io_def keeps_def on_wld_def off_wld_def split: prod.splits)

lemma world_only_sleep: "world_only (sleep R n)"
  by (auto simp: rel_io_def keeps_def sleep_def off_wld_def)

lemma world_only_still: "still m \<Longrightarrow> world_only m"
  by (rule rel_still) (simp_all add: keeps_def)

lemma rel_on_wld: "rel_io (keeps sess) (on_wld m)" "rel_io (keeps committed) (on_wld m)"
  "rel_io (keeps tasks) (on_wld m)"
  by (auto simp: rel_io_def keeps_def on_wld_def split: prod.splits)

lemma rel_sleep: "rel_io (keeps sess) (sleep R n)" "rel_io (keeps committed) (sleep R n)"
  "rel_io (keeps tasks) (sleep R n)"
  by (auto simp: rel_io_def keeps_def sleep_def)

text \<open>An invariant of the tables, held by what the session sees and by what is committed.\<close>

definition in_both :: "(tables \<Rightarrow> bool) \<Rightarrow> 'w sys \<Rightarrow> bool" where
  "in_both Q s \<longleftrightarrow> Q (sess s) \<and> Q (committed s)"

lemma in_both_commit: "rel_io (preserves (in_both Q)) commit"
  by (simp add: rel_io_def preserves_def in_both_def commit_def)

lemma in_both_upd_sess: "(\<And>d. Q d \<Longrightarrow> Q (f d)) \<Longrightarrow> rel_io (preserves (in_both Q)) (upd_sess f)"
  by (simp add: rel_io_def preserves_def in_both_def upd_sess_def)

lemma in_both_still: "still m \<Longrightarrow> rel_io (preserves (in_both Q)) m"
  by (rule rel_still) (simp_all add: preserves_def)

lemma in_both_request: "rel_io (preserves (in_both Q)) m \<Longrightarrow> Q (committed s) \<Longrightarrow>
    Q (committed (snd (request m s)))"
  unfolding rel_io_def preserves_def request_def in_both_def
  by (drule spec [of _ "s\<lparr>sess := committed s\<rparr>"]) (auto split: prod.splits)

lemma committed_request: "snd (m (s\<lparr>sess := committed s\<rparr>)) = t \<Longrightarrow>
    snd (request m s) = t\<lparr>sess := committed t\<rparr>"
  by (auto simp: request_def split: prod.splits)

section \<open>SSHManager.exec_command\<close>

text \<open>\<open>exec_command\<close> returns the exit code and the stripped output; \<open>upload_content\<close> writes a file.\<close>

definition exec_command :: "'w remote \<Rightarrow> host \<Rightarrow> string \<Rightarrow> int \<Rightarrow> ('w sys, int \<times> string \<times> string) io" where
  "exec_command R h cmd timeout =
     bnd (on_wld (r_exec R h cmd timeout)) (\<lambda>(rc, out, err). ret (rc, strip out, strip err))"

definition upload_content :: "'w remote \<Rightarrow> host \<Rightarrow> string \<Rightarrow> string \<Rightarrow> ('w sys, unit) io" where
  "upload_content R h content path = on_wld (r_write R h content path)"

definition ssh_connect :: "'w remote \<Rightarrow> host \<Rightarrow> ('w sys, unit) io" where
  "ssh_connect R h = on_wld (r_connect R h)"

lemma rel_exec_command: "rel_io (keeps sess) (exec_command R h c n)"
  "rel_io (keeps committed) (exec_command R h c n)" "rel_io (keeps tasks) (exec_command R h c n)"
  unfolding exec_command_def
  by (auto intro!: keeps_io.rel_intros rel_on_wld)

lemma world_only_exec_command: "world_only (exec_command R h c n)"
  unfolding exec_command_def by (auto intro!: keeps_io.rel_intros world_only_on_wld)

lemma world_only_connect: "world_only (ssh_connect R h)"
  unfolding ssh_connect_def by (rule world_only_on_wld)

lemma world_only_upload: "world_only (upload_content R h c p)"
  unfolding upload_content_def by (rule world_only_on_wld)

lemmas world_steps = keeps_io.rel_intros world_only_on_wld world_only_sleep world_only_exec_command
  world_only_connect world_only_upload

section \<open>A recording outside world\<close>

text \<open>
  To state which commands reached which host, any \<open>remote\<close> is wrapped so that it also writes down what
  it was asked to do.  The wrapped world behaves like the one it wraps.
\<close>

datatype event =
    Connected string
  | Ran string string int
  | Wrote string string string
  | Put string string string
  | Slept int
  | Sent string string "(string \<times> json) list"

definition log_ev :: "event \<Rightarrow> ('w, 'a) io \<Rightarrow> ('w \<times> event list, 'a) io" where
  "log_ev e m = (\<lambda>(w, es). case m w of (r, w') \<Rightarrow> (r, (w', es @ [e])))"

definition log_ev_of :: "(exn + 'a \<Rightarrow> event) \<Rightarrow> ('w, 'a) io \<Rightarrow> ('w \<times> event list, 'a) io" where
  "log_ev_of e m = (\<lambda>(w, es). case m w of (r, w') \<Rightarrow> (r, (w', es @ [e r])))"

definition exit_code_of :: "exn + (int \<times> string \<times> string) \<Rightarrow> int" where
  "exit_code_of r = (case r of Inl _ \<Rightarrow> -1 | Inr (rc, _, _) \<Rightarrow> rc)"

definition recorded :: "'w remote \<Rightarrow> ('w \<times> event list) remote" where
  "recorded R =
     \<lparr>r_connect = (\<lambda>h. log_ev (Connected (h_id h)) (r_connect R h)),
      r_exec = (\<lambda>h c n. log_ev_of (\<lambda>r. Ran (h_id h) c (exit_code_of r)) (r_exec R h c n)),
      r_write = (\<lambda>h c p. log_ev (Wrote (h_id h) c p) (r_write R h c p)),
      r_put = (\<lambda>h l p. log_ev (Put (h_id h) l p) (r_put R h l p)),
      r_sleep = (\<lambda>n (w, es). (r_sleep R n w, es @ [Slept n])),
      r_clock = (\<lambda>(w, es). r_clock R w),
      r_agent_connected = (\<lambda>h (w, es). r_agent_connected R h w),
      r_agent_send = (\<lambda>h op args n. log_ev (Sent h op args) (r_agent_send R h op args n))\<rparr>"

definition trace :: "('w \<times> event list) sys \<Rightarrow> event list" where
  "trace s = snd (wld s)"

end
