(* ===== verification/Agents.thy ===== *)
theory Agents
  imports Auth
begin

text \<open>
  Host agents and their credentials: \<open>services/agent_auth.py\<close> and the token, revocation and registration
  parts of \<open>api/agents.py\<close> (\<open>models/agent.py\<close> is the record \<open>agent\<close>).  A registration token is minted once per
  host and stored as a hash; the first frame of an agent's WebSocket, \<open>register\<close>, is answered with a
  long-lived token.  \<open>agent_register\<close> is the part of \<open>agent_ws\<close> before the receive loop; it returns the frames
  that are sent and the session that is opened.  Shown: who is let in, that a registration token works
  once, that minting and revoking kill all earlier tokens, and that a disabled agent has no pending token.
\<close>

section \<open>agent_auth.py\<close>

definition REG_TOKEN_PREFIX :: string where "REG_TOKEN_PREFIX = ''tat_''"
definition REG_TOKEN_TTL_SEC :: int where "REG_TOKEN_TTL_SEC = 3600"
definition AGENT_JWT_TTL_DAYS :: int where "AGENT_JWT_TTL_DAYS = 365"

text \<open>\<open>token_urlsafe\<close> is a parameter; plaintext, hash and expiry are returned.\<close>

definition mint_registration_token :: "bcrypt \<Rightarrow> string \<Rightarrow> int \<Rightarrow> string \<Rightarrow> string \<times> string \<times> int" where
  "mint_registration_token B token_urlsafe now host_short =
     (let rand = rstrip_chars ''='' token_urlsafe;
          plaintext = REG_TOKEN_PREFIX @ host_short @ ''_'' @ rand
      in (plaintext, bc_hash B plaintext, now + REG_TOKEN_TTL_SEC))"

definition verify_registration_token :: "bcrypt \<Rightarrow> string \<Rightarrow> string \<Rightarrow> bool" where
  "verify_registration_token B plaintext hashed =
     (case bc_check B plaintext hashed of Inl _ \<Rightarrow> False | Inr b \<Rightarrow> b)"

definition issue_agent_jwt :: "'t jwt \<Rightarrow> int \<Rightarrow> string \<Rightarrow> string \<Rightarrow> int \<Rightarrow> 't" where
  "issue_agent_jwt L now agent_id host_id tv =
     jwt_encode L [(''sub'', JStr agent_id), (''host_id'', JStr host_id), (''type'', JStr ''agent''),
                   (''tv'', JInt tv), (''exp'', JInt (now + 86400 * AGENT_JWT_TTL_DAYS))]"

definition decode_agent_jwt :: "'t jwt \<Rightarrow> int \<Rightarrow> 't \<Rightarrow> jwt_error + claims" where
  "decode_agent_jwt L now token =
     (case jwt_decode L now token of
        Inl e \<Rightarrow> Inl e
      | Inr payload \<Rightarrow> if jget payload ''type'' \<noteq> JStr ''agent'' then Inl InvalidToken else Inr payload)"

definition looks_like_reg_token :: "string \<Rightarrow> bool" where
  "looks_like_reg_token v = starts_with v REG_TOKEN_PREFIX"

section \<open>Rows\<close>

definition upd_agent :: "string \<Rightarrow> (agent \<Rightarrow> agent) \<Rightarrow> ('w sys, unit) io" where
  "upd_agent i f = upd_sess (\<lambda>d. d\<lparr>agents := upd_by a_id i f (agents d)\<rparr>)"

definition add_agent :: "agent \<Rightarrow> ('w sys, unit) io" where
  "add_agent a = upd_sess (\<lambda>d. d\<lparr>agents := agents d @ [a]\<rparr>)"

definition new_agent :: "string \<Rightarrow> string \<Rightarrow> agent" where
  "new_agent aid host_id =
     \<lparr>a_id = aid, a_host_id = host_id, a_reg_hash = None, a_reg_expires = None, a_token_version = 0,
      a_agent_version = None, a_os_family = None, a_os_version = None, a_kernel = None,
      a_features_json = None, a_is_active = True, a_last_registered = None, a_last_heartbeat = None\<rparr>"

definition find_host :: "tables \<Rightarrow> string \<Rightarrow> host option" where
  "find_host d i = List.find (\<lambda>h. h_id h = i) (hosts d)"

definition agent_of_host :: "tables \<Rightarrow> string \<Rightarrow> agent option" where
  "agent_of_host d i = List.find (\<lambda>a. a_host_id a = i) (agents d)"

definition agent_by_id :: "tables \<Rightarrow> string \<Rightarrow> agent option" where
  "agent_by_id d i = List.find (\<lambda>a. a_id a = i) (agents d)"

section \<open>Minting and revoking\<close>

record http_request =
  rq_scheme :: string
  rq_host_header :: "string option"
  rq_base_hostname :: "string option"

record mint_response =
  mr_registration_token :: string
  mr_expires_at :: int
  mr_agent_id :: string
  mr_host_id :: string
  mr_install_command :: string
  mr_scm_url :: string

definition mint_token ::
    "bcrypt \<Rightarrow> string \<Rightarrow> int \<Rightarrow> string \<Rightarrow> string \<Rightarrow> http_request \<Rightarrow> ('w sys, mint_response) io" where
  "mint_token B urlsafe now new_id host_id rq =
     bnd (asks sess) (\<lambda>d.
     case find_host d host_id of
       None \<Rightarrow> raise (HTTPException 404 ''Host not found'')
     | Some host \<Rightarrow>
         let short = take_chars 8 (filter (\<lambda>c. c \<noteq> CHR ''-'') host_id);
             (plaintext, hashed, expires) = mint_registration_token B urlsafe now short;
             aid = (case agent_of_host d host_id of None \<Rightarrow> new_id | Some a \<Rightarrow> a_id a)
         in seqm (if agent_of_host d host_id = None then add_agent (new_agent new_id host_id) else ret ())
           (seqm (upd_agent aid (\<lambda>a. a\<lparr>a_reg_hash := Some hashed, a_reg_expires := Some expires,
                                       a_is_active := True, a_token_version := a_token_version a + 1\<rparr>))
           (seqm commit
           (let url_host = (case rq_host_header rq of Some h \<Rightarrow> h
                            | None \<Rightarrow> or_str (rq_base_hostname rq) ''tantor.local'');
                scm_http_url = rq_scheme rq @ ''://'' @ url_host;
                install_cmd = ''curl -fsSL '' @ sq @ scm_http_url @ ''/api/agents/install.sh?host='' @ host_id
                              @ ''&token='' @ plaintext @ sq @ '' | sudo bash'';
                scheme = (if rq_scheme rq = ''https'' then ''wss'' else ''ws'');
                scm_ws_url = scheme @ ''://'' @
                  (case rq_host_header rq of Some h \<Rightarrow> h | None \<Rightarrow> ''tantor.local'') @ ''/api/agents/connect''
            in ret \<lparr>mr_registration_token = plaintext, mr_expires_at = expires, mr_agent_id = aid,
                    mr_host_id = host_id, mr_install_command = install_cmd, mr_scm_url = scm_ws_url\<rparr>))))"

definition revoke_agent :: "string \<Rightarrow> ('w sys, string) io" where
  "revoke_agent host_id =
     bnd (asks (\<lambda>s. agent_of_host (sess s) host_id)) (\<lambda>r.
     case r of
       None \<Rightarrow> raise (HTTPException 404 ''No agent for this host'')
     | Some agent \<Rightarrow>
         seqm (upd_agent (a_id agent) (\<lambda>a. a\<lparr>a_is_active := False, a_reg_hash := None, a_reg_expires := None,
                                             a_token_version := a_token_version a + 1\<rparr>))
        (seqm commit (ret (a_id agent))))"

section \<open>Authentication of a connection\<close>

text \<open>The \<open>Authorization\<close> header; header names are case-insensitive, so one lookup stands for both.\<close>

definition extract_bearer :: "string option \<Rightarrow> string option" where
  "extract_bearer auth =
     (if \<not> str_true auth then None
      else if \<not> starts_with (lower (the auth)) ''bearer '' then None
      else Some (strip (drop 7 (the auth))))"

text \<open>The loop over the candidates: the first unexpired hash that matches decides.\<close>

fun match_candidate :: "bcrypt \<Rightarrow> tables \<Rightarrow> int \<Rightarrow> string \<Rightarrow> agent list \<Rightarrow> (agent \<times> host) option" where
  "match_candidate B d now token [] = None"
| "match_candidate B d now token (cand # cs) =
     (if \<not> str_true (a_reg_hash cand) then match_candidate B d now token cs
      else if (case a_reg_expires cand of None \<Rightarrow> False | Some exp \<Rightarrow> exp < now)
      then match_candidate B d now token cs
      else if verify_registration_token B token (the (a_reg_hash cand))
      then (case find_host d (a_host_id cand) of None \<Rightarrow> None | Some host \<Rightarrow> Some (cand, host))
      else match_candidate B d now token cs)"

text \<open>
  A bearer is text; \<open>as_jwt\<close> reads it as a token of the token library.  The payload of the frame is a
  dict here (\<open>agent_register\<close> handles the rest).
\<close>

definition agent_candidates :: "tables \<Rightarrow> json \<Rightarrow> agent list" where
  "agent_candidates d hint =
     (if truthy hint
      then (case List.find (\<lambda>a. JStr (a_host_id a) = hint) (agents d) of None \<Rightarrow> [] | Some row \<Rightarrow> [row])
      else filter (\<lambda>a. a_reg_hash a \<noteq> None \<and> a_is_active a) (agents d))"

definition authenticate_agent :: "'t jwt \<Rightarrow> (string \<Rightarrow> 't) \<Rightarrow> bcrypt \<Rightarrow> int \<Rightarrow> tables \<Rightarrow> string \<Rightarrow>
    (exn + (string \<times> json) list) \<Rightarrow> exn + (agent \<times> host) option" where
  "authenticate_agent L as_jwt B now d token payload =
     (if looks_like_reg_token token
      then (case payload of
         Inl e \<Rightarrow> Inl e
       | Inr p \<Rightarrow> Inr (match_candidate B d now token (agent_candidates d (jget p ''host_id_hint''))))
      else Inr (case decode_agent_jwt L now (as_jwt token) of
         Inl _ \<Rightarrow> None
       | Inr claims \<Rightarrow>
           let agent_id = jget claims ''sub'' in
           if \<not> truthy agent_id then None
           else (case List.find (\<lambda>a. JStr (a_id a) = agent_id) (agents d) of
              None \<Rightarrow> None
            | Some agent \<Rightarrow>
                if \<not> a_is_active agent then None
                else if \<not> eq_int (tv_or_0 claims) (a_token_version agent) then None
                else (case find_host d (a_host_id agent) of None \<Rightarrow> None | Some host \<Rightarrow> Some (agent, host)))))"

section \<open>The WebSocket handler up to the receive loop\<close>

definition PROTOCOL_VERSION :: int where "PROTOCOL_VERSION = 1"
definition DEFAULT_HEARTBEAT_INTERVAL_SEC :: int where "DEFAULT_HEARTBEAT_INTERVAL_SEC = 15"
definition DEFAULT_CMD_TIMEOUT_SEC :: int where "DEFAULT_CMD_TIMEOUT_SEC = 60"

definition DEFAULT_ALLOWED_OPS :: "string list" where
  "DEFAULT_ALLOWED_OPS =
     [''systemctl.is_active'', ''systemctl.status'', ''systemctl.cat'', ''systemctl.start'', ''systemctl.stop'',
      ''systemctl.restart'', ''systemctl.enable'', ''systemctl.disable'', ''systemctl.reset_failed'',
      ''systemctl.reset_failed_all'', ''systemctl.kill'', ''systemctl.daemon_reload'', ''journalctl.read'',
      ''file.read:/etc/kafka/'', ''file.read:/opt/kafka-*/config/'',
      ''file.write:/opt/kafka-*/config/server.properties'', ''file.write:/etc/systemd/system/kafka-*.service'',
      ''file.write:/etc/systemd/system/zookeeper-*.service'', ''file.delete:/etc/systemd/system/kafka-*.service'',
      ''file.delete:/etc/systemd/system/zookeeper-*.service'', ''kafka_cli.topics'', ''kafka_cli.configs'',
      ''kafka_cli.acls'', ''kafka_cli.consumer_groups'', ''exec.ss'', ''exec.systemd-cgls'', ''file.download'',
      ''exec.script'']"

datatype ws_out = WsText "(string \<times> json) list" | WsClose int

definition send_error :: "string \<Rightarrow> string \<Rightarrow> string \<Rightarrow> json \<Rightarrow> ws_out" where
  "send_error ts code message ref =
     WsText ([(''v'', JInt PROTOCOL_VERSION), (''kind'', JStr ''error''), (''ts'', JStr ts),
              (''payload'', JObj [(''code'', JStr code), (''message'', JStr message)])]
             @ (if truthy ref then [(''ref'', ref)] else []))"

record opened =
  op_agent_id :: string
  op_host_id :: string
  op_agent_version :: "string option"
  op_features :: json

text \<open>What the agent reported of itself, written into its row; the pending token is cleared.\<close>

definition set_report :: "int \<Rightarrow> string option \<Rightarrow> string option \<Rightarrow> string option \<Rightarrow> string option \<Rightarrow> json \<Rightarrow> agent \<Rightarrow> agent" where
  "set_report now version family os_version kern features a =
     a\<lparr>a_agent_version := version, a_os_family := family, a_os_version := os_version, a_kernel := kern,
       a_features_json := (if truthy features then Some (Json features) else None),
       a_last_registered := Some now, a_reg_hash := None, a_reg_expires := None\<rparr>"

definition record_agent :: "int \<Rightarrow> string \<Rightarrow> (string \<times> json) list \<Rightarrow> ('w sys, json) io" where
  "record_agent now aid payload =
     bnd (lift (short_text 64 payload ''agent_version'')) (\<lambda>version.
     bnd (lift (sub_dict payload ''os'')) (\<lambda>os_info.
     bnd (lift (short_text 64 os_info ''family'')) (\<lambda>family.
     bnd (lift (short_text 64 os_info ''version'')) (\<lambda>os_version.
     bnd (lift (short_text 255 os_info ''kernel'')) (\<lambda>kern.
     let f = jget payload ''agent_features''; features = (if truthy f then f else JArr [])
     in seqm (upd_agent aid (set_report now version family os_version kern features))
       (seqm commit (ret features)))))))"

definition register_ack :: "string \<Rightarrow> json \<Rightarrow> agent \<Rightarrow> json \<Rightarrow> ws_out" where
  "register_ack ts ref agent jwt_token =
     WsText [(''v'', JInt PROTOCOL_VERSION), (''kind'', JStr ''register_ack''), (''ref'', ref), (''ts'', JStr ts),
       (''payload'', JObj [(''agent_id'', JStr (a_id agent)), (''host_id'', JStr (a_host_id agent)),
          (''agent_jwt'', jwt_token),
          (''heartbeat_interval_sec'', JInt DEFAULT_HEARTBEAT_INTERVAL_SEC),
          (''command_timeout_default_sec'', JInt DEFAULT_CMD_TIMEOUT_SEC),
          (''allowed_operations'', JArr (map JStr DEFAULT_ALLOWED_OPS))])]"

text \<open>
  \<open>agent_ws\<close> from the first frame (\<open>None\<close>: the peer left) to the session it opens.  \<open>of_jwt\<close> writes a token
  as text for the answer.  \<open>read_agent\<close> is \<open>db.refresh(agent)\<close>.
\<close>

definition read_agent :: "string \<Rightarrow> ('w sys, agent) io" where
  "read_agent i = bnd (asks (\<lambda>s. agent_by_id (sess s) i)) (\<lambda>r.
     case r of None \<Rightarrow> raise (Exn ''InvalidRequestError'' ''row is gone'') | Some a \<Rightarrow> ret a)"

definition agent_register :: "'t jwt \<Rightarrow> (string \<Rightarrow> 't) \<Rightarrow> ('t \<Rightarrow> string) \<Rightarrow> bcrypt \<Rightarrow> (int \<Rightarrow> string) \<Rightarrow> int \<Rightarrow>
    string \<Rightarrow> json_text option \<Rightarrow> ('w sys, ws_out list \<times> opened option) io" where
  "agent_register L as_jwt of_jwt B isofmt now bearer first =
     (case first of
        None \<Rightarrow> ret ([], None)
      | Some (Bad_Json _) \<Rightarrow>
          ret ([send_error (isofmt now) ''bad_args'' ''first frame is not valid JSON'' JNull, WsClose 1008], None)
      | Some (Json j) \<Rightarrow>
          bnd (lift (as_dict j)) (\<lambda>reg.
          if jget reg ''kind'' \<noteq> JStr ''register'' \<or> \<not> eq_int (jget reg ''v'') PROTOCOL_VERSION
          then ret ([send_error (isofmt now) ''version_mismatch'' ''first frame must be a v1 register'' JNull,
                     WsClose 1008], None)
          else
            bnd (asks sess) (\<lambda>d.
            bnd (lift (authenticate_agent L as_jwt B now d bearer (sub_dict reg ''payload''))) (\<lambda>r.
            case r of
              None \<Rightarrow> ret ([send_error (isofmt now) ''auth_failed'' ''invalid or expired token'' (jget reg ''id''),
                            WsClose 1008], None)
            | Some (agent, host) \<Rightarrow>
                bnd (lift (sub_dict reg ''payload'')) (\<lambda>payload.
                bnd (record_agent now (a_id agent) payload) (\<lambda>features.
                bnd (read_agent (a_id agent)) (\<lambda>agent.
                let jwt_token = issue_agent_jwt L now (a_id agent) (a_host_id agent) (a_token_version agent)
                in ret ([register_ack (isofmt now) (jget reg ''id'') agent (JStr (of_jwt jwt_token))],
                        Some \<lparr>op_agent_id = a_id agent, op_host_id = a_host_id agent,
                              op_agent_version = a_agent_version agent, op_features = features\<rparr>))))))))"

definition persist_heartbeat :: "int \<Rightarrow> string \<Rightarrow> ('w sys, unit) io" where
  "persist_heartbeat now agent_id =
     bnd (asks (\<lambda>s. agent_by_id (sess s) agent_id)) (\<lambda>r.
     case r of None \<Rightarrow> ret ()
     | Some agent \<Rightarrow> seqm (upd_agent (a_id agent) (\<lambda>a. a\<lparr>a_last_heartbeat := Some now\<rparr>)) commit)"

section \<open>The listing for the UI\<close>

record agent_row =
  ag_id :: string
  ag_host_id :: string
  ag_hostname :: string
  ag_ip_address :: string
  ag_is_active :: bool
  ag_features :: json
  ag_connected :: bool
  ag_has_pending_token :: bool
  ag_expires :: "int option"

definition list_agents :: "(string \<Rightarrow> bool) \<Rightarrow> tables \<Rightarrow> agent_row list" where
  "list_agents is_connected d =
     concat (map (\<lambda>a. map (\<lambda>h.
       \<lparr>ag_id = a_id a, ag_host_id = a_host_id a, ag_hostname = h_hostname h, ag_ip_address = h_ip_address h,
        ag_is_active = a_is_active a,
        ag_features = (case a_features_json a of Some (Json j) \<Rightarrow> j | _ \<Rightarrow> JArr []),
        ag_connected = is_connected (a_host_id a), ag_has_pending_token = str_true (a_reg_hash a),
        ag_expires = a_reg_expires a\<rparr>)
       (filter (\<lambda>h. h_id h = a_host_id a) (hosts d))) (rev (agents d)))"

section \<open>Steps\<close>

datatype agent_op =
    MintToken string string string http_request
  | RevokeAgent string
  | ConnectAgent string "json_text option"
  | AgentHeartbeat string

fun agent_step :: "'t jwt \<Rightarrow> (string \<Rightarrow> 't) \<Rightarrow> ('t \<Rightarrow> string) \<Rightarrow> bcrypt \<Rightarrow> (int \<Rightarrow> string) \<Rightarrow> int \<Rightarrow>
    agent_op \<Rightarrow> 'w sys \<Rightarrow> 'w sys" where
  "agent_step L rd wr B isofmt now (MintToken urlsafe new_id host rq) s =
     snd (request (mint_token B urlsafe now new_id host rq) s)"
| "agent_step L rd wr B isofmt now (RevokeAgent host) s = snd (request (revoke_agent host) s)"
| "agent_step L rd wr B isofmt now (ConnectAgent bearer first) s =
     snd (request (agent_register L rd wr B isofmt now bearer first) s)"
| "agent_step L rd wr B isofmt now (AgentHeartbeat i) s = snd (request (persist_heartbeat now i) s)"

fun agent_run :: "'t jwt \<Rightarrow> (string \<Rightarrow> 't) \<Rightarrow> ('t \<Rightarrow> string) \<Rightarrow> bcrypt \<Rightarrow> (int \<Rightarrow> string) \<Rightarrow>
    (int \<times> agent_op) list \<Rightarrow> 'w sys \<Rightarrow> 'w sys" where
  "agent_run L rd wr B isofmt [] s = s"
| "agent_run L rd wr B isofmt ((now, op) # ops) s = agent_run L rd wr B isofmt ops (agent_step L rd wr B isofmt now op s)"

section \<open>Invariants of the steps\<close>

text \<open>The laws every per-row invariant of the agents table shares.\<close>

definition all_agents :: "(agent \<Rightarrow> bool) \<Rightarrow> tables \<Rightarrow> bool" where
  "all_agents P d = list_all P (agents d)"

lemma all_agents_upd: "(\<And>a. a_id a = i \<Longrightarrow> P a \<Longrightarrow> P (f a)) \<Longrightarrow>
    rel_io (preserves (in_both (all_agents P))) (upd_agent i f)"
  unfolding upd_agent_def
  by (rule in_both_upd_sess) (auto simp: all_agents_def list_all_iff upd_by_def)

lemma all_agents_add: "P a \<Longrightarrow> rel_io (preserves (in_both (all_agents P))) (add_agent a)"
  unfolding add_agent_def by (rule in_both_upd_sess) (simp add: all_agents_def)

lemma still_read_agent: "still (read_agent i)"
  unfolding read_agent_def by (auto intro!: keeps_io.rel_intros)

lemmas agent_steps = preserves_io.rel_intros in_both_commit all_agents_upd all_agents_add
  in_both_still[OF still_read_agent]

text \<open>
  A property of rows that every write of the handlers keeps.  \<open>allowed\<close> restricts the requests
  considered; what a handler writes is exactly one of these updates.
\<close>

locale agent_invariant =
  fixes P :: "agent \<Rightarrow> bool" and allowed :: "agent_op \<Rightarrow> bool"
  assumes new: "allowed (MintToken u i h rq) \<Longrightarrow> P (new_agent i h)"
    and mint: "allowed (MintToken u i h rq) \<Longrightarrow> P a \<Longrightarrow> P (a\<lparr>a_reg_hash := Some x, a_reg_expires := Some e,
       a_is_active := True, a_token_version := a_token_version a + 1\<rparr>)"
    and revoke: "allowed (RevokeAgent h) \<Longrightarrow> P a \<Longrightarrow> P (a\<lparr>a_is_active := False, a_reg_hash := None,
       a_reg_expires := None, a_token_version := a_token_version a + 1\<rparr>)"
    and connect: "P a \<Longrightarrow> P (a\<lparr>a_agent_version := v, a_os_family := f, a_os_version := ov, a_kernel := k,
       a_features_json := j, a_last_registered := r, a_reg_hash := None, a_reg_expires := None\<rparr>)"
    and heartbeat: "P a \<Longrightarrow> P (a\<lparr>a_last_heartbeat := Some now\<rparr>)"
begin

lemma rel_mint: "allowed (MintToken u i h rq) \<Longrightarrow>
    rel_io (preserves (in_both (all_agents P))) (mint_token B u now i h rq)"
  unfolding mint_token_def Let_def
  by (simp split: option.split prod.split) (auto intro!: agent_steps intro: new mint)

lemma rel_revoke: "allowed (RevokeAgent h) \<Longrightarrow> rel_io (preserves (in_both (all_agents P))) (revoke_agent h)"
  unfolding revoke_agent_def by (auto intro!: agent_steps revoke)

lemma rel_record: "rel_io (preserves (in_both (all_agents P))) (record_agent now aid payload)"
  unfolding record_agent_def Let_def by (auto intro!: agent_steps connect simp: set_report_def)

lemma rel_register:
  "rel_io (preserves (in_both (all_agents P))) (agent_register L rd wr B isofmt now bearer first)"
  unfolding agent_register_def Let_def
  by (simp split: option.split json_text.split prod.split)
     (auto intro!: agent_steps rel_record split: prod.split)

lemma rel_heartbeat: "rel_io (preserves (in_both (all_agents P))) (persist_heartbeat now i)"
  unfolding persist_heartbeat_def by (auto intro!: agent_steps heartbeat)

lemma step: "allowed op \<Longrightarrow> all_agents P (committed s) \<Longrightarrow>
    all_agents P (committed (agent_step L rd wr B isofmt now op s))"
  by (cases op) (auto intro!: in_both_request rel_mint rel_revoke rel_register rel_heartbeat)

lemma run: "list_all (\<lambda>(now, op). allowed op) ops \<Longrightarrow> all_agents P (committed s) \<Longrightarrow>
    all_agents P (committed (agent_run L rd wr B isofmt ops s))"
proof (induction ops arbitrary: s)
  case (Cons x ops)
  obtain now op where "x = (now, op)" by (cases x)
  with Cons.prems have "all_agents P (committed (agent_step L rd wr B isofmt now op s))"
    by (intro step) simp_all
  with Cons show ?case by (simp add: \<open>x = (now, op)\<close>)
qed simp

end

fun is_mint :: "agent_op \<Rightarrow> bool" where
  "is_mint (MintToken u i h rq) = True"
| "is_mint op = False"

fun makes_agent :: "string \<Rightarrow> agent_op \<Rightarrow> bool" where
  "makes_agent i (MintToken u i' h rq) = (i' = i)"
| "makes_agent i op = False"

text \<open>A disabled agent has no pending token.\<close>

definition pending_ok :: "agent \<Rightarrow> bool" where
  "pending_ok a \<longleftrightarrow> a_is_active a \<or> a_reg_hash a = None"

interpretation pending: agent_invariant pending_ok "\<lambda>_. True"
  by unfold_locales (simp_all add: pending_ok_def new_agent_def)

text \<open>Agent \<open>i\<close> has no pending token, until one is minted.\<close>

interpretation cleared: agent_invariant "\<lambda>a. a_id a = i \<longrightarrow> a_reg_hash a = None" "\<lambda>op. \<not> is_mint op" for i
  by unfold_locales simp_all

text \<open>The token version of agent \<open>i\<close> is at least \<open>n\<close>.\<close>

interpretation version: agent_invariant "\<lambda>a. a_id a = i \<longrightarrow> n \<le> a_token_version a" "\<lambda>op. \<not> makes_agent i op" for i n
  by unfold_locales (auto simp: new_agent_def)

section \<open>What the steps return\<close>

lemma match_candidate_Some: "match_candidate B d now token cs = Some (a, h) \<Longrightarrow>
    a \<in> set cs \<and> find_host d (a_host_id a) = Some h \<and>
    (\<exists>x. a_reg_hash a = Some x \<and> bc_check B token x = Inr True) \<and>
    (case a_reg_expires a of None \<Rightarrow> True | Some e \<Rightarrow> now \<le> e)"
  by (induction cs)
     (auto simp: str_true_def verify_registration_token_def split: if_splits option.splits sum.splits)

lemma agent_candidates_subset: "set (agent_candidates d hint) \<subseteq> set (agents d)"
  by (auto simp: agent_candidates_def split: option.splits dest: find_Some_iff_first[OF sym])

lemma find_hostD: "find_host d i = Some h \<Longrightarrow> h \<in> set (hosts d) \<and> h_id h = i"
  unfolding find_host_def by (rule find_Some_iff_first)

lemma authenticate_token:
  assumes "authenticate_agent L rd B now d token payload = Inr (Some (a, h))" and "looks_like_reg_token token"
  shows "a \<in> set (agents d) \<and> find_host d (a_host_id a) = Some h \<and>
    (\<exists>x. a_reg_hash a = Some x \<and> bc_check B token x = Inr True) \<and>
    (case a_reg_expires a of None \<Rightarrow> True | Some e \<Rightarrow> now \<le> e)"
  using assms match_candidate_Some agent_candidates_subset
  by (fastforce simp: authenticate_agent_def split: sum.splits)

lemma authenticate_jwt:
  assumes "authenticate_agent L rd B now d token payload = Inr (Some (a, h))" and "\<not> looks_like_reg_token token"
  shows "a \<in> set (agents d) \<and> find_host d (a_host_id a) = Some h \<and> a_is_active a \<and>
    (\<exists>c. jwt_decode L now (rd token) = Inr c \<and> jget c ''type'' = JStr ''agent'' \<and>
         jget c ''sub'' = JStr (a_id a) \<and> eq_int (tv_or_0 c) (a_token_version a))"
  using assms
  by (auto simp: authenticate_agent_def decode_agent_jwt_def Let_def
      split: sum.splits if_splits option.splits dest: find_Some_iff_first)

section \<open>Properties\<close>

text \<open>
  Claim C33.  Who may connect.  Starting from a database in which no disabled agent has a pending token, after
  any run of mints, revocations, connections and heartbeats, a connection is only ever authenticated as
  an agent that is in the table, enabled, and whose host exists; with a registration token its stored
  hash matches the token and has not expired, otherwise the token is an unexpired agent token of this
  very agent with the current token version.  (The code checks \<open>is_active\<close> only for agent tokens and for a
  scan without a host hint: with a hint the check is missing and the invariant is what makes it hold.)
\<close>

theorem agent_admission:
  assumes "all_agents pending_ok (committed s)"
    and "d = committed (agent_run L rd wr B isofmt ops s)"
    and "authenticate_agent L rd B now d token payload = Inr (Some (a, h))"
  shows "a \<in> set (agents d) \<and> a_is_active a \<and> h \<in> set (hosts d) \<and> h_id h = a_host_id a \<and>
    (if looks_like_reg_token token
     then (\<exists>x. a_reg_hash a = Some x \<and> bc_check B token x = Inr True) \<and>
          (case a_reg_expires a of None \<Rightarrow> True | Some e \<Rightarrow> now \<le> e)
     else \<exists>c. jwt_decode L now (rd token) = Inr c \<and> jget c ''type'' = JStr ''agent'' \<and>
          jget c ''sub'' = JStr (a_id a) \<and> eq_int (tv_or_0 c) (a_token_version a))"
proof (cases "looks_like_reg_token token")
  case True
  have "all_agents pending_ok d" unfolding assms(2) by (rule pending.run[OF _ assms(1)]) (simp add: list_all_iff)
  then show ?thesis
    using authenticate_token[OF assms(3) True] True find_hostD
    by (fastforce simp: all_agents_def list_all_iff pending_ok_def)
next
  case False
  then show ?thesis using authenticate_jwt[OF assms(3)] find_hostD by fastforce
qed

definition agent_sys :: "unit sys" where
  "agent_sys = (let d = empty_tables\<lparr>hosts := [\<lparr>h_id = ''h1'', h_hostname = ''b1'', h_ip_address = ''10.0.0.1'',
      h_ssh_port = 22, h_username = ''root'', h_auth_type = ''key'', h_encrypted_credential = [], h_os_info = None,
      h_status = ''online'', h_created_at = 0\<rparr>]\<rparr>
     in \<lparr>sess = d, committed = d, tasks = no_tasks, wld = ()\<rparr>)"

definition sample_request :: http_request where
  "sample_request = \<lparr>rq_scheme = ''https'', rq_host_header = Some ''scm'', rq_base_hostname = None\<rparr>"

definition plain_bcrypt :: bcrypt where
  "plain_bcrypt = ae_bcrypt plain_env"

text \<open>Agent tokens as text: a fixed token of agent \<open>a1\<close>.\<close>

definition sample_read :: "string \<Rightarrow> claims" where
  "sample_read t = jwt_encode plain_jwt [(''sub'', JStr ''a1''), (''type'', JStr ''agent''), (''tv'', JInt 1), (''exp'', JInt 100)]"

definition register_frame :: json_text where
  "register_frame = Json (JObj [(''kind'', JStr ''register''), (''v'', JInt 1),
     (''payload'', JObj [(''host_id_hint'', JStr ''h1''), (''agent_version'', JStr ''1.5'')])])"

abbreviation sample_mint :: "int \<times> agent_op" where
  "sample_mint \<equiv> (1, MintToken ''xyz='' ''a1'' ''h1'' sample_request)"

abbreviation sample_run :: "(int \<times> agent_op) list \<Rightarrow> unit sys" where
  "sample_run ops \<equiv> agent_run plain_jwt sample_read (\<lambda>_. ''jwt'') plain_bcrypt (\<lambda>_. ''now'') ops agent_sys"

theorem agent_admission_witness:
  "\<exists>a h. fst (request (\<lambda>s. (authenticate_agent plain_jwt sample_read plain_bcrypt 5 (sess s) ''tat_h1_xyz''
             (Inr [(''host_id_hint'', JStr ''h1'')]), s)) (sample_run [sample_mint])) = Inr (Some (a, h)) \<and>
         a_is_active a \<and> h_id h = ''h1''"
proof -
  let ?d = "committed (sample_run [sample_mint])"
  let ?r = "authenticate_agent plain_jwt sample_read plain_bcrypt 5 ?d ''tat_h1_xyz'' (Inr [(''host_id_hint'', JStr ''h1'')])"
  have "case ?r of Inr (Some (a, h)) \<Rightarrow> h_id h = ''h1'' | _ \<Rightarrow> False" by code_simp
  then obtain a h where r: "?r = Inr (Some (a, h))" "h_id h = ''h1''"
    by (auto split: sum.splits option.splits)
  have "all_agents pending_ok (committed agent_sys)" by code_simp
  from agent_admission[OF this refl r(1)] r show ?thesis by (auto simp: request_def)
qed

lemma upd_agent_clears:
  assumes "upd_agent i f s = (Inr (), t)"
    and "\<And>a. a_id (f a) = a_id a" "\<And>a. a_reg_hash (f a) = None"
  shows "all_agents (\<lambda>a. a_id a = i \<longrightarrow> a_reg_hash a = None) (sess t)"
proof -
  have "agents (sess t) = upd_by a_id i f (agents (sess s))"
    using assms(1) by (auto simp: upd_agent_def upd_sess_def)
  moreover have "list_all (\<lambda>a. a_id a = i \<longrightarrow> a_reg_hash a = None) (upd_by a_id i f rows)" for rows
    by (auto simp: upd_by_def list_all_iff assms(3))
  ultimately show ?thesis by (simp add: all_agents_def)
qed

lemma record_agent_Inr:
  assumes "record_agent now i payload s = (Inr x, t)"
  shows "\<exists>v f ov k j u. upd_agent i (set_report now v f ov k j) s = (Inr (), u) \<and> t = u\<lparr>committed := sess u\<rparr>"
  using assms unfolding record_agent_def Let_def seqm_def
  by (elim bnd_InrE) (clarsimp simp: commit_def, blast)

lemma record_agent_clears:
  assumes "record_agent now i payload s = (Inr x, t)"
  shows "all_agents (\<lambda>a. a_id a = i \<longrightarrow> a_reg_hash a = None) (committed t)"
proof -
  obtain v f ov k j u where upd: "upd_agent i (set_report now v f ov k j) s = (Inr (), u)"
    and t: "t = u\<lparr>committed := sess u\<rparr>"
    using record_agent_Inr[OF assms] by blast
  from upd_agent_clears[OF upd] show ?thesis by (simp add: t set_report_def)
qed

text \<open>A registration leaves no pending token on the rows of its agent.\<close>

lemma register_clears:
  assumes "request (agent_register L rd wr B isofmt now bearer first) s = (Inr (out, Some o')  , t)"
  shows "all_agents (\<lambda>a. a_id a = op_agent_id o' \<longrightarrow> a_reg_hash a = None) (committed t)"
proof -
  from assms obtain t' where run: "agent_register L rd wr B isofmt now bearer first (s\<lparr>sess := committed s\<rparr>) = (Inr (out, Some o'), t')"
    and t: "t = t'\<lparr>sess := committed t'\<rparr>" by (auto simp: request_def split: prod.splits)
  from run obtain i payload features s1 s2 a where
      rec: "record_agent now i payload s1 = (Inr features, s2)"
    and a: "read_agent i s2 = (Inr a, t')" and o': "op_agent_id o' = a_id a"
    unfolding agent_register_def Let_def
    by (auto split: option.splits json_text.splits if_splits prod.splits elim!: bnd_InrE)
  have "t' = s2" and "a_id a = i"
    using a by (auto simp: read_agent_def agent_by_id_def bnd_def split: option.splits dest: find_Some_iff_first)
  with record_agent_clears[OF rec] show ?thesis by (simp add: t o')
qed

text \<open>
  A registration token works once.  After a connection that was accepted, whatever revocations,
  connections and heartbeats follow, no registration token of any kind authenticates as that agent
  again until a new token is minted.
\<close>

theorem registration_token_once:
  assumes "request (agent_register L rd wr B isofmt now bearer first) s = (Inr (out, Some o'), t)"
    and "list_all (\<lambda>(now, op). \<not> is_mint op) ops"
    and "looks_like_reg_token token"
    and "authenticate_agent L rd B now' (committed (agent_run L rd wr B isofmt ops t)) token payload = Inr (Some (a, h))"
  shows "a_id a \<noteq> op_agent_id o'"
  using cleared.run[OF assms(2) register_clears[OF assms(1)], of L rd wr B isofmt] authenticate_token[OF assms(4,3)]
  by (auto simp: all_agents_def list_all_iff)

theorem registration_token_once_witness:
  "let t = sample_run [sample_mint, (2, ConnectAgent ''tat_h1_xyz'' (Some register_frame))]
   in case authenticate_agent plain_jwt sample_read plain_bcrypt 4 (committed t)
             ''tat_h1_xyz'' (Inr []) of
        Inr (Some (a, h)) \<Rightarrow> a_id a \<noteq> ''a1'' | Inr None \<Rightarrow> True | Inl _ \<Rightarrow> True"
proof -
  let ?L = "agent_register plain_jwt sample_read (\<lambda>_. ''jwt'') plain_bcrypt (\<lambda>_. ''now'') 2 ''tat_h1_xyz'' (Some register_frame)"
  let ?s = "sample_run [sample_mint]"
  have "case fst (request ?L ?s) of Inr (out, Some o') \<Rightarrow> op_agent_id o' = ''a1'' | _ \<Rightarrow> False" by code_simp
  then obtain out o' where "fst (request ?L ?s) = Inr (out, Some o')" and o': "op_agent_id o' = ''a1''"
    by (auto split: sum.splits option.splits prod.splits)
  then have run: "request ?L ?s = (Inr (out, Some o'), snd (request ?L ?s))" by (metis prod.collapse)
  have "list_all (\<lambda>(now, op). \<not> is_mint op) []" by simp
  note once = registration_token_once[OF run this, unfolded o' agent_run.simps]
  have reg: "looks_like_reg_token ''tat_h1_xyz''" by code_simp
  show ?thesis
    unfolding Let_def agent_run.simps agent_step.simps
    using once[OF reg, of 4 "Inr []"]
    by (simp split: sum.split option.split prod.split)
qed

lemma version_after:
  assumes "agent_of_host (committed s) host = Some a0"
    and "distinct (map a_id (agents (committed s)))"
    and "op = RevokeAgent host \<or> (op = MintToken u i host rq \<and> find_host (committed s) host \<noteq> None)"
  shows "all_agents (\<lambda>a. a_id a = a_id a0 \<longrightarrow> a_token_version a0 + 1 \<le> a_token_version a)
           (committed (agent_step L rd wr B isofmt now op s))"
proof -
  have only: "x = a0" if "x \<in> set (agents (committed s))" "a_id x = a_id a0" for x
    using agent_table.find_distinct[OF assms(2)] that assms(1)
    by (metis agent_of_host_def find_Some_iff_first option.inject)
  have *: "all_agents (\<lambda>a. a_id a = a_id a0 \<longrightarrow> a_token_version a0 + 1 \<le> a_token_version a)
       ((committed s)\<lparr>agents := upd_by a_id (a_id a0) f (agents (committed s))\<rparr>)"
    if f: "\<And>a. a_token_version (f a) = a_token_version a + 1" "\<And>a. a_id (f a) = a_id a" for f
  proof -
    have "a_token_version a0 + 1 \<le> a_token_version y"
      if "y \<in> set (upd_by a_id (a_id a0) f (agents (committed s)))" "a_id y = a_id a0" for y
      using agent_table.set_upd[OF that(1)] that(2) only f by force
    then show ?thesis by (simp add: all_agents_def list_all_iff)
  qed
  from assms(3) show ?thesis
  proof
    assume op: "op = RevokeAgent host"
    show ?thesis using assms(1)
      by (simp add: op revoke_agent_def request_def bnd_def seqm_def upd_agent_def upd_sess_def commit_def *)
  next
    assume op: "op = MintToken u i host rq \<and> find_host (committed s) host \<noteq> None"
    then show ?thesis using assms(1)
      by (auto simp: mint_token_def request_def bnd_def seqm_def upd_agent_def upd_sess_def commit_def Let_def
          split: prod.splits intro!: *)
  qed
qed

text \<open>
  Revoking an agent, and minting a new registration token for its host, invalidates every agent
  token issued to it before: from then on, whatever requests follow (new agents get ids of their own), a
  connection with such a token is refused at any time.
\<close>

theorem old_agent_tokens_die:
  assumes "jwt_ok L" and "agent_of_host (committed s) host = Some a0"
    and "distinct (map a_id (agents (committed s)))"
    and "op = RevokeAgent host \<or> (op = MintToken u i host rq \<and> find_host (committed s) host \<noteq> None)"
    and "list_all (\<lambda>(now, op). \<not> makes_agent (a_id a0) op) ops"
    and "rd token = issue_agent_jwt L t0 (a_id a0) h tv" and "\<not> looks_like_reg_token token"
    and "tv \<le> a_token_version a0"
  shows "authenticate_agent L rd B now' (committed (agent_run L rd wr B isofmt ops
           (agent_step L rd wr B isofmt now op s))) token payload = Inr None"
    (is "authenticate_agent L rd B now' ?d token payload = _")
proof -
  have floor: "all_agents (\<lambda>a. a_id a = a_id a0 \<longrightarrow> a_token_version a0 + 1 \<le> a_token_version a) ?d"
    by (rule version.run[OF assms(5) version_after[OF assms(2-4)]])
  obtain r where r: "authenticate_agent L rd B now' ?d token payload = Inr r"
    using assms(7) by (auto simp: authenticate_agent_def)
  show ?thesis
  proof (cases r)
    case None
    with r show ?thesis by simp
  next
    case (Some ah)
    obtain a hh where ah: "ah = (a, hh)" by (cases ah)
    obtain c where c: "jwt_decode L now' (rd token) = Inr c" "jget c ''sub'' = JStr (a_id a)"
       "eq_int (tv_or_0 c) (a_token_version a)" and a: "a \<in> set (agents ?d)"
      using authenticate_jwt[OF _ assms(7)] r Some ah by metis
    have "c = [(''sub'', JStr (a_id a0)), (''host_id'', JStr h), (''type'', JStr ''agent''),
                   (''tv'', JInt tv), (''exp'', JInt (t0 + 86400 * AGENT_JWT_TTL_DAYS))]"
      using c(1) assms(1) by (simp add: assms(6) issue_agent_jwt_def jwt_ok_def split: if_splits)
    then have "a_id a = a_id a0" "tv = a_token_version a"
      using c(2,3) by (auto simp: jget_def tv_or_0_def jget_default_def split: if_splits)
    then show ?thesis using floor a assms(8) by (force simp: all_agents_def list_all_iff)
  qed
qed

theorem old_agent_tokens_die_witness:
  "authenticate_agent plain_jwt (\<lambda>_. issue_agent_jwt plain_jwt 0 ''a1'' ''h1'' 1) plain_bcrypt 9
     (committed (agent_step plain_jwt (\<lambda>_. issue_agent_jwt plain_jwt 0 ''a1'' ''h1'' 1) (\<lambda>_. ''jwt'') plain_bcrypt
        (\<lambda>_. ''now'') 8 (RevokeAgent ''h1'') (sample_run [sample_mint]))) ''eyJ'' (Inr []) = Inr None"
proof -
  have "case agent_of_host (committed (sample_run [sample_mint])) ''h1'' of
      Some a \<Rightarrow> a_id a = ''a1'' \<and> a_token_version a = 1 | None \<Rightarrow> False" by code_simp
  then obtain a where a: "agent_of_host (committed (sample_run [sample_mint])) ''h1'' = Some a"
     "a_id a = ''a1''" "a_token_version a = 1" by (auto split: option.splits)
  let ?rd = "\<lambda>_. issue_agent_jwt plain_jwt 0 ''a1'' ''h1'' 1"
  have "authenticate_agent plain_jwt ?rd plain_bcrypt 9
     (committed (agent_run plain_jwt ?rd (\<lambda>_. ''jwt'') plain_bcrypt (\<lambda>_. ''now'') []
       (agent_step plain_jwt ?rd (\<lambda>_. ''jwt'') plain_bcrypt
        (\<lambda>_. ''now'') 8 (RevokeAgent ''h1'') (sample_run [sample_mint])))) ''eyJ'' (Inr []) = Inr None"
  proof (rule old_agent_tokens_die[OF plain_jwt_ok a(1), where h = "''h1''" and ?t0.0 = 0 and tv = 1])
    show "distinct (map a_id (agents (committed (sample_run [sample_mint]))))" by code_simp
    show "\<not> looks_like_reg_token ''eyJ''" by code_simp
  qed (simp_all add: a)
  then show ?thesis by simp
qed

end
