(* ===== verification/Agent_Registry.thy ===== *)
theory Agent_Registry
  imports Agents
begin

text \<open>
  The per-worker registry of connected agents: \<open>services/agent_registry.py\<close> and the receive loop of
  \<open>api/agents.py\<close>.  Every WebSocket carries at most one \<open>AgentSession\<close>, so a session object is named by its
  socket; \<open>rg_sessions\<close> is the heap of session objects and the two dictionaries of \<open>AgentRegistry\<close> hold
  names of sessions, as Python holds references.  A future is an entry of \<open>pending\<close>: \<open>None\<close> until \<open>set_result\<close>.
  \<open>live_step\<close> is the step relation of the worker: a connection is opened, a frame arrives, a connection is
  gone, a command is sent, a waiter gets its result or times out, in any order.
\<close>

datatype cmd_reply = CmdOk json | CmdErr json

record session =
  as_agent_id :: string
  as_host_id :: string
  as_agent_version :: "string option"
  as_features :: json
  as_connected_at :: int
  as_last_heartbeat :: int
  as_pending :: "(string \<times> cmd_reply option) list"

section \<open>AgentSession\<close>

definition cmd_envelope :: "string \<Rightarrow> string \<Rightarrow> string \<Rightarrow> (string \<times> json) list \<Rightarrow> int \<Rightarrow> (string \<times> json) list" where
  "cmd_envelope ts frame_id op args timeout_sec =
     [(''v'', JInt PROTOCOL_VERSION), (''kind'', JStr ''cmd''), (''id'', JStr frame_id), (''ts'', JStr ts),
      (''payload'', JObj [(''op'', JStr op), (''args'', JObj args), (''timeout_sec'', JInt timeout_sec)])]"

text \<open>\<open>send_envelope\<close>, for a frame that is not a command.\<close>

definition send_envelope :: "string \<Rightarrow> string \<Rightarrow> string \<Rightarrow> json \<Rightarrow> string option \<Rightarrow> (string \<times> json) list" where
  "send_envelope ts frame_id kind payload ref =
     [(''v'', JInt PROTOCOL_VERSION), (''kind'', JStr kind), (''id'', JStr frame_id), (''ts'', JStr ts),
      (''payload'', payload)] @ (if str_true ref then [(''ref'', JStr (the ref))] else [])"

text \<open>\<open>send_cmd\<close> up to the wait: the future is entered before the frame is sent.\<close>

definition send_cmd_begin :: "string \<Rightarrow> session \<Rightarrow> session" where
  "send_cmd_begin frame_id s = s\<lparr>as_pending := AList.update frame_id None (as_pending s)\<rparr>"

text \<open>The wait ends, by the result or by the timeout (\<open>None\<close>); \<open>finally\<close> drops the future.\<close>

definition send_cmd_end :: "string \<Rightarrow> session \<Rightarrow> cmd_reply option \<times> session" where
  "send_cmd_end frame_id s =
     (case map_of (as_pending s) frame_id of None \<Rightarrow> None | Some r \<Rightarrow> r,
      s\<lparr>as_pending := AList.delete frame_id (as_pending s)\<rparr>)"

text \<open>\<open>deliver\<close>; a reference that cannot be hashed raises.\<close>

definition or_empty :: "json \<Rightarrow> json" where
  "or_empty v = (if truthy v then v else JObj [])"

definition deliver :: "(string \<times> json) list \<Rightarrow> session \<Rightarrow> (exn + bool) \<times> session" where
  "deliver frame s =
     (let ref = jget frame ''ref''; payload = or_empty (jget frame ''payload'') in
      if \<not> truthy ref then (Inr False, s)
      else case ref of
        JArr _ \<Rightarrow> (Inl (TypeError ''unhashable type''), s)
      | JObj _ \<Rightarrow> (Inl (TypeError ''unhashable type''), s)
      | JStr r \<Rightarrow>
          (case map_of (as_pending s) r of
             Some None \<Rightarrow>
               if jget frame ''kind'' = JStr ''result''
               then (Inr True, s\<lparr>as_pending := AList.update r (Some (CmdOk payload)) (as_pending s)\<rparr>)
               else if jget frame ''kind'' = JStr ''error''
               then (Inr True, s\<lparr>as_pending := AList.update r (Some (CmdErr payload)) (as_pending s)\<rparr>)
               else (Inr False, s)
           | _ \<Rightarrow> (Inr False, s))
      | _ \<Rightarrow> (Inr False, s))"

definition touch_heartbeat :: "int \<Rightarrow> session \<Rightarrow> session" where
  "touch_heartbeat now s = s\<lparr>as_last_heartbeat := now\<rparr>"

section \<open>AgentRegistry\<close>

record registry =
  rg_sessions :: "(nat \<times> session) list"
  rg_by_host :: "(string \<times> nat) list"
  rg_by_agent :: "(string \<times> nat) list"

definition empty_registry :: registry where
  "empty_registry = \<lparr>rg_sessions = [], rg_by_host = [], rg_by_agent = []\<rparr>"

definition session_of :: "registry \<Rightarrow> nat \<Rightarrow> session option" where
  "session_of R ws = map_of (rg_sessions R) ws"

definition set_session :: "nat \<Rightarrow> session \<Rightarrow> registry \<Rightarrow> registry" where
  "set_session ws s R = R\<lparr>rg_sessions := AList.update ws s (rg_sessions R)\<rparr>"

definition register :: "nat \<Rightarrow> session \<Rightarrow> registry \<Rightarrow> nat option \<times> registry" where
  "register ws s R =
     (map_of (rg_by_host R) (as_host_id s),
      R\<lparr>rg_sessions := AList.update ws s (rg_sessions R),
        rg_by_host := AList.update (as_host_id s) ws (rg_by_host R),
        rg_by_agent := AList.update (as_agent_id s) ws (rg_by_agent R)\<rparr>)"

text \<open>The two removals compare agent ids, not sessions.\<close>

definition remove_session :: "session \<Rightarrow> registry \<Rightarrow> registry" where
  "remove_session s R =
     (let same = (case map_of (rg_by_host R) (as_host_id s) of
            None \<Rightarrow> False
          | Some c \<Rightarrow> (case session_of R c of None \<Rightarrow> False | Some cur \<Rightarrow> as_agent_id cur = as_agent_id s))
      in R\<lparr>rg_by_host := (if same then AList.delete (as_host_id s) (rg_by_host R) else rg_by_host R),
           rg_by_agent := AList.delete (as_agent_id s) (rg_by_agent R)\<rparr>)"

definition remove_for_session_if_present :: "nat \<Rightarrow> registry \<Rightarrow> registry" where
  "remove_for_session_if_present ws R =
     (case List.find (\<lambda>(h, w). w = ws) (rg_by_host R) of
        None \<Rightarrow> R
      | Some (h, w) \<Rightarrow> (case session_of R w of None \<Rightarrow> R | Some target \<Rightarrow> remove_session target R))"

definition get_session :: "string \<Rightarrow> registry \<Rightarrow> nat option" where
  "get_session host R = map_of (rg_by_host R) host"

definition is_connected :: "registry \<Rightarrow> string \<Rightarrow> bool" where
  "is_connected R host \<longleftrightarrow> host \<in> set (map fst (rg_by_host R))"

definition connected_host_ids :: "registry \<Rightarrow> string list" where
  "connected_host_ids R = map fst (rg_by_host R)"

definition session_count :: "registry \<Rightarrow> nat" where
  "session_count R = length (rg_by_host R)"

section \<open>The worker\<close>

record 'w live =
  lv_reg :: registry
  lv_sys :: "'w sys"
  lv_closed :: "nat list"
  lv_done :: "nat list"

text \<open>One frame in \<open>_receive_loop\<close>; \<open>False\<close> when the loop ends.\<close>

definition receive_frame :: "int \<Rightarrow> nat \<Rightarrow> session \<Rightarrow> json_text \<Rightarrow> 'w live \<Rightarrow> bool \<times> 'w live" where
  "receive_frame now ws s raw v =
     (case raw of
        Bad_Json _ \<Rightarrow> (True, v)
      | Json j \<Rightarrow>
          (case as_dict j of
             Inl _ \<Rightarrow> (False, v)
           | Inr env \<Rightarrow>
               let kind = jget env ''kind'' in
               if kind = JStr ''heartbeat''
               then (True, v\<lparr>lv_reg := set_session ws (touch_heartbeat now s) (lv_reg v),
                             lv_sys := snd (request (persist_heartbeat now (as_agent_id s)) (lv_sys v))\<rparr>)
               else if kind = JStr ''result'' \<or> kind = JStr ''error''
               then (case deliver env s of
                       (Inl _, s') \<Rightarrow> (False, v)
                     | (Inr _, s') \<Rightarrow> (True, v\<lparr>lv_reg := set_session ws s' (lv_reg v)\<rparr>))
               else (True, v)))"

text \<open>The end of a connection: \<open>finally\<close> of the loop, then \<open>finally\<close> of the handler.\<close>

definition gone :: "nat \<Rightarrow> session \<Rightarrow> 'w live \<Rightarrow> 'w live" where
  "gone ws s v = v\<lparr>lv_reg := remove_for_session_if_present ws (remove_session s (lv_reg v)),
                   lv_done := ws # lv_done v\<rparr>"

definition new_session :: "int \<Rightarrow> opened \<Rightarrow> session" where
  "new_session now o' =
     \<lparr>as_agent_id = op_agent_id o', as_host_id = op_host_id o', as_agent_version = op_agent_version o',
      as_features = op_features o', as_connected_at = now, as_last_heartbeat = now, as_pending = []\<rparr>"

text \<open>A registered connection: the previous session of the host has its socket closed.\<close>

definition open_session :: "int \<Rightarrow> nat \<Rightarrow> opened \<Rightarrow> 'w live \<Rightarrow> 'w live" where
  "open_session now ws o' v =
     (case register ws (new_session now o') (lv_reg v) of
        (previous, R) \<Rightarrow>
          v\<lparr>lv_reg := R, lv_closed := (case previous of None \<Rightarrow> lv_closed v
              | Some p \<Rightarrow> if p = ws then lv_closed v else lv_closed v @ [p])\<rparr>)"

datatype live_op =
    Open nat opened
  | Frame nat json_text
  | Gone nat
  | SendCmd nat string
  | EndCmd nat string

text \<open>The session of a handler that still runs.\<close>

definition running :: "'w live \<Rightarrow> nat \<Rightarrow> session option" where
  "running v ws = (if ws \<in> set (lv_done v) then None else session_of (lv_reg v) ws)"

fun live_step :: "int \<Rightarrow> live_op \<Rightarrow> 'w live \<Rightarrow> 'w live" where
  "live_step now (Open ws o') v = open_session now ws o' v"
| "live_step now (Frame ws raw) v =
     (case running v ws of None \<Rightarrow> v
      | Some s \<Rightarrow> (case receive_frame now ws s raw v of
            (True, v') \<Rightarrow> v' | (False, v') \<Rightarrow> gone ws s v'))"
| "live_step now (Gone ws) v =
     (case running v ws of None \<Rightarrow> v | Some s \<Rightarrow> gone ws s v)"
| "live_step now (SendCmd ws i) v =
     (case session_of (lv_reg v) ws of None \<Rightarrow> v
      | Some s \<Rightarrow> v\<lparr>lv_reg := set_session ws (send_cmd_begin i s) (lv_reg v)\<rparr>)"
| "live_step now (EndCmd ws i) v =
     (case session_of (lv_reg v) ws of None \<Rightarrow> v
      | Some s \<Rightarrow> v\<lparr>lv_reg := set_session ws (snd (send_cmd_end i s)) (lv_reg v)\<rparr>)"

fun live_run :: "(int \<times> live_op) list \<Rightarrow> 'w live \<Rightarrow> 'w live" where
  "live_run [] v = v"
| "live_run ((now, op) # ops) v = live_run ops (live_step now op v)"

definition start_worker :: "'w sys \<Rightarrow> 'w live" where
  "start_worker s0 = \<lparr>lv_reg = empty_registry, lv_sys = s0, lv_closed = [], lv_done = []\<rparr>"

text \<open>A socket is opened once.\<close>

fun op_ok :: "live_op \<Rightarrow> 'w live \<Rightarrow> bool" where
  "op_ok (Open ws o') v = (session_of (lv_reg v) ws = None)"
| "op_ok op v = True"

inductive live_reach :: "'w sys \<Rightarrow> 'w live \<Rightarrow> bool" for s0 :: "'w sys" where
  start: "live_reach s0 (start_worker s0)"
| step: "live_reach s0 v \<Longrightarrow> op_ok op v \<Longrightarrow> live_reach s0 (live_step now op v)"

section \<open>The registry stays consistent\<close>

definition entry_ok :: "(nat \<Rightarrow> session option) \<Rightarrow> (session \<Rightarrow> string) \<Rightarrow> string \<times> nat \<Rightarrow> bool" where
  "entry_ok S key e = (case S (snd e) of None \<Rightarrow> False | Some s \<Rightarrow> key s = fst e)"

definition registry_ok :: "registry \<Rightarrow> bool" where
  "registry_ok R \<longleftrightarrow> distinct (map fst (rg_by_host R)) \<and> distinct (map fst (rg_by_agent R)) \<and>
     list_all (entry_ok (session_of R) as_host_id) (rg_by_host R) \<and>
     list_all (entry_ok (session_of R) as_agent_id) (rg_by_agent R)"

lemma session_of_set [simp]: "session_of (set_session ws s R) w = (if w = ws then Some s else session_of R w)"
  by (simp add: session_of_def set_session_def update_conv')

lemma dict_of_set [simp]: "rg_by_host (set_session ws s R) = rg_by_host R" "rg_by_agent (set_session ws s R) = rg_by_agent R"
  by (simp_all add: set_session_def)

lemma in_update: "e \<in> set (AList.update k v xs) \<Longrightarrow> e = (k, v) \<or> e \<in> set xs"
  by (induction xs) (auto split: if_splits)

lemma in_delete: "e \<in> set (AList.delete k xs) \<Longrightarrow> e \<in> set xs \<and> fst e \<noteq> k"
  by (auto simp: AList.delete_eq)

text \<open>Rewriting a session keeps the registry consistent as long as its ids stay.\<close>

lemma registry_ok_set:
  assumes "registry_ok R" and "session_of R ws = Some s0"
    and "as_host_id s = as_host_id s0" "as_agent_id s = as_agent_id s0"
  shows "registry_ok (set_session ws s R)"
  using assms unfolding registry_ok_def list_all_iff entry_ok_def
  by (auto split: option.splits)

lemma registry_ok_register:
  assumes "registry_ok R" and "session_of R ws = None"
  shows "registry_ok (snd (register ws s R))"
proof -
  let ?R = "snd (register ws s R)"
  have S: "session_of ?R = (session_of R)(ws \<mapsto> s)"
    by (simp add: register_def session_of_def update_conv' fun_eq_iff)
  have keep: "entry_ok (session_of ?R) key e" if "entry_ok (session_of R) key e" for key e
    using that assms(2) by (auto simp: entry_ok_def S split: option.splits)
  have "entry_ok (session_of ?R) as_host_id (as_host_id s, ws)" "entry_ok (session_of ?R) as_agent_id (as_agent_id s, ws)"
    by (simp_all add: entry_ok_def S)
  then show ?thesis
    using assms(1) keep unfolding registry_ok_def list_all_iff
    by (auto simp: register_def distinct_update dest!: in_update)
qed

lemma registry_ok_subset:
  assumes "registry_ok R" and "rg_sessions R' = rg_sessions R"
    and "rg_by_host R' = rg_by_host R \<or> rg_by_host R' = AList.delete h (rg_by_host R)"
    and "rg_by_agent R' = rg_by_agent R \<or> rg_by_agent R' = AList.delete a (rg_by_agent R)"
  shows "registry_ok R'"
proof -
  have "session_of R' = session_of R" by (simp add: session_of_def assms(2) fun_eq_iff)
  then show ?thesis
    using assms(1,3,4) unfolding registry_ok_def list_all_iff
    by (auto simp: distinct_delete dest!: in_delete)
qed

lemma registry_ok_remove: "registry_ok R \<Longrightarrow> registry_ok (remove_session s R)"
  by (rule registry_ok_subset[of R _ "as_host_id s" "as_agent_id s"]) (simp_all add: remove_session_def Let_def)

lemma registry_ok_remove_if: "registry_ok R \<Longrightarrow> registry_ok (remove_for_session_if_present ws R)"
  by (auto simp: remove_for_session_if_present_def intro: registry_ok_remove split: option.split)

lemma registry_ok_gone: "registry_ok (lv_reg v) \<Longrightarrow> registry_ok (lv_reg (gone ws s v))"
  by (simp add: gone_def registry_ok_remove registry_ok_remove_if)

lemma deliver_ids: "as_host_id (snd (deliver f s)) = as_host_id s" "as_agent_id (snd (deliver f s)) = as_agent_id s"
  by (auto simp: deliver_def Let_def split: json.split option.split)

lemma registry_ok_receive:
  assumes "registry_ok (lv_reg v)" and "session_of (lv_reg v) ws = Some s"
  shows "registry_ok (lv_reg (snd (receive_frame now ws s raw v)))"
  using assms deliver_ids
  by (auto simp: receive_frame_def Let_def touch_heartbeat_def
      intro!: registry_ok_set[OF assms] split: json_text.split sum.split prod.split)
     (metis snd_conv)+

lemma running_SomeD: "running v ws = Some s \<Longrightarrow> session_of (lv_reg v) ws = Some s \<and> ws \<notin> set (lv_done v)"
  by (simp add: running_def split: if_splits)

lemma registry_ok_frame:
  assumes ok: "registry_ok (lv_reg v)"
  shows "registry_ok (lv_reg (live_step now (Frame ws raw) v))"
proof (cases "running v ws")
  case None
  then show ?thesis by (simp add: ok)
next
  case (Some s)
  obtain b v' where r: "receive_frame now ws s raw v = (b, v')" by (cases "receive_frame now ws s raw v")
  have "registry_ok (lv_reg v')"
    using registry_ok_receive[OF ok, of ws s now raw] running_SomeD[OF Some] by (simp add: r)
  then show ?thesis by (cases b) (simp_all add: Some r registry_ok_gone)
qed

lemma registry_ok_open: "registry_ok (lv_reg v) \<Longrightarrow> session_of (lv_reg v) ws = None \<Longrightarrow>
    registry_ok (lv_reg (open_session now ws o' v))"
  using registry_ok_register[of "lv_reg v" ws "new_session now o'"]
  by (auto simp: open_session_def split: prod.splits)

lemma registry_ok_step: "registry_ok (lv_reg v) \<Longrightarrow> op_ok op v \<Longrightarrow> registry_ok (lv_reg (live_step now op v))"
proof (cases op)
  case (Frame ws raw)
  then show "registry_ok (lv_reg v) \<Longrightarrow> ?thesis" using registry_ok_frame by simp
qed (auto simp: registry_ok_open send_cmd_begin_def send_cmd_end_def registry_ok_gone
      intro!: registry_ok_set split: option.split dest!: running_SomeD)

lemma live_reach_ok: "live_reach s0 v \<Longrightarrow> registry_ok (lv_reg v)"
proof (induction rule: live_reach.induct)
  case start
  show ?case by (simp add: start_worker_def registry_ok_def empty_registry_def)
next
  case (step v op now)
  then show ?case by (simp add: registry_ok_step)
qed

section \<open>What a step leaves alone\<close>

lemma registry_ok_host: "registry_ok R \<Longrightarrow> get_session h R = Some w \<Longrightarrow>
    \<exists>s. session_of R w = Some s \<and> as_host_id s = h"
  by (auto simp: registry_ok_def list_all_iff entry_ok_def get_session_def dest!: map_of_SomeD split: option.splits)

lemma get_remove_other: "as_host_id s \<noteq> h \<Longrightarrow> get_session h (remove_session s R) = get_session h R"
  by (simp add: get_session_def remove_session_def Let_def delete_conv')

lemma find_entry: "List.find (\<lambda>(h, w). w = ws) xs = Some (h, w) \<Longrightarrow> (h, w) \<in> set xs \<and> w = ws"
  by (induction xs) (auto split: if_splits)

lemma get_remove_if_other:
  assumes "registry_ok R" and "session_of R ws = Some s" and "as_host_id s \<noteq> h"
  shows "get_session h (remove_for_session_if_present ws R) = get_session h R"
  using assms get_remove_other[of _ h R]
  by (auto simp: remove_for_session_if_present_def split: option.split dest!: find_entry)

lemma session_of_remove [simp]: "session_of (remove_session s R) = session_of R"
  by (simp add: session_of_def remove_session_def fun_eq_iff Let_def)

lemma get_gone_other:
  assumes "registry_ok (lv_reg v)" and "session_of (lv_reg v) ws = Some s" and "as_host_id s \<noteq> h"
  shows "get_session h (lv_reg (gone ws s v)) = get_session h (lv_reg v)"
  using assms by (simp add: gone_def get_remove_if_other registry_ok_remove get_remove_other)

lemma get_set_session [simp]: "get_session h (set_session ws s R) = get_session h R"
  by (simp add: get_session_def)

lemma receive_frame_get: "get_session h (lv_reg (snd (receive_frame now ws s raw v))) = get_session h (lv_reg v)"
  by (auto simp: receive_frame_def Let_def split: json_text.split sum.split prod.split)

lemma receive_frame_session: "receive_frame now ws s raw v = (False, v') \<Longrightarrow> v' = v"
  by (auto simp: receive_frame_def Let_def split: json_text.splits sum.splits prod.splits if_splits)

lemma hosts_remove: "h \<notin> set (map fst (rg_by_host R)) \<Longrightarrow> h \<notin> set (map fst (rg_by_host (remove_session s R)))"
  by (auto simp: remove_session_def Let_def dest!: in_delete)

lemma hosts_remove_if: "h \<notin> set (map fst (rg_by_host R)) \<Longrightarrow>
    h \<notin> set (map fst (rg_by_host (remove_for_session_if_present w R)))"
  using hosts_remove[of h R]
  by (cases "List.find (\<lambda>(h, x). x = w) (rg_by_host R)") (simp_all add: remove_for_session_if_present_def split: prod.split option.split)

lemma session_of_remove_if [simp]: "session_of (remove_for_session_if_present w R) = session_of R"
  by (auto simp: remove_for_session_if_present_def split: option.split)

text \<open>The host an operation of a running session is about.\<close>

fun op_socket :: "live_op \<Rightarrow> nat" where
  "op_socket (Open ws o') = ws"
| "op_socket (Frame ws raw) = ws"
| "op_socket (Gone ws) = ws"
| "op_socket (SendCmd ws i) = ws"
| "op_socket (EndCmd ws i) = ws"

lemma get_step_other:
  assumes ok: "registry_ok (lv_reg v)" and s: "session_of (lv_reg v) (op_socket op) = Some s" and h: "as_host_id s \<noteq> h"
    and op: "op_ok op v"
  shows "get_session h (lv_reg (live_step now op v)) = get_session h (lv_reg v)"
proof (cases op)
  case (Open ws o')
  with s op show ?thesis by simp
next
  case (Frame ws raw)
  show ?thesis
  proof (cases "running v ws")
    case None
    with Frame show ?thesis by simp
  next
    case (Some s')
    with s Frame have "s' = s" by (simp add: running_def split: if_splits)
    obtain b v' where r: "receive_frame now ws s raw v = (b, v')" by (cases "receive_frame now ws s raw v")
    show ?thesis
    proof (cases b)
      case True
      then show ?thesis using receive_frame_get[of h now ws s raw v] by (simp add: Frame Some \<open>s' = s\<close> r)
    next
      case False
      then have "v' = v" using receive_frame_session[of now ws s raw v v'] r by simp
      with False show ?thesis using get_gone_other[OF ok _ h] s by (simp add: Frame Some \<open>s' = s\<close> r)
    qed
  qed
next
  case (Gone ws)
  with s show ?thesis using get_gone_other[OF ok _ h] by (auto simp: running_def split: option.split if_splits)
qed (use s in \<open>simp_all split: option.split\<close>)

lemma get_step_open:
  "get_session h (lv_reg (live_step now (Open ws o') v)) = (if h = op_host_id o' then Some ws else get_session h (lv_reg v))"
  by (simp add: open_session_def register_def get_session_def new_session_def update_conv')

lemma session_step_open:
  "session_of (lv_reg (live_step now (Open ws o') v)) w = (if w = ws then Some (new_session now o') else session_of (lv_reg v) w)"
  by (simp add: open_session_def register_def session_of_def update_conv')

lemma step_without_session:
  assumes "session_of (lv_reg v) (op_socket op) = None" and "\<nexists>ws o'. op = Open ws o'"
  shows "live_step now op v = v"
  using assms by (cases op) (simp_all add: running_def)

section \<open>Properties\<close>

text \<open>
  Claim C35.  The registry is consistent in every reachable state of a worker, whatever the order of
  connections, frames, commands and disconnections: a host has at most one entry, the entry names a
  session of that very host, and no step changes the entry of a host unless it is a connection of an agent of that host or
  a step of a session of that host; after a connection the entry is the new session.
\<close>

theorem registry_consistent:
  assumes "live_reach s0 v"
  shows "distinct (connected_host_ids (lv_reg v)) \<and>
    (case get_session h (lv_reg v) of None \<Rightarrow> \<not> is_connected (lv_reg v) h
     | Some w \<Rightarrow> (case session_of (lv_reg v) w of None \<Rightarrow> False | Some s \<Rightarrow> as_host_id s = h)) \<and>
    ((case op of Open ws o' \<Rightarrow> op_host_id o' \<noteq> h
      | _ \<Rightarrow> (case session_of (lv_reg v) (op_socket op) of None \<Rightarrow> True | Some s \<Rightarrow> as_host_id s \<noteq> h)) \<longrightarrow>
       get_session h (lv_reg (live_step now op v)) = get_session h (lv_reg v)) \<and>
    get_session (op_host_id o') (lv_reg (live_step now (Open ws o') v)) = Some ws \<and>
    session_of (lv_reg (live_step now (Open ws o') v)) ws = Some \<lparr>as_agent_id = op_agent_id o', as_host_id = op_host_id o',
      as_agent_version = op_agent_version o', as_features = op_features o', as_connected_at = now, as_last_heartbeat = now, as_pending = []\<rparr>"
proof -
  note ok = live_reach_ok[OF assms]
  have "case get_session h (lv_reg v) of None \<Rightarrow> \<not> is_connected (lv_reg v) h
     | Some w \<Rightarrow> (case session_of (lv_reg v) w of None \<Rightarrow> False | Some s \<Rightarrow> as_host_id s = h)"
    using registry_ok_host[OF ok]
    by (auto simp: is_connected_def get_session_def map_of_eq_None_iff split: option.split) fastforce+
  moreover have "distinct (connected_host_ids (lv_reg v))"
    using ok by (simp add: registry_ok_def connected_host_ids_def)
  moreover have "get_session h (lv_reg (live_step now op v)) = get_session h (lv_reg v)"
    if other: "case op of Open ws o' \<Rightarrow> op_host_id o' \<noteq> h
      | _ \<Rightarrow> (case session_of (lv_reg v) (op_socket op) of None \<Rightarrow> True | Some s \<Rightarrow> as_host_id s \<noteq> h)"
  proof (cases "\<exists>ws o'. op = Open ws o'")
    case True
    then show ?thesis using other by (auto simp: get_step_open simp del: live_step.simps)
  next
    case False
    then have "op_ok op v" "case session_of (lv_reg v) (op_socket op) of None \<Rightarrow> True | Some s \<Rightarrow> as_host_id s \<noteq> h"
      using other by (cases op; simp)+
    then show ?thesis
    proof (cases "session_of (lv_reg v) (op_socket op)")
      case None
      then show ?thesis using step_without_session[OF None False] by simp
    next
      case (Some s)
      with get_step_other[OF ok Some _ \<open>op_ok op v\<close>] \<open>case session_of (lv_reg v) (op_socket op) of None \<Rightarrow> True | Some s \<Rightarrow> as_host_id s \<noteq> h\<close>
      show ?thesis by simp
    qed
  qed
  moreover have "get_session (op_host_id o') (lv_reg (live_step now (Open ws o') v)) = Some ws"
    "session_of (lv_reg (live_step now (Open ws o') v)) ws = Some (new_session now o')"
    by (simp_all only: get_step_open session_step_open if_True refl)
  ultimately show ?thesis unfolding new_session_def by (intro conjI impI)
qed

definition sample_opened :: "string \<Rightarrow> string \<Rightarrow> opened" where
  "sample_opened a h = \<lparr>op_agent_id = a, op_host_id = h, op_agent_version = None, op_features = JArr []\<rparr>"

abbreviation two_hosts :: "unit live" where
  "two_hosts \<equiv> live_step 2 (Open 1 (sample_opened ''a2'' ''h2''))
     (live_step 1 (Open 0 (sample_opened ''a1'' ''h1'')) (start_worker agent_sys))"

lemma two_hosts_reach: "live_reach agent_sys two_hosts"
  by (intro live_reach.intros) code_simp+

theorem registry_consistent_witness:
  "distinct (connected_host_ids (lv_reg two_hosts)) \<and> get_session ''h2'' (lv_reg two_hosts) = Some 1 \<and>
   get_session ''h2'' (lv_reg (live_step 3 (Open 2 (sample_opened ''a3'' ''h3'')) two_hosts)) = Some 1 \<and>
   get_session ''h3'' (lv_reg (live_step 3 (Open 2 (sample_opened ''a3'' ''h3'')) two_hosts)) = Some 2"
proof -
  have two: "get_session ''h2'' (lv_reg two_hosts) = Some 1" by code_simp
  have "op_host_id (sample_opened ''a3'' ''h3'') = ''h3''" by (simp add: sample_opened_def)
  with registry_consistent[OF two_hosts_reach, of "''h2''" "Open 2 (sample_opened ''a3'' ''h3'')" 3 "sample_opened ''a3'' ''h3''" 2] two
  show ?thesis by (simp only: live_op.case) simp
qed

text \<open>
  A reconnecting agent is thrown out by the end of its own previous connection.  \<open>remove\<close> and
  \<open>remove_for_session_if_present\<close> compare agent ids where the comment says "only remove if this session is
  still the active one for the host", so when the agent of a host reconnects on a new socket and its old
  handler then ends (as it does, since \<open>register\<close> hands the old session to be closed), the registry reports
  the host as disconnected although the new connection is open.
\<close>

theorem stale_disconnect_evicts:
  assumes "live_reach s0 v"
    and "get_session (op_host_id o') (lv_reg v) = Some w1"
    and "running v w1 = Some s1" and "as_agent_id s1 = op_agent_id o'"
    and "session_of (lv_reg v) w2 = None" and "w2 \<notin> set (lv_done v)"
  shows "let v2 = live_step now (Open w2 o') v; v3 = live_step now' (Gone w1) v2
         in get_session (op_host_id o') (lv_reg v2) = Some w2 \<and> w1 \<in> set (lv_closed v2) \<and>
            \<not> is_connected (lv_reg v3) (op_host_id o') \<and> running v3 w2 \<noteq> None"
proof -
  note ok = live_reach_ok[OF assms(1)]
  have s1: "session_of (lv_reg v) w1 = Some s1" "w1 \<notin> set (lv_done v)" using running_SomeD[OF assms(3)] by auto
  have host: "as_host_id s1 = op_host_id o'" using registry_ok_host[OF ok assms(2)] s1 by simp
  have ne: "w1 \<noteq> w2" using s1 assms(5) by auto
  let ?n = "new_session now o'"
  have n: "as_host_id ?n = op_host_id o'" "as_agent_id ?n = op_agent_id o'" by (simp_all add: new_session_def)
  let ?v2 = "live_step now (Open w2 o') v"
  have v2: "rg_by_host (lv_reg ?v2) = AList.update (op_host_id o') w2 (rg_by_host (lv_reg v))"
    "session_of (lv_reg ?v2) = (session_of (lv_reg v))(w2 \<mapsto> ?n)" "lv_done ?v2 = lv_done v"
    "lv_closed ?v2 = lv_closed v @ [w1]"
    using assms(2) ne n
    by (auto simp: open_session_def register_def get_session_def session_of_def update_conv' fun_eq_iff)
  have r1: "running ?v2 w1 = Some s1" using s1 ne v2 by (simp add: running_def)
  let ?R = "remove_session s1 (lv_reg ?v2)"
  have "rg_by_host ?R = AList.delete (op_host_id o') (rg_by_host (lv_reg ?v2))"
    using assms(4) n host v2(2) by (simp add: remove_session_def v2(1) update_conv' Let_def del: live_step.simps)
  then have "op_host_id o' \<notin> set (map fst (rg_by_host ?R))" by (auto dest!: in_delete)
  then have "\<not> is_connected (lv_reg (live_step now' (Gone w1) ?v2)) (op_host_id o')"
    using hosts_remove_if by (simp add: is_connected_def r1 gone_def del: live_step.simps(1))
  moreover have "running (live_step now' (Gone w1) ?v2) w2 \<noteq> None"
  proof -
    have "live_step now' (Gone w1) ?v2 = gone w1 s1 ?v2" by (simp only: live_step.simps(3) r1 option.case)
    then show ?thesis using ne assms(6) v2 by (simp add: running_def gone_def del: live_step.simps)
  qed
  ultimately show ?thesis
    using v2 by (simp add: Let_def get_session_def update_conv' del: live_step.simps)
qed

theorem stale_disconnect_evicts_witness:
  "let v2 = live_step 3 (Open 2 (sample_opened ''a1'' ''h1'')) two_hosts; v3 = live_step 4 (Gone 0) v2
   in get_session ''h1'' (lv_reg v2) = Some 2 \<and> \<not> is_connected (lv_reg v3) ''h1'' \<and> running v3 2 \<noteq> None"
proof -
  have "get_session (op_host_id (sample_opened ''a1'' ''h1'')) (lv_reg two_hosts) = Some 0"
    "running two_hosts 0 = Some (new_session 1 (sample_opened ''a1'' ''h1''))"
    "as_agent_id (new_session 1 (sample_opened ''a1'' ''h1'')) = op_agent_id (sample_opened ''a1'' ''h1'')"
    "session_of (lv_reg two_hosts) 2 = None" "2 \<notin> set (lv_done two_hosts)" by code_simp+
  from stale_disconnect_evicts[OF two_hosts_reach this, of 3 4] show ?thesis
    by (simp only: Let_def sample_opened_def opened.simps) simp
qed

section \<open>A command and its reply\<close>

text \<open>The reply to frame \<open>i\<close> that an operation brings, and the first one of a run.\<close>

fun reply_in :: "nat \<Rightarrow> string \<Rightarrow> live_op \<Rightarrow> cmd_reply option" where
  "reply_in ws i (Frame w (Json (JObj e))) =
     (if w = ws \<and> jget e ''ref'' = JStr i
      then (if jget e ''kind'' = JStr ''result'' then Some (CmdOk (or_empty (jget e ''payload'')))
            else if jget e ''kind'' = JStr ''error'' then Some (CmdErr (or_empty (jget e ''payload'')))
            else None)
      else None)"
| "reply_in ws i op = None"

fun first_reply :: "nat \<Rightarrow> string \<Rightarrow> (int \<times> live_op) list \<Rightarrow> cmd_reply option" where
  "first_reply ws i [] = None"
| "first_reply ws i ((t, op) # ops) =
     (case reply_in ws i op of Some r \<Rightarrow> Some r | None \<Rightarrow> first_reply ws i ops)"

text \<open>The operation does not start or end command \<open>i\<close> of socket \<open>ws\<close>, nor open the socket again.\<close>

fun apart :: "nat \<Rightarrow> string \<Rightarrow> live_op \<Rightarrow> bool" where
  "apart ws i (Open w o') = (w \<noteq> ws)"
| "apart ws i (SendCmd w j) = (w \<noteq> ws \<or> j \<noteq> i)"
| "apart ws i (EndCmd w j) = (w \<noteq> ws \<or> j \<noteq> i)"
| "apart ws i op = True"

definition waiting :: "nat \<Rightarrow> string \<Rightarrow> cmd_reply option \<Rightarrow> 'w live \<Rightarrow> bool" where
  "waiting ws i r v \<longleftrightarrow> (\<exists>s. session_of (lv_reg v) ws = Some s \<and> map_of (as_pending s) i = Some r)"

definition or_else :: "'a option \<Rightarrow> 'a option \<Rightarrow> 'a option" where
  "or_else a b = (case a of None \<Rightarrow> b | Some x \<Rightarrow> Some x)"

lemma or_else_simps [simp]: "or_else None b = b" "or_else (Some x) b = Some x" "or_else a None = a"
  by (simp_all add: or_else_def split: option.split)

lemma done_step: "w \<in> set (lv_done v) \<Longrightarrow> w \<in> set (lv_done (live_step now op v))"
  by (cases op) (auto simp: open_session_def receive_frame_def gone_def Let_def
      split: option.split prod.split bool.split json_text.split sum.split if_splits)

lemma done_run: "w \<in> set (lv_done v) \<Longrightarrow> w \<in> set (lv_done (live_run ops v))"
proof (induction ops arbitrary: v)
  case (Cons x ops)
  then show ?case by (cases x) (simp add: done_step)
qed simp

lemma waiting_gone: "waiting ws i r (gone w s v) = waiting ws i r v"
  by (simp add: waiting_def gone_def)

lemma waiting_set:
  assumes "waiting ws i r v" and "w = ws \<Longrightarrow> map_of (as_pending s) i = Some r"
  shows "waiting ws i r (v\<lparr>lv_reg := set_session w s (lv_reg v)\<rparr>)"
  using assms by (auto simp: waiting_def)

lemma deliver_other:
  assumes "deliver e s = (r, s')" and "jget e ''ref'' \<noteq> JStr i \<or> map_of (as_pending s) i \<noteq> Some None"
  shows "map_of (as_pending s') i = map_of (as_pending s) i"
  using assms
  by (cases "jget e ''ref''") (auto simp: deliver_def Let_def update_conv' split: if_splits option.splits)

lemma deliver_own:
  assumes "map_of (as_pending s) i = Some None" and "jget e ''ref'' = JStr i" and "i \<noteq> []"
    and "jget e ''kind'' = JStr ''result'' \<or> jget e ''kind'' = JStr ''error''"
  shows "\<exists>s'. deliver e s = (Inr True, s') \<and> map_of (as_pending s') i = Some (reply_in ws i (Frame ws (Json (JObj e))))"
  using assms by (auto simp: deliver_def Let_def update_conv')

lemma waiting_frame_other:
  assumes "waiting ws i r v" and "w \<noteq> ws"
  shows "waiting ws i r (live_step now (Frame w raw) v)"
proof (cases "running v w")
  case None
  with assms show ?thesis by simp
next
  case (Some s)
  obtain b v' where f: "receive_frame now w s raw v = (b, v')" by (cases "receive_frame now w s raw v")
  then have "waiting ws i r v'"
    using assms by (auto simp: receive_frame_def Let_def waiting_def
        split: json_text.splits sum.splits prod.splits if_splits)
  then show ?thesis by (cases b) (simp_all add: Some f waiting_gone)
qed

lemma waiting_frame_own:
  assumes w: "waiting ws i r v" and i: "i \<noteq> []" and alive: "ws \<notin> set (lv_done (live_step now (Frame ws raw) v))"
  shows "waiting ws i (or_else r (reply_in ws i (Frame ws raw))) (live_step now (Frame ws raw) v)"
proof -
  from w obtain s where s: "session_of (lv_reg v) ws = Some s" and r: "map_of (as_pending s) i = Some r"
    by (auto simp: waiting_def)
  have run: "running v ws = Some s" using alive done_step s by (fastforce simp: running_def)
  obtain b v' where f: "receive_frame now ws s raw v = (b, v')" by (cases "receive_frame now ws s raw v")
  with alive run have b: "b" by (cases b) (simp_all add: gone_def)
  have step: "live_step now (Frame ws raw) v = v'" using run f b by simp
  consider (bad) t where "raw = Bad_Json t" | (env) e where "raw = Json (JObj e)"
    using f b by (cases raw) (auto simp: receive_frame_def split: sum.splits elim: as_dict.elims)
  then show ?thesis
  proof cases
    case bad
    then show ?thesis using f w unfolding step by (simp add: receive_frame_def)
  next
    case env
    let ?k = "jget e ''kind''"
    show ?thesis
    proof (cases "?k = JStr ''result'' \<or> ?k = JStr ''error''")
      case False
      then have "reply_in ws i (Frame ws raw) = None" by (simp add: env)
      moreover have "waiting ws i r v'" using f w s r False
        by (auto simp: env receive_frame_def waiting_def touch_heartbeat_def Let_def split: if_splits)
      ultimately show ?thesis unfolding step by simp
    next
      case True
      obtain q s' where d: "deliver e s = (q, s')" by (cases "deliver e s")
      have v': "v' = v\<lparr>lv_reg := set_session ws s' (lv_reg v)\<rparr>"
        using f b True d by (auto simp: env receive_frame_def Let_def split: sum.splits)
      have "map_of (as_pending s') i = Some (or_else r (reply_in ws i (Frame ws raw)))"
      proof (cases "jget e ''ref'' = JStr i \<and> r = None")
        case True
        with deliver_own[of s i e ws] r i \<open>?k = JStr ''result'' \<or> ?k = JStr ''error''\<close> d
        show ?thesis by (auto simp: env)
      next
        case False
        then have "or_else r (reply_in ws i (Frame ws raw)) = r"
          by (cases r) (auto simp: env)
        with deliver_other[OF d, of i] False r show ?thesis by auto
      qed
      then show ?thesis unfolding step by (simp add: v' waiting_def)
    qed
  qed
qed

lemma waiting_step:
  assumes "waiting ws i r v" and "i \<noteq> []" and "apart ws i op" and "ws \<notin> set (lv_done (live_step now op v))"
  shows "waiting ws i (or_else r (reply_in ws i op)) (live_step now op v)"
proof (cases op)
  case (Open w o')
  with assms show ?thesis
    by (auto simp: waiting_def open_session_def register_def session_of_def update_conv')
next
  case (Frame w raw)
  show ?thesis
  proof (cases "w = ws")
    case True
    with Frame assms waiting_frame_own show ?thesis by metis
  next
    case False
    then have "reply_in ws i op = None" using Frame by (cases "(ws, i, op)" rule: reply_in.cases) auto
    with waiting_frame_other[OF assms(1) False] Frame show ?thesis by simp
  qed
next
  case (Gone w)
  with assms show ?thesis by (auto simp: waiting_gone split: option.split)
next
  case (SendCmd w j)
  with assms show ?thesis
    by (auto intro!: waiting_set simp: send_cmd_begin_def update_conv' split: option.split)
       (auto simp: waiting_def)
next
  case (EndCmd w j)
  with assms show ?thesis
    by (auto intro!: waiting_set simp: send_cmd_end_def delete_conv' split: option.split)
       (auto simp: waiting_def)
qed

lemma waiting_run:
  assumes "waiting ws i r v" and "i \<noteq> []" and "list_all (\<lambda>(t, op). apart ws i op) ops"
    and "ws \<notin> set (lv_done (live_run ops v))"
  shows "waiting ws i (or_else r (first_reply ws i ops)) (live_run ops v)"
  using assms
proof (induction ops arbitrary: r v)
  case Nil
  then show ?case by simp
next
  case (Cons x ops)
  obtain t op where x: "x = (t, op)" by (cases x)
  let ?v = "live_step t op v"
  have alive: "ws \<notin> set (lv_done ?v)" using Cons.prems(4) done_run by (fastforce simp: x)
  have "waiting ws i (or_else r (reply_in ws i op)) ?v"
    using Cons.prems by (intro waiting_step alive) (simp_all add: x)
  from Cons.IH[OF this] Cons.prems
  have "waiting ws i (or_else (or_else r (reply_in ws i op)) (first_reply ws i ops)) (live_run ops ?v)"
    by (simp add: x)
  moreover have "or_else (or_else r (reply_in ws i op)) (first_reply ws i ops) = or_else r (first_reply ws i (x # ops))"
    by (cases r) (auto simp: x or_else_def split: option.split)
  ultimately show ?case by (simp add: x)
qed

text \<open>
  Claim C32.  A command gets the first reply to its own frame id and nothing else.  From the moment a command
  is sent on a running session until its waiter resumes, whatever other connections, commands, replies,
  errors and heartbeats are interleaved, the waiter sees exactly the payload of the first result or error
  frame of that session that refers to the command's id, and a timeout if there was none; afterwards the
  id is no longer pending.
\<close>

theorem cmd_gets_first_reply:
  assumes "session_of (lv_reg v) ws = Some s" and "i \<noteq> []"
    and "list_all (\<lambda>(t, op). apart ws i op) ops"
    and "v' = live_run ops (live_step t0 (SendCmd ws i) v)" and "ws \<notin> set (lv_done v')"
  shows "\<exists>s'. session_of (lv_reg v') ws = Some s' \<and> fst (send_cmd_end i s') = first_reply ws i ops \<and>
     map_of (as_pending (snd (send_cmd_end i s'))) i = None"
proof -
  have "waiting ws i None (live_step t0 (SendCmd ws i) v)"
    by (simp add: assms(1) waiting_def send_cmd_begin_def update_conv')
  from waiting_run[OF this assms(2,3)] assms(4,5) have "waiting ws i (first_reply ws i ops) v'" by simp
  then show ?thesis by (auto simp: waiting_def send_cmd_end_def delete_conv')
qed

definition reply_frame :: "string \<Rightarrow> string \<Rightarrow> string \<Rightarrow> json_text" where
  "reply_frame kind i out = Json (JObj [(''kind'', JStr kind), (''ref'', JStr i), (''payload'', JObj [(''stdout'', JStr out)])])"

theorem cmd_gets_first_reply_witness:
  "let ops = [(4, SendCmd 0 ''d''), (5, Frame 1 (reply_frame ''result'' ''c'' ''x'')),
              (6, Frame 0 (reply_frame ''result'' ''d'' ''y'')), (7, Frame 0 (reply_frame ''error'' ''c'' ''z'')),
              (8, Frame 0 (reply_frame ''result'' ''c'' ''w''))]
   in \<exists>s'. session_of (lv_reg (live_run ops (live_step 3 (SendCmd 0 ''c'') two_hosts))) 0 = Some s' \<and>
        fst (send_cmd_end ''c'' s') = Some (CmdErr (JObj [(''stdout'', JStr ''z'')]))"
proof -
  let ?ops = "[(4, SendCmd 0 ''d''), (5, Frame 1 (reply_frame ''result'' ''c'' ''x'')),
              (6, Frame 0 (reply_frame ''result'' ''d'' ''y'')), (7, Frame 0 (reply_frame ''error'' ''c'' ''z'')),
              (8, Frame 0 (reply_frame ''result'' ''c'' ''w''))]"
  have s: "session_of (lv_reg two_hosts) 0 = Some (new_session 1 (sample_opened ''a1'' ''h1''))" by code_simp
  have reply: "first_reply 0 ''c'' ?ops = Some (CmdErr (JObj [(''stdout'', JStr ''z'')]))" by code_simp
  have "list_all (\<lambda>(t, op). apart 0 ''c'' op) ?ops" by code_simp
  moreover have "0 \<notin> set (lv_done (live_run ?ops (live_step 3 (SendCmd 0 ''c'') two_hosts)))" by code_simp
  ultimately show ?thesis
    using cmd_gets_first_reply[OF s, of "''c''" ?ops _ 3] reply by (auto simp: Let_def)
qed

end
