(* ===== verification/Agent_Transport.thy ===== *)
theory Agent_Transport
  imports Agents
begin

text \<open>
  The dispatch layer over host agents: \<open>services/agent_transport.py\<close>.  The session of a host is behind
  \<open>r_agent_connected\<close> and \<open>r_agent_send\<close> of the outside world (\<open>Agent_Registry\<close> shows that a command gets the
  reply to its own frame); a send may raise, for example when it times out.  In \<open>agent_result\<close> and
  \<open>agent_error\<close> the value \<open>None\<close> is a key the agent left out.  Shown: the guards that keep a call from reaching
  the agent, and how replies are read.
\<close>

definition DEFAULT_SYSTEMCTL_TIMEOUT_SEC :: int where "DEFAULT_SYSTEMCTL_TIMEOUT_SEC = 30"
definition DEFAULT_JOURNAL_TIMEOUT_SEC :: int where "DEFAULT_JOURNAL_TIMEOUT_SEC = 30"
definition DEFAULT_KAFKA_CLI_TIMEOUT_SEC :: int where "DEFAULT_KAFKA_CLI_TIMEOUT_SEC = 60"
definition DEFAULT_DOWNLOAD_TIMEOUT_SEC :: int where "DEFAULT_DOWNLOAD_TIMEOUT_SEC = 600"
definition DEFAULT_SCRIPT_TIMEOUT_SEC :: int where "DEFAULT_SCRIPT_TIMEOUT_SEC = 600"

definition agent_available :: "'w remote \<Rightarrow> string \<Rightarrow> ('w sys, bool) io" where
  "agent_available R host_id = asks (\<lambda>s. r_agent_connected R host_id (wld s))"

definition run_op :: "'w remote \<Rightarrow> string \<Rightarrow> string \<Rightarrow> (string \<times> json) list \<Rightarrow> int \<Rightarrow> ('w sys, agent_reply) io" where
  "run_op R host_id op args timeout_sec =
     bnd (agent_available R host_id) (\<lambda>c.
     if \<not> c then raise (RuntimeError (''no agent connected for host '' @ host_id))
     else on_wld (r_agent_send R host_id op args timeout_sec))"

section \<open>Reading a reply\<close>

definition err_text :: "agent_error option \<Rightarrow> string" where
  "err_text e = (let code = (case e of None \<Rightarrow> None | Some x \<Rightarrow> ae_code x);
                     msg = (case e of None \<Rightarrow> None | Some x \<Rightarrow> ae_message x)
     in (case code of None \<Rightarrow> ''agent_error'' | Some c \<Rightarrow> c) @ '': '' @ (case msg of None \<Rightarrow> [] | Some m \<Rightarrow> m))"

definition err_code :: "agent_error option \<Rightarrow> string" where
  "err_code e = (case e of None \<Rightarrow> ''agent_error''
     | Some x \<Rightarrow> (case ae_code x of None \<Rightarrow> ''agent_error'' | Some c \<Rightarrow> c))"

definition exit_code :: "agent_result \<Rightarrow> int" where
  "exit_code r = (case ar_exit_code r of None \<Rightarrow> 0 | Some c \<Rightarrow> c)"

text \<open>\<open>r.get('exit_code')\<close> in a message, and \<open>s or ""\<close>.\<close>

definition show_exit :: "agent_result \<Rightarrow> string" where
  "show_exit r = (case ar_exit_code r of None \<Rightarrow> ''None'' | Some c \<Rightarrow> show_int c)"

definition text_or_empty :: "string option \<Rightarrow> string" where
  "text_or_empty x = or_str x []"

text \<open>The guard every helper starts with, then the call.\<close>

definition guarded_op :: "'w remote \<Rightarrow> host \<Rightarrow> string \<Rightarrow> (string \<times> json) list \<Rightarrow> int \<Rightarrow> ('w sys, agent_reply) io" where
  "guarded_op R host op args timeout_sec =
     bnd (agent_available R (h_id host)) (\<lambda>c.
     if \<not> c then raise (RuntimeError ''agent not available'')
     else run_op R (h_id host) op args timeout_sec)"

section \<open>Helpers\<close>

definition systemctl_is_active :: "'w remote \<Rightarrow> host \<Rightarrow> string \<Rightarrow> ('w sys, bool \<times> string) io" where
  "systemctl_is_active R host unit =
     bnd (guarded_op R host ''systemctl.is_active'' [(''unit'', JStr unit)] DEFAULT_SYSTEMCTL_TIMEOUT_SEC) (\<lambda>res.
     case res of
       AgentErr e \<Rightarrow> ret (False, err_code e)
     | AgentOk r \<Rightarrow>
         let st = strip (text_or_empty (ar_stdout r)); state = (if st = [] then ''unknown'' else st)
         in ret (state \<in> {''active'', ''activating''}, state))"

definition systemctl_action :: "'w remote \<Rightarrow> host \<Rightarrow> string \<Rightarrow> string \<Rightarrow> string option \<Rightarrow> ('w sys, bool \<times> string) io" where
  "systemctl_action R host action unit mode =
     bnd (guarded_op R host (''systemctl.'' @ action)
            ([(''unit'', JStr unit)] @ (case mode of None \<Rightarrow> [] | Some m \<Rightarrow> [(''mode'', JStr m)]))
            DEFAULT_SYSTEMCTL_TIMEOUT_SEC) (\<lambda>res.
     case res of
       AgentErr e \<Rightarrow> ret (False, err_text e)
     | AgentOk r \<Rightarrow>
         if exit_code r = 0 then ret (True, action @ '' '' @ unit @ '' ok'')
         else ret (False, or_str (ar_stderr r) (''systemctl exit '' @ show_exit r)))"

definition systemctl_daemon_reload :: "'w remote \<Rightarrow> host \<Rightarrow> ('w sys, bool \<times> string) io" where
  "systemctl_daemon_reload R host =
     bnd (guarded_op R host ''systemctl.daemon_reload'' [] DEFAULT_SYSTEMCTL_TIMEOUT_SEC) (\<lambda>res.
     case res of AgentErr e \<Rightarrow> ret (False, err_text e)
     | AgentOk r \<Rightarrow> ret (exit_code r = 0, text_or_empty (ar_stderr r)))"

definition unit_exists_via_agent :: "'w remote \<Rightarrow> host \<Rightarrow> string \<Rightarrow> ('w sys, bool) io" where
  "unit_exists_via_agent R host unit =
     bnd (guarded_op R host ''systemctl.cat'' [(''unit'', JStr unit)] DEFAULT_SYSTEMCTL_TIMEOUT_SEC) (\<lambda>res.
     case res of AgentErr e \<Rightarrow> ret False | AgentOk r \<Rightarrow> ret (exit_code r = 0))"

definition unit_state_via_agent :: "'w remote \<Rightarrow> host \<Rightarrow> string \<Rightarrow> ('w sys, string) io" where
  "unit_state_via_agent R host unit =
     bnd (guarded_op R host ''systemctl.is_active'' [(''unit'', JStr unit)] DEFAULT_SYSTEMCTL_TIMEOUT_SEC) (\<lambda>res.
     case res of AgentErr e \<Rightarrow> ret ''unknown''
     | AgentOk r \<Rightarrow> let st = strip (text_or_empty (ar_stdout r)) in ret (if st = [] then ''unknown'' else st))"

definition file_write_via_agent :: "'w remote \<Rightarrow> host \<Rightarrow> string \<Rightarrow> string \<Rightarrow> int \<Rightarrow> ('w sys, bool \<times> string) io" where
  "file_write_via_agent R host path content mode =
     bnd (guarded_op R host ''file.write'' [(''path'', JStr path), (''content'', JStr content), (''mode'', JInt mode)]
            DEFAULT_SYSTEMCTL_TIMEOUT_SEC) (\<lambda>res.
     case res of AgentErr e \<Rightarrow> ret (False, err_text e)
     | AgentOk r \<Rightarrow> ret (exit_code r = 0, text_or_empty (ar_stderr r)))"

definition file_delete_via_agent :: "'w remote \<Rightarrow> host \<Rightarrow> string \<Rightarrow> ('w sys, bool \<times> string) io" where
  "file_delete_via_agent R host path =
     bnd (guarded_op R host ''file.delete'' [(''path'', JStr path)] DEFAULT_SYSTEMCTL_TIMEOUT_SEC) (\<lambda>res.
     case res of AgentErr e \<Rightarrow> ret (False, err_text e)
     | AgentOk r \<Rightarrow> ret (exit_code r = 0, text_or_empty (ar_stderr r)))"

definition file_read_via_agent :: "'w remote \<Rightarrow> host \<Rightarrow> string \<Rightarrow> ('w sys, bool \<times> string) io" where
  "file_read_via_agent R host path =
     bnd (guarded_op R host ''file.read'' [(''path'', JStr path)] DEFAULT_SYSTEMCTL_TIMEOUT_SEC) (\<lambda>res.
     case res of AgentErr e \<Rightarrow> ret (False, err_text e)
     | AgentOk r \<Rightarrow>
         if exit_code r \<noteq> 0 then ret (False, or_str (ar_stderr r) (''file.read exit '' @ show_exit r))
         else ret (True, text_or_empty (ar_stdout r)))"

definition file_download_via_agent ::
    "'w remote \<Rightarrow> host \<Rightarrow> string \<Rightarrow> string \<Rightarrow> string option \<Rightarrow> int \<Rightarrow> int \<Rightarrow> ('w sys, bool \<times> string) io" where
  "file_download_via_agent R host url dest sha256 mode timeout_sec =
     bnd (guarded_op R host ''file.download''
            ([(''url'', JStr url), (''dest'', JStr dest), (''mode'', JInt mode)]
             @ (if str_true sha256 then [(''sha256'', JStr (the sha256))] else [])) timeout_sec) (\<lambda>res.
     case res of AgentErr e \<Rightarrow> ret (False, err_text e)
     | AgentOk r \<Rightarrow>
         if exit_code r \<noteq> 0 then ret (False, or_str (ar_stderr r) (''download exit '' @ show_exit r))
         else ret (True, text_or_empty (ar_stdout r)))"

definition exec_script_via_agent ::
    "'w remote \<Rightarrow> host \<Rightarrow> string \<Rightarrow> string list \<Rightarrow> int \<Rightarrow> ('w sys, bool \<times> string \<times> string) io" where
  "exec_script_via_agent R host script script_args timeout_sec =
     bnd (guarded_op R host ''exec.script''
            ([(''script'', JStr script)] @ (if script_args \<noteq> [] then [(''args'', JArr (map JStr script_args))] else []))
            timeout_sec) (\<lambda>res.
     case res of AgentErr e \<Rightarrow> ret (False, [], err_text e)
     | AgentOk r \<Rightarrow> ret (exit_code r = 0, text_or_empty (ar_stdout r), text_or_empty (ar_stderr r)))"

definition journal_read ::
    "'w remote \<Rightarrow> host \<Rightarrow> string \<Rightarrow> int \<Rightarrow> string option \<Rightarrow> string option \<Rightarrow> ('w sys, bool \<times> string) io" where
  "journal_read R host unit lines since priority =
     bnd (guarded_op R host ''journalctl.read''
            ([(''unit'', JStr unit), (''lines'', JInt lines)]
             @ (if str_true since then [(''since'', JStr (the since))] else [])
             @ (if str_true priority then [(''priority'', JStr (the priority))] else []))
            DEFAULT_JOURNAL_TIMEOUT_SEC) (\<lambda>res.
     case res of AgentErr e \<Rightarrow> ret (False, err_text e)
     | AgentOk r \<Rightarrow>
         if exit_code r \<noteq> 0 then ret (False, or_str (ar_stderr r) ''journalctl returned non-zero'')
         else ret (True, text_or_empty (ar_stdout r)))"

section \<open>Falling back to SSH\<close>

text \<open>The value \<open>None\<close> tells the caller to use SSH.\<close>

definition try_agent :: "'w remote \<Rightarrow> host \<Rightarrow> ('w sys, 'a) io \<Rightarrow> ('w sys, 'a option) io" where
  "try_agent R host m =
     bnd (agent_available R (h_id host)) (\<lambda>c.
     if \<not> c then ret None else catch (bnd m (\<lambda>x. ret (Some x))) (\<lambda>_. ret None))"

definition try_systemctl_is_active :: "'w remote \<Rightarrow> host \<Rightarrow> string \<Rightarrow> ('w sys, (bool \<times> string) option) io" where
  "try_systemctl_is_active R host unit = try_agent R host (systemctl_is_active R host unit)"

definition try_systemctl_action ::
    "'w remote \<Rightarrow> host \<Rightarrow> string \<Rightarrow> string \<Rightarrow> ('w sys, (bool \<times> string) option) io" where
  "try_systemctl_action R host action unit = try_agent R host (systemctl_action R host action unit None)"

definition try_journal_read ::
    "'w remote \<Rightarrow> host \<Rightarrow> string \<Rightarrow> int \<Rightarrow> string option \<Rightarrow> string option \<Rightarrow> ('w sys, (bool \<times> string) option) io" where
  "try_journal_read R host unit lines since priority =
     try_agent R host (journal_read R host unit lines since priority)"

section \<open>The kafka command line tools\<close>

text \<open>\<open>^/opt/kafka[A-Za-z0-9_./-]*$\<close>: in Python \<open>$\<close> also matches before a final line feed.\<close>

definition install_dir_char :: "char \<Rightarrow> bool" where
  "install_dir_char c \<longleftrightarrow> c \<in> set ''abcdefghijklmnopqrstuvwxyzABCDEFGHIJKLMNOPQRSTUVWXYZ0123456789_./-''"

definition install_dir_ok :: "string \<Rightarrow> bool" where
  "install_dir_ok s \<longleftrightarrow> starts_with s ''/opt/kafka'' \<and>
     (let rest = drop 10 s in list_all install_dir_char rest \<or>
        (rest \<noteq> [] \<and> last rest = CHR 0x0A \<and> list_all install_dir_char (butlast rest)))"

definition kafka_cli :: "'w remote \<Rightarrow> host \<Rightarrow> string \<Rightarrow> string \<Rightarrow> string \<Rightarrow> string list \<Rightarrow> string option \<Rightarrow> int \<Rightarrow>
    ('w sys, bool \<times> string \<times> string) io" where
  "kafka_cli R host verb bootstrap idir args command_config timeout_sec =
     bnd (agent_available R (h_id host)) (\<lambda>c.
     if \<not> c then raise (RuntimeError ''agent not available'')
     else if \<not> install_dir_ok idir then raise (RuntimeError (''invalid install_dir for agent dispatch: '' @ idir))
     else bnd (run_op R (h_id host) (''kafka_cli.'' @ verb)
            ([(''bootstrap'', JStr bootstrap), (''install_dir'', JStr idir), (''args'', JArr (map JStr args))]
             @ (if str_true command_config then [(''command_config'', JStr (the command_config))] else []))
            timeout_sec) (\<lambda>res.
     case res of AgentErr e \<Rightarrow> ret (False, [], err_text e)
     | AgentOk r \<Rightarrow> ret (exit_code r = 0, text_or_empty (ar_stdout r), text_or_empty (ar_stderr r))))"

section \<open>The helpers act on the outside world only\<close>

lemma still_agent_available: "still (agent_available R h)"
  unfolding agent_available_def by (rule keeps_io.rel_asks)

lemma world_only_guarded_op: "world_only (guarded_op R h op args n)"
  unfolding guarded_op_def run_op_def
  by (auto intro!: world_steps world_only_still[OF still_agent_available])

lemma world_only_read: "(\<And>res. still (k res)) \<Longrightarrow> world_only (bnd (guarded_op R h op args n) k)"
  by (intro keeps_io.rel_bnd world_only_guarded_op world_only_still)

lemma still_reply: "(\<And>e. still (f e)) \<Longrightarrow> (\<And>r. still (g r)) \<Longrightarrow>
    still (case res of AgentErr e \<Rightarrow> f e | AgentOk r \<Rightarrow> g r)"
  by (cases res) simp_all

lemma still_let: "(\<And>x. still (f x)) \<Longrightarrow> still (let x = a in f x)"
  by simp

lemmas read_steps = world_only_read still_reply still_let keeps_io.rel_ret keeps_io.rel_if

lemma world_only_systemctl_action: "world_only (systemctl_action R h a u m)"
  unfolding systemctl_action_def by (intro read_steps)

lemma world_only_systemctl_is_active: "world_only (systemctl_is_active R h u)"
  unfolding systemctl_is_active_def by (intro read_steps)

lemma world_only_daemon_reload: "world_only (systemctl_daemon_reload R h)"
  unfolding systemctl_daemon_reload_def by (intro read_steps)

lemma world_only_unit_exists_via_agent: "world_only (unit_exists_via_agent R h u)"
  unfolding unit_exists_via_agent_def by (intro read_steps)

lemma world_only_unit_state_via_agent: "world_only (unit_state_via_agent R h u)"
  unfolding unit_state_via_agent_def by (intro read_steps)

lemma world_only_file_delete: "world_only (file_delete_via_agent R h p)"
  unfolding file_delete_via_agent_def by (intro read_steps)

lemma world_only_try_agent: "world_only m \<Longrightarrow> world_only (try_agent R h m)"
  unfolding try_agent_def
  by (intro keeps_io.rel_bnd world_only_still[OF still_agent_available] keeps_io.rel_if keeps_io.rel_ret
      keeps_io.rel_catch)

lemmas agent_world = world_only_systemctl_action world_only_systemctl_is_active world_only_daemon_reload
  world_only_unit_exists_via_agent world_only_unit_state_via_agent world_only_file_delete
  world_only_still[OF still_agent_available]

lemma run_op_recorded:
  assumes "wld s = (w, es)" and "r_agent_connected R i w" and "r_agent_send R i op args n w = (q, w')"
  shows "run_op (recorded R) i op args n s = (q, s\<lparr>wld := (w', es @ [Sent i op args])\<rparr>)"
  using assms by (simp add: run_op_def agent_available_def bnd_def recorded_def on_wld_def log_ev_def)

text \<open>
  What the Kafka tools are started with through an agent.  \<open>kafka_cli\<close> sends nothing when no agent is
  connected or when the installation directory is not \<open>/opt/kafka\<close> followed by letters, digits and
  \<open>_./-\<close> (a final line feed apart, which Python's \<open>$\<close> lets pass); otherwise it sends exactly one command, and
  it reports success only when the agent answered with a zero exit code.
\<close>

theorem kafka_cli_guarded:
  "case kafka_cli (recorded R) h verb boot idir args cc n s of (r, t) \<Rightarrow>
    if r_agent_connected R (h_id h) (fst (wld s)) \<and> install_dir_ok idir
    then (\<exists>payload. trace t = trace s @ [Sent (h_id h) (''kafka_cli.'' @ verb) payload] \<and>
            (case r of Inl e \<Rightarrow> True | Inr (ok, out, err) \<Rightarrow>
               if ok then (\<exists>w a. fst (r_agent_send R (h_id h) (''kafka_cli.'' @ verb) payload n w) = Inr (AgentOk a) \<and>
                                exit_code a = 0)
               else True))
    else t = s \<and> (case r of Inl e \<Rightarrow> exn_class e = ''RuntimeError'' | Inr x \<Rightarrow> False)"
proof (cases "r_agent_connected R (h_id h) (fst (wld s)) \<and> install_dir_ok idir")
  case False
  then show ?thesis
    by (cases "wld s") (auto simp: kafka_cli_def agent_available_def bnd_def recorded_def)
next
  case True
  define op where "op = ''kafka_cli.'' @ verb"
  define p where "p = [(''bootstrap'', JStr boot), (''install_dir'', JStr idir), (''args'', JArr (map JStr args))]
             @ (if str_true cc then [(''command_config'', JStr (the cc))] else [])"
  obtain w es where w: "wld s = (w, es)" by (cases "wld s")
  obtain q w' where q: "r_agent_send R (h_id h) op p n w = (q, w')"
    by (cases "r_agent_send R (h_id h) op p n w")
  have c: "r_agent_connected R (h_id h) w" using True w by simp
  have run: "kafka_cli (recorded R) h verb boot idir args cc n s =
     bnd (run_op (recorded R) (h_id h) op p n) (\<lambda>res.
     case res of AgentErr e \<Rightarrow> ret (False, [], err_text e)
     | AgentOk r \<Rightarrow> ret (exit_code r = 0, text_or_empty (ar_stdout r), text_or_empty (ar_stderr r))) s"
    using True unfolding kafka_cli_def op_def p_def
    by (simp add: bnd_Inr[of "agent_available (recorded R) (h_id h)"] agent_available_def recorded_def w bnd_def)
  show ?thesis
    unfolding run bnd_run run_op_recorded[OF w c q] op_def[symmetric]
    using True q by (auto simp: trace_def w split: sum.split agent_reply.split intro!: exI[of _ p])
       (metis fst_conv)+
qed

end
