(* ===== verification/Port_Preflight.thy ===== *)
theory Port_Preflight
  imports Models
begin

text \<open>
  Port conflicts before a deploy: \<open>services/port_preflight.py\<close>.  The remote host answers \<open>ss\<close>, \<open>netstat\<close> and
  \<open>systemctl\<close> through \<open>exec_command\<close>; what the backend makes of the text is modelled here character by
  character.  A dict from ports to holders is an association list in insertion order.  Shown: which ports
  the listing reports, that conflicts are exactly the requested ports that are held, and what the search
  for a free port set returns.
\<close>

definition DEFAULT_PORTS :: "(string \<times> int) list" where
  "DEFAULT_PORTS = [(''listener'', 9092), (''controller'', 9093), (''ssl_listener'', 9096), (''jmx_exporter'', 7071),
     (''schema_registry'', 8085), (''ksqldb'', 8088), (''connect'', 8083)]"

record port_check =
  pc_host_id :: string
  pc_port :: int
  pc_label :: string

record port_conflict =
  pf_host_ip :: string
  pf_port :: int
  pf_label :: string
  pf_process :: string

definition conflict_message :: "port_conflict \<Rightarrow> string" where
  "conflict_message c = ''port '' @ show_int (pf_port c) @ '' ('' @ pf_label c @ '') on '' @ pf_host_ip c
     @ '' is already in use by '' @ pf_process c"

section \<open>The commands\<close>

definition listing_cmd :: "int list \<Rightarrow> string" where
  "listing_cmd ports = (let port_list = join '' '' (map show_int ports) in
     ''if command -v ss >/dev/null 2>&1; then ''
     @ ''  for p in '' @ port_list @ ''; do ''
     @ ''    out=$(sudo -n ss -tnlpH '' @ sq @ ''sport = :'' @ sq @ ''$p 2>/dev/null || ss -tnlH ''
     @ sq @ ''sport = :'' @ sq @ ''$p 2>/dev/null); ''
     @ ''    echo '' @ dq @ ''$out'' @ dq @ '' | awk -v p=$p '' @ sq @ ''NF{print p'' @ dq @ ''::'' @ dq @ ''$0}'' @ sq @ ''; ''
     @ ''  done; else   for p in '' @ port_list @ ''; do ''
     @ ''    netstat -tnlp 2>/dev/null | awk -v p='' @ dq @ '':'' @ dq @ ''$p ''
     @ ''      '' @ sq @ ''$4 ~ p {print substr(p,2)'' @ dq @ ''::'' @ dq @ ''$0}'' @ sq @ ''; ''
     @ ''  done; fi'')"

definition bslash :: string where "bslash = [CHR 0x5C]"

definition unit_cmd :: "int list \<Rightarrow> string" where
  "unit_cmd pids =
     ''for pid in '' @ join '' '' (map show_int pids) @ ''; do ''
     @ ''  u=$(systemctl status --no-pager -p Id --value -- $pid 2>/dev/null''
     @ ''      || awk -F/ '' @ sq @ ''/^0::/{print $NF}'' @ sq @ '' /proc/$pid/cgroup 2>/dev/null''
     @ ''      | sed '' @ sq @ ''s/'' @ bslash @ ''.service.*$/.service/'' @ sq @ ''); ''
     @ ''  echo '' @ dq @ ''$pid=$u'' @ dq @ ''; done''"

section \<open>Reading the listing\<close>

text \<open>\<open>re.search(r"pid=(\d+)", s)\<close>: the first \<open>pid=\<close> that digits follow.\<close>

fun search_pid :: "string \<Rightarrow> int option" where
  "search_pid [] = None"
| "search_pid (c # s) =
     (if starts_with (c # s) ''pid='' \<and> takeWhile is_digit (drop 4 (c # s)) \<noteq> []
      then Some (nat_of_digits (takeWhile is_digit (drop 4 (c # s))))
      else search_pid s)"

text \<open>\<open>re.search(r"(\d+)/", s)\<close>: the first run of digits that a slash follows.\<close>

fun search_pid_slash :: "string \<Rightarrow> int option" where
  "search_pid_slash [] = None"
| "search_pid_slash (c # s) =
     (if is_digit c \<and> starts_with (dropWhile is_digit (c # s)) ''/''
      then Some (nat_of_digits (takeWhile is_digit (c # s)))
      else search_pid_slash s)"

definition holder :: "string \<Rightarrow> string \<times> int option" where
  "holder rest =
     (case find_sub ''users:'' rest of
        Some (_, after) \<Rightarrow> let users_part = strip_chars ''(()'' (strip after) in (users_part, search_pid users_part)
      | None \<Rightarrow>
          if contains rest ''/''
          then (let words = split_ws rest; tail = (if words \<noteq> [] then last words else [])
                in (tail, search_pid_slash tail))
          else (''unknown'', None))"

text \<open>The loop over the lines; a port is reported by its first line only.  Process id 0 counts as none.\<close>

fun read_listing :: "string list \<Rightarrow> (int \<times> string) list \<Rightarrow> (int \<times> int) list \<Rightarrow>
    (int \<times> string) list \<times> (int \<times> int) list" where
  "read_listing [] result pids = (result, pids)"
| "read_listing (line # lines) result pids =
     (if \<not> contains line ''::'' then read_listing lines result pids
      else (case partition_str line ''::'' of (port_str, _, rest) \<Rightarrow>
        (case parse_int port_str of
           None \<Rightarrow> read_listing lines result pids
         | Some port \<Rightarrow>
             if map_of result port \<noteq> None then read_listing lines result pids
             else (case holder rest of (proc, pid) \<Rightarrow>
               read_listing lines (AList.update port proc result)
                 (case pid of None \<Rightarrow> pids | Some p \<Rightarrow> if p = 0 then pids else AList.update port p pids)))))"

text \<open>The second round trip, which names the unit of each process.\<close>

fun read_units :: "string list \<Rightarrow> (int \<times> string) list \<Rightarrow> (int \<times> string) list" where
  "read_units [] acc = acc"
| "read_units (line # lines) acc =
     (if \<not> contains line ''='' then read_units lines acc
      else (case partition_str line ''='' of (pid_s, _, unit) \<Rightarrow>
        (case parse_int pid_s of None \<Rightarrow> read_units lines acc
         | Some p \<Rightarrow> read_units lines (AList.update p (strip unit) acc))))"

fun add_units :: "(int \<times> string) list \<Rightarrow> (int \<times> int) list \<Rightarrow> (int \<times> string) list \<Rightarrow> (int \<times> string) list" where
  "add_units pid_unit [] result = result"
| "add_units pid_unit ((port, p) # ps) result =
     (let unit = (case map_of pid_unit p of None \<Rightarrow> [] | Some u \<Rightarrow> u)
      in if unit \<noteq> [] \<and> unit \<noteq> ''0'' \<and> unit \<noteq> ''n/a''
         then add_units pid_unit ps (AList.update port
                ((case map_of result port of None \<Rightarrow> [] | Some x \<Rightarrow> x) @ '' ('' @ unit @ '')'') result)
         else add_units pid_unit ps result)"

definition list_listening :: "'w remote \<Rightarrow> host \<Rightarrow> int list \<Rightarrow> ('w sys, (int \<times> string) list) io" where
  "list_listening R h ports =
     bnd (exec_command R h (listing_cmd ports) 15) (\<lambda>(exit_code, stdout, _).
     if exit_code \<noteq> 0 \<or> stdout = [] then ret []
     else (case read_listing (splitlines stdout) [] [] of (result, pids) \<Rightarrow>
       if pids = [] then ret result
       else bnd (exec_command R h (unit_cmd (remdups (map snd pids))) 10) (\<lambda>(rc2, out2, _).
         if rc2 = 0 \<and> out2 \<noteq> []
         then ret (add_units (read_units (splitlines out2) []) pids result)
         else ret result)))"

definition list_listening_ports :: "'w remote \<Rightarrow> host \<Rightarrow> int list \<Rightarrow> ('w sys, (int \<times> string) list) io" where
  "list_listening_ports R h ports = list_listening R h ports"

section \<open>check_ports\<close>

text \<open>\<open>setdefault(c.host_id, []).append(c)\<close> over the checks.\<close>

fun group_by_host :: "port_check list \<Rightarrow> (string \<times> port_check list) list \<Rightarrow> (string \<times> port_check list) list" where
  "group_by_host [] acc = acc"
| "group_by_host (c # cs) acc =
     group_by_host cs (AList.update (pc_host_id c)
       ((case map_of acc (pc_host_id c) of None \<Rightarrow> [] | Some xs \<Rightarrow> xs) @ [c]) acc)"

definition held_conflicts :: "string \<Rightarrow> (int \<times> string) list \<Rightarrow> port_check list \<Rightarrow> port_conflict list" where
  "held_conflicts ip listening cs =
     concat (map (\<lambda>c. case map_of listening (pc_port c) of None \<Rightarrow> []
       | Some p \<Rightarrow> [\<lparr>pf_host_ip = ip, pf_port = pc_port c, pf_label = pc_label c, pf_process = p\<rparr>]) cs)"

definition check_host :: "'w remote \<Rightarrow> (string \<Rightarrow> host option) \<Rightarrow> string \<times> port_check list \<Rightarrow>
    ('w sys, port_conflict list) io" where
  "check_host R host_of g = (case g of (host_id, host_checks) \<Rightarrow>
     (case host_of host_id of
        None \<Rightarrow> ret []
      | Some host \<Rightarrow>
          bnd (catch (bnd (seqm (ssh_connect R host)
                  (list_listening R host (sorted_list_of_set (set (map pc_port host_checks)))))
                  (\<lambda>listening. ret (Inr listening)))
                (\<lambda>e. ret (Inl e))) (\<lambda>r.
          case r of
            Inl e \<Rightarrow> ret [\<lparr>pf_host_ip = h_ip_address host, pf_port = 0,
               pf_label = ''ssh-precheck-failed:'' @ exn_class e, pf_process = take_chars 100 (exn_str e)\<rparr>]
          | Inr listening \<Rightarrow> ret (held_conflicts (h_ip_address host) listening host_checks))))"

definition check_ports :: "'w remote \<Rightarrow> port_check list \<Rightarrow> (string \<Rightarrow> host option) \<Rightarrow>
    ('w sys, port_conflict list) io" where
  "check_ports R checks host_of =
     bnd (for_each (check_host R host_of) (group_by_host checks [])) (\<lambda>cs. ret (concat cs))"

section \<open>cluster_port_checks\<close>

definition service_port_checks :: "bool \<Rightarrow> int \<Rightarrow> int \<Rightarrow> int \<Rightarrow> int \<Rightarrow> int \<Rightarrow> int \<Rightarrow> service \<Rightarrow> port_check list" where
  "service_port_checks ssl listener controller ssl_listener sr ksqldb connect svc =
     (let chk = (\<lambda>p l. \<lparr>pc_host_id = s_host_id svc, pc_port = p, pc_label = l\<rparr>); role = s_role svc in
      (if role \<in> {''broker'', ''broker_controller''}
       then [chk listener ''listener''] @ (if ssl then [chk ssl_listener ''ssl_listener''] else []) else [])
      @ (if role \<in> {''controller'', ''broker_controller''} then [chk controller ''controller''] else [])
      @ (if role = ''schema_registry'' then [chk sr ''schema_registry''] else [])
      @ (if role = ''ksqldb'' then [chk ksqldb ''ksqldb''] else [])
      @ (if role = ''kafka_connect'' then [chk connect ''kafka_connect''] else []))"

definition cfg_port :: "(string \<times> json) list \<Rightarrow> string \<Rightarrow> int \<Rightarrow> exn + int" where
  "cfg_port cfg k d = py_int (jget_default cfg k (JInt d))"

definition cluster_port_checks :: "cluster option \<Rightarrow> service list \<Rightarrow> (string \<times> json) list \<Rightarrow> exn + port_check list" where
  "cluster_port_checks cluster svcs cfg =
     (case (cfg_port cfg ''listener_port'' 9092, cfg_port cfg ''controller_port'' 9093,
            cfg_port cfg ''ssl_listener_port'' 9096, cfg_port cfg ''schema_registry_port'' 8085,
            cfg_port cfg ''ksqldb_port'' 8088, cfg_port cfg ''connect_rest_port'' 8083) of
        (Inr listener, Inr controller, Inr ssl_listener, Inr sr, Inr ksqldb, Inr connect) \<Rightarrow>
          let ssl = (truthy (jget cfg ''ssl_enabled'') \<or> (case cluster of None \<Rightarrow> False | Some c \<Rightarrow> c_ssl_enabled c))
          in Inr (concat (map (service_port_checks ssl listener controller ssl_listener sr ksqldb connect) svcs))
      | (a, b, c, d, e, f) \<Rightarrow>
          Inl (the (List.find (\<lambda>_. True) (concat (map (\<lambda>x. case x of Inl e \<Rightarrow> [e] | Inr _ \<Rightarrow> []) [a, b, c, d, e, f])))))"

section \<open>find_free_port_set\<close>

record port_set =
  ps_listener :: int
  ps_controller :: int
  ps_ssl :: int

definition candidate_set :: "nat \<Rightarrow> port_set" where
  "candidate_set i = \<lparr>ps_listener = 9092 + 100 * int i, ps_controller = 9093 + 100 * int i, ps_ssl = 9096 + 100 * int i\<rparr>"

definition ports_of :: "port_set \<Rightarrow> int list" where
  "ports_of c = [ps_listener c, ps_controller c, ps_ssl c]"

definition used_on :: "(string \<Rightarrow> int list) \<Rightarrow> string list \<Rightarrow> int list" where
  "used_on occupied host_ids = concat (map occupied host_ids)"

definition find_free_port_set :: "(string \<Rightarrow> int list) \<Rightarrow> string list \<Rightarrow> port_set" where
  "find_free_port_set occupied host_ids =
     (let used = used_on occupied host_ids in
      case List.find (\<lambda>i. \<not> list_ex (\<lambda>p. p \<in> set used) (ports_of (candidate_set i))) [0..<10] of
        Some i \<Rightarrow> candidate_set i
      | None \<Rightarrow> candidate_set 0)"

section \<open>Facts about the parts\<close>

lemma find_upt_None: "List.find P [0..<n] = None \<longleftrightarrow> (\<forall>i<n. \<not> P i)"
  by (auto simp: find_None_iff)

lemma find_upt_Some: "List.find P [0..<n] = Some i \<Longrightarrow> i < n \<and> P i \<and> (\<forall>j<i. \<not> P j)"
  by (subst (asm) find_Some_iff) auto

lemma map_of_snoc: "map_of (xs @ ys) k = (case map_of xs k of None \<Rightarrow> map_of ys k | Some v \<Rightarrow> Some v)"
  by (simp add: map_add_def split: option.split)

text \<open>Grouping keeps every check, in order, under its own host.\<close>

lemma map_of_group: "map_of (group_by_host cs acc) h =
   (let own = (case map_of acc h of None \<Rightarrow> [] | Some xs \<Rightarrow> xs) @ filter (\<lambda>c. pc_host_id c = h) cs
    in if map_of acc h = None \<and> filter (\<lambda>c. pc_host_id c = h) cs = [] then None else Some own)"
proof (induction cs arbitrary: acc)
  case Nil
  then show ?case by (simp split: option.split)
next
  case (Cons c cs)
  show ?case by (simp add: Cons.IH update_conv' Let_def split: option.split)
qed

lemma distinct_group: "distinct (map fst acc) \<Longrightarrow> distinct (map fst (group_by_host cs acc))"
  by (induction cs arbitrary: acc) (simp_all add: distinct_update)

lemma in_group: "distinct (map fst acc) \<Longrightarrow> (h, xs) \<in> set (group_by_host cs acc) \<longleftrightarrow> map_of (group_by_host cs acc) h = Some xs"
  by (rule map_of_eq_Some_iff[symmetric]) (rule distinct_group)

lemma group_entry: "(h, xs) \<in> set (group_by_host cs []) \<longleftrightarrow> xs = filter (\<lambda>c. pc_host_id c = h) cs \<and> xs \<noteq> []"
  by (subst in_group) (auto simp: map_of_group Let_def)

lemma held_iff: "x \<in> set (held_conflicts ip l cs) \<longleftrightarrow>
   (\<exists>c\<in>set cs. \<exists>p. map_of l (pc_port c) = Some p \<and>
      x = \<lparr>pf_host_ip = ip, pf_port = pc_port c, pf_label = pc_label c, pf_process = p\<rparr>)"
  unfolding held_conflicts_def set_concat set_map by (force split: option.splits)

text \<open>The ports of a listing are those its lines name before the first \<open>::\<close>.\<close>

definition listed_ports :: "string list \<Rightarrow> int set" where
  "listed_ports lines = {p. \<exists>l\<in>set lines. \<exists>a b. find_sub ''::'' l = Some (a, b) \<and> parse_int a = Some p}"

lemma listed_ports_Cons: "listed_ports (l # ls) =
   (case find_sub ''::'' l of None \<Rightarrow> {} | Some (a, b) \<Rightarrow> (case parse_int a of None \<Rightarrow> {} | Some p \<Rightarrow> {p})) \<union> listed_ports ls"
  by (auto simp: listed_ports_def split: option.split)

lemma read_listing_ports: "fst ` set (fst (read_listing lines result pids)) = fst ` set result \<union> listed_ports lines"
proof (induction lines result pids rule: read_listing.induct)
  case (1 result pids)
  then show ?case by (simp add: listed_ports_def)
next
  case (2 line lines result pids)
  show ?case
  proof (cases "find_sub ''::'' line")
    case None
    then show ?thesis using 2(1) by (simp add: contains_def listed_ports_Cons)
  next
    case (Some ab)
    obtain a b where ab: "ab = (a, b)" by (cases ab)
    have c: "contains line ''::''" "partition_str line ''::'' = (a, ''::'', b)"
      using Some ab by (simp_all add: contains_def partition_str_def)
    show ?thesis
    proof (cases "parse_int a")
      case None
      then show ?thesis using 2(2)[of a _ _ b] c Some ab by (simp add: listed_ports_Cons)
    next
      case (Some p)
      show ?thesis
      proof (cases "map_of result p")
        case None
        then show ?thesis
          using 2(4)[of a _ "''::''" b p] c Some \<open>find_sub ''::'' line = Some ab\<close> ab
          by (cases "holder b") (simp add: listed_ports_Cons dom_update)
      next
        case (Some q)
        then have "p \<in> fst ` set result" by (force dest: map_of_SomeD)
        then show ?thesis
          using 2(3)[of a _ _ b p] c \<open>parse_int a = Some p\<close> Some \<open>find_sub ''::'' line = Some ab\<close> ab
          by (auto simp: listed_ports_Cons)
      qed
    qed
  qed
qed

lemma add_units_ports: "fst ` set ps \<subseteq> fst ` set result \<Longrightarrow> fst ` set (add_units pu ps result) = fst ` set result"
  by (induction pu ps result rule: add_units.induct) (auto simp: Let_def dom_update insert_absorb)

lemma read_listing_pids: "fst ` set pids \<subseteq> fst ` set result \<Longrightarrow>
   fst ` set (snd (read_listing lines result pids)) \<subseteq> fst ` set (fst (read_listing lines result pids))"
proof (induction lines result pids rule: read_listing.induct)
  case (2 line lines result pids)
  then show ?case
    by (simp add: dom_update subset_insertI2 insert_mono split: option.split prod.split)
qed simp

lemma world_only_list_listening: "world_only (list_listening R h ports)"
  unfolding list_listening_def by (auto intro!: world_steps split: prod.splits)

lemma world_only_check_ports: "world_only (check_ports R checks host_of)"
  unfolding check_ports_def check_host_def
  by (auto intro!: world_steps world_only_list_listening split: sum.splits)

section \<open>Properties\<close>

text \<open>
  The listing of a host: when it succeeds, the ports it reports are exactly those that the output of
  the first command names, one entry per line \<open>port::holder\<close>, and none when that command failed; neither a
  line that cannot be read nor the second round trip, which resolves unit names, adds or drops a port.
\<close>

theorem listing_ports:
  assumes "list_listening R h ports s = (Inr res, t)"
  shows "\<exists>rc out err s1. exec_command R h (listing_cmd ports) 15 s = (Inr (rc, out, err), s1) \<and>
     fst ` set res = (if rc = 0 then listed_ports (splitlines out) else {})"
proof -
  obtain x s1 where e: "exec_command R h (listing_cmd ports) 15 s = (Inr x, s1)"
    using assms unfolding list_listening_def by (rule bnd_InrE)
  obtain rc out err where x: "x = (rc, out, err)" by (cases x)
  obtain r0 p0 where r: "read_listing (splitlines out) [] [] = (r0, p0)" by (cases "read_listing (splitlines out) [] []")
  have r0: "fst ` set r0 = listed_ports (splitlines out)" and p0: "fst ` set p0 \<subseteq> fst ` set r0"
    using read_listing_ports[of "splitlines out" "[]" "[]"] read_listing_pids[of "[]" "[]" "splitlines out"] r by simp_all
  have empty: "listed_ports (splitlines []) = {}" by (simp add: splitlines_def listed_ports_def)
  have rest: "(if rc \<noteq> 0 \<or> out = [] then ret [] else
       if p0 = [] then ret r0
       else bnd (exec_command R h (unit_cmd (remdups (map snd p0))) 10) (\<lambda>(rc2, out2, _).
         if rc2 = 0 \<and> out2 \<noteq> [] then ret (add_units (read_units (splitlines out2) []) p0 r0)
         else ret r0)) s1 = (Inr res, t)"
    using assms by (simp add: list_listening_def bnd_Inr[where m = "exec_command R h (listing_cmd ports) 15", OF e] x r cong: if_cong)
  have res: "res = [] \<and> (rc \<noteq> 0 \<or> out = []) \<or> rc = 0 \<and> (res = r0 \<or> (\<exists>pu. res = add_units pu p0 r0))"
    using rest by (auto split: if_splits prod.splits elim!: bnd_InrE)
  have "fst ` set res = (if rc = 0 then listed_ports (splitlines out) else {})"
    using res r0 add_units_ports[OF p0] empty by (elim disjE conjE exE) simp_all
  with e show ?thesis unfolding x by blast
qed

text \<open>A host whose \<open>ss\<close> prints \<open>out\<close>; nothing is known of processes.\<close>

definition scripted :: "(string \<Rightarrow> int \<times> string \<times> string) \<Rightarrow> unit remote" where
  "scripted f = \<lparr>r_connect = (\<lambda>h w. (Inr (), w)), r_exec = (\<lambda>h c n w. (Inr (f c), w)),
     r_write = (\<lambda>h c p w. (Inr (), w)), r_put = (\<lambda>h l p w. (Inr (), w)), r_sleep = (\<lambda>n w. w),
     r_clock = (\<lambda>w. 0), r_agent_connected = (\<lambda>h w. False),
     r_agent_send = (\<lambda>h op args n w. (Inr (AgentErr None), w))\<rparr>"

definition sample_host :: host where
  "sample_host = \<lparr>h_id = ''h1'', h_hostname = ''b1'', h_ip_address = ''10.0.0.1'', h_ssh_port = 22,
     h_username = ''root'', h_auth_type = ''key'', h_encrypted_credential = [], h_os_info = None, h_status = ''online'', h_created_at = 0\<rparr>"

definition plain_sys :: "'w \<Rightarrow> 'w sys" where
  "plain_sys w = \<lparr>sess = empty_tables, committed = empty_tables, tasks = no_tasks, wld = w\<rparr>"

definition ss_output :: string where
  "ss_output = ''9092::LISTEN 0 50 *:9092 users:(('' @ dq @ ''java'' @ dq @ '',pid=7,fd=1))'' @ nl @ ''junk'' @ nl
     @ ''9093::LISTEN'' @ nl"

abbreviation ss_host :: "unit remote" where
  "ss_host \<equiv> scripted (\<lambda>c. if starts_with c ''for pid'' then (0, ''7=kafka.service'', []) else (0, ss_output, []))"

theorem listing_ports_witness:
  "\<exists>res. fst (list_listening ss_host sample_host [9092, 9093] (plain_sys ())) = Inr res \<and> fst ` set res = {9092, 9093}"
proof -
  let ?run = "list_listening ss_host sample_host [9092, 9093] (plain_sys ())"
  have "case fst ?run of Inl e \<Rightarrow> False | Inr res \<Rightarrow> True" by code_simp
  then obtain res where res: "fst ?run = Inr res" by (auto split: sum.splits)
  then have "?run = (Inr res, snd ?run)" by (metis prod.collapse)
  from listing_ports[OF this] obtain rc out err s1 where
    e: "exec_command ss_host sample_host (listing_cmd [9092, 9093]) 15 (plain_sys ()) = (Inr (rc, out, err), s1)"
    and p: "fst ` set res = (if rc = 0 then listed_ports (splitlines out) else {})" by blast
  have "fst (exec_command ss_host sample_host (listing_cmd [9092, 9093]) 15 (plain_sys ())) = Inr (0, strip ss_output, [])"
    by code_simp
  with e have ro: "rc = 0" "out = strip ss_output" by simp_all
  have l: "map (\<lambda>l. case find_sub ''::'' l of None \<Rightarrow> None | Some (a, b) \<Rightarrow> parse_int a) (splitlines (strip ss_output)) =
      [Some 9092, None, Some 9093]" by code_simp
  have "listed_ports ls = set (concat (map (\<lambda>x. case x of None \<Rightarrow> [] | Some p \<Rightarrow> [p])
     (map (\<lambda>l. case find_sub ''::'' l of None \<Rightarrow> None | Some (a, b) \<Rightarrow> parse_int a) ls)))" for ls
    by (induction ls) (auto simp: listed_ports_Cons listed_ports_def split: option.split)
  note listed = this
  have "fst ` set res = {9092, 9093}"
    unfolding p ro(1) ro(2) listed l by simp
  with res show ?thesis by blast
qed

text \<open>
  The search for a free port set.  Unless each of the ten candidate sets is hit by a port in use on one
  of the hosts, the ports returned are free on all of them, and every candidate with a lower offset is
  hit; if all ten are hit the defaults are returned although they are in use.
\<close>

theorem free_port_set:
  "if list_all (\<lambda>i. list_ex (\<lambda>p. p \<in> set (used_on occupied host_ids)) (ports_of (candidate_set i))) [0..<10]
   then find_free_port_set occupied host_ids = candidate_set 0
   else (\<exists>i<10. find_free_port_set occupied host_ids = candidate_set i \<and>
      list_all (\<lambda>h. list_all (\<lambda>p. p \<notin> set (occupied h)) (ports_of (candidate_set i))) host_ids \<and>
      list_all (\<lambda>j. list_ex (\<lambda>p. p \<in> set (used_on occupied host_ids)) (ports_of (candidate_set j))) [0..<i])"
proof (cases "List.find (\<lambda>i. \<not> list_ex (\<lambda>p. p \<in> set (used_on occupied host_ids)) (ports_of (candidate_set i))) [0..<10]")
  case None
  have "find_free_port_set occupied host_ids = candidate_set 0"
    by (simp only: find_free_port_set_def Let_def None option.case)
  then show ?thesis using None by (simp add: find_upt_None list_all_iff)
next
  case (Some i)
  note i = find_upt_Some[OF Some]
  then have "\<not> list_all (\<lambda>i. list_ex (\<lambda>p. p \<in> set (used_on occupied host_ids)) (ports_of (candidate_set i))) [0..<10]"
    by (auto simp: list_all_iff)
  moreover have "list_all (\<lambda>h. list_all (\<lambda>p. p \<notin> set (occupied h)) (ports_of (candidate_set i))) host_ids"
    using i by (auto simp: list_all_iff list_ex_iff used_on_def)
  moreover have "list_all (\<lambda>j. list_ex (\<lambda>p. p \<in> set (used_on occupied host_ids)) (ports_of (candidate_set j))) [0..<i]"
    using i by (simp add: list_all_iff)
  ultimately show ?thesis using Some i by (auto simp: find_free_port_set_def)
qed

text \<open>How one group of checks ends when its host can be listed.\<close>

lemma check_host_listed:
  assumes "\<And>h ps s. fst (seqm (ssh_connect R h) (list_listening R h ps) s) = Inr (L h ps)"
  shows "\<exists>t. check_host R host_of (i, cs) s = (Inr (case host_of i of None \<Rightarrow> []
      | Some h \<Rightarrow> held_conflicts (h_ip_address h) (L h (sorted_list_of_set (set (map pc_port cs)))) cs), t)"
proof (cases "host_of i")
  case None
  then show ?thesis by (simp add: check_host_def)
next
  case (Some h)
  let ?m = "seqm (ssh_connect R h) (list_listening R h (sorted_list_of_set (set (map pc_port cs))))"
  obtain t where m: "?m s = (Inr (L h (sorted_list_of_set (set (map pc_port cs)))), t)"
    using assms[of h "sorted_list_of_set (set (map pc_port cs))" s] by (metis prod.collapse)
  have "catch (bnd ?m (\<lambda>listening. ret (Inr listening))) (\<lambda>e. ret (Inl e)) s =
      (Inr (Inr (L h (sorted_list_of_set (set (map pc_port cs))))), t)"
    unfolding catch_run bnd_run m by simp
  then show ?thesis
    unfolding check_host_def prod.case Some option.case bnd_run by simp
qed

lemma for_each_value:
  assumes "\<And>x s. x \<in> set xs \<Longrightarrow> \<exists>t. f x s = (Inr (g x), t)"
  shows "\<exists>t. for_each f xs s = (Inr (map g xs), t)"
  using assms
proof (induction xs arbitrary: s)
  case (Cons x xs)
  obtain u where "f x s = (Inr (g x), u)" using Cons.prems by fastforce
  moreover obtain t where "for_each f xs u = (Inr (map g xs), t)" using Cons.IH Cons.prems by fastforce
  ultimately show ?case by (simp add: bnd_run)
qed simp

text \<open>
  The pre-flight check reports exactly the conflicts there are.  When the hosts can be listed, a
  conflict is reported if and only if it comes from one of the checks whose host is known and whose port
  the listing of that host holds, with the holder the listing names; nothing is raised and the database
  is left alone.
\<close>

theorem check_ports_exact:
  assumes "\<And>h ps s. fst (seqm (ssh_connect R h) (list_listening R h ps) s) = Inr (L h ps)"
  shows "\<exists>cs t. check_ports R checks host_of s = (Inr cs, t) \<and> sess t = sess s \<and>
    (x \<in> set cs \<longleftrightarrow> (\<exists>c\<in>set checks. \<exists>h p. host_of (pc_host_id c) = Some h \<and>
       map_of (L h (sorted_list_of_set (pc_port ` {d \<in> set checks. pc_host_id d = pc_host_id c}))) (pc_port c) = Some p \<and>
       x = \<lparr>pf_host_ip = h_ip_address h, pf_port = pc_port c, pf_label = pc_label c, pf_process = p\<rparr>))"
proof -
  let ?g = "\<lambda>(i, cs). case host_of i of None \<Rightarrow> []
      | Some h \<Rightarrow> held_conflicts (h_ip_address h) (L h (sorted_list_of_set (set (map pc_port cs)))) cs"
  have step: "\<exists>t. check_host R host_of e s = (Inr (?g e), t)" for e s
    proof (cases e)
    case (Pair i cs)
    show ?thesis unfolding Pair prod.case by (rule check_host_listed[OF assms])
  qed
  obtain t where "for_each (check_host R host_of) (group_by_host checks []) s =
      (Inr (map ?g (group_by_host checks [])), t)"
    using for_each_value[of "group_by_host checks []" "check_host R host_of" ?g s] step by blast
  then have run: "check_ports R checks host_of s = (Inr (concat (map ?g (group_by_host checks []))), t)"
    by (simp add: check_ports_def bnd_run)
  have "x \<in> set (concat (map ?g (group_by_host checks []))) \<longleftrightarrow>
     (\<exists>i h. host_of i = Some h \<and> x \<in> set (held_conflicts (h_ip_address h)
        (L h (sorted_list_of_set (set (map pc_port (filter (\<lambda>c. pc_host_id c = i) checks)))))
        (filter (\<lambda>c. pc_host_id c = i) checks)))"
    (is "_ \<longleftrightarrow> (\<exists>i h. ?Q i h)")
  proof -
    have "x \<in> set (concat (map ?g (group_by_host checks []))) \<longleftrightarrow>
      (\<exists>i xs. (i, xs) \<in> set (group_by_host checks []) \<and> x \<in> set (?g (i, xs)))" by force
    also have "\<dots> \<longleftrightarrow> (\<exists>i h. ?Q i h)"
    proof (rule ex_cong1)
      fix i
      show "(\<exists>xs. (i, xs) \<in> set (group_by_host checks []) \<and> x \<in> set (?g (i, xs))) \<longleftrightarrow> (\<exists>h. ?Q i h)"
        unfolding group_entry by (cases "host_of i") (auto simp: held_iff filter_empty_conv)
    qed
    finally show ?thesis .
  qed
  also have "\<dots> \<longleftrightarrow> (\<exists>c\<in>set checks. \<exists>h p. host_of (pc_host_id c) = Some h \<and>
       map_of (L h (sorted_list_of_set (pc_port ` {d \<in> set checks. pc_host_id d = pc_host_id c}))) (pc_port c) = Some p \<and>
       x = \<lparr>pf_host_ip = h_ip_address h, pf_port = pc_port c, pf_label = pc_label c, pf_process = p\<rparr>)"
    by (auto simp: held_iff)
  finally show ?thesis
    using run world_onlyD[OF world_only_check_ports run] by blast
qed

abbreviation held_host :: "unit remote" where
  "held_host \<equiv> scripted (\<lambda>c. (0, ''9092::LISTEN'', []))"

theorem check_ports_exact_witness:
  "\<exists>cs t. check_ports held_host [\<lparr>pc_host_id = ''h1'', pc_port = 9092, pc_label = ''listener''\<rparr>]
       (\<lambda>i. if i = ''h1'' then Some sample_host else None) (plain_sys ()) = (Inr cs, t) \<and>
     \<lparr>pf_host_ip = ''10.0.0.1'', pf_port = 9092, pf_label = ''listener'', pf_process = ''unknown''\<rparr> \<in> set cs"
proof -
  have r: "read_listing (splitlines (strip ''9092::LISTEN'')) [] [] = ([(9092, ''unknown'')], [])" by code_simp
  have ne: "strip ''9092::LISTEN'' \<noteq> []" by code_simp
  have fixed: "fst (seqm (ssh_connect held_host h) (list_listening held_host h ps) s) = Inr [(9092, ''unknown'')]" for h ps s
    by (simp add: seqm_run ssh_connect_def on_wld_def list_listening_def exec_command_def scripted_def bnd_run r ne
        cong: if_cong)
  show ?thesis
    using check_ports_exact[where R = held_host and L = "\<lambda>_ _. [(9092, ''unknown'')]", OF fixed,
      of "[\<lparr>pc_host_id = ''h1'', pc_port = 9092, pc_label = ''listener''\<rparr>]"
         "\<lambda>i. if i = ''h1'' then Some sample_host else None" "plain_sys ()"
         "\<lparr>pf_host_ip = ''10.0.0.1'', pf_port = 9092, pf_label = ''listener'', pf_process = ''unknown''\<rparr>"]
    by (auto simp: sample_host_def)
qed

end
