(* ===== verification/Cluster_Paths.thy ===== *)
theory Cluster_Paths
  imports Models
begin

text \<open>
  \<open>services/cluster_paths.py\<close>: the install directory, data directory and systemd unit of a cluster.
  \<open>slug\<close> and \<open>assign_paths_for_new_cluster\<close> derive them from the name and id of a new cluster,
  \<open>install_dir\<close>, \<open>data_dir\<close> and \<open>unit_name\<close> read them with the legacy fall-backs.  Shown: slugs are safe
  in paths and unit names, two clusters never share a derived directory or unit, set columns are left
  alone, and when \<open>log_dirs\<close> follows the data directory.
\<close>

section \<open>Slugs\<close>

definition slug_char :: "char \<Rightarrow> bool" where
  "slug_char c = (let n = (of_char c :: int) in
     (65 \<le> n \<and> n \<le> 90) \<or> (97 \<le> n \<and> n \<le> 122) \<or> (48 \<le> n \<and> n \<le> 57) \<or> n = 95 \<or> n = 45)"

text \<open>\<open>re.sub("[...]+", r, s)\<close> for the class of characters \<open>p\<close>.\<close>

function sub_runs :: "(char \<Rightarrow> bool) \<Rightarrow> string \<Rightarrow> string \<Rightarrow> string" where
  "sub_runs p r [] = []"
| "sub_runs p r (c # s) = (if p c then r @ sub_runs p r (dropWhile p s) else c # sub_runs p r s)"
  by pat_completeness auto
termination
  by (relation "measure (\<lambda>(p, r, s). length s)") (auto simp: length_dropWhile_le le_imp_less_Suc)

definition slug :: "string \<Rightarrow> string" where
  "slug name =
     (let s = sub_runs (\<lambda>c. \<not> slug_char c) ''-'' (lower (strip name));
          s = strip_chars ''-'' (sub_runs (\<lambda>c. c = CHR ''-'') ''-'' s);
          s = take 32 s
      in if s = [] then ''cluster'' else s)"

section \<open>Paths of a new cluster\<close>

definition legacy_sentinel :: string where
  "legacy_sentinel = ''/var/lib/kafka/data''"

text \<open>\<open>json.loads(cluster.config_json or "{}")\<close> with the \<open>except\<close> branch; \<open>.get\<close> on a JSON value that is
  not an object raises.\<close>

definition load_config :: "json_text option \<Rightarrow> json" where
  "load_config t = (case t of None \<Rightarrow> JObj [] | Some (Bad_Json _) \<Rightarrow> JObj [] | Some (Json v) \<Rightarrow> v)"

definition no_get :: exn where
  "no_get = Exn ''AttributeError'' ''object has no attribute get''"

definition derive_columns :: "cluster \<Rightarrow> cluster" where
  "derive_columns c =
     (let short = take 8 (c_id c);
          suffix = slug (c_name c) @ ''-'' @ short;
          c = (if str_true (c_install_dir c) then c
               else c\<lparr>c_install_dir := Some (''/opt/kafka-'' @ suffix)\<rparr>);
          c = (if str_true (c_data_dir c) then c
               else c\<lparr>c_data_dir := Some (''/var/lib/kafka-'' @ suffix @ ''/data'')\<rparr>);
          c = (if str_true (c_unit_name c) then c
               else c\<lparr>c_unit_name := Some (''kafka-'' @ suffix @ ''.service'')\<rparr>)
      in c)"

definition sync_log_dirs :: "bool \<Rightarrow> cluster \<Rightarrow> exn + cluster" where
  "sync_log_dirs custom_data_dir c =
     (case load_config (c_config_json c) of
        JObj cfg \<Rightarrow>
          (let current = jget cfg ''log_dirs'';
               should_sync = current \<in> {JNull, JStr [], JStr legacy_sentinel} \<or> custom_data_dir;
               target = JStr (or_str (c_data_dir c) [])
           in if should_sync \<and> current \<noteq> target
              then Inr (c\<lparr>c_config_json := Some (Json (JObj (AList.update ''log_dirs'' target cfg)))\<rparr>)
              else Inr c)
      | _ \<Rightarrow> Inl no_get)"

definition assign_paths_for_new_cluster :: "cluster \<Rightarrow> exn + cluster" where
  "assign_paths_for_new_cluster c =
     (if c_id c = [] then Inr c
      else sync_log_dirs (str_true (c_data_dir c)) (derive_columns c))"

section \<open>Reading them\<close>

definition DEFAULT_INSTALL_DIR :: "settings \<Rightarrow> string" where
  "DEFAULT_INSTALL_DIR cfg = (if KAFKA_INSTALL_DIR cfg = [] then ''/opt/kafka'' else KAFKA_INSTALL_DIR cfg)"

definition DEFAULT_DATA_DIR :: "settings \<Rightarrow> string" where
  "DEFAULT_DATA_DIR cfg = (if KAFKA_DATA_DIR cfg = [] then ''/var/lib/kafka/data'' else KAFKA_DATA_DIR cfg)"

definition DEFAULT_UNIT_NAME :: string where
  "DEFAULT_UNIT_NAME = ''kafka.service''"

definition install_dir :: "settings \<Rightarrow> cluster \<Rightarrow> string" where
  "install_dir cfg c = or_str (c_install_dir c) (DEFAULT_INSTALL_DIR cfg)"

definition data_dir :: "settings \<Rightarrow> cluster \<Rightarrow> string" where
  "data_dir cfg c = or_str (c_data_dir c) (DEFAULT_DATA_DIR cfg)"

definition unit_name :: "cluster \<Rightarrow> string" where
  "unit_name c = or_str (c_unit_name c) DEFAULT_UNIT_NAME"

definition short_unit_name :: "cluster \<Rightarrow> string" where
  "short_unit_name c = removesuffix (unit_name c) ''.service''"

section \<open>Lemmas\<close>

lemma set_sub_runs: "set (sub_runs p r s) \<subseteq> {c \<in> set s. \<not> p c} \<union> set r"
  by (induction p r s rule: sub_runs.induct) (auto dest!: set_dropWhileD)

lemma set_strip_by: "set (strip_by p s) \<subseteq> set s"
  by (auto simp: strip_by_def dest!: set_dropWhileD)

lemma slug_parts:
  "set (strip_chars ''-'' (sub_runs (\<lambda>c. c = CHR ''-'') ''-'' (sub_runs (\<lambda>c. \<not> slug_char c) ''-'' s)))
     \<subseteq> {c. slug_char c}"
proof -
  have dash: "slug_char CHR ''-''" by (simp add: slug_char_def)
  have "set (sub_runs (\<lambda>c. \<not> slug_char c) ''-'' s) \<subseteq> {c. slug_char c}"
    using set_sub_runs[of "\<lambda>c. \<not> slug_char c" "''-''" s] dash by auto
  then have "set (sub_runs (\<lambda>c. c = CHR ''-'') ''-'' (sub_runs (\<lambda>c. \<not> slug_char c) ''-'' s)) \<subseteq> {c. slug_char c}"
    using set_sub_runs[of "\<lambda>c. c = CHR ''-''" "''-''" "sub_runs (\<lambda>c. \<not> slug_char c) ''-'' s"] dash
    by auto
  then show ?thesis
    unfolding strip_chars_def using set_strip_by by (meson subset_trans)
qed

lemma slug_char_cluster: "list_all slug_char ''cluster''"
  by (simp add: slug_char_def)

lemma slug_chars: "list_all slug_char (slug n)"
proof -
  let ?s = "strip_chars ''-'' (sub_runs (\<lambda>c. c = CHR ''-'') ''-''
              (sub_runs (\<lambda>c. \<not> slug_char c) ''-'' (lower (strip n))))"
  have "set (take 32 ?s) \<subseteq> {c. slug_char c}"
    using slug_parts[of "lower (strip n)"] set_take_subset[of 32 ?s] by (rule subset_trans[rotated])
  then have "list_all slug_char (take 32 ?s)" by (auto simp: list_all_iff)
  then show ?thesis using slug_char_cluster by (simp add: slug_def Let_def)
qed

lemma slug_nonempty: "slug n \<noteq> []"
  by (simp add: slug_def Let_def)

lemma length_slug: "length (slug n) \<le> 32"
  by (simp add: slug_def Let_def)

lemma or_str_true: "str_true x \<Longrightarrow> or_str x d = the x"
  by (cases x) (auto simp: str_true_def or_str_def)

lemma str_true_Some [simp]: "str_true (Some s) \<longleftrightarrow> s \<noteq> []" "\<not> str_true None"
  by (auto simp: str_true_def)

text \<open>What \<open>assign_paths_for_new_cluster\<close> does to each column.\<close>

definition derived_suffix :: "cluster \<Rightarrow> string" where
  "derived_suffix c = slug (c_name c) @ ''-'' @ take 8 (c_id c)"

lemma derive_columns_simps [simp]:
  "c_install_dir (derive_columns c) = (if str_true (c_install_dir c) then c_install_dir c
                              else Some (''/opt/kafka-'' @ derived_suffix c))"
  "c_data_dir (derive_columns c) = (if str_true (c_data_dir c) then c_data_dir c
                           else Some (''/var/lib/kafka-'' @ derived_suffix c @ ''/data''))"
  "c_unit_name (derive_columns c) = (if str_true (c_unit_name c) then c_unit_name c
                            else Some (''kafka-'' @ derived_suffix c @ ''.service''))"
  "c_id (derive_columns c) = c_id c" "c_name (derive_columns c) = c_name c"
  "c_config_json (derive_columns c) = c_config_json c"
  by (simp_all add: derive_columns_def Let_def derived_suffix_def)

lemma sync_frame:
  assumes "sync_log_dirs b c = Inr c'"
  shows "c_install_dir c' = c_install_dir c" "c_data_dir c' = c_data_dir c"
    "c_unit_name c' = c_unit_name c" "c_id c' = c_id c" "c_name c' = c_name c"
  using assms by (auto simp: sync_log_dirs_def Let_def split: json.splits if_splits)

lemma assign_unfold:
  "c_id c \<noteq> [] \<Longrightarrow> assign_paths_for_new_cluster c = sync_log_dirs (str_true (c_data_dir c)) (derive_columns c)"
  by (simp add: assign_paths_for_new_cluster_def)

lemma assign_columns:
  assumes "assign_paths_for_new_cluster c = Inr c'" and "c_id c \<noteq> []"
  shows "c_install_dir c' = (if str_true (c_install_dir c) then c_install_dir c
                              else Some (''/opt/kafka-'' @ derived_suffix c))"
    and "c_data_dir c' = (if str_true (c_data_dir c) then c_data_dir c
                           else Some (''/var/lib/kafka-'' @ derived_suffix c @ ''/data''))"
    and "c_unit_name c' = (if str_true (c_unit_name c) then c_unit_name c
                            else Some (''kafka-'' @ derived_suffix c @ ''.service''))"
    and "c_id c' = c_id c" and "c_name c' = c_name c"
  using sync_frame[OF assms(1)[unfolded assign_unfold[OF assms(2)]]] by simp_all

lemma derived_suffix_inj:
  assumes "take 8 (c_id a) \<noteq> take 8 (c_id b)" and "8 \<le> length (c_id a)" "8 \<le> length (c_id b)"
  shows "derived_suffix a \<noteq> derived_suffix b"
  using assms by (auto simp: derived_suffix_def append_eq_append_conv2 dest: arg_cong[where f = "\<lambda>s. take 8 (rev s)"])


lemma jget_update_same: "jget (AList.update k v d) k = v"
  by (simp add: jget_def update_conv')

lemma jget_update_other: "k' \<noteq> k \<Longrightarrow> jget (AList.update k v d) k' = jget d k'"
  by (simp add: jget_def update_conv')

text \<open>The value of \<open>log_dirs\<close> in a configuration column.\<close>

definition log_dirs_of :: "cluster \<Rightarrow> json" where
  "log_dirs_of c = (case load_config (c_config_json c) of JObj cfg \<Rightarrow> jget cfg ''log_dirs'' | _ \<Rightarrow> JNull)"

definition syncs :: "cluster \<Rightarrow> bool" where
  "syncs c \<longleftrightarrow> log_dirs_of c \<in> {JNull, JStr [], JStr legacy_sentinel} \<or> str_true (c_data_dir c)"

lemma sync_log_dirs_result:
  assumes "sync_log_dirs b c = Inr c'"
  shows "log_dirs_of c' = (if log_dirs_of c \<in> {JNull, JStr [], JStr legacy_sentinel} \<or> b
                           then JStr (or_str (c_data_dir c) []) else log_dirs_of c)"
proof -
  obtain cfg where cfg: "load_config (c_config_json c) = JObj cfg"
    using assms by (cases "load_config (c_config_json c)") (auto simp: sync_log_dirs_def)
  have l: "log_dirs_of c = jget cfg ''log_dirs''" by (simp add: log_dirs_of_def cfg)
  show ?thesis
  proof (cases "(log_dirs_of c \<in> {JNull, JStr [], JStr legacy_sentinel} \<or> b) \<and>
                log_dirs_of c \<noteq> JStr (or_str (c_data_dir c) [])")
    case True
    then have "c' = c\<lparr>c_config_json := Some (Json (JObj
        (AList.update ''log_dirs'' (JStr (or_str (c_data_dir c) [])) cfg)))\<rparr>"
      using assms l by (simp add: sync_log_dirs_def cfg Let_def)
    then have "log_dirs_of c' = JStr (or_str (c_data_dir c) [])"
      by (simp add: log_dirs_of_def load_config_def jget_update_same)
    with True show ?thesis by argo
  next
    case False
    then have "c' = c" using assms l by (auto simp: sync_log_dirs_def cfg Let_def)
    with False show ?thesis by auto
  qed
qed

lemma assign_log_dirs:
  assumes "assign_paths_for_new_cluster c = Inr c'" and "c_id c \<noteq> []"
  shows "log_dirs_of c' = (if syncs c then JStr (or_str (c_data_dir c') []) else log_dirs_of c)"
proof -
  note s = assms(1)[unfolded assign_unfold[OF assms(2)]]
  have "log_dirs_of (derive_columns c) = log_dirs_of c" by (simp add: log_dirs_of_def)
  then show ?thesis
    using sync_log_dirs_result[OF s] sync_frame(2)[OF s] by (auto simp: syncs_def)
qed

section \<open>Properties\<close>

text \<open>
  Two clusters whose short ids (the first eight characters of the id) differ and that bring no
  paths of their own are given different install directories, different data directories and different
  systemd units, so they can share a host.
\<close>

theorem assigned_paths_distinct:
  assumes "assign_paths_for_new_cluster a = Inr a'" and "assign_paths_for_new_cluster b = Inr b'"
    and "8 \<le> length (c_id a)" and "8 \<le> length (c_id b)" and "take 8 (c_id a) \<noteq> take 8 (c_id b)"
    and "\<not> str_true (c_install_dir a)" "\<not> str_true (c_install_dir b)"
    and "\<not> str_true (c_data_dir a)" "\<not> str_true (c_data_dir b)"
    and "\<not> str_true (c_unit_name a)" "\<not> str_true (c_unit_name b)"
  shows "install_dir cfg a' \<noteq> install_dir cfg b' \<and> data_dir cfg a' \<noteq> data_dir cfg b' \<and>
         unit_name a' \<noteq> unit_name b'"
proof -
  have ids: "c_id a \<noteq> []" "c_id b \<noteq> []" using assms(3,4) by auto
  have ne: "derived_suffix a \<noteq> derived_suffix b" by (rule derived_suffix_inj) fact+
  show ?thesis
    using assign_columns[OF assms(1) ids(1)] assign_columns[OF assms(2) ids(2)] assms(6-) ne
    by (simp add: install_dir_def data_dir_def unit_name_def or_str_def)
qed

definition bare_cluster :: "string \<Rightarrow> string \<Rightarrow> cluster" where
  "bare_cluster i n =
     \<lparr>c_id = i, c_name = n, c_kafka_version = ''4.1.0'', c_mode = ''kraft'', c_state = ''configured'',
      c_config_json = Some (Json (JObj [(''log_dirs'', JStr legacy_sentinel)])), c_cluster_uuid = None,
      c_kind = Some ''managed'', c_bootstrap_servers = None, c_environment = [], c_ssl_enabled = False,
      c_external_broker_hosts_json = None, c_install_dir = None, c_data_dir = None, c_unit_name = None,
      c_mtls_required = False, c_tls_password = None, c_security_protocol = None, c_sasl_mechanism = None, c_secrets = None,
      c_ssl_verify = True, c_created_at = 0\<rparr>"

lemma assign_defined:
  "c_id c \<noteq> [] \<Longrightarrow> load_config (c_config_json c) = JObj cfg \<Longrightarrow>
   \<exists>c'. assign_paths_for_new_cluster c = Inr c' \<and> (c_config_json c' = c_config_json c \<or> syncs c)"
  by (auto simp: assign_unfold sync_log_dirs_def Let_def syncs_def log_dirs_of_def)

lemmas bare_cluster_simps = bare_cluster_def load_config_def legacy_sentinel_def

lemma bare_config: "load_config (c_config_json (bare_cluster i n)) = JObj [(''log_dirs'', JStr legacy_sentinel)]"
  by (simp add: bare_cluster_def load_config_def)

lemma bare_assign: "i \<noteq> [] \<Longrightarrow> \<exists>c'. assign_paths_for_new_cluster (bare_cluster i n) = Inr c'"
  using assign_defined[OF _ bare_config] by (auto simp: bare_cluster_def)

theorem assigned_paths_distinct_witness:
  "\<exists>a' b'. assign_paths_for_new_cluster (bare_cluster ''1ac9bbbe-0'' ''prod'') = Inr a' \<and>
     assign_paths_for_new_cluster (bare_cluster ''96907e3d-0'' ''prod'') = Inr b' \<and>
     unit_name a' \<noteq> unit_name b'"
proof -
  obtain a' where a: "assign_paths_for_new_cluster (bare_cluster ''1ac9bbbe-0'' ''prod'') = Inr a'"
    using bare_assign by blast
  obtain b' where b: "assign_paths_for_new_cluster (bare_cluster ''96907e3d-0'' ''prod'') = Inr b'"
    using bare_assign by blast
  show ?thesis
    using a b assigned_paths_distinct[OF a b] by (auto simp: bare_cluster_def)
qed

text \<open>
  A slug is never empty, has at most 32 characters and consists of letters, digits, underscores
  and hyphens only, whatever the cluster is called; the derived directories and unit names are safe.
\<close>

theorem slug_safe: "slug n \<noteq> [] \<and> length (slug n) \<le> 32 \<and> list_all slug_char (slug n)"
  using slug_nonempty length_slug slug_chars by blast

text \<open>
  After the paths are assigned, \<open>log_dirs\<close> is the data directory whenever it was missing, empty
  or the legacy default, or the operator chose the data directory; otherwise the operator's \<open>log_dirs\<close> stays.
\<close>

theorem log_dirs_follow_data_dir:
  assumes "assign_paths_for_new_cluster c = Inr c'" and "c_id c \<noteq> []"
  shows "log_dirs_of c' =
    (if log_dirs_of c = JNull \<or> log_dirs_of c = JStr [] \<or> log_dirs_of c = JStr ''/var/lib/kafka/data'' \<or>
        str_true (c_data_dir c)
     then JStr (data_dir cfg c') else log_dirs_of c)"
proof -
  have "str_true (c_data_dir c')"
    using assign_columns(2)[OF assms] by (auto simp: str_true_def)
  then have "or_str (c_data_dir c') [] = data_dir cfg c'"
    by (simp add: data_dir_def or_str_true)
  then show ?thesis
    using assign_log_dirs[OF assms] by (auto simp: syncs_def legacy_sentinel_def)
qed

theorem log_dirs_follow_data_dir_witness:
  "\<exists>c'. assign_paths_for_new_cluster (bare_cluster ''1ac9bbbe-0'' ''prod'') = Inr c' \<and>
     log_dirs_of c' = JStr (data_dir (default_settings ''/repo'') c')"
proof -
  obtain c' where c: "assign_paths_for_new_cluster (bare_cluster ''1ac9bbbe-0'' ''prod'') = Inr c'"
    using bare_assign by blast
  have "log_dirs_of (bare_cluster ''1ac9bbbe-0'' ''prod'') = JStr ''/var/lib/kafka/data''"
    by (simp add: bare_config log_dirs_of_def jget_def legacy_sentinel_def)
  then show ?thesis
    using c log_dirs_follow_data_dir[OF c, of "default_settings ''/repo''"] by (simp add: bare_cluster_def)
qed

text \<open>
  The function is not idempotent on \<open>log_dirs\<close>: when the operator chose \<open>log_dirs\<close> but not the
  data directory, the first run keeps that choice and a second run, which now finds the data directory
  set, overwrites it.
\<close>

theorem second_assign_overwrites_log_dirs:
  assumes "assign_paths_for_new_cluster c = Inr c1" and "assign_paths_for_new_cluster c1 = Inr c2"
    and "c_id c \<noteq> []" and "\<not> str_true (c_data_dir c)" and "log_dirs_of c = JStr ''/mnt/segments''"
  shows "log_dirs_of c1 = JStr ''/mnt/segments'' \<and> log_dirs_of c2 = JStr (the (c_data_dir c1))"
proof -
  have d1: "str_true (c_data_dir c1)" and i1: "c_id c1 \<noteq> []"
    using assign_columns[OF assms(1,3)] assms(3) by (auto simp: str_true_def)
  have "c_data_dir c2 = c_data_dir c1"
    using assign_columns(2)[OF assms(2) i1] d1 by simp
  then show ?thesis
    using assign_log_dirs[OF assms(1,3)] assign_log_dirs[OF assms(2) i1] assms(4,5) d1
    by (simp add: syncs_def legacy_sentinel_def or_str_true)
qed

theorem second_assign_overwrites_log_dirs_witness:
  "\<exists>c c1 c2. assign_paths_for_new_cluster c = Inr c1 \<and> assign_paths_for_new_cluster c1 = Inr c2 \<and>
     log_dirs_of c1 = JStr ''/mnt/segments'' \<and> log_dirs_of c2 \<noteq> log_dirs_of c1"
proof -
  define c where "c = (bare_cluster ''1ac9bbbe-0'' ''prod'')
    \<lparr>c_config_json := Some (Json (JObj [(''log_dirs'', JStr ''/mnt/segments'')]))\<rparr>"
  have ci: "c_id c \<noteq> []" and cfg: "load_config (c_config_json c) = JObj [(''log_dirs'', JStr ''/mnt/segments'')]"
    and d: "\<not> str_true (c_data_dir c)" and l: "log_dirs_of c = JStr ''/mnt/segments''"
    by (simp_all add: c_def bare_cluster_def load_config_def log_dirs_of_def jget_def)
  have ns: "\<not> syncs c" using d l by (simp add: syncs_def legacy_sentinel_def)
  obtain c1 where c1: "assign_paths_for_new_cluster c = Inr c1" and k: "c_config_json c1 = c_config_json c"
    using assign_defined[OF ci cfg] ns by blast
  have i: "c_id c1 \<noteq> []" using assign_columns(4)[OF c1 ci] ci by simp
  obtain c2 where c2: "assign_paths_for_new_cluster c1 = Inr c2"
    using assign_defined[OF i] cfg k by metis
  have "log_dirs_of c1 = JStr ''/mnt/segments'' \<and> log_dirs_of c2 = JStr (the (c_data_dir c1))"
    by (rule second_assign_overwrites_log_dirs[OF c1 c2 ci d l])
  moreover have "the (c_data_dir c1) \<noteq> ''/mnt/segments''"
    using assign_columns(2)[OF c1 ci] d by simp
  ultimately have "log_dirs_of c1 = JStr ''/mnt/segments'' \<and> log_dirs_of c2 \<noteq> log_dirs_of c1" by simp
  with c1 c2 show ?thesis by blast
qed

end
