(* ===== verification/Cluster_Manager.thy ===== *)
theory Cluster_Manager
  imports Cluster_Paths Port_Preflight Agent_Transport
begin

text \<open>
  Starting, stopping and probing the services of a cluster: \<open>services/cluster_manager.py\<close>.  Every service has a
  list of systemd unit names to try; a host is driven through its agent when one is connected and through
  SSH otherwise, by two implementations of the same steps.  Local variables that survive an exception
  (\<open>messages\<close>, \<open>success\<close>) are accumulated explicitly.  Shown: what a successful stop means, that both drivers
  agree on hosts that answer alike, the order of start and stop, the states that are committed, and when
  the state of the cluster follows from its services.
\<close>

section \<open>Tables of roles and units\<close>

definition NON_KAFKA_UNITS :: "(string \<times> string) list" where
  "NON_KAFKA_UNITS = [(''ksqldb'', ''ksqldb''), (''kafka_connect'', ''kafka-connect''),
     (''schema_registry'', ''schema-registry'')]"

definition LEGACY_KAFKA_UNITS :: "(string \<times> string) list" where
  "LEGACY_KAFKA_UNITS = [(''broker'', ''kafka.service''), (''broker_controller'', ''kafka.service''),
     (''controller'', ''kafka-kraft-controller.service''), (''zookeeper'', ''kafka.service'')]"

definition STOP_ORDER :: "(string \<times> nat) list" where
  "STOP_ORDER = [(''schema_registry'', 0), (''kafka_connect'', 1), (''ksqldb'', 1), (''broker'', 2),
     (''broker_controller'', 2), (''controller'', 3), (''zookeeper'', 3)]"

definition START_ORDER :: "(string \<times> nat) list" where
  "START_ORDER = [(''controller'', 0), (''zookeeper'', 0), (''broker_controller'', 1), (''broker'', 1),
     (''ksqldb'', 2), (''kafka_connect'', 2), (''schema_registry'', 3)]"

text \<open>The module assigns \<open>KAFKA_ROLES\<close> twice (lines 34 and 55); the second value, without \<open>controller\<close>, is the
  one every function sees.\<close>

definition KAFKA_ROLES :: "string list" where
  "KAFKA_ROLES = [''broker'', ''broker_controller'', ''zookeeper'']"

definition CORE_SERVICE_ROLES :: "string list" where
  "CORE_SERVICE_ROLES = [''broker'', ''broker_controller'', ''controller'', ''zookeeper'']"

definition dict_get :: "(string \<times> 'v) list \<Rightarrow> string \<Rightarrow> 'v \<Rightarrow> 'v" where
  "dict_get d k v = (case map_of d k of None \<Rightarrow> v | Some x \<Rightarrow> x)"

definition unique :: "string list \<Rightarrow> string list" where
  "unique items = rev (foldl (\<lambda>acc x. if x \<noteq> [] \<and> x \<notin> set acc then x # acc else acc) [] items)"

definition is_managed :: "cluster option \<Rightarrow> bool" where
  "is_managed c = (case c of None \<Rightarrow> False | Some x \<Rightarrow> or_str (c_kind x) ''managed'' = ''managed'')"

definition unit_candidates :: "cluster option \<Rightarrow> string \<Rightarrow> string list" where
  "unit_candidates c role =
     (if role \<in> set KAFKA_ROLES
      then unique ((if is_managed c then [unit_name (the c)] else [])
                   @ [dict_get LEGACY_KAFKA_UNITS role ''kafka.service''])
      else [dict_get NON_KAFKA_UNITS role ''kafka'' @ ''.service''])"

definition unit_for :: "cluster option \<Rightarrow> string \<Rightarrow> string" where
  "unit_for c role = hd (unit_candidates c role)"

section \<open>Ports of a service\<close>

definition cluster_config :: "cluster option \<Rightarrow> json" where
  "cluster_config c = (case c of None \<Rightarrow> JObj [] | Some x \<Rightarrow> load_config (c_config_json x))"

definition int_config :: "(string \<times> json) list \<Rightarrow> string \<Rightarrow> int \<Rightarrow> int" where
  "int_config config key d =
     (case py_int (let v = jget config key in if truthy v then v else JInt d) of Inl _ \<Rightarrow> d | Inr n \<Rightarrow> n)"

definition service_ports :: "cluster option \<Rightarrow> service \<Rightarrow> exn + int list" where
  "service_ports c svc =
     (case as_dict (cluster_config c) of
        Inl e \<Rightarrow> (if s_role svc \<in> {''broker'', ''broker_controller'', ''controller'', ''ksqldb'', ''kafka_connect'',
                                ''schema_registry''} then Inl e else Inr [])
      | Inr config \<Rightarrow>
          let role = s_role svc;
              ssl = (truthy (jget config ''ssl_enabled'') \<or> (case c of None \<Rightarrow> False | Some x \<Rightarrow> c_ssl_enabled x));
              ports =
                (if role \<in> {''broker'', ''broker_controller''}
                 then [int_config config ''listener_port'' 9092]
                      @ (if ssl then [int_config config ''ssl_listener_port'' 9096] else []) else [])
                @ (if role \<in> {''controller'', ''broker_controller''} then [int_config config ''controller_port'' 9093] else [])
                @ (if role = ''ksqldb'' then [int_config config ''ksqldb_port'' 8088] else [])
                @ (if role = ''kafka_connect'' then [int_config config ''connect_rest_port'' 8083] else [])
                @ (if role = ''schema_registry'' then [int_config config ''schema_registry_port'' 8085] else [])
          in Inr (sorted_list_of_set (set (filter (\<lambda>p. 0 < p) ports))))"

section \<open>Driving a unit over SSH\<close>

definition unit_exists :: "'w remote \<Rightarrow> host \<Rightarrow> string \<Rightarrow> ('w sys, bool) io" where
  "unit_exists R h u =
     bnd (exec_command R h (''systemctl cat '' @ shlex_quote u @ '' >/dev/null 2>&1'') 10) (\<lambda>(rc, _, _). ret (rc = 0))"

definition unit_state :: "'w remote \<Rightarrow> host \<Rightarrow> string \<Rightarrow> ('w sys, string) io" where
  "unit_state R h u =
     bnd (exec_command R h (''systemctl is-active '' @ shlex_quote u @ '' 2>/dev/null || true'') 10)
       (\<lambda>(_, stdout, _). ret (strip stdout))"

fun select_existing_unit :: "'w remote \<Rightarrow> host \<Rightarrow> string list \<Rightarrow> string list \<Rightarrow> ('w sys, string) io" where
  "select_existing_unit R h candidates [] = ret (hd candidates)"
| "select_existing_unit R h candidates (u # us) =
     bnd (unit_exists R h u) (\<lambda>e. if e then ret u else select_existing_unit R h candidates us)"

definition gone_states :: "string list" where "gone_states = [[], ''inactive'', ''unknown'']"
definition idle_states :: "string list" where "idle_states = [[], ''inactive'', ''failed'', ''unknown'']"
definition live_states :: "string list" where "live_states = [''active'', ''activating'', ''deactivating'']"

definition known_states :: "string list" where
  "known_states = [''active'', ''activating'', ''deactivating'', ''failed'']"

text \<open>\<open>for _ in range(15)\<close> with its \<open>else\<close> branch; \<open>probe\<close> and \<open>kill\<close> are the driver's.\<close>

definition await_idle :: "'w remote \<Rightarrow> ('w sys, string) io \<Rightarrow> ('w sys, unit) io \<Rightarrow> ('w sys, unit) io" where
  "await_idle R probe kill =
     bnd (poll 0 15 (\<lambda>_. bnd probe (\<lambda>state. if state \<in> set idle_states then ret True
                                     else seqm (sleep R 1) (ret False))))
       (\<lambda>broke. if broke then ret () else seqm kill (sleep R 2))"

definition drop_result :: "('s, 'a) io \<Rightarrow> ('s, unit) io" where
  "drop_result m = bnd m (\<lambda>_. ret ())"

definition still_msg :: "string \<Rightarrow> string \<Rightarrow> bool \<times> string" where
  "still_msg u state = (if state \<in> set live_states then (False, u @ '' still '' @ state @ '' after stop'')
                        else (True, ''stopped '' @ u))"

definition stop_unit :: "'w remote \<Rightarrow> host \<Rightarrow> string \<Rightarrow> bool \<Rightarrow> ('w sys, bool \<times> string) io" where
  "stop_unit R h u remove_unit =
     bnd (unit_exists R h u) (\<lambda>exists.
     bnd (unit_state R h u) (\<lambda>state.
     if \<not> exists \<and> state \<in> set gone_states then ret (True, u @ '' not present'')
     else bnd (exec_command R h (''sudo -n systemctl stop '' @ shlex_quote u) 60) (\<lambda>(rc, _, stderr).
       if rc \<noteq> 0 \<and> \<not> contains (lower stderr) ''not loaded''
       then ret (False, ''failed to stop '' @ u @ '': '' @ (if stderr = [] then ''systemctl exit '' @ show_int rc else stderr))
       else
         seqm (await_idle R (unit_state R h u)
                 (drop_result (exec_command R h
                   (''sudo -n systemctl kill --kill-who=all '' @ shlex_quote u @ '' 2>/dev/null || true'') 20)))
        (seqm (exec_command R h (''sudo -n systemctl reset-failed '' @ shlex_quote u @ '' 2>/dev/null || true'') 10)
        (seqm (if remove_unit
               then seqm (exec_command R h (''sudo -n systemctl disable '' @ shlex_quote u @ '' 2>/dev/null || true'') 20)
                   (seqm (exec_command R h (''sudo -n rm -f /etc/systemd/system/'' @ shlex_quote u @ '' 2>/dev/null || true'') 20)
                         (drop_result (exec_command R h ''sudo -n systemctl daemon-reload || true'' 20)))
               else ret ())
        (bnd (unit_state R h u) (\<lambda>state. ret (still_msg u state))))))))"

text \<open>
  The \<open>while\<close> loop over the clock, with fuel: each round sleeps a second, so \<open>timeout + 2\<close> rounds are enough
  when sleeping moves the clock (\<open>wait_fuel_enough\<close>).
\<close>

fun wait_loop :: "nat \<Rightarrow> 'w remote \<Rightarrow> host \<Rightarrow> int list \<Rightarrow> int \<Rightarrow> (int \<times> string) list \<Rightarrow>
    ('w sys, bool \<times> (int \<times> string) list) io" where
  "wait_loop 0 R h ports deadline listening = raise (Exn ''FuelExhausted'' [])"
| "wait_loop (Suc n) R h ports deadline listening =
     bnd (asks (\<lambda>s. r_clock R (wld s))) (\<lambda>now.
     if now \<le> deadline
     then bnd (list_listening_ports R h ports) (\<lambda>l.
          if l = [] then ret (True, []) else seqm (sleep R 1) (wait_loop n R h ports deadline l))
     else ret (False, listening))"

definition wait_ports_released ::
    "'w remote \<Rightarrow> host \<Rightarrow> int list \<Rightarrow> int \<Rightarrow> ('w sys, bool \<times> (int \<times> string) list) io" where
  "wait_ports_released R h ports timeout =
     (if ports = [] then ret (True, [])
      else bnd (asks (\<lambda>s. r_clock R (wld s))) (\<lambda>now. wait_loop (nat timeout + 2) R h ports (now + timeout) []))"

definition known_or_unknown :: "string \<Rightarrow> string" where
  "known_or_unknown st = (if st = [] then ''unknown'' else st)"

primrec probe_loop :: "'w remote \<Rightarrow> host \<Rightarrow> string list \<Rightarrow> string \<Rightarrow> string \<Rightarrow> ('w sys, string \<times> string) io" where
  "probe_loop R h [] fallback_unit fallback_state = ret (fallback_unit, fallback_state)"
| "probe_loop R h (u # us) fallback_unit fallback_state =
     bnd (unit_exists R h u) (\<lambda>exists.
     bnd (unit_state R h u) (\<lambda>st. let state = known_or_unknown st in
     if state \<in> set known_states then ret (u, state)
     else if exists \<and> fallback_state = ''unknown'' then probe_loop R h us u state
     else probe_loop R h us fallback_unit fallback_state))"

definition probe_status :: "'w remote \<Rightarrow> host \<Rightarrow> string list \<Rightarrow> ('w sys, string \<times> string) io" where
  "probe_status R h candidates = probe_loop R h candidates (hd candidates) ''unknown''"

text \<open>\<open>_cleanup_units\<close> for either driver: \<open>look\<close> yields what the driver sees of a unit.\<close>

fun cleanup_fallback :: "(string \<Rightarrow> ('w sys, bool \<times> string) io) \<Rightarrow> string list \<Rightarrow> (string \<times> bool \<times> string) \<Rightarrow>
    ('w sys, (string \<times> bool \<times> string) list) io" where
  "cleanup_fallback look [] primary = ret [primary]"
| "cleanup_fallback look (u # us) primary =
     bnd (look u) (\<lambda>(exists, state).
     if exists \<or> state \<in> set known_states then ret [(u, exists, state)] else cleanup_fallback look us primary)"

definition cleanup_with :: "(string \<Rightarrow> ('w sys, bool \<times> string) io) \<Rightarrow> string list \<Rightarrow>
    ('w sys, (string \<times> bool \<times> string) list) io" where
  "cleanup_with look candidates =
     bnd (look (hd candidates)) (\<lambda>(exists, state).
     if exists \<or> state \<in> set known_states then ret [(hd candidates, exists, state)]
     else cleanup_fallback look (tl candidates) (hd candidates, exists, state))"

definition look_ssh :: "'w remote \<Rightarrow> host \<Rightarrow> string \<Rightarrow> ('w sys, bool \<times> string) io" where
  "look_ssh R h u = bnd (unit_exists R h u) (\<lambda>e. bnd (unit_state R h u) (\<lambda>st. ret (e, st)))"

definition cleanup_units :: "'w remote \<Rightarrow> host \<Rightarrow> string list \<Rightarrow> ('w sys, (string \<times> bool \<times> string) list) io" where
  "cleanup_units R h candidates = cleanup_with (look_ssh R h) candidates"

section \<open>Driving a unit through the agent\<close>

fun select_via_agent :: "'w remote \<Rightarrow> host \<Rightarrow> string list \<Rightarrow> string list \<Rightarrow> ('w sys, string) io" where
  "select_via_agent R h candidates [] = ret (hd candidates)"
| "select_via_agent R h candidates (u # us) =
     bnd (attempt (unit_exists_via_agent R h u)) (\<lambda>r.
     case r of Inr True \<Rightarrow> ret u | _ \<Rightarrow> select_via_agent R h candidates us)"

definition stop_unit_via_agent :: "'w remote \<Rightarrow> host \<Rightarrow> string \<Rightarrow> bool \<Rightarrow> ('w sys, bool \<times> string) io" where
  "stop_unit_via_agent R h u remove_unit =
     catch
      (bnd (unit_exists_via_agent R h u) (\<lambda>exists.
       bnd (unit_state_via_agent R h u) (\<lambda>state.
       if \<not> exists \<and> state \<in> set gone_states then ret (True, u @ '' not present'')
       else bnd (systemctl_action R h ''stop'' u None) (\<lambda>(stop_ok, stop_msg).
         if \<not> stop_ok \<and> \<not> contains (lower stop_msg) ''not loaded''
         then ret (False, ''failed to stop '' @ u @ '': '' @ stop_msg)
         else
           seqm (await_idle R (unit_state_via_agent R h u)
                   (ignore (systemctl_action R h ''kill'' u (Some ''all''))))
          (seqm (ignore (systemctl_action R h ''reset_failed'' u None))
          (seqm (if remove_unit
                 then seqm (ignore (systemctl_action R h ''disable'' u None))
                     (seqm (ignore (file_delete_via_agent R h (''/etc/systemd/system/'' @ u)))
                           (ignore (systemctl_daemon_reload R h)))
                 else ret ())
          (bnd (unit_state_via_agent R h u) (\<lambda>state. ret (still_msg u state)))))))))
      (\<lambda>e. ret (False, ''agent stop failed: '' @ exn_str e))"

definition look_agent :: "'w remote \<Rightarrow> host \<Rightarrow> string \<Rightarrow> ('w sys, bool \<times> string) io" where
  "look_agent R h u =
     catch (bnd (unit_exists_via_agent R h u) (\<lambda>e. bnd (unit_state_via_agent R h u) (\<lambda>st. ret (e, st))))
       (\<lambda>_. ret (False, ''unknown''))"

definition cleanup_units_via_agent ::
    "'w remote \<Rightarrow> host \<Rightarrow> string list \<Rightarrow> ('w sys, (string \<times> bool \<times> string) list) io" where
  "cleanup_units_via_agent R h candidates = cleanup_with (look_agent R h) candidates"

section \<open>One service\<close>

record svc_result =
  r_service_id :: string
  r_action :: string
  r_success :: bool
  r_message :: string
  r_via :: "string option"

definition start_service_via_agent :: "'w remote \<Rightarrow> cluster option \<Rightarrow> service \<Rightarrow> host \<Rightarrow> ('w sys, svc_result) io" where
  "start_service_via_agent R c svc h =
     bnd (let cs = unit_candidates c (s_role svc) in select_via_agent R h cs cs) (\<lambda>u.
     bnd (attempt (systemctl_action R h ''start'' u None)) (\<lambda>r.
     let res = (\<lambda>ok msg. \<lparr>r_service_id = s_id svc, r_action = ''start'', r_success = ok, r_message = msg,
                         r_via = Some ''agent''\<rparr>)
     in case r of
          Inl e \<Rightarrow> ret (res False (''agent dispatch failed: '' @ exn_str e))
        | Inr (ok, msg) \<Rightarrow> ret (res ok (if ok then ''Started '' @ u @ '' on '' @ h_ip_address h else msg))))"

definition start_service :: "'w remote \<Rightarrow> cluster option \<Rightarrow> service \<Rightarrow> host \<Rightarrow> ('w sys, svc_result) io" where
  "start_service R c svc h =
     bnd (let cs = unit_candidates c (s_role svc) in select_existing_unit R h cs cs) (\<lambda>u.
     bnd (exec_command R h (''sudo -n systemctl start '' @ shlex_quote u) 60) (\<lambda>(rc, _, stderr).
     let res = (\<lambda>ok msg. \<lparr>r_service_id = s_id svc, r_action = ''start'', r_success = ok, r_message = msg,
                         r_via = Some ''ssh''\<rparr>)
     in if rc = 0 then ret (res True (''Started '' @ u @ '' on '' @ h_ip_address h))
        else ret (res False (if stderr = [] then ''systemctl exit '' @ show_int rc else stderr))))"

text \<open>The loop over the units to stop: success, messages and whether ports must be checked; the exception that
  ended it, if any.\<close>

fun stop_each :: "(string \<Rightarrow> ('w sys, bool \<times> string) io) \<Rightarrow> (string \<times> bool \<times> string) list \<Rightarrow> bool \<Rightarrow> string list \<Rightarrow> bool \<Rightarrow>
    ('w sys, bool \<times> string list \<times> bool \<times> exn option) io" where
  "stop_each stop [] success messages verify = ret (success, messages, verify, None)"
| "stop_each stop ((u, exists_before, before_state) # us) success messages verify =
     (let verify = (verify \<or> exists_before \<or> before_state \<in> set known_states) in
      bnd (attempt (stop u)) (\<lambda>r.
      case r of
        Inl e \<Rightarrow> ret (success, messages, verify, Some e)
      | Inr (stopped, message) \<Rightarrow> stop_each stop us (success \<and> stopped) (messages @ [message]) verify))"

definition stop_result :: "service \<Rightarrow> string \<Rightarrow> bool \<Rightarrow> string list \<Rightarrow> svc_result" where
  "stop_result svc via success messages =
     (let text = join ''; '' (filter (\<lambda>m. m \<noteq> []) messages)
      in \<lparr>r_service_id = s_id svc, r_action = ''stop'', r_success = success,
         r_message = (if text = [] then ''stopped'' else text), r_via = Some via\<rparr>)"

definition finish_stop :: "service \<Rightarrow> string \<Rightarrow> bool \<times> string list \<Rightarrow> ('w sys, svc_result) io" where
  "finish_stop svc via r = (case r of (success, messages) \<Rightarrow>
     seqm (if success then set_service_status (s_id svc) ''stopped'' else ret ())
       (ret (stop_result svc via success messages)))"

definition held_text :: "(int \<times> string) list \<Rightarrow> string" where
  "held_text listening =
     join '', '' (map (\<lambda>(port, process). show_int port @ '' by '' @ process) (sort_key fst listening))"

definition ports_phase :: "'w remote \<Rightarrow> cluster option \<Rightarrow> service \<Rightarrow> host \<Rightarrow> bool \<Rightarrow> string list \<Rightarrow>
    ('w sys, bool \<times> string list) io" where
  "ports_phase R c svc h success messages =
     bnd (attempt (bnd (lift (service_ports c svc)) (\<lambda>ports. wait_ports_released R h ports 20))) (\<lambda>r.
     case r of
       Inl e \<Rightarrow> ret (False, messages @ [exn_str e])
     | Inr (released, listening) \<Rightarrow>
         if released then ret (success, messages)
         else ret (False, messages @ [''ports still in use: '' @ held_text listening]))"

definition verify_first :: "cluster option \<Rightarrow> service \<Rightarrow> bool" where
  "verify_first c svc \<longleftrightarrow>
     (case c of None \<Rightarrow> False | Some x \<Rightarrow> c_state x \<noteq> ''configured'') \<or> s_status svc \<notin> {''pending'', ''configured''}"

definition cleanup_via_agent :: "'w remote \<Rightarrow> cluster option \<Rightarrow> service \<Rightarrow> host \<Rightarrow> bool \<Rightarrow> ('w sys, bool \<times> string list) io" where
  "cleanup_via_agent R c svc h remove_unit =
     bnd (attempt (cleanup_units_via_agent R h (unit_candidates c (s_role svc)))) (\<lambda>r.
     case r of
       Inl e \<Rightarrow> ret (False, [''agent cleanup failed: '' @ exn_str e])
     | Inr us \<Rightarrow>
         bnd (stop_each (\<lambda>u. stop_unit_via_agent R h u remove_unit) us True [] (verify_first c svc))
           (\<lambda>(success, messages, verify, err).
           case err of Some e \<Rightarrow> ret (False, messages @ [''agent cleanup failed: '' @ exn_str e])
           | None \<Rightarrow> ret (success, messages)))"

definition cleanup_via_ssh :: "'w remote \<Rightarrow> cluster option \<Rightarrow> service \<Rightarrow> host \<Rightarrow> bool \<Rightarrow> ('w sys, bool \<times> string list) io" where
  "cleanup_via_ssh R c svc h remove_unit =
     bnd (attempt (seqm (ssh_connect R h) (cleanup_units R h (unit_candidates c (s_role svc))))) (\<lambda>r.
     case r of
       Inl e \<Rightarrow> ret (False, [exn_str e])
     | Inr us \<Rightarrow>
         bnd (stop_each (\<lambda>u. stop_unit R h u remove_unit) us True [] (verify_first c svc))
           (\<lambda>(success, messages, verify, err).
           case err of Some e \<Rightarrow> ret (False, messages @ [exn_str e])
           | None \<Rightarrow> if verify then ports_phase R c svc h success messages else ret (success, messages)))"

definition cleanup_service :: "'w remote \<Rightarrow> cluster option \<Rightarrow> service \<Rightarrow> host \<Rightarrow> bool \<Rightarrow> ('w sys, svc_result) io" where
  "cleanup_service R c svc h remove_unit =
     bnd (agent_available R (h_id h)) (\<lambda>agent.
     if agent then bnd (cleanup_via_agent R c svc h remove_unit) (finish_stop svc ''agent'')
     else bnd (cleanup_via_ssh R c svc h remove_unit) (finish_stop svc ''ssh''))"

section \<open>Clusters\<close>

definition find_cluster :: "tables \<Rightarrow> string \<Rightarrow> cluster option" where
  "find_cluster d i = List.find (\<lambda>c. c_id c = i) (clusters d)"

definition services_of :: "tables \<Rightarrow> string \<Rightarrow> service list" where
  "services_of d i = filter (\<lambda>s. s_cluster_id s = i) (services d)"

definition no_host :: "service \<Rightarrow> string \<Rightarrow> svc_result" where
  "no_host svc action = \<lparr>r_service_id = s_id svc, r_action = action, r_success = False,
     r_message = ''Host not found'', r_via = None\<rparr>"

definition stop_one :: "'w remote \<Rightarrow> cluster option \<Rightarrow> host list \<Rightarrow> bool \<Rightarrow> service \<Rightarrow> ('w sys, svc_result) io" where
  "stop_one R c hs remove_units svc =
     (case by_id h_id hs (s_host_id svc) of
        None \<Rightarrow> ret (no_host svc ''stop'')
      | Some host \<Rightarrow> cleanup_service R c svc host remove_units)"

definition stop_services :: "'w remote \<Rightarrow> string \<Rightarrow> bool \<Rightarrow> ('w sys, svc_result list) io" where
  "stop_services R cluster_id remove_units =
     bnd (asks sess) (\<lambda>d.
     for_each (stop_one R (find_cluster d cluster_id) (hosts d) remove_units)
       (sort_key (\<lambda>s. dict_get STOP_ORDER (s_role s) 9) (services_of d cluster_id)))"

text \<open>\<open>sync_cluster_state_from_services\<close>: the state it assigns, if any.\<close>

definition synced_state :: "cluster option \<Rightarrow> service list \<Rightarrow> string option" where
  "synced_state cluster svcs =
     (case cluster of
        None \<Rightarrow> None
      | Some c \<Rightarrow>
          if or_str (c_kind c) ''managed'' \<noteq> ''managed'' \<or> c_state c = ''deploying'' then None
          else (let core = filter (\<lambda>s. s_role s \<in> set CORE_SERVICE_ROLES) svcs in
            if core = [] then None
            else (let statuses = map (\<lambda>s. lower (s_status s)) core;
                      new = (if ''error'' \<in> set statuses then Some ''error''
                             else if set statuses = {''running''} then Some ''running''
                             else if set statuses = {''stopped''} then Some ''stopped''
                             else if c_state c = ''running'' \<and> list_ex (\<lambda>st. st \<noteq> ''running'') statuses
                             then Some ''error'' else None)
                  in case new of None \<Rightarrow> None | Some n \<Rightarrow> if c_state c \<noteq> n then Some n else None)))"

definition sync_cluster_state_from_services :: "string \<Rightarrow> ('w sys, bool) io" where
  "sync_cluster_state_from_services cluster_id =
     bnd (asks sess) (\<lambda>d.
     case synced_state (find_cluster d cluster_id) (services_of d cluster_id) of
       None \<Rightarrow> ret False
     | Some st \<Rightarrow> seqm (set_cluster_state cluster_id st) (ret True))"

definition start_one :: "'w remote \<Rightarrow> cluster option \<Rightarrow> host list \<Rightarrow> service \<Rightarrow> ('w sys, svc_result) io" where
  "start_one R c hs svc =
     (case by_id h_id hs (s_host_id svc) of
        None \<Rightarrow> ret (no_host svc ''start'')
      | Some host \<Rightarrow>
          bnd (agent_available R (h_id host)) (\<lambda>agent.
          bnd (if agent then attempt (start_service_via_agent R c svc host)
               else attempt (seqm (ssh_connect R host) (start_service R c svc host))) (\<lambda>r.
          case r of
            Inr result \<Rightarrow>
              seqm (set_service_status (s_id svc) (if r_success result then ''running'' else ''error'')) (ret result)
          | Inl e \<Rightarrow>
              seqm (set_service_status (s_id svc) ''error'')
                (ret \<lparr>r_service_id = s_id svc, r_action = ''start'', r_success = False, r_message = exn_str e,
                      r_via = Some ''ssh''\<rparr>))))"

definition start_cluster :: "'w remote \<Rightarrow> string \<Rightarrow> ('w sys, svc_result list) io" where
  "start_cluster R cluster_id =
     bnd (asks sess) (\<lambda>d.
     bnd (for_each (start_one R (find_cluster d cluster_id) (hosts d))
            (sort_key (\<lambda>s. dict_get START_ORDER (s_role s) 9) (services_of d cluster_id))) (\<lambda>results.
     seqm (if find_cluster d cluster_id \<noteq> None
           then set_cluster_state cluster_id (if list_all r_success results then ''running'' else ''error'')
           else ret ())
    (seqm commit (ret results))))"

definition stop_cluster :: "'w remote \<Rightarrow> string \<Rightarrow> ('w sys, svc_result list) io" where
  "stop_cluster R cluster_id =
     bnd (asks (\<lambda>s. find_cluster (sess s) cluster_id)) (\<lambda>c.
     bnd (stop_services R cluster_id False) (\<lambda>results.
     seqm (if c \<noteq> None
           then set_cluster_state cluster_id (if list_all r_success results then ''stopped'' else ''error'')
           else ret ())
    (seqm commit (ret results))))"

definition cleanup_cluster :: "'w remote \<Rightarrow> string \<Rightarrow> bool \<Rightarrow> ('w sys, svc_result list) io" where
  "cleanup_cluster R cluster_id remove_units =
     bnd (stop_services R cluster_id remove_units) (\<lambda>results. seqm commit (ret results))"

section \<open>Status\<close>

record status_result =
  st_service_id :: string
  st_host :: string
  st_role :: string
  st_status :: string
  st_unit :: "string option"
  st_raw :: "string option"
  st_via :: "string option"
  st_error :: "string option"

text \<open>The probe through the agent; it ends early when the agent is lost, with what was seen so far.\<close>

primrec agent_probe :: "'w remote \<Rightarrow> host \<Rightarrow> string list \<Rightarrow> (string \<times> string) option \<Rightarrow>
    ('w sys, (string \<times> string) option) io" where
  "agent_probe R h [] seen = ret seen"
| "agent_probe R h (u # us) seen =
     bnd (try_systemctl_is_active R h u) (\<lambda>res.
     case res of
       None \<Rightarrow> ret seen
     | Some (_, raw) \<Rightarrow>
         if raw \<in> set known_states then ret (Some (u, raw))
         else agent_probe R h us (if seen = None then Some (u, known_or_unknown raw) else seen))"

definition live_status :: "'w remote \<Rightarrow> cluster option \<Rightarrow> service \<Rightarrow> host \<Rightarrow> ('w sys, string \<times> string) io" where
  "live_status R c svc h =
     bnd (agent_available R (h_id h)) (\<lambda>agent.
     bnd (if agent then agent_probe R h (unit_candidates c (s_role svc)) None else ret None) (\<lambda>seen.
     case seen of
       Some us \<Rightarrow> ret us
     | None \<Rightarrow> seqm (ssh_connect R h) (probe_status R h (unit_candidates c (s_role svc)))))"

definition status_of_raw :: "string \<Rightarrow> string option" where
  "status_of_raw raw =
     (if raw \<in> {''active'', ''activating''} then Some ''running''
      else if raw = ''inactive'' then Some ''stopped''
      else if raw = ''failed'' then Some ''error'' else None)"

definition probe_one :: "'w remote \<Rightarrow> cluster option \<Rightarrow> host list \<Rightarrow> service \<Rightarrow> ('w sys, status_result) io" where
  "probe_one R c hs svc =
     (case by_id h_id hs (s_host_id svc) of
        None \<Rightarrow> ret \<lparr>st_service_id = s_id svc, st_host = ''unknown'', st_role = s_role svc, st_status = ''unknown'',
                    st_unit = None, st_raw = None, st_via = None, st_error = None\<rparr>
      | Some host \<Rightarrow>
          bnd (attempt (live_status R c svc host)) (\<lambda>r.
          case r of
            Inl e \<Rightarrow> ret \<lparr>st_service_id = s_id svc, st_host = h_ip_address host, st_role = s_role svc,
               st_status = s_status svc, st_unit = Some (unit_for c (s_role svc)), st_raw = None, st_via = None,
               st_error = Some (exn_str e)\<rparr>
          | Inr (u, raw) \<Rightarrow>
              let status = (case status_of_raw raw of None \<Rightarrow> s_status svc | Some st \<Rightarrow> st)
              in seqm (set_service_status (s_id svc) status)
                (bnd (agent_available R (h_id host)) (\<lambda>agent.
                 ret \<lparr>st_service_id = s_id svc, st_host = h_ip_address host, st_role = s_role svc,
                   st_status = status, st_unit = Some u, st_raw = Some raw,
                   st_via = Some (if agent then ''agent'' else ''ssh''), st_error = None\<rparr>))))"

definition get_cluster_status :: "'w remote \<Rightarrow> string \<Rightarrow> ('w sys, status_result list) io" where
  "get_cluster_status R cluster_id =
     bnd (asks sess) (\<lambda>d.
     bnd (for_each (probe_one R (find_cluster d cluster_id) (hosts d)) (services_of d cluster_id)) (\<lambda>results.
     seqm (sync_cluster_state_from_services cluster_id)
    (seqm commit (ret results))))"

section \<open>What the steps touch\<close>

lemma world_unit_exists: "world_only (unit_exists R h u)"
  unfolding unit_exists_def by (auto intro!: world_steps split: prod.splits)

lemma world_unit_state: "world_only (unit_state R h u)"
  unfolding unit_state_def by (auto intro!: world_steps split: prod.splits)

lemma world_select: "world_only (select_existing_unit R h cs us)"
  by (induction us) (auto intro!: world_steps world_unit_exists)

lemma world_drop_result: "world_only m \<Longrightarrow> world_only (drop_result m)"
  unfolding drop_result_def by (intro keeps_io.rel_bnd keeps_io.rel_ret)

lemma world_await_idle: "world_only probe \<Longrightarrow> world_only kill \<Longrightarrow> world_only (await_idle R probe kill)"
  unfolding await_idle_def by (auto intro!: world_steps)

lemmas unit_steps = world_unit_exists world_unit_state world_drop_result world_await_idle

lemma world_stop_unit: "world_only (stop_unit R h u rm)"
  unfolding stop_unit_def by (auto intro!: world_steps unit_steps split: prod.splits)

lemma world_wait_loop: "world_only (wait_loop n R h ps dl l)"
proof (induction n arbitrary: l)
  case (Suc n)
  then show ?case
    by (auto intro!: world_steps world_only_list_listening simp: list_listening_ports_def)
qed (simp add: keeps_io.rel_raise)

lemma world_wait: "world_only (wait_ports_released R h ps n)"
  unfolding wait_ports_released_def
  by (intro keeps_io.rel_if keeps_io.rel_ret keeps_io.rel_bnd keeps_io.rel_asks world_wait_loop)

lemma world_cleanup_with: "(\<And>u. world_only (look u)) \<Longrightarrow> world_only (cleanup_with look cs)"
proof -
  assume look: "\<And>u. world_only (look u)"
  have "world_only (cleanup_fallback look us p)" for us p
    by (induction us) (auto intro!: world_steps look split: prod.splits)
  with look show ?thesis unfolding cleanup_with_def by (auto intro!: world_steps split: prod.splits)
qed

lemma world_look_ssh: "world_only (look_ssh R h u)"
  unfolding look_ssh_def by (auto intro!: world_steps unit_steps)

lemma world_look_agent: "world_only (look_agent R h u)"
  unfolding look_agent_def by (auto intro!: world_steps agent_world)

lemma world_stop_via_agent: "world_only (stop_unit_via_agent R h u rm)"
  unfolding stop_unit_via_agent_def
  by (auto intro!: world_steps agent_world world_await_idle split: prod.splits)

lemma world_select_via_agent: "world_only (select_via_agent R h cs us)"
  by (induction us) (auto intro!: world_steps agent_world split: sum.splits bool.splits)

lemma world_stop_each: "(\<And>u. world_only (stop u)) \<Longrightarrow> world_only (stop_each stop us ok ms v)"
  by (induction us arbitrary: ok ms v) (auto simp: Let_def intro!: world_steps split: sum.splits prod.splits)

lemma world_cleanup_agent: "world_only (cleanup_via_agent R c svc h rm)"
  unfolding cleanup_via_agent_def cleanup_units_via_agent_def
  by (auto intro!: world_steps world_cleanup_with world_look_agent world_stop_each world_stop_via_agent
      split: sum.splits prod.splits option.splits)

lemma world_ports_phase: "world_only (ports_phase R c svc h ok ms)"
  unfolding ports_phase_def by (auto intro!: world_steps world_wait split: sum.splits prod.splits)

lemma world_cleanup_ssh: "world_only (cleanup_via_ssh R c svc h rm)"
  unfolding cleanup_via_ssh_def cleanup_units_def
  by (auto intro!: world_steps world_cleanup_with world_look_ssh world_stop_each world_stop_unit world_ports_phase
      split: sum.splits prod.splits option.splits)

section \<open>The interface of a unit driver\<close>

text \<open>
  Both ways to stop a unit are the same steps over five operations of a driver.  The locale states what a
  driver promises, that it acts on the outside world only, and derives what a stop means from the steps
  alone; it is interpreted on the SSH and on the agent operations.
\<close>

definition stop_steps :: "'w remote \<Rightarrow> string \<Rightarrow> ('w sys, bool) io \<Rightarrow> ('w sys, string) io \<Rightarrow> ('w sys, bool \<times> string) io \<Rightarrow>
    ('w sys, unit) io \<Rightarrow> ('w sys, unit) io \<Rightarrow> ('w sys, unit) io \<Rightarrow> ('w sys, bool \<times> string) io" where
  "stop_steps R u exists probe stop kill reset remove =
     bnd exists (\<lambda>e. bnd probe (\<lambda>state.
     if \<not> e \<and> state \<in> set gone_states then ret (True, u @ '' not present'')
     else bnd stop (\<lambda>(failed, msg).
       if failed then ret (False, ''failed to stop '' @ u @ '': '' @ msg)
       else seqm (await_idle R probe kill) (seqm reset (seqm remove (bnd probe (\<lambda>state. ret (still_msg u state))))))))"

locale unit_driver =
  fixes R :: "'w remote" and u :: string and exists :: "('w sys, bool) io" and probe :: "('w sys, string) io"
    and stop :: "('w sys, bool \<times> string) io" and kill reset remove :: "('w sys, unit) io"
  assumes drv_exists: "world_only exists" and drv_probe: "world_only probe" and drv_stop: "world_only stop"
    and drv_kill: "world_only kill" and drv_reset: "world_only reset" and drv_remove: "world_only remove"
begin

lemma drv_world: "world_only (stop_steps R u exists probe stop kill reset remove)"
  unfolding stop_steps_def
  by (auto intro!: world_steps drv_exists drv_probe drv_stop drv_reset drv_remove world_await_idle drv_kill
      split: prod.splits)

text \<open>A stop that reports success ends with a probe of the unit that decides it.\<close>

lemma drv_settled:
  assumes "stop_steps R u exists probe stop kill reset remove s = (Inr (True, msg), t)"
  shows "\<exists>s0 st. probe s0 = (Inr st, t) \<and>
    (msg = u @ '' not present'' \<and> st \<in> set gone_states \<or> msg = ''stopped '' @ u \<and> st \<notin> set live_states)"
proof -
  from assms obtain e s1 st s2 where p: "probe s1 = (Inr st, s2)"
    and rest: "(if \<not> e \<and> st \<in> set gone_states then ret (True, u @ '' not present'')
     else bnd stop (\<lambda>(failed, msg).
       if failed then ret (False, ''failed to stop '' @ u @ '': '' @ msg)
       else seqm (await_idle R probe kill) (seqm reset (seqm remove (bnd probe (\<lambda>state. ret (still_msg u state))))))) s2
       = (Inr (True, msg), t)"
    unfolding stop_steps_def by (elim bnd_InrE)
  show ?thesis
  proof (cases "\<not> e \<and> st \<in> set gone_states")
    case True
    then have "s2 = t" and "msg = u @ '' not present''" using rest by simp_all
    with p True show ?thesis by blast
  next
    case False
    then have "bnd stop (\<lambda>(failed, msg).
       if failed then ret (False, ''failed to stop '' @ u @ '': '' @ msg)
       else seqm (await_idle R probe kill) (seqm reset (seqm remove (bnd probe (\<lambda>state. ret (still_msg u state)))))) s2
       = (Inr (True, msg), t)"
      using rest by (simp only: if_False simp_thms)
    then obtain failed m s3 where "(if failed then ret (False, ''failed to stop '' @ u @ '': '' @ m)
       else seqm (await_idle R probe kill) (seqm reset (seqm remove (bnd probe (\<lambda>state. ret (still_msg u state)))))) s3
       = (Inr (True, msg), t)"
      by (elim bnd_InrE) (auto split: prod.splits)
    then have "seqm (await_idle R probe kill) (seqm reset (seqm remove (bnd probe (\<lambda>state. ret (still_msg u state))))) s3
       = (Inr (True, msg), t)"
      by (simp split: if_splits)
    then obtain s4 st' where "probe s4 = (Inr st', t)" "still_msg u st' = (True, msg)"
      unfolding seqm_def by (elim bnd_InrE) simp
    then show ?thesis by (auto simp: still_msg_def split: if_splits)
  qed
qed

end

definition ssh_stop :: "'w remote \<Rightarrow> host \<Rightarrow> string \<Rightarrow> ('w sys, bool \<times> string) io" where
  "ssh_stop R h u = bnd (exec_command R h (''sudo -n systemctl stop '' @ shlex_quote u) 60) (\<lambda>(rc, _, stderr).
     ret (rc \<noteq> 0 \<and> \<not> contains (lower stderr) ''not loaded'',
          if stderr = [] then ''systemctl exit '' @ show_int rc else stderr))"

definition agent_stop :: "'w remote \<Rightarrow> host \<Rightarrow> string \<Rightarrow> ('w sys, bool \<times> string) io" where
  "agent_stop R h u = bnd (systemctl_action R h ''stop'' u None) (\<lambda>(ok, msg).
     ret (\<not> ok \<and> \<not> contains (lower msg) ''not loaded'', msg))"

definition ssh_kill :: "'w remote \<Rightarrow> host \<Rightarrow> string \<Rightarrow> ('w sys, unit) io" where
  "ssh_kill R h u = drop_result (exec_command R h
     (''sudo -n systemctl kill --kill-who=all '' @ shlex_quote u @ '' 2>/dev/null || true'') 20)"

definition ssh_reset :: "'w remote \<Rightarrow> host \<Rightarrow> string \<Rightarrow> ('w sys, unit) io" where
  "ssh_reset R h u = drop_result (exec_command R h
     (''sudo -n systemctl reset-failed '' @ shlex_quote u @ '' 2>/dev/null || true'') 10)"

definition ssh_remove :: "'w remote \<Rightarrow> host \<Rightarrow> string \<Rightarrow> bool \<Rightarrow> ('w sys, unit) io" where
  "ssh_remove R h u rm =
     (if rm
      then seqm (exec_command R h (''sudo -n systemctl disable '' @ shlex_quote u @ '' 2>/dev/null || true'') 20)
          (seqm (exec_command R h (''sudo -n rm -f /etc/systemd/system/'' @ shlex_quote u @ '' 2>/dev/null || true'') 20)
                (drop_result (exec_command R h ''sudo -n systemctl daemon-reload || true'' 20)))
      else ret ())"

definition agent_remove :: "'w remote \<Rightarrow> host \<Rightarrow> string \<Rightarrow> bool \<Rightarrow> ('w sys, unit) io" where
  "agent_remove R h u rm =
     (if rm
      then seqm (ignore (systemctl_action R h ''disable'' u None))
          (seqm (ignore (file_delete_via_agent R h (''/etc/systemd/system/'' @ u)))
                (ignore (systemctl_daemon_reload R h)))
      else ret ())"

interpretation ssh: unit_driver R u "unit_exists R h u" "unit_state R h u" "ssh_stop R h u" "ssh_kill R h u"
    "ssh_reset R h u" "ssh_remove R h u rm" for R :: "'w remote" and h u rm
  by unfold_locales
     (auto simp: ssh_stop_def ssh_kill_def ssh_reset_def ssh_remove_def intro!: world_steps unit_steps)

interpretation agent: unit_driver R u "unit_exists_via_agent R h u" "unit_state_via_agent R h u"
    "agent_stop R h u" "ignore (systemctl_action R h ''kill'' u (Some ''all''))"
    "ignore (systemctl_action R h ''reset_failed'' u None)" "agent_remove R h u rm" for R :: "'w remote" and h u rm
  by unfold_locales (auto simp: agent_remove_def agent_stop_def intro!: world_steps agent_world)

lemma bnd_assoc: "bnd (bnd m f) k = bnd m (\<lambda>x. bnd (f x) k)"
  by (rule ext) (simp add: bnd_def split: prod.split sum.split)

lemma seqm_drop: "seqm (drop_result m) n = seqm m n"
  by (simp add: seqm_def drop_result_def bnd_assoc)

lemma bnd_ret_pair: "bnd (case x of (a, b, c) \<Rightarrow> ret (f a b c)) k = (case x of (a, b, c) \<Rightarrow> k (f a b c))"
  "bnd (case y of (a, b) \<Rightarrow> ret (g a b)) l = (case y of (a, b) \<Rightarrow> l (g a b))"
  by (simp_all split: prod.split)

lemma stop_via_agent_steps:
  "stop_unit_via_agent R h u rm =
   catch (stop_steps R u (unit_exists_via_agent R h u) (unit_state_via_agent R h u)
     (agent_stop R h u) (ignore (systemctl_action R h ''kill'' u (Some ''all'')))
     (ignore (systemctl_action R h ''reset_failed'' u None)) (agent_remove R h u rm))
   (\<lambda>e. ret (False, ''agent stop failed: '' @ exn_str e))"
  unfolding stop_unit_via_agent_def stop_steps_def agent_stop_def agent_remove_def bnd_assoc bnd_ret_pair
    prod.case ..

lemma stop_unit_steps:
  "stop_unit R h u rm = stop_steps R u (unit_exists R h u) (unit_state R h u) (ssh_stop R h u) (ssh_kill R h u)
     (ssh_reset R h u) (ssh_remove R h u rm)"
  unfolding stop_unit_def stop_steps_def ssh_stop_def ssh_kill_def ssh_reset_def ssh_remove_def seqm_drop
    bnd_assoc bnd_ret_pair prod.case ..

section \<open>Properties of a stop\<close>

text \<open>
  Claim C4.  Over SSH as well as through the agent, a stop that reports success is decided by a last probe of the unit that
  did not raise, after all other steps on the host: the message \<open>not present\<close> follows an answer that was empty, \<open>inactive\<close>
  or \<open>unknown\<close>, and the message \<open>stopped\<close> one that was none of \<open>active\<close>, \<open>activating\<close> and \<open>deactivating\<close>.  So a unit
  seen in one of these three states is never reported as stopped, after the poll of fifteen seconds and the kill either;
  but every other answer counts as stopped, \<open>failed\<close> and \<open>reloading\<close>, and also an empty or unknown one,
  which is what \<open>systemctl is-active\<close> leaves when the probe itself does not work.
\<close>

theorem stop_success_settled:
  assumes "stop_unit R h u rm s = (Inr (True, msg), t)"
    and "stop_unit_via_agent R' h u rm s' = (Inr (True, msg'), t')"
  shows "(\<exists>s0 st. unit_state R h u s0 = (Inr st, t) \<and>
        (msg = u @ '' not present'' \<and> st \<in> {[], ''inactive'', ''unknown''} \<or>
         msg = ''stopped '' @ u \<and> st \<notin> {''active'', ''activating'', ''deactivating''})) \<and>
     (\<exists>s0 st. unit_state_via_agent R' h u s0 = (Inr st, t') \<and>
        (msg' = u @ '' not present'' \<and> st \<in> {[], ''inactive'', ''unknown''} \<or>
         msg' = ''stopped '' @ u \<and> st \<notin> {''active'', ''activating'', ''deactivating''}))"
proof -
  have "\<exists>s0 st. unit_state R h u s0 = (Inr st, t) \<and>
    (msg = u @ '' not present'' \<and> st \<in> set gone_states \<or> msg = ''stopped '' @ u \<and> st \<notin> set live_states)"
    using ssh.drv_settled assms(1) unfolding stop_unit_steps by blast
  moreover have "\<exists>s0 st. unit_state_via_agent R' h u s0 = (Inr st, t') \<and>
    (msg' = u @ '' not present'' \<and> st \<in> set gone_states \<or> msg' = ''stopped '' @ u \<and> st \<notin> set live_states)"
  proof -
    obtain r s1 where run: "stop_steps R' u (unit_exists_via_agent R' h u) (unit_state_via_agent R' h u)
       (agent_stop R' h u) (ignore (systemctl_action R' h ''kill'' u (Some ''all'')))
       (ignore (systemctl_action R' h ''reset_failed'' u None)) (agent_remove R' h u rm) s' = (r, s1)"
      by (cases "stop_steps R' u (unit_exists_via_agent R' h u) (unit_state_via_agent R' h u)
       (agent_stop R' h u) (ignore (systemctl_action R' h ''kill'' u (Some ''all'')))
       (ignore (systemctl_action R' h ''reset_failed'' u None)) (agent_remove R' h u rm) s'")
    show ?thesis
    proof (cases r)
      case (Inl e)
      with assms(2) run show ?thesis by (simp add: stop_via_agent_steps catch_run)
    next
      case (Inr x)
      with assms(2) run have "x = (True, msg')" "s1 = t'" by (simp_all add: stop_via_agent_steps catch_run)
      with agent.drv_settled run Inr show ?thesis by blast
    qed
  qed
  ultimately show ?thesis by (simp add: live_states_def gone_states_def)
qed

text \<open>A host whose unit is known and rests as soon as it was told to stop; it answers both drivers alike.\<close>

definition unit_host :: "string remote" where
  "unit_host = \<lparr>r_connect = (\<lambda>h w. (Inr (), w)),
     r_exec = (\<lambda>h c n w. if starts_with c ''systemctl is-active'' then (Inr (0, w, []), w)
        else if starts_with c ''sudo -n systemctl stop'' then (Inr (0, [], []), ''inactive'')
        else if starts_with c ''sudo -n systemctl start'' then (Inr (0, [], []), ''active'')
        else (Inr (0, [], []), w)),
     r_write = (\<lambda>h c p w. (Inr (), w)), r_put = (\<lambda>h l p w. (Inr (), w)), r_sleep = (\<lambda>n w. w), r_clock = (\<lambda>w. 0),
     r_agent_connected = (\<lambda>h w. True),
     r_agent_send = (\<lambda>h op args n w. let ok = (\<lambda>out. AgentOk \<lparr>ar_exit_code = Some 0, ar_stdout = Some out, ar_stderr = None\<rparr>)
        in if op = ''systemctl.is_active'' then (Inr (ok w), w)
           else if op = ''systemctl.stop'' then (Inr (ok []), ''inactive'') else (Inr (ok []), w))\<rparr>"

theorem stop_success_settled_witness:
  "\<exists>t st s0. fst (stop_unit unit_host sample_host ''kafka.service'' True (plain_sys ''active'')) = Inr (True, ''stopped kafka.service'') \<and>
      unit_state unit_host sample_host ''kafka.service'' s0 = (Inr st, t) \<and> st \<notin> {''active'', ''activating'', ''deactivating''}"
proof -
  let ?a = "stop_unit unit_host sample_host ''kafka.service'' True (plain_sys ''active'')"
  let ?b = "stop_unit_via_agent unit_host sample_host ''kafka.service'' True (plain_sys ''active'')"
  have a: "fst ?a = Inr (True, ''stopped kafka.service'')" by code_simp
  then have a': "?a = (Inr (True, ''stopped kafka.service''), snd ?a)" by (metis prod.collapse)
  have "fst ?b = Inr (True, ''stopped kafka.service'')" by code_simp
  then have b': "?b = (Inr (True, ''stopped kafka.service''), snd ?b)" by (metis prod.collapse)
  have "''stopped kafka.service'' \<noteq> ''kafka.service'' @ '' not present''" by simp
  with stop_success_settled[OF a' b', THEN conjunct1] a show ?thesis by blast
qed

text \<open>
  The ports of a stopped service are free.  When a cleanup over SSH reports success for a service that
  had been deployed, and the service has ports, then the last thing done on the host was a listing of
  exactly those ports that found none of them held.
\<close>

theorem cleanup_ports_free:
  assumes "cleanup_via_ssh R c svc h rm s = (Inr (True, ms), t)"
    and "verify_first c svc" and "service_ports c svc = Inr ps" and "ps \<noteq> []"
  shows "\<exists>s0. list_listening R h ps s0 = (Inr [], t)"
proof -
  have verify: "v" if "stop_each stop us ok ms True s = (Inr (ok', ms', v, None), s')" for stop us ok ms ok' ms' v s s'
    using that
    by (induction us arbitrary: ok ms s) (auto simp: Let_def split: prod.splits sum.splits elim!: bnd_InrE)
  have ports: "\<exists>s0. list_listening R h ps s0 = (Inr [], t)"
    if w: "wait_loop n R h ps dl l s = (Inr (True, l'), t)" for n dl l l' s t
    using w
  proof (induction n arbitrary: l s)
    case (Suc n)
    then show ?case
      by (auto simp: list_listening_ports_def bnd_run seqm_run sleep_def split: if_splits prod.splits sum.splits)
  qed simp
  from assms(1) obtain us s1 ok ms' v err s2 where
      se: "stop_each (\<lambda>u. stop_unit R h u rm) us True [] True s1 = (Inr (ok, ms', v, err), s2)"
    and rest: "(case err of Some e \<Rightarrow> ret (False, ms' @ [exn_str e])
           | None \<Rightarrow> if v then ports_phase R c svc h ok ms' else ret (ok, ms')) s2 = (Inr (True, ms), t)"
    using assms(2) unfolding cleanup_via_ssh_def
    by (elim bnd_InrE) (auto split: sum.splits elim!: bnd_InrE)
  then have "err = None" by (cases err) auto
  then have "v" using verify se by blast
  with rest \<open>err = None\<close> have "ports_phase R c svc h ok ms' s2 = (Inr (True, ms), t)" by simp
  then have "\<exists>l. wait_ports_released R h ps 20 s2 = (Inr (True, l), t)"
    by (auto simp: ports_phase_def assms(3) attempt_run bnd_run split: prod.splits sum.splits if_splits)
  then obtain l where "wait_ports_released R h ps 20 s2 = (Inr (True, l), t)" ..
  then show ?thesis
    using assms(4) ports by (auto simp: wait_ports_released_def bnd_run simp del: wait_loop.simps)
qed

definition sample_service :: "string \<Rightarrow> string \<Rightarrow> service" where
  "sample_service i role = \<lparr>s_id = i, s_cluster_id = ''c1'', s_host_id = ''h1'', s_role = role, s_node_id = 1,
     s_status = ''running''\<rparr>"

theorem cleanup_ports_free_witness:
  "\<exists>t s0. snd (cleanup_via_ssh unit_host None (sample_service ''s1'' ''broker'') sample_host False (plain_sys ''active'')) = t \<and>
     list_listening unit_host sample_host [9092] s0 = (Inr [], t)"
proof -
  let ?a = "cleanup_via_ssh unit_host None (sample_service ''s1'' ''broker'') sample_host False (plain_sys ''active'')"
  have "fst ?a = Inr (True, [''stopped kafka.service''])" by code_simp
  then have run: "?a = (Inr (True, [''stopped kafka.service'']), snd ?a)" by (metis prod.collapse)
  have v: "verify_first None (sample_service ''s1'' ''broker'')" by code_simp
  have p: "service_ports None (sample_service ''s1'' ''broker'') = Inr [9092]" by code_simp
  show ?thesis using cleanup_ports_free[OF run v p] by simp
qed

section \<open>The wait ends\<close>

text \<open>What the wait needs of the clock: commands do not turn it back and sleeping moves it.\<close>

definition clock_ok :: "'w remote \<Rightarrow> bool" where
  "clock_ok R \<longleftrightarrow> (\<forall>h c n w. r_clock R w \<le> r_clock R (snd (r_exec R h c n w))) \<and>
     (\<forall>n w. r_clock R w + n \<le> r_clock R (r_sleep R n w))"

definition time_of :: "'w remote \<Rightarrow> 'w sys \<Rightarrow> int" where
  "time_of R s = r_clock R (wld s)"

definition forward :: "'w remote \<Rightarrow> 'w sys \<Rightarrow> 'w sys \<Rightarrow> bool" where
  "forward R s t \<longleftrightarrow> time_of R s \<le> time_of R t"

interpretation forward_io: io_preorder "forward R" for R :: "'w remote"
  by unfold_locales (auto simp: forward_def)

lemma forward_exec: "clock_ok R \<Longrightarrow> rel_io (forward R) (exec_command R h c n)"
  unfolding exec_command_def
  by (intro forward_io.rel_bnd)
     (auto simp: rel_io_def forward_def time_of_def on_wld_def clock_ok_def split: prod.splits, metis snd_conv)

lemma forward_listing: "clock_ok R \<Longrightarrow> rel_io (forward R) (list_listening R h ports)"
  unfolding list_listening_def by (auto intro!: forward_io.rel_intros forward_exec split: prod.splits)

text \<open>
  Claim C40.  Waiting for ports to be released ends.  When sleeping moves the clock, the rounds the model allows,
  two more than the timeout in seconds, are enough: any larger number gives the same outcome, so the
  \<open>while\<close> loop of the code has left by then, with the ports free, with the timeout or with the exception
  of a listing.
\<close>

theorem wait_fuel_enough:
  assumes "clock_ok R" and "deadline \<le> time_of R s + timeout" and "0 \<le> timeout"
  shows "wait_loop (nat timeout + 2 + k) R h ports deadline l s = wait_loop (nat timeout + 2) R h ports deadline l s"
proof -
  have "wait_loop (n + k) R h ports deadline l s = wait_loop n R h ports deadline l s"
    if "deadline - time_of R s + 2 \<le> int n" "0 < n" for n l s
    using that
  proof (induction n arbitrary: l s)
    case (Suc n)
    show ?case
    proof (cases "time_of R s \<le> deadline")
      case False
      then show ?thesis by (simp add: bnd_run time_of_def)
    next
      case True
      obtain r s1 where l: "list_listening R h ports s = (r, s1)" by (cases "list_listening R h ports s")
      let ?s2 = "s1\<lparr>wld := r_sleep R 1 (wld s1)\<rparr>"
      have "time_of R s \<le> time_of R s1"
        using rel_ioD[OF forward_listing[OF assms(1)] l] by (simp add: forward_def)
      moreover have "time_of R s1 + 1 \<le> time_of R ?s2"
        using assms(1) by (simp add: clock_ok_def time_of_def)
      ultimately have "deadline - time_of R ?s2 + 2 \<le> int n" "0 < n"
        using Suc.prems True by linarith+
      then have "wait_loop (n + k) R h ports deadline l' ?s2 = wait_loop n R h ports deadline l' ?s2" for l'
        by (rule Suc.IH)
      then show ?thesis
        using True by (simp add: bnd_run list_listening_ports_def l seqm_run sleep_def time_of_def split: sum.split)
    qed
  qed simp
  from this[of s "nat timeout + 2" l] assms(2,3) show ?thesis by simp
qed

definition ticking :: "int remote" where
  "ticking = \<lparr>r_connect = (\<lambda>h w. (Inr (), w)), r_exec = (\<lambda>h c n w. (Inr (0, ''9092::LISTEN'', []), w)),
     r_write = (\<lambda>h c p w. (Inr (), w)), r_put = (\<lambda>h l p w. (Inr (), w)), r_sleep = (\<lambda>n w. w + n), r_clock = (\<lambda>w. w),
     r_agent_connected = (\<lambda>h w. False), r_agent_send = (\<lambda>h op args n w. (Inr (AgentErr None), w))\<rparr>"

theorem wait_fuel_enough_witness:
  "fst (wait_loop (nat 1 + 2 + 7) ticking sample_host [9092] 6 [] (plain_sys 5)) = Inr (False, [(9092, ''unknown'')])"
proof -
  have ok: "clock_ok ticking" by (simp add: clock_ok_def ticking_def)
  have "(6::int) \<le> time_of ticking (plain_sys 5) + 1" "(0::int) \<le> 1" by (simp_all add: time_of_def plain_sys_def ticking_def)
  from wait_fuel_enough[OF ok this, of 7 sample_host "[9092]" "[]"]
  have "wait_loop (nat 1 + 2 + 7) ticking sample_host [9092] 6 [] (plain_sys 5) =
     wait_loop (nat 1 + 2) ticking sample_host [9092] 6 [] (plain_sys 5)" .
  moreover have "fst (wait_loop (nat 1 + 2) ticking sample_host [9092] 6 [] (plain_sys 5)) = Inr (False, [(9092, ''unknown'')])"
    by code_simp
  ultimately show ?thesis by simp
qed

section \<open>Loops over services\<close>

text \<open>A step for a service that always returns, names the service and changes its row only.\<close>

definition marks :: "(service \<Rightarrow> ('w sys, svc_result) io) \<Rightarrow> (service \<Rightarrow> svc_result \<Rightarrow> service \<Rightarrow> service) \<Rightarrow> bool" where
  "marks f m \<longleftrightarrow> (\<forall>svc s. \<exists>res t. f svc s = (Inr res, t) \<and> r_service_id res = s_id svc \<and>
     committed t = committed s \<and>
     sess t = (sess s)\<lparr>services := upd_by s_id (s_id svc) (m svc res) (services (sess s))\<rparr>)"

definition mark_list :: "(service \<Rightarrow> svc_result \<Rightarrow> service \<Rightarrow> service) \<Rightarrow> service list \<Rightarrow> svc_result list \<Rightarrow>
    (string \<times> (service \<Rightarrow> service)) list" where
  "mark_list m svcs results = map (\<lambda>(svc, res). (s_id svc, m svc res)) (zip svcs results)"

lemma for_each_marks:
  assumes "marks f m"
  shows "\<exists>results t. for_each f svcs s = (Inr results, t) \<and> map r_service_id results = map s_id svcs \<and>
     committed t = committed s \<and>
     sess t = (sess s)\<lparr>services := fold (\<lambda>(i, g). upd_by s_id i g) (mark_list m svcs results) (services (sess s))\<rparr>"
proof (induction svcs arbitrary: s)
  case (Cons svc svcs)
  obtain res u where r: "f svc s = (Inr res, u)" "r_service_id res = s_id svc" "committed u = committed s"
    "sess u = (sess s)\<lparr>services := upd_by s_id (s_id svc) (m svc res) (services (sess s))\<rparr>"
    using assms unfolding marks_def by blast
  obtain results t where "for_each f svcs u = (Inr results, t)" "map r_service_id results = map s_id svcs"
    "committed t = committed u"
    "sess t = (sess u)\<lparr>services := fold (\<lambda>(i, g). upd_by s_id i g) (mark_list m svcs results) (services (sess u))\<rparr>"
    using Cons.IH by blast
  with r show ?case by (intro exI[of _ "res # results"] exI[of _ t]) (simp add: bnd_run mark_list_def)
qed (simp add: mark_list_def)

lemma status_marked:
  assumes "distinct (map s_id (services d))" and "set svcs \<subseteq> set (services d)" and "distinct (map s_id svcs)"
    and "map r_service_id results = map s_id svcs" and "\<And>svc res r. s_id (m svc res r) = s_id r"
    and "(svc, res) \<in> set (zip svcs results)"
  shows "List.find (\<lambda>r. s_id r = s_id svc) (fold (\<lambda>(i, g). upd_by s_id i g) (mark_list m svcs results) (services d)) =
     Some (m svc res svc)"
proof -
  have len: "length results = length svcs" using assms(4) by (metis length_map)
  have "map fst (mark_list m svcs results) = map s_id svcs"
    using len by (simp add: mark_list_def comp_def case_prod_beta map_fst_zip flip: map_map[of s_id fst, unfolded comp_def])
  then have "List.find (\<lambda>r. s_id r = s_id svc) (fold (\<lambda>(i, g). upd_by s_id i g) (mark_list m svcs results) (services d)) =
     map_option (m svc res) (List.find (\<lambda>r. s_id r = s_id svc) (services d))"
    using assms(3,5,6)
    by (intro service_table.find_fold_same) (auto simp: mark_list_def list_all_iff)
  moreover have "svc \<in> set (services d)" using assms(2,6) by (auto dest: set_zip_leftD)
  then have "List.find (\<lambda>r. s_id r = s_id svc) (services d) = Some svc"
    by (rule service_table.find_distinct[OF assms(1)])
  ultimately show ?thesis by simp
qed

definition start_mark :: "host list \<Rightarrow> service \<Rightarrow> svc_result \<Rightarrow> service \<Rightarrow> service" where
  "start_mark hs svc res r = (if by_id h_id hs (s_host_id svc) = None then r
     else r\<lparr>s_status := (if r_success res then ''running'' else ''error'')\<rparr>)"

definition stop_mark :: "service \<Rightarrow> svc_result \<Rightarrow> service \<Rightarrow> service" where
  "stop_mark svc res r = (if r_success res then r\<lparr>s_status := ''stopped''\<rparr> else r)"

lemma sess_same: "(d :: tables)\<lparr>services := upd_by s_id i (\<lambda>r. r) (services d)\<rparr> = d"
  by (simp add: upd_by_ident)

lemma set_status_run: "set_service_status i st s = (Inr (),
    s\<lparr>sess := (sess s)\<lparr>services := upd_by s_id i (\<lambda>r. r\<lparr>s_status := st\<rparr>) (services (sess s))\<rparr>\<rparr>)"
  by (simp add: set_service_status_def upd_sess_def)

lemma start_ids: "start_service_via_agent R c svc h s = (Inr res, t) \<Longrightarrow> r_service_id res = s_id svc"
  "start_service R c svc h s' = (Inr res, t) \<Longrightarrow> r_service_id res = s_id svc"
  unfolding start_service_via_agent_def start_service_def Let_def
  by (auto elim!: bnd_InrE split: sum.splits prod.splits if_splits)

lemma world_start: "world_only (start_service_via_agent R c svc h)" "world_only (start_service R c svc h)"
  unfolding start_service_via_agent_def start_service_def Let_def
  by (auto intro!: world_steps world_select world_select_via_agent agent_world split: sum.splits prod.splits)

lemma start_one_marks: "marks (start_one R c hs) (start_mark hs)"
  unfolding marks_def
proof (intro allI)
  fix svc s
  show "\<exists>res t. start_one R c hs svc s = (Inr res, t) \<and> r_service_id res = s_id svc \<and> committed t = committed s \<and>
     sess t = (sess s)\<lparr>services := upd_by s_id (s_id svc) (start_mark hs svc res) (services (sess s))\<rparr>"
  proof (cases "by_id h_id hs (s_host_id svc)")
    case None
    then show ?thesis by (simp add: start_one_def no_host_def start_mark_def[abs_def] sess_same)
  next
    case (Some h)
    let ?m = "if r_agent_connected R (h_id h) (wld s) then start_service_via_agent R c svc h
       else seqm (ssh_connect R h) (start_service R c svc h)"
    obtain r u where m: "?m s = (r, u)" by (cases "?m s")
    have "world_only ?m" by (auto intro!: keeps_io.rel_seqm world_start world_only_connect)
    from world_onlyD[OF this m] have u: "sess u = sess s" "committed u = committed s" by simp_all
    have id: "r = Inr res \<Longrightarrow> r_service_id res = s_id svc" for res
      using m start_ids by (fastforce simp: seqm_def elim!: bnd_InrE split: if_splits)
    have run: "start_one R c hs svc s = (case r of
         Inr result \<Rightarrow> seqm (set_service_status (s_id svc) (if r_success result then ''running'' else ''error'')) (ret result)
       | Inl e \<Rightarrow> seqm (set_service_status (s_id svc) ''error'')
                (ret \<lparr>r_service_id = s_id svc, r_action = ''start'', r_success = False, r_message = exn_str e,
                      r_via = Some ''ssh''\<rparr>)) u"
      using m Some by (simp add: start_one_def agent_available_def bnd_run attempt_run split: if_splits)
    show ?thesis
      by (cases r) (simp_all add: run seqm_run set_status_run u id start_mark_def[abs_def] Some)
  qed
qed

lemma cleanup_service_mark:
  "\<exists>res t. cleanup_service R c svc h rm s = (Inr res, t) \<and> r_service_id res = s_id svc \<and> committed t = committed s \<and>
     sess t = (sess s)\<lparr>services := upd_by s_id (s_id svc) (stop_mark svc res) (services (sess s))\<rparr>"
proof -
  let ?a = "r_agent_connected R (h_id h) (wld s)"
  let ?m = "if ?a then cleanup_via_agent R c svc h rm else cleanup_via_ssh R c svc h rm"
  have inr: "\<exists>y t. stop_each stop us ok ms v s = (Inr y, t)"
    for stop :: "string \<Rightarrow> ('a sys, bool \<times> string) io" and us ok ms v s
    by (induction us arbitrary: ok ms v s) (auto simp: Let_def bnd_run attempt_run split: sum.split prod.split)
  have total: "\<exists>y t. ?m s = (Inr y, t)"
  proof (cases ?a)
    case True
    show ?thesis using inr[of "\<lambda>u. stop_unit_via_agent R h u rm" _ True "[]" "verify_first c svc"]
      by (auto simp: True cleanup_via_agent_def bnd_run attempt_run split: prod.split sum.split option.split)
         (metis (no_types, lifting) Inr_not_Inl Pair_inject)+
  next
    case False
    have ports: "\<exists>y t. ports_phase R c svc h ok ms s = (Inr y, t)" for ok ms s
      by (auto simp: ports_phase_def bnd_run attempt_run split: prod.split sum.split)
    show ?thesis using inr[of "\<lambda>u. stop_unit R h u rm" _ True "[]" "verify_first c svc"] ports
      by (auto simp: False cleanup_via_ssh_def bnd_run attempt_run split: prod.split sum.split option.split)
         (metis (no_types, lifting) Inr_not_Inl Pair_inject)+
  qed
  then obtain ok ms u where m: "?m s = (Inr (ok, ms), u)" by auto
  have "world_only ?m" by (simp add: world_cleanup_agent world_cleanup_ssh)
  from world_onlyD[OF this m] have u: "sess u = sess s" "committed u = committed s" by simp_all
  have "cleanup_service R c svc h rm s = finish_stop svc (if ?a then ''agent'' else ''ssh'') (ok, ms) u"
    using m by (simp add: cleanup_service_def agent_available_def bnd_run split: if_splits)
  then show ?thesis
    by (simp add: finish_stop_def seqm_run set_status_run u stop_result_def Let_def stop_mark_def[abs_def] sess_same)
qed

lemma stop_one_marks: "marks (stop_one R c hs rm) stop_mark"
  unfolding marks_def
proof (intro allI)
  fix svc s
  show "\<exists>res t. stop_one R c hs rm svc s = (Inr res, t) \<and> r_service_id res = s_id svc \<and> committed t = committed s \<and>
     sess t = (sess s)\<lparr>services := upd_by s_id (s_id svc) (stop_mark svc res) (services (sess s))\<rparr>"
    using cleanup_service_mark[of R c svc _ rm s]
    by (cases "by_id h_id hs (s_host_id svc)")
       (simp_all add: stop_one_def no_host_def stop_mark_def[abs_def] sess_same)
qed

lemma find_cluster_set: "find_cluster ((d :: tables)\<lparr>clusters := upd_by c_id i (\<lambda>r. r\<lparr>c_state := st\<rparr>) (clusters d)\<rparr>) i =
    map_option (\<lambda>c. c\<lparr>c_state := st\<rparr>) (find_cluster d i)"
  unfolding find_cluster_def by simp (rule cluster_table.find_upd_same, simp)

lemma find_cluster_services [simp]: "find_cluster ((d :: tables)\<lparr>services := x\<rparr>) i = find_cluster d i"
  by (simp add: find_cluster_def)

lemma service_status_def': "service_status i s = map_option s_status (List.find (\<lambda>r. s_id r = i) (services (sess s)))"
  by (simp add: service_status_def)

lemma services_of_subset: "set (sort_key k (services_of d i)) \<subseteq> set (services d)"
  by (auto simp: services_of_def)

lemma services_of_distinct: "distinct (map s_id (services d)) \<Longrightarrow> distinct (map s_id (sort_key k (services_of d i)))"
  unfolding services_of_def distinct_map
  by (auto simp: inj_on_def distinct_map)

text \<open>The end of \<open>start_cluster\<close> and \<open>stop_cluster\<close>: set the state of the cluster, commit.\<close>

lemma finish_cluster:
  assumes "find_cluster (sess u) i = c"
  shows "\<exists>t. seqm (if c \<noteq> None then set_cluster_state i st else ret ()) (seqm commit (ret x)) u = (Inr x, t) \<and>
     committed t = sess t \<and> services (sess t) = services (sess u) \<and>
     find_cluster (sess t) i = map_option (\<lambda>c. c\<lparr>c_state := st\<rparr>) c"
  using assms
  by (cases c) (auto simp: seqm_run set_cluster_state_def upd_sess_def commit_def find_cluster_set)

text \<open>
  Claim C2.  Starting a cluster.  It always returns, with one result per service of the cluster in start order
  (controllers and ZooKeeper, then brokers, then the rest, otherwise as stored), and everything is
  committed: a service is running or in error exactly as its result says, except that a service without
  a host keeps its status, and the cluster is running if every result is a success and in error
  otherwise.
\<close>

theorem start_cluster_spec:
  assumes "distinct (map s_id (services (sess s)))"
  shows "\<exists>results t. start_cluster R cid s = (Inr results, t) \<and> committed t = sess t \<and>
    (let svcs = sort_key (\<lambda>x. dict_get START_ORDER (s_role x) 9) (services_of (sess s) cid) in
     map r_service_id results = map s_id svcs \<and>
     list_all (\<lambda>(svc, res). service_status (s_id svc) t =
        Some (if by_id h_id (hosts (sess s)) (s_host_id svc) = None then s_status svc
              else if r_success res then ''running'' else ''error'')) (zip svcs results) \<and>
     find_cluster (sess t) cid = map_option
        (\<lambda>c. c\<lparr>c_state := if list_all r_success results then ''running'' else ''error''\<rparr>) (find_cluster (sess s) cid))"
proof -
  let ?d = "sess s"
  let ?svcs = "sort_key (\<lambda>x. dict_get START_ORDER (s_role x) 9) (services_of ?d cid)"
  obtain results u where r: "for_each (start_one R (find_cluster ?d cid) (hosts ?d)) ?svcs s = (Inr results, u)"
    "map r_service_id results = map s_id ?svcs" "committed u = committed s"
    "sess u = ?d\<lparr>services := fold (\<lambda>(i, g). upd_by s_id i g) (mark_list (start_mark (hosts ?d)) ?svcs results) (services ?d)\<rparr>"
    using for_each_marks[OF start_one_marks] by blast
  let ?st = "if list_all r_success results then ''running'' else ''error''"
  have "find_cluster (sess u) cid = find_cluster ?d cid" by (simp add: r)
  from finish_cluster[OF this, of ?st results] obtain t where t:
    "seqm (if find_cluster ?d cid \<noteq> None then set_cluster_state cid ?st else ret ()) (seqm commit (ret results)) u = (Inr results, t)"
    "committed t = sess t" "services (sess t) = services (sess u)"
    "find_cluster (sess t) cid = map_option (\<lambda>c. c\<lparr>c_state := ?st\<rparr>) (find_cluster ?d cid)" by blast
  have run: "start_cluster R cid s = (Inr results, t)"
    using t(1) by (simp add: start_cluster_def bnd_run r(1))
  have "service_status (s_id svc) t = Some (if by_id h_id (hosts ?d) (s_host_id svc) = None then s_status svc
              else if r_success res then ''running'' else ''error'')" if "(svc, res) \<in> set (zip ?svcs results)" for svc res
    using status_marked[OF assms services_of_subset services_of_distinct[OF assms] r(2) _ that, of "start_mark (hosts ?d)"]
    by (simp add: service_status_def' t(3) r(4) start_mark_def)
  with run t r(2) show ?thesis
    by (intro exI[of _ results] exI[of _ t]) (auto simp: Let_def list_all_iff)
qed

text \<open>
  Claim C3.  Stopping a cluster.  It always returns, with one result per service in stop order (the services on
  top of Kafka first, then brokers, controllers and ZooKeeper last), and everything is committed: a
  service is stopped if its result is a success and keeps its status otherwise, and the cluster is
  stopped if every result is a success and in error otherwise.
\<close>

theorem stop_cluster_spec:
  assumes "distinct (map s_id (services (sess s)))"
  shows "\<exists>results t. stop_cluster R cid s = (Inr results, t) \<and> committed t = sess t \<and>
    (let svcs = sort_key (\<lambda>x. dict_get STOP_ORDER (s_role x) 9) (services_of (sess s) cid) in
     map r_service_id results = map s_id svcs \<and>
     list_all (\<lambda>(svc, res). service_status (s_id svc) t =
        Some (if r_success res then ''stopped'' else s_status svc)) (zip svcs results) \<and>
     find_cluster (sess t) cid = map_option
        (\<lambda>c. c\<lparr>c_state := if list_all r_success results then ''stopped'' else ''error''\<rparr>) (find_cluster (sess s) cid))"
proof -
  let ?d = "sess s"
  let ?svcs = "sort_key (\<lambda>x. dict_get STOP_ORDER (s_role x) 9) (services_of ?d cid)"
  obtain results u where r: "for_each (stop_one R (find_cluster ?d cid) (hosts ?d) False) ?svcs s = (Inr results, u)"
    "map r_service_id results = map s_id ?svcs" "committed u = committed s"
    "sess u = ?d\<lparr>services := fold (\<lambda>(i, g). upd_by s_id i g) (mark_list stop_mark ?svcs results) (services ?d)\<rparr>"
    using for_each_marks[OF stop_one_marks] by blast
  let ?st = "if list_all r_success results then ''stopped'' else ''error''"
  have "find_cluster (sess u) cid = find_cluster ?d cid" by (simp add: r)
  from finish_cluster[OF this, of ?st results] obtain t where t:
    "seqm (if find_cluster ?d cid \<noteq> None then set_cluster_state cid ?st else ret ()) (seqm commit (ret results)) u = (Inr results, t)"
    "committed t = sess t" "services (sess t) = services (sess u)"
    "find_cluster (sess t) cid = map_option (\<lambda>c. c\<lparr>c_state := ?st\<rparr>) (find_cluster ?d cid)" by blast
  have run: "stop_cluster R cid s = (Inr results, t)"
    using t(1) by (simp add: stop_cluster_def stop_services_def bnd_run r(1))
  have "service_status (s_id svc) t = Some (if r_success res then ''stopped'' else s_status svc)"
    if "(svc, res) \<in> set (zip ?svcs results)" for svc res
    using status_marked[OF assms services_of_subset services_of_distinct[OF assms] r(2) _ that, of stop_mark]
    by (simp add: service_status_def' t(3) r(4) stop_mark_def)
  with run t r(2) show ?thesis
    by (intro exI[of _ results] exI[of _ t]) (auto simp: Let_def list_all_iff)
qed

section \<open>The state of a cluster follows its services\<close>

definition core_services :: "tables \<Rightarrow> string \<Rightarrow> service list" where
  "core_services d i = filter (\<lambda>s. s_role s \<in> set CORE_SERVICE_ROLES) (services_of d i)"

lemma synced_running:
  assumes "synced_state (Some c) svcs = n" and "or_str (c_kind c) ''managed'' = ''managed''" and "c_state c \<noteq> ''deploying''"
    and "filter (\<lambda>s. s_role s \<in> set CORE_SERVICE_ROLES) svcs \<noteq> []"
  shows "(case n of None \<Rightarrow> c_state c | Some x \<Rightarrow> x) = ''running'' \<longleftrightarrow>
     list_all (\<lambda>s. lower (s_status s) = ''running'') (filter (\<lambda>s. s_role s \<in> set CORE_SERVICE_ROLES) svcs)"
    (is "_ \<longleftrightarrow> list_all _ ?core")
proof -
  let ?sts = "map (\<lambda>s. lower (s_status s)) ?core"
  have run: "list_all (\<lambda>s. lower (s_status s) = ''running'') ?core \<longleftrightarrow> set ?sts = {''running''}"
  proof -
    obtain x where "x \<in> set ?core" using assms(4) by (cases ?core) auto
    then show ?thesis unfolding list_all_iff set_map by (auto simp del: set_filter)
  qed
  have ex: "list_ex (\<lambda>st. st \<noteq> ''running'') ?sts \<longleftrightarrow> set ?sts \<noteq> {''running''}"
  proof -
    obtain x where "x \<in> set ?core" using assms(4) by (cases ?core) auto
    then show ?thesis unfolding list_ex_iff set_map by (auto simp del: set_filter)
  qed
  have n: "n = (let new = (if ''error'' \<in> set ?sts then Some ''error''
                   else if set ?sts = {''running''} then Some ''running''
                   else if set ?sts = {''stopped''} then Some ''stopped''
                   else if c_state c = ''running'' \<and> set ?sts \<noteq> {''running''} then Some ''error'' else None)
        in case new of None \<Rightarrow> None | Some n \<Rightarrow> if c_state c \<noteq> n then Some n else None)"
    using assms unfolding synced_state_def ex[symmetric] by (simp add: Let_def)
  show ?thesis
    unfolding run n Let_def by (auto split: if_splits)
qed

text \<open>
  The header of a cluster agrees with its services.  After a status refresh that returned, a managed
  cluster that is not being deployed and has core services is shown as running if and only if every broker,
  controller and ZooKeeper service is, and what is shown is committed.
\<close>

theorem status_agrees:
  assumes "get_cluster_status R cid s = (Inr results, t)"
    and "find_cluster (sess s) cid = Some c0" and "or_str (c_kind c0) ''managed'' = ''managed''"
    and "c_state c0 \<noteq> ''deploying''" and "core_services (sess t) cid \<noteq> []"
  shows "\<exists>c. find_cluster (committed t) cid = Some c \<and>
     (c_state c = ''running'' \<longleftrightarrow> list_all (\<lambda>x. lower (s_status x) = ''running'') (core_services (committed t) cid))"
proof -
  let ?d = "sess s"
  have keep: "rel_io (keeps (\<lambda>s. clusters (sess s))) (probe_one R c hs svc)" for c hs svc
  proof -
    have lift: "rel_io (keeps (\<lambda>s. clusters (sess s))) m" if "world_only m" for m :: "('a sys, 'b) io"
      using that by (simp add: rel_io_def keeps_def off_wld_def)
    have live: "world_only (live_status R c svc h)" for h
    proof -
      have "world_only (agent_probe R h us seen)" for us seen
        by (induction us arbitrary: seen)
           (auto intro!: world_steps world_only_try_agent agent_world simp: try_systemctl_is_active_def
             split: option.splits prod.splits)
      moreover have "world_only (probe_loop R h us fu fs)" for us fu fs
        by (induction us arbitrary: fu fs) (auto intro!: world_steps unit_steps simp: Let_def)
      ultimately show ?thesis unfolding live_status_def probe_status_def
        by (auto intro!: world_steps agent_world split: option.splits)
    qed
    have set: "rel_io (keeps (\<lambda>s. clusters (sess s))) (set_service_status i st)" for i st
      by (simp add: rel_io_def keeps_def set_service_status_def upd_sess_def)
    show ?thesis unfolding probe_one_def Let_def
      by (auto intro!: keeps_io.rel_intros lift[OF live] set lift[OF world_only_still[OF still_agent_available]]
          split: option.splits sum.splits prod.splits)
  qed
  from assms(1) obtain u where f: "for_each (probe_one R (find_cluster ?d cid) (hosts ?d)) (services_of ?d cid) s = (Inr results, u)"
    and rest: "seqm (sync_cluster_state_from_services cid) (seqm commit (ret results)) u = (Inr results, t)"
    unfolding get_cluster_status_def by (auto simp: bnd_run seqm_run split: prod.splits sum.splits)
  have "clusters (sess u) = clusters ?d"
    using rel_ioD[OF keeps_io.rel_for_each[OF keep] f] by (simp add: keeps_def)
  then have c: "find_cluster (sess u) cid = Some c0" using assms(2) by (simp add: find_cluster_def)
  define n where "n = synced_state (Some c0) (services_of (sess u) cid)"
  have t: "committed t = sess t" "services (sess t) = services (sess u)"
    "find_cluster (sess t) cid = Some (c0\<lparr>c_state := (case n of None \<Rightarrow> c_state c0 | Some x \<Rightarrow> x)\<rparr>)"
    using rest c unfolding n_def
    by (auto simp: sync_cluster_state_from_services_def seqm_run bnd_run commit_def set_cluster_state_def upd_sess_def
        find_cluster_set split: option.splits)
  have core: "filter (\<lambda>s. s_role s \<in> set CORE_SERVICE_ROLES) (services_of (sess u) cid) = core_services (committed t) cid"
    by (simp add: core_services_def services_of_def t)
  show ?thesis
    using synced_running[OF n_def[symmetric] assms(3,4)] assms(5) t
    by (simp add: core) 
qed

section \<open>A sample cluster\<close>

definition sample_cluster :: cluster where
  "sample_cluster = (bare_cluster ''c1'' ''prod'')\<lparr>c_state := ''configured'', c_unit_name := Some ''kafka-prod-c1.service''\<rparr>"

definition sample_sys :: "'w \<Rightarrow> 'w sys" where
  "sample_sys w = (let d = empty_tables\<lparr>clusters := [sample_cluster], hosts := [sample_host],
      services := [sample_service ''s2'' ''broker'', sample_service ''s1'' ''controller'',
                   (sample_service ''s3'' ''broker'')\<lparr>s_host_id := ''lost''\<rparr>]\<rparr>
     in \<lparr>sess = d, committed = d, tasks = no_tasks, wld = w\<rparr>)"

theorem start_cluster_spec_witness:
  "\<exists>results t. start_cluster unit_host ''c1'' (sample_sys ''inactive'') = (Inr results, t) \<and>
     map r_service_id results = [''s1'', ''s2'', ''s3''] \<and> committed t = sess t"
proof -
  have d: "distinct (map s_id (services (sess (sample_sys ''inactive''))))" by code_simp
  have o': "map s_id (sort_key (\<lambda>x. dict_get START_ORDER (s_role x) 9) (services_of (sess (sample_sys ''inactive'')) ''c1'')) =
     [''s1'', ''s2'', ''s3'']" by code_simp
  show ?thesis using start_cluster_spec[OF d, of unit_host "''c1''"] o' by (auto simp: Let_def)
qed

theorem stop_cluster_spec_witness:
  "\<exists>results t. stop_cluster unit_host ''c1'' (sample_sys ''active'') = (Inr results, t) \<and>
     map r_service_id results = [''s2'', ''s3'', ''s1''] \<and> committed t = sess t"
proof -
  have d: "distinct (map s_id (services (sess (sample_sys ''active''))))" by code_simp
  have o': "map s_id (sort_key (\<lambda>x. dict_get STOP_ORDER (s_role x) 9) (services_of (sess (sample_sys ''active'')) ''c1'')) =
     [''s2'', ''s3'', ''s1'']" by code_simp
  show ?thesis using stop_cluster_spec[OF d, of unit_host "''c1''"] o' by (auto simp: Let_def)
qed

theorem status_agrees_witness:
  "\<exists>c t. snd (get_cluster_status unit_host ''c1'' (sample_sys ''active'')) = t \<and> find_cluster (committed t) ''c1'' = Some c \<and>
     (c_state c = ''running'' \<longleftrightarrow> list_all (\<lambda>x. lower (s_status x) = ''running'') (core_services (committed t) ''c1''))"
proof -
  let ?run = "get_cluster_status unit_host ''c1'' (sample_sys ''active'')"
  have "case fst ?run of Inl e \<Rightarrow> False | Inr rs \<Rightarrow> True" by code_simp
  then obtain rs where "fst ?run = Inr rs" by (auto split: sum.splits)
  then have run: "?run = (Inr rs, snd ?run)" by (metis prod.collapse)
  have c: "find_cluster (sess (sample_sys ''active'')) ''c1'' = Some sample_cluster" by code_simp
  have "or_str (c_kind sample_cluster) ''managed'' = ''managed''" "c_state sample_cluster \<noteq> ''deploying''"
    "core_services (sess (snd ?run)) ''c1'' \<noteq> []" by code_simp+
  from status_agrees[OF run c this] show ?thesis by blast
qed

text \<open>
  The controller unit of older deployments is never looked for.  \<open>LEGACY_KAFKA_UNITS\<close> maps the role
  \<open>controller\<close> to \<open>kafka-kraft-controller.service\<close> and the module first lists \<open>controller\<close> among the
  Kafka roles, but the second assignment of \<open>KAFKA_ROLES\<close> drops it: for every cluster the only candidate
  for a controller is \<open>kafka.service\<close>, neither the unit of the cluster nor the legacy controller unit.
\<close>

theorem controller_units:
  "unit_candidates c ''controller'' = [''kafka.service''] \<and>
   dict_get LEGACY_KAFKA_UNITS ''controller'' [] = ''kafka-kraft-controller.service'' \<and>
   unit_candidates (Some sample_cluster) ''broker'' = [''kafka-prod-c1.service'', ''kafka.service'']"
proof (intro conjI)
  show "unit_candidates c ''controller'' = [''kafka.service'']"
    by (simp add: unit_candidates_def KAFKA_ROLES_def NON_KAFKA_UNITS_def dict_get_def)
qed code_simp+

end
