(* ===== verification/Rolling_Restart.thy ===== *)
theory Rolling_Restart
  imports Cluster_Manager
begin

text \<open>
  Restarting the services of a cluster one after the other: \<open>services/rolling_restart_manager.py\<close>, for managed clusters
  (service rows) and for external ones (a list of brokers in a column of the cluster).  The background task
  writes its log and status to the entry of its task.  Shown: whatever the hosts answer, services are stopped
  and started strictly one at a time and in order, a restart that is reported as completed has committed every
  service as running, and what a failure leaves behind.

  The column with the brokers of an external cluster is only written by the route that validates it, as a list of
  objects with texts and integers; entries of other types are modelled as raising \<open>TypeError\<close>.
\<close>

section \<open>Tasks\<close>

definition init_restart_task :: "string \<Rightarrow> ('w sys, unit) io" where
  "init_restart_task tid = modify (\<lambda>s. s\<lparr>tasks := (tasks s)\<lparr>restart_tasks := AList.update tid
     \<lparr>rt_status = ''running'', rt_logs = [], rt_progress = \<lparr>p_current = 0, p_total = 0, p_label = None\<rparr>\<rparr>
     (restart_tasks (tasks s))\<rparr>\<rparr>)"

definition get_restart_task :: "string \<Rightarrow> 'w sys \<Rightarrow> restart_task option" where
  "get_restart_task tid s = map_of (restart_tasks (tasks s)) tid"

definition on_restart :: "string \<Rightarrow> (restart_task \<Rightarrow> restart_task) \<Rightarrow> ('w sys, unit) io" where
  "on_restart tid f = modify (\<lambda>s. s\<lparr>tasks := (tasks s)\<lparr>restart_tasks := AList.map_entry tid f (restart_tasks (tasks s))\<rparr>\<rparr>)"

definition rlog :: "string \<Rightarrow> string \<Rightarrow> ('w sys, unit) io" where
  "rlog tid msg = on_restart tid (\<lambda>k. k\<lparr>rt_logs := rt_logs k @ [msg]\<rparr>)"

definition restart_status :: "string \<Rightarrow> string \<Rightarrow> ('w sys, unit) io" where
  "restart_status tid st = on_restart tid (\<lambda>k. k\<lparr>rt_status := st\<rparr>)"

definition restart_total :: "string \<Rightarrow> int \<Rightarrow> ('w sys, unit) io" where
  "restart_total tid n = on_restart tid (\<lambda>k. k\<lparr>rt_progress := (rt_progress k)\<lparr>p_total := n\<rparr>\<rparr>)"

definition restart_progress :: "string \<Rightarrow> int \<Rightarrow> string \<Rightarrow> ('w sys, unit) io" where
  "restart_progress tid n broker =
     on_restart tid (\<lambda>k. k\<lparr>rt_progress := (rt_progress k)\<lparr>p_current := n, p_label := Some broker\<rparr>\<rparr>)"

section \<open>Units, ports and probes\<close>

definition cluster_listener_port :: "cluster \<Rightarrow> exn + int" where
  "cluster_listener_port c =
     (case as_dict (load_config (c_config_json c)) of
        Inl e \<Rightarrow> Inl e
      | Inr cfg \<Rightarrow> Inr (int_config cfg ''listener_port'' 9092))"

definition SERVICE_TYPE_MAP :: "(string \<times> string) list" where
  "SERVICE_TYPE_MAP = [(''broker'', ''kafka''), (''broker_controller'', ''kafka''), (''controller'', ''kafka-kraft-controller''),
     (''zookeeper'', ''kafka''), (''ksqldb'', ''ksqldb''), (''kafka_connect'', ''kafka-connect'')]"

definition KAFKA_ROLES_restart :: "string list" where
  "KAFKA_ROLES_restart = [''broker'', ''broker_controller'', ''controller'', ''zookeeper'']"

definition unit_for_service :: "cluster \<Rightarrow> service \<Rightarrow> string" where
  "unit_for_service c svc =
     (if or_str (c_kind c) ''managed'' = ''managed'' \<and> s_role svc \<in> set KAFKA_ROLES_restart then unit_name c
      else dict_get SERVICE_TYPE_MAP (s_role svc) ''kafka'' @ ''.service'')"

definition broker_roles :: "string list" where
  "broker_roles = [''broker'', ''broker_controller'']"

definition home_and_port :: "settings \<Rightarrow> cluster option \<Rightarrow> exn + string \<times> int" where
  "home_and_port cfg c =
     (case c of
        None \<Rightarrow> Inr (KAFKA_INSTALL_DIR cfg, 9092)
      | Some x \<Rightarrow> map_sum id (\<lambda>p. (install_dir cfg x, p)) (cluster_listener_port x))"

definition check_broker_health :: "'w remote \<Rightarrow> settings \<Rightarrow> host \<Rightarrow> string \<Rightarrow> cluster option \<Rightarrow> ('w sys, bool) io" where
  "check_broker_health R cfg h role c =
     (if role \<notin> set broker_roles then ret True
      else bnd (lift (home_and_port cfg c)) (\<lambda>(home, port).
           bnd (exec_command R h (home @ ''/bin/kafka-broker-api-versions.sh --bootstrap-server localhost:'' @ show_int port
                                  @ '' 2>/dev/null | head -1'') 15)
             (\<lambda>(rc, _, _). ret (rc = 0))))"

definition check_service_running :: "'w remote \<Rightarrow> host \<Rightarrow> string \<Rightarrow> ('w sys, bool) io" where
  "check_service_running R h u =
     bnd (exec_command R h (''systemctl is-active '' @ u) 10) (\<lambda>(_, stdout, _). ret (strip stdout = ''active''))"

definition check_kafka_port :: "'w remote \<Rightarrow> host \<Rightarrow> int \<Rightarrow> ('w sys, bool) io" where
  "check_kafka_port R h port =
     bnd (exec_command R h (''bash -c '' @ sq @ ''echo > /dev/tcp/localhost/'' @ show_int port @ sq @ '' 2>/dev/null'') 5)
       (\<lambda>(rc, _, _). ret (rc = 0))"

definition wait_for_isr :: "'w remote \<Rightarrow> settings \<Rightarrow> host \<Rightarrow> cluster option \<Rightarrow> int \<Rightarrow> ('w sys, bool) io" where
  "wait_for_isr R cfg h c max_wait =
     bnd (lift (home_and_port cfg c)) (\<lambda>(home, port).
     poll 0 (nat (max_wait div 5)) (\<lambda>_.
       bnd (exec_command R h (home @ ''/bin/kafka-topics.sh --bootstrap-server localhost:'' @ show_int port
                              @ '' --describe --under-replicated-partitions 2>/dev/null'') 15)
         (\<lambda>(rc, stdout, _). if rc = 0 \<and> strip stdout = [] then ret True else seqm (sleep R 5) (ret False))))"

section \<open>One unit\<close>

definition stop_cmd :: "string \<Rightarrow> string" where
  "stop_cmd u = ''sudo systemctl stop '' @ u"

definition start_cmd :: "string \<Rightarrow> string" where
  "start_cmd u = ''sudo systemctl start '' @ u"

text \<open>Steps 2 and 3, the same in both variants: stop, wait for the unit to leave \<open>active\<close>, start.  The value
  says whether to go on.\<close>

definition bounce :: "'w remote \<Rightarrow> string \<Rightarrow> host \<Rightarrow> string \<Rightarrow> ('w sys, bool) io" where
  "bounce R tid h u =
     seqm (rlog tid (''  Stopping '' @ u @ ''...''))
    (bnd (exec_command R h (stop_cmd u) 60) (\<lambda>(rc, _, stderr).
     seqm (if rc \<noteq> 0 then rlog tid (''  '' @ warn_sign @ '' Stop warning: '' @ take_chars 200 stderr) else ret ())
    (seqm (rlog tid ''  Waiting for graceful shutdown...'')
    (seqm (poll 0 30 (\<lambda>_. bnd (exec_command R h (''systemctl is-active '' @ u) 10) (\<lambda>(_, stdout, _).
             if strip stdout \<noteq> ''active'' then ret True else seqm (sleep R 1) (ret False))))
    (seqm (rlog tid ''  Service stopped'')
    (seqm (rlog tid (''  Starting '' @ u @ ''...''))
    (bnd (exec_command R h (start_cmd u) 60) (\<lambda>(rc, _, stderr).
     if rc \<noteq> 0
     then seqm (rlog tid (''  '' @ cross_sign @ '' Start failed: '' @ take_chars 200 stderr))
         (seqm (restart_status tid ''error'') (ret False))
     else ret True))))))))"

text \<open>Step 4: up to 60 rounds; \<open>ready\<close> is what is asked once the unit is active.\<close>

definition wait_healthy :: "'w remote \<Rightarrow> host \<Rightarrow> string \<Rightarrow> ('w sys, bool) io \<Rightarrow> ('w sys, bool) io" where
  "wait_healthy R h u ready =
     poll 0 60 (\<lambda>_. seqm (sleep R 1)
       (bnd (check_service_running R h u) (\<lambda>running. if running then ready else ret False)))"

section \<open>Managed clusters\<close>

definition restart_service :: "'w remote \<Rightarrow> settings \<Rightarrow> string \<Rightarrow> cluster \<Rightarrow> service \<Rightarrow> host \<Rightarrow> ('w sys, bool) io" where
  "restart_service R cfg tid c svc h =
     (let u = unit_for_service c svc; is_broker = (s_role svc \<in> set broker_roles);
          node = show_int (s_node_id svc) in
     seqm (ssh_connect R h)
    (seqm (rlog tid ''  Pre-restart health check...'')
    (bnd (check_broker_health R cfg h (s_role svc) (Some c)) (\<lambda>healthy.
     seqm (if healthy then ret ()
           else rlog tid (''  '' @ warn_sign @ '' Broker not healthy before restart, proceeding anyway''))
    (bnd (bounce R tid h u) (\<lambda>started.
     if \<not> started then ret False
     else
     seqm (rlog tid ''  Waiting for service to become healthy...'')
    (bnd (wait_healthy R h u
            (if is_broker then bnd (lift (cluster_listener_port c)) (check_kafka_port R h) else ret True)) (\<lambda>healthy.
     if healthy
     then seqm (rlog tid (''  '' @ tick_sign @ '' Node '' @ node @ '' restarted successfully''))
         (seqm (set_service_status (s_id svc) ''running'')
         (seqm (if is_broker
                then seqm (rlog tid ''  Waiting for ISR recovery...'')
                     (bnd (wait_for_isr R cfg h (Some c) 120) (\<lambda>isr_ok.
                        rlog tid (if isr_ok then ''  '' @ tick_sign @ '' ISR recovery complete''
                          else ''  '' @ warn_sign @ '' ISR recovery timeout '' @ em_dash @ '' proceeding cautiously'')))
                else ret ())
         (seqm (rlog tid []) (ret True))))
     else seqm (rlog tid (''  '' @ cross_sign @ '' Node '' @ node @ '' failed health check after restart''))
         (seqm (set_service_status (s_id svc) ''error'')
         (seqm (restart_status tid ''error'')
         (seqm commit (ret False))))))))))))"

definition restart_failed :: "string \<Rightarrow> service \<Rightarrow> exn \<Rightarrow> ('w sys, bool) io" where
  "restart_failed tid svc e =
     seqm (rlog tid (''  '' @ cross_sign @ '' Error: '' @ exn_str e))
    (seqm (set_service_status (s_id svc) ''error'')
    (seqm (restart_status tid ''error'')
    (seqm commit (ret False))))"

definition restart_one :: "'w remote \<Rightarrow> settings \<Rightarrow> string \<Rightarrow> cluster \<Rightarrow> host list \<Rightarrow> nat \<Rightarrow> nat \<times> service \<Rightarrow>
    ('w sys, bool) io" where
  "restart_one R cfg tid c hs n = (\<lambda>(i, svc).
     case by_id h_id hs (s_host_id svc) of
       None \<Rightarrow> seqm (rlog tid (warn_sign @ '' Skipping service '' @ s_id svc @ '' '' @ em_dash @ '' host not found'')) (ret True)
     | Some h \<Rightarrow>
         seqm (restart_progress tid (int i + 1)
                 (''Node '' @ show_int (s_node_id svc) @ '' ('' @ h_ip_address h @ '')''))
        (seqm (rlog tid (bar_sign @ bar_sign @ bar_sign @ '' ['' @ show_int (int i + 1) @ ''/'' @ show_int (int n)
                 @ ''] Restarting '' @ s_role svc @ '' node '' @ show_int (s_node_id svc) @ '' on '' @ h_ip_address h @ '' ''
                 @ bar_sign @ bar_sign @ bar_sign))
        (catch (restart_service R cfg tid c svc h) (restart_failed tid svc))))"

definition role_filter :: "string \<Rightarrow> string list" where
  "role_filter scope =
     (if scope = ''brokers'' then [''broker'', ''broker_controller'']
      else if scope = ''controllers'' then [''controller'']
      else [''controller'', ''broker_controller'', ''broker'', ''ksqldb'', ''kafka_connect'', ''zookeeper''])"

definition RESTART_ORDER :: "(string \<times> nat) list" where
  "RESTART_ORDER = [(''controller'', 0), (''zookeeper'', 0), (''broker_controller'', 1), (''broker'', 1), (''ksqldb'', 2),
     (''kafka_connect'', 2)]"

definition restart_services :: "tables \<Rightarrow> string \<Rightarrow> string \<Rightarrow> service list" where
  "restart_services d cid scope =
     sort_key (\<lambda>s. dict_get RESTART_ORDER (s_role s) 3)
       (filter (\<lambda>s. s_cluster_id s = cid \<and> s_role s \<in> set (role_filter scope)) (services d))"

definition rule_line :: string where
  "rule_line = concat (replicate 36 bar_sign)"

definition restart_all :: "'w remote \<Rightarrow> settings \<Rightarrow> string \<Rightarrow> cluster \<Rightarrow> host list \<Rightarrow> string \<Rightarrow> service list \<Rightarrow> ('w sys, unit) io" where
  "restart_all R cfg tid c hs scope svcs =
     (let n = length svcs in
      seqm (restart_total tid (int n))
     (seqm (rlog tid (''Starting rolling restart of '' @ show_int (int n) @ '' service(s) '' @ em_dash @ '' scope: '' @ scope))
     (seqm (rlog tid (''Cluster: '' @ c_name c))
     (seqm (rlog tid [])
     (bnd (each_until (restart_one R cfg tid c hs n) (enumerate 0 svcs)) (\<lambda>all.
      if \<not> all then ret ()
      else seqm commit
          (seqm (rlog tid rule_line)
          (seqm (rlog tid (tick_sign @ '' Rolling restart completed successfully '' @ em_dash @ '' '' @ show_int (int n)
                   @ '' service(s) restarted''))
          (restart_status tid ''completed'')))))))))"

definition rolling_restart :: "'w remote \<Rightarrow> settings \<Rightarrow> string \<Rightarrow> string \<Rightarrow> string \<Rightarrow> ('w sys, unit) io" where
  "rolling_restart R cfg cid tid scope =
     bnd (asks (get_restart_task tid)) (\<lambda>task.
     if task = None then ret ()
     else catch
      (bnd (asks sess) (\<lambda>d.
       case find_cluster d cid of
         None \<Rightarrow> seqm (rlog tid ''ERROR: Cluster not found'') (restart_status tid ''error'')
       | Some c \<Rightarrow>
           let svcs = restart_services d cid scope in
           if svcs = []
           then seqm (rlog tid ''No services found matching the restart scope'') (restart_status tid ''completed'')
           else restart_all R cfg tid c (hosts d) scope svcs))
      (\<lambda>e. seqm (rlog tid (''ERROR: '' @ exn_str e)) (restart_status tid ''error'')))"

section \<open>The check before a restart\<close>

record restart_check =
  rk_broker_id :: json
  rk_host :: string
  rk_healthy :: bool
  rk_message :: string

record restart_report =
  rr_cluster_name :: string
  rr_broker_count :: int
  rr_all_healthy :: bool
  rr_checks :: "restart_check list"

definition check_result :: "json \<Rightarrow> host \<Rightarrow> bool \<Rightarrow> restart_check" where
  "check_result b h healthy = \<lparr>rk_broker_id = b, rk_host = h_ip_address h, rk_healthy = healthy,
     rk_message = (if healthy then ''Healthy'' else ''Unhealthy'')\<rparr>"

definition check_error :: "json \<Rightarrow> string \<Rightarrow> string \<Rightarrow> restart_check" where
  "check_error b h msg = \<lparr>rk_broker_id = b, rk_host = h, rk_healthy = False, rk_message = msg\<rparr>"

definition pre_check_one :: "'w remote \<Rightarrow> settings \<Rightarrow> cluster \<Rightarrow> host list \<Rightarrow> service \<Rightarrow> ('w sys, restart_check) io" where
  "pre_check_one R cfg c hs svc =
     (let b = JInt (s_node_id svc) in
      case by_id h_id hs (s_host_id svc) of
        None \<Rightarrow> ret (check_error b ''unknown'' ''Host not found'')
      | Some h \<Rightarrow>
          catch (seqm (ssh_connect R h)
                (bnd (check_broker_health R cfg h (s_role svc) (Some c)) (\<lambda>healthy.
                 bnd (bnd (lift (cluster_listener_port c)) (check_kafka_port R h)) (\<lambda>port_ok.
                 ret (check_result b h (healthy \<and> port_ok))))))
            (\<lambda>e. ret (check_error b (h_ip_address h) (exn_str e))))"

definition get_pre_restart_check :: "'w remote \<Rightarrow> settings \<Rightarrow> string \<Rightarrow> ('w sys, restart_report) io" where
  "get_pre_restart_check R cfg cid =
     bnd (asks sess) (\<lambda>d.
     case find_cluster d cid of
       None \<Rightarrow> raise (ValueError ''Cluster not found'')
     | Some c \<Rightarrow>
         let svcs = filter (\<lambda>s. s_cluster_id s = cid \<and> s_role s \<in> set broker_roles) (services d) in
         bnd (for_each (pre_check_one R cfg c (hosts d)) svcs) (\<lambda>checks.
         ret \<lparr>rr_cluster_name = c_name c, rr_broker_count = int (length svcs),
              rr_all_healthy = list_all rk_healthy checks, rr_checks = checks\<rparr>))"

section \<open>External clusters\<close>

definition read_external_broker_hosts :: "cluster \<Rightarrow> json" where
  "read_external_broker_hosts c =
     (case c_external_broker_hosts_json c of None \<Rightarrow> JArr [] | Some (Bad_Json _) \<Rightarrow> JArr [] | Some (Json v) \<Rightarrow> v)"

definition bad_entry :: exn where
  "bad_entry = TypeError ''unexpected type in external broker hosts''"

fun entry_list :: "json \<Rightarrow> exn + json list" where
  "entry_list (JArr xs) = Inr xs"
| "entry_list _ = Inl bad_entry"

fun entry_dict :: "json \<Rightarrow> exn + (string \<times> json) list" where
  "entry_dict (JObj d) = Inr d"
| "entry_dict _ = Inl bad_entry"

definition entry_host :: "(string \<times> json) list \<Rightarrow> exn + string" where
  "entry_host e = (case map_of e ''host_id'' of
     None \<Rightarrow> Inl (KeyError (sq @ ''host_id'' @ sq)) | Some (JStr h) \<Rightarrow> Inr h | Some _ \<Rightarrow> Inl bad_entry)"

definition entry_unit :: "(string \<times> json) list \<Rightarrow> exn + string" where
  "entry_unit e = (case jget_default e ''kafka_unit'' (JStr ''kafka.service'') of JStr u \<Rightarrow> Inr u | _ \<Rightarrow> Inl bad_entry)"

definition entry_broker :: "(string \<times> json) list \<Rightarrow> exn + string" where
  "entry_broker e = (case jget_default e ''broker_id'' (JStr ''?'') of
     JStr b \<Rightarrow> Inr b | JInt i \<Rightarrow> Inr (show_int i) | JNull \<Rightarrow> Inr ''None'' | _ \<Rightarrow> Inl bad_entry)"

definition external_port :: "cluster \<Rightarrow> int" where
  "external_port c =
     (if str_true (c_bootstrap_servers c)
      then (case parse_int (after_last (CHR '':'') (strip (hd (split_on (CHR '','') (the (c_bootstrap_servers c)))))) of
              None \<Rightarrow> 9092 | Some p \<Rightarrow> p)
      else 9092)"

definition find_external :: "tables \<Rightarrow> string \<Rightarrow> cluster option" where
  "find_external d cid = List.find (\<lambda>c. c_id c = cid \<and> c_kind c = Some ''external'') (clusters d)"

definition restart_broker :: "'w remote \<Rightarrow> string \<Rightarrow> int \<Rightarrow> string \<Rightarrow> string \<Rightarrow> host \<Rightarrow> ('w sys, bool) io" where
  "restart_broker R tid port u label h =
     seqm (ssh_connect R h)
    (seqm (rlog tid ''  Pre-restart health check...'')
    (bnd (check_kafka_port R h port) (\<lambda>port_ok.
     seqm (if port_ok then ret ()
           else rlog tid (''  '' @ warn_sign @ '' Broker port not reachable before restart, proceeding anyway''))
    (bnd (bounce R tid h u) (\<lambda>started.
     if \<not> started then ret False
     else
     seqm (rlog tid ''  Waiting for service to become healthy...'')
    (bnd (wait_healthy R h u (check_kafka_port R h port)) (\<lambda>healthy.
     if healthy
     then seqm (rlog tid (''  '' @ tick_sign @ '' '' @ label @ '' restarted successfully''))
         (seqm (rlog tid ''  Stabilization pause (15s)...'')
         (seqm (sleep R 15)
         (seqm (rlog tid []) (ret True))))
     else seqm (rlog tid (''  '' @ cross_sign @ '' '' @ label @ '' failed health check after restart''))
         (seqm (restart_status tid ''error'') (ret False)))))))))"

definition restart_external_one :: "'w remote \<Rightarrow> string \<Rightarrow> host list \<Rightarrow> int \<Rightarrow> nat \<Rightarrow> nat \<times> json \<Rightarrow> ('w sys, bool) io" where
  "restart_external_one R tid hs port n = (\<lambda>(i, entry).
     bnd (lift (entry_dict entry)) (\<lambda>e.
     bnd (lift (entry_host e)) (\<lambda>hid.
     case by_id h_id hs hid of
       None \<Rightarrow> seqm (rlog tid (warn_sign @ '' Skipping broker '' @ em_dash @ '' host '' @ take_chars 8 hid @ '' not found'')) (ret True)
     | Some h \<Rightarrow>
         bnd (lift (entry_unit e)) (\<lambda>u.
         bnd (lift (entry_broker e)) (\<lambda>b.
         let label = ''broker '' @ b @ '' on '' @ h_ip_address h in
         seqm (restart_progress tid (int i + 1) (''Broker '' @ b @ '' ('' @ h_ip_address h @ '')''))
        (seqm (rlog tid (bar_sign @ bar_sign @ bar_sign @ '' ['' @ show_int (int i + 1) @ ''/'' @ show_int (int n)
                 @ ''] Restarting '' @ label @ '' '' @ bar_sign @ bar_sign @ bar_sign))
        (catch (restart_broker R tid port u label h)
           (\<lambda>x. seqm (rlog tid (''  '' @ cross_sign @ '' Error: '' @ exn_str x))
               (seqm (restart_status tid ''error'') (ret False))))))))))"

definition rolling_restart_external :: "'w remote \<Rightarrow> string \<Rightarrow> string \<Rightarrow> ('w sys, unit) io" where
  "rolling_restart_external R cid tid =
     bnd (asks (get_restart_task tid)) (\<lambda>task.
     if task = None then ret ()
     else catch
      (bnd (asks sess) (\<lambda>d.
       case find_external d cid of
         None \<Rightarrow> seqm (rlog tid ''ERROR: External cluster not found'') (restart_status tid ''error'')
       | Some c \<Rightarrow>
           let blob = read_external_broker_hosts c in
           if \<not> truthy blob
           then seqm (rlog tid ''ERROR: No broker hosts registered for this external cluster'') (restart_status tid ''error'')
           else bnd (lift (entry_list blob)) (\<lambda>entries.
             let n = length entries in
             seqm (restart_total tid (int n))
            (seqm (rlog tid (''Starting rolling restart of '' @ show_int (int n) @ '' external broker(s)''))
            (seqm (rlog tid (''Cluster: '' @ c_name c))
            (seqm (rlog tid [])
            (bnd (each_until (restart_external_one R tid (hosts d) (external_port c) n) (enumerate 0 entries)) (\<lambda>done.
             if \<not> done then ret ()
             else seqm (rlog tid rule_line)
                 (seqm (rlog tid (tick_sign @ '' Rolling restart completed successfully '' @ em_dash @ '' '' @ show_int (int n)
                          @ '' broker(s) restarted''))
                 (restart_status tid ''completed'')))))))))) 
      (\<lambda>e. seqm (rlog tid (''ERROR: '' @ exn_str e)) (restart_status tid ''error'')))"

definition pre_check_external_one :: "'w remote \<Rightarrow> host list \<Rightarrow> int \<Rightarrow> json \<Rightarrow> ('w sys, restart_check) io" where
  "pre_check_external_one R hs port entry =
     bnd (lift (entry_dict entry)) (\<lambda>e.
     bnd (lift (entry_host e)) (\<lambda>hid.
     let b = jget e ''broker_id'' in
     case by_id h_id hs hid of
       None \<Rightarrow> ret (check_error b ''unknown'' ''Host not found'')
     | Some h \<Rightarrow>
         catch (seqm (ssh_connect R h)
               (bnd (lift (entry_unit e)) (\<lambda>u.
                bnd (check_service_running R h u) (\<lambda>svc_running.
                bnd (check_kafka_port R h port) (\<lambda>port_ok.
                ret (check_result b h (svc_running \<and> port_ok)))))))
           (\<lambda>x. ret (check_error b (h_ip_address h) (exn_str x)))))"

definition get_pre_restart_check_external :: "'w remote \<Rightarrow> string \<Rightarrow> ('w sys, restart_report) io" where
  "get_pre_restart_check_external R cid =
     bnd (asks sess) (\<lambda>d.
     case find_external d cid of
       None \<Rightarrow> raise (ValueError ''External cluster not found'')
     | Some c \<Rightarrow>
         bnd (lift (entry_list (read_external_broker_hosts c))) (\<lambda>entries.
         bnd (for_each (pre_check_external_one R (hosts d) (external_port c)) entries) (\<lambda>checks.
         ret \<lparr>rr_cluster_name = c_name c, rr_broker_count = int (length entries),
              rr_all_healthy = (checks \<noteq> [] \<and> list_all rk_healthy checks), rr_checks = checks\<rparr>)))"

section \<open>Routes\<close>

text \<open>
  \<open>api/rolling_restart.py\<close>: the routes that start a restart check the scope, open the entry of the task and run
  the restart after the response; \<open>tid\<close> is the fresh identifier of the task.  A \<open>ValueError\<close> of the check is
  answered with 404.
\<close>

definition start_rolling_restart :: "'w remote \<Rightarrow> settings \<Rightarrow> string \<Rightarrow> string \<Rightarrow> string \<Rightarrow> ('w sys, string) io" where
  "start_rolling_restart R cfg cid scope tid =
     (if scope \<notin> {''brokers'', ''all'', ''controllers''}
      then raise (HTTPException 400 ''Invalid scope. Use: brokers, all, or controllers'')
      else seqm (init_restart_task tid) (seqm (rolling_restart R cfg cid tid scope) (ret tid)))"

definition start_external_rolling_restart :: "'w remote \<Rightarrow> string \<Rightarrow> string \<Rightarrow> ('w sys, string) io" where
  "start_external_rolling_restart R cid tid =
     seqm (init_restart_task tid) (seqm (rolling_restart_external R cid tid) (ret tid))"

definition get_task_status :: "string \<Rightarrow> ('w sys, restart_task) io" where
  "get_task_status tid = bnd (asks (get_restart_task tid)) (\<lambda>k.
     case k of None \<Rightarrow> raise (HTTPException 404 ''Task not found'') | Some task \<Rightarrow> ret task)"

definition not_found_on_value_error :: "('w sys, 'a) io \<Rightarrow> ('w sys, 'a) io" where
  "not_found_on_value_error m =
     catch m (\<lambda>e. if exn_class e = ''ValueError'' then raise (HTTPException 404 (exn_str e)) else raise e)"

definition pre_restart_check :: "'w remote \<Rightarrow> settings \<Rightarrow> string \<Rightarrow> ('w sys, restart_report) io" where
  "pre_restart_check R cfg cid = not_found_on_value_error (get_pre_restart_check R cfg cid)"

definition pre_restart_check_external :: "'w remote \<Rightarrow> string \<Rightarrow> ('w sys, restart_report) io" where
  "pre_restart_check_external R cid = not_found_on_value_error (get_pre_restart_check_external R cid)"

section \<open>Views of the state\<close>

text \<open>What the database shows and whether the task is in error; and the starts and stops of units so far.\<close>

definition status_of :: "string \<Rightarrow> 'w sys \<Rightarrow> string option" where
  "status_of tid s = map_option rt_status (get_restart_task tid s)"

definition db_view :: "string \<Rightarrow> 'w sys \<Rightarrow> tables \<times> tables \<times> string option" where
  "db_view tid s = (sess s, committed s, status_of tid s)"

definition is_unit_op :: "event \<Rightarrow> bool" where
  "is_unit_op ev = (case ev of Ran h c rc \<Rightarrow> starts_with c ''sudo systemctl '' | _ \<Rightarrow> False)"

definition unit_ops :: "('w \<times> event list) sys \<Rightarrow> event list" where
  "unit_ops s = filter is_unit_op (trace s)"

definition mark :: "string \<Rightarrow> string \<Rightarrow> tables \<Rightarrow> tables" where
  "mark i st d = d\<lparr>services := upd_by s_id i (\<lambda>r. r\<lparr>s_status := st\<rparr>) (services d)\<rparr>"

lemma status_of_on_restart: "status_of tid (snd (on_restart tid f s)) =
    map_option (\<lambda>k. rt_status (f k)) (get_restart_task tid s)"
  by (simp add: status_of_def on_restart_def get_restart_task_def map_of_map_entry comp_def split: option.splits)

lemma on_restart_run: "on_restart tid f s = (Inr (), snd (on_restart tid f s))"
  by (simp add: on_restart_def)

lemma on_restart_frame: "sess (snd (on_restart tid f s)) = sess s" "committed (snd (on_restart tid f s)) = committed s"
  "wld (snd (on_restart tid f s)) = wld s"
  by (simp_all add: on_restart_def)

lemma calm_on_restart: "calm (on_restart tid f)"
  by (simp add: on_restart_def calm_modify)

lemmas calm_logs = calm_on_restart[of tid "\<lambda>k. k\<lparr>rt_logs := rt_logs k @ [msg]\<rparr>" for tid msg, folded rlog_def]
  calm_on_restart[of tid "\<lambda>k. k\<lparr>rt_progress := (rt_progress k)\<lparr>p_total := n\<rparr>\<rparr>" for tid n, folded restart_total_def]
  calm_on_restart[of tid "\<lambda>k. k\<lparr>rt_progress := (rt_progress k)\<lparr>p_current := n, p_label := Some b\<rparr>\<rparr>" for tid n b,
    folded restart_progress_def]
  calm_on_restart[of tid "\<lambda>k. k\<lparr>rt_status := st\<rparr>" for tid st, folded restart_status_def]

lemma db_view_logs: "rel_io (keeps (db_view tid)) (rlog tid msg)" "rel_io (keeps (db_view tid)) (restart_total tid n)"
  "rel_io (keeps (db_view tid)) (restart_progress tid n b)"
  by (auto simp: rel_io_def keeps_def db_view_def rlog_def restart_total_def restart_progress_def status_of_on_restart
      on_restart_frame) (simp_all add: status_of_def comp_def)

lemma db_view_world: "world_only m \<Longrightarrow> rel_io (keeps (db_view tid)) m"
  by (simp add: rel_io_def keeps_def off_wld_def db_view_def status_of_def get_restart_task_def)

lemma restart_status_db: "yields (db_view tid) (\<lambda>(d, c, st) r q. r = Inr () \<and> q = (d, c, map_option (\<lambda>_. x) st)) (restart_status tid x)"
  by (auto simp: yields_def restart_status_def db_view_def status_of_on_restart on_restart_frame comp_def)
    (simp_all add: on_restart_def status_of_def comp_def option.map_comp)

lemma set_status_db: "yields (db_view tid) (\<lambda>(d, c, st) r q. r = Inr () \<and> q = (mark i x d, c, st)) (set_service_status i x)"
  by (simp add: yields_def set_service_status_def upd_sess_def db_view_def mark_def status_of_def get_restart_task_def)

lemma commit_db: "yields (db_view tid) (\<lambda>(d, c, st) r q. r = Inr () \<and> q = (d, d, st)) commit"
  by (simp add: yields_def commit_def db_view_def status_of_def get_restart_task_def)

lemma world_probes: "world_only (check_broker_health R cfg h role c)" "world_only (check_service_running R h u)"
  "world_only (check_kafka_port R h p)" "world_only (wait_for_isr R cfg h c n)"
  unfolding check_broker_health_def check_service_running_def check_kafka_port_def wait_for_isr_def
  by (auto intro!: world_steps)

lemma world_wait_healthy: "world_only ready \<Longrightarrow> world_only (wait_healthy R h u ready)"
  unfolding wait_healthy_def by (auto intro!: world_steps world_probes)

lemma world_await_stop: "world_only (poll 0 30 (\<lambda>_. bnd (exec_command R h c n) (\<lambda>(_, stdout, _).
     if strip stdout \<noteq> ''active'' then ret True else seqm (sleep R 1) (ret False))))"
  by (auto intro!: world_steps)

lemmas db_quiet = db_view_logs db_view_world[OF world_probes(1)] db_view_world[OF world_probes(2)]
  db_view_world[OF world_probes(3)] db_view_world[OF world_probes(4)] db_view_world[OF world_only_connect]
  db_view_world[OF world_only_exec_command] db_view_world[OF world_await_stop] db_view_world[OF world_only_sleep]

section \<open>Effect of one restart on the database\<close>

definition bounce_db :: "tables \<times> tables \<times> string option \<Rightarrow> exn + bool \<Rightarrow> tables \<times> tables \<times> string option \<Rightarrow> bool" where
  "bounce_db p r q \<longleftrightarrow> (case (p, r) of ((d, c, st), Inl e) \<Rightarrow> q = (d, c, st)
     | ((d, c, st), Inr b) \<Rightarrow> q = (d, c, if b then st else map_option (\<lambda>_. ''error'') st))"

lemma failed_start_db: "yields (db_view tid) (\<lambda>(d, c, st) r q. r = Inr False \<and> q = (d, c, map_option (\<lambda>_. ''error'') st))
    (seqm (restart_status tid ''error'') (ret False))"
  by (rule yields_seqm[OF restart_status_db yields_value]) auto

lemma bounce_db: "yields (db_view tid) bounce_db (bounce R tid h u)"
proof -
  have inl: "bounce_db p (Inl e) p" for p e
    by (simp add: bounce_db_def split: prod.split)
  note skip = yields_skip[where A = bounce_db, OF _ inl] yields_skip_seqm[where A = bounce_db, OF _ inl]
  note exec = db_view_world[OF world_only_exec_command]
  have start: "yields (db_view tid) bounce_db
      (bnd (exec_command R h c 60) (\<lambda>(rc, _, stderr).
       if rc \<noteq> 0 then seqm (rlog tid (f stderr)) (seqm (restart_status tid ''error'') (ret False)) else ret True))" for c f
  proof (rule skip(1)[OF exec], clarify)
    fix rc :: int and out err :: string
    show "yields (db_view tid) bounce_db
        (if rc \<noteq> 0 then seqm (rlog tid (f err)) (seqm (restart_status tid ''error'') (ret False)) else ret True)"
      by (intro yields_if skip(2)[OF db_view_logs(1)] yields_mono[OF failed_start_db] yields_ret)
        (auto simp: bounce_db_def)
  qed
  have rest: "yields (db_view tid) bounce_db (seqm (if b then rlog tid m else ret ()) (seqm (rlog tid m1) (seqm
      (poll 0 30 (\<lambda>_. bnd (exec_command R h c1 10) (\<lambda>(_, stdout, _).
             if strip stdout \<noteq> ''active'' then ret True else seqm (sleep R 1) (ret False))))
      (seqm (rlog tid m2) (seqm (rlog tid m3) (bnd (exec_command R h c2 60) (\<lambda>(rc, _, stderr).
       if rc \<noteq> 0 then seqm (rlog tid (f stderr)) (seqm (restart_status tid ''error'') (ret False)) else ret True)))))))"
    for b m m1 c1 m2 m3 c2 f
    by (intro skip(2) start db_quiet keeps_io.rel_if keeps_io.rel_ret)
  show ?thesis unfolding bounce_def
    by (intro skip(2)[OF db_view_logs(1)] skip(1)[OF exec]) (clarify, rule rest)
qed

text \<open>What restarting one service does to the rows: it is left alone, or marked and, on failure, committed.\<close>

definition service_db :: "service \<Rightarrow> tables \<times> tables \<times> string option \<Rightarrow> exn + bool \<Rightarrow> tables \<times> tables \<times> string option \<Rightarrow> bool" where
  "service_db svc p r q \<longleftrightarrow> (case p of (d, c, st) \<Rightarrow> case r of
     Inl e \<Rightarrow> q = (d, c, st) \<or> q = (mark (s_id svc) ''running'' d, c, st)
   | Inr True \<Rightarrow> q = (mark (s_id svc) ''running'' d, c, st)
   | Inr False \<Rightarrow> q = (d, c, map_option (\<lambda>_. ''error'') st) \<or>
        q = (mark (s_id svc) ''error'' d, mark (s_id svc) ''error'' d, map_option (\<lambda>_. ''error'') st))"

lemma service_db_Inl: "service_db svc p (Inl e) p"
  by (simp add: service_db_def split: prod.split)

lemmas service_skip = yields_skip[where A = "service_db svc", OF _ service_db_Inl]
  yields_skip_seqm[where A = "service_db svc", OF _ service_db_Inl] for svc

lemma finish_running:
  assumes "rel_io (keeps (db_view tid)) m"
  shows "yields (db_view tid) (service_db svc)
     (seqm (set_service_status (s_id svc) ''running'') (seqm m (seqm (rlog tid []) (ret True))))"
proof -
  have "yields (db_view tid) (\<lambda>p r q. q = p \<and> (case r of Inl e \<Rightarrow> True | Inr b \<Rightarrow> b)) (seqm m (seqm (rlog tid []) (ret True)))"
    by (intro yields_skip_seqm assms db_view_logs yields_ret) auto
  from yields_seqm[OF set_status_db this] show ?thesis
    by (rule yields_mono) (auto simp: service_db_def split: sum.splits bool.splits)
qed

lemma finish_error: "yields (db_view tid)
   (\<lambda>(d, c, st) r q. r = Inr False \<and> q = (mark i ''error'' d, mark i ''error'' d, map_option (\<lambda>_. ''error'') st))
   (seqm (set_service_status i ''error'') (seqm (restart_status tid ''error'') (seqm commit (ret False))))"
proof -
  have c: "yields (db_view tid) (\<lambda>(d, c, st) r q. r = Inr False \<and> q = (d, d, st)) (seqm commit (ret False))"
    by (rule yields_seqm[OF commit_db yields_value]) auto
  have "yields (db_view tid) (\<lambda>(d, c, st) r q. r = Inr False \<and> q = (d, d, map_option (\<lambda>_. ''error'') st))
      (seqm (restart_status tid ''error'') (seqm commit (ret False)))"
    by (rule yields_seqm[OF restart_status_db c]) auto
  then show ?thesis by (rule yields_seqm[OF set_status_db]) auto
qed

text \<open>What follows a successful start.\<close>

lemma after_start_db:
  assumes ready: "world_only ready" and isr: "rel_io (keeps (db_view tid)) isr"
  shows "yields (db_view tid) (service_db svc)
     (seqm (rlog tid m) (bnd (wait_healthy R h u ready) (\<lambda>healthy.
       if healthy then seqm (rlog tid m1) (seqm (set_service_status (s_id svc) ''running'') (seqm isr (seqm (rlog tid []) (ret True))))
       else seqm (rlog tid m3) (seqm (set_service_status (s_id svc) ''error'')
            (seqm (restart_status tid ''error'') (seqm commit (ret False)))))))"
  by (intro service_skip(2)[OF db_view_logs(1)] service_skip(1)[OF db_view_world[OF world_wait_healthy[OF ready]]]
      yields_if finish_running[OF isr] yields_mono[OF finish_error])
    (auto simp: service_db_def)

lemma after_bounce_db:
  assumes "\<And>b. b \<Longrightarrow> yields (db_view tid) (service_db svc) k"
  shows "yields (db_view tid) (service_db svc) (bnd (bounce R tid h u) (\<lambda>b. if \<not> b then ret False else k))"
proof (rule yields_bnd[OF bounce_db, where C = "\<lambda>b. if b then service_db svc else (\<lambda>p r q. r = Inr False \<and> q = p)"])
  show "yields (db_view tid) (if b then service_db svc else (\<lambda>p r q. r = Inr False \<and> q = p)) (if \<not> b then ret False else k)" for b
    using assms by (auto simp: yields_value)
qed (auto simp: bounce_db_def service_db_def split: if_splits)

lemma restart_service_db: "yields (db_view tid) (service_db svc) (restart_service R cfg tid c svc h)"
proof -
  have isr: "rel_io (keeps (db_view tid)) (if b then seqm (rlog tid m) (bnd (wait_for_isr R cfg h (Some c) 120) (\<lambda>ok. rlog tid (f ok))) else ret ())" for b m f
    by (intro keeps_io.rel_intros db_quiet)
  have ready: "world_only (if b then bnd (lift (cluster_listener_port c)) (check_kafka_port R h) else ret True)" for b
    by (intro world_steps world_probes)
  show ?thesis unfolding restart_service_def Let_def
    by (intro service_skip after_bounce_db
        after_start_db[OF ready isr] db_quiet keeps_io.rel_if keeps_io.rel_ret)
qed

lemma mark_mark: "mark i x (mark i y d) = mark i x d"
  by (simp add: mark_def upd_by_twice)

text \<open>The same with the handler for exceptions, for a service whose host may be missing.\<close>

definition one_db :: "host list \<Rightarrow> service \<Rightarrow> tables \<times> tables \<times> string option \<Rightarrow> exn + bool \<Rightarrow> tables \<times> tables \<times> string option \<Rightarrow> bool" where
  "one_db hs svc p r q \<longleftrightarrow> (case p of (d, c, st) \<Rightarrow>
     if by_id h_id hs (s_host_id svc) = None then r = Inr True \<and> q = p
     else (r = Inr True \<and> q = (mark (s_id svc) ''running'' d, c, st)) \<or>
       (r = Inr False \<and> (q = (d, c, map_option (\<lambda>_. ''error'') st) \<or>
          q = (mark (s_id svc) ''error'' d, mark (s_id svc) ''error'' d, map_option (\<lambda>_. ''error'') st))))"

lemma restart_failed_db: "yields (db_view tid)
   (\<lambda>(d, c, st) r q. r = Inr False \<and>
      q = (mark (s_id svc) ''error'' d, mark (s_id svc) ''error'' d, map_option (\<lambda>_. ''error'') st))
   (restart_failed tid svc e)"
  unfolding restart_failed_def
  by (rule yields_skip_seqm_calm[OF db_view_logs(1) calm_logs(1) finish_error])

lemma restart_one_db: "yields (db_view tid) (one_db hs svc) (restart_one R cfg tid c hs n (i, svc))"
proof (cases "by_id h_id hs (s_host_id svc)")
  case None
  then show ?thesis
    by (auto simp: restart_one_def one_db_def intro!: yields_skip_seqm_calm[OF db_view_logs(1) calm_logs(1)] yields_ret)
next
  case (Some h)
  have "yields (db_view tid) (one_db hs svc) (catch (restart_service R cfg tid c svc h) (restart_failed tid svc))"
    by (rule yields_catch[OF restart_service_db restart_failed_db])
      (auto simp: service_db_def one_db_def Some mark_mark split: if_splits bool.splits)
  then show ?thesis
    by (simp add: restart_one_def Some yields_skip_seqm_calm[OF db_view_logs(3) calm_logs(3)]
        yields_skip_seqm_calm[OF db_view_logs(1) calm_logs(1)])
qed

definition restarted :: "host list \<Rightarrow> service list \<Rightarrow> tables \<Rightarrow> tables" where
  "restarted hs svcs = fold (\<lambda>svc d. if by_id h_id hs (s_host_id svc) = None then d else mark (s_id svc) ''running'' d) svcs"

text \<open>The loop: all services restarted, or all before some service and that one either left alone without a
  commit or marked as failed and committed.\<close>

definition loop_db :: "host list \<Rightarrow> service list \<Rightarrow> tables \<times> tables \<times> string option \<Rightarrow> exn + bool \<Rightarrow> tables \<times> tables \<times> string option \<Rightarrow> bool" where
  "loop_db hs svcs p r q \<longleftrightarrow> (case p of (d, c, st) \<Rightarrow>
     (r = Inr True \<and> q = (restarted hs svcs d, c, st)) \<or>
     (r = Inr False \<and> (\<exists>before svc rest. svcs = before @ svc # rest \<and> by_id h_id hs (s_host_id svc) \<noteq> None \<and>
        (let e = mark (s_id svc) ''error'' (restarted hs before d); err = map_option (\<lambda>_. ''error'') st in
         q = (restarted hs before d, c, err) \<or> q = (e, e, err)))))"

lemma restarted_Cons: "restarted hs (svc # svcs) d =
    restarted hs svcs (if by_id h_id hs (s_host_id svc) = None then d else mark (s_id svc) ''running'' d)"
  by (simp add: restarted_def)

lemma loop_db_go: "loop_db hs svcs (restarted hs [svc] d, c, st) r u \<Longrightarrow> loop_db hs (svc # svcs) (d, c, st) r u"
proof -
  assume l: "loop_db hs svcs (restarted hs [svc] d, c, st) r u"
  have comp: "restarted hs xs (restarted hs [svc] d) = restarted hs (svc # xs) d" for xs
    by (simp add: restarted_def)
  consider "r = Inr True" "u = (restarted hs (svc # svcs) d, c, st)"
    | before x rest where "r = Inr False" "svcs = before @ x # rest" "by_id h_id hs (s_host_id x) \<noteq> None"
        "let e = mark (s_id x) ''error'' (restarted hs (svc # before) d); err = map_option (\<lambda>_. ''error'') st in
         u = (restarted hs (svc # before) d, c, err) \<or> u = (e, e, err)"
    using l unfolding loop_db_def split_conv comp by blast
  then show ?thesis
  proof cases
    case 1
    then show ?thesis by (simp add: loop_db_def)
  next
    case 2
    have "svc # svcs = (svc # before) @ x # rest" using 2 by simp
    with 2 show ?thesis unfolding loop_db_def by blast
  qed
qed

lemma loop_db_stop: "one_db hs svc p (Inr False) q \<Longrightarrow> loop_db hs (svc # svcs) p (Inr False) q"
proof -
  assume o': "one_db hs svc p (Inr False) q"
  obtain d c st where p: "p = (d, c, st)" by (cases p)
  have h: "by_id h_id hs (s_host_id svc) \<noteq> None" using o' by (cases "by_id h_id hs (s_host_id svc)") (simp_all add: p one_db_def)
  have "restarted hs [] d = d" by (simp add: restarted_def)
  then have "let e = mark (s_id svc) ''error'' (restarted hs [] d); err = map_option (\<lambda>_. ''error'') st in
      q = (restarted hs [] d, c, err) \<or> q = (e, e, err)"
    using o' h by (simp add: p one_db_def Let_def)
  moreover have "svc # svcs = [] @ svc # svcs" by simp
  ultimately show ?thesis unfolding loop_db_def p using h by blast
qed

lemma loop_db_Cons:
  assumes "one_db hs svc p (Inr go) q" and "if go then loop_db hs svcs q r u else r = Inr False \<and> u = q"
  shows "loop_db hs (svc # svcs) p r u"
proof (cases go)
  case True
  obtain d c st where p: "p = (d, c, st)" by (cases p)
  have "q = (restarted hs [svc] d, c, st)"
    using assms(1) True by (auto simp: p one_db_def restarted_def split: if_splits)
  with assms(2) True show ?thesis by (simp add: p loop_db_go)
next
  case False
  with assms show ?thesis by (simp add: loop_db_stop)
qed

lemma restart_loop_db: "yields (db_view tid) (loop_db hs svcs)
    (each_until (restart_one R cfg tid c hs n) (enumerate i svcs))"
proof (induction svcs arbitrary: i)
  case Nil
  show ?case by (simp add: yields_def loop_db_def restarted_def db_view_def)
next
  case (Cons svc svcs)
  have k: "yields (db_view tid) (\<lambda>p r q. if go then loop_db hs svcs p r q else r = Inr False \<and> q = p)
      (if go then each_until (restart_one R cfg tid c hs n) (enumerate (Suc i) svcs) else ret False)" for go
    using Cons by (auto simp: yields_value)
  show ?case unfolding enumerate_simps each_until.simps
  proof (rule yields_bnd[OF restart_one_db k])
    show "loop_db hs (svc # svcs) p (Inl e) q" if "one_db hs svc p (Inl e) q" for p e q
      using that by (cases p) (auto simp: one_db_def split: if_splits)
  qed (rule loop_db_Cons)
qed

lemma restarted_rows: "restarted hs svcs d = d\<lparr>services := map (\<lambda>x.
     if list_ex (\<lambda>v. s_id v = s_id x \<and> by_id h_id hs (s_host_id v) \<noteq> None) svcs then x\<lparr>s_status := ''running''\<rparr> else x)
     (services d)\<rparr>"
  by (induction svcs arbitrary: d) (auto simp: restarted_def mark_def upd_by_def)

text \<open>A whole restart, once the task and the cluster are there.\<close>

lemma restart_end_db: "yields (db_view tid)
    (\<lambda>(d, c, st) r q. r = Inr () \<and> q = (if go then (d, d, map_option (\<lambda>_. ''completed'') st) else (d, c, st)))
    (if \<not> go then ret () else seqm commit (seqm (rlog tid m1) (seqm (rlog tid m2) (restart_status tid ''completed''))))"
proof (cases go)
  case True
  have "yields (db_view tid) (\<lambda>(d, c, st) r q. r = Inr () \<and> q = (d, c, map_option (\<lambda>_. ''completed'') st))
     (seqm (rlog tid m1) (seqm (rlog tid m2) (restart_status tid ''completed'')))"
    by (intro yields_skip_seqm_calm db_view_logs calm_logs restart_status_db)
  then have "yields (db_view tid) (\<lambda>(d, c, st) r q. r = Inr () \<and> q = (d, d, map_option (\<lambda>_. ''completed'') st))
     (seqm commit (seqm (rlog tid m1) (seqm (rlog tid m2) (restart_status tid ''completed''))))"
    by (rule yields_seqm[OF commit_db]) auto
  with True show ?thesis by simp
next
  case False
  then show ?thesis by simp (rule yields_mono[OF yields_value], auto)
qed

definition run_db :: "host list \<Rightarrow> service list \<Rightarrow> tables \<times> tables \<times> string option \<Rightarrow> exn + unit \<Rightarrow> tables \<times> tables \<times> string option \<Rightarrow> bool" where
  "run_db hs svcs p r q \<longleftrightarrow> r = Inr () \<and> (\<exists>x d c st. loop_db hs svcs p x (d, c, st) \<and>
     q = (if x = Inr True then (d, d, map_option (\<lambda>_. ''completed'') st) else (d, c, st)))"

lemma restart_all_db: "yields (db_view tid) (run_db hs svcs) (restart_all R cfg tid c hs scope svcs)"
proof -
  have "yields (db_view tid) (run_db hs svcs) (bnd (each_until (restart_one R cfg tid c hs n) (enumerate i svcs)) (\<lambda>go.
      if \<not> go then ret () else seqm commit (seqm (rlog tid m4) (seqm (rlog tid m5) (restart_status tid ''completed'')))))" for n i m4 m5
  proof (rule yields_bnd[OF restart_loop_db restart_end_db])
    show "run_db hs svcs p (Inl e) q" if "loop_db hs svcs p (Inl e) q" for p e q
      using that by (simp add: loop_db_def split: prod.splits)
    show "run_db hs svcs p r u" if "loop_db hs svcs p (Inr x) q"
      "(case q of (d, c, st) \<Rightarrow> \<lambda>r u. r = Inr () \<and> u = (if x then (d, d, map_option (\<lambda>_. ''completed'') st) else (d, c, st))) r u"
      for p x q r u
    proof (cases q)
      case (fields d c st)
      with that show ?thesis unfolding run_db_def by (intro conjI exI[of _ "Inr x"] exI[of _ d] exI[of _ c] exI[of _ st]) auto
    qed
  qed
  then show ?thesis unfolding restart_all_def Let_def by (intro yields_skip_seqm_calm db_view_logs calm_logs)
qed

lemma rolling_restart_run:
  assumes "get_restart_task tid s \<noteq> None" and "find_cluster (sess s) cid = Some c" and "restart_services (sess s) cid scope \<noteq> []"
  obtains t where "rolling_restart R cfg cid tid scope s = (Inr (), t)"
    and "run_db (hosts (sess s)) (restart_services (sess s) cid scope) (db_view tid s) (Inr ()) (db_view tid t)"
proof -
  let ?body = "restart_all R cfg tid c (hosts (sess s)) scope (restart_services (sess s) cid scope)"
  have run: "rolling_restart R cfg cid tid scope s =
      catch ?body (\<lambda>e. seqm (rlog tid (''ERROR: '' @ exn_str e)) (restart_status tid ''error'')) s"
    using assms by (cases "get_restart_task tid s") (simp_all add: rolling_restart_def bnd_run catch_run)
  obtain r t where "?body s = (r, t)" by (cases "?body s")
  with yieldsD[OF restart_all_db this] run show ?thesis
    using that[of t] by (simp add: run_db_def catch_run)
qed

section \<open>Starts and stops of units\<close>

text \<open>The starts and stops of one round on a unit: none, a stop, or a stop and then a start.  Only a round that
  did both, the start with exit code 0, may be followed by another one.\<close>

definition ran :: "string \<Rightarrow> string \<Rightarrow> event \<Rightarrow> bool" where
  "ran h c ev = (case ev of Ran h' c' rc \<Rightarrow> h' = h \<and> c' = c | _ \<Rightarrow> False)"

definition exited_0 :: "event \<Rightarrow> bool" where
  "exited_0 ev = (case ev of Ran h c rc \<Rightarrow> rc = 0 | _ \<Rightarrow> False)"

fun round_ok :: "(string \<times> string) option \<Rightarrow> bool \<Rightarrow> event list \<Rightarrow> bool" where
  "round_ok None go es \<longleftrightarrow> es = []"
| "round_ok (Some x) go [] \<longleftrightarrow> \<not> go"
| "round_ok (Some (h, u)) go [a] \<longleftrightarrow> \<not> go \<and> ran h (stop_cmd u) a"
| "round_ok (Some (h, u)) go [a, b] \<longleftrightarrow> ran h (stop_cmd u) a \<and> ran h (start_cmd u) b \<and> (exited_0 b \<or> \<not> go)"
| "round_ok (Some x) go (a # b # c # es) \<longleftrightarrow> False"

text \<open>A run down a plan: every unit is stopped and started before the next one is touched, in the order of the
  plan; if the run ended, all of the plan was done, otherwise it stopped somewhere.\<close>

fun rolling :: "(string \<times> string) list \<Rightarrow> bool \<Rightarrow> event list \<Rightarrow> bool" where
  "rolling [] ended es \<longleftrightarrow> es = []"
| "rolling (x # plan) ended [] \<longleftrightarrow> \<not> ended"
| "rolling ((h, u) # plan) ended [a] \<longleftrightarrow> \<not> ended \<and> ran h (stop_cmd u) a"
| "rolling ((h, u) # plan) ended (a # b # es) \<longleftrightarrow> ran h (stop_cmd u) a \<and> ran h (start_cmd u) b \<and>
     (if exited_0 b then rolling plan ended es else \<not> ended \<and> es = [])"

lemma rolling_stopped: "rolling plan False []"
  by (cases plan) auto

lemma rolling_end: "round_ok (Some x) False es \<Longrightarrow> rolling (x # plan) False es"
  by (cases "(Some x, False, es)" rule: round_ok.cases) (auto simp: rolling_stopped)

lemma rolling_step: "round_ok (Some x) True es \<Longrightarrow> rolling plan ended es' \<Longrightarrow> rolling (x # plan) ended (es @ es')"
  by (cases "(Some x, True, es)" rule: round_ok.cases) auto

definition grows_as :: "(bool \<Rightarrow> event list \<Rightarrow> bool) \<Rightarrow> event list \<Rightarrow> exn + bool \<Rightarrow> event list \<Rightarrow> bool" where
  "grows_as P p r q \<longleftrightarrow> (\<exists>es. q = p @ es \<and> P (r = Inr True) es)"

text \<open>
  The interface between a loop over restarts and what one restart does: \<open>step\<close> restarts one item whose unit is
  \<open>target\<close>, and does nothing else to units.
\<close>

locale restart_rounds =
  fixes ok :: bool and step :: "'x \<Rightarrow> (('w \<times> event list) sys, bool) io" and target :: "'x \<Rightarrow> (string \<times> string) option"
  assumes one_round: "ok \<Longrightarrow> yields unit_ops (grows_as (round_ok (target x))) (step x)"
begin

lemma one_at_a_time: "ok \<Longrightarrow> yields unit_ops (grows_as (rolling (List.map_filter target xs))) (each_until step xs)"
proof (induction xs)
  case Nil
  show ?case by (simp add: yields_def grows_as_def map_filter_simps)
next
  case (Cons x xs)
  let ?rest = "\<lambda>go. if go then each_until step xs else ret False"
  have k: "yields unit_ops (\<lambda>p r q. if go then grows_as (rolling (List.map_filter target xs)) p r q else r = Inr False \<and> q = p) (?rest go)"
    for go using Cons by (auto simp: yields_value)
  show ?case unfolding each_until.simps
  proof (rule yields_bnd[OF one_round[OF Cons.prems] k])
    show "grows_as (rolling (List.map_filter target (x # xs))) p (Inl e) q"
      if "grows_as (round_ok (target x)) p (Inl e) q" for p e q
      using that by (cases "target x")
        (auto simp: grows_as_def map_filter_simps rolling_stopped intro: rolling_end)
    show "grows_as (rolling (List.map_filter target (x # xs))) p r u"
      if a: "grows_as (round_ok (target x)) p (Inr go) q"
        and b: "if go then grows_as (rolling (List.map_filter target xs)) q r u else r = Inr False \<and> u = q" for p go q r u
    proof (cases go)
      case True
      with a b obtain es es' where "q = p @ es" "round_ok (target x) True es" "u = q @ es'"
        "rolling (List.map_filter target xs) (r = Inr True) es'" by (auto simp: grows_as_def)
      then show ?thesis by (cases "target x")
        (auto simp: grows_as_def map_filter_simps intro: rolling_step)
    next
      case False
      with a b show ?thesis by (cases "target x")
        (auto simp: grows_as_def map_filter_simps rolling_stopped intro: rolling_end)
    qed
  qed
qed

end

lemma ops_exec: "yields unit_ops (\<lambda>p r q. q = p @ (if starts_with cmd ''sudo systemctl ''
     then [Ran (h_id h) cmd (case r of Inl e \<Rightarrow> -1 | Inr (rc, x) \<Rightarrow> rc)] else []))
   (exec_command (recorded R) h cmd n)"
  by (auto simp: yields_def exec_command_def bnd_run on_wld_def recorded_def log_ev_of_def unit_ops_def trace_def
      exit_code_of_def is_unit_op_def split: prod.splits sum.splits)

lemma ops_exec_quiet: "\<not> starts_with cmd ''sudo systemctl '' \<Longrightarrow> rel_io (keeps unit_ops) (exec_command (recorded R) h cmd n)"
  using ops_exec[of cmd h R n] by (simp add: yields_def rel_io_def keeps_def)

lemma ops_tasks: "rel_io (keeps unit_ops) (on_restart tid f)"
  by (simp add: rel_io_def keeps_def unit_ops_def trace_def on_restart_frame)

lemma ops_logs: "rel_io (keeps unit_ops) (rlog tid m)" "rel_io (keeps unit_ops) (restart_status tid st)"
  "rel_io (keeps unit_ops) (restart_progress tid n b)" "rel_io (keeps unit_ops) (restart_total tid n)"
  by (simp_all add: rlog_def restart_status_def restart_progress_def restart_total_def ops_tasks)

lemma ops_steps: "rel_io (keeps unit_ops) (ssh_connect (recorded R) h)" "rel_io (keeps unit_ops) (sleep (recorded R) n)"
  "rel_io (keeps unit_ops) (set_service_status i st)" "rel_io (keeps unit_ops) commit"
  by (auto simp: rel_io_def keeps_def unit_ops_def trace_def ssh_connect_def on_wld_def recorded_def log_ev_def sleep_def
      is_unit_op_def set_service_status_def upd_sess_def commit_def split: prod.splits)

lemma not_unit_op: "\<not> starts_with (''systemctl is-active '' @ u) ''sudo systemctl ''"
  "\<not> starts_with (''bash -c '' @ u) ''sudo systemctl ''"
  by (simp_all add: starts_with_def)

lemma not_unit_op_path: "starts_with p ''/'' \<Longrightarrow> \<not> starts_with (p @ x) ''sudo systemctl ''"
  by (cases p) (auto simp: starts_with_def)

lemma is_unit_cmd: "starts_with (stop_cmd u) ''sudo systemctl ''" "starts_with (start_cmd u) ''sudo systemctl ''"
  by (simp_all add: starts_with_def stop_cmd_def start_cmd_def)

lemma ops_probes:
  "rel_io (keeps unit_ops) (check_service_running (recorded R) h u)"
  "rel_io (keeps unit_ops) (check_kafka_port (recorded R) h p)"
  unfolding check_service_running_def check_kafka_port_def
  by (intro keeps_io.rel_intros ops_exec_quiet not_unit_op)+

lemma ops_kafka_tools:
  assumes "starts_with (install_dir cfg c) ''/''"
  shows "rel_io (keeps unit_ops) (check_broker_health (recorded R) cfg h role (Some c))"
    and "rel_io (keeps unit_ops) (wait_for_isr (recorded R) cfg h (Some c) n)"
proof -
  have home: "bnd (lift (home_and_port cfg (Some c))) (\<lambda>(home, port). k home port) =
      bnd (lift (cluster_listener_port c)) (k (install_dir cfg c))" for k :: "string \<Rightarrow> int \<Rightarrow> (('a \<times> event list) sys, bool) io"
    by (cases "cluster_listener_port c") (simp_all add: home_and_port_def)
  show "rel_io (keeps unit_ops) (check_broker_health (recorded R) cfg h role (Some c))"
    unfolding check_broker_health_def home by (intro keeps_io.rel_intros ops_exec_quiet not_unit_op_path[OF assms])
  show "rel_io (keeps unit_ops) (wait_for_isr (recorded R) cfg h (Some c) n)"
    unfolding wait_for_isr_def home by (intro keeps_io.rel_intros ops_exec_quiet ops_steps not_unit_op_path[OF assms])
qed

lemma ops_wait_healthy: "rel_io (keeps unit_ops) ready \<Longrightarrow> rel_io (keeps unit_ops) (wait_healthy (recorded R) h u ready)"
  unfolding wait_healthy_def by (intro keeps_io.rel_intros ops_probes ops_steps)

text \<open>One round: the unit operations are those of \<open>bounce\<close>, everything around it is quiet.\<close>

lemma grows_as_Inl: "P False [] \<Longrightarrow> grows_as P p (Inl e) p"
  by (simp add: grows_as_def)

lemma ops_start: "yields unit_ops (\<lambda>p r q. \<exists>b. q = p @ [b] \<and> ran (h_id h) (start_cmd u) b \<and> (r = Inr True \<longrightarrow> exited_0 b))
   (bnd (exec_command (recorded R) h (start_cmd u) 60) (\<lambda>(rc, _, stderr).
     if rc \<noteq> 0 then seqm (rlog tid (f stderr)) (seqm (restart_status tid ''error'') (ret False)) else ret True))"
proof (rule yields_bnd[OF ops_exec])
  show "yields unit_ops (\<lambda>p r q. q = p \<and> (r = Inr True \<longrightarrow> fst x = 0))
     (case x of (rc, _, stderr) \<Rightarrow>
        if rc \<noteq> 0 then seqm (rlog tid (f stderr)) (seqm (restart_status tid ''error'') (ret False)) else ret True)" for x
    by (cases x) (auto intro!: yields_skip_seqm ops_logs yields_ret)
qed (auto simp: is_unit_cmd ran_def exited_0_def)

lemma ops_after_stop:
  "yields unit_ops (\<lambda>p r q. (\<exists>b. q = p @ [b] \<and> ran (h_id h) (start_cmd u) b \<and> (r = Inr True \<longrightarrow> exited_0 b)) \<or> (q = p \<and> r \<noteq> Inr True))
     (seqm m1 (seqm (rlog tid m2) (seqm (poll 0 30 (\<lambda>_. bnd (exec_command (recorded R) h (''systemctl is-active '' @ u) 10)
         (\<lambda>(_, stdout, _). if strip stdout \<noteq> ''active'' then ret True else seqm (sleep (recorded R) 1) (ret False))))
     (seqm (rlog tid m3) (seqm (rlog tid m4) (bnd (exec_command (recorded R) h (start_cmd u) 60) (\<lambda>(rc, _, stderr).
     if rc \<noteq> 0 then seqm (rlog tid (f stderr)) (seqm (restart_status tid ''error'') (ret False)) else ret True)))))))"
  if "rel_io (keeps unit_ops) m1"
proof -
  have poll: "rel_io (keeps unit_ops) (poll 0 30 (\<lambda>_. bnd (exec_command (recorded R) h (''systemctl is-active '' @ u) 10)
      (\<lambda>(_, stdout, _). if strip stdout \<noteq> ''active'' then ret True else seqm (sleep (recorded R) 1) (ret False))))"
    by (intro keeps_io.rel_intros ops_exec_quiet not_unit_op ops_steps)
  show ?thesis
    by (intro yields_skip_seqm that poll ops_logs yields_mono[OF ops_start]) auto
qed

lemma bounce_ops: "yields unit_ops (grows_as (round_ok (Some (h_id h, u)))) (bounce (recorded R) tid h u)"
proof -
  have stop: "yields unit_ops (grows_as (round_ok (Some (h_id h, u)))) (bnd (exec_command (recorded R) h (stop_cmd u) 60) k)"
    if k: "\<And>x. yields unit_ops (\<lambda>p r q. (\<exists>b. q = p @ [b] \<and> ran (h_id h) (start_cmd u) b \<and> (r = Inr True \<longrightarrow> exited_0 b))
        \<or> (q = p \<and> r \<noteq> Inr True)) (k x)" for k
    by (rule yields_bnd[OF ops_exec k]) (auto simp: is_unit_cmd grows_as_def ran_def)
  show ?thesis unfolding bounce_def
    by (intro yields_skip_seqm[where A = "grows_as (round_ok (Some (h_id h, u)))", OF _ grows_as_Inl] ops_logs stop)
      (simp, clarify, intro ops_after_stop keeps_io.rel_if ops_logs keeps_io.rel_ret)
qed

lemma round_bnd:
  assumes "\<And>b. b \<Longrightarrow> rel_io (keeps unit_ops) k"
  shows "yields unit_ops (grows_as (round_ok (Some (h_id h, u)))) (bnd (bounce (recorded R) tid h u) (\<lambda>b. if \<not> b then ret False else k))"
proof (rule yields_bnd[OF bounce_ops])
  show "yields unit_ops (\<lambda>p r q. q = p \<and> (b \<or> r = Inr False)) (if \<not> b then ret False else k)" for b
    using assms by (cases b) (auto intro: yields_mono[OF yields_keeps] yields_mono[OF yields_value])
next
  have full: "round_ok t True es \<Longrightarrow> round_ok t False es \<or> es \<noteq> []" for t es by (cases t; cases es) auto
  have weak: "round_ok (Some x) True es \<Longrightarrow> round_ok (Some x) b es" for x es b
    by (cases "(Some x, True, es)" rule: round_ok.cases) auto
  show "grows_as (round_ok (Some (h_id h, u))) p r w"
    if "grows_as (round_ok (Some (h_id h, u))) p (Inr x) q" "w = q \<and> (x \<or> r = Inr False)" for p x q r w
    using that by (cases x) (auto simp: grows_as_def intro: weak)
qed (auto simp: grows_as_def)

lemmas round_skip = yields_skip[where A = "grows_as (round_ok (Some x))", OF _ grows_as_Inl]
  yields_skip_seqm[where A = "grows_as (round_ok (Some x))", OF _ grows_as_Inl] for x

definition managed_target :: "cluster \<Rightarrow> host list \<Rightarrow> nat \<times> service \<Rightarrow> (string \<times> string) option" where
  "managed_target c hs = (\<lambda>(i, svc). map_option (\<lambda>h. (h_id h, unit_for_service c svc)) (by_id h_id hs (s_host_id svc)))"

lemma restart_service_ops:
  assumes "starts_with (install_dir cfg c) ''/''"
  shows "yields unit_ops (grows_as (round_ok (Some (h_id h, unit_for_service c svc)))) (restart_service (recorded R) cfg tid c svc h)"
  unfolding restart_service_def Let_def
  by (intro round_skip round_bnd keeps_io.rel_intros ops_steps ops_logs ops_kafka_tools[OF assms] ops_wait_healthy ops_probes)
    simp_all

lemma round_catch:
  assumes "yields unit_ops (grows_as (round_ok (Some x))) m" and "\<And>e. yields unit_ops (\<lambda>p r q. q = p \<and> r \<noteq> Inr True) (h e)"
  shows "yields unit_ops (grows_as (round_ok (Some x))) (catch m h)"
  by (rule yields_catch[OF assms]) (auto simp: grows_as_def)

lemma restart_one_ops:
  assumes "starts_with (install_dir cfg c) ''/''"
  shows "yields unit_ops (grows_as (round_ok (managed_target c hs x))) (restart_one (recorded R) cfg tid c hs n x)"
proof (cases x)
  case (Pair i svc)
  have fail: "yields unit_ops (\<lambda>p r q. q = p \<and> r \<noteq> Inr True) (restart_failed tid svc e)" for e
    unfolding restart_failed_def by (intro yields_skip_seqm ops_logs ops_steps yields_ret) auto
  show ?thesis
  proof (cases "by_id h_id hs (s_host_id svc)")
    case None
    have "yields unit_ops (grows_as (round_ok None)) (seqm (rlog tid m) (ret True))" for m
      by (intro yields_skip_seqm ops_logs yields_ret) (auto simp: grows_as_def)
    then show ?thesis by (simp add: Pair restart_one_def managed_target_def None)
  next
    case (Some h)
    show ?thesis unfolding Pair restart_one_def managed_target_def split_conv Some option.case option.map
      by (intro round_skip ops_logs round_catch restart_service_ops[OF assms] fail) simp_all
  qed
qed

definition external_target :: "host list \<Rightarrow> nat \<times> json \<Rightarrow> (string \<times> string) option" where
  "external_target hs = (\<lambda>(i, entry).
     case entry_dict entry of Inl _ \<Rightarrow> None
     | Inr e \<Rightarrow> (case (entry_host e, entry_unit e) of
         (Inr hid, Inr u) \<Rightarrow> map_option (\<lambda>h. (h_id h, u)) (by_id h_id hs hid) | _ \<Rightarrow> None))"

lemma restart_external_one_ops:
  "yields unit_ops (grows_as (round_ok (external_target hs x))) (restart_external_one (recorded R) tid hs port n x)"
proof (cases x)
  case (Pair i entry)
  have none: "grows_as (round_ok None) p r p" for p r by (simp add: grows_as_def)
  have broker: "yields unit_ops (grows_as (round_ok (Some (h_id h, u)))) (restart_broker (recorded R) tid port u label h)" for u label h
    unfolding restart_broker_def
    by (intro round_skip round_bnd keeps_io.rel_intros ops_steps ops_logs ops_wait_healthy ops_probes) simp_all
  have fail: "yields unit_ops (\<lambda>p r q. q = p \<and> r \<noteq> Inr True) (seqm (rlog tid m) (seqm (restart_status tid st) (ret False)))" for m st
    by (intro yields_skip_seqm ops_logs yields_ret) auto
  have skip: "yields unit_ops (grows_as (round_ok None)) (seqm (rlog tid m) (ret True))" for m
    by (intro yields_skip_seqm ops_logs yields_ret none)
  have act: "yields unit_ops (grows_as (round_ok (Some (h_id h, u)))) (bnd (lift b) (\<lambda>b. seqm (restart_progress tid k (f b))
      (seqm (rlog tid (g b)) (catch (restart_broker (recorded R) tid port u (label b) h)
        (\<lambda>e. seqm (rlog tid (m e)) (seqm (restart_status tid ''error'') (ret False)))))))" for b k f g label m u h
    by (intro round_skip keeps_io.rel_lift ops_logs round_catch broker fail) simp_all
  have raise': "yields unit_ops (grows_as (round_ok t)) (raise e)" if "t = None" for t e
    unfolding that by (intro yields_raise none)
  have raise'': "yields unit_ops (grows_as (round_ok None)) (Pair (Inl e))" for e
    using raise'[of None e] by (simp add: raise_def)
  show ?thesis unfolding Pair restart_external_one_def external_target_def Let_def split_conv
    by (auto intro!: raise' raise'' skip act split: sum.split option.split)
qed

interpretation managed_rounds: restart_rounds "starts_with (install_dir cfg c) ''/''" "restart_one (recorded R) cfg tid c hs n"
  "managed_target c hs" for cfg c R tid hs n
  by unfold_locales (rule restart_one_ops)

interpretation external_rounds: restart_rounds True "restart_external_one (recorded R) tid hs port n" "external_target hs"
  for R tid hs port n
  by unfold_locales (rule restart_external_one_ops)

section \<open>Properties\<close>

text \<open>The units a restart of these services is to go through, with their hosts.\<close>

definition restart_plan :: "cluster \<Rightarrow> host list \<Rightarrow> service list \<Rightarrow> (string \<times> string) list" where
  "restart_plan c hs svcs = List.map_filter (\<lambda>svc. managed_target c hs (0, svc)) svcs"

lemma restart_plan_enumerate: "List.map_filter (managed_target c hs) (enumerate i svcs) = restart_plan c hs svcs"
  by (induction svcs arbitrary: i) (simp_all add: restart_plan_def map_filter_simps managed_target_def split: option.split)

lemma restart_all_both:
  assumes "starts_with (install_dir cfg c) ''/''" and "status_of tid s \<noteq> None" and "status_of tid s \<noteq> Some ''completed''"
    and "restart_all (recorded R) cfg tid c hs scope svcs s = (r, t)"
  shows "\<exists>es. unit_ops t = unit_ops s @ es \<and> rolling (restart_plan c hs svcs) (status_of tid t = Some ''completed'') es"
proof -
  let ?view = "\<lambda>s. (db_view tid s, unit_ops s)"
  let ?L = "\<lambda>p r q. loop_db hs svcs (fst p) r (fst q) \<and> grows_as (rolling (restart_plan c hs svcs)) (snd p) r (snd q)"
  let ?A = "\<lambda>p (r :: exn + unit) q. \<exists>x db'. loop_db hs svcs (fst p) x db' \<and> grows_as (rolling (restart_plan c hs svcs)) (snd p) x (snd q) \<and>
      snd (snd (fst q)) = (if x = Inr True then map_option (\<lambda>_. ''completed'') (snd (snd db')) else snd (snd db'))"
  have loop: "yields ?view ?L (each_until (restart_one (recorded R) cfg tid c hs n) (enumerate 0 svcs))" for n
    by (rule yields_both[OF restart_loop_db managed_rounds.one_at_a_time[OF assms(1), where xs = "enumerate 0 svcs", unfolded restart_plan_enumerate]])
  have fin: "yields ?view (\<lambda>p r q. snd q = snd p \<and>
       snd (snd (fst q)) = (if go then map_option (\<lambda>_. ''completed'') (snd (snd (fst p))) else snd (snd (fst p))))
      (if \<not> go then ret () else seqm commit (seqm (rlog tid m1) (seqm (rlog tid m2) (restart_status tid ''completed''))))" for go m1 m2
  proof -
    have "rel_io (keeps unit_ops) (if \<not> go then ret () else seqm commit (seqm (rlog tid m1) (seqm (rlog tid m2) (restart_status tid ''completed''))))"
      by (intro keeps_io.rel_intros ops_logs ops_steps)
    from yields_both[OF restart_end_db yields_keeps[OF this]] show ?thesis
      by (rule yields_mono) (auto split: if_splits)
  qed
  have skip: "rel_io (keeps ?view) m \<and> calm m" if "rel_io (keeps (db_view tid)) m" "rel_io (keeps unit_ops) m" "calm m" for m :: "(('a \<times> event list) sys, unit) io"
    using that by (auto simp: rel_io_def keeps_def)
  note skips = yields_skip_seqm_calm[OF conjunct1[OF skip] conjunct2[OF skip]]
  have "yields ?view ?A (restart_all (recorded R) cfg tid c hs scope svcs)"
    unfolding restart_all_def Let_def
  proof (intro skips db_view_logs ops_logs calm_logs, rule yields_bnd[OF loop fin])
    show "?A p (Inl e) q" if "?L p (Inl e) q" for p e q
      using that by (simp add: loop_db_def split: prod.splits)
    show "?A p r u" if "?L p (Inr go) q" "snd u = snd q \<and>
       snd (snd (fst u)) = (if go then map_option (\<lambda>_. ''completed'') (snd (snd (fst q))) else snd (snd (fst q)))" for p go q r u
      using that by (intro exI[of _ "Inr go"] exI[of _ "fst q"]) auto
  qed
  from yieldsD[OF this assms(4)] obtain x db' where l: "loop_db hs svcs (db_view tid s) x db'"
    and g: "grows_as (rolling (restart_plan c hs svcs)) (unit_ops s) x (unit_ops t)"
    and st: "status_of tid t = (if x = Inr True then map_option (\<lambda>_. ''completed'') (snd (snd db')) else snd (snd db'))"
    by (auto simp: db_view_def)
  have "status_of tid t = Some ''completed'' \<longleftrightarrow> x = Inr True"
    using l assms(2) unfolding st loop_db_def db_view_def Let_def by auto
  with g show ?thesis by (auto simp: grows_as_def)
qed

text \<open>
  Claim C8.  A rolling restart touches one unit at a time.  Whatever the hosts answer, raise or time out, the
  restart returns, and the unit operations it sent are a run down the list of services in restart order
  (controllers and ZooKeeper, brokers, the rest; services without a host are skipped): each unit is stopped
  and then started on its host, and the next unit is only stopped after that start returned 0.  The task is
  only reported as completed if the run went down the whole list.  The install directory of the cluster
  is an absolute path.
\<close>

theorem restart_one_at_a_time:
  assumes "status_of tid s = Some ''running''" and "find_cluster (sess s) cid = Some c"
    and "starts_with (install_dir cfg c) ''/''"
  shows "\<exists>t es. rolling_restart (recorded R) cfg cid tid scope s = (Inr (), t) \<and> unit_ops t = unit_ops s @ es \<and>
     rolling (restart_plan c (hosts (sess s)) (restart_services (sess s) cid scope)) (status_of tid t = Some ''completed'') es"
proof (cases "restart_services (sess s) cid scope = []")
  case True
  have task: "get_restart_task tid s \<noteq> None" using assms(1) by (auto simp: status_of_def)
  let ?m = "seqm (rlog tid ''No services found matching the restart scope'') (restart_status tid ''completed'')"
  have q: "rel_io (keeps unit_ops) ?m" by (intro keeps_io.rel_intros ops_logs)
  have run: "rolling_restart (recorded R) cfg cid tid scope s = (Inr (), snd (?m s))"
    using task True assms(2) by (auto simp: rolling_restart_def bnd_run catch_run seqm_run rlog_def restart_status_def on_restart_def)
  have "unit_ops (snd (?m s)) = unit_ops s" using q unfolding rel_io_def keeps_def by blast
  moreover have "status_of tid (snd (?m s)) = Some ''completed''"
    using task by (auto simp: seqm_run rlog_def restart_status_def on_restart_def status_of_def get_restart_task_def AList.map_of_map_entry)
  ultimately show ?thesis using run True by (auto simp: restart_plan_def map_filter_simps)
next
  case False
  have task: "get_restart_task tid s \<noteq> None" using assms(1) by (auto simp: status_of_def)
  obtain r t where run: "restart_all (recorded R) cfg tid c (hosts (sess s)) scope (restart_services (sess s) cid scope) s = (r, t)"
    by (cases "restart_all (recorded R) cfg tid c (hosts (sess s)) scope (restart_services (sess s) cid scope) s")
  have "r = Inr ()" using yieldsD[OF restart_all_db run] by (simp add: run_db_def)
  then have "rolling_restart (recorded R) cfg cid tid scope s = (Inr (), t)"
    using task False assms(2) run by (cases "get_restart_task tid s") (auto simp: rolling_restart_def bnd_run catch_run)
  with restart_all_both[OF assms(3) _ _ run] assms(1) show ?thesis by auto
qed

text \<open>
  Claim C9.  What a rolling restart leaves in the database.  Either the task is completed, every service of
  the scope that has a host is running, and this is committed; or the task is in error at some service, and
  then either that service is marked as failed and everything up to it is committed, or nothing at all is
  committed: the statuses of the services restarted before are only in the session.
\<close>

theorem restart_outcome:
  assumes "status_of tid s = Some ''running''" and "find_cluster (sess s) cid = Some c"
    and "restart_services (sess s) cid scope \<noteq> []"
  shows "\<exists>t. rolling_restart R cfg cid tid scope s = (Inr (), t) \<and>
    (let hs = hosts (sess s); svcs = restart_services (sess s) cid scope in
     (status_of tid t = Some ''completed'' \<and> committed t = sess t \<and>
        sess t = (sess s)\<lparr>services := map (\<lambda>x. if list_ex (\<lambda>v. s_id v = s_id x \<and> by_id h_id hs (s_host_id v) \<noteq> None) svcs
                                           then x\<lparr>s_status := ''running''\<rparr> else x) (services (sess s))\<rparr>) \<or>
     (status_of tid t = Some ''error'' \<and> (\<exists>before svc rest. svcs = before @ svc # rest \<and> by_id h_id hs (s_host_id svc) \<noteq> None \<and>
        ((committed t = sess t \<and> sess t = mark (s_id svc) ''error'' (restarted hs before (sess s))) \<or>
         (committed t = committed s \<and> sess t = restarted hs before (sess s))))))"
proof -
  have task: "get_restart_task tid s \<noteq> None" using assms(1) by (auto simp: status_of_def)
  obtain t where run: "rolling_restart R cfg cid tid scope s = (Inr (), t)"
    and db: "run_db (hosts (sess s)) (restart_services (sess s) cid scope) (db_view tid s) (Inr ()) (db_view tid t)"
    using rolling_restart_run[OF task assms(2,3)] .
  let ?hs = "hosts (sess s)" and ?svcs = "restart_services (sess s) cid scope"
  obtain x d c' st where l: "loop_db ?hs ?svcs (db_view tid s) x (d, c', st)"
    and t: "db_view tid t = (if x = Inr True then (d, d, map_option (\<lambda>_. ''completed'') st) else (d, c', st))"
    using db by (auto simp: run_db_def)
  consider "status_of tid t = Some ''completed''" "committed t = sess t" "sess t = restarted ?hs ?svcs (sess s)"
    | before svc rest where "status_of tid t = Some ''error''" "?svcs = before @ svc # rest" "by_id h_id ?hs (s_host_id svc) \<noteq> None"
        "(committed t = sess t \<and> sess t = mark (s_id svc) ''error'' (restarted ?hs before (sess s))) \<or>
         (committed t = committed s \<and> sess t = restarted ?hs before (sess s))"
  proof (cases "x = Inr True")
    case True
    then show ?thesis using l t assms(1) that(1) by (simp add: loop_db_def db_view_def)
  next
    case False
    with l assms(1) have "\<exists>before svc rest. ?svcs = before @ svc # rest \<and> by_id h_id ?hs (s_host_id svc) \<noteq> None \<and>
       (let e = mark (s_id svc) ''error'' (restarted ?hs before (sess s)) in
        (d = restarted ?hs before (sess s) \<and> c' = committed s \<or> d = e \<and> c' = e) \<and> st = Some ''error'')"
      unfolding loop_db_def db_view_def by (simp add: Let_def) blast
    then obtain before svc rest where "?svcs = before @ svc # rest" "by_id h_id ?hs (s_host_id svc) \<noteq> None"
      "let e = mark (s_id svc) ''error'' (restarted ?hs before (sess s)) in
        (d = restarted ?hs before (sess s) \<and> c' = committed s \<or> d = e \<and> c' = e) \<and> st = Some ''error''"
      by blast
    moreover have "sess t = d" "committed t = c'" "status_of tid t = st" using t False by (simp_all add: db_view_def)
    ultimately show ?thesis by (intro that(2)) (auto simp: Let_def)
  qed
  then show ?thesis
  proof cases
    case 1
    then show ?thesis using run by (auto simp: restarted_rows Let_def)
  next
    case 2
    then show ?thesis using run unfolding Let_def by blast
  qed
qed

text \<open>The same for external clusters, whose brokers are entries of a column.\<close>

lemma external_one_at_a_time:
  "yields unit_ops (grows_as (rolling (List.map_filter (external_target hs) xs))) (each_until (restart_external_one (recorded R) tid hs port n) xs)"
  by (rule external_rounds.one_at_a_time) simp

section \<open>A sample restart\<close>

text \<open>A host with a broker and a ksqlDB server; a unit is inactive once stopped, and the start of ksqlDB may fail.\<close>

definition restart_world :: "bool \<Rightarrow> string remote" where
  "restart_world broken = unit_host\<lparr>r_exec := (\<lambda>h c n w.
     if starts_with c ''systemctl is-active'' then (Inr (0, w, []), w)
     else if starts_with c ''sudo systemctl stop'' then (Inr (0, [], []), ''inactive'')
     else if broken \<and> c = start_cmd ''ksqldb.service'' then (Inr (1, [], ''unit failed''), w)
     else if starts_with c ''sudo systemctl start'' then (Inr (0, [], []), ''active'')
     else (Inr (0, [], []), w))\<rparr>"

definition restart_sys :: "'w \<Rightarrow> 'w sys" where
  "restart_sys w =
     (let d = empty_tables\<lparr>clusters := [sample_cluster], hosts := [sample_host],
        services := [(sample_service ''s2'' ''ksqldb'')\<lparr>s_status := ''stopped''\<rparr>,
                     (sample_service ''s1'' ''broker'')\<lparr>s_status := ''stopped''\<rparr>]\<rparr>
      in snd (init_restart_task ''t1'' \<lparr>sess = d, committed = d, tasks = no_tasks, wld = w\<rparr>))"

theorem restart_one_at_a_time_witness:
  "\<exists>t es. rolling_restart (recorded (restart_world False)) (default_settings []) ''c1'' ''t1'' ''all'' (restart_sys ([], [])) = (Inr (), t) \<and>
     rolling [(''h1'', ''kafka-prod-c1.service''), (''h1'', ''ksqldb.service'')] (status_of ''t1'' t = Some ''completed'') es \<and>
     unit_ops t = es"
proof -
  let ?s = "restart_sys ([], []) :: (string \<times> event list) sys"
  have a: "status_of ''t1'' ?s = Some ''running''" "find_cluster (sess ?s) ''c1'' = Some sample_cluster"
    "starts_with (install_dir (default_settings []) sample_cluster) ''/''" by code_simp+
  have plan: "restart_plan sample_cluster (hosts (sess ?s)) (restart_services (sess ?s) ''c1'' ''all'') =
      [(''h1'', ''kafka-prod-c1.service''), (''h1'', ''ksqldb.service'')]" "unit_ops ?s = []" by code_simp+
  show ?thesis using restart_one_at_a_time[OF a, of "restart_world False" "''all''"] by (simp add: plan)
qed

theorem restart_outcome_witness:
  "\<exists>t. rolling_restart (restart_world False) (default_settings []) ''c1'' ''t1'' ''all'' (restart_sys []) = (Inr (), t) \<and>
     (status_of ''t1'' t = Some ''completed'' \<or> status_of ''t1'' t = Some ''error'')"
proof -
  let ?s = "restart_sys [] :: string sys"
  have a: "status_of ''t1'' ?s = Some ''running''" "find_cluster (sess ?s) ''c1'' = Some sample_cluster"
    "restart_services (sess ?s) ''c1'' ''all'' \<noteq> []" by code_simp+
  show ?thesis using restart_outcome[OF a, of "restart_world False" "default_settings []"] unfolding Let_def by blast
qed

text \<open>
  A failed start leaves without a commit: the broker was restarted and is running, but the database still shows
  the old status of both services, and the one whose start failed is not marked as failed either.
\<close>

theorem failed_start_forgets:
  "let t = snd (rolling_restart (recorded (restart_world True)) (default_settings []) ''c1'' ''t1'' ''all'' (restart_sys ([], []))) in
   unit_ops t = [Ran ''h1'' (stop_cmd ''kafka-prod-c1.service'') 0, Ran ''h1'' (start_cmd ''kafka-prod-c1.service'') 0,
                 Ran ''h1'' (stop_cmd ''ksqldb.service'') 0, Ran ''h1'' (start_cmd ''ksqldb.service'') 1] \<and>
   status_of ''t1'' t = Some ''error'' \<and>
   map s_status (services (sess t)) = [''stopped'', ''running''] \<and>
   map s_status (services (committed t)) = [''stopped'', ''stopped'']"
  by code_simp

end
