(* ===== verification/Py_Text.thy ===== *)
theory Py_Text
  imports Py_Prelude
begin

text \<open>
  Lemmas on texts as the program reads and writes them: lines, white space at the ends, the first occurrence of a
  separator, and texts without white space, among them the decimal numerals.
\<close>

section \<open>Lines and white space\<close>

definition one_line :: "string \<Rightarrow> bool" where
  "one_line s \<longleftrightarrow> list_all (\<lambda>c. \<not> line_end c) s"

lemma splitlines_acc_clean: "one_line w \<Longrightarrow> \<forall>l\<in>set (splitlines_acc w s). one_line l"
proof (induction w s rule: splitlines_acc.induct)
  case (1 w)
  then show ?case by (simp add: one_line_def)
next
  case (2 w c s)
  have e: "one_line []" and r: "one_line (rev w)" using "2.prems" by (simp_all add: one_line_def)
  show ?case
  proof (cases "line_end c")
    case False
    then have "one_line (c # w)" using "2.prems" by (simp add: one_line_def)
    then show ?thesis using "2.IH"(3)[OF False] False by simp
  next
    case True
    show ?thesis
    proof (cases s)
      case Nil
      then show ?thesis using r True by simp
    next
      case (Cons d s')
      then show ?thesis using True r e "2.IH"(1)[OF True Cons] "2.IH"(2)[OF True Cons] by simp
    qed
  qed
qed

lemma splitlines_clean: "l \<in> set (splitlines s) \<Longrightarrow> one_line l"
  unfolding splitlines_def using splitlines_acc_clean[of "[]" s] by (simp add: one_line_def)

lemma splitlines_acc_line: "one_line l \<Longrightarrow> splitlines_acc w (l @ CHR 0x0A # s) = (rev w @ l) # splitlines_acc [] s"
proof (induction l arbitrary: w)
  case Nil
  have "line_end CHR 0x0A" by (simp add: line_end_def)
  then show ?case by (cases s) simp_all
next
  case (Cons c l)
  then show ?case by (simp add: one_line_def)
qed

lemma splitlines_join: "ls \<noteq> [] \<Longrightarrow> list_all one_line ls \<Longrightarrow> splitlines (join nl ls @ nl) = ls"
proof (induction ls rule: list_nonempty_induct)
  case (single x)
  then show ?case using splitlines_acc_line[of x "[]" "[]"] by (simp add: splitlines_def)
next
  case (cons x xs)
  have "join nl (x # xs) = x @ nl @ join nl xs" using cons.hyps by (cases xs) simp_all
  then show ?case using splitlines_acc_line[of x "[]" "join nl xs @ nl"] cons by (simp add: splitlines_def)
qed

lemma dropWhile_upto: "\<not> P c \<Longrightarrow> dropWhile P (xs @ c # ys) = dropWhile P xs @ c # ys"
  by (induction xs) simp_all

lemma strip_between:
  assumes "k \<noteq> []" and "\<not> py_ws (hd k)" and "\<not> py_ws c"
  shows "strip (k @ c # v) = k @ c # rev (dropWhile py_ws (rev v))"
proof -
  have "dropWhile py_ws (k @ c # v) = k @ c # v" using assms by (cases k) simp_all
  moreover have "dropWhile py_ws (rev v @ c # rev k) = dropWhile py_ws (rev v) @ c # rev k"
    using assms(3) by (rule dropWhile_upto)
  ultimately show ?thesis by (simp add: strip_def strip_by_def)
qed

lemma trim_commute: "dropWhile P (rev (dropWhile P (rev v))) = rev (dropWhile P (rev (dropWhile P v)))"
proof (induction v)
  case (Cons x v)
  have "rev (dropWhile P (rev v @ [x])) = (if \<forall>y\<in>set v. P y then rev (dropWhile P [x]) else x # rev (dropWhile P (rev v)))"
    by (auto simp: dropWhile_append)
  then show ?case using Cons by (cases "P x") (auto simp: dropWhile_append dest: set_dropWhileD)
qed simp

lemma strip_rstrip: "strip (rev (dropWhile py_ws (rev v))) = strip v"
  unfolding strip_def strip_by_def trim_commute by (simp add: dropWhile_idem)

lemma hd_strip: assumes "strip s = s" and "s \<noteq> []" shows "\<not> py_ws (hd s)"
proof
  assume ws: "py_ws (hd s)"
  obtain c t where s: "s = c # t" using assms(2) by (cases s) auto
  have "length (strip s) \<le> length (dropWhile py_ws t)"
    using ws unfolding strip_def strip_by_def s by (simp add: length_dropWhile_le[of _ "rev _", simplified])
  also have "\<dots> \<le> length t" by (rule length_dropWhile_le)
  finally show False using assms(1) by (simp add: s)
qed

lemma find_sub_eq: "CHR ''='' \<notin> set k \<Longrightarrow> find_sub ''='' (k @ CHR ''='' # r) = Some (k, r)"
  by (induction k) (auto simp: starts_with_def)

lemma partition_eq: "CHR ''='' \<notin> set k \<Longrightarrow> partition_str (k @ CHR ''='' # r) ''='' = (k, ''='', r)"
  by (simp add: partition_str_def find_sub_eq)

lemma starts_withE: "starts_with s p \<Longrightarrow> (\<And>r. s = p @ r \<Longrightarrow> thesis) \<Longrightarrow> thesis"
  unfolding starts_with_def by (metis append_take_drop_id)

lemma strip_blank: "strip k = k \<Longrightarrow> k \<noteq> [] \<Longrightarrow> strip (k @ '' '') = k"
proof -
  assume k: "strip k = k" "k \<noteq> []"
  then have "dropWhile py_ws (k @ x) = k @ x" for x using hd_strip[OF k] by (cases k) simp_all
  from this[of "''''"] this[of "'' ''"] k(1) show ?thesis
    by (simp add: strip_def strip_by_def py_ws_def ws_chars_def)
qed

lemma one_line_dropWhile: "one_line s \<Longrightarrow> one_line (dropWhile p s)"
  unfolding one_line_def list_all_iff by (auto dest: set_dropWhileD)

lemma one_line_strip: "one_line s \<Longrightarrow> one_line (strip s)"
  using one_line_dropWhile[of "rev (dropWhile py_ws s)" py_ws] one_line_dropWhile[of s py_ws]
  by (simp add: strip_def strip_by_def one_line_def)

lemma strip_idem: "strip (strip s) = strip s"
  by (simp add: strip_def strip_by_def trim_commute dropWhile_idem)

lemma find_sub_append: "find_sub p s = Some (a, b) \<Longrightarrow> s = a @ p @ b"
proof (induction p s arbitrary: a b rule: find_sub.induct)
  case (2 p c s)
  show ?case
  proof (cases "starts_with (c # s) p")
    case True
    then have "a = []" "b = drop (length p) (c # s)" using "2.prems" by simp_all
    moreover have "c # s = p @ drop (length p) (c # s)"
      using True unfolding starts_with_def by (metis append_take_drop_id)
    ultimately show ?thesis by simp
  next
    case False
    with 2 show ?thesis by (auto split: option.splits)
  qed
qed (simp split: if_splits)

text \<open>Texts without white space and line ends, as addresses, ports and paths are.\<close>

definition word :: "string \<Rightarrow> bool" where
  "word s \<longleftrightarrow> list_all (\<lambda>c. \<not> py_ws c) s"

lemma line_end_ws: "line_end c \<Longrightarrow> py_ws c"
  by (auto simp: line_end_def py_ws_def ws_chars_def)

lemma word_one_line: "word s \<Longrightarrow> one_line s"
  unfolding word_def one_line_def list_all_iff using line_end_ws by blast

lemma dropWhile_none: "list_all (\<lambda>c. \<not> p c) s \<Longrightarrow> dropWhile p s = s"
  by (cases s) auto

lemma word_strip: "word s \<Longrightarrow> strip s = s"
  by (simp add: word_def strip_def strip_by_def dropWhile_none)

lemma word_append [simp]: "word (a @ b) \<longleftrightarrow> word a \<and> word b"
  by (simp add: word_def)

lemma word_Cons: "word (c # s) \<longleftrightarrow> \<not> py_ws c \<and> word s"
  by (simp add: word_def)

lemma word_Nil [simp]: "word []"
  by (simp add: word_def)

lemma word_join: "word sep \<Longrightarrow> list_all word xs \<Longrightarrow> word (join sep xs)"
  by (induction sep xs rule: join.induct) simp_all

lemma digit_word: "0 \<le> d \<Longrightarrow> d < 10 \<Longrightarrow> \<not> py_ws (digit_char d)"
proof
  assume d: "0 \<le> d" "d < 10" and "py_ws (digit_char d)"
  then have "(of_char (digit_char d) :: int) \<in> {32, 9, 10, 11, 12, 13, 28, 29, 30, 31}"
    by (auto simp: py_ws_def ws_chars_def)
  moreover have "of_char (digit_char d) = 48 + d" using d by (simp add: digit_char_def)
  ultimately show False using d by auto
qed

lemma word_show_pos: "0 \<le> n \<Longrightarrow> word (show_pos n)"
proof (induction n rule: show_pos.induct)
  case (1 n)
  then show ?case by (subst show_pos.simps) (simp add: digit_word word_Cons)
qed

lemma word_show_int [simp]: "word (show_int n)"
  by (simp add: show_int_def word_show_pos word_Cons py_ws_def ws_chars_def)

section \<open>Splitting and searching\<close>

lemma split_on_no: "c \<notin> set s \<Longrightarrow> split_on c s = [s]"
  by (induction s) auto

lemma split_on_append: "c \<notin> set a \<Longrightarrow> split_on c (a @ c # s) = a # split_on c s"
  by (induction a) (auto split: list.splits)

lemma split_on_nonempty: "split_on c s \<noteq> []"
  by (induction s) (auto split: list.splits)

lemma join_split: "join [c] (split_on c s) = s"
proof (induction s)
  case (Cons x s)
  obtain w ws where w: "split_on c s = w # ws" using split_on_nonempty[of c s] by (cases "split_on c s") auto
  with Cons show ?case by (cases ws) (auto simp: w)
qed simp

lemma set_strip: "set (strip s) \<subseteq> set s"
  unfolding strip_def strip_by_def by (auto dest!: set_dropWhileD)

lemma set_split_on: "\<forall>w\<in>set (split_on c s). set w \<subseteq> set s"
  by (induction c s rule: split_on.induct) (auto split: list.splits, blast+)

lemma split_on_join: "fs \<noteq> [] \<Longrightarrow> list_all (\<lambda>f. c \<notin> set f) fs \<Longrightarrow> split_on c (join [c] fs) = fs"
proof (induction fs rule: list_nonempty_induct)
  case (cons x xs)
  have "join [c] (x # xs) = x @ c # join [c] xs" using cons.hyps by (cases xs) simp_all
  then show ?case using cons split_on_append[of c x] by simp
qed (simp add: split_on_no)

lemma starts_with_append [simp]: "starts_with (p @ s) p"
  by (simp add: starts_with_def)

lemma starts_with_iff: "starts_with s p \<longleftrightarrow> (\<exists>r. s = p @ r)"
  unfolding starts_with_def by (metis append_eq_conv_conj append_take_drop_id)

lemma find_sub_None: "find_sub p s = None \<longleftrightarrow> (\<nexists>a b. s = a @ p @ b)"
proof (induction p s rule: find_sub.induct)
  case (2 p c s)
  show ?case
  proof (cases "starts_with (c # s) p")
    case True
    then show ?thesis by (auto simp: starts_with_iff) (metis append_Nil)
  next
    case False
    then have "(\<exists>a b. c # s = a @ p @ b) \<longleftrightarrow> (\<exists>a b. s = a @ p @ b)"
      by (auto simp: starts_with_iff Cons_eq_append_conv)
    then show ?thesis using 2 False by (auto split: option.split)
  qed
qed simp

lemma contains_iff: "contains s p \<longleftrightarrow> (\<exists>a b. s = a @ p @ b)"
  unfolding contains_def using find_sub_None[of p s] by simp

lemma find_sub_char: "c \<notin> set k \<Longrightarrow> find_sub [c] (k @ c # r) = Some (k, r)"
  by (induction k) (auto simp: starts_with_def)

lemma contains_sep: assumes "c \<notin> set p" shows "contains (s @ c # t) p \<longleftrightarrow> contains s p \<or> contains t p"
proof
  assume "contains (s @ c # t) p"
  then obtain a b where ab: "s @ c # t = a @ p @ b" by (auto simp: contains_iff)
  then consider u where "s = a @ u" "u @ c # t = p @ b" | u where "s @ u = a" "c # t = u @ p @ b"
    by (auto simp: append_eq_append_conv2)
  then show "contains s p \<or> contains t p"
  proof cases
    case 1
    then obtain x where "u = p @ x" using assms by (auto simp: append_eq_append_conv2 Cons_eq_append_conv)
    then show ?thesis using 1(1) by (auto simp: contains_iff)
  next
    case 2
    show ?thesis
    proof (cases u)
      case Nil
      then have "p = []" using 2(2) assms by (auto simp: Cons_eq_append_conv)
      then have "s = [] @ p @ s" by simp
      then show ?thesis unfolding contains_iff by blast
    next
      case (Cons x y)
      then show ?thesis using 2(2) by (auto simp: contains_iff)
    qed
  qed
next
  assume "contains s p \<or> contains t p"
  then show "contains (s @ c # t) p"
    unfolding contains_iff
  proof
    assume "\<exists>a b. s = a @ p @ b"
    then show "\<exists>a b. s @ c # t = a @ p @ b" by (metis append.assoc)
  next
    assume "\<exists>a b. t = a @ p @ b"
    then show "\<exists>a b. s @ c # t = a @ p @ b" by (metis append.assoc append_Cons)
  qed
qed

lemma contains_join: "c \<notin> set p \<Longrightarrow> p \<noteq> [] \<Longrightarrow> contains (join [c] fs) p \<longleftrightarrow> list_ex (\<lambda>f. contains f p) fs"
proof (induction fs)
  case (Cons x xs)
  then show ?case using contains_sep[of c p x "join [c] xs"] by (cases xs) simp_all
qed (simp add: contains_iff)

lemma strip_id: "s \<noteq> [] \<Longrightarrow> \<not> py_ws (hd s) \<Longrightarrow> \<not> py_ws (last s) \<Longrightarrow> strip s = s"
proof -
  assume s: "s \<noteq> []" "\<not> py_ws (hd s)" "\<not> py_ws (last s)"
  then have "dropWhile py_ws s = s" by (cases s) simp_all
  moreover have "dropWhile py_ws (rev s) = rev s" using s by (cases s rule: rev_cases) simp_all
  ultimately show ?thesis by (simp add: strip_def strip_by_def)
qed

lemma splitlines_join_last: "ls \<noteq> [] \<Longrightarrow> list_all one_line ls \<Longrightarrow> last ls \<noteq> [] \<Longrightarrow> splitlines (join nl ls) = ls"
proof (induction ls rule: list_nonempty_induct)
  case (single x)
  have "splitlines_acc w x = [rev w @ x]" if "one_line x" "w @ x \<noteq> []" for w
    using that by (induction x arbitrary: w) (auto simp: one_line_def)
  from this[of "[]"] single show ?case by (simp add: splitlines_def)
next
  case (cons x xs)
  have "join nl (x # xs) = x @ nl @ join nl xs" using cons.hyps by (cases xs) simp_all
  then show ?case using splitlines_acc_line[of x "[]" "join nl xs"] cons by (simp add: splitlines_def)
qed

text \<open>A labelled field, as in the output of command line tools.\<close>

definition field :: "string \<Rightarrow> string \<Rightarrow> string" where
  "field k v = k @ '': '' @ v"

lemma starts_with_field: "CHR '':'' \<notin> set k \<Longrightarrow> p \<noteq> [] \<Longrightarrow> last p = CHR '':'' \<Longrightarrow> CHR '':'' \<notin> set (butlast p) \<Longrightarrow>
    starts_with (field k v) p \<longleftrightarrow> butlast p = k"
proof -
  assume k: "CHR '':'' \<notin> set k" and p: "p \<noteq> []" "last p = CHR '':''" "CHR '':'' \<notin> set (butlast p)"
  define q where "q = butlast p"
  have p': "p = q @ '':''" using p(1,2) append_butlast_last_id[of p] by (simp add: q_def)
  have "starts_with (field k v) p \<longleftrightarrow> (\<exists>r. k @ CHR '':'' # '' '' @ v = q @ CHR '':'' # r)"
    by (auto simp: starts_with_iff field_def p')
  also have "\<dots> \<longleftrightarrow> q = k"
    using find_sub_char[OF k] find_sub_char[OF p(3)[folded q_def]] by (metis option.inject prod.inject)
  finally show ?thesis by (simp add: q_def)
qed

lemma contains_field: "CHR '':'' \<notin> set k \<Longrightarrow> CHR '':'' \<notin> set v \<Longrightarrow> p \<noteq> [] \<Longrightarrow> last p = CHR '':'' \<Longrightarrow>
    contains (field k v) p \<longleftrightarrow> ends_with k (butlast p)"
proof -
  assume k: "CHR '':'' \<notin> set k" "CHR '':'' \<notin> set v" and p: "p \<noteq> []" "last p = CHR '':''"
  define q where "q = butlast p"
  have p': "p = q @ '':''" using p append_butlast_last_id[of p] by (simp add: q_def)
  have "contains (field k v) p \<longleftrightarrow> (\<exists>a b. k @ CHR '':'' # '' '' @ v = (a @ q) @ CHR '':'' # b)"
    by (auto simp: contains_iff field_def p')
  also have "\<dots> \<longleftrightarrow> (\<exists>a. k = a @ q)"
  proof
    assume "\<exists>a b. k @ CHR '':'' # '' '' @ v = (a @ q) @ CHR '':'' # b"
    then obtain a b where "k @ CHR '':'' # '' '' @ v = (a @ q) @ CHR '':'' # b" by blast
    moreover have "CHR '':'' \<notin> set ('' '' @ v)" using k by simp
    ultimately have "k = a @ q" using k(1) by (metis append_Cons_eq_iff)
    then show "\<exists>a. k = a @ q" by blast
  qed (metis append.assoc)
  also have "\<dots> \<longleftrightarrow> ends_with k q"
  proof
    assume "\<exists>a. k = a @ q"
    then show "ends_with k q" by (auto simp: ends_with_def starts_with_iff)
  next
    assume "ends_with k q"
    then obtain r where "rev k = rev q @ r" by (auto simp: ends_with_def starts_with_iff)
    then have "k = rev r @ q" by (metis rev_append rev_rev_ident)
    then show "\<exists>a. k = a @ q" by blast
  qed
  finally show ?thesis by (simp add: q_def)
qed

lemma strip_field: "k \<noteq> [] \<Longrightarrow> word k \<Longrightarrow> v \<noteq> [] \<Longrightarrow> word v \<Longrightarrow> strip (field k v) = field k v"
  by (rule strip_id) (auto simp: field_def word_def list_all_iff)

lemma find_colon_field: "CHR '':'' \<notin> set k \<Longrightarrow> find_sub '':'' (field k v) = Some (k, '' '' @ v)"
  using find_sub_char[of "CHR '':''" k "'' '' @ v"] by (simp add: field_def)

section \<open>Numerals\<close>

lemma digit_is_digit: "0 \<le> d \<Longrightarrow> d < 10 \<Longrightarrow> is_digit (digit_char d) \<and> digit_val (digit_char d) = d"
  by (simp add: is_digit_def digit_val_def digit_char_def Let_def)

lemma digits_underscores: "s \<noteq> [] \<Longrightarrow> list_all is_digit s \<Longrightarrow> underscores_ok s"
proof (induction s rule: underscores_ok.induct)
  case (3 c d s)
  have "d \<noteq> CHR ''_''" using 3 by (auto simp: is_digit_def)
  then show ?case using 3 by simp
qed simp_all

lemma digits_show_pos: "0 \<le> n \<Longrightarrow> show_pos n \<noteq> [] \<and> list_all is_digit (show_pos n) \<and> nat_of_digits (show_pos n) = n"
proof (induction n rule: show_pos.induct)
  case (1 n)
  show ?case
  proof (cases "n < 10")
    case True
    then show ?thesis using 1 by (subst (1 2 3) show_pos.simps) (simp add: digit_is_digit nat_of_digits_def)
  next
    case False
    have "10 * (n div 10) + n mod 10 = n" by simp
    then show ?thesis using 1 False
      by (subst (1 2 3) show_pos.simps) (simp add: digit_is_digit nat_of_digits_def)
  qed
qed

lemma parse_nat_show: "0 \<le> n \<Longrightarrow> parse_nat (show_pos n) = Some n"
proof -
  assume n: "0 \<le> n"
  note d = digits_show_pos[OF n]
  have "filter is_digit (show_pos n) = show_pos n" using d by (simp add: list_all_iff)
  then show ?thesis using d digits_underscores[of "show_pos n"] by (simp add: parse_nat_def)
qed

lemma show_int_cases: "show_int n = (if n < 0 then CHR ''-'' # show_pos (- n) else show_pos n)"
  by (simp add: show_int_def)

lemma parse_int_show [simp]: "parse_int (show_int n) = Some n"
proof (cases "n < 0")
  case True
  then have "parse_nat (show_pos (- n)) = Some (- n)" by (simp add: parse_nat_show)
  then show ?thesis using True word_show_int[of n] by (simp add: parse_int_def word_strip) (simp add: show_int_cases)
next
  case False
  then have p: "parse_nat (show_pos n) = Some n" and d: "show_pos n \<noteq> []" "list_all is_digit (show_pos n)"
    using digits_show_pos[of n] by (simp_all add: parse_nat_show)
  obtain c s where cs: "show_pos n = c # s" using d by (cases "show_pos n") auto
  have "c \<noteq> CHR ''-''" "c \<noteq> CHR ''+''" using d cs by (auto simp: is_digit_def)
  then show ?thesis using False p cs word_show_int[of n] by (simp add: parse_int_def word_strip) (simp add: show_int_cases)
qed

lemma show_int_nonempty: "show_int n \<noteq> []"
  using digits_show_pos[of n] by (auto simp: show_int_cases)

lemma set_show_int: "set (show_int n) \<subseteq> {c. is_digit c} \<union> {CHR ''-''}"
  using digits_show_pos[of n] digits_show_pos[of "- n"] by (auto simp: show_int_cases list_all_iff)


lemma set_join: "set (join sep xs) \<subseteq> set sep \<union> (\<Union>x\<in>set xs. set x)"
  by (induction sep xs rule: join.induct) auto

end
