(* ===== verification/Upgrade_Manager.thy ===== *)
theory Upgrade_Manager
  imports Rolling_Restart Py_Text
begin

text \<open>
  Upgrading the brokers of a cluster to a Kafka version of the local repository: \<open>services/upgrade_manager.py\<close> and
  \<open>api/upgrades.py\<close>.  The repository is a list of files with their sizes in bytes, in the order of the directory;
  version texts are compared by the library \<open>packaging\<close>, a parameter (\<open>versions\<close>) over any linear order.
  Time stamps are left out.  Shown: which files are versions, that exactly the newer ones are offered, that an
  upgrade whose check fails touches nothing, that brokers are upgraded one at a time, and what the database
  holds afterwards.
\<close>

record 'v versions =
  v_parse :: "string \<Rightarrow> 'v option"
  v_major :: "'v \<Rightarrow> int"

section \<open>Tasks\<close>

definition init_upgrade_task :: "string \<Rightarrow> ('w sys, unit) io" where
  "init_upgrade_task tid = modify (\<lambda>s. s\<lparr>tasks := (tasks s)\<lparr>upgrade_tasks := AList.update tid
     \<lparr>t_status = ''running'', t_logs = [], t_progress = \<lparr>p_current = 0, p_total = 0, p_label = Some ''initializing''\<rparr>,
      t_error = None, t_completed = False\<rparr> (upgrade_tasks (tasks s))\<rparr>\<rparr>)"

definition get_upgrade_task :: "string \<Rightarrow> 'w sys \<Rightarrow> task option" where
  "get_upgrade_task tid s = map_of (upgrade_tasks (tasks s)) tid"

definition on_upgrade :: "string \<Rightarrow> (task \<Rightarrow> task) \<Rightarrow> ('w sys, unit) io" where
  "on_upgrade tid f = modify (\<lambda>s. s\<lparr>tasks := (tasks s)\<lparr>upgrade_tasks := AList.map_entry tid f (upgrade_tasks (tasks s))\<rparr>\<rparr>)"

definition ulog_at :: "string \<Rightarrow> string \<Rightarrow> string \<Rightarrow> ('w sys, unit) io" where
  "ulog_at level tid msg = on_upgrade tid (\<lambda>k. k\<lparr>t_logs := t_logs k @ [(level, msg)]\<rparr>)"

abbreviation ulog :: "string \<Rightarrow> string \<Rightarrow> ('w sys, unit) io" where
  "ulog \<equiv> ulog_at ''info''"

definition set_phase :: "string \<Rightarrow> string \<Rightarrow> int \<Rightarrow> int \<Rightarrow> ('w sys, unit) io" where
  "set_phase tid phase current amount = on_upgrade tid (\<lambda>k. k\<lparr>t_progress :=
     \<lparr>p_current = current, p_total = amount, p_label = Some phase\<rparr>\<rparr>)"

section \<open>The repository\<close>

record repo_file =
  rf_name :: string
  rf_bytes :: int

record repo_version =
  rv_scala :: string
  rv_filename :: string
  rv_path :: string
  rv_size_mb :: string

text \<open>The pattern \<open>^kafka_(\d+\.\d+)-(\d+\.\d+\.\d+)\.tgz$\<close>; \<open>dotted n\<close> reads \<open>n + 1\<close> groups of digits.\<close>

fun dotted :: "nat \<Rightarrow> string \<Rightarrow> (string \<times> string) option" where
  "dotted 0 s = (if takeWhile is_digit s = [] then None else Some (takeWhile is_digit s, dropWhile is_digit s))"
| "dotted (Suc n) s =
     (if takeWhile is_digit s = [] then None
      else case dropWhile is_digit s of
             c # r \<Rightarrow> if c = CHR ''.'' then map_option (\<lambda>(v, x). (takeWhile is_digit s @ ''.'' @ v, x)) (dotted n r) else None
           | [] \<Rightarrow> None)"

definition match_tgz :: "string \<Rightarrow> (string \<times> string) option" where
  "match_tgz name =
     (if \<not> starts_with name ''kafka_'' then None
      else case dotted 1 (drop 6 name) of
        None \<Rightarrow> None
      | Some (scala, r) \<Rightarrow>
          (case r of
             c # r' \<Rightarrow> if c \<noteq> CHR ''-'' then None
               else (case dotted 2 r' of None \<Rightarrow> None
                     | Some (kafka, rest) \<Rightarrow> if rest = ''.tgz'' then Some (scala, kafka) else None)
           | [] \<Rightarrow> None))"

text \<open>\<open>round(bytes / 2**20, 1)\<close>, as text: tenths, ties to even.\<close>

definition size_mb :: "int \<Rightarrow> string" where
  "size_mb n = (let q = n * 10 div 1048576; r = n * 10 mod 1048576;
       t = (if 1048576 < 2 * r \<or> (2 * r = 1048576 \<and> odd q) then q + 1 else q)
     in show_int (t div 10) @ ''.'' @ show_int (t mod 10))"

definition list_repo_versions :: "settings \<Rightarrow> repo_file list \<Rightarrow> (string \<times> repo_version) list" where
  "list_repo_versions cfg files =
     foldl (\<lambda>vs f. case match_tgz (rf_name f) of
        None \<Rightarrow> vs
      | Some (scala, kafka) \<Rightarrow> AList.update kafka \<lparr>rv_scala = scala, rv_filename = rf_name f,
          rv_path = KAFKA_REPO_DIR cfg @ ''/'' @ rf_name f, rv_size_mb = size_mb (rf_bytes f)\<rparr> vs) [] files"

section \<open>Available upgrades\<close>

record upgrades_report =
  ur_cluster_id :: string
  ur_cluster_name :: string
  ur_current :: string
  ur_available :: "(string \<times> repo_version) list"

definition offered :: "('v :: linorder) versions \<Rightarrow> string \<Rightarrow> string \<Rightarrow> bool" where
  "offered V current ver =
     (case v_parse V ver of
        None \<Rightarrow> False
      | Some v \<Rightarrow> (case v_parse V current of Some c \<Rightarrow> v > c | None \<Rightarrow> ver \<noteq> current))"

definition get_available_upgrades ::
    "settings \<Rightarrow> ('v :: linorder) versions \<Rightarrow> repo_file list \<Rightarrow> string \<Rightarrow> ('w sys, upgrades_report) io" where
  "get_available_upgrades cfg V files cid =
     bnd (asks sess) (\<lambda>d.
     case find_cluster d cid of
       None \<Rightarrow> raise (ValueError (''Cluster '' @ cid @ '' not found''))
     | Some c \<Rightarrow> ret \<lparr>ur_cluster_id = cid, ur_cluster_name = c_name c, ur_current = c_kafka_version c,
         ur_available = sort_key (\<lambda>(ver, _). the (v_parse V ver))
           (filter (\<lambda>(ver, _). offered V (c_kafka_version c) ver) (list_repo_versions cfg files))\<rparr>)"

section \<open>The check before an upgrade\<close>

record broker_status =
  bs_node_id :: int
  bs_host :: string
  bs_hostname :: "string option"
  bs_status :: string
  bs_healthy :: bool
  bs_error :: "string option"

record upgrade_check =
  uc_check :: string
  uc_passed :: bool
  uc_message :: string
  uc_warning :: bool
  uc_details :: "broker_status list"
  uc_under_replicated :: "int option"

record upgrade_report =
  up_cluster_id :: string
  up_cluster_name :: string
  up_current :: string
  up_target :: string
  up_ready :: bool
  up_checks :: "upgrade_check list"

definition plain_check :: "string \<Rightarrow> bool \<Rightarrow> string \<Rightarrow> upgrade_check" where
  "plain_check name passed msg = \<lparr>uc_check = name, uc_passed = passed, uc_message = msg, uc_warning = False,
     uc_details = [], uc_under_replicated = None\<rparr>"

definition version_check :: "('v :: linorder) versions \<Rightarrow> string \<Rightarrow> string \<Rightarrow> upgrade_check" where
  "version_check V current target =
     (let upgrade = ''Upgrade from '' @ current @ '' to '' @ target;
          mk = plain_check ''version_comparison'' in
      case (v_parse V current, v_parse V target) of
        (Some c, Some t) \<Rightarrow>
          if t \<le> c then mk False (''Target version '' @ target @ '' is not newer than current version '' @ current)
          else if v_major V t - v_major V c > 1
          then (mk True (upgrade @ '' (major version jump '' @ em_dash @ '' review release notes carefully)''))\<lparr>uc_warning := True\<rparr>
          else mk True upgrade
      | _ \<Rightarrow> (mk True (upgrade @ '' (version format could not be fully parsed)''))\<lparr>uc_warning := True\<rparr>)"

definition binary_check :: "settings \<Rightarrow> repo_file list \<Rightarrow> string \<Rightarrow> upgrade_check" where
  "binary_check cfg files target =
     (case map_of (list_repo_versions cfg files) target of
        Some v \<Rightarrow> plain_check ''binary_available'' True (''Binary '' @ rv_filename v @ '' found ('' @ rv_size_mb v @ '' MB)'')
      | None \<Rightarrow> plain_check ''binary_available'' False
          (''Binary for version '' @ target @ '' not found in repo ('' @ KAFKA_REPO_DIR cfg @ '')''))"

definition upgrade_brokers :: "tables \<Rightarrow> string \<Rightarrow> service list" where
  "upgrade_brokers d cid = filter (\<lambda>s. s_cluster_id s = cid \<and> s_role s \<in> set broker_roles) (services d)"

definition kafka_active :: "'w remote \<Rightarrow> host \<Rightarrow> ('w sys, bool) io" where
  "kafka_active R h = bnd (exec_command R h ''systemctl is-active kafka'' 10) (\<lambda>(_, stdout, _). ret (strip stdout = ''active''))"

definition broker_health :: "'w remote \<Rightarrow> host list \<Rightarrow> service \<Rightarrow> ('w sys, broker_status) io" where
  "broker_health R hs svc =
     (case by_id h_id hs (s_host_id svc) of
        None \<Rightarrow> ret \<lparr>bs_node_id = s_node_id svc, bs_host = ''unknown'', bs_hostname = None, bs_status = ''error'',
                   bs_healthy = False, bs_error = None\<rparr>
      | Some h \<Rightarrow>
          let st = (\<lambda>status healthy err. \<lparr>bs_node_id = s_node_id svc, bs_host = h_ip_address h,
                bs_hostname = Some (h_hostname h), bs_status = status, bs_healthy = healthy, bs_error = err\<rparr>) in
          catch (seqm (ssh_connect R h) (bnd (kafka_active R h) (\<lambda>active.
                 ret (st (if active then ''running'' else ''stopped'') active None))))
            (\<lambda>e. ret (st ''error'' False (Some (exn_str e)))))"

definition health_check :: "'w remote \<Rightarrow> host list \<Rightarrow> service list \<Rightarrow> ('w sys, upgrade_check) io" where
  "health_check R hs svcs =
     (if svcs = [] then ret (plain_check ''broker_health'' False ''No broker services found for this cluster'')
      else bnd (for_each (broker_health R hs) svcs) (\<lambda>sts.
           ret ((plain_check ''broker_health'' (list_all bs_healthy sts)
             (show_int (int (length (filter bs_healthy sts))) @ ''/'' @ show_int (int (length sts)) @ '' brokers healthy''))
             \<lparr>uc_details := sts\<rparr>)))"

definition running_broker_host :: "host list \<Rightarrow> service list \<Rightarrow> host option" where
  "running_broker_host hs svcs =
     (case List.find (\<lambda>v. by_id h_id hs (s_host_id v) \<noteq> None \<and> s_status v = ''running'') svcs of
        None \<Rightarrow> None | Some v \<Rightarrow> by_id h_id hs (s_host_id v))"

definition text_lines :: "string \<Rightarrow> string list" where
  "text_lines out = (if strip out = [] then [] else filter (\<lambda>l. strip l \<noteq> []) (split_on (CHR 0x0A) (strip out)))"

definition isr_cmd :: "settings \<Rightarrow> string" where
  "isr_cmd cfg = KAFKA_INSTALL_DIR cfg @ ''/bin/kafka-topics.sh --bootstrap-server localhost:9092 --describe --under-replicated-partitions''"

definition isr_check :: "'w remote \<Rightarrow> settings \<Rightarrow> host option \<Rightarrow> ('w sys, upgrade_check) io" where
  "isr_check R cfg running =
     (let mk = (\<lambda>ok msg n. (plain_check ''isr_status'' ok msg)\<lparr>uc_under_replicated := Some n\<rparr>) in
      case running of
        None \<Rightarrow> ret (mk False ''No running broker available to check ISR status'' 0)
      | Some h \<Rightarrow>
          catch (seqm (ssh_connect R h) (bnd (exec_command R h (isr_cmd cfg) 30) (\<lambda>(rc, stdout, stderr).
             if rc = 0
             then (let n = int (length (text_lines stdout)) in
                   if n = 0 then ret (mk True ''No under-replicated partitions'' 0)
                   else ret (mk False (show_int n @ '' under-replicated partition(s) found'') n))
             else ret (mk False (''ISR check command returned exit code '' @ show_int rc
                                  @ (if stderr = [] then [] else '': '' @ take_chars 200 stderr)) 0))))
            (\<lambda>e. ret (mk False (''Failed to check ISR: '' @ exn_str e) 0)))"

definition controller_cmd :: "settings \<Rightarrow> cluster \<Rightarrow> string" where
  "controller_cmd cfg c =
     (if c_mode c = ''kraft''
      then KAFKA_INSTALL_DIR cfg @ ''/bin/kafka-metadata.sh --snapshot /var/lib/kafka/data/__cluster_metadata-0/00000000000000000000.log --cluster-id ''
           @ or_str (c_cluster_uuid c) ''unknown'' @ '' 2>/dev/null | head -5 || echo '' @ sq @ ''metadata-check-done'' @ sq
      else KAFKA_INSTALL_DIR cfg @ ''/bin/zookeeper-shell.sh localhost:2181 <<< '' @ sq @ ''get /controller'' @ sq
           @ '' 2>/dev/null | head -3 || echo '' @ sq @ ''zk-check-done'' @ sq)"

definition controller_check :: "'w remote \<Rightarrow> settings \<Rightarrow> cluster \<Rightarrow> host option \<Rightarrow> ('w sys, upgrade_check) io" where
  "controller_check R cfg c running =
     (let mk = plain_check ''controller_status'' in
      case running of
        None \<Rightarrow> ret (mk False ''No running broker available to check controller'')
      | Some h \<Rightarrow>
          catch (seqm (ssh_connect R h) (seqm (exec_command R h (controller_cmd cfg c) 15)
             (ret (mk True (if c_mode c = ''kraft'' then ''KRaft metadata accessible'' else ''ZooKeeper controller info accessible'')))))
            (\<lambda>e. ret (mk False (''Failed to check controller: '' @ exn_str e))))"

definition pre_upgrade_check :: "'w remote \<Rightarrow> settings \<Rightarrow> ('v :: linorder) versions \<Rightarrow> repo_file list \<Rightarrow> string \<Rightarrow> string \<Rightarrow>
    ('w sys, upgrade_report) io" where
  "pre_upgrade_check R cfg V files cid target =
     bnd (asks sess) (\<lambda>d.
     case find_cluster d cid of
       None \<Rightarrow> raise (ValueError (''Cluster '' @ cid @ '' not found''))
     | Some c \<Rightarrow>
         let svcs = upgrade_brokers d cid; running = running_broker_host (hosts d) svcs;
             versions = version_check V (c_kafka_version c) target; binary = binary_check cfg files target in
         bnd (health_check R (hosts d) svcs) (\<lambda>health.
         bnd (isr_check R cfg running) (\<lambda>isr.
         bnd (controller_check R cfg c running) (\<lambda>controller.
         let checks = [versions, binary, health, isr, controller] in
         ret \<lparr>up_cluster_id = cid, up_cluster_name = c_name c, up_current = c_kafka_version c, up_target = target,
              up_ready = list_all uc_passed checks, up_checks = checks\<rparr>))))"

section \<open>The upgrade\<close>

definition run_cmd :: "'w remote \<Rightarrow> host \<Rightarrow> string \<Rightarrow> int \<Rightarrow> ('w sys, unit) io" where
  "run_cmd R h cmd timeout = bnd (exec_command R h cmd timeout) (\<lambda>_. ret ())"

text \<open>A command that must succeed: the exception has the standard error of the command.\<close>

definition must :: "'w remote \<Rightarrow> host \<Rightarrow> string \<Rightarrow> int \<Rightarrow> string \<Rightarrow> ('w sys, unit) io" where
  "must R h cmd timeout what =
     bnd (exec_command R h cmd timeout) (\<lambda>(rc, _, stderr). if rc \<noteq> 0 then raise (RuntimeError (what @ '': '' @ stderr)) else ret ())"

definition upload_file :: "'w remote \<Rightarrow> host \<Rightarrow> string \<Rightarrow> string \<Rightarrow> ('w sys, unit) io" where
  "upload_file R h local path = on_wld (r_put R h local path)"

definition broker_tag :: "service \<Rightarrow> string" where
  "broker_tag svc = ''[Broker '' @ show_int (s_node_id svc) @ ''] ''"

text \<open>Steps 4a to 4d: stop the broker and exchange the installation, keeping its configuration.\<close>

definition stop_for_upgrade :: "'w remote \<Rightarrow> string \<Rightarrow> service \<Rightarrow> host \<Rightarrow> ('w sys, unit) io" where
  "stop_for_upgrade R tid svc h =
     (let tag = broker_tag svc in
     seqm (ulog tid (tag @ ''Stopping Kafka service...''))
    (bnd (exec_command R h (stop_cmd ''kafka'') 60) (\<lambda>(rc, _, stderr).
     seqm (if rc \<noteq> 0 then ulog_at ''warning'' tid (tag @ ''Warning: stop returned exit code '' @ show_int rc @ '': '' @ stderr)
           else ulog tid (tag @ ''Kafka service stopped''))
    (seqm (set_service_status (s_id svc) ''stopped'')
    (seqm commit
    (sleep R 3))))))"

definition backup_cmd :: "settings \<Rightarrow> string" where
  "backup_cmd cfg = ''sudo cp -r '' @ KAFKA_INSTALL_DIR cfg @ '' '' @ KAFKA_INSTALL_DIR cfg @ ''.bak.$(date +%Y%m%d%H%M%S)''"

definition extract_cmd :: "settings \<Rightarrow> string \<Rightarrow> string \<Rightarrow> string" where
  "extract_cmd cfg tarball target =
     ''sudo rm -rf '' @ KAFKA_INSTALL_DIR cfg @ '' && sudo tar xzf /tmp/'' @ tarball @ '' -C /opt/ && sudo mv /opt/kafka_*-''
     @ target @ '' '' @ KAFKA_INSTALL_DIR cfg"

definition exchange_install :: "'w remote \<Rightarrow> settings \<Rightarrow> string \<Rightarrow> repo_version \<Rightarrow> string \<Rightarrow> service \<Rightarrow> host \<Rightarrow> ('w sys, unit) io" where
  "exchange_install R cfg tid v target svc h =
     (let tag = broker_tag svc; node = show_int (s_node_id svc); dir = KAFKA_INSTALL_DIR cfg; tarball = rv_filename v in
     seqm (ulog tid (tag @ ''Backing up current Kafka installation...''))
    (bnd (exec_command R h (backup_cmd cfg) 120) (\<lambda>(rc, _, stderr).
     seqm (if rc \<noteq> 0 then ulog_at ''warning'' tid (tag @ ''Backup warning: '' @ stderr) else ulog tid (tag @ ''Backup completed''))
    (seqm (ulog tid (tag @ ''Uploading '' @ tarball @ '' to remote host...''))
    (seqm (upload_file R h (rv_path v) (''/tmp/'' @ tarball))
    (seqm (ulog tid (tag @ ''Upload completed''))
    (seqm (ulog tid (tag @ ''Backing up configuration...''))
    (seqm (must R h (''sudo cp -r '' @ dir @ ''/config /tmp/kafka_config_backup'') 30 (''Failed to backup config on broker '' @ node))
    (seqm (ulog tid (tag @ ''Configuration backed up''))
    (seqm (ulog tid (tag @ ''Extracting new Kafka version...''))
    (seqm (must R h (extract_cmd cfg tarball target) 120 (''Failed to extract new version on broker '' @ node))
    (seqm (ulog tid (tag @ ''New version extracted''))
    (seqm (ulog tid (tag @ ''Restoring configuration...''))
    (seqm (must R h (''sudo cp -r /tmp/kafka_config_backup/* '' @ dir @ ''/config/'') 30 (''Failed to restore config on broker '' @ node))
    (seqm (ulog tid (tag @ ''Configuration restored''))
    (seqm (run_cmd R h (''sudo rm -rf /tmp/'' @ tarball @ '' /tmp/kafka_config_backup'') 15)
          (run_cmd R h (''sudo chown -R kafka:kafka '' @ dir @ '' 2>/dev/null || true'') 30)))))))))))))))))"

text \<open>Steps 4e to 4g: start it, wait until it is healthy and until its replicas are in sync.\<close>

definition await_healthy :: "'w remote \<Rightarrow> string \<Rightarrow> service \<Rightarrow> host \<Rightarrow> ('w sys, bool) io" where
  "await_healthy R tid svc h =
     poll 0 30 (\<lambda>attempt.
       seqm (sleep R 5)
      (bnd (kafka_active R h) (\<lambda>active.
       bnd (if active
            then bnd (exec_command R h (''ss -tlnp | grep '' @ sq @ '':9092'' @ sq @ '' | head -1'') 10)
                   (\<lambda>(rc, out, _). ret (rc = 0 \<and> strip out \<noteq> []))
            else ret False) (\<lambda>listening.
       if listening then ret True
       else seqm (if attempt mod 6 = 5
                  then ulog tid (broker_tag svc @ ''Still waiting... ('' @ show_int ((int attempt + 1) * 5) @ ''s elapsed)'') else ret ())
              (ret False)))))"

definition await_isr :: "'w remote \<Rightarrow> settings \<Rightarrow> string \<Rightarrow> service \<Rightarrow> host \<Rightarrow> ('w sys, bool) io" where
  "await_isr R cfg tid svc h =
     poll 0 24 (\<lambda>attempt.
       seqm (sleep R 5)
      (bnd (exec_command R h (isr_cmd cfg @ '' 2>/dev/null'') 30) (\<lambda>(rc, stdout, _).
       if rc = 0 \<and> text_lines stdout = [] then ret True
       else seqm (if attempt mod 6 = 5
                  then ulog tid (broker_tag svc @ ''ISR recovery in progress... ('' @ show_int ((int attempt + 1) * 5) @ ''s elapsed)'')
                  else ret ())
              (ret False))))"

definition start_upgraded :: "'w remote \<Rightarrow> settings \<Rightarrow> string \<Rightarrow> service \<Rightarrow> host \<Rightarrow> ('w sys, unit) io" where
  "start_upgraded R cfg tid svc h =
     (let tag = broker_tag svc; node = show_int (s_node_id svc) in
     seqm (ulog tid (tag @ ''Starting Kafka with new version...''))
    (seqm (must R h (start_cmd ''kafka'') 60 (''Failed to start broker '' @ node))
    (seqm (ulog tid (tag @ ''Kafka service started''))
    (seqm (ulog tid (tag @ ''Waiting for broker to become healthy...''))
    (bnd (await_healthy R tid svc h) (\<lambda>healthy.
     seqm (if healthy then ret () else raise (RuntimeError (''Broker '' @ node @ '' did not become healthy after 150 seconds'')))
    (seqm (ulog tid (tag @ ''Broker is healthy''))
    (seqm (set_service_status (s_id svc) ''running'')
    (seqm commit
    (seqm (ulog tid (tag @ ''Waiting for ISR recovery...''))
    (bnd (await_isr R cfg tid svc h) (\<lambda>recovered.
     if recovered then ulog tid (tag @ ''ISR fully recovered'')
     else ulog_at ''warning'' tid (tag @ ''ISR recovery timed out '' @ em_dash @ '' proceeding with caution''))))))))))))) "

definition upgrade_one :: "'w remote \<Rightarrow> settings \<Rightarrow> string \<Rightarrow> repo_version \<Rightarrow> string \<Rightarrow> host list \<Rightarrow> nat \<Rightarrow> nat \<times> service \<Rightarrow>
    ('w sys, unit) io" where
  "upgrade_one R cfg tid v target hs n = (\<lambda>(i, svc).
     let node = show_int (s_node_id svc); num = int i + 1; amount = int n in
     case by_id h_id hs (s_host_id svc) of
       None \<Rightarrow> raise (ValueError (''Host not found for service '' @ s_id svc))
     | Some h \<Rightarrow>
         seqm (ulog tid (''--- Upgrading broker '' @ show_int num @ ''/'' @ show_int amount @ '': node '' @ node @ '' on ''
                         @ h_hostname h @ '' ('' @ h_ip_address h @ '') ---''))
        (seqm (set_phase tid (''upgrading_broker_'' @ node) num amount)
        (seqm (ssh_connect R h)
        (seqm (stop_for_upgrade R tid svc h)
        (seqm (exchange_install R cfg tid v target svc h)
        (seqm (start_upgraded R cfg tid svc h)
        (seqm (set_phase tid (''broker_'' @ node @ ''_complete'') num amount)
              (ulog tid (broker_tag svc @ ''Upgrade completed successfully'')))))))))"

definition set_upgraded :: "string \<Rightarrow> string \<Rightarrow> ('w sys, unit) io" where
  "set_upgraded cid target =
     bnd (asks sess) (\<lambda>d.
     if find_cluster d cid = None then ret ()
     else seqm (upd_sess (\<lambda>d. d\<lparr>clusters := upd_by c_id cid (\<lambda>c. c\<lparr>c_kafka_version := target, c_state := ''running''\<rparr>) (clusters d)\<rparr>))
               commit)"

definition verify_one :: "'w remote \<Rightarrow> string \<Rightarrow> host list \<Rightarrow> service \<Rightarrow> ('w sys, bool) io" where
  "verify_one R tid hs svc =
     (let node = show_int (s_node_id svc) in
      case by_id h_id hs (s_host_id svc) of
        None \<Rightarrow> ret True
      | Some h \<Rightarrow>
          catch (seqm (ssh_connect R h) (bnd (kafka_active R h) (\<lambda>active.
             seqm (if active then ulog tid (''Post-check: Broker '' @ node @ '' is running'')
                   else ulog_at ''warning'' tid (''Post-check: Broker '' @ node @ '' is NOT active''))
               (ret active))))
            (\<lambda>e. seqm (ulog_at ''warning'' tid (''Post-check: Failed to verify broker '' @ node @ '': '' @ exn_str e)) (ret False)))"

definition finish_upgrade :: "'w remote \<Rightarrow> string \<Rightarrow> string \<Rightarrow> string \<Rightarrow> host list \<Rightarrow> service list \<Rightarrow> ('w sys, unit) io" where
  "finish_upgrade R tid cid target hs svcs =
     (let amount = int (length svcs) in
     seqm (ulog tid ''Updating cluster version in database...'')
    (seqm (set_upgraded cid target)
    (seqm (ulog tid (''Cluster version updated to '' @ target))
    (seqm (ulog tid ''Running post-upgrade verification...'')
    (seqm (set_phase tid ''post_verification'' amount amount)
    (bnd (for_each (verify_one R tid hs) svcs) (\<lambda>oks.
     seqm (if list_all (\<lambda>ok. ok) oks then ulog tid ''Post-upgrade verification passed: all brokers running''
           else ulog_at ''warning'' tid ''Post-upgrade verification completed with warnings'')
    (seqm (on_upgrade tid (\<lambda>k. k\<lparr>t_status := ''completed'', t_completed := True,
             t_progress := \<lparr>p_current = amount, p_total = amount, p_label = Some ''completed''\<rparr>\<rparr>))
          (ulog tid (''Rolling upgrade to Kafka '' @ target @ '' completed successfully''))))))))))"

definition upgrade_brokers_in_turn :: "'w remote \<Rightarrow> settings \<Rightarrow> string \<Rightarrow> string \<Rightarrow> string \<Rightarrow> repo_version \<Rightarrow> ('w sys, unit) io" where
  "upgrade_brokers_in_turn R cfg tid cid target v =
     bnd (asks sess) (\<lambda>d.
     let svcs = sort_key s_node_id (upgrade_brokers d cid); hs = hosts d; n = length svcs in
     seqm (set_phase tid ''upgrading'' 0 (int n))
    (seqm (ulog tid (''Upgrading '' @ show_int (int n) @ '' broker(s) one at a time''))
    (seqm (set_cluster_state cid ''upgrading'')
    (seqm commit
    (seqm (for_each (upgrade_one R cfg tid v target hs n) (enumerate 0 svcs))
          (finish_upgrade R tid cid target hs svcs))))))"

definition do_rolling_upgrade :: "'w remote \<Rightarrow> settings \<Rightarrow> ('v :: linorder) versions \<Rightarrow> repo_file list \<Rightarrow> string \<Rightarrow> string \<Rightarrow> string \<Rightarrow>
    ('w sys, unit) io" where
  "do_rolling_upgrade R cfg V files cid target tid =
     seqm (ulog tid (''Starting rolling upgrade to Kafka '' @ target))
    (seqm (set_phase tid ''pre_validation'' 0 0)
    (seqm (ulog tid ''Running pre-upgrade validation...'')
    (bnd (asks (\<lambda>s. find_cluster (sess s) cid)) (\<lambda>c.
     if c = None then raise (ValueError (''Cluster '' @ cid @ '' not found''))
     else
     bnd (pre_upgrade_check R cfg V files cid target) (\<lambda>check.
     if \<not> up_ready check
     then raise (ValueError (''Pre-upgrade check failed: ''
            @ join ''; '' (map uc_message (filter (\<lambda>k. \<not> uc_passed k) (up_checks check)))))
     else
     seqm (ulog tid ''Pre-upgrade validation passed'')
    (case map_of (list_repo_versions cfg files) target of
       None \<Rightarrow> raise (ValueError (''Binary for version '' @ target @ '' not found in repo''))
     | Some v \<Rightarrow>
         seqm (ulog tid (''Using tarball: '' @ rv_filename v @ '' ('' @ rv_size_mb v @ '' MB)''))
           (upgrade_brokers_in_turn R cfg tid cid target v)))))))"

definition rolling_upgrade :: "'w remote \<Rightarrow> settings \<Rightarrow> ('v :: linorder) versions \<Rightarrow> repo_file list \<Rightarrow> string \<Rightarrow> string \<Rightarrow> string \<Rightarrow>
    ('w sys, unit) io" where
  "rolling_upgrade R cfg V files cid target tid =
     catch (do_rolling_upgrade R cfg V files cid target tid)
       (\<lambda>e. seqm (ulog_at ''error'' tid (''Upgrade failed with error: '' @ exn_str e))
         (on_upgrade tid (\<lambda>k. k\<lparr>t_status := ''failed'', t_error := Some (exn_str e), t_completed := True,
            t_progress := (t_progress k)\<lparr>p_label := Some ''failed''\<rparr>\<rparr>)))"

section \<open>Routes\<close>

definition available_upgrades_route ::
    "settings \<Rightarrow> ('v :: linorder) versions \<Rightarrow> repo_file list \<Rightarrow> string \<Rightarrow> ('w sys, upgrades_report) io" where
  "available_upgrades_route cfg V files cid = not_found_on_value_error (get_available_upgrades cfg V files cid)"

definition pre_upgrade_check_route :: "'w remote \<Rightarrow> settings \<Rightarrow> ('v :: linorder) versions \<Rightarrow> repo_file list \<Rightarrow> string \<Rightarrow> string \<Rightarrow>
    ('w sys, upgrade_report) io" where
  "pre_upgrade_check_route R cfg V files cid target = not_found_on_value_error (pre_upgrade_check R cfg V files cid target)"

definition start_upgrade :: "'w remote \<Rightarrow> settings \<Rightarrow> ('v :: linorder) versions \<Rightarrow> repo_file list \<Rightarrow> string \<Rightarrow> string \<Rightarrow> string \<Rightarrow>
    ('w sys, string) io" where
  "start_upgrade R cfg V files cid target tid =
     seqm (init_upgrade_task tid) (seqm (rolling_upgrade R cfg V files cid target tid) (ret tid))"

definition upgrade_task_route :: "string \<Rightarrow> ('w sys, task) io" where
  "upgrade_task_route tid = bnd (asks (get_upgrade_task tid)) (\<lambda>k.
     case k of None \<Rightarrow> raise (HTTPException 404 ''Task not found'') | Some task \<Rightarrow> ret task)"

section \<open>Which files are versions\<close>

definition digits :: "string \<Rightarrow> bool" where
  "digits s \<longleftrightarrow> s \<noteq> [] \<and> list_all is_digit s"

lemma takeWhile_digits: "digits s \<Longrightarrow> \<not> is_digit c \<Longrightarrow> takeWhile is_digit (s @ c # r) = s \<and> dropWhile is_digit (s @ c # r) = c # r"
  by (auto simp: digits_def list_all_iff takeWhile_append2 dropWhile_append2 takeWhile_tail)

lemma digits_takeWhile: "takeWhile is_digit s \<noteq> [] \<Longrightarrow> digits (takeWhile is_digit s)"
  by (auto simp: digits_def list_all_iff dest: set_takeWhileD)

text \<open>A version text with \<open>n + 1\<close> numbers.\<close>

definition version_text :: "nat \<Rightarrow> string \<Rightarrow> bool" where
  "version_text n s \<longleftrightarrow> length (split_on (CHR ''.'') s) = Suc n \<and> list_all digits (split_on (CHR ''.'') s)"

lemma digits_no_dot: "digits s \<Longrightarrow> CHR ''.'' \<notin> set s" "digits s \<Longrightarrow> CHR ''-'' \<notin> set s"
  by (auto simp: digits_def list_all_iff is_digit_def)

lemma version_text_Suc: "version_text (Suc n) s \<longleftrightarrow> (\<exists>d v. s = d @ ''.'' @ v \<and> digits d \<and> version_text n v)"
proof
  assume v: "version_text (Suc n) s"
  then obtain d e ws where w: "split_on (CHR ''.'') s = d # e # ws"
    by (auto simp: version_text_def length_Suc_conv)
  have "s = d @ ''.'' @ join ''.'' (e # ws)" using join_split[of "CHR ''.''" s] w by simp
  moreover have "digits d" using v w by (simp add: version_text_def)
  moreover have "split_on (CHR ''.'') (join ''.'' (e # ws)) = e # ws"
    using w calculation split_on_append[OF digits_no_dot(1)[OF calculation(2)], of "join ''.'' (e # ws)"] by simp
  ultimately show "\<exists>d v. s = d @ ''.'' @ v \<and> digits d \<and> version_text n v"
    using v w by (intro exI[of _ d] exI[of _ "join ''.'' (e # ws)"]) (simp add: version_text_def)
next
  assume "\<exists>d v. s = d @ ''.'' @ v \<and> digits d \<and> version_text n v"
  then show "version_text (Suc n) s"
    by (auto simp: version_text_def split_on_append digits_no_dot)
qed

lemma version_text_0: "version_text 0 s \<longleftrightarrow> digits s"
proof
  assume v: "version_text 0 s"
  then obtain d where "split_on (CHR ''.'') s = [d]" by (auto simp: version_text_def length_Suc_conv)
  with v join_split[of "CHR ''.''" s] show "digits s" by (auto simp: version_text_def)
qed (simp add: version_text_def split_on_no digits_no_dot)

text \<open>What \<open>dotted\<close> reads, in both directions.\<close>

lemma dotted_complete: "version_text n v \<Longrightarrow> \<not> is_digit c \<Longrightarrow> dotted n (v @ c # r) = Some (v, c # r)"
proof (induction n arbitrary: v)
  case 0
  then show ?case using takeWhile_digits[of v c r] by (auto simp: version_text_0 digits_def)
next
  case (Suc n)
  then obtain d w where v: "v = d @ ''.'' @ w" "digits d" "version_text n w" by (auto simp: version_text_Suc)
  have dot: "\<not> is_digit CHR ''.''" by (simp add: is_digit_def)
  have "takeWhile is_digit (v @ c # r) = d \<and> dropWhile is_digit (v @ c # r) = CHR ''.'' # w @ c # r"
    using takeWhile_digits[OF v(2) dot, of "w @ c # r"] by (simp add: v(1))
  then show ?case using Suc.IH[OF v(3) Suc.prems(2)] v by (simp add: digits_def)
qed

lemma dotted_sound: "dotted n s = Some (v, r) \<Longrightarrow> s = v @ r \<and> version_text n v"
proof (induction n arbitrary: s v)
  case 0
  then show ?case by (auto simp: version_text_0 intro: digits_takeWhile split: if_splits)
next
  case (Suc n)
  then obtain x where d: "takeWhile is_digit s \<noteq> []" and drop: "dropWhile is_digit s = CHR ''.'' # x"
    and "map_option (\<lambda>(v, x). (takeWhile is_digit s @ ''.'' @ v, x)) (dotted n x) = Some (v, r)"
    by (auto split: if_splits list.splits)
  then obtain w where w: "dotted n x = Some (w, r)" "v = takeWhile is_digit s @ ''.'' @ w" by auto
  have "s = takeWhile is_digit s @ CHR ''.'' # x" using takeWhile_dropWhile_id[of is_digit s] drop by simp
  with Suc.IH[OF w(1)] w(2) digits_takeWhile[OF d] show ?case by (auto simp: version_text_Suc)
qed

text \<open>
  Which files of the repository are Kafka versions.  A file name is read as the Scala version \<open>scala\<close>
  and the Kafka version \<open>kafka\<close> exactly if it is \<open>kafka_<scala>-<kafka>.tgz\<close>, where the first is two and
  the second three decimal numbers separated by dots: writing a name and reading it are inverse.
\<close>

theorem tgz_names:
  "match_tgz name = Some (scala, kafka) \<longleftrightarrow>
     name = ''kafka_'' @ scala @ ''-'' @ kafka @ ''.tgz'' \<and> version_text 1 scala \<and> version_text 2 kafka"
proof
  assume m: "match_tgz name = Some (scala, kafka)"
  then obtain r where p: "starts_with name ''kafka_''" and a: "dotted 1 (drop 6 name) = Some (scala, CHR ''-'' # r)"
    and b: "dotted 2 r = Some (kafka, ''.tgz'')"
    unfolding match_tgz_def by (auto split: if_splits option.splits list.splits)
  have "take 6 name = ''kafka_''" using p by (simp add: starts_with_def eval_nat_numeral)
  then have "name = ''kafka_'' @ drop 6 name" by (metis append_take_drop_id)
  with dotted_sound[OF a] dotted_sound[OF b]
  show "name = ''kafka_'' @ scala @ ''-'' @ kafka @ ''.tgz'' \<and> version_text 1 scala \<and> version_text 2 kafka" by simp
next
  assume n: "name = ''kafka_'' @ scala @ ''-'' @ kafka @ ''.tgz'' \<and> version_text 1 scala \<and> version_text 2 kafka"
  have nd: "\<not> is_digit CHR ''-''" "\<not> is_digit CHR ''.''" by (simp_all add: is_digit_def)
  have "dotted 1 (scala @ CHR ''-'' # kafka @ ''.tgz'') = Some (scala, CHR ''-'' # kafka @ ''.tgz'')"
    using dotted_complete[OF _ nd(1)] n by blast
  moreover have "dotted 2 (kafka @ ''.tgz'') = Some (kafka, ''.tgz'')"
    using dotted_complete[OF _ nd(2)] n by simp
  ultimately show "match_tgz name = Some (scala, kafka)"
    using n by (simp add: match_tgz_def starts_with_def)
qed

section \<open>Effect on the database\<close>

definition upgrade_status :: "string \<Rightarrow> 'w sys \<Rightarrow> string option" where
  "upgrade_status tid s = map_option t_status (get_upgrade_task tid s)"

definition up_view :: "string \<Rightarrow> 'w sys \<Rightarrow> tables \<times> tables \<times> string option" where
  "up_view tid s = (sess s, committed s, upgrade_status tid s)"

lemma on_upgrade_frame: "sess (snd (on_upgrade tid f s)) = sess s" "committed (snd (on_upgrade tid f s)) = committed s"
  "wld (snd (on_upgrade tid f s)) = wld s"
  by (simp_all add: on_upgrade_def)

lemma upgrade_status_on: "upgrade_status tid (snd (on_upgrade tid f s)) =
    map_option (\<lambda>k. t_status (f k)) (get_upgrade_task tid s)"
  by (simp add: upgrade_status_def on_upgrade_def get_upgrade_task_def AList.map_of_map_entry comp_def split: option.splits)

lemma calm_on_upgrade: "calm (on_upgrade tid f)"
  by (simp add: on_upgrade_def calm_modify)

lemma calm_ulog: "calm (ulog_at l tid m)" "calm (set_phase tid ph a b)"
  by (simp_all add: ulog_at_def set_phase_def calm_on_upgrade)

lemma up_ulog: "rel_io (keeps (up_view tid)) (ulog_at l tid m)" "rel_io (keeps (up_view tid)) (set_phase tid ph a b)"
  by (auto simp: rel_io_def keeps_def up_view_def ulog_at_def set_phase_def upgrade_status_on on_upgrade_frame)
    (simp_all add: upgrade_status_def comp_def)

lemma up_world: "world_only m \<Longrightarrow> rel_io (keeps (up_view tid)) m"
  by (simp add: rel_io_def keeps_def off_wld_def up_view_def upgrade_status_def get_upgrade_task_def)

lemma up_set_status: "yields (up_view tid) (\<lambda>(d, c, st) r q. r = Inr () \<and> q = (mark i x d, c, st)) (set_service_status i x)"
  by (simp add: yields_def set_service_status_def upd_sess_def up_view_def mark_def upgrade_status_def get_upgrade_task_def)

lemma up_commit: "yields (up_view tid) (\<lambda>(d, c, st) r q. r = Inr () \<and> q = (d, d, st)) commit"
  by (simp add: yields_def commit_def up_view_def upgrade_status_def get_upgrade_task_def)

lemma world_upgrade: "world_only (kafka_active R h)" "world_only (must R h c n w)" "world_only (run_cmd R h c n)"
  "world_only (upload_file R h l p)"
  unfolding kafka_active_def must_def run_cmd_def upload_file_def by (intro world_steps)+

lemma world_checks: "world_only (health_check R hs svcs)" "world_only (isr_check R cfg r)" "world_only (controller_check R cfg c r)"
proof -
  have b: "world_only (broker_health R hs svc)" for svc
    unfolding broker_health_def Let_def by (intro world_steps world_upgrade)
  show "world_only (health_check R hs svcs)" unfolding health_check_def by (intro world_steps b)
  show "world_only (isr_check R cfg r)" unfolding isr_check_def Let_def by (intro world_steps)
  show "world_only (controller_check R cfg c r)" unfolding controller_check_def Let_def by (intro world_steps)
qed

lemma world_pre_check: "world_only (pre_upgrade_check R cfg V files cid target)"
  unfolding pre_upgrade_check_def Let_def by (intro world_steps world_checks)

lemmas up_quiet = up_ulog up_world[OF world_upgrade(1)] up_world[OF world_upgrade(2)] up_world[OF world_upgrade(3)]
  up_world[OF world_upgrade(4)] up_world[OF world_only_connect] up_world[OF world_only_exec_command] up_world[OF world_only_sleep]

lemma up_await: "rel_io (keeps (up_view tid)) (await_healthy R tid svc h)" "rel_io (keeps (up_view tid)) (await_isr R cfg tid svc h)"
  unfolding await_healthy_def await_isr_def by (intro keeps_io.rel_intros up_quiet)+

lemma up_exchange: "rel_io (keeps (up_view tid)) (exchange_install R cfg tid v target svc h)"
  unfolding exchange_install_def Let_def by (intro keeps_io.rel_intros up_quiet)

text \<open>One broker: whatever happens, what the session sees is committed, and the broker is untouched, stopped or
  running; it is running if the upgrade of this broker went through.\<close>

definition one_up :: "service \<Rightarrow> tables \<times> tables \<times> string option \<Rightarrow> exn + unit \<Rightarrow> tables \<times> tables \<times> string option \<Rightarrow> bool" where
  "one_up svc p r q \<longleftrightarrow> (case p of (d, c, st) \<Rightarrow>
     let at = (\<lambda>x. (mark (s_id svc) x d, mark (s_id svc) x d, st)) in
     case r of Inr _ \<Rightarrow> q = at ''running'' | Inl e \<Rightarrow> q = p \<or> q = (mark (s_id svc) ''stopped'' d, mark (s_id svc) ''stopped'' d, st)
       \<or> q = at ''running'')"

lemma up_mark_commit:
  assumes "yields (up_view tid) A m" and "\<And>p r q. A p r q \<Longrightarrow> q = p"
  shows "yields (up_view tid) (\<lambda>(d, c, st) r q. q = (mark i x d, mark i x d, st)) (seqm (set_service_status i x) (seqm commit m))"
proof -
  have "yields (up_view tid) (\<lambda>(d, c, st) r q. q = (d, d, st)) (seqm commit m)"
    by (rule yields_seqm[OF up_commit assms(1)]) (auto dest: assms(2))
  then show ?thesis by (rule yields_seqm[OF up_set_status]) auto
qed

definition stopped_db :: "service \<Rightarrow> tables \<times> tables \<times> string option \<Rightarrow> exn + unit \<Rightarrow> tables \<times> tables \<times> string option \<Rightarrow> bool" where
  "stopped_db svc p r q \<longleftrightarrow> (case p of (d, c, st) \<Rightarrow>
     q = (mark (s_id svc) ''stopped'' d, mark (s_id svc) ''stopped'' d, st) \<or> (\<not> (\<exists>x. r = Inr x) \<and> q = p))"

lemma stop_for_upgrade_db: "yields (up_view tid) (stopped_db svc) (stop_for_upgrade R tid svc h)"
proof -
  have inl: "stopped_db svc p (Inl e) p" for p e by (simp add: stopped_db_def split: prod.split)
  note skip = yields_skip[where A = "stopped_db svc", OF _ inl] yields_skip_seqm[where A = "stopped_db svc", OF _ inl]
  have m: "yields (up_view tid) (stopped_db svc) (seqm (set_service_status (s_id svc) ''stopped'') (seqm commit (sleep R 3)))"
    by (rule yields_mono[OF up_mark_commit[OF yields_keeps[OF up_quiet(9)]]]) (auto simp: stopped_db_def)
  have l: "rel_io (keeps (up_view tid)) (if b then ulog_at x tid m1 else ulog_at y tid m2)" for b x y m1 m2
    by (intro keeps_io.rel_if up_quiet)
  show ?thesis unfolding stop_for_upgrade_def Let_def
    by (intro skip(2)[OF up_ulog(1)] skip(1)[OF up_quiet(8)]) (clarify, rule skip(2)[OF l m])
qed

definition started_db :: "service \<Rightarrow> tables \<times> tables \<times> string option \<Rightarrow> exn + unit \<Rightarrow> tables \<times> tables \<times> string option \<Rightarrow> bool" where
  "started_db svc p r q \<longleftrightarrow> (case p of (d, c, st) \<Rightarrow>
     q = (mark (s_id svc) ''running'' d, mark (s_id svc) ''running'' d, st) \<or> (\<not> (\<exists>x. r = Inr x) \<and> q = p))"

lemma start_upgraded_db: "yields (up_view tid) (started_db svc) (start_upgraded R cfg tid svc h)"
proof -
  have inl: "started_db svc p (Inl e) p" for p e by (simp add: started_db_def split: prod.split)
  note skip = yields_skip[where A = "started_db svc", OF _ inl] yields_skip_seqm[where A = "started_db svc", OF _ inl]
  have tail: "rel_io (keeps (up_view tid)) (seqm (ulog tid m1) (bnd (await_isr R cfg tid svc h) (\<lambda>recovered.
      if recovered then ulog tid m2 else ulog_at ''warning'' tid m3)))" for m1 m2 m3
    by (intro keeps_io.rel_intros up_quiet up_await)
  have m: "yields (up_view tid) (started_db svc) (seqm (set_service_status (s_id svc) ''running'') (seqm commit
      (seqm (ulog tid m1) (bnd (await_isr R cfg tid svc h) (\<lambda>recovered.
        if recovered then ulog tid m2 else ulog_at ''warning'' tid m3)))))" for m1 m2 m3
    by (rule yields_mono[OF up_mark_commit[OF yields_keeps[OF tail]]]) (auto simp: started_db_def)
  show ?thesis unfolding start_upgraded_def Let_def
    by (intro skip(2)[OF up_ulog(1)] skip(2)[OF up_quiet(4)] skip(1)[OF up_await(1)] m
        skip(2)[OF keeps_io.rel_if[OF keeps_io.rel_ret keeps_io.rel_raise]])
qed

lemma upgrade_one_db: "yields (up_view tid) (one_up svc) (upgrade_one R cfg tid v target hs n (i, svc))"
proof (cases "by_id h_id hs (s_host_id svc)")
  case None
  then show ?thesis by (auto simp: upgrade_one_def one_up_def intro!: yields_raise)
next
  case (Some h)
  have inl: "one_up svc p (Inl e) p" for p e by (simp add: one_up_def Let_def split: prod.split)
  note skip = yields_skip_seqm[where A = "one_up svc", OF _ inl]
  let ?R = "\<lambda>p r q. (case p of (d, c, st) \<Rightarrow>
     q = (mark (s_id svc) ''running'' d, mark (s_id svc) ''running'' d, st) \<or> (\<not> (\<exists>x. r = Inr x) \<and> q = p))"
  have logs: "rel_io (keeps (up_view tid)) (seqm (set_phase tid ph a b) (ulog tid m))" for ph a b m
    by (intro keeps_io.rel_intros up_quiet)
  have started: "yields (up_view tid) (started_db svc) (seqm (start_upgraded R cfg tid svc h) (seqm (set_phase tid ph a b) (ulog tid m)))" for ph a b m
    by (rule yields_seqm[OF start_upgraded_db yields_keeps[OF logs]]) (auto simp: started_db_def split: prod.splits)
  have inl2: "started_db svc p (Inl e) p" for p e by (simp add: started_db_def split: prod.split)
  have exch: "yields (up_view tid) (started_db svc) (seqm (exchange_install R cfg tid v target svc h)
      (seqm (start_upgraded R cfg tid svc h) (seqm (set_phase tid ph a b) (ulog tid m))))" for ph a b m
    by (rule yields_skip_seqm[OF up_exchange inl2 started])
  have "yields (up_view tid) (one_up svc) (seqm (stop_for_upgrade R tid svc h) (seqm (exchange_install R cfg tid v target svc h)
      (seqm (start_upgraded R cfg tid svc h) (seqm (set_phase tid ph a b) (ulog tid m)))))" for ph a b m
    by (rule yields_seqm[OF stop_for_upgrade_db exch])
      (auto simp: stopped_db_def started_db_def one_up_def mark_mark Let_def split: prod.splits sum.splits)
  then show ?thesis unfolding upgrade_one_def split_conv Let_def Some option.case
    by (intro skip[OF up_ulog(1)] skip[OF up_ulog(2)] skip[OF up_quiet(7)])
qed

definition all_running :: "service list \<Rightarrow> tables \<Rightarrow> tables" where
  "all_running svcs = fold (\<lambda>v. mark (s_id v) ''running'') svcs"

definition with_clusters :: "cluster list \<Rightarrow> tables \<Rightarrow> tables" where
  "with_clusters cs d = d\<lparr>clusters := cs\<rparr>"

lemma mark_with_clusters: "mark i x (with_clusters cs d) = with_clusters cs (mark i x d)"
  by (simp add: mark_def with_clusters_def)

lemma all_running_with_clusters: "all_running svcs (with_clusters cs d) = with_clusters cs (all_running svcs d)"
  by (induction svcs arbitrary: d) (simp_all add: all_running_def mark_with_clusters)

lemma clusters_all_running: "clusters (all_running svcs d) = clusters d"
  by (induction svcs arbitrary: d) (simp_all add: all_running_def mark_def)

lemma with_clusters_twice: "with_clusters cs (with_clusters ds d) = with_clusters cs d"
  "clusters (with_clusters cs d) = cs" "services (with_clusters cs d) = services d" "hosts (with_clusters cs d) = hosts d"
  by (simp_all add: with_clusters_def)

text \<open>Where a failed loop stopped: the brokers before are running, the one it failed at is as it was, stopped or
  running.\<close>

definition stopped_at :: "service list \<Rightarrow> tables \<Rightarrow> tables \<Rightarrow> bool" where
  "stopped_at svcs d e \<longleftrightarrow> (\<exists>before svc rest. svcs = before @ svc # rest \<and>
     (let b = all_running before d in e = b \<or> e = mark (s_id svc) ''stopped'' b \<or> e = mark (s_id svc) ''running'' b))"

definition loop_up :: "service list \<Rightarrow> tables \<times> tables \<times> string option \<Rightarrow> exn + 'a \<Rightarrow> tables \<times> tables \<times> string option \<Rightarrow> bool" where
  "loop_up svcs p r q \<longleftrightarrow> (case p of (d, c, st) \<Rightarrow> c = d \<longrightarrow>
     (case r of Inr _ \<Rightarrow> q = (all_running svcs d, all_running svcs d, st) | Inl _ \<Rightarrow> \<exists>e. q = (e, e, st) \<and> stopped_at svcs d e))"

lemma stopped_at_Cons: "stopped_at svcs (mark (s_id svc) ''running'' d) e \<Longrightarrow> stopped_at (svc # svcs) d e"
proof -
  assume "stopped_at svcs (mark (s_id svc) ''running'' d) e"
  then obtain before x rest where "svcs = before @ x # rest"
    and e: "let b = all_running before (mark (s_id svc) ''running'' d) in
      e = b \<or> e = mark (s_id x) ''stopped'' b \<or> e = mark (s_id x) ''running'' b" unfolding stopped_at_def by blast
  then have "svc # svcs = (svc # before) @ x # rest" by simp
  moreover have "all_running before (mark (s_id svc) ''running'' d) = all_running (svc # before) d" by (simp add: all_running_def)
  ultimately show ?thesis using e unfolding stopped_at_def by metis
qed

lemma stopped_at_hd: "e = d \<or> e = mark (s_id svc) ''stopped'' d \<or> e = mark (s_id svc) ''running'' d \<Longrightarrow> stopped_at (svc # svcs) d e"
proof -
  assume e: "e = d \<or> e = mark (s_id svc) ''stopped'' d \<or> e = mark (s_id svc) ''running'' d"
  have "svc # svcs = [] @ svc # svcs" and "all_running [] d = d" by (simp_all add: all_running_def)
  with e show ?thesis unfolding stopped_at_def Let_def by metis
qed

lemma upgrade_loop_db: "yields (up_view tid) (loop_up svcs) (for_each (upgrade_one R cfg tid v target hs n) (enumerate i svcs))"
proof (induction svcs arbitrary: i)
  case Nil
  show ?case by (simp add: yields_def loop_up_def all_running_def up_view_def)
next
  case (Cons svc svcs)
  have k: "yields (up_view tid) (loop_up svcs) (bnd (for_each (upgrade_one R cfg tid v target hs n) (enumerate (Suc i) svcs)) (\<lambda>ys. ret (y # ys)))" for y
    by (rule yields_bnd[OF Cons yields_value]) (auto simp: loop_up_def)
  show ?case unfolding enumerate_simps for_each.simps
  proof (rule yields_bnd[OF upgrade_one_db k])
    show "loop_up (svc # svcs) p (Inl e) q" if "one_up svc p (Inl e) q" for p e q
      using that stopped_at_hd[of "fst q" "fst p" svc svcs] by (cases p; cases q) (auto simp: one_up_def loop_up_def)
    show "loop_up (svc # svcs) p r u" if a: "one_up svc p (Inr x) q" and b: "loop_up svcs q r u" for p x q r u
    proof -
      obtain d c st where p: "p = (d, c, st)" by (cases p)
      have q: "q = (mark (s_id svc) ''running'' d, mark (s_id svc) ''running'' d, st)" using a by (simp add: p one_up_def)
      have "all_running (svc # svcs) d = all_running svcs (mark (s_id svc) ''running'' d)" by (simp add: all_running_def)
      then show ?thesis using b by (auto simp: loop_up_def p q intro: stopped_at_Cons split: sum.splits)
    qed
  qed
qed

lemma calm_bnd: "calm m \<Longrightarrow> (\<And>x. calm (k x)) \<Longrightarrow> calm (bnd m k)"
  unfolding calm_def bnd_def by (auto split: prod.splits sum.splits) (metis fst_conv)+

lemma calm_for_each: "(\<And>x. calm (f x)) \<Longrightarrow> calm (for_each f xs)"
proof (induction xs)
  case Nil
  show ?case unfolding for_each.simps by (rule calm_ret)
next
  case (Cons x xs)
  then show ?case unfolding for_each.simps by (intro calm_bnd calm_ret) auto
qed

lemma calm_verify: "calm (verify_one R tid hs svc)"
proof -
  have "calm (catch m (\<lambda>e. seqm (ulog_at l tid (f e)) (ret x)))" for m l f x
    unfolding calm_def catch_def by (auto simp: seqm_run ulog_at_def on_upgrade_def split: prod.splits sum.splits)
  then show ?thesis unfolding verify_one_def Let_def by (auto intro: calm_ret split: option.split)
qed

lemma up_verify: "rel_io (keeps (up_view tid)) (verify_one R tid hs svc)"
  unfolding verify_one_def Let_def by (intro keeps_io.rel_intros up_quiet)

definition upgraded_clusters :: "string \<Rightarrow> string \<Rightarrow> cluster list \<Rightarrow> cluster list" where
  "upgraded_clusters cid target = upd_by c_id cid (\<lambda>c. c\<lparr>c_kafka_version := target, c_state := ''running''\<rparr>)"

lemma upgraded_none: "List.find (\<lambda>c. c_id c = cid) cs = None \<Longrightarrow> upgraded_clusters cid target cs = cs"
  by (induction cs) (auto simp: upgraded_clusters_def upd_by_def split: if_splits)

definition finish_db :: "string \<Rightarrow> string \<Rightarrow> tables \<times> tables \<times> string option \<Rightarrow> exn + unit \<Rightarrow> tables \<times> tables \<times> string option \<Rightarrow> bool" where
  "finish_db cid target p r q \<longleftrightarrow> (case p of (d, c, st) \<Rightarrow> c = d \<longrightarrow> r = Inr () \<and>
     (let e = with_clusters (upgraded_clusters cid target (clusters d)) d in q = (e, e, map_option (\<lambda>_. ''completed'') st)))"

lemma set_upgraded_db: "yields (up_view tid)
   (\<lambda>(d, c, st) r q. c = d \<longrightarrow> r = Inr () \<and> (let e = with_clusters (upgraded_clusters cid target (clusters d)) d in q = (e, e, st)))
   (set_upgraded cid target)"
proof (rule yieldsI)
  fix s t :: "'a sys" and r assume run: "set_upgraded cid target s = (r, t)"
  show "(case up_view tid s of (d, c, st) \<Rightarrow> \<lambda>r q. c = d \<longrightarrow> r = Inr () \<and>
     (let e = with_clusters (upgraded_clusters cid target (clusters d)) d in q = (e, e, st))) r (up_view tid t)"
  proof (cases "find_cluster (sess s) cid")
    case None
    then show ?thesis using run upgraded_none[of cid "clusters (sess s)" target]
      by (auto simp: set_upgraded_def bnd_run up_view_def find_cluster_def with_clusters_def)
  next
    case (Some c)
    then show ?thesis using run
      by (auto simp: set_upgraded_def bnd_run seqm_run upd_sess_def commit_def up_view_def upgrade_status_def get_upgrade_task_def
          with_clusters_def upgraded_clusters_def)
  qed
qed

lemma task_status_db: "(\<And>k. t_status (g k) = x) \<Longrightarrow>
   yields (up_view tid) (\<lambda>(d, c, st) r q. r = Inr () \<and> q = (d, c, map_option (\<lambda>_. x) st)) (on_upgrade tid g)"
  by (auto simp: yields_def up_view_def upgrade_status_on on_upgrade_frame)
    (simp_all add: on_upgrade_def upgrade_status_def comp_def option.map_comp)

lemma finish_upgrade_db: "yields (up_view tid) (finish_db cid target) (finish_upgrade R tid cid target hs svcs)"
proof -
  let ?C = "\<lambda>(d, c, st) r q. r = Inr () \<and> q = (d, c, map_option (\<lambda>_. ''completed'') st)"
  have completed: "yields (up_view tid) ?C (seqm (on_upgrade tid (\<lambda>k. k\<lparr>t_status := ''completed'', t_completed := True,
      t_progress := p\<rparr>)) (ulog tid m))" for p m
  proof (rule yields_seqm[OF task_status_db[of _ "''completed''"]])
    show "yields (up_view tid) (\<lambda>p r q. r = Inr () \<and> q = p) (ulog tid m)"
      using up_ulog(1)[of tid "''info''" m] calm_on_upgrade[of tid "\<lambda>k. k\<lparr>t_logs := t_logs k @ [(''info'', m)]\<rparr>"]
      by (auto simp: yields_def rel_io_def keeps_def calm_def ulog_at_def on_upgrade_def)
  qed auto
  have verified: "yields (up_view tid) ?C (seqm (ulog tid m1) (seqm (ulog tid m2) (seqm (set_phase tid ph x y)
      (bnd (for_each (verify_one R tid hs) svcs) (\<lambda>oks. seqm (if f oks then ulog tid m3 else ulog_at ''warning'' tid m4)
      (seqm (on_upgrade tid (\<lambda>k. k\<lparr>t_status := ''completed'', t_completed := True, t_progress := p\<rparr>)) (ulog tid m5)))))))"
    for m1 m2 ph x y f m3 m4 p m5
    by (intro yields_skip_seqm_calm[OF up_ulog(1) calm_ulog(1)] yields_skip_seqm_calm[OF up_ulog(2) calm_ulog(2)]
        yields_skip_calm[OF keeps_io.rel_for_each[OF up_verify] calm_for_each[OF calm_verify]] completed)
      (rule yields_skip_seqm_calm[OF keeps_io.rel_if[OF up_ulog(1) up_ulog(1)] _ completed], simp add: calm_ulog)
  show ?thesis unfolding finish_upgrade_def Let_def
    by (rule yields_skip_seqm_calm[OF up_ulog(1) calm_ulog(1)], rule yields_seqm[OF set_upgraded_db verified])
      (auto simp: finish_db_def Let_def)
qed

definition upgrading :: "string \<Rightarrow> tables \<Rightarrow> tables" where
  "upgrading cid d = with_clusters (upd_by c_id cid (\<lambda>r. r\<lparr>c_state := ''upgrading''\<rparr>) (clusters d)) d"

definition upgraded :: "string \<Rightarrow> string \<Rightarrow> service list \<Rightarrow> tables \<Rightarrow> tables" where
  "upgraded cid target svcs d = with_clusters (upgraded_clusters cid target (clusters d)) (all_running svcs d)"

definition turn_db :: "string \<Rightarrow> string \<Rightarrow> tables \<times> tables \<times> string option \<Rightarrow> exn + unit \<Rightarrow> tables \<times> tables \<times> string option \<Rightarrow> bool" where
  "turn_db cid target p r q \<longleftrightarrow> (case p of (d, c, st) \<Rightarrow>
     (let svcs = sort_key s_node_id (upgrade_brokers d cid) in
      case r of
        Inr _ \<Rightarrow> q = (upgraded cid target svcs d, upgraded cid target svcs d, map_option (\<lambda>_. ''completed'') st)
      | Inl _ \<Rightarrow> (\<exists>e. q = (e, e, st) \<and> stopped_at svcs (upgrading cid d) e)))"

lemma upgraded_after_upgrading: "upgraded cid target svcs (upgrading cid d) = upgraded cid target svcs d"
  by (simp add: upgraded_def upgrading_def upgraded_clusters_def upd_by_twice all_running_with_clusters with_clusters_twice)

lemma upgrading_db: "yields (up_view tid) (\<lambda>(d, c, st) r q. r = Inr () \<and> q = (upgrading cid d, c, st)) (set_cluster_state cid ''upgrading'')"
  by (simp add: yields_def set_cluster_state_def upd_sess_def up_view_def upgrading_def with_clusters_def upgrade_status_def get_upgrade_task_def)

lemma brokers_in_turn_db: "yields (up_view tid) (turn_db cid target) (upgrade_brokers_in_turn R cfg tid cid target v)"
proof (rule yieldsI)
  fix s t :: "'a sys" and r assume run: "upgrade_brokers_in_turn R cfg tid cid target v s = (r, t)"
  let ?d = "sess s"
  let ?svcs = "sort_key s_node_id (upgrade_brokers ?d cid)"
  let ?n = "length ?svcs"
  define T where "T p r q \<longleftrightarrow> (case p of (d, c, st) \<Rightarrow> c = d \<longrightarrow> (case r of
       Inr (_ :: unit) \<Rightarrow> q = (upgraded cid target ?svcs d, upgraded cid target ?svcs d, map_option (\<lambda>_. ''completed'') st)
      | Inl (_ :: exn) \<Rightarrow> (\<exists>e. q = (e, e, st) \<and> stopped_at ?svcs d e)))" for p :: "tables \<times> tables \<times> string option" and r q
  have tail: "yields (up_view tid) T (seqm (for_each (upgrade_one R cfg tid v target (hosts ?d) ?n) (enumerate 0 ?svcs))
      (finish_upgrade R tid cid target (hosts ?d) ?svcs))"
  proof (rule yields_seqm[OF upgrade_loop_db finish_upgrade_db])
    show "T p (Inl e) q" if "loop_up ?svcs p (Inl e :: exn + unit list) q" for p e q
      using that by (cases p) (simp add: T_def loop_up_def)
    show "T p r u" if "loop_up ?svcs p (Inr x :: exn + unit list) q" "finish_db cid target q r u" for p x q r u
      using that by (cases p) (auto simp: T_def loop_up_def finish_db_def upgraded_def clusters_all_running Let_def)
  qed
  define K where "K p r q \<longleftrightarrow> (case p of (d, c, st) \<Rightarrow> (case r of
       Inr (_ :: unit) \<Rightarrow> q = (upgraded cid target ?svcs (upgrading cid d), upgraded cid target ?svcs (upgrading cid d), map_option (\<lambda>_. ''completed'') st)
      | Inl (_ :: exn) \<Rightarrow> (\<exists>e. q = (e, e, st) \<and> stopped_at ?svcs (upgrading cid d) e)))" for p :: "tables \<times> tables \<times> string option" and r q
  have commit': "yields (up_view tid) (\<lambda>(d, c, st) r q. T (d, d, st) r q) (seqm commit
      (seqm (for_each (upgrade_one R cfg tid v target (hosts ?d) ?n) (enumerate 0 ?svcs)) (finish_upgrade R tid cid target (hosts ?d) ?svcs)))"
    by (rule yields_seqm[OF up_commit tail]) (auto simp: T_def)
  have state': "yields (up_view tid) K (seqm (set_cluster_state cid ''upgrading'') (seqm commit
      (seqm (for_each (upgrade_one R cfg tid v target (hosts ?d) ?n) (enumerate 0 ?svcs)) (finish_upgrade R tid cid target (hosts ?d) ?svcs))))"
    by (rule yields_seqm[OF upgrading_db commit']) (auto simp: T_def K_def split: sum.splits)
  have "yields (up_view tid) K (seqm (set_phase tid ''upgrading'' 0 (int ?n)) (seqm (ulog tid m) (seqm (set_cluster_state cid ''upgrading'') (seqm commit
      (seqm (for_each (upgrade_one R cfg tid v target (hosts ?d) ?n) (enumerate 0 ?svcs)) (finish_upgrade R tid cid target (hosts ?d) ?svcs))))))" for m
    by (intro yields_skip_seqm_calm[OF up_ulog(1) calm_ulog(1)] yields_skip_seqm_calm[OF up_ulog(2) calm_ulog(2)] state')
  from yieldsD[OF this] run have "K (up_view tid s) r (up_view tid t)"
    unfolding upgrade_brokers_in_turn_def bnd_run asks_run prod.case sum.case Let_def by blast
  then show "turn_db cid target (up_view tid s) r (up_view tid t)"
    by (simp add: K_def turn_db_def up_view_def upgraded_after_upgrading Let_def split: sum.splits)
qed

text \<open>Before the brokers are touched nothing happens to the database.\<close>

definition whole_db :: "string \<Rightarrow> string \<Rightarrow> tables \<times> tables \<times> string option \<Rightarrow> exn + unit \<Rightarrow> tables \<times> tables \<times> string option \<Rightarrow> bool" where
  "whole_db cid target p r q \<longleftrightarrow> turn_db cid target p r q \<or> ((\<exists>e. r = Inl e) \<and> q = p)"

lemma do_upgrade_db: "yields (up_view tid) (whole_db cid target) (do_rolling_upgrade R cfg V files cid target tid)"
proof -
  have inl: "whole_db cid target p (Inl e) p" for p e by (simp add: whole_db_def)
  note skip = yields_skip[where A = "whole_db cid target", OF _ inl] yields_skip_seqm[where A = "whole_db cid target", OF _ inl]
  have turn: "yields (up_view tid) (whole_db cid target) (upgrade_brokers_in_turn R cfg tid cid target v)" for v
    by (rule yields_mono[OF brokers_in_turn_db]) (simp add: whole_db_def)
  have found: "yields (up_view tid) (whole_db cid target) (case x of None \<Rightarrow> raise e
      | Some v \<Rightarrow> seqm (ulog tid (f v)) (upgrade_brokers_in_turn R cfg tid cid target v))" for x e f
    by (cases x) (auto intro: yields_raise inl skip(2)[OF up_ulog(1) turn])
  show ?thesis unfolding do_rolling_upgrade_def
    by (intro skip(2)[OF up_ulog(1)] skip(2)[OF up_ulog(2)] skip(1)[OF keeps_io.rel_asks] skip(1)[OF up_world[OF world_pre_check]]
        yields_if yields_raise inl found)
qed

lemma fail_task_db: "yields (up_view tid) (\<lambda>(d, c, st) r q. r = Inr () \<and> q = (d, c, map_option (\<lambda>_. ''failed'') st))
   (seqm (ulog_at l tid m) (on_upgrade tid (\<lambda>k. k\<lparr>t_status := ''failed'', t_error := Some e, t_completed := True,
      t_progress := (t_progress k)\<lparr>p_label := Some ph\<rparr>\<rparr>)))"
  by (rule yields_skip_seqm_calm[OF up_ulog(1) calm_ulog(1) task_status_db]) simp

text \<open>The whole task, from the run of its body.\<close>

lemma rolling_upgrade_run:
  obtains r t0 t where "do_rolling_upgrade R cfg V files cid target tid s = (r, t0)"
    and "rolling_upgrade R cfg V files cid target tid s = (Inr (), t)"
    and "whole_db cid target (up_view tid s) r (up_view tid t0)"
    and "up_view tid t = (case r of Inr _ \<Rightarrow> up_view tid t0
       | Inl _ \<Rightarrow> (sess t0, committed t0, map_option (\<lambda>_. ''failed'') (upgrade_status tid t0)))"
    and "wld t = wld t0"
proof -
  obtain r t0 where run: "do_rolling_upgrade R cfg V files cid target tid s = (r, t0)"
    by (cases "do_rolling_upgrade R cfg V files cid target tid s")
  note w = yieldsD[OF do_upgrade_db run]
  show ?thesis
  proof (cases r)
    case (Inl e)
    let ?h = "seqm (ulog_at ''error'' tid (''Upgrade failed with error: '' @ exn_str e)) (on_upgrade tid (\<lambda>k. k\<lparr>t_status := ''failed'',
        t_error := Some (exn_str e), t_completed := True, t_progress := (t_progress k)\<lparr>p_label := Some ''failed''\<rparr>\<rparr>))"
    obtain x t where h: "?h t0 = (x, t)" by (cases "?h t0")
    have "rolling_upgrade R cfg V files cid target tid s = (x, t)"
      using h by (simp add: rolling_upgrade_def catch_def run Inl)
    moreover have "wld t = wld t0"
      using h by (auto simp: seqm_run ulog_at_def on_upgrade_def)
    ultimately show ?thesis using yieldsD[OF fail_task_db h] that[OF run _ w] Inl by (simp add: up_view_def)
  next
    case (Inr x)
    then show ?thesis using that[OF run _ w, of t0] by (simp add: rolling_upgrade_def catch_def run)
  qed
qed

text \<open>
  Claim C6.  What an upgrade leaves in the database.  Either it is completed, and then the cluster has the new
  version and is running and so is each of its brokers; or it failed before it touched anything and the
  database is as before; or it failed at one broker, which is as it was, stopped or running, the brokers
  before it (by node id) run the new version, and the cluster is left in the state \<open>upgrading\<close> with its old
  version.  In every case all of it is committed.
\<close>

theorem upgrade_outcome:
  assumes "upgrade_status tid s = Some ''running''"
  shows "\<exists>t. rolling_upgrade R cfg V files cid target tid s = (Inr (), t) \<and>
    (let svcs = sort_key s_node_id (upgrade_brokers (sess s) cid) in
     (upgrade_status tid t = Some ''completed'' \<and> committed t = sess t \<and> sess t = upgraded cid target svcs (sess s)) \<or>
     (upgrade_status tid t = Some ''failed'' \<and> committed t = committed s \<and> sess t = sess s) \<or>
     (upgrade_status tid t = Some ''failed'' \<and> committed t = sess t \<and> stopped_at svcs (upgrading cid (sess s)) (sess t)))"
proof -
  obtain r t0 t where "do_rolling_upgrade R cfg V files cid target tid s = (r, t0)"
    and "rolling_upgrade R cfg V files cid target tid s = (Inr (), t)"
    and "whole_db cid target (up_view tid s) r (up_view tid t0)"
    and "up_view tid t = (case r of Inr _ \<Rightarrow> up_view tid t0
       | Inl _ \<Rightarrow> (sess t0, committed t0, map_option (\<lambda>_. ''failed'') (upgrade_status tid t0)))"
    using rolling_upgrade_run[of R cfg V files cid target tid s] by blast
  then show ?thesis using assms
    by (intro exI[of _ t]) (auto simp: whole_db_def turn_db_def up_view_def Let_def split: sum.splits)
qed

section \<open>Starts and stops of brokers\<close>

definition upgrade_target :: "host list \<Rightarrow> nat \<times> service \<Rightarrow> (string \<times> string) option" where
  "upgrade_target hs = (\<lambda>(i, svc). map_option (\<lambda>h. (h_id h, ''kafka'')) (by_id h_id hs (s_host_id svc)))"

lemma ops_on_upgrade: "rel_io (keeps unit_ops) (on_upgrade tid f)"
  by (simp add: rel_io_def keeps_def unit_ops_def trace_def on_upgrade_frame)

lemma ops_ulog: "rel_io (keeps unit_ops) (ulog_at l tid m)" "rel_io (keeps unit_ops) (set_phase tid ph a b)"
  by (simp_all add: ulog_at_def set_phase_def ops_on_upgrade)

lemma not_unit_op_upgrade: "\<not> starts_with (''sudo cp '' @ x) ''sudo systemctl ''" "\<not> starts_with (''sudo rm '' @ x) ''sudo systemctl ''"
  "\<not> starts_with (''sudo chown '' @ x) ''sudo systemctl ''" "\<not> starts_with (''ss '' @ x) ''sudo systemctl ''"
  "\<not> starts_with ''systemctl is-active kafka'' ''sudo systemctl ''"
  by (simp_all add: starts_with_def)

lemma ops_must: "\<not> starts_with c ''sudo systemctl '' \<Longrightarrow> rel_io (keeps unit_ops) (must (recorded R) h c n w)"
  "\<not> starts_with c ''sudo systemctl '' \<Longrightarrow> rel_io (keeps unit_ops) (run_cmd (recorded R) h c n)"
  "rel_io (keeps unit_ops) (kafka_active (recorded R) h)"
  unfolding must_def run_cmd_def kafka_active_def by (intro keeps_io.rel_intros ops_exec_quiet not_unit_op_upgrade; assumption)+

lemma ops_upload: "rel_io (keeps unit_ops) (upload_file (recorded R) h l p)"
  by (auto simp: rel_io_def keeps_def unit_ops_def trace_def upload_file_def on_wld_def recorded_def log_ev_def is_unit_op_def split: prod.splits)

lemma ops_exchange: "rel_io (keeps unit_ops) (exchange_install (recorded R) cfg tid v target svc h)"
proof -
  have "\<not> starts_with (backup_cmd cfg) ''sudo systemctl ''" "\<not> starts_with (extract_cmd cfg a b) ''sudo systemctl ''"
    "\<not> starts_with (''sudo cp -r '' @ x) ''sudo systemctl ''" "\<not> starts_with (''sudo cp -r /tmp/kafka_config_backup/* '' @ x) ''sudo systemctl ''"
    "\<not> starts_with (''sudo rm -rf /tmp/'' @ x) ''sudo systemctl ''" "\<not> starts_with (''sudo chown -R kafka:kafka '' @ x) ''sudo systemctl ''" for a b x
    by (simp_all add: starts_with_def backup_cmd_def extract_cmd_def)
  then show ?thesis unfolding exchange_install_def Let_def
    by (intro keeps_io.rel_intros ops_exec_quiet ops_must ops_ulog ops_upload)
qed

lemma ops_await:
  assumes "starts_with (KAFKA_INSTALL_DIR cfg) ''/''"
  shows "rel_io (keeps unit_ops) (await_healthy (recorded R) tid svc h)" "rel_io (keeps unit_ops) (await_isr (recorded R) cfg tid svc h)"
proof -
  have "\<not> starts_with (''ss -tlnp | grep '' @ x) ''sudo systemctl ''" for x by (simp add: starts_with_def)
  then show "rel_io (keeps unit_ops) (await_healthy (recorded R) tid svc h)"
    unfolding await_healthy_def by (intro keeps_io.rel_intros ops_exec_quiet ops_must ops_ulog ops_steps)
  have "\<not> starts_with (isr_cmd cfg @ x) ''sudo systemctl ''" for x
    unfolding isr_cmd_def append_assoc by (rule not_unit_op_path[OF assms])
  then show "rel_io (keeps unit_ops) (await_isr (recorded R) cfg tid svc h)"
    unfolding await_isr_def by (intro keeps_io.rel_intros ops_exec_quiet ops_ulog ops_steps)
qed

lemma for_each_until: "bnd (for_each f xs) (\<lambda>_. ret True) = each_until (\<lambda>x. bnd (f x) (\<lambda>_. ret True)) xs"
proof (induction xs)
  case (Cons x xs)
  show ?case by (simp only: for_each.simps each_until.simps bnd_assoc ret_bnd if_True Cons)
qed (simp only: for_each.simps each_until.simps ret_bnd)

lemma seqm_assoc: "bnd (seqm m n) k = seqm m (bnd n k)"
  by (simp add: seqm_def bnd_assoc)

text \<open>The stop, and what follows it: nothing that starts or stops a unit, or the start at the end.\<close>

lemma ops_stop_upgrade: "yields unit_ops (\<lambda>p r q. \<exists>a. q = p @ [a] \<and> ran (h_id h) (stop_cmd ''kafka'') a)
    (stop_for_upgrade (recorded R) tid svc h)"
proof -
  have tail: "rel_io (keeps unit_ops) (case x of (rc, _, stderr) \<Rightarrow>
      seqm (if rc \<noteq> 0 then ulog_at ''warning'' tid (f rc stderr) else ulog tid m)
        (seqm (set_service_status i st) (seqm commit (sleep (recorded R) 3))))" for x :: "int \<times> string \<times> string" and f m i st
    by (intro keeps_io.rel_prod keeps_io.rel_intros ops_ulog ops_steps)
  show ?thesis unfolding stop_for_upgrade_def Let_def
    by (rule yields_skip_seqm_calm[OF ops_ulog(1) calm_ulog(1)], rule yields_bnd[OF ops_exec yields_keeps[OF tail]])
      (auto simp: is_unit_cmd ran_def)
qed

definition start_ops :: "host \<Rightarrow> event list \<Rightarrow> exn + 'a \<Rightarrow> event list \<Rightarrow> bool" where
  "start_ops h p r q \<longleftrightarrow> (if isl r then q = p else False) \<or>
     (\<exists>b. q = p @ [b] \<and> ran (h_id h) (start_cmd ''kafka'') b \<and> (isl r \<or> exited_0 b))"

lemma ops_must_start: "yields unit_ops (start_ops h) (must (recorded R) h (start_cmd ''kafka'') 60 w)"
  unfolding must_def
proof (rule yields_bnd[OF ops_exec])
  show "yields unit_ops (\<lambda>p r q. q = p \<and> (isl r \<or> fst x = 0))
     (case x of (rc, _, stderr) \<Rightarrow> if rc \<noteq> 0 then raise (RuntimeError (w @ '': '' @ stderr)) else ret ())" for x
    by (cases x) (auto intro!: yields_raise yields_ret)
qed (auto simp: is_unit_cmd ran_def exited_0_def start_ops_def isl_def)

lemma ops_start_upgraded:
  assumes "starts_with (KAFKA_INSTALL_DIR cfg) ''/''"
  shows "yields unit_ops (start_ops h) (start_upgraded (recorded R) cfg tid svc h)"
proof -
  have inl: "start_ops h p (Inl e) p" for p e by (simp add: start_ops_def)
  have rest: "rel_io (keeps unit_ops) (seqm (ulog tid m1) (seqm (ulog tid m2) (bnd (await_healthy (recorded R) tid svc h) (\<lambda>healthy.
      seqm (if healthy then ret () else raise e) (seqm (ulog tid m3) (seqm (set_service_status i st) (seqm commit (seqm (ulog tid m4)
      (bnd (await_isr (recorded R) cfg tid svc h) (\<lambda>recovered. if recovered then ulog tid m5 else ulog_at ''warning'' tid m6)))))))))) "
    for m1 m2 e m3 i st m4 m5 m6
    by (intro keeps_io.rel_intros ops_ulog ops_steps ops_await[OF assms])
  show ?thesis unfolding start_upgraded_def Let_def
    by (rule yields_skip_seqm[where A = "start_ops h", OF ops_ulog(1) inl], rule yields_seqm[OF ops_must_start yields_keeps[OF rest]])
      (auto simp: start_ops_def)
qed

lemma upgrade_one_ops:
  assumes "starts_with (KAFKA_INSTALL_DIR cfg) ''/''"
  shows "yields unit_ops (grows_as (round_ok (upgrade_target hs x))) (bnd (upgrade_one (recorded R) cfg tid v target hs n x) (\<lambda>_. ret True))"
proof (cases x)
  case (Pair i svc)
  show ?thesis
  proof (cases "by_id h_id hs (s_host_id svc)")
    case None
    have "yields unit_ops (grows_as (round_ok None)) (raise e)" for e :: exn
      by (intro yields_raise) (simp add: grows_as_def)
    then show ?thesis by (simp add: Pair upgrade_one_def upgrade_target_def None)
  next
    case (Some h)
    let ?T = "Some (h_id h, ''kafka'')"
    have inl: "start_ops h p (Inl e) p" for p e by (simp add: start_ops_def)
    have quiet: "rel_io (keeps unit_ops) (bnd (seqm (set_phase tid ph a b) (ulog tid m)) (\<lambda>_. ret True))" for ph a b m
      by (intro keeps_io.rel_intros ops_ulog)
    have start: "yields unit_ops (start_ops h) (seqm (exchange_install (recorded R) cfg tid v target svc h)
        (seqm (start_upgraded (recorded R) cfg tid svc h) (bnd (seqm (set_phase tid ph a b) (ulog tid m)) (\<lambda>_. ret True))))" for ph a b m
      by (rule yields_skip_seqm[where A = "start_ops h", OF ops_exchange inl], rule yields_seqm[OF ops_start_upgraded[OF assms] yields_keeps[OF quiet]])
        (auto simp: start_ops_def)
    have stop: "yields unit_ops (grows_as (round_ok ?T)) (seqm (stop_for_upgrade (recorded R) tid svc h)
        (seqm (exchange_install (recorded R) cfg tid v target svc h)
        (seqm (start_upgraded (recorded R) cfg tid svc h) (bnd (seqm (set_phase tid ph a b) (ulog tid m)) (\<lambda>_. ret True)))))" for ph a b m
      by (rule yields_seqm[OF ops_stop_upgrade start]) (auto simp: grows_as_def start_ops_def isl_def split: if_splits)
    note skip = yields_skip_seqm[where A = "grows_as (round_ok ?T)", OF _ grows_as_Inl]
    show ?thesis unfolding Pair upgrade_one_def upgrade_target_def split_conv Let_def Some option.case option.map seqm_assoc
      by (intro skip ops_ulog ops_steps stop[unfolded seqm_assoc]) simp_all
  qed
qed

interpretation upgrade_rounds: restart_rounds "starts_with (KAFKA_INSTALL_DIR cfg) ''/''"
  "\<lambda>x. bnd (upgrade_one (recorded R) cfg tid v target hs n x) (\<lambda>_. ret True)" "upgrade_target hs" for cfg R tid v target hs n
  by unfold_locales (rule upgrade_one_ops)

definition upgrade_plan :: "tables \<Rightarrow> string \<Rightarrow> (string \<times> string) list" where
  "upgrade_plan d cid = List.map_filter (\<lambda>svc. upgrade_target (hosts d) (0, svc)) (sort_key s_node_id (upgrade_brokers d cid))"

lemma map_filter_enumerate: "List.map_filter (upgrade_target hs) (enumerate i xs) = List.map_filter (\<lambda>svc. upgrade_target hs (0, svc)) xs"
  by (induction xs arbitrary: i) (simp_all add: map_filter_simps upgrade_target_def split: option.split)

definition upgrade_ops :: "(string \<times> string) list \<Rightarrow> event list \<Rightarrow> exn + 'a \<Rightarrow> event list \<Rightarrow> bool" where
  "upgrade_ops plan p r q \<longleftrightarrow> (\<exists>es. q = p @ es \<and> rolling plan (\<not> isl r) es)"

lemma upgrade_loop_ops:
  assumes "starts_with (KAFKA_INSTALL_DIR cfg) ''/''"
  shows "yields unit_ops (upgrade_ops (List.map_filter (\<lambda>svc. upgrade_target hs (0, svc)) svcs))
    (for_each (upgrade_one (recorded R) cfg tid v target hs n) (enumerate i svcs))"
proof (rule yieldsI)
  fix s t and r :: "exn + unit list" assume run: "for_each (upgrade_one (recorded R) cfg tid v target hs n) (enumerate i svcs) s = (r, t)"
  have "yields unit_ops (grows_as (rolling (List.map_filter (\<lambda>svc. upgrade_target hs (0, svc)) svcs)))
      (bnd (for_each (upgrade_one (recorded R) cfg tid v target hs n) (enumerate i svcs)) (\<lambda>_. ret True))"
    unfolding for_each_until by (rule upgrade_rounds.one_at_a_time[OF assms, where xs = "enumerate i svcs", unfolded map_filter_enumerate])
  from yieldsD[OF this, of s] run show "upgrade_ops (List.map_filter (\<lambda>svc. upgrade_target hs (0, svc)) svcs) (unit_ops s) r (unit_ops t)"
    by (cases r) (auto simp: bnd_run grows_as_def upgrade_ops_def)
qed

lemma calm_seqm: "calm m \<Longrightarrow> calm n \<Longrightarrow> calm (seqm m n)"
  unfolding seqm_def by (rule calm_bnd)

lemma calm_finish: "calm (finish_upgrade R tid cid target hs svcs)"
proof -
  have "calm (set_upgraded cid target)"
    unfolding set_upgraded_def upd_sess_def commit_def
    by (intro calm_bnd calm_asks) (auto intro!: calm_seqm calm_modify calm_ret)
  moreover have "calm (if b then ulog_at l tid m else ulog_at l' tid m')" for b l m l' m' by (simp add: calm_ulog)
  ultimately show ?thesis unfolding finish_upgrade_def Let_def
    by (intro calm_seqm calm_bnd calm_ulog calm_for_each calm_verify calm_on_upgrade)
qed

lemma ops_finish: "rel_io (keeps unit_ops) (finish_upgrade (recorded R) tid cid target hs svcs)"
proof -
  have "rel_io (keeps unit_ops) (verify_one (recorded R) tid hs svc)" for svc
    unfolding verify_one_def Let_def by (intro keeps_io.rel_intros ops_steps ops_must ops_ulog)
  moreover have "rel_io (keeps unit_ops) (set_upgraded cid target :: (('a \<times> event list) sys, unit) io)"
    unfolding set_upgraded_def by (intro keeps_io.rel_intros ops_steps) (simp add: rel_io_def keeps_def upd_sess_def unit_ops_def trace_def)
  ultimately show ?thesis unfolding finish_upgrade_def Let_def
    by (intro keeps_io.rel_intros ops_ulog ops_on_upgrade)
qed

lemma ops_pre_check:
  assumes "starts_with (KAFKA_INSTALL_DIR cfg) ''/''"
  shows "rel_io (keeps unit_ops) (pre_upgrade_check (recorded R) cfg V files cid target)"
proof -
  have b: "rel_io (keeps unit_ops) (broker_health (recorded R) hs svc)" for hs svc
    unfolding broker_health_def Let_def by (intro keeps_io.rel_intros ops_steps ops_must)
  have h: "rel_io (keeps unit_ops) (health_check (recorded R) hs svcs)" for hs svcs
    unfolding health_check_def by (intro keeps_io.rel_intros b)
  have n: "\<not> starts_with (isr_cmd cfg) ''sudo systemctl ''" "\<not> starts_with (controller_cmd cfg c) ''sudo systemctl ''" for c
    unfolding isr_cmd_def controller_cmd_def using not_unit_op_path[OF assms] by auto
  have "rel_io (keeps unit_ops) (isr_check (recorded R) cfg r)" "rel_io (keeps unit_ops) (controller_check (recorded R) cfg c r)" for r c
    unfolding isr_check_def controller_check_def Let_def by (intro keeps_io.rel_intros ops_steps ops_exec_quiet n)+
  then show ?thesis unfolding pre_upgrade_check_def Let_def by (intro keeps_io.rel_intros h)
qed

definition plan_view :: "('w \<times> event list) sys \<Rightarrow> tables \<times> event list" where
  "plan_view s = (sess s, unit_ops s)"

lemma plan_quiet: "rel_io (keeps (up_view tid)) m \<Longrightarrow> rel_io (keeps unit_ops) m \<Longrightarrow> rel_io (keeps plan_view) m"
  by (simp add: rel_io_def keeps_def up_view_def plan_view_def)

definition whole_ops :: "string \<Rightarrow> tables \<times> event list \<Rightarrow> exn + unit \<Rightarrow> tables \<times> event list \<Rightarrow> bool" where
  "whole_ops cid p r q \<longleftrightarrow> upgrade_ops (upgrade_plan (fst p) cid) (snd p) r (snd q)"

lemma in_turn_ops:
  assumes "starts_with (KAFKA_INSTALL_DIR cfg) ''/''"
  shows "yields plan_view (whole_ops cid) (upgrade_brokers_in_turn (recorded R) cfg tid cid target v)"
proof (rule yieldsI)
  fix s t :: "('a \<times> event list) sys" and r assume run: "upgrade_brokers_in_turn (recorded R) cfg tid cid target v s = (r, t)"
  let ?d = "sess s"
  let ?svcs = "sort_key s_node_id (upgrade_brokers ?d cid)"
  let ?n = "length ?svcs"
  have inl: "upgrade_ops plan p (Inl e) p" for plan p and e :: exn by (simp add: upgrade_ops_def rolling_stopped)
  have tail: "yields unit_ops (upgrade_ops (upgrade_plan ?d cid)) (seqm (for_each (upgrade_one (recorded R) cfg tid v target (hosts ?d) ?n) (enumerate 0 ?svcs))
      (finish_upgrade (recorded R) tid cid target (hosts ?d) ?svcs))"
  proof (rule yields_seqm[OF upgrade_loop_ops[OF assms]])
    show "yields unit_ops (\<lambda>p r q. q = p \<and> \<not> isl r) (finish_upgrade (recorded R) tid cid target (hosts ?d) ?svcs)"
      using ops_finish[of R tid cid target "hosts ?d" ?svcs] calm_finish[of "recorded R" tid cid target "hosts ?d" ?svcs]
      by (auto simp: yields_def rel_io_def keeps_def calm_def isl_def)
  qed (auto simp: upgrade_ops_def upgrade_plan_def)
  have state: "rel_io (keeps unit_ops) (set_cluster_state cid st :: (('a \<times> event list) sys, unit) io)" for st
    by (simp add: rel_io_def keeps_def set_cluster_state_def upd_sess_def unit_ops_def trace_def)
  have "yields unit_ops (upgrade_ops (upgrade_plan ?d cid)) (seqm (set_phase tid ''upgrading'' 0 (int ?n)) (seqm (ulog tid m) (seqm (set_cluster_state cid ''upgrading'') (seqm commit
      (seqm (for_each (upgrade_one (recorded R) cfg tid v target (hosts ?d) ?n) (enumerate 0 ?svcs)) (finish_upgrade (recorded R) tid cid target (hosts ?d) ?svcs))))))" for m
    by (intro yields_skip_seqm[where A = "upgrade_ops (upgrade_plan ?d cid)", OF ops_ulog(1) inl]
        yields_skip_seqm[where A = "upgrade_ops (upgrade_plan ?d cid)", OF ops_ulog(2) inl]
        yields_skip_seqm[where A = "upgrade_ops (upgrade_plan ?d cid)", OF state inl]
        yields_skip_seqm[where A = "upgrade_ops (upgrade_plan ?d cid)", OF ops_steps(4) inl] tail)
  from yieldsD[OF this] run have "upgrade_ops (upgrade_plan ?d cid) (unit_ops s) r (unit_ops t)"
    unfolding upgrade_brokers_in_turn_def bnd_run asks_run prod.case sum.case Let_def by blast
  then show "whole_ops cid (plan_view s) r (plan_view t)" by (simp add: whole_ops_def plan_view_def)
qed

lemma do_upgrade_ops:
  assumes "starts_with (KAFKA_INSTALL_DIR cfg) ''/''"
  shows "yields plan_view (whole_ops cid) (do_rolling_upgrade (recorded R) cfg V files cid target tid)"
proof -
  have inl: "whole_ops cid p (Inl e) p" for p e by (simp add: whole_ops_def upgrade_ops_def rolling_stopped)
  note skip = yields_skip[where A = "whole_ops cid", OF _ inl] yields_skip_seqm[where A = "whole_ops cid", OF _ inl]
  note logs = plan_quiet[OF up_ulog(1) ops_ulog(1)] plan_quiet[OF up_ulog(2) ops_ulog(2)]
  have found: "yields plan_view (whole_ops cid) (case x of None \<Rightarrow> raise e
      | Some v \<Rightarrow> seqm (ulog tid (f v)) (upgrade_brokers_in_turn (recorded R) cfg tid cid target v))" for x e f
    by (cases x) (auto intro: yields_raise inl skip(2)[OF logs(1) in_turn_ops[OF assms]])
  show ?thesis unfolding do_rolling_upgrade_def
    by (intro skip(2)[OF logs(1)] skip(2)[OF logs(2)] skip(1)[OF keeps_io.rel_asks]
        skip(1)[OF plan_quiet[OF up_world[OF world_pre_check] ops_pre_check[OF assms]]] yields_if yields_raise inl found)
qed

text \<open>
  Claim C7.  An upgrade takes the brokers down one at a time, in the order of their node ids: whatever the hosts
  answer, the starts and stops it sent are a run down the list of the brokers that have a host, in which each
  broker is stopped and started again before the next one is stopped, and it is only reported as completed
  if the run went down the whole list.  The unit is always \<open>kafka\<close>.
\<close>

theorem upgrade_one_at_a_time:
  assumes "upgrade_status tid s = Some ''running''" and "starts_with (KAFKA_INSTALL_DIR cfg) ''/''"
  shows "\<exists>t es. rolling_upgrade (recorded R) cfg V files cid target tid s = (Inr (), t) \<and> unit_ops t = unit_ops s @ es \<and>
     rolling (upgrade_plan (sess s) cid) (upgrade_status tid t = Some ''completed'') es"
proof -
  obtain r t0 t where run: "do_rolling_upgrade (recorded R) cfg V files cid target tid s = (r, t0)"
    and r: "rolling_upgrade (recorded R) cfg V files cid target tid s = (Inr (), t)"
    and w: "whole_db cid target (up_view tid s) r (up_view tid t0)"
    and u: "up_view tid t = (case r of Inr _ \<Rightarrow> up_view tid t0
       | Inl _ \<Rightarrow> (sess t0, committed t0, map_option (\<lambda>_. ''failed'') (upgrade_status tid t0)))"
    and "wld t = wld t0"
    by (rule rolling_upgrade_run)
  have "unit_ops t = unit_ops t0" using \<open>wld t = wld t0\<close> by (simp add: unit_ops_def trace_def)
  moreover have "whole_ops cid (plan_view s) r (plan_view t0)" by (rule yieldsD[OF do_upgrade_ops[OF assms(2)] run])
  moreover have "upgrade_status tid t = Some ''completed'' \<longleftrightarrow> \<not> isl r"
    using w u assms(1) by (auto simp: whole_db_def turn_db_def up_view_def Let_def split: sum.splits)
  ultimately show ?thesis using r by (auto simp: whole_ops_def upgrade_ops_def plan_view_def)
qed

section \<open>No upgrade without a passed check\<close>

text \<open>What the database and the repository must look like for an upgrade to begin.\<close>

definition may_upgrade :: "settings \<Rightarrow> ('v :: linorder) versions \<Rightarrow> repo_file list \<Rightarrow> string \<Rightarrow> string \<Rightarrow> tables \<Rightarrow> bool" where
  "may_upgrade cfg V files cid target d \<longleftrightarrow>
     (case find_cluster d cid of None \<Rightarrow> False | Some c \<Rightarrow>
        map_of (list_repo_versions cfg files) target \<noteq> None \<and>
        (case (v_parse V (c_kafka_version c), v_parse V target) of (Some a, Some b) \<Rightarrow> a < b | _ \<Rightarrow> True) \<and>
        upgrade_brokers d cid \<noteq> [] \<and>
        list_all (\<lambda>v. by_id h_id (hosts d) (s_host_id v) \<noteq> None) (upgrade_brokers d cid) \<and>
        list_ex (\<lambda>v. s_status v = ''running'') (upgrade_brokers d cid))"

lemma healthy_hosts: "for_each (broker_health R hs) svcs s = (Inr sts, t) \<Longrightarrow> list_all bs_healthy sts \<Longrightarrow>
    list_all (\<lambda>v. by_id h_id hs (s_host_id v) \<noteq> None) svcs"
  by (induction svcs arbitrary: s sts) (auto simp: broker_health_def elim!: bnd_InrE split: option.splits)

lemma find_running: "running_broker_host hs svcs \<noteq> None \<Longrightarrow> list_ex (\<lambda>v. s_status v = ''running'') svcs"
  by (auto simp: running_broker_host_def list_ex_iff split: option.splits dest: find_Some_iff_first)

lemma version_check_passed: "uc_passed (version_check V a b) \<longleftrightarrow>
    (case (v_parse V a, v_parse V b) of (Some x, Some y) \<Rightarrow> x < y | _ \<Rightarrow> True)"
  by (auto simp: version_check_def plain_check_def Let_def split: option.split)

lemma pre_check_ready:
  assumes run: "pre_upgrade_check R cfg V files cid target s = (Inr rep, t)" and ready: "up_ready rep"
  shows "may_upgrade cfg V files cid target (sess s)"
proof -
  let ?d = "sess s"
  let ?svcs = "upgrade_brokers ?d cid"
  let ?run = "running_broker_host (hosts ?d) ?svcs"
  obtain c where c: "find_cluster ?d cid = Some c"
    using run by (cases "find_cluster ?d cid") (auto simp: pre_upgrade_check_def bnd_run)
  obtain health s1 isr s2 controller s3 where h: "health_check R (hosts ?d) ?svcs s = (Inr health, s1)"
    and i: "isr_check R cfg ?run s1 = (Inr isr, s2)" and k: "controller_check R cfg c ?run s2 = (Inr controller, s3)"
    and checks: "up_ready rep = list_all uc_passed [version_check V (c_kafka_version c) target, binary_check cfg files target, health, isr, controller]"
    using run c by (auto simp: pre_upgrade_check_def bnd_run Let_def split: prod.splits sum.splits)
  have p: "uc_passed (version_check V (c_kafka_version c) target)" "uc_passed (binary_check cfg files target)" "uc_passed health" "uc_passed controller"
    using ready checks by simp_all
  have "map_of (list_repo_versions cfg files) target \<noteq> None"
    using p(2) by (auto simp: binary_check_def plain_check_def split: option.splits)
  moreover have ne: "?svcs \<noteq> []" using h p(3) by (auto simp: health_check_def plain_check_def split: if_splits)
  moreover have "list_all (\<lambda>v. by_id h_id (hosts ?d) (s_host_id v) \<noteq> None) ?svcs"
  proof -
    obtain sts where "for_each (broker_health R (hosts ?d)) ?svcs s = (Inr sts, s1)" "uc_passed health = list_all bs_healthy sts"
      using h ne by (auto simp: health_check_def plain_check_def elim!: bnd_InrE)
    then show ?thesis using p(3) healthy_hosts by blast
  qed
  moreover have "?run \<noteq> None"
    using k p(4) by (cases ?run) (auto simp: controller_check_def plain_check_def Let_def)
  ultimately show ?thesis
    using p(1) find_running by (simp add: may_upgrade_def c version_check_passed)
qed

definition touch_view :: "('w \<times> event list) sys \<Rightarrow> tables \<times> tables \<times> event list" where
  "touch_view s = (sess s, committed s, unit_ops s)"

lemma touch_quiet: "rel_io (keeps (up_view tid)) m \<Longrightarrow> rel_io (keeps unit_ops) m \<Longrightarrow> rel_io (keeps touch_view) m"
  by (simp add: rel_io_def keeps_def up_view_def touch_view_def)

definition guarded :: "(tables \<Rightarrow> bool) \<Rightarrow> tables \<times> tables \<times> event list \<Rightarrow> exn + unit \<Rightarrow> tables \<times> tables \<times> event list \<Rightarrow> bool" where
  "guarded G p r q \<longleftrightarrow> (isl r \<and> q = p) \<or> G (fst p)"

lemma do_upgrade_guarded:
  assumes "starts_with (KAFKA_INSTALL_DIR cfg) ''/''"
  shows "yields touch_view (guarded (may_upgrade cfg V files cid target)) (do_rolling_upgrade (recorded R) cfg V files cid target tid)"
proof -
  let ?G = "guarded (may_upgrade cfg V files cid target)"
  have inl: "?G p (Inl e) p" for p e by (simp add: guarded_def)
  note skip = yields_skip[where A = ?G, OF _ inl] yields_skip_seqm[where A = ?G, OF _ inl]
  note logs = touch_quiet[OF up_ulog(1) ops_ulog(1)] touch_quiet[OF up_ulog(2) ops_ulog(2)]
  have check: "yields touch_view (\<lambda>p r q. q = p \<and> (case r of Inl _ \<Rightarrow> True | Inr rep \<Rightarrow> up_ready rep \<longrightarrow> may_upgrade cfg V files cid target (fst p)))
      (pre_upgrade_check (recorded R) cfg V files cid target)"
  proof (rule yieldsI)
    fix s t and r :: "exn + upgrade_report" assume run: "pre_upgrade_check (recorded R) cfg V files cid target s = (r, t)"
    have "rel_io (keeps touch_view) (pre_upgrade_check (recorded R) cfg V files cid target)"
      by (rule touch_quiet[OF up_world[OF world_pre_check] ops_pre_check[OF assms]])
    from rel_ioD[OF this run] have "touch_view t = touch_view s" by (simp add: keeps_def)
    then show "touch_view t = touch_view s \<and>
        (case r of Inl _ \<Rightarrow> True | Inr rep \<Rightarrow> up_ready rep \<longrightarrow> may_upgrade cfg V files cid target (fst (touch_view s)))"
      using run pre_check_ready[of "recorded R" cfg V files cid target s]
      by (auto simp: touch_view_def split: sum.splits)
  qed
  have checked: "yields touch_view ?G (bnd (pre_upgrade_check (recorded R) cfg V files cid target) (\<lambda>rep. if \<not> up_ready rep then raise (e rep) else k rep))" for e k
  proof (rule yields_bnd[OF check])
    show "yields touch_view (\<lambda>p r q. up_ready x \<or> (isl r \<and> q = p)) (if \<not> up_ready x then raise (e x) else k x)" for x
      by (cases "up_ready x") (auto simp: yields_def)
  qed (auto simp: guarded_def)
  show ?thesis unfolding do_rolling_upgrade_def
    by (intro skip(2)[OF logs(1)] skip(2)[OF logs(2)] skip(1)[OF keeps_io.rel_asks] checked yields_if yields_raise inl)
qed

text \<open>
  Claim C5.  No upgrade without the checks.  Unless the target version is in the repository, is newer than the
  version of the cluster (where both can be compared), the cluster has brokers, every one of them has a host
  and one is shown as running, an upgrade fails without having stopped or started anything and without a
  change to the database.
\<close>

theorem upgrade_guarded:
  assumes "upgrade_status tid s = Some ''running''" and "starts_with (KAFKA_INSTALL_DIR cfg) ''/''"
  shows "\<exists>t. rolling_upgrade (recorded R) cfg V files cid target tid s = (Inr (), t) \<and>
     (may_upgrade cfg V files cid target (sess s) \<or>
      (upgrade_status tid t = Some ''failed'' \<and> sess t = sess s \<and> committed t = committed s \<and> unit_ops t = unit_ops s))"
proof -
  obtain r t0 t where run: "do_rolling_upgrade (recorded R) cfg V files cid target tid s = (r, t0)"
    and r: "rolling_upgrade (recorded R) cfg V files cid target tid s = (Inr (), t)"
    and w: "whole_db cid target (up_view tid s) r (up_view tid t0)"
    and u: "up_view tid t = (case r of Inr _ \<Rightarrow> up_view tid t0
       | Inl _ \<Rightarrow> (sess t0, committed t0, map_option (\<lambda>_. ''failed'') (upgrade_status tid t0)))"
    and "wld t = wld t0"
    by (rule rolling_upgrade_run)
  have "unit_ops t = unit_ops t0" using \<open>wld t = wld t0\<close> by (simp add: unit_ops_def trace_def)
  moreover have "guarded (may_upgrade cfg V files cid target) (touch_view s) r (touch_view t0)"
    by (rule yieldsD[OF do_upgrade_guarded[OF assms(2)] run])
  moreover have "upgrade_status tid t = Some ''failed''" if "isl r"
    using that w u assms(1) by (auto simp: whole_db_def turn_db_def up_view_def Let_def isl_def)
  ultimately show ?thesis using r u
    by (auto simp: guarded_def touch_view_def up_view_def isl_def)
qed

section \<open>The offered versions\<close>

definition as_version :: "settings \<Rightarrow> repo_file \<Rightarrow> repo_version" where
  "as_version cfg f = \<lparr>rv_scala = (case match_tgz (rf_name f) of None \<Rightarrow> [] | Some (scala, _) \<Rightarrow> scala), rv_filename = rf_name f,
     rv_path = KAFKA_REPO_DIR cfg @ ''/'' @ rf_name f, rv_size_mb = size_mb (rf_bytes f)\<rparr>"

lemma list_repo_snoc: "list_repo_versions cfg (files @ [f]) = (case match_tgz (rf_name f) of
     None \<Rightarrow> list_repo_versions cfg files
   | Some (scala, kafka) \<Rightarrow> AList.update kafka (as_version cfg f) (list_repo_versions cfg files))"
  by (auto simp: list_repo_versions_def as_version_def split: option.splits)

lemma list_repo_lookup: "map_of (list_repo_versions cfg files) ver =
    map_option (as_version cfg) (List.find (\<lambda>f. map_option snd (match_tgz (rf_name f)) = Some ver) (rev files))"
proof (induction files rule: rev_induct)
  case Nil
  show ?case by (simp add: list_repo_versions_def)
next
  case (snoc f files)
  then show ?case by (auto simp: list_repo_snoc update_conv' split: option.splits)
qed

lemma list_repo_distinct: "distinct (map fst (list_repo_versions cfg files))"
proof (induction files rule: rev_induct)
  case Nil
  show ?case by (simp add: list_repo_versions_def)
next
  case (snoc f files)
  then show ?case by (auto simp: list_repo_snoc distinct_update split: option.split)
qed

text \<open>
  What is offered for an upgrade.  The versions offered for a known cluster are, in ascending order,
  exactly the versions of the repository that can be compared and are newer than the version of the cluster
  (any other version if that one cannot be compared), each with the last file of the directory that has it;
  nothing is changed.
\<close>

theorem available_upgrades_exact:
  fixes V :: "('v :: linorder) versions"
  assumes "find_cluster (sess s) cid = Some c"
  shows "\<exists>rep. get_available_upgrades cfg V files cid s = (Inr rep, s) \<and>
     sorted (map (\<lambda>(ver, _). the (v_parse V ver)) (ur_available rep)) \<and>
     (\<forall>ver v. (ver, v) \<in> set (ur_available rep) \<longleftrightarrow> offered V (c_kafka_version c) ver \<and>
        map_option (as_version cfg) (List.find (\<lambda>f. map_option snd (match_tgz (rf_name f)) = Some ver) (rev files)) = Some v)"
proof -
  have "(ver, v) \<in> set (list_repo_versions cfg files) \<longleftrightarrow>
      map_option (as_version cfg) (List.find (\<lambda>f. map_option snd (match_tgz (rf_name f)) = Some ver) (rev files)) = Some v" for ver v
    using map_of_eq_Some_iff[OF list_repo_distinct] list_repo_lookup by metis
  then show ?thesis
    unfolding get_available_upgrades_def by (auto simp: bnd_run assms)
qed

section \<open>A sample upgrade\<close>

definition sample_versions :: "nat versions" where
  "sample_versions = \<lparr>v_parse = map_of [(''4.1.0'', 410), (''4.2.0'', 420), (''4.3.1'', 431)], v_major = (\<lambda>n. int n div 100)\<rparr>"

definition sample_files :: "repo_file list" where
  "sample_files = [\<lparr>rf_name = ''kafka_2.13-4.2.0.tgz'', rf_bytes = 130023424\<rparr>, \<lparr>rf_name = ''README'', rf_bytes = 10\<rparr>]"

definition upgrade_sys :: "'w \<Rightarrow> 'w sys" where
  "upgrade_sys w = (let d = empty_tables\<lparr>clusters := [sample_cluster], hosts := [sample_host], services := [sample_service ''s1'' ''broker'']\<rparr>
      in snd (init_upgrade_task ''t1'' \<lparr>sess = d, committed = d, tasks = no_tasks, wld = w\<rparr>))"

definition upgrade_world :: "string remote" where
  "upgrade_world = restart_world False"

lemma sample_upgrade: "upgrade_status ''t1'' (upgrade_sys w) = Some ''running''"
  "starts_with (KAFKA_INSTALL_DIR (default_settings [])) ''/''" "find_cluster (sess (upgrade_sys w)) ''c1'' = Some sample_cluster"
  by (simp_all add: upgrade_sys_def upgrade_status_def get_upgrade_task_def init_upgrade_task_def no_tasks_def Let_def
      default_settings_def starts_with_def find_cluster_def empty_tables_def sample_cluster_def bare_cluster_def)

theorem upgrade_outcome_witness:
  "\<exists>t. rolling_upgrade upgrade_world (default_settings []) sample_versions sample_files ''c1'' ''4.2.0'' ''t1'' (upgrade_sys ''active'') = (Inr (), t) \<and>
     (upgrade_status ''t1'' t = Some ''completed'' \<or> upgrade_status ''t1'' t = Some ''failed'')"
  using upgrade_outcome[OF sample_upgrade(1), of upgrade_world "default_settings []" sample_versions sample_files "''c1''" "''4.2.0''" "''active''"]
  unfolding Let_def by blast

theorem upgrade_one_at_a_time_witness:
  "\<exists>t es. rolling_upgrade (recorded upgrade_world) (default_settings []) sample_versions sample_files ''c1'' ''4.2.0'' ''t1''
       (upgrade_sys (''active'', [])) = (Inr (), t) \<and>
     rolling [(''h1'', ''kafka'')] (upgrade_status ''t1'' t = Some ''completed'') es \<and> unit_ops t = es"
proof -
  have p: "upgrade_plan (sess (upgrade_sys (''active'', []) :: (string \<times> event list) sys)) ''c1'' = [(''h1'', ''kafka'')]"
    "unit_ops (upgrade_sys (''active'', []) :: (string \<times> event list) sys) = []" by code_simp+
  show ?thesis
    using upgrade_one_at_a_time[OF sample_upgrade(1)[of "(''active'', [])"] sample_upgrade(2), where R = upgrade_world and V = sample_versions
      and files = sample_files and cid = "''c1''" and target = "''4.2.0''"]
    by (simp add: p)
qed

theorem upgrade_guarded_witness:
  "\<exists>t. rolling_upgrade (recorded upgrade_world) (default_settings []) sample_versions sample_files ''c1'' ''4.3.1'' ''t1''
       (upgrade_sys (''active'', [])) = (Inr (), t) \<and>
     upgrade_status ''t1'' t = Some ''failed'' \<and> unit_ops t = []"
proof -
  let ?s = "upgrade_sys (''active'', []) :: (string \<times> event list) sys"
  have p: "\<not> may_upgrade (default_settings []) sample_versions sample_files ''c1'' ''4.3.1'' (sess ?s)" "unit_ops ?s = []" by code_simp+
  show ?thesis
    using upgrade_guarded[OF sample_upgrade(1)[of "(''active'', [])"] sample_upgrade(2), where R = upgrade_world and V = sample_versions
      and files = sample_files and cid = "''c1''" and target = "''4.3.1''"] p
    by auto
qed

theorem available_upgrades_exact_witness:
  "\<exists>rep. get_available_upgrades (default_settings []) sample_versions sample_files ''c1'' (upgrade_sys ()) = (Inr rep, upgrade_sys ()) \<and>
     (''4.2.0'', as_version (default_settings []) (hd sample_files)) \<in> set (ur_available rep)"
proof -
  have "offered sample_versions (c_kafka_version sample_cluster) ''4.2.0''" by code_simp
  moreover have "map_option (as_version (default_settings [])) (List.find (\<lambda>f. map_option snd (match_tgz (rf_name f)) = Some ''4.2.0'') (rev sample_files))
      = Some (as_version (default_settings []) (hd sample_files))" by code_simp
  ultimately show ?thesis
    using available_upgrades_exact[OF sample_upgrade(3), of "default_settings []" sample_versions sample_files "()"] by blast
qed

end
