(* ===== verification/Config_Manager.thy ===== *)
theory Config_Manager
  imports Rolling_Restart Py_Text
begin

text \<open>
  The configuration of brokers: \<open>services/config_manager.py\<close> and \<open>api/broker_config.py\<close>.  A key of
  \<open>server.properties\<close> is edited on the host of the broker, through its agent or over SSH, and every change leaves
  a row in the audit log.  Fresh identifiers and the time of a change are the argument \<open>fresh\<close>; reading the
  configuration of an external cluster over the Kafka protocol (\<open>external_admin.describe_broker_configs\<close>) is the
  argument \<open>describe\<close>.  Logging is left out.  Shown: what an edit does to the properties of a file and that
  undoing it restores them, that the audit log follows exactly the changes that were written, what the
  batch over all brokers does and does not do, and what a rollback marks.
\<close>

section \<open>Known keys\<close>

record config_info =
  ci_type :: string
  ci_description :: string
  ci_dynamic :: bool
  ci_category :: string

definition known_key :: "string \<Rightarrow> string \<Rightarrow> bool \<Rightarrow> string \<Rightarrow> config_info" where
  "known_key ty desc dyn cat = \<lparr>ci_type = ty, ci_description = desc, ci_dynamic = dyn, ci_category = cat\<rparr>"

definition KAFKA_BROKER_CONFIGS :: "(string \<times> config_info) list" where
  "KAFKA_BROKER_CONFIGS =
    [(''log.retention.hours'', known_key ''int'' ''Hours to retain log segments'' False ''Log''),
     (''log.retention.bytes'', known_key ''long'' ''Maximum size of the log before deletion'' True ''Log''),
     (''log.segment.bytes'', known_key ''int'' ''Size of a single log segment file'' True ''Log''),
     (''log.cleanup.policy'', known_key ''string'' ''Log cleanup policy: delete or compact'' True ''Log''),
     (''num.partitions'', known_key ''int'' ''Default number of partitions per topic'' False ''Core''),
     (''default.replication.factor'', known_key ''int'' ''Default replication factor for auto-created topics'' False ''Core''),
     (''min.insync.replicas'', known_key ''int'' ''Minimum number of in-sync replicas'' True ''Replication''),
     (''message.max.bytes'', known_key ''int'' ''Maximum size of a message'' True ''Network''),
     (''compression.type'', known_key ''string'' ''Compression codec: none, gzip, snappy, lz4, zstd'' True ''Core''),
     (''auto.create.topics.enable'', known_key ''boolean'' ''Enable auto creation of topics'' False ''Core''),
     (''delete.topic.enable'', known_key ''boolean'' ''Enable topic deletion'' False ''Core''),
     (''max.connections.per.ip'', known_key ''int'' ''Maximum connections per IP'' True ''Network''),
     (''num.io.threads'', known_key ''int'' ''Number of I/O threads'' False ''Performance''),
     (''num.network.threads'', known_key ''int'' ''Number of network threads'' False ''Performance''),
     (''socket.send.buffer.bytes'', known_key ''int'' ''SO_SNDBUF buffer size'' False ''Network''),
     (''socket.receive.buffer.bytes'', known_key ''int'' ''SO_RCVBUF buffer size'' False ''Network''),
     (''replica.fetch.max.bytes'', known_key ''int'' ''Max bytes fetched per partition for replication'' True ''Replication''),
     (''unclean.leader.election.enable'', known_key ''boolean'' ''Allow unclean leader election'' True ''Replication''),
     (''log.retention.check.interval.ms'', known_key ''long'' ''Interval to check for log retention'' False ''Log''),
     (''offsets.retention.minutes'', known_key ''int'' ''Offset retention time'' False ''Core'')]"

definition get_config_metadata :: "(string \<times> config_info) list" where
  "get_config_metadata = KAFKA_BROKER_CONFIGS"

definition requires_restart :: "string \<Rightarrow> bool" where
  "requires_restart key = (case map_of KAFKA_BROKER_CONFIGS key of None \<Rightarrow> True | Some i \<Rightarrow> \<not> ci_dynamic i)"

section \<open>Properties files\<close>

definition parse_line :: "string \<Rightarrow> (string \<times> string) option" where
  "parse_line line =
     (let stripped = strip line in
      if stripped = [] \<or> starts_with stripped ''#'' then None
      else if contains stripped ''='' then
        (case partition_str stripped ''='' of (key, _, value) \<Rightarrow> Some (strip key, strip value))
      else None)"

definition parse_properties :: "string \<Rightarrow> (string \<times> string) list" where
  "parse_properties content =
     foldl (\<lambda>result line. case parse_line line of None \<Rightarrow> result | Some (k, v) \<Rightarrow> AList.update k v result)
       [] (splitlines content)"

definition has_key :: "string \<Rightarrow> string \<Rightarrow> bool" where
  "has_key key line \<longleftrightarrow> starts_with (strip line) (key @ ''='') \<or> starts_with (strip line) (key @ '' ='')"

definition edit_line :: "string \<Rightarrow> string \<Rightarrow> string \<Rightarrow> string" where
  "edit_line key val line = (if has_key key line then key @ ''='' @ val else line)"

definition edit_lines :: "string \<Rightarrow> string \<Rightarrow> string list \<Rightarrow> string list" where
  "edit_lines key val lines =
     map (edit_line key val) lines @ (if list_ex (has_key key) lines then [] else [key @ ''='' @ val])"

definition edit_properties :: "string \<Rightarrow> string \<Rightarrow> string \<Rightarrow> string" where
  "edit_properties key val content = join nl (edit_lines key val (splitlines content)) @ nl"

section \<open>One change\<close>

record fresh =
  f_hex :: string
  f_audit_id :: string
  f_now :: int

record config_change =
  cc_broker_id :: int
  cc_config_key :: string
  cc_old_value :: "string option"
  cc_new_value :: string
  cc_requires_restart :: bool
  cc_via :: "string option"

definition tmp_path :: "fresh \<Rightarrow> string" where
  "tmp_path fr = ''/tmp/tantor-'' @ f_hex fr @ ''.properties''"

definition cat_cmd :: "string \<Rightarrow> string" where
  "cat_cmd path = ''sudo -n cat '' @ path"

definition find_cmd :: string where
  "find_cmd = ''sudo -n find / -name server.properties -path '' @ sq @ ''*/kafka*'' @ sq @ '' 2>/dev/null | head -1''"

definition install_cmd :: "string \<Rightarrow> string \<Rightarrow> string" where
  "install_cmd tmp path = ''sudo -n install -o kafka -g kafka -m 640 '' @ tmp @ '' '' @ path @ '' && sudo -n rm -f '' @ tmp"

definition copy_cmd :: "string \<Rightarrow> string \<Rightarrow> string" where
  "copy_cmd tmp path = ''sudo -n cp '' @ tmp @ '' '' @ path @ '' && sudo -n rm -f '' @ tmp"

definition err_or_out :: "string \<Rightarrow> string \<Rightarrow> string" where
  "err_or_out err out = (if err = [] then out else err)"

definition add_audit :: "config_audit \<Rightarrow> ('w sys, unit) io" where
  "add_audit row = seqm (upd_sess (\<lambda>d. d\<lparr>config_audits := config_audits d @ [row]\<rparr>)) commit"

definition audit_row :: "fresh \<Rightarrow> string \<Rightarrow> int \<Rightarrow> string \<Rightarrow> string option \<Rightarrow> string \<Rightarrow> string \<Rightarrow> config_audit" where
  "audit_row fr cid bid key old val username =
     \<lparr>ca_id = f_audit_id fr, ca_cluster_id = cid, ca_broker_id = bid, ca_config_key = key, ca_old_value = old,
      ca_new_value = val, ca_changed_by = username, ca_change_type = ''update'', ca_created_at = f_now fr\<rparr>"

definition record_change :: "fresh \<Rightarrow> string \<Rightarrow> int \<Rightarrow> string \<Rightarrow> string option \<Rightarrow> string \<Rightarrow> string \<Rightarrow> string option \<Rightarrow>
    ('w sys, config_change) io" where
  "record_change fr cid bid key old val username via =
     seqm (add_audit (audit_row fr cid bid key old val username))
       (ret \<lparr>cc_broker_id = bid, cc_config_key = key, cc_old_value = old, cc_new_value = val,
             cc_requires_restart = requires_restart key, cc_via = via\<rparr>)"

text \<open>The two ways to edit the file of a managed broker; the value is the old value of the key.\<close>

definition edit_via_agent :: "'w remote \<Rightarrow> host \<Rightarrow> string \<Rightarrow> string \<Rightarrow> string \<Rightarrow> ('w sys, string option) io" where
  "edit_via_agent R h path key val =
     bnd (file_read_via_agent R h path) (\<lambda>(ok_read, stdout).
     if \<not> ok_read then raise (RuntimeError (''Failed to read config via agent: '' @ stdout))
     else bnd (file_write_via_agent R h path (edit_properties key val stdout) 416) (\<lambda>(ok_write, write_msg).
     if \<not> ok_write then raise (RuntimeError (''Failed to write config via agent: '' @ write_msg))
     else ret (map_of (parse_properties stdout) key)))"

text \<open>Staging the new text and moving it in place, the same over SSH for managed and external brokers.\<close>

definition write_back :: "'w remote \<Rightarrow> fresh \<Rightarrow> host \<Rightarrow> string \<Rightarrow> string \<Rightarrow> string \<Rightarrow> string \<Rightarrow> string \<Rightarrow>
    ('w sys, string option) io" where
  "write_back R fr h cmd failed key val stdout =
     seqm (upload_content R h (edit_properties key val stdout) (tmp_path fr))
    (bnd (exec_command R h cmd 15) (\<lambda>(rc, out, err).
     if rc \<noteq> 0 then raise (RuntimeError (failed @ '': '' @ err_or_out err out))
     else ret (map_of (parse_properties stdout) key)))"

definition edit_via_ssh :: "'w remote \<Rightarrow> fresh \<Rightarrow> host \<Rightarrow> string \<Rightarrow> string \<Rightarrow> string \<Rightarrow> ('w sys, string option) io" where
  "edit_via_ssh R fr h path key val =
     seqm (ssh_connect R h)
    (bnd (exec_command R h (cat_cmd path) 15) (\<lambda>(rc, stdout, stderr).
     if rc \<noteq> 0 then raise (RuntimeError (''Failed to read config: '' @ stderr))
     else write_back R fr h (install_cmd (tmp_path fr) path) ''Failed to write config (sudo install)'' key val stdout))"

text \<open>\<open>None\<close> stands for \<open>used_agent = False\<close>: there is no agent, or it failed with something else than \<open>RuntimeError\<close>.\<close>

definition try_edit_via_agent :: "'w remote \<Rightarrow> host \<Rightarrow> string \<Rightarrow> string \<Rightarrow> string \<Rightarrow> ('w sys, string option option) io" where
  "try_edit_via_agent R h path key val =
     bnd (agent_available R (h_id h)) (\<lambda>c.
     if \<not> c then ret None
     else catch (bnd (edit_via_agent R h path key val) (\<lambda>old. ret (Some old)))
            (\<lambda>e. if exn_class e = ''RuntimeError'' then raise e else ret None))"

section \<open>Finding the file of an external broker\<close>

definition candidate_paths :: "string list" where
  "candidate_paths = [''/opt/kafka/config/server.properties'', ''/etc/kafka/server.properties'',
     ''/opt/kafka/etc/kafka/server.properties'', ''/usr/local/kafka/config/server.properties'',
     ''/home/kafka/kafka/config/server.properties'']"

primrec first_readable :: "'w remote \<Rightarrow> host \<Rightarrow> string list \<Rightarrow> ('w sys, (string \<times> string) option) io" where
  "first_readable R h [] = ret None"
| "first_readable R h (p # ps) =
     bnd (exec_command R h (cat_cmd p) 15) (\<lambda>(rc, stdout, _).
     if rc = 0 \<and> strip stdout \<noteq> [] then ret (Some (p, stdout)) else first_readable R h ps)"

text \<open>The path with the exit code and output of reading it.\<close>

definition locate_properties :: "'w remote \<Rightarrow> host \<Rightarrow> ('w sys, (string \<times> int \<times> string \<times> string) option) io" where
  "locate_properties R h =
     bnd (first_readable R h candidate_paths) (\<lambda>found.
     case found of
       Some (p, stdout) \<Rightarrow> ret (Some (p, 0, stdout, []))
     | None \<Rightarrow>
         bnd (exec_command R h find_cmd 15) (\<lambda>(rc, find_out, _).
         if rc = 0 \<and> strip find_out \<noteq> []
         then bnd (exec_command R h (cat_cmd (strip find_out)) 15) (\<lambda>r. ret (Some (strip find_out, r)))
         else ret None))"

definition no_properties_msg :: string where
  "no_properties_msg = ''Could not locate server.properties on the broker. Tried common paths and file search. '' @
     ''Falling back to Kafka Admin API is not possible for static configs.''"

definition edit_external :: "'w remote \<Rightarrow> fresh \<Rightarrow> host \<Rightarrow> string \<Rightarrow> string \<Rightarrow> ('w sys, string option) io" where
  "edit_external R fr h key val =
     seqm (ssh_connect R h)
    (bnd (locate_properties R h) (\<lambda>found.
     case found of
       None \<Rightarrow> raise (RuntimeError no_properties_msg)
     | Some (path, rc, stdout, stderr) \<Rightarrow>
         if rc \<noteq> 0 then raise (RuntimeError (''Found '' @ path @ '' but cannot read it: '' @ stderr))
         else write_back R fr h (copy_cmd (tmp_path fr) path) ''Failed to write config'' key val stdout))"

definition update_via_ssh :: "'w remote \<Rightarrow> fresh \<Rightarrow> cluster \<Rightarrow> host \<Rightarrow> int \<Rightarrow> string \<Rightarrow> string \<Rightarrow> string \<Rightarrow>
    ('w sys, config_change) io" where
  "update_via_ssh R fr c h bid key val username =
     bnd (edit_external R fr h key val) (\<lambda>old. record_change fr (c_id c) bid key old val username None)"

text \<open>The first entry for the broker whose host exists.\<close>

fun linked_host :: "tables \<Rightarrow> int \<Rightarrow> json list \<Rightarrow> exn + host option" where
  "linked_host d bid [] = Inr None"
| "linked_host d bid (e # es) =
     (case entry_dict e of
        Inl x \<Rightarrow> Inl x
      | Inr entry \<Rightarrow>
          if jget entry ''broker_id'' \<noteq> JInt bid then linked_host d bid es
          else (case entry_host entry of
                  Inl x \<Rightarrow> Inl x
                | Inr hid \<Rightarrow> (case find_host d hid of Some h \<Rightarrow> Inr (Some h) | None \<Rightarrow> linked_host d bid es)))"

definition get_external_broker_host :: "tables \<Rightarrow> cluster \<Rightarrow> int \<Rightarrow> exn + host option" where
  "get_external_broker_host d c bid =
     (case entry_list (read_external_broker_hosts c) of Inl x \<Rightarrow> Inl x | Inr es \<Rightarrow> linked_host d bid es)"

section \<open>Changing a key\<close>

definition ssh_required_msg :: string where
  "ssh_required_msg = ''SSH_REQUIRED: External cluster configuration changes require SSH access to the broker host. '' @
     ''Please link an SSH host to this broker in the Lifecycle tab to enable configuration changes.''"

definition is_external :: "cluster \<Rightarrow> bool" where
  "is_external c \<longleftrightarrow> or_str (c_kind c) ''managed'' = ''external''"

definition cluster_brokers :: "tables \<Rightarrow> string \<Rightarrow> service list" where
  "cluster_brokers d cid = filter (\<lambda>v. s_cluster_id v = cid \<and> s_role v \<in> set broker_roles) (services d)"

definition properties_path :: "settings \<Rightarrow> cluster \<Rightarrow> string" where
  "properties_path cfg c = install_dir cfg c @ ''/config/server.properties''"

definition edit_managed :: "'w remote \<Rightarrow> fresh \<Rightarrow> host \<Rightarrow> string \<Rightarrow> string \<Rightarrow> string \<Rightarrow> ('w sys, bool \<times> string option) io" where
  "edit_managed R fr h path key val =
     bnd (try_edit_via_agent R h path key val) (\<lambda>res.
     case res of
       Some old \<Rightarrow> ret (True, old)
     | None \<Rightarrow> bnd (edit_via_ssh R fr h path key val) (\<lambda>old. ret (False, old)))"

definition update_broker_config :: "'w remote \<Rightarrow> settings \<Rightarrow> fresh \<Rightarrow> string \<Rightarrow> int \<Rightarrow> string \<Rightarrow> string \<Rightarrow> string \<Rightarrow>
    ('w sys, config_change) io" where
  "update_broker_config R cfg fr cid bid key val username =
     bnd (asks sess) (\<lambda>d.
     case find_cluster d cid of
       None \<Rightarrow> raise (ValueError ''Cluster not found'')
     | Some c \<Rightarrow>
         if is_external c then
           bnd (lift (get_external_broker_host d c bid)) (\<lambda>linked.
           case linked of
             Some h \<Rightarrow> update_via_ssh R fr c h bid key val username
           | None \<Rightarrow> raise (ValueError ssh_required_msg))
         else
           (case List.find (\<lambda>v. s_node_id v = bid) (cluster_brokers d cid) of
              None \<Rightarrow> raise (ValueError (''Broker '' @ show_int bid @ '' not found in cluster''))
            | Some svc \<Rightarrow>
                (case find_host d (s_host_id svc) of
                   None \<Rightarrow> raise (ValueError ''Host not found'')
                 | Some h \<Rightarrow>
                     bnd (edit_managed R fr h (properties_path cfg c) key val) (\<lambda>(used_agent, old).
                     record_change fr cid bid key old val username
                       (Some (if used_agent then ''agent'' else ''ssh''))))))"

text \<open>
  The batch.  For an external cluster the code asks \<open>external_admin.describe_cluster\<close> for the brokers; the module has
  no such function, and the \<open>AttributeError\<close> is caught and leaves the list empty.
\<close>

record bulk_result =
  bu_cluster_id :: string
  bu_config_key :: string
  bu_config_value :: string
  bu_broker_count :: int
  bu_success_count :: int
  bu_results :: "(int \<times> (string + config_change)) list"

definition bulk_targets :: "tables \<Rightarrow> cluster \<Rightarrow> string \<Rightarrow> int list" where
  "bulk_targets d c cid = (if is_external c then [] else map s_node_id (cluster_brokers d cid))"

definition bulk_one :: "'w remote \<Rightarrow> settings \<Rightarrow> (nat \<Rightarrow> fresh) \<Rightarrow> string \<Rightarrow> string \<Rightarrow> string \<Rightarrow> string \<Rightarrow> nat \<times> int \<Rightarrow>
    ('w sys, int \<times> (string + config_change)) io" where
  "bulk_one R cfg frs cid key val username = (\<lambda>(i, bid).
     catch (bnd (update_broker_config R cfg (frs i) cid bid key val username) (\<lambda>r. ret (bid, Inr r)))
       (\<lambda>e. if exn_class e \<in> {''ValueError'', ''RuntimeError''} then ret (bid, Inl (exn_str e)) else raise e))"

definition bulk_update_broker_config :: "'w remote \<Rightarrow> settings \<Rightarrow> (nat \<Rightarrow> fresh) \<Rightarrow> string \<Rightarrow> string \<Rightarrow> string \<Rightarrow> string \<Rightarrow>
    ('w sys, bulk_result) io" where
  "bulk_update_broker_config R cfg frs cid key val username =
     bnd (asks sess) (\<lambda>d.
     case find_cluster d cid of
       None \<Rightarrow> raise (ValueError ''Cluster not found'')
     | Some c \<Rightarrow>
         bnd (for_each (bulk_one R cfg frs cid key val username) (enumerate 0 (bulk_targets d c cid))) (\<lambda>results.
         ret \<lparr>bu_cluster_id = cid, bu_config_key = key, bu_config_value = val,
              bu_broker_count = int (length results),
              bu_success_count = int (length (filter (\<lambda>(_, r). \<not> isl r) results)),
              bu_results = results\<rparr>))"

section \<open>The audit log\<close>

text \<open>\<open>order_by(created_at.desc())\<close>: rows with the same time stay in the order they were inserted.\<close>

definition newest_first :: "config_audit list \<Rightarrow> config_audit list" where
  "newest_first rows = sort_key (\<lambda>r. - ca_created_at r) rows"

definition latest_change :: "tables \<Rightarrow> string \<Rightarrow> string \<Rightarrow> config_audit option" where
  "latest_change d cid key =
     (case newest_first (filter (\<lambda>r. ca_cluster_id r = cid \<and> ca_config_key r = key) (config_audits d)) of
        [] \<Rightarrow> None | r # _ \<Rightarrow> Some r)"

definition set_change_type :: "string \<Rightarrow> string \<Rightarrow> ('w sys, unit) io" where
  "set_change_type i ty = upd_sess (\<lambda>d. d\<lparr>config_audits := upd_by ca_id i (\<lambda>r. r\<lparr>ca_change_type := ty\<rparr>) (config_audits d)\<rparr>)"

definition rollback_config :: "'w remote \<Rightarrow> settings \<Rightarrow> fresh \<Rightarrow> string \<Rightarrow> string \<Rightarrow> ('w sys, config_change) io" where
  "rollback_config R cfg fr audit_id username =
     bnd (asks (\<lambda>s. List.find (\<lambda>r. ca_id r = audit_id) (config_audits (sess s)))) (\<lambda>audit.
     case audit of
       None \<Rightarrow> raise (ValueError ''Audit log entry not found'')
     | Some a \<Rightarrow>
         (case ca_old_value a of
            None \<Rightarrow> raise (ValueError ''No previous value to rollback to (config was newly added)'')
          | Some old \<Rightarrow>
              bnd (update_broker_config R cfg fr (ca_cluster_id a) (ca_broker_id a) (ca_config_key a) old username) (\<lambda>result.
              bnd (asks (\<lambda>s. latest_change (sess s) (ca_cluster_id a) (ca_config_key a))) (\<lambda>latest.
              seqm (case latest of None \<Rightarrow> ret ()
                    | Some r \<Rightarrow> seqm (set_change_type (ca_id r) ''rollback'') commit)
                (ret result)))))"

text \<open>A negative \<open>LIMIT\<close> is no limit in SQLite.\<close>

definition get_audit_log :: "string \<Rightarrow> int \<Rightarrow> ('w sys, config_audit list) io" where
  "get_audit_log cid limit =
     bnd (asks (\<lambda>s. newest_first (filter (\<lambda>r. ca_cluster_id r = cid) (config_audits (sess s))))) (\<lambda>rows.
     ret (if limit < 0 then rows else take (nat limit) rows))"

section \<open>Reading the configuration\<close>

text \<open>\<open>describe\<close> gives, for each broker, its settings with the values that are not hidden.\<close>

type_synonym described = "(int \<times> (string \<times> string option) list) list"

record broker_config =
  bc_broker_id :: int
  bc_host_ip :: string
  bc_service_id :: string
  bc_config :: "string + (string \<times> string) list \<times> string"

definition dict_of :: "(string \<times> string option) list \<Rightarrow> (string \<times> string) list" where
  "dict_of cs = foldl (\<lambda>d (k, v). case v of None \<Rightarrow> d | Some x \<Rightarrow> AList.update k x d) [] cs"

definition bootstrap_host :: "cluster \<Rightarrow> string" where
  "bootstrap_host c = strip (hd (split_on (CHR '','') (or_str (c_bootstrap_servers c) [])))"

definition described_config :: "cluster \<Rightarrow> int \<times> (string \<times> string option) list \<Rightarrow> broker_config" where
  "described_config c = (\<lambda>(bid, cs). \<lparr>bc_broker_id = bid, bc_host_ip = bootstrap_host c, bc_service_id = [],
     bc_config = Inr (dict_of cs, [])\<rparr>)"

fun ssh_host_map :: "tables \<Rightarrow> json list \<Rightarrow> (int \<times> host) list \<Rightarrow> exn + (int \<times> host) list" where
  "ssh_host_map d [] m = Inr m"
| "ssh_host_map d (e # es) m =
     (case entry_dict e of
        Inl x \<Rightarrow> Inl x
      | Inr entry \<Rightarrow>
          (if jget entry ''broker_id'' = JNull \<or> \<not> truthy (jget entry ''host_id'') then ssh_host_map d es m
           else case (jget entry ''broker_id'', jget entry ''host_id'') of
             (JInt bid, JStr hid) \<Rightarrow>
               (case find_host d hid of None \<Rightarrow> ssh_host_map d es m | Some h \<Rightarrow> ssh_host_map d es (AList.update bid h m))
           | _ \<Rightarrow> Inl bad_entry))"

definition read_external :: "'w remote \<Rightarrow> int \<Rightarrow> host \<Rightarrow> ('w sys, broker_config) io" where
  "read_external R bid h =
     (let entry = (\<lambda>x. \<lparr>bc_broker_id = bid, bc_host_ip = h_ip_address h, bc_service_id = [], bc_config = x\<rparr>);
          missing = entry (Inl ''Could not locate server.properties via SSH'') in
      catch (seqm (ssh_connect R h)
              (bnd (locate_properties R h) (\<lambda>found.
               case found of
                 None \<Rightarrow> ret missing
               | Some (_, _, stdout, _) \<Rightarrow>
                   ret (if strip stdout \<noteq> [] then entry (Inr (parse_properties stdout, stdout)) else missing))))
        (\<lambda>e. ret (entry (Inl (exn_str e)))))"

definition read_managed :: "'w remote \<Rightarrow> settings \<Rightarrow> cluster \<Rightarrow> service \<Rightarrow> host \<Rightarrow> ('w sys, broker_config) io" where
  "read_managed R cfg c svc h =
     (let entry = (\<lambda>x. \<lparr>bc_broker_id = s_node_id svc, bc_host_ip = h_ip_address h, bc_service_id = s_id svc, bc_config = x\<rparr>) in
      catch (seqm (ssh_connect R h)
              (bnd (exec_command R h (cat_cmd (properties_path cfg c)) 15) (\<lambda>(rc, stdout, stderr).
               ret (entry (if rc = 0 then Inr (parse_properties stdout, stdout)
                           else Inl (if stderr = [] then ''Failed to read config'' else stderr))))))
        (\<lambda>e. ret (entry (Inl (exn_str e)))))"

definition read_linked :: "'w remote \<Rightarrow> cluster \<Rightarrow> (int \<times> host) list \<Rightarrow> described \<Rightarrow> int \<Rightarrow> ('w sys, broker_config list) io" where
  "read_linked R c m admin_configs bid =
     (case map_of m bid of
        Some h \<Rightarrow> bnd (read_external R bid h) (\<lambda>x. ret [x])
      | None \<Rightarrow> (case List.find (\<lambda>e. fst e = bid) admin_configs of
                   None \<Rightarrow> ret [] | Some e \<Rightarrow> ret [described_config c e]))"

definition get_broker_configs :: "'w remote \<Rightarrow> settings \<Rightarrow> (cluster \<Rightarrow> ('w sys, described) io) \<Rightarrow> string \<Rightarrow>
    ('w sys, broker_config list) io" where
  "get_broker_configs R cfg describe cid =
     bnd (asks sess) (\<lambda>d.
     case find_cluster d cid of
       None \<Rightarrow> raise (ValueError ''Cluster not found'')
     | Some c \<Rightarrow>
         if is_external c then
           bnd (lift (entry_list (read_external_broker_hosts c))) (\<lambda>es.
           bnd (lift (ssh_host_map d es [])) (\<lambda>m.
           if m = [] then bnd (describe c) (\<lambda>entries. ret (map (described_config c) entries))
           else
             bnd (attempt (describe c)) (\<lambda>res.
             let admin_configs = (case res of Inl _ \<Rightarrow> [] | Inr x \<Rightarrow> x);
                 broker_ids = (case res of Inl _ \<Rightarrow> map fst m | Inr x \<Rightarrow> map fst x) in
             bnd (for_each (read_linked R c m admin_configs) broker_ids) (\<lambda>results. ret (concat results)))))
         else
           bnd (for_each (\<lambda>svc. case find_host d (s_host_id svc) of
                  None \<Rightarrow> ret [] | Some h \<Rightarrow> bnd (read_managed R cfg c svc h) (\<lambda>x. ret [x]))
                (cluster_brokers d cid)) (\<lambda>results. ret (concat results)))"

section \<open>Routes\<close>

definition OFFLINE_ERRORS :: "string list" where
  "OFFLINE_ERRORS = [''NoBrokersAvailable'', ''KafkaTimeoutError'', ''NodeNotReadyError'', ''ConnectionError'']"

definition get_configs_route :: "'w remote \<Rightarrow> settings \<Rightarrow> (cluster \<Rightarrow> ('w sys, described) io) \<Rightarrow> string \<Rightarrow>
    ('w sys, broker_config list) io" where
  "get_configs_route R cfg describe cid =
     catch (get_broker_configs R cfg describe cid) (\<lambda>e.
       if exn_class e = ''ValueError'' then raise (HTTPException 404 (exn_str e))
       else if list_ex (contains (exn_class e)) OFFLINE_ERRORS
       then raise (HTTPException 503 ''Broker is currently offline or restarting. Please try again in a moment.'')
       else raise e)"

definition server_error_on_runtime :: "('w sys, 'a) io \<Rightarrow> ('w sys, 'a) io" where
  "server_error_on_runtime m =
     catch m (\<lambda>e. if exn_class e = ''RuntimeError'' then raise (HTTPException 500 (exn_str e)) else raise e)"

definition update_config_route :: "'w remote \<Rightarrow> settings \<Rightarrow> fresh \<Rightarrow> string \<Rightarrow> int \<Rightarrow> string \<Rightarrow> string \<Rightarrow> user \<Rightarrow>
    ('w sys, config_change) io" where
  "update_config_route R cfg fr cid bid key val u =
     catch (update_broker_config R cfg fr cid bid key val (u_username u)) (\<lambda>e.
       if exn_class e = ''ValueError''
       then raise (HTTPException (if contains (exn_str e) ''SSH_REQUIRED'' then 400 else 404) (exn_str e))
       else if exn_class e = ''RuntimeError'' then raise (HTTPException 500 (exn_str e))
       else raise e)"

definition add_config_to_broker :: "'w remote \<Rightarrow> settings \<Rightarrow> fresh \<Rightarrow> string \<Rightarrow> int option \<Rightarrow> string \<Rightarrow> string \<Rightarrow> user \<Rightarrow>
    ('w sys, config_change) io" where
  "add_config_to_broker R cfg fr cid broker_id key val u =
     (case broker_id of
        None \<Rightarrow> raise (HTTPException 422 ''broker_id query parameter is required (or use /bulk-config)'')
      | Some bid \<Rightarrow> server_error_on_runtime (not_found_on_value_error
          (update_broker_config R cfg fr cid bid key val (u_username u))))"

definition bulk_update_config :: "'w remote \<Rightarrow> settings \<Rightarrow> (nat \<Rightarrow> fresh) \<Rightarrow> string \<Rightarrow> string \<Rightarrow> string \<Rightarrow> user \<Rightarrow>
    ('w sys, bulk_result) io" where
  "bulk_update_config R cfg frs cid key val u =
     not_found_on_value_error (bulk_update_broker_config R cfg frs cid key val (u_username u))"

definition rollback_config_route :: "'w remote \<Rightarrow> settings \<Rightarrow> fresh \<Rightarrow> string \<Rightarrow> user \<Rightarrow> ('w sys, config_change) io" where
  "rollback_config_route R cfg fr audit_id u =
     not_found_on_value_error (rollback_config R cfg fr audit_id (u_username u))"

definition get_audit_route :: "string \<Rightarrow> int \<Rightarrow> ('w sys, config_audit list) io" where
  "get_audit_route cid limit = get_audit_log cid limit"

definition get_metadata_route :: "(string \<times> config_info) list" where
  "get_metadata_route = get_config_metadata"

section \<open>What an edit does to a file\<close>

text \<open>Keys that a properties file can hold under their own name.\<close>

definition plain_key :: "string \<Rightarrow> bool" where
  "plain_key k \<longleftrightarrow> k \<noteq> [] \<and> strip k = k \<and> hd k \<noteq> CHR ''#'' \<and> CHR ''='' \<notin> set k \<and> one_line k"

text \<open>Every line that sets the key is one the edit recognises: \<open>key=\<close> or \<open>key =\<close>, no other white space before the sign.\<close>

definition recognised :: "string \<Rightarrow> string \<Rightarrow> bool" where
  "recognised k content \<longleftrightarrow>
     list_all (\<lambda>l. map_option fst (parse_line l) = Some k \<longrightarrow> has_key k l) (splitlines content)"

lemma parse_stripped:
  assumes "strip line = k @ CHR ''='' # r" and "CHR ''='' \<notin> set k" and "k \<noteq> []" and "hd k \<noteq> CHR ''#''"
  shows "parse_line line = Some (strip k, strip r)"
proof -
  have "\<not> starts_with (k @ CHR ''='' # r) ''#''" using assms(3,4) by (cases k) (auto simp: starts_with_def)
  moreover have "contains (k @ CHR ''='' # r) ''=''" using find_sub_eq[OF assms(2)] by (simp add: contains_def)
  ultimately show ?thesis unfolding parse_line_def Let_def assms(1) partition_eq[OF assms(2)] by simp
qed

lemma parse_new_line: "plain_key k \<Longrightarrow> parse_line (k @ CHR ''='' # v) = Some (k, strip v)"
proof -
  assume k: "plain_key k"
  then have "strip (k @ CHR ''='' # v) = k @ CHR ''='' # rev (dropWhile py_ws (rev v))"
    unfolding plain_key_def by (intro strip_between) (auto dest: hd_strip simp: py_ws_def ws_chars_def)
  from parse_stripped[OF this] k show ?thesis by (simp add: plain_key_def strip_rstrip)
qed

lemma parse_has_key:
  assumes "plain_key k" and "has_key k line"
  shows "\<exists>v. parse_line line = Some (k, v)"
proof -
  from assms(2) consider r where "strip line = k @ CHR ''='' # r" | r where "strip line = (k @ '' '') @ CHR ''='' # r"
    unfolding has_key_def by (auto elim: starts_withE)
  then show ?thesis
  proof cases
    case 1
    from parse_stripped[OF this] assms(1) show ?thesis by (simp add: plain_key_def)
  next
    case 2
    from parse_stripped[OF this] assms(1) show ?thesis by (simp add: plain_key_def strip_blank)
  qed
qed

lemma has_key_new_line: "plain_key k \<Longrightarrow> has_key k (k @ CHR ''='' # v)"
proof -
  assume k: "plain_key k"
  then have "strip (k @ CHR ''='' # v) = k @ CHR ''='' # rev (dropWhile py_ws (rev v))"
    unfolding plain_key_def by (intro strip_between) (auto dest: hd_strip simp: py_ws_def ws_chars_def)
  then show ?thesis by (simp add: has_key_def starts_with_def)
qed

text \<open>A dict built line by line holds the last value of every key.\<close>

abbreviation bindings :: "string list \<Rightarrow> (string \<times> string) list" where
  "bindings ls \<equiv> List.map_filter parse_line ls"

lemma bindings_append: "bindings (as @ bs) = bindings as @ bindings bs"
  by (induction as) (simp_all split: option.split)

lemma map_of_fold_lines: "map_of (foldl (\<lambda>result line. case parse_line line of None \<Rightarrow> result | Some (k, v) \<Rightarrow> AList.update k v result) d ls) =
    map_of d ++ map_of (rev (bindings ls))"
  by (induction ls arbitrary: d) (auto simp: map_filter_simps update_conv' map_add_def fun_eq_iff split: option.splits)

lemma map_of_parse: "map_of (parse_properties f) = map_of (rev (bindings (splitlines f)))"
  unfolding parse_properties_def map_of_fold_lines by simp

lemma map_of_filter_key: "map_of (filter (\<lambda>p. fst p = k) xs) k = map_of xs k"
  by (induction xs) auto

lemma map_of_const: "(k, x) \<in> set ps \<Longrightarrow> (\<And>y. (k, y) \<in> set ps \<Longrightarrow> y = x) \<Longrightarrow> map_of ps k = Some x"
  by (metis map_of_SomeD weak_map_of_SomeI)

lemma edit_lines_other:
  assumes "plain_key k" and "k' \<noteq> k"
  shows "filter (\<lambda>p. fst p = k') (bindings (edit_lines k v ls)) = filter (\<lambda>p. fst p = k') (bindings ls)"
proof -
  have one: "filter (\<lambda>p. fst p = k') (bindings [edit_line k v l]) = filter (\<lambda>p. fst p = k') (bindings [l])" for l
  proof (cases "has_key k l")
    case True
    then obtain x where "parse_line l = Some (k, x)" using parse_has_key[OF assms(1)] by blast
    with True assms show ?thesis by (simp add: edit_line_def map_filter_simps parse_new_line)
  qed (simp add: edit_line_def)
  have "filter (\<lambda>p. fst p = k') (bindings (map (edit_line k v) ls)) = filter (\<lambda>p. fst p = k') (bindings ls)"
  proof (induction ls)
    case (Cons l ls)
    from bindings_append[of "[edit_line k v l]" "map (edit_line k v) ls"] bindings_append[of "[l]" ls]
    have "bindings (map (edit_line k v) (l # ls)) = bindings [edit_line k v l] @ bindings (map (edit_line k v) ls)"
      and "bindings (l # ls) = bindings [l] @ bindings ls"
      by (simp_all only: list.map append.simps)
    then show ?case using one[of l] Cons.IH by (simp only: filter_append)
  qed simp
  moreover have "filter (\<lambda>p. fst p = k') (bindings [k @ CHR ''='' # v]) = []"
    using assms by (simp add: parse_new_line)
  ultimately show ?thesis
    unfolding edit_lines_def bindings_append filter_append by (cases "list_ex (has_key k) ls") simp_all
qed

lemma edited_clean: "plain_key k \<Longrightarrow> one_line v \<Longrightarrow> list_all one_line (edit_lines k v (splitlines f))"
  by (auto simp: edit_lines_def edit_line_def list_all_iff dest: splitlines_clean)
     (auto simp: one_line_def plain_key_def line_end_def)

lemma splitlines_edit: "plain_key k \<Longrightarrow> one_line v \<Longrightarrow> splitlines (edit_properties k v f) = edit_lines k v (splitlines f)"
  unfolding edit_properties_def using edited_clean[of k v f]
  by (intro splitlines_join) (auto simp: edit_lines_def)

lemma edit_other: "plain_key k \<Longrightarrow> one_line v \<Longrightarrow> k' \<noteq> k \<Longrightarrow>
    map_of (parse_properties (edit_properties k v f)) k' = map_of (parse_properties f) k'"
  unfolding map_of_parse splitlines_edit
  by (metis map_of_filter_key rev_filter edit_lines_other)

lemma set_bindings: "p \<in> set (bindings ls) \<longleftrightarrow> (\<exists>l\<in>set ls. parse_line l = Some p)"
  by (induction ls) (auto split: option.split)

lemma edited_key_lines:
  assumes "plain_key k" and "recognised k f" and "l \<in> set (edit_lines k v (splitlines f))"
    and "map_option fst (parse_line l) = Some k"
  shows "l = k @ ''='' @ v"
  using assms by (auto simp: edit_lines_def edit_line_def recognised_def list_all_iff split: if_splits)

lemma new_line_there: "k @ ''='' @ v \<in> set (edit_lines k v ls)"
  by (auto simp: edit_lines_def edit_line_def list_ex_iff split: if_splits)

lemma edit_same:
  assumes "plain_key k" and "one_line v" and "recognised k f"
  shows "map_of (parse_properties (edit_properties k v f)) k = Some (strip v)"
  unfolding map_of_parse splitlines_edit[OF assms(1,2)]
proof (rule map_of_const)
  show "(k, strip v) \<in> set (rev (bindings (edit_lines k v (splitlines f))))"
    using new_line_there[of k v] parse_new_line[OF assms(1)] by (force simp: set_bindings)
next
  fix y assume "(k, y) \<in> set (rev (bindings (edit_lines k v (splitlines f))))"
  then obtain l where l: "l \<in> set (edit_lines k v (splitlines f))" "parse_line l = Some (k, y)"
    by (auto simp: set_bindings)
  with edited_key_lines[OF assms(1,3) l(1)] have "l = k @ ''='' @ v" by simp
  with l(2) show "y = strip v" by (simp add: parse_new_line[OF assms(1)])
qed

lemma recognised_edit: "plain_key k \<Longrightarrow> one_line v \<Longrightarrow> recognised k f \<Longrightarrow> recognised k (edit_properties k v f)"
  unfolding recognised_def splitlines_edit list_all_iff
  using edited_key_lines[of k f _ v] has_key_new_line[of k v] by (auto simp: recognised_def list_all_iff)

lemma value_clean: "map_of (parse_properties f) k = Some v \<Longrightarrow> strip v = v \<and> one_line v"
proof -
  assume "map_of (parse_properties f) k = Some v"
  then have "(k, v) \<in> set (bindings (splitlines f))" unfolding map_of_parse by (auto dest: map_of_SomeD)
  then obtain l where l: "l \<in> set (splitlines f)" "parse_line l = Some (k, v)" by (auto simp: set_bindings)
  then obtain a b where ab: "find_sub ''='' (strip l) = Some (a, b)" "v = strip b"
    by (auto simp: parse_line_def contains_def partition_str_def Let_def split: if_splits)
  have "one_line (strip l)" using splitlines_clean[OF l(1)] by (rule one_line_strip)
  then have "one_line b" unfolding find_sub_append[OF ab(1)] by (simp add: one_line_def)
  then show ?thesis by (simp add: ab(2) strip_idem one_line_strip)
qed

section \<open>What a change leaves on the host and in the database\<close>

lemma world_only_file_io: "world_only (file_read_via_agent R h p)" "world_only (file_write_via_agent R h p c m)"
  unfolding file_read_via_agent_def file_write_via_agent_def by (intro read_steps)+

lemma world_only_edit_via_agent: "world_only (edit_via_agent R h path key val)"
  unfolding edit_via_agent_def by (intro keeps_io.rel_intros world_only_file_io)

lemma world_only_write_back: "world_only (write_back R fr h cmd failed key val stdout)"
  unfolding write_back_def by (intro world_steps)

lemma world_only_edit_via_ssh: "world_only (edit_via_ssh R fr h path key val)"
  unfolding edit_via_ssh_def by (intro world_steps world_only_write_back)

lemma world_only_first_readable: "world_only (first_readable R h ps)"
  by (induction ps) (auto intro!: world_steps)

lemma world_only_locate: "world_only (locate_properties R h)"
  unfolding locate_properties_def by (intro world_steps world_only_first_readable)

lemma world_only_edit_external: "world_only (edit_external R fr h key val)"
  unfolding edit_external_def by (intro world_steps world_only_locate world_only_write_back)

lemma world_only_edit_managed: "world_only (edit_managed R fr h path key val)"
  unfolding edit_managed_def try_edit_via_agent_def
  by (intro world_steps world_only_edit_via_agent world_only_edit_via_ssh world_only_still[OF still_agent_available])

text \<open>The run of a step on a recorded world, read off its trace.\<close>

lemma exec_recorded:
  assumes "exec_command (recorded R) h cmd n s = (Inr (rc, out, err), t)"
  obtains w o' e' where "fst (r_exec R h cmd n w) = Inr (rc, o', e')" and "out = strip o'" and "err = strip e'"
    and "trace t = trace s @ [Ran (h_id h) cmd rc]"
proof -
  obtain w es where w: "wld s = (w, es)" by (cases "wld s")
  show ?thesis
    using assms that[of w] w
    by (cases "r_exec R h cmd n w")
      (auto simp: exec_command_def bnd_run on_wld_def recorded_def log_ev_of_def exit_code_of_def trace_def split: sum.splits)
qed

lemma exec_recorded_trace:
  "exec_command (recorded R) h cmd n s = (Inr r, t) \<Longrightarrow> trace t = trace s @ [Ran (h_id h) cmd (fst r)]"
  by (cases r) (auto elim: exec_recorded)

lemma upload_recorded: "upload_content (recorded R) h c p s = (r, t) \<Longrightarrow> trace t = trace s @ [Wrote (h_id h) c p]"
  by (cases "wld s") (auto simp: upload_content_def on_wld_def recorded_def log_ev_def trace_def split: prod.splits)

lemma connect_recorded: "ssh_connect (recorded R) h s = (r, t) \<Longrightarrow> trace t = trace s @ [Connected (h_id h)]"
  by (cases "wld s") (auto simp: ssh_connect_def on_wld_def recorded_def log_ev_def trace_def split: prod.splits)

lemma guarded_op_recorded:
  assumes "guarded_op (recorded R) h op args n s = (Inr x, t)"
  obtains w where "fst (r_agent_send R (h_id h) op args n w) = Inr x" and "trace t = trace s @ [Sent (h_id h) op args]"
proof -
  obtain w es where w: "wld s = (w, es)" by (cases "wld s")
  show ?thesis
    using assms that[of w] w
    by (cases "r_agent_send R (h_id h) op args n w")
      (auto simp: guarded_op_def run_op_def agent_available_def bnd_run on_wld_def recorded_def log_ev_def trace_def split: if_splits)
qed

text \<open>A host was read and the edited text was written back: the last steps of a successful edit.\<close>

definition read_from :: "'w remote \<Rightarrow> host \<Rightarrow> string \<Rightarrow> string \<Rightarrow> event list \<Rightarrow> bool" where
  "read_from R h path content es \<longleftrightarrow>
     (\<exists>pre w out err. es = pre @ [Ran (h_id h) (cat_cmd path) 0] \<and>
        fst (r_exec R h (cat_cmd path) 15 w) = Inr (0, out, err) \<and> content = strip out)"

definition edited_over_ssh :: "'w remote \<Rightarrow> string \<Rightarrow> (string \<Rightarrow> string) \<Rightarrow> host \<Rightarrow> string \<Rightarrow> string \<Rightarrow> event list \<Rightarrow> bool" where
  "edited_over_ssh R tmp cmd h content new es \<longleftrightarrow>
     (\<exists>path es0. read_from R h path content es0 \<and> es = es0 @ [Wrote (h_id h) new tmp, Ran (h_id h) (cmd path) 0])"

definition edited_by_agent :: "'w remote \<Rightarrow> host \<Rightarrow> string \<Rightarrow> string \<Rightarrow> event list \<Rightarrow> bool" where
  "edited_by_agent R h content new es \<longleftrightarrow>
     (\<exists>path w r w' r'. fst (r_agent_send R (h_id h) ''file.read'' [(''path'', JStr path)] 30 w) = Inr (AgentOk r) \<and>
        exit_code r = 0 \<and> content = text_or_empty (ar_stdout r) \<and>
        fst (r_agent_send R (h_id h) ''file.write''
          [(''path'', JStr path), (''content'', JStr new), (''mode'', JInt 416)] 30 w') = Inr (AgentOk r') \<and> exit_code r' = 0 \<and>
        es = [Sent (h_id h) ''file.read'' [(''path'', JStr path)],
              Sent (h_id h) ''file.write'' [(''path'', JStr path), (''content'', JStr new), (''mode'', JInt 416)]])"

lemma seqm_InrE:
  assumes "seqm m n s = (Inr y, t)"
  obtains x u where "m s = (Inr x, u)" and "n u = (Inr y, t)"
  using assms unfolding seqm_def by (rule bnd_InrE)

lemma guard_Inr: "(if b then raise e else m) s = (Inr y, t) \<Longrightarrow> \<not> b \<and> m s = (Inr y, t)"
  by (cases b) simp_all

lemma write_back_trace:
  assumes "write_back (recorded R) fr h cmd failed key val stdout s = (Inr old, t)"
  shows "old = map_of (parse_properties stdout) key \<and>
     trace t = trace s @ [Wrote (h_id h) (edit_properties key val stdout) (tmp_path fr), Ran (h_id h) cmd 0]"
  using assms unfolding write_back_def
  by (auto elim!: seqm_InrE bnd_InrE split: if_splits dest!: upload_recorded exec_recorded_trace)

lemma read_recorded: "exec_command (recorded R) h (cat_cmd path) 15 s = (Inr (0, out, err), t) \<Longrightarrow>
    \<exists>es. trace t = trace s @ es \<and> read_from R h path out (pre @ es)"
proof -
  assume "exec_command (recorded R) h (cat_cmd path) 15 s = (Inr (0, out, err), t)"
  then obtain w o' e' where "fst (r_exec R h (cat_cmd path) 15 w) = Inr (0, o', e')" "out = strip o'"
    "trace t = trace s @ [Ran (h_id h) (cat_cmd path) 0]" by (rule exec_recorded)
  then show ?thesis unfolding read_from_def by blast
qed

lemma read_from_more: "read_from R h p c es \<Longrightarrow> read_from R h p c (es0 @ es)"
  unfolding read_from_def by (metis append.assoc)

lemma edit_via_ssh_trace:
  assumes "edit_via_ssh (recorded R) fr h path key val s = (Inr old, t)"
  shows "\<exists>es content. trace t = trace s @ es \<and> old = map_of (parse_properties content) key \<and>
     edited_over_ssh R (tmp_path fr) (install_cmd (tmp_path fr)) h content (edit_properties key val content) es"
proof -
  from assms obtain x s1 out err s2 where s1: "ssh_connect (recorded R) h s = (Inr x, s1)"
    and s2: "exec_command (recorded R) h (cat_cmd path) 15 s1 = (Inr (0, out, err), s2)"
    and s3: "write_back (recorded R) fr h (install_cmd (tmp_path fr) path) ''Failed to write config (sudo install)'' key val out s2 = (Inr old, t)"
    unfolding edit_via_ssh_def by (auto elim!: seqm_InrE bnd_InrE dest!: guard_Inr split: prod.splits)
  obtain es where "trace s2 = trace s1 @ es" "read_from R h path out ([Connected (h_id h)] @ es)"
    using read_recorded[OF s2] by blast
  then show ?thesis
    using connect_recorded[OF s1] write_back_trace[OF s3] unfolding edited_over_ssh_def
    by (metis append.assoc)
qed

lemma grows_exec: "rel_io (grows trace) (exec_command (recorded R) h c n)"
  by (rule rel_ioI) (auto simp: exec_command_def bnd_run grows_def on_wld_def recorded_def log_ev_of_def trace_def
      split: prod.splits sum.splits)

lemma first_readable_trace:
  assumes "first_readable (recorded R) h ps s = (Inr (Some (p, stdout)), t)"
  shows "\<exists>es. trace t = trace s @ es \<and> read_from R h p stdout es"
  using assms
proof (induction ps arbitrary: s)
  case (Cons q ps)
  from Cons.prems obtain rc out err s1 where e: "exec_command (recorded R) h (cat_cmd q) 15 s = (Inr (rc, out, err), s1)"
    and r: "(if rc = 0 \<and> strip out \<noteq> [] then ret (Some (q, out)) else first_readable (recorded R) h ps) s1 = (Inr (Some (p, stdout)), t)"
    by (auto elim!: bnd_InrE split: prod.splits)
  show ?case
  proof (cases "rc = 0 \<and> strip out \<noteq> []")
    case True
    then have "q = p" "out = stdout" "t = s1" "rc = 0" using r by auto
    with e read_recorded[where pre = "[]"] show ?thesis by fastforce
  next
    case False
    then have "first_readable (recorded R) h ps s1 = (Inr (Some (p, stdout)), t)" using r by auto
    from Cons.IH[OF this] exec_recorded_trace[OF e] show ?thesis by (metis append.assoc read_from_more)
  qed
qed simp

lemma locate_trace:
  assumes "locate_properties (recorded R) h s = (Inr (Some (p, 0, stdout, stderr)), t)"
  shows "\<exists>es. trace t = trace s @ es \<and> read_from R h p stdout es"
proof -
  obtain found s1 where f: "first_readable (recorded R) h candidate_paths s = (Inr found, s1)"
    and r: "(case found of Some (p, stdout) \<Rightarrow> ret (Some (p, 0, stdout, []))
     | None \<Rightarrow> bnd (exec_command (recorded R) h find_cmd 15) (\<lambda>(rc, find_out, _).
         if rc = 0 \<and> strip find_out \<noteq> []
         then bnd (exec_command (recorded R) h (cat_cmd (strip find_out)) 15) (\<lambda>r. ret (Some (strip find_out, r)))
         else ret None)) s1 = (Inr (Some (p, 0, stdout, stderr)), t)"
    using assms unfolding locate_properties_def by (rule bnd_InrE)
  show ?thesis
  proof (cases found)
    case (Some x)
    then show ?thesis using f r first_readable_trace[of R h candidate_paths s p stdout t] by (cases x) simp
  next
    case None
    have "rel_io (grows trace) (first_readable (recorded R) h qs)" for qs
      by (induction qs) (auto intro!: grows_io.rel_intros grows_exec)
    from rel_ioD[OF this f] obtain es1 where t1: "trace s1 = trace s @ es1" by (auto simp: grows_def)
    from r None obtain z s2 where e1: "exec_command (recorded R) h find_cmd 15 s1 = (Inr z, s2)"
      and e2: "exec_command (recorded R) h (cat_cmd p) 15 s2 = (Inr (0, stdout, stderr), t)"
      by (auto elim!: bnd_InrE split: prod.splits if_splits)
    obtain es where "trace t = trace s2 @ es" "read_from R h p stdout ([] @ es)" using read_recorded[OF e2] by blast
    then show ?thesis using t1 exec_recorded_trace[OF e1] by (metis append.assoc append_Nil read_from_more)
  qed
qed

lemma edit_external_trace:
  assumes "edit_external (recorded R) fr h key val s = (Inr old, t)"
  shows "\<exists>es content. trace t = trace s @ es \<and> old = map_of (parse_properties content) key \<and>
     edited_over_ssh R (tmp_path fr) (copy_cmd (tmp_path fr)) h content (edit_properties key val content) es"
proof -
  from assms obtain x s1 path out err s2 where s1: "ssh_connect (recorded R) h s = (Inr x, s1)"
    and s2: "locate_properties (recorded R) h s1 = (Inr (Some (path, 0, out, err)), s2)"
    and s3: "write_back (recorded R) fr h (copy_cmd (tmp_path fr) path) ''Failed to write config'' key val out s2 = (Inr old, t)"
    unfolding edit_external_def by (auto elim!: seqm_InrE bnd_InrE dest!: guard_Inr split: prod.splits option.splits) blast
  from locate_trace[OF s2] connect_recorded[OF s1] write_back_trace[OF s3] show ?thesis
    unfolding edited_over_ssh_def by (metis append.assoc read_from_more)
qed

lemma edit_via_agent_trace:
  assumes "edit_via_agent (recorded R) h path key val s = (Inr old, t)"
  shows "\<exists>es content. trace t = trace s @ es \<and> old = map_of (parse_properties content) key \<and>
     edited_by_agent R h content (edit_properties key val content) es"
proof -
  let ?new = "\<lambda>c. [(''path'', JStr path), (''content'', JStr (edit_properties key val c)), (''mode'', JInt 416)]"
  from assms obtain content s1 msg where r: "file_read_via_agent (recorded R) h path s = (Inr (True, content), s1)"
    and w: "file_write_via_agent (recorded R) h path (edit_properties key val content) 416 s1 = (Inr (True, msg), t)"
    and old: "old = map_of (parse_properties content) key"
    unfolding edit_via_agent_def by (auto elim!: bnd_InrE dest!: guard_Inr split: prod.splits) blast
  from r obtain a where a: "guarded_op (recorded R) h ''file.read'' [(''path'', JStr path)] 30 s = (Inr (AgentOk a), s1)"
    "exit_code a = 0" "content = text_or_empty (ar_stdout a)"
    unfolding file_read_via_agent_def DEFAULT_SYSTEMCTL_TIMEOUT_SEC_def
    by (auto elim!: bnd_InrE split: agent_reply.splits if_splits)
  from w obtain b where b: "guarded_op (recorded R) h ''file.write'' (?new content) 30 s1 = (Inr (AgentOk b), t)" "exit_code b = 0"
    unfolding file_write_via_agent_def DEFAULT_SYSTEMCTL_TIMEOUT_SEC_def
    by (auto elim!: bnd_InrE split: agent_reply.splits if_splits)
  from a(1) obtain x where "fst (r_agent_send R (h_id h) ''file.read'' [(''path'', JStr path)] 30 x) = Inr (AgentOk a)"
    "trace s1 = trace s @ [Sent (h_id h) ''file.read'' [(''path'', JStr path)]]" by (rule guarded_op_recorded)
  moreover from b(1) obtain y where "fst (r_agent_send R (h_id h) ''file.write'' (?new content) 30 y) = Inr (AgentOk b)"
    "trace t = trace s1 @ [Sent (h_id h) ''file.write'' (?new content)]" by (rule guarded_op_recorded)
  ultimately show ?thesis
    using a(2,3) b(2) old unfolding edited_by_agent_def
    by (intro exI[of _ "[Sent (h_id h) ''file.read'' [(''path'', JStr path)], Sent (h_id h) ''file.write'' (?new content)]"]
        exI[of _ content] conjI exI[of _ path] exI[of _ x] exI[of _ a] exI[of _ y] exI[of _ b]) simp_all
qed

lemma grows_guarded_op: "rel_io (grows trace) (guarded_op (recorded R) h op args n)"
  by (rule rel_ioI) (auto simp: guarded_op_def run_op_def agent_available_def bnd_run grows_def on_wld_def recorded_def
      log_ev_def trace_def split: prod.splits sum.splits)

lemma grows_still: "still m \<Longrightarrow> rel_io (grows trace) m"
  by (rule rel_still) (simp_all add: grows_def)

lemma grows_file_io: "rel_io (grows trace) (file_read_via_agent (recorded R) h p)"
  "rel_io (grows trace) (file_write_via_agent (recorded R) h p c m)"
  unfolding file_read_via_agent_def file_write_via_agent_def
  by (intro grows_io.rel_bnd grows_guarded_op grows_still still_reply still_let keeps_io.rel_if keeps_io.rel_ret)+

lemma grows_edit_via_agent: "rel_io (grows trace) (edit_via_agent (recorded R) h path key val)"
  unfolding edit_via_agent_def by (intro grows_io.rel_intros grows_file_io)

definition edited :: "'w remote \<Rightarrow> string \<Rightarrow> host \<Rightarrow> string \<Rightarrow> string \<Rightarrow> event list \<Rightarrow> bool" where
  "edited R tmp h content new es \<longleftrightarrow>
     edited_by_agent R h content new es \<or>
     edited_over_ssh R tmp (install_cmd tmp) h content new es \<or> edited_over_ssh R tmp (copy_cmd tmp) h content new es"

lemma edited_over_ssh_more: "edited_over_ssh R tmp cmd h c new es \<Longrightarrow> edited_over_ssh R tmp cmd h c new (pre @ es)"
  unfolding edited_over_ssh_def by (metis append.assoc read_from_more)

lemma edit_managed_trace:
  assumes "edit_managed (recorded R) fr h path key val s = (Inr (by_agent, old), t)"
  shows "\<exists>es content. trace t = trace s @ es \<and> old = map_of (parse_properties content) key \<and>
     edited R (tmp_path fr) h content (edit_properties key val content) es"
proof -
  obtain res s1 where tr: "try_edit_via_agent (recorded R) h path key val s = (Inr res, s1)"
    and r: "(case res of Some old \<Rightarrow> ret (True, old)
     | None \<Rightarrow> bnd (edit_via_ssh (recorded R) fr h path key val) (\<lambda>old. ret (False, old))) s1 = (Inr (by_agent, old), t)"
    using assms unfolding edit_managed_def by (rule bnd_InrE)
  show ?thesis
  proof (cases res)
    case (Some x)
    with r tr have "edit_via_agent (recorded R) h path key val s = (Inr old, t)"
      by (auto simp: try_edit_via_agent_def agent_available_def bnd_run catch_run split: if_splits sum.splits prod.splits)
    from edit_via_agent_trace[OF this] show ?thesis unfolding edited_def by blast
  next
    case None
    then have e: "edit_via_ssh (recorded R) fr h path key val s1 = (Inr old, t)" using r by (auto elim!: bnd_InrE)
    have "rel_io (grows trace) (try_edit_via_agent (recorded R) h path key val)"
      unfolding try_edit_via_agent_def
      by (intro grows_io.rel_intros grows_edit_via_agent grows_still[OF still_agent_available])
    from rel_ioD[OF this tr] obtain pre where "trace s1 = trace s @ pre" by (auto simp: grows_def)
    with edit_via_ssh_trace[OF e] show ?thesis unfolding edited_def by (metis append.assoc edited_over_ssh_more)
  qed
qed

text \<open>The host whose file a change of a broker goes to.\<close>

definition config_host :: "tables \<Rightarrow> cluster \<Rightarrow> int \<Rightarrow> host option" where
  "config_host d c bid =
     (if is_external c then (case get_external_broker_host d c bid of Inl _ \<Rightarrow> None | Inr x \<Rightarrow> x)
      else (case List.find (\<lambda>v. s_node_id v = bid) (cluster_brokers d (c_id c)) of
              None \<Rightarrow> None | Some svc \<Rightarrow> find_host d (s_host_id svc)))"

text \<open>Every successful change is an edit on that host followed by the record of it.\<close>

lemma update_steps:
  assumes "update_broker_config (recorded R) cfg fr cid bid key val username s = (Inr ch, t)"
  obtains c h old u via es content where "find_cluster (sess s) cid = Some c" and "config_host (sess s) c bid = Some h"
    and "off_wld u = off_wld s" and "trace u = trace s @ es" and "old = map_of (parse_properties content) key"
    and "edited R (tmp_path fr) h content (edit_properties key val content) es"
    and "record_change fr cid bid key old val username via u = (Inr ch, t)"
proof -
  from assms obtain c where c: "find_cluster (sess s) cid = Some c"
    by (auto simp: update_broker_config_def bnd_run split: option.splits)
  have id: "c_id c = cid" using find_Some_iff_first[of _ _ c] c by (auto simp: find_cluster_def)
  show ?thesis
  proof (cases "is_external c")
    case True
    with assms c obtain h where h: "get_external_broker_host (sess s) c bid = Inr (Some h)"
      and u: "update_via_ssh (recorded R) fr c h bid key val username s = (Inr ch, t)"
      by (auto simp: update_broker_config_def bnd_run split: option.splits sum.splits)
    from u obtain old u1 where e: "edit_external (recorded R) fr h key val s = (Inr old, u1)"
      and rc: "record_change fr (c_id c) bid key old val username None u1 = (Inr ch, t)"
      unfolding update_via_ssh_def by (rule bnd_InrE)
    from edit_external_trace[OF e] obtain es content where "trace u1 = trace s @ es" "old = map_of (parse_properties content) key"
      "edited_over_ssh R (tmp_path fr) (copy_cmd (tmp_path fr)) h content (edit_properties key val content) es" by blast
    moreover have "off_wld u1 = off_wld s" using rel_ioD[OF world_only_edit_external e] by (simp add: keeps_def)
    moreover have "config_host (sess s) c bid = Some h" using True h by (simp add: config_host_def)
    ultimately show ?thesis using that[OF c] rc by (simp add: id edited_def)
  next
    case False
    with assms c obtain svc h by_agent old u1 where svc: "List.find (\<lambda>v. s_node_id v = bid) (cluster_brokers (sess s) cid) = Some svc"
      and h: "find_host (sess s) (s_host_id svc) = Some h"
      and e: "edit_managed (recorded R) fr h (properties_path cfg c) key val s = (Inr (by_agent, old), u1)"
      and rc: "record_change fr cid bid key old val username (Some (if by_agent then ''agent'' else ''ssh'')) u1 = (Inr ch, t)"
      unfolding update_broker_config_def
      by (auto simp: asks_run bnd_run[of "asks sess"] split: option.splits elim!: bnd_InrE)
    from edit_managed_trace[OF e] obtain es content where "trace u1 = trace s @ es" "old = map_of (parse_properties content) key"
      "edited R (tmp_path fr) h content (edit_properties key val content) es" by blast
    moreover have "off_wld u1 = off_wld s" using rel_ioD[OF world_only_edit_managed e] by (simp add: keeps_def)
    moreover have "config_host (sess s) c bid = Some h" using False svc h id by (simp add: config_host_def)
    ultimately show ?thesis using that[OF c] rc by simp
  qed
qed

lemma record_change_run: "record_change fr cid bid key old val username via u =
    (Inr \<lparr>cc_broker_id = bid, cc_config_key = key, cc_old_value = old, cc_new_value = val,
          cc_requires_restart = requires_restart key, cc_via = via\<rparr>,
     let d = (sess u)\<lparr>config_audits := config_audits (sess u) @ [audit_row fr cid bid key old val username]\<rparr>
     in u\<lparr>sess := d, committed := d\<rparr>)"
  by (simp add: record_change_def add_audit_def seqm_run bnd_run upd_sess_def commit_def Let_def)

definition with_audits :: "config_audit list \<Rightarrow> tables \<Rightarrow> tables" where
  "with_audits rows d = d\<lparr>config_audits := config_audits d @ rows\<rparr>"

text \<open>Tables after adding and committing these rows; with no rows nothing is committed either.\<close>

definition audited :: "config_audit list \<Rightarrow> tables \<times> tables \<times> task_tables \<Rightarrow> tables \<times> tables \<times> task_tables" where
  "audited rows = (\<lambda>(d, c, k). if rows = [] then (d, c, k) else (with_audits rows d, with_audits rows d, k))"

lemma audited_append: "audited (xs @ ys) p = audited ys (audited xs p)"
  by (cases p) (auto simp: audited_def with_audits_def)

definition change_db :: "(string option \<Rightarrow> config_audit) \<Rightarrow> tables \<times> tables \<times> task_tables \<Rightarrow> exn + config_change \<Rightarrow>
    tables \<times> tables \<times> task_tables \<Rightarrow> bool" where
  "change_db row p r q \<longleftrightarrow> (case r of Inl e \<Rightarrow> q = p | Inr ch \<Rightarrow> q = audited [row (cc_old_value ch)] p)"

lemma update_db: "yields off_wld (change_db (\<lambda>old. audit_row fr cid bid key old val username))
    (update_broker_config R cfg fr cid bid key val username)"
proof -
  let ?row = "\<lambda>old. audit_row fr cid bid key old val username"
  have inl: "change_db row p (Inl e) p" for row p e by (simp add: change_db_def)
  have rec: "yields off_wld (change_db ?row) (record_change fr cid bid key old val username via)" for old via
    by (rule yieldsI) (auto simp: record_change_run change_db_def audited_def with_audits_def off_wld_def Let_def)
  have rec': "yields off_wld (change_db ?row) (record_change fr (c_id c) bid key old val username via)"
    if "find_cluster d cid = Some c" for d c old via
  proof -
    have "c_id c = cid" using find_Some_iff_first[of "\<lambda>c. c_id c = cid" "clusters d" c] that by (simp add: find_cluster_def)
    then show ?thesis using rec by simp
  qed
  note skip = yields_skip[where A = "change_db ?row", OF _ inl]
  show ?thesis
    unfolding update_broker_config_def update_via_ssh_def
    by (intro skip yields_option yields_prod yields_if yields_raise rec rec' inl keeps_io.rel_asks keeps_io.rel_lift
        world_only_edit_external world_only_edit_managed, assumption)
qed

text \<open>The rows that a batch adds, one for every change that did not fail.\<close>

definition bulk_rows :: "(nat \<Rightarrow> fresh) \<Rightarrow> string \<Rightarrow> string \<Rightarrow> string \<Rightarrow> string \<Rightarrow> nat \<Rightarrow> (int \<times> (string + config_change)) list \<Rightarrow>
    config_audit list" where
  "bulk_rows frs cid key val username n results = List.map_filter (\<lambda>(i, bid, r).
     case r of Inl _ \<Rightarrow> None | Inr ch \<Rightarrow> Some (audit_row (frs i) cid bid key (cc_old_value ch) val username)) (enumerate n results)"

definition not_caught :: "exn \<Rightarrow> bool" where
  "not_caught e \<longleftrightarrow> exn_class e \<notin> {''ValueError'', ''RuntimeError''}"

lemma bulk_one_db: "yields off_wld (\<lambda>p r q. case r of
       Inl e \<Rightarrow> not_caught e \<and> q = p
     | Inr (b, x) \<Rightarrow> b = bid \<and> q = audited (bulk_rows frs cid key val username i [(b, x)]) p)
    (bulk_one R cfg frs cid key val username (i, bid))"
proof -
  have ok: "yields off_wld (\<lambda>p r q. case r of Inl e \<Rightarrow> q = p
       | Inr (b, x) \<Rightarrow> b = bid \<and> q = audited (bulk_rows frs cid key val username i [(b, x)]) p)
     (bnd (update_broker_config R cfg (frs i) cid bid key val username) (\<lambda>r. ret (bid, Inr r)))"
    by (rule yields_bnd[OF update_db yields_value]) (auto simp: change_db_def bulk_rows_def)
  have err: "yields off_wld (\<lambda>p r q. q = p \<and> (case r of Inl e' \<Rightarrow> not_caught e' | Inr (b, x) \<Rightarrow> b = bid \<and> isl x))
     (if exn_class e \<in> {''ValueError'', ''RuntimeError''} then ret (bid, Inl (exn_str e)) else raise e)" for e
    by (rule yieldsI) (auto simp: not_caught_def split: if_splits)
  show ?thesis
    unfolding bulk_one_def split_conv
  proof (rule yields_catch[OF ok err])
    fix p x q assume "case Inr x :: exn + _ of Inl e \<Rightarrow> q = p
       | Inr (b, x) \<Rightarrow> b = bid \<and> q = audited (bulk_rows frs cid key val username i [(b, x)]) p"
    then show "case Inr x :: exn + _ of Inl e \<Rightarrow> not_caught e \<and> q = p
       | Inr (b, x) \<Rightarrow> b = bid \<and> q = audited (bulk_rows frs cid key val username i [(b, x)]) p" by simp
  next
    fix p e q u and r :: "exn + int \<times> (string + config_change)"
    assume "case Inl e :: exn + int \<times> (string + config_change) of Inl e \<Rightarrow> q = p
       | Inr (b, x) \<Rightarrow> b = bid \<and> q = audited (bulk_rows frs cid key val username i [(b, x)]) p"
      and "u = q \<and> (case r of Inl e' \<Rightarrow> not_caught e' | Inr (b, x) \<Rightarrow> b = bid \<and> isl x)"
    then show "case r of Inl e \<Rightarrow> not_caught e \<and> u = p
       | Inr (b, x) \<Rightarrow> b = bid \<and> u = audited (bulk_rows frs cid key val username i [(b, x)]) p"
      by (auto simp: bulk_rows_def audited_def isl_def split: sum.split)
  qed
qed

lemma bulk_rows_Cons: "bulk_rows frs cid key val username n ((b, x) # rs) =
    bulk_rows frs cid key val username n [(b, x)] @ bulk_rows frs cid key val username (Suc n) rs"
  by (simp add: bulk_rows_def split: sum.split)

definition bulk_db :: "(nat \<Rightarrow> (int \<times> (string + config_change)) list \<Rightarrow> config_audit list) \<Rightarrow> nat \<Rightarrow> int list \<Rightarrow>
    tables \<times> tables \<times> task_tables \<Rightarrow> exn + (int \<times> (string + config_change)) list \<Rightarrow> tables \<times> tables \<times> task_tables \<Rightarrow> bool" where
  "bulk_db rows n bids p r q \<longleftrightarrow> (case r of
       Inl e \<Rightarrow> not_caught e \<and> (\<exists>results. map fst results = take (length results) bids \<and> length results < length bids \<and>
                  q = audited (rows n results) p)
     | Inr results \<Rightarrow> map fst results = bids \<and> q = audited (rows n results) p)"

lemma bulk_loop_db: "yields off_wld (bulk_db (bulk_rows frs cid key val username) n bids)
    (for_each (bulk_one R cfg frs cid key val username) (enumerate n bids))"
proof (induction bids arbitrary: n)
  case Nil
  show ?case by (simp add: yields_def bulk_db_def bulk_rows_def audited_def split: prod.split)
next
  case (Cons bid bids)
  let ?rows = "bulk_rows frs cid key val username"
  let ?C = "\<lambda>(b, x) p r q. case r of
       Inl e \<Rightarrow> not_caught e \<and> (\<exists>results. map fst results = take (length results) bids \<and> length results < length bids \<and>
                  q = audited (?rows (Suc n) results) p)
     | Inr results \<Rightarrow> (\<exists>rs. results = (b, x) # rs \<and> map fst rs = bids \<and> q = audited (?rows (Suc n) rs) p)"
  have k: "yields off_wld (?C y) (bnd (for_each (bulk_one R cfg frs cid key val username) (enumerate (Suc n) bids)) (\<lambda>ys. ret (y # ys)))" for y
    by (rule yields_bnd[OF Cons.IH yields_value]) (auto simp: bulk_db_def split: prod.split)
  show ?case
    unfolding enumerate_simps for_each.simps
  proof (rule yields_bnd[OF bulk_one_db k])
    fix p e q assume "case Inl e :: exn + int \<times> (string + config_change) of
       Inl e \<Rightarrow> not_caught e \<and> q = p | Inr (b, x) \<Rightarrow> b = bid \<and> q = audited (?rows n [(b, x)]) p"
    then show "bulk_db ?rows n (bid # bids) p (Inl e) q"
      by (auto simp: bulk_db_def bulk_rows_def audited_def split: prod.split intro!: exI[of _ "[]"])
  next
    fix p y q r u
    assume a: "case Inr y :: exn + int \<times> (string + config_change) of
       Inl e \<Rightarrow> not_caught e \<and> q = p | Inr (b, x) \<Rightarrow> b = bid \<and> q = audited (?rows n [(b, x)]) p" and b: "?C y q r u"
    obtain x where y: "y = (bid, x)" and q: "q = audited (?rows n [(bid, x)]) p" using a by (cases y) auto
    have glue: "audited (?rows (Suc n) rs) q = audited (?rows n ((bid, x) # rs)) p" for rs
      unfolding q bulk_rows_Cons[of frs cid key val username n bid x rs] audited_append ..
    show "bulk_db ?rows n (bid # bids) p r u"
    proof (cases r)
      case (Inl e)
      with b y obtain results where "not_caught e" "map fst results = take (length results) bids" "length results < length bids"
        "u = audited (?rows n ((bid, x) # results)) p" by (auto simp: glue)
      then show ?thesis unfolding Inl bulk_db_def by (auto intro!: exI[of _ "(bid, x) # results"])
    next
      case (Inr results)
      with b y show ?thesis by (auto simp: bulk_db_def glue)
    qed
  qed
qed

lemma newest_last: "(\<And>y. y \<in> set xs \<Longrightarrow> ca_created_at y < ca_created_at x) \<Longrightarrow> \<exists>rest. newest_first (xs @ [x]) = x # rest"
proof -
  assume older: "\<And>y. y \<in> set xs \<Longrightarrow> ca_created_at y < ca_created_at x"
  obtain z rest where z: "newest_first (xs @ [x]) = z # rest"
    using length_sort[of "\<lambda>r. - ca_created_at r" "xs @ [x]"] unfolding newest_first_def
    by (cases "sort_key (\<lambda>r. - ca_created_at r) (xs @ [x])") simp_all
  have s: "set (z # rest) = insert x (set xs)" unfolding z[symmetric] newest_first_def by simp
  have "sorted (map (\<lambda>r. - ca_created_at r) (z # rest))" unfolding z[symmetric] newest_first_def by (rule sorted_sort_key)
  moreover have "x \<in> set (z # rest)" unfolding s by simp
  ultimately have "ca_created_at x \<le> ca_created_at z" by auto
  moreover have "z \<in> insert x (set xs)" using s by auto
  ultimately have "z = x" using older by fastforce
  then show ?thesis using z by blast
qed

lemma latest_new_row:
  assumes "\<forall>r\<in>set (config_audits d). ca_created_at r < ca_created_at row"
  shows "latest_change (with_audits [row] d) (ca_cluster_id row) (ca_config_key row) = Some row"
proof -
  let ?old = "filter (\<lambda>r. ca_cluster_id r = ca_cluster_id row \<and> ca_config_key r = ca_config_key row) (config_audits d)"
  obtain rest where "newest_first (?old @ [row]) = row # rest" using newest_last[of ?old row] assms by auto
  then show ?thesis by (simp add: latest_change_def with_audits_def)
qed

lemma upd_new_row: "\<forall>r\<in>set rows. ca_id r \<noteq> ca_id row \<Longrightarrow> upd_by ca_id (ca_id row) f (rows @ [row]) = rows @ [f row]"
  by (simp add: upd_by_def map_idI)

section \<open>Properties\<close>

text \<open>
  Claim C31.  What an edit does to the properties of a file.  For a key without \<open>=\<close>, white space at its ends or a leading
  \<open>#\<close>, a value on one line and a file that writes the key as \<open>key=\<close> or \<open>key =\<close>: read back, the new file gives the key
  the new value and every other key the value it had, and the lines that do not set the key are the same lines in the
  same order.
\<close>

theorem edit_sets_key:
  assumes "plain_key k" and "one_line v" and "recognised k f"
  shows "map_of (parse_properties (edit_properties k v f)) = (map_of (parse_properties f))(k \<mapsto> strip v) \<and>
     filter (\<lambda>l. \<not> has_key k l) (splitlines (edit_properties k v f)) = filter (\<lambda>l. \<not> has_key k l) (splitlines f)"
proof
  show "map_of (parse_properties (edit_properties k v f)) = (map_of (parse_properties f))(k \<mapsto> strip v)"
    using assms by (auto simp: fun_eq_iff edit_same edit_other)
  have "filter (\<lambda>l. \<not> has_key k l) (map (edit_line k v) ls) = filter (\<lambda>l. \<not> has_key k l) ls" for ls
    using has_key_new_line[OF assms(1), of v] by (induction ls) (auto simp: edit_line_def)
  then show "filter (\<lambda>l. \<not> has_key k l) (splitlines (edit_properties k v f)) = filter (\<lambda>l. \<not> has_key k l) (splitlines f)"
    using has_key_new_line[OF assms(1), of v] by (simp add: splitlines_edit[OF assms(1,2)] edit_lines_def)
qed

text \<open>
  Writing the old value back undoes a change: under the same conditions, if the key had a value, editing it
  and then writing the value the audit log recorded gives a file with exactly the properties of the first one.
\<close>

theorem edit_undone:
  assumes "plain_key k" and "one_line v" and "recognised k f" and "map_of (parse_properties f) k = Some old"
  shows "map_of (parse_properties (edit_properties k old (edit_properties k v f))) = map_of (parse_properties f)"
proof -
  have old: "strip old = old" "one_line old" using value_clean[OF assms(4)] by auto
  show ?thesis
    using edit_same[OF assms(1) old(2) recognised_edit[OF assms(1-3)]] edit_other[OF assms(1) old(2)]
      edit_other[OF assms(1,2)] old(1) assms(4) by (auto simp: fun_eq_iff) metis
qed

text \<open>
  Claim C30.  The audit log follows the files.  A change of a key either raises, and then no table has changed; or it
  returns, and then some text was read from the host of that broker, the edited text was written back to
  where it came from with exit code 0 (by the agent, or staged and moved in place over SSH), the reported old value is
  the one in the text that was read, and the one difference in the database, committed, is a new row at
  the end of the audit log with exactly this change.
\<close>

theorem change_audited:
  "case update_broker_config (recorded R) cfg fr cid bid key val username s of
     (Inl e, t) \<Rightarrow> off_wld t = off_wld s
   | (Inr ch, t) \<Rightarrow>
       (\<exists>c h content es. find_cluster (sess s) cid = Some c \<and> config_host (sess s) c bid = Some h \<and>
          trace t = trace s @ es \<and> edited R (tmp_path fr) h content (edit_properties key val content) es \<and>
          cc_old_value ch = map_of (parse_properties content) key) \<and>
       cc_requires_restart ch = requires_restart key \<and> cc_new_value ch = val \<and>
       sess t = (sess s)\<lparr>config_audits := config_audits (sess s) @
          [audit_row fr cid bid key (cc_old_value ch) val username]\<rparr> \<and>
       committed t = sess t \<and> tasks t = tasks s"
proof (cases "update_broker_config (recorded R) cfg fr cid bid key val username s")
  case (Pair r t)
  show ?thesis
  proof (cases r)
    case (Inl e)
    with yieldsD[OF update_db Pair] Pair show ?thesis by (simp add: change_db_def)
  next
    case (Inr ch)
    from update_steps[OF Pair[unfolded Inr]] obtain c h old u via es content where
      "find_cluster (sess s) cid = Some c" "config_host (sess s) c bid = Some h"
      and u: "off_wld u = off_wld s" "trace u = trace s @ es" and "old = map_of (parse_properties content) key"
      "edited R (tmp_path fr) h content (edit_properties key val content) es"
      and rc: "record_change fr cid bid key old val username via u = (Inr ch, t)" .
    moreover have "trace t = trace u" "cc_old_value ch = old" "cc_requires_restart ch = requires_restart key" "cc_new_value ch = val"
      "sess t = (sess u)\<lparr>config_audits := config_audits (sess u) @ [audit_row fr cid bid key old val username]\<rparr>"
      "committed t = sess t" "tasks t = tasks u"
      using rc by (auto simp: record_change_run Let_def trace_def)
    ultimately show ?thesis unfolding Pair Inr by (auto simp: off_wld_def)
  qed
qed

text \<open>
  What a change of all brokers does.  For an external cluster it does nothing at all and reports success with
  no brokers.  For a managed one it goes through the brokers in order.  If it returns, there is one result per broker,
  and the database has, committed, exactly one new audit row per successful one, in that order.  If it raises, some
  broker failed with an exception other than \<open>ValueError\<close> and \<open>RuntimeError\<close>: the results are lost, and the
  changes of the brokers before it stay, recorded in the audit log.
\<close>

theorem bulk_outcome:
  assumes "find_cluster (sess s) cid = Some c"
  shows "let bids = (if is_external c then [] else map s_node_id (cluster_brokers (sess s) cid));
             rows = bulk_rows frs cid key val username 0 in
    case bulk_update_broker_config R cfg frs cid key val username s of
      (Inl e, t) \<Rightarrow> not_caught e \<and> (\<exists>results. map fst results = take (length results) bids \<and> length results < length bids \<and>
         off_wld t = audited (rows results) (off_wld s))
    | (Inr b, t) \<Rightarrow> map fst (bu_results b) = bids \<and> bu_broker_count b = int (length bids) \<and>
         bu_success_count b = int (length (rows (bu_results b))) \<and> off_wld t = audited (rows (bu_results b)) (off_wld s)"
proof -
  let ?loop = "for_each (bulk_one R cfg frs cid key val username) (enumerate 0 (bulk_targets (sess s) c cid))"
  obtain r t where run: "?loop s = (r, t)" by (cases "?loop s")
  have db: "bulk_db (bulk_rows frs cid key val username) 0 (bulk_targets (sess s) c cid) (off_wld s) r (off_wld t)"
    using yieldsD[OF bulk_loop_db run] .
  have count: "length (filter (\<lambda>(_, r). \<not> isl r) rs) = length (bulk_rows frs cid key val username n rs)" for rs n
  proof (induction rs arbitrary: n)
    case (Cons y rs)
    obtain b x where y: "y = (b, x)" by (cases y)
    show ?case using Cons[of "Suc n"] unfolding y bulk_rows_Cons[of frs cid key val username n b x rs]
      by (cases x) (simp_all add: bulk_rows_def)
  qed (simp add: bulk_rows_def)
  show ?thesis
  proof (cases r)
    case (Inl e)
    with run db show ?thesis
      by (simp add: bulk_update_broker_config_def bnd_run assms bulk_db_def bulk_targets_def Let_def)
  next
    case (Inr results)
    then have "map fst results = bulk_targets (sess s) c cid" using db by (simp add: bulk_db_def)
    moreover from this have "length results = length (bulk_targets (sess s) c cid)" by (metis length_map)
    ultimately show ?thesis using Inr run db count[of results 0]
      by (simp add: bulk_update_broker_config_def bnd_run assms bulk_db_def bulk_targets_def Let_def)
  qed
qed

text \<open>
  What a rollback leaves in the audit log, when its row gets a new identifier and a later time than every row
  before.  Nothing at all if it raises.  Otherwise the log gains, committed, one row: it is marked as a rollback and its
  new value is the old value of the row that was rolled back, for the same cluster, broker and key; no earlier row
  changes.
\<close>

theorem rollback_marks_own_row:
  assumes "List.find (\<lambda>r. ca_id r = i) (config_audits (sess s)) = Some a" and "ca_old_value a = Some old"
    and "\<forall>r\<in>set (config_audits (sess s)). ca_id r \<noteq> f_audit_id fr \<and> ca_created_at r < f_now fr"
  shows "case rollback_config R cfg fr i username s of
     (Inl e, t) \<Rightarrow> off_wld t = off_wld s
   | (Inr ch, t) \<Rightarrow> off_wld t = audited [(audit_row fr (ca_cluster_id a) (ca_broker_id a) (ca_config_key a)
        (cc_old_value ch) old username)\<lparr>ca_change_type := ''rollback''\<rparr>] (off_wld s)"
proof -
  let ?upd = "update_broker_config R cfg fr (ca_cluster_id a) (ca_broker_id a) (ca_config_key a) old username"
  obtain r u where run: "?upd s = (r, u)" by (cases "?upd s")
  have db: "change_db (\<lambda>x. audit_row fr (ca_cluster_id a) (ca_broker_id a) (ca_config_key a) x old username) (off_wld s) r (off_wld u)"
    using yieldsD[OF update_db run] .
  show ?thesis
  proof (cases r)
    case (Inl e)
    with run db show ?thesis using assms(1,2) by (simp add: rollback_config_def bnd_run change_db_def)
  next
    case (Inr ch)
    let ?row = "audit_row fr (ca_cluster_id a) (ca_broker_id a) (ca_config_key a) (cc_old_value ch) old username"
    have u: "sess u = with_audits [?row] (sess s)" "committed u = with_audits [?row] (sess s)" "tasks u = tasks s"
      using db by (simp_all add: Inr change_db_def off_wld_def audited_def)
    have latest: "latest_change (sess u) (ca_cluster_id a) (ca_config_key a) = Some ?row"
      using latest_new_row[of "sess s" ?row] assms(3) unfolding u by (simp add: audit_row_def)
    have ids: "upd_by ca_id (ca_id ?row) f (config_audits (sess s) @ [?row]) = config_audits (sess s) @ [f ?row]" for f
      using assms(3) by (intro upd_new_row) (simp add: audit_row_def)
    have id: "ca_id ?row = f_audit_id fr" by (simp add: audit_row_def)
    show ?thesis
      using assms(1,2) run u ids[unfolded id]
      by (simp add: Inr rollback_config_def bnd_run seqm_run latest[unfolded u with_audits_def] set_change_type_def upd_sess_def commit_def
          off_wld_def audited_def with_audits_def id)
  qed
qed

section \<open>Samples\<close>

text \<open>A host whose state is its file: it is read, staged and installed; a host called \<open>h9\<close> cannot be reached.\<close>

definition file_host :: "(string \<times> string) remote" where
  "file_host =
     \<lparr>r_connect = (\<lambda>h w. if h_id h = ''h9'' then (Inl (Exn ''TimeoutError'' ''timed out''), w) else (Inr (), w)),
      r_exec = (\<lambda>h c n (file, tmp).
        if starts_with c ''sudo -n cat'' then (Inr (0, file, []), (file, tmp))
        else if starts_with c ''sudo -n install'' then (Inr (0, [], []), (tmp, []))
        else (Inr (1, [], ''no such command''), (file, tmp))),
      r_write = (\<lambda>h content p (file, tmp). (Inr (), (file, content))),
      r_put = (\<lambda>h l p w. (Inr (), w)), r_sleep = (\<lambda>n w. w), r_clock = (\<lambda>w. 0),
      r_agent_connected = (\<lambda>h w. False), r_agent_send = (\<lambda>h op args n w. (Inl (RuntimeError ''no agent''), w))\<rparr>"

definition sample_fresh :: "nat \<Rightarrow> fresh" where
  "sample_fresh n = \<lparr>f_hex = ''f00d'', f_audit_id = ''a'' @ show_int (int n), f_now = 100 + int n\<rparr>"

definition sample_file :: string where
  "sample_file = ''# broker'' @ nl @ ''num.partitions = 3'' @ nl @ ''log.segment.bytes=1024'' @ nl"

definition config_sys :: "'w \<Rightarrow> 'w sys" where
  "config_sys w =
     (let d = empty_tables\<lparr>clusters := [sample_cluster], hosts := [sample_host, sample_host\<lparr>h_id := ''h9''\<rparr>],
        services := [sample_service ''s1'' ''broker'',
                     (sample_service ''s2'' ''broker'')\<lparr>s_host_id := ''h9'', s_node_id := 2\<rparr>]\<rparr>
      in \<lparr>sess = d, committed = d, tasks = no_tasks, wld = w\<rparr>)"

theorem edit_sets_key_witness:
  "map_of (parse_properties (edit_properties ''num.partitions'' ''6'' sample_file)) =
     (map_of (parse_properties sample_file))(''num.partitions'' \<mapsto> ''6'')"
proof -
  have a: "plain_key ''num.partitions''" "one_line ''6''" "recognised ''num.partitions'' sample_file" by code_simp+
  have "strip ''6'' = ''6''" by code_simp
  with edit_sets_key[OF a] show ?thesis by simp
qed

theorem edit_undone_witness:
  "map_of (parse_properties (edit_properties ''num.partitions'' ''3'' (edit_properties ''num.partitions'' ''6'' sample_file))) =
     map_of (parse_properties sample_file)"
proof -
  have a: "plain_key ''num.partitions''" "one_line ''6''" "recognised ''num.partitions'' sample_file"
    "map_of (parse_properties sample_file) ''num.partitions'' = Some ''3''" by code_simp+
  show ?thesis by (rule edit_undone[OF a])
qed

theorem bulk_outcome_witness:
  "case bulk_update_broker_config file_host (default_settings []) sample_fresh ''c1'' ''num.partitions'' ''6'' ''eve''
       (config_sys (sample_file, [])) of
     (Inl e, t) \<Rightarrow> not_caught e
   | (Inr b, t) \<Rightarrow> map fst (bu_results b) = [1, 2]"
proof -
  let ?s = "config_sys (sample_file, []) :: (string \<times> string) sys"
  have a: "find_cluster (sess ?s) ''c1'' = Some sample_cluster" by code_simp
  have b: "(if is_external sample_cluster then [] else map s_node_id (cluster_brokers (sess ?s) ''c1'')) = [1, 2]" by code_simp
  from bulk_outcome[OF a, where frs = sample_fresh and R = file_host and cfg = "default_settings []"
        and key = "''num.partitions''" and val = "''6''" and username = "''eve''"] show ?thesis
    unfolding b Let_def by (auto split: prod.splits sum.splits)
qed

text \<open>The batch on the sample: the second host times out, the whole request fails, and the first change is kept.\<close>

lemma bulk_sample:
  "case bulk_update_broker_config file_host (default_settings []) sample_fresh ''c1'' ''num.partitions'' ''6'' ''eve''
       (config_sys (sample_file, [])) of
     (r, t) \<Rightarrow> r = Inl (Exn ''TimeoutError'' ''timed out'') \<and> map ca_broker_id (config_audits (committed t)) = [1] \<and>
       map_of (parse_properties (fst (wld t))) ''num.partitions'' = Some ''6''"
  by code_simp

definition changed_sys :: "(string \<times> string) sys" where
  "changed_sys = snd (update_broker_config file_host (default_settings []) (sample_fresh 0) ''c1'' 1 ''num.partitions'' ''6'' ''eve''
     (config_sys (sample_file, [])))"

theorem rollback_marks_own_row_witness:
  "case rollback_config file_host (default_settings []) (sample_fresh 1) ''a0'' ''eve'' changed_sys of
     (Inl e, t) \<Rightarrow> off_wld t = off_wld changed_sys
   | (Inr ch, t) \<Rightarrow> off_wld t = audited [(audit_row (sample_fresh 1) ''c1'' 1 ''num.partitions''
        (cc_old_value ch) ''3'' ''eve'')\<lparr>ca_change_type := ''rollback''\<rparr>] (off_wld changed_sys)"
proof -
  let ?a = "audit_row (sample_fresh 0) ''c1'' 1 ''num.partitions'' (Some ''3'') ''6'' ''eve''"
  have f: "List.find (\<lambda>r. ca_id r = ''a0'') (config_audits (sess changed_sys)) = Some ?a" by code_simp
  have o: "ca_old_value ?a = Some ''3''" by (simp add: audit_row_def)
  have n: "\<forall>r\<in>set (config_audits (sess changed_sys)). ca_id r \<noteq> f_audit_id (sample_fresh 1) \<and>
      ca_created_at r < f_now (sample_fresh 1)" by code_simp
  have a: "ca_cluster_id ?a = ''c1''" "ca_broker_id ?a = 1" "ca_config_key ?a = ''num.partitions''" by (simp_all add: audit_row_def)
  from rollback_marks_own_row[OF f o n, where R = file_host and cfg = "default_settings []" and username = "''eve''"] show ?thesis unfolding a .
qed

lemma rollback_sample:
  "case rollback_config file_host (default_settings []) (sample_fresh 1) ''a0'' ''eve'' changed_sys of
     (r, t) \<Rightarrow> \<not> isl r \<and> map ca_change_type (config_audits (committed t)) = [''update'', ''rollback''] \<and>
       map_of (parse_properties (fst (wld t))) ''num.partitions'' = Some ''3''"
  by code_simp

end
