(* ===== verification/Alert_Manager.thy ===== *)
theory Alert_Manager
  imports Cluster_Manager "HOL-Library.Char_ord" "HOL-Library.List_Lexorder" Py_Text
begin

text \<open>
  Alerting: \<open>services/alert_manager.py\<close>, \<open>api/alerts.py\<close> and the part of \<open>services/monitoring_deployer.py\<close> that pushes rules
  and routes to the monitoring host.  Rules and channels are rows; they are rendered into two YAML files, which a
  shell command writes and reloads.  Alertmanager reports alerts to a webhook, which keeps incidents.
  Fernet is the parameter \<open>fernet\<close> (decryption gives the dict or fails), HTTP and SMTP are the parameter \<open>net\<close>,
  \<open>datetime.fromisoformat\<close>, SHA-1 and \<open>str\<close> of lists and dicts are fields of \<open>alert_lib\<close>.  The session does not flush on its
  own (\<open>autoflush=False\<close>): queries see the rows that are in the database, not the ones just added.  Labels and
  annotations of alerts are texts in Alertmanager's protocol; other types are modelled as raising.
\<close>

abbreviation bslash :: string where "bslash \<equiv> [CHR 0x5C]"
abbreviation ellipsis :: string where "ellipsis \<equiv> [CHR 0xE2, CHR 0x80, CHR 0xA6]"
abbreviation bullet :: string where "bullet \<equiv> [CHR 0xE2, CHR 0x80, CHR 0xA2]"

record alert_lib =
  lib_iso :: "string \<Rightarrow> int option"
  lib_sha1 :: "string \<Rightarrow> string"
  lib_repr :: "json \<Rightarrow> string"

record mail =
  ma_host :: string
  ma_port :: int
  ma_starttls :: bool
  ma_login :: "(string \<times> string) option"
  ma_subject :: string
  ma_from :: string
  ma_to :: string
  ma_content :: string

record 'w net =
  net_get :: "string \<Rightarrow> int \<Rightarrow> ('w, int \<times> json_text) io"
  net_post :: "string \<Rightarrow> json \<Rightarrow> (string \<times> string) list \<Rightarrow> ('w, int) io"
  net_mail :: "mail \<Rightarrow> ('w, unit) io"

section \<open>Settings and channel secrets\<close>

definition ALERTMANAGER_WEBHOOK_PATH :: string where
  "ALERTMANAGER_WEBHOOK_PATH = ''/api/alerts/webhook''"

definition alertmanager_port :: "settings \<Rightarrow> int" where
  "alertmanager_port cfg = ALERTMANAGER_PORT cfg"

definition tantor_webhook_url :: "settings \<Rightarrow> string" where
  "tantor_webhook_url cfg = rstrip_chars ''/'' (TANTOR_PUBLIC_URL cfg) @ ALERTMANAGER_WEBHOOK_PATH"

definition encrypt_channel_config :: "fernet \<Rightarrow> (string \<times> json) list \<Rightarrow> string" where
  "encrypt_channel_config F plain = fe_encrypt F plain"

definition decrypt_channel_config :: "fernet \<Rightarrow> string \<Rightarrow> (string \<times> json) list" where
  "decrypt_channel_config F encrypted = (case fe_decrypt F encrypted of None \<Rightarrow> [] | Some d \<Rightarrow> d)"

definition SECRET_KEYS :: "string list" where
  "SECRET_KEYS = [''webhook_url'', ''smtp_password'', ''auth_header'']"

fun py_str :: "alert_lib \<Rightarrow> json \<Rightarrow> string" where
  "py_str L JNull = ''None''"
| "py_str L (JBool b) = (if b then ''True'' else ''False'')"
| "py_str L (JInt i) = show_int i"
| "py_str L (JStr s) = s"
| "py_str L j = lib_repr L j"

text \<open>The code points of a text, each with its continuation bytes.\<close>

fun codepoints :: "string \<Rightarrow> string list" where
  "codepoints [] = []"
| "codepoints (c # s) =
     (case codepoints s of
        [] \<Rightarrow> [[c]]
      | p # ps \<Rightarrow> if p \<noteq> [] \<and> utf8_continuation (hd p) then (c # p) # ps else [c] # p # ps)"

definition redact_secret :: "string \<Rightarrow> string" where
  "redact_secret s =
     (let cs = codepoints s in
      if 16 < length cs then concat (take 8 cs) @ ellipsis @ concat (drop (length cs - 4) cs)
      else bullet @ bullet @ bullet @ bullet)"

definition redact_channel_config :: "alert_lib \<Rightarrow> (string \<times> json) list \<Rightarrow> (string \<times> json) list" where
  "redact_channel_config L plain =
     map (\<lambda>(k, v). (k, if k \<in> set SECRET_KEYS \<and> truthy v then JStr (redact_secret (py_str L v)) else v)) plain"

section \<open>Templates\<close>

record rule_template =
  te_name :: string
  te_severity :: string
  te_for_seconds :: int
  te_expr :: string
  te_summary :: string
  te_description :: string

definition a_template :: "string \<Rightarrow> string \<Rightarrow> int \<Rightarrow> string \<Rightarrow> string \<Rightarrow> string \<Rightarrow> rule_template" where
  "a_template n sev secs expr summ desc = \<lparr>te_name = n, te_severity = sev, te_for_seconds = secs, te_expr = expr,
     te_summary = summ, te_description = desc\<rparr>"

definition RULE_TEMPLATES :: "(string \<times> rule_template) list" where
  "RULE_TEMPLATES =
     [(''broker_down'', a_template ''BrokerDown'' ''critical'' 60
        (''up{job='' @ dq @ ''kafka-jmx'' @ dq @ ''} == 0'')
        (''Kafka broker {{ $labels.instance }} is down'')
        (''JMX scrape is failing for {{ $labels.instance }} for over 1 minute.'')),
      (''isr_shrunk'', a_template ''IsrShrunk'' ''warning'' 300
        (''kafka_server_replicamanager_underreplicatedpartitions > 0'')
        (''Under-replicated partitions on {{ $labels.instance }}'')
        (''{{ $value }} under-replicated partition(s) for over 5 minutes.'')),
      (''consumer_lag_high'', a_template ''ConsumerLagHigh'' ''warning'' 600
        (''kafka_consumergroup_lag > 100000'')
        (''Consumer lag > 100k on {{ $labels.consumergroup }}'')
        (''Consumer group {{ $labels.consumergroup }} is lagging by {{ $value }} messages.'')),
      (''consumer_stalled'', a_template ''ConsumerStalled'' ''warning'' 900
        (''kafka_consumergroup_lag > 0 and deriv(kafka_consumergroup_lag[15m]) >= 0'')
        (''Consumer group {{ $labels.consumergroup }} is stalled (no progress)'')
        (''Consumer group {{ $labels.consumergroup }} has lag {{ $value }} that hasn'' @ sq @ ''t decreased in 15 minutes '' @ em_dash @ '' likely a hung consumer.'')),
      (''consumer_failed'', a_template ''ConsumerFailed'' ''critical'' 300
        (''kafka_consumergroup_members == 0'')
        (''Consumer group {{ $labels.consumergroup }} has no live members'')
        (''Consumer group {{ $labels.consumergroup }} has zero active members for over 5 minutes '' @ em_dash @ '' consumers may have crashed.'')),
      (''disk_almost_full'', a_template ''DiskAlmostFull'' ''warning'' 300
        (''(node_filesystem_avail_bytes{mountpoint='' @ dq @ ''/'' @ dq @ ''} / node_filesystem_size_bytes{mountpoint='' @ dq @ ''/'' @ dq @ ''}) < 0.20'')
        (''Disk usage > 80% on {{ $labels.instance }}'')
        (''Less than 20% disk free on / for over 5 minutes.''))]"

definition get_template :: "string \<Rightarrow> rule_template option" where
  "get_template name = map_of RULE_TEMPLATES name"

definition seeded_rule :: "string \<Rightarrow> int \<Rightarrow> string \<Rightarrow> rule_template \<Rightarrow> alert_rule" where
  "seeded_rule i now cid t =
     \<lparr>al_id = i, al_cluster_id = cid, al_name = te_name t, al_expr = te_expr t, al_for_seconds = te_for_seconds t,
      al_severity = te_severity t, al_summary = Some (te_summary t), al_description = Some (te_description t),
      al_channel_ids = Some ''[]'', al_template = None, al_enabled = True, al_created_at = now, al_updated_at = now\<rparr>"

definition seed_default_rules :: "(nat \<Rightarrow> string) \<Rightarrow> int \<Rightarrow> string \<Rightarrow> ('w sys, int) io" where
  "seed_default_rules ids now cid =
     bnd (asks (\<lambda>s. map al_name (filter (\<lambda>r. al_cluster_id r = cid) (alert_rules (sess s))))) (\<lambda>existing.
     let new = filter (\<lambda>t. te_name t \<notin> set existing) (map snd RULE_TEMPLATES);
         rows = map (\<lambda>(n, t). seeded_rule (ids n) now cid t) (enumerate 0 new) in
     seqm (if rows = [] then ret ()
           else seqm (upd_sess (\<lambda>d. d\<lparr>alert_rules := alert_rules d @ rows\<rparr>)) commit)
       (ret (int (length rows))))"

section \<open>Rendering\<close>

definition seconds_to_duration :: "int \<Rightarrow> string" where
  "seconds_to_duration n =
     (if n \<le> 0 then ''0s''
      else if n mod 3600 = 0 then show_int (n div 3600) @ ''h''
      else if n mod 60 = 0 then show_int (n div 60) @ ''m''
      else show_int n @ ''s'')"

definition yaml_quote :: "string \<Rightarrow> string" where
  "yaml_quote s = dq @ replace_char CHR 0x22 (bslash @ dq) (replace_char CHR 0x5C (bslash @ bslash) s) @ dq"

definition yaml_str :: "string option \<Rightarrow> string" where
  "yaml_str v = (case v of None \<Rightarrow> dq @ dq | Some s \<Rightarrow> yaml_quote s)"

definition primary_channel :: "alert_rule \<Rightarrow> string" where
  "primary_channel r =
     (if str_true (al_channel_ids r) then strip (hd (split_on CHR '','' (the (al_channel_ids r)))) else [])"

definition rule_lines :: "alert_rule \<Rightarrow> string list" where
  "rule_lines r =
     [''      - alert: '' @ yaml_quote (al_name r),
      ''        expr: '' @ yaml_quote (al_expr r),
      ''        for: '' @ seconds_to_duration (al_for_seconds r),
      ''        labels:'',
      ''          severity: '' @ yaml_quote (al_severity r),
      ''          tantor_cluster_id: '' @ yaml_quote (al_cluster_id r),
      ''          tantor_rule_id: '' @ yaml_quote (al_id r)] @
     (if primary_channel r \<noteq> [] then [''          tantor_channel: '' @ yaml_quote (primary_channel r)] else []) @
     [''        annotations:'',
      ''          summary: '' @ yaml_quote (or_str (al_summary r) (al_name r))] @
     (if str_true (al_description r) then [''          description: '' @ yaml_str (al_description r)] else [])"

definition render_prometheus_rules :: "alert_rule list \<Rightarrow> string" where
  "render_prometheus_rules rules =
     join nl ([''groups:'', ''  - name: tantor'', ''    rules:''] @ concat (map rule_lines (filter al_enabled rules))) @ nl"

text \<open>\<open>_yaml_str\<close> and f-strings of a value of a channel's config; \<open>None\<close> is written as an empty text.\<close>

definition yaml_val :: "alert_lib \<Rightarrow> json \<Rightarrow> string" where
  "yaml_val L v = yaml_str (if v = JNull then None else Some (py_str L v))"

text \<open>\<open>','.join(v)\<close>: a list of texts, the characters of a text, or the keys of a dict.\<close>

fun as_text :: "json \<Rightarrow> exn + string" where
  "as_text (JStr s) = Inr s"
| "as_text _ = Inl (TypeError ''expected a text'')"

primrec all_texts :: "json list \<Rightarrow> exn + string list" where
  "all_texts [] = Inr []"
| "all_texts (x # xs) = (case as_text x of Inl e \<Rightarrow> Inl e
     | Inr s \<Rightarrow> (case all_texts xs of Inl e \<Rightarrow> Inl e | Inr ss \<Rightarrow> Inr (s # ss)))"

fun join_json :: "string \<Rightarrow> json \<Rightarrow> exn + string" where
  "join_json sep (JArr xs) = map_sum id (join sep) (all_texts xs)"
| "join_json sep (JStr s) = Inr (join sep (codepoints s))"
| "join_json sep (JObj d) = Inr (join sep (map fst d))"
| "join_json sep _ = Inl (TypeError ''can only join an iterable'')"

definition slack_lines :: "alert_lib \<Rightarrow> (string \<times> json) list \<Rightarrow> string list" where
  "slack_lines L cfg =
     [''    slack_configs:'',
      ''      - api_url: '' @ yaml_val L (jget_default cfg ''webhook_url'' (JStr []))] @
     (if truthy (jget cfg ''channel'') then [''        channel: '' @ yaml_val L (jget cfg ''channel'')] else []) @
     [''        send_resolved: true'',
      ''        title: '' @ sq @ ''{{ .CommonAnnotations.summary }}'' @ sq,
      ''        text: '' @ sq @ ''{{ range .Alerts }}{{ .Annotations.description }}'' @ bslash @ ''n{{ end }}'' @ sq]"

definition webhook_lines :: "alert_lib \<Rightarrow> (string \<times> json) list \<Rightarrow> string list" where
  "webhook_lines L cfg =
     [''    webhook_configs:'',
      ''      - url: '' @ yaml_val L (jget_default cfg ''url'' (JStr [])),
      ''        send_resolved: true''] @
     (if truthy (jget cfg ''auth_header'')
      then [''        http_config:'',
            ''          authorization:'',
            ''            type: Bearer'',
            ''            credentials: '' @ yaml_val L (jget cfg ''auth_header'')]
      else [])"

definition email_lines :: "alert_lib \<Rightarrow> (string \<times> json) list \<Rightarrow> exn + string list" where
  "email_lines L cfg =
     (case join_json '','' (jget_default cfg ''to_addrs'' (JArr [])) of
        Inl e \<Rightarrow> Inl e
      | Inr addrs \<Rightarrow> Inr (
          [''    email_configs:'',
           ''      - to: '' @ yaml_quote addrs,
           ''        from: '' @ yaml_val L (jget_default cfg ''from_addr'' (JStr [])),
           ''        smarthost: '' @ py_str L (jget_default cfg ''smtp_host'' (JStr [])) @ '':''
             @ py_str L (jget_default cfg ''smtp_port'' (JInt 587))] @
          (if truthy (jget cfg ''smtp_user'')
           then [''        auth_username: '' @ yaml_val L (jget cfg ''smtp_user''),
                 ''        auth_password: '' @ yaml_val L (jget_default cfg ''smtp_password'' (JStr []))]
           else []) @
          [''        require_tls: '' @ (if truthy (jget_default cfg ''require_tls'' (JBool True)) then ''true'' else ''false''),
           ''        send_resolved: true'']))"

definition internal_lines :: "string \<Rightarrow> string list" where
  "internal_lines url = [''    webhook_configs:'', ''      - url: '' @ yaml_quote url, ''        send_resolved: true'']"

definition receiver_lines :: "alert_lib \<Rightarrow> fernet \<Rightarrow> string \<Rightarrow> notification_channel \<Rightarrow> exn + string list" where
  "receiver_lines L F url ch =
     (let cfg = decrypt_channel_config F (nc_encrypted_config ch) in
      map_sum id (\<lambda>ls. (''  - name: tantor_'' @ nc_id ch) # ls)
        (if nc_kind ch = ''slack'' then Inr (slack_lines L cfg)
         else if nc_kind ch = ''webhook'' then Inr (webhook_lines L cfg)
         else if nc_kind ch = ''email'' then email_lines L cfg
         else if nc_kind ch = ''tantor_internal'' then Inr (internal_lines url)
         else Inr []))"

primrec all_receivers :: "alert_lib \<Rightarrow> fernet \<Rightarrow> string \<Rightarrow> notification_channel list \<Rightarrow> exn + string list" where
  "all_receivers L F url [] = Inr []"
| "all_receivers L F url (ch # chs) =
     (case receiver_lines L F url ch of Inl e \<Rightarrow> Inl e
      | Inr ls \<Rightarrow> map_sum id (\<lambda>rest. ls @ rest) (all_receivers L F url chs))"

definition route_lines :: "notification_channel \<Rightarrow> string list" where
  "route_lines ch =
     [''    - matchers: [tantor_channel='' @ dq @ nc_id ch @ dq @ '']'',
      ''      receiver: tantor_'' @ nc_id ch,
      ''      continue: false'']"

definition render_alertmanager_yaml :: "alert_lib \<Rightarrow> fernet \<Rightarrow> notification_channel list \<Rightarrow> string \<Rightarrow> exn + string" where
  "render_alertmanager_yaml L F channels url =
     (let on = filter nc_enabled channels in
      map_sum id (\<lambda>receivers. join nl (
         [''global:'', ''  resolve_timeout: 1m'', [], ''route:'',
          ''  group_by: ['' @ sq @ ''alertname'' @ sq @ '', '' @ sq @ ''tantor_cluster_id'' @ sq @ '']'',
          ''  group_wait: 15s'', ''  group_interval: 1m'', ''  repeat_interval: 4h'', ''  receiver: tantor_default''] @
         (if on \<noteq> [] then ''  routes:'' # concat (map route_lines on) else []) @
         [[], ''receivers:'', ''  - name: tantor_default''] @ internal_lines url @ receivers) @ nl)
       (all_receivers L F url on))"

section \<open>Pushing to the monitoring host\<close>

definition rules_script :: "string \<Rightarrow> string" where
  "rules_script rules_yml = ''cat > /etc/prometheus/rules/tantor.yml << '' @ dq @ ''TANTORRULESEOF'' @ dq @ nl @
     rules_yml @ ''TANTORRULESEOF''"

definition am_script :: "string \<Rightarrow> string" where
  "am_script am_yml = ''cat > /etc/alertmanager/alertmanager.yml << '' @ dq @ ''TANTORAMEOF'' @ dq @ nl @ am_yml @ ''TANTORAMEOF''"

definition push_head :: string where
  "push_head = nl @ ''sudo mkdir -p /etc/prometheus/rules'' @ nl @ ''sudo bash -c ''"

definition push_tail :: "settings \<Rightarrow> string" where
  "push_tail cfg =
     nl @ nl @ ''# Validate before reloading; bail loudly so the operator sees the issue.'' @ nl @
     ''sudo bash -c '' @ sq @ ''/opt/prometheus/promtool check rules /etc/prometheus/rules/tantor.yml >/tmp/rules_check 2>&1'' @ sq @ ''   && echo '' @ dq @ ''RULES_OK'' @ dq @ ''   || (echo '' @ dq @ ''RULES_INVALID'' @ dq @ ''; sudo cat /tmp/rules_check; exit 1)'' @ nl @
     ''sudo bash -c '' @ sq @ ''/opt/alertmanager/amtool check-config /etc/alertmanager/alertmanager.yml >/tmp/am_check 2>&1'' @ sq @ ''   && echo '' @ dq @ ''AM_CONFIG_OK'' @ dq @ ''   || (echo '' @ dq @ ''AM_CONFIG_INVALID'' @ dq @ ''; sudo cat /tmp/am_check; exit 1)'' @ nl @
     nl @ ''# Reload via HTTP API (no restart, no scrape gap).'' @ nl @
     ''curl -sf -X POST http://localhost:'' @ show_int (PROMETHEUS_PORT cfg) @ ''/-/reload && echo '' @ dq @ ''PROM_RELOADED'' @ dq @ '' || echo '' @ dq @ ''PROM_RELOAD_FAILED'' @ dq @ nl @
     ''curl -sf -X POST http://localhost:'' @ show_int (ALERTMANAGER_PORT cfg) @ ''/-/reload && echo '' @ dq @ ''AM_RELOADED'' @ dq @ '' || echo '' @ dq @ ''AM_RELOADED_FAILED'' @ dq @ nl"

definition push_cmd :: "settings \<Rightarrow> string \<Rightarrow> string \<Rightarrow> string" where
  "push_cmd cfg rules_yml am_yml =
     push_head @ sq @ rules_script rules_yml @ sq @ nl @ nl @
     ''sudo bash -c '' @ sq @ am_script am_yml @ sq @ push_tail cfg"

definition render_alerting_files :: "'w remote \<Rightarrow> settings \<Rightarrow> alert_lib \<Rightarrow> fernet \<Rightarrow> string \<Rightarrow> host \<Rightarrow> ('w sys, unit) io" where
  "render_alerting_files R cfg L F cid h =
     bnd (asks sess) (\<lambda>d.
     bnd (lift (render_alertmanager_yaml L F (notification_channels d) (tantor_webhook_url cfg))) (\<lambda>am_yml.
     seqm (ssh_connect R h)
    (bnd (exec_command R h (push_cmd cfg (render_prometheus_rules (filter (\<lambda>r. al_cluster_id r = cid) (alert_rules d))) am_yml) 60)
       (\<lambda>(_, stdout, stderr).
        if \<not> contains stdout ''RULES_OK'' \<or> \<not> contains stdout ''AM_CONFIG_OK''
        then raise (RuntimeError (''Alerting config validation failed:'' @ nl @ ''stdout:'' @ nl @ stdout @ nl @ ''stderr:'' @ nl @ stderr))
        else ret ()))))"

definition find_monitoring :: "tables \<Rightarrow> string \<Rightarrow> monitoring_config option" where
  "find_monitoring d cid = List.find (\<lambda>m. mc_cluster_id m = Some cid) (monitoring_configs d)"

text \<open>The value says whether the files were pushed, or why not.\<close>

definition reload_alerting :: "'w remote \<Rightarrow> settings \<Rightarrow> alert_lib \<Rightarrow> fernet \<Rightarrow> string \<Rightarrow> ('w sys, string option) io" where
  "reload_alerting R cfg L F cid =
     bnd (asks sess) (\<lambda>d.
     case find_monitoring d cid of
       None \<Rightarrow> ret (Some ''monitoring stack not deployed'')
     | Some m \<Rightarrow>
         if \<not> mc_deployed m \<or> \<not> str_true (mc_monitoring_host_id m) then ret (Some ''monitoring stack not deployed'')
         else (case find_host d (the (mc_monitoring_host_id m)) of
                 None \<Rightarrow> ret (Some ''monitoring host not found'')
               | Some h \<Rightarrow> seqm (render_alerting_files R cfg L F cid h) (ret None)))"

definition trigger_reload :: "'w remote \<Rightarrow> settings \<Rightarrow> alert_lib \<Rightarrow> fernet \<Rightarrow> string \<Rightarrow> ('w sys, unit) io" where
  "trigger_reload R cfg L F cid = ignore (reload_alerting R cfg L F cid)"

definition trigger_reload_all :: "'w remote \<Rightarrow> settings \<Rightarrow> alert_lib \<Rightarrow> fernet \<Rightarrow> ('w sys, unit) io" where
  "trigger_reload_all R cfg L F =
     ignore (bnd (asks (\<lambda>s. filter mc_deployed (monitoring_configs (sess s)))) (\<lambda>cs.
       for_each (\<lambda>m. if str_true (mc_cluster_id m) then ignore (reload_alerting R cfg L F (the (mc_cluster_id m))) else ret ()) cs))"

section \<open>Rules\<close>

record rule_response =
  rs_rule :: alert_rule
  rs_channel_ids :: "string list"

definition channel_ids_of :: "alert_rule \<Rightarrow> string list" where
  "channel_ids_of r = filter (\<lambda>c. c \<noteq> []) (map strip (split_on CHR '','' (or_str (al_channel_ids r) [])))"

definition to_rule_response :: "alert_rule \<Rightarrow> rule_response" where
  "to_rule_response r = \<lparr>rs_rule = r, rs_channel_ids = channel_ids_of r\<rparr>"

definition cluster_exists :: "tables \<Rightarrow> string \<Rightarrow> bool" where
  "cluster_exists d cid \<longleftrightarrow> length (filter (\<lambda>c. c_id c = cid) (clusters d)) = 1"

definition no_cluster :: exn where "no_cluster = HTTPException 404 ''Cluster not found''"
definition no_rule :: exn where "no_rule = HTTPException 404 ''Rule not found''"

definition list_rule_templates :: "(string \<times> rule_template) list" where
  "list_rule_templates = RULE_TEMPLATES"

definition list_rules :: "string \<Rightarrow> ('w sys, rule_response list) io" where
  "list_rules cid =
     bnd (asks sess) (\<lambda>d.
     if \<not> cluster_exists d cid then raise no_cluster
     else ret (map to_rule_response
       (sort_key (\<lambda>r. - al_created_at r) (filter (\<lambda>r. al_cluster_id r = cid) (alert_rules d)))))"

record rule_create =
  rc_name :: string
  rc_expr :: string
  rc_for_seconds :: int
  rc_severity :: string
  rc_summary :: "string option"
  rc_description :: "string option"
  rc_channel_ids :: "string list"
  rc_template :: "string option"
  rc_enabled :: bool

definition join_ids :: "string list \<Rightarrow> string option" where
  "join_ids ids = (if ids = [] then None else Some (join '','' ids))"

definition new_rule :: "string \<Rightarrow> int \<Rightarrow> string \<Rightarrow> rule_create \<Rightarrow> alert_rule" where
  "new_rule i now cid x =
     \<lparr>al_id = i, al_cluster_id = cid, al_name = rc_name x, al_expr = rc_expr x, al_for_seconds = rc_for_seconds x,
      al_severity = rc_severity x, al_summary = rc_summary x, al_description = rc_description x,
      al_channel_ids = join_ids (rc_channel_ids x), al_template = rc_template x, al_enabled = rc_enabled x,
      al_created_at = now, al_updated_at = now\<rparr>"

definition create_rule :: "'w remote \<Rightarrow> settings \<Rightarrow> alert_lib \<Rightarrow> fernet \<Rightarrow> string \<Rightarrow> int \<Rightarrow> string \<Rightarrow> rule_create \<Rightarrow>
    ('w sys, rule_response) io" where
  "create_rule R cfg L F i now cid x =
     bnd (asks sess) (\<lambda>d.
     if \<not> cluster_exists d cid then raise no_cluster
     else let r = new_rule i now cid x in
       seqm (upd_sess (\<lambda>d. d\<lparr>alert_rules := alert_rules d @ [r]\<rparr>))
      (seqm commit
      (seqm (trigger_reload R cfg L F cid) (ret (to_rule_response r)))))"

record rule_update =
  rx_name :: "string option"
  rx_expr :: "string option"
  rx_for_seconds :: "int option"
  rx_severity :: "string option"
  rx_summary :: "string option"
  rx_description :: "string option"
  rx_channel_ids :: "string list option"
  rx_enabled :: "bool option"

definition or_old :: "'a option \<Rightarrow> 'a \<Rightarrow> 'a" where
  "or_old x y = (case x of None \<Rightarrow> y | Some v \<Rightarrow> v)"

text \<open>\<open>updated_at\<close> is set when the row is written, which SQLAlchemy does if a column has changed.\<close>

definition changed_rule :: "int \<Rightarrow> rule_update \<Rightarrow> alert_rule \<Rightarrow> alert_rule" where
  "changed_rule now x r =
     (let r' = r\<lparr>al_name := or_old (rx_name x) (al_name r), al_expr := or_old (rx_expr x) (al_expr r),
        al_for_seconds := or_old (rx_for_seconds x) (al_for_seconds r), al_severity := or_old (rx_severity x) (al_severity r),
        al_summary := (case rx_summary x of None \<Rightarrow> al_summary r | Some v \<Rightarrow> Some v),
        al_description := (case rx_description x of None \<Rightarrow> al_description r | Some v \<Rightarrow> Some v),
        al_channel_ids := (case rx_channel_ids x of None \<Rightarrow> al_channel_ids r | Some ids \<Rightarrow> join_ids ids),
        al_enabled := or_old (rx_enabled x) (al_enabled r)\<rparr>
      in if r' = r then r else r'\<lparr>al_updated_at := now\<rparr>)"

definition find_rule :: "tables \<Rightarrow> string \<Rightarrow> string \<Rightarrow> alert_rule option" where
  "find_rule d cid i = List.find (\<lambda>r. al_id r = i \<and> al_cluster_id r = cid) (alert_rules d)"

definition update_rule :: "'w remote \<Rightarrow> settings \<Rightarrow> alert_lib \<Rightarrow> fernet \<Rightarrow> int \<Rightarrow> string \<Rightarrow> string \<Rightarrow> rule_update \<Rightarrow>
    ('w sys, rule_response) io" where
  "update_rule R cfg L F now cid i x =
     bnd (asks (\<lambda>s. find_rule (sess s) cid i)) (\<lambda>rule.
     case rule of
       None \<Rightarrow> raise no_rule
     | Some r \<Rightarrow>
         seqm (upd_sess (\<lambda>d. d\<lparr>alert_rules := upd_by al_id i (changed_rule now x) (alert_rules d)\<rparr>))
        (seqm commit
        (seqm (trigger_reload R cfg L F cid) (ret (to_rule_response (changed_rule now x r))))))"

definition delete_rule :: "'w remote \<Rightarrow> settings \<Rightarrow> alert_lib \<Rightarrow> fernet \<Rightarrow> string \<Rightarrow> string \<Rightarrow> ('w sys, string) io" where
  "delete_rule R cfg L F cid i =
     bnd (asks (\<lambda>s. find_rule (sess s) cid i)) (\<lambda>rule.
     if rule = None then raise no_rule
     else seqm (upd_sess (\<lambda>d. d\<lparr>alert_rules := filter (\<lambda>r. al_id r \<noteq> i) (alert_rules d)\<rparr>))
         (seqm commit
         (seqm (trigger_reload R cfg L F cid) (ret ''Rule deleted''))))"

section \<open>Firing alerts\<close>

text \<open>\<open>s.rsplit(":", 1)[0]\<close>, if there is a colon.\<close>

definition alertmanager_url :: "settings \<Rightarrow> monitoring_config \<Rightarrow> string option" where
  "alertmanager_url cfg m =
     (if \<not> str_true (mc_prometheus_url m) then None
      else let u = the (mc_prometheus_url m) in
        if CHR '':'' \<notin> set u then None
        else Some (take (length u - length (after_last CHR '':'' u) - 1) u @ '':'' @ show_int (alertmanager_port cfg)))"

definition monitoring_url :: "settings \<Rightarrow> string \<Rightarrow> tables \<Rightarrow> string option" where
  "monitoring_url cfg cid d =
     (case find_monitoring d cid of
        None \<Rightarrow> None | Some m \<Rightarrow> if mc_deployed m then alertmanager_url cfg m else None)"

record firing =
  fi_fingerprint :: json
  fi_alert_name :: json
  fi_severity :: json
  fi_state :: string
  fi_started_at :: json
  fi_ends_at :: json
  fi_summary :: json
  fi_description :: json
  fi_labels :: "(string \<times> json) list"

definition am_states :: "(string \<times> string) list" where
  "am_states = [(''active'', ''firing''), (''unprocessed'', ''pending''), (''suppressed'', ''firing'')]"

definition state_of :: "json \<Rightarrow> string" where
  "state_of v = (case v of JStr st \<Rightarrow> (case map_of am_states st of None \<Rightarrow> ''firing'' | Some x \<Rightarrow> x) | _ \<Rightarrow> ''firing'')"

definition get_dict :: "(string \<times> json) list \<Rightarrow> string \<Rightarrow> exn + (string \<times> json) list" where
  "get_dict d k = as_dict (jget_default d k (JObj []))"

text \<open>One alert of the answer; \<open>None\<close> for an alert of another cluster.\<close>

definition firing_of :: "string \<Rightarrow> json \<Rightarrow> exn + firing option" where
  "firing_of cid alert =
     (case as_dict alert of Inl e \<Rightarrow> Inl e | Inr a \<Rightarrow>
     (case get_dict a ''labels'' of Inl e \<Rightarrow> Inl e | Inr labels \<Rightarrow>
      if jget labels ''tantor_cluster_id'' \<noteq> JStr cid then Inr None
      else (case get_dict a ''annotations'' of Inl e \<Rightarrow> Inl e | Inr ann \<Rightarrow>
           (case sub_dict a ''status'' of Inl e \<Rightarrow> Inl e | Inr st \<Rightarrow>
            Inr (Some \<lparr>fi_fingerprint = jget_default a ''fingerprint'' (JStr []),
              fi_alert_name = jget_default labels ''alertname'' (JStr ''unknown''),
              fi_severity = jget_default labels ''severity'' (JStr ''warning''),
              fi_state = state_of (jget_default st ''state'' (JStr ''active'')),
              fi_started_at = jget a ''startsAt'', fi_ends_at = jget a ''endsAt'',
              fi_summary = jget ann ''summary'', fi_description = jget ann ''description'', fi_labels = labels\<rparr>)))))"

primrec all_firing :: "string \<Rightarrow> json list \<Rightarrow> exn + firing list" where
  "all_firing cid [] = Inr []"
| "all_firing cid (a # as) =
     (case firing_of cid a of Inl e \<Rightarrow> Inl e
      | Inr x \<Rightarrow> map_sum id (\<lambda>rest. (case x of None \<Rightarrow> [] | Some f \<Rightarrow> [f]) @ rest) (all_firing cid as))"

definition unreachable_class :: "exn \<Rightarrow> bool" where
  "unreachable_class e \<longleftrightarrow> exn_class e \<in> {''URLError'', ''HTTPError'', ''TimeoutError''}"

definition parse_alerts :: "string \<Rightarrow> json_text \<Rightarrow> exn + firing list" where
  "parse_alerts cid payload =
     (case payload of
        Bad_Json _ \<Rightarrow> Inl (Exn ''JSONDecodeError'' ''invalid JSON'')
      | Json (JArr as) \<Rightarrow> all_firing cid as
      | Json _ \<Rightarrow> Inl (TypeError ''alerts are not a list''))"

definition list_firing_for_cluster :: "'w net \<Rightarrow> settings \<Rightarrow> string \<Rightarrow> ('w sys, firing list) io" where
  "list_firing_for_cluster N cfg cid =
     bnd (asks (\<lambda>s. monitoring_url cfg cid (sess s))) (\<lambda>url.
     case url of
       None \<Rightarrow> ret []
     | Some u \<Rightarrow>
         bnd (catch (bnd (on_wld (net_get N (u @ ''/api/v2/alerts?active=true&silenced=false&inhibited=false'') 5)) (\<lambda>r. ret (Some (snd r))))
                (\<lambda>e. if unreachable_class e then ret None else raise e)) (\<lambda>payload.
         case payload of None \<Rightarrow> ret [] | Some p \<Rightarrow> lift (parse_alerts cid p)))"

definition alertmanager_reachable :: "'w net \<Rightarrow> settings \<Rightarrow> string \<Rightarrow> ('w sys, bool \<times> string option) io" where
  "alertmanager_reachable N cfg cid =
     bnd (asks (\<lambda>s. monitoring_url cfg cid (sess s))) (\<lambda>url.
     case url of
       None \<Rightarrow> ret (False, None)
     | Some u \<Rightarrow> catch (bnd (on_wld (net_get N (u @ ''/-/healthy'') 3)) (\<lambda>r. ret (fst r = 200, Some u)))
                    (\<lambda>_. ret (False, Some u)))"

definition list_firing :: "'w net \<Rightarrow> settings \<Rightarrow> string \<Rightarrow> ('w sys, firing list \<times> string option \<times> bool) io" where
  "list_firing N cfg cid =
     bnd (asks sess) (\<lambda>d.
     if \<not> cluster_exists d cid then raise no_cluster
     else bnd (alertmanager_reachable N cfg cid) (\<lambda>(reachable, am_url).
          bnd (if reachable then list_firing_for_cluster N cfg cid else ret []) (\<lambda>raw.
          ret (raw, am_url, reachable))))"

section \<open>Incidents\<close>

definition is_live :: "firing list \<Rightarrow> incident \<Rightarrow> bool" where
  "is_live live x \<longleftrightarrow> ai_fingerprint x \<noteq> [] \<and> list_ex (\<lambda>f. fi_fingerprint f = JStr (ai_fingerprint x)) live"

definition stale_incident :: "string \<Rightarrow> firing list \<Rightarrow> incident \<Rightarrow> bool" where
  "stale_incident cid live x \<longleftrightarrow> ai_cluster_id x = Some cid \<and> ai_status x = ''firing'' \<and> \<not> is_live live x"

definition resolved_now :: "int \<Rightarrow> incident \<Rightarrow> incident" where
  "resolved_now now x = x\<lparr>ai_status := ''resolved'',
     ai_resolved_at := (case ai_resolved_at x of None \<Rightarrow> Some now | Some t \<Rightarrow> Some t), ai_last_seen_at := now\<rparr>"

definition reconcile :: "int \<Rightarrow> string \<Rightarrow> firing list \<Rightarrow> incident list \<Rightarrow> incident list" where
  "reconcile now cid live xs = map (\<lambda>x. if stale_incident cid live x then resolved_now now x else x) xs"

definition reconcile_incidents :: "'w net \<Rightarrow> settings \<Rightarrow> int \<Rightarrow> string \<Rightarrow> ('w sys, unit) io" where
  "reconcile_incidents N cfg now cid =
     ignore (bnd (alertmanager_reachable N cfg cid) (\<lambda>(reachable, _).
       if \<not> reachable then ret ()
       else bnd (list_firing_for_cluster N cfg cid) (\<lambda>live.
            bnd (asks (\<lambda>s. list_ex (stale_incident cid live) (incidents (sess s)))) (\<lambda>changed.
            if changed then seqm (upd_sess (\<lambda>d. d\<lparr>incidents := reconcile now cid live (incidents d)\<rparr>)) commit
            else ret ()))))"

definition list_incidents :: "'w net \<Rightarrow> settings \<Rightarrow> int \<Rightarrow> string \<Rightarrow> nat \<Rightarrow> string option \<Rightarrow> ('w sys, incident list) io" where
  "list_incidents N cfg now cid limit status =
     seqm (reconcile_incidents N cfg now cid)
    (bnd (asks (\<lambda>s. filter (\<lambda>x. ai_cluster_id x = Some cid \<and> (if str_true status then ai_status x = the status else True))
                     (incidents (sess s)))) (\<lambda>rows.
     ret (take limit (sort_key (\<lambda>x. - ai_last_seen_at x) rows))))"

section \<open>The webhook\<close>

definition parse_iso :: "alert_lib \<Rightarrow> json \<Rightarrow> exn + int option" where
  "parse_iso L v =
     (if \<not> truthy v then Inr None
      else case v of
        JStr s \<Rightarrow> Inr (lib_iso L (replace_char CHR ''Z'' ''+00:00'' s))
      | _ \<Rightarrow> Inl (Exn ''AttributeError'' ''object has no attribute replace''))"

definition synthesize_fingerprint :: "alert_lib \<Rightarrow> (string \<times> json) list \<Rightarrow> string" where
  "synthesize_fingerprint L labels = lib_sha1 L (join ''|'' (map (\<lambda>(k, v). k @ ''='' @ py_str L v) (sort_key fst labels)))"

text \<open>A label or annotation, which is a text or missing.\<close>

definition text_field :: "(string \<times> json) list \<Rightarrow> string \<Rightarrow> exn + string option" where
  "text_field d k = (case jget d k of JNull \<Rightarrow> Inr None | JStr s \<Rightarrow> Inr (Some s) | _ \<Rightarrow> Inl (TypeError ''label is not a text''))"

record alert =
  at_fingerprint :: string
  at_resolved :: bool
  at_cluster_id :: "string option"
  at_rule_id :: "string option"
  at_alert_name :: string
  at_severity :: string
  at_summary :: "string option"
  at_description :: "string option"
  at_starts :: json
  at_ends :: json

fun bind :: "exn + 'a \<Rightarrow> ('a \<Rightarrow> exn + 'b) \<Rightarrow> exn + 'b" where
  "bind (Inl e) k = Inl e"
| "bind (Inr x) k = k x"

definition read_alert :: "alert_lib \<Rightarrow> json \<Rightarrow> exn + alert" where
  "read_alert L v =
     bind (as_dict v) (\<lambda>a.
     bind (get_dict a ''labels'') (\<lambda>labels.
     bind (get_dict a ''annotations'') (\<lambda>ann.
     bind (text_field labels ''tantor_cluster_id'') (\<lambda>cid.
     bind (text_field labels ''tantor_rule_id'') (\<lambda>rid.
     bind (text_field labels ''alertname'') (\<lambda>name.
     bind (text_field labels ''severity'') (\<lambda>sev.
     bind (text_field ann ''summary'') (\<lambda>summ.
     bind (text_field ann ''description'') (\<lambda>desc.
     bind (if truthy (jget a ''fingerprint'') then as_text (jget a ''fingerprint'') else Inr (synthesize_fingerprint L labels)) (\<lambda>fp.
     Inr \<lparr>at_fingerprint = fp, at_resolved = (jget a ''status'' = JStr ''resolved''), at_cluster_id = cid, at_rule_id = rid,
          at_alert_name = or_old name ''unknown'', at_severity = or_old sev ''warning'',
          at_summary = summ, at_description = desc, at_starts = jget a ''startsAt'', at_ends = jget a ''endsAt''\<rparr>))))))))))"

definition new_incident :: "alert_lib \<Rightarrow> string \<Rightarrow> int \<Rightarrow> alert \<Rightarrow> exn + incident" where
  "new_incident L i now a =
     bind (parse_iso L (at_starts a)) (\<lambda>started.
     bind (if at_resolved a then parse_iso L (at_ends a) else Inr None) (\<lambda>resolved.
     Inr \<lparr>ai_id = i, ai_fingerprint = at_fingerprint a, ai_cluster_id = at_cluster_id a, ai_rule_id = at_rule_id a,
          ai_alert_name = at_alert_name a, ai_severity = at_severity a,
          ai_status = (if at_resolved a then ''resolved'' else ''firing''),
          ai_summary = at_summary a, ai_description = at_description a,
          ai_started_at = or_old started now, ai_resolved_at = resolved, ai_last_seen_at = now\<rparr>))"

definition seen_again :: "alert_lib \<Rightarrow> int \<Rightarrow> alert \<Rightarrow> incident \<Rightarrow> exn + incident" where
  "seen_again L now a x =
     bind (if at_resolved a \<and> ai_resolved_at x = None
           then map_sum id (\<lambda>t. Some (or_old t now)) (parse_iso L (at_ends a)) else Inr (ai_resolved_at x)) (\<lambda>resolved.
     Inr (x\<lparr>ai_status := (if at_resolved a then ''resolved'' else ''firing''), ai_last_seen_at := now, ai_resolved_at := resolved\<rparr>))"

text \<open>\<open>known\<close> are the incidents in the database when the request began: rows added by it are not found again.\<close>

definition record_alert :: "alert_lib \<Rightarrow> incident list \<Rightarrow> (nat \<Rightarrow> string) \<Rightarrow> int \<Rightarrow> nat \<times> json \<Rightarrow> ('w sys, unit) io" where
  "record_alert L known ids now = (\<lambda>(n, v).
     bnd (lift (read_alert L v)) (\<lambda>a.
     case List.find (\<lambda>x. ai_fingerprint x = at_fingerprint a) known of
       None \<Rightarrow> bnd (lift (new_incident L (ids n) now a)) (\<lambda>x. upd_sess (\<lambda>d. d\<lparr>incidents := incidents d @ [x]\<rparr>))
     | Some k \<Rightarrow>
         bnd (asks (\<lambda>s. List.find (\<lambda>x. ai_id x = ai_id k) (incidents (sess s)))) (\<lambda>cur.
         case cur of None \<Rightarrow> ret ()
         | Some x \<Rightarrow> bnd (lift (seen_again L now a x)) (\<lambda>x'. upd_sess (\<lambda>d. d\<lparr>incidents := upd_by ai_id (ai_id k) (\<lambda>_. x') (incidents d)\<rparr>)))))"

definition receive_alertmanager_webhook :: "alert_lib \<Rightarrow> (nat \<Rightarrow> string) \<Rightarrow> int \<Rightarrow> (string \<times> json) list \<Rightarrow> ('w sys, int) io" where
  "receive_alertmanager_webhook L ids now payload =
     bnd (lift (case jget_default payload ''alerts'' (JArr []) of JArr as \<Rightarrow> Inr as | _ \<Rightarrow> Inl (TypeError ''alerts are not a list''))) (\<lambda>as.
     bnd (asks (\<lambda>s. incidents (sess s))) (\<lambda>known.
     bnd (for_each (record_alert L known ids now) (enumerate 0 as)) (\<lambda>done_alerts.
     seqm commit (ret (int (length done_alerts))))))"

section \<open>Channels\<close>

record channel_response =
  cp_id :: string
  cp_name :: string
  cp_kind :: string
  cp_enabled :: bool
  cp_config_redacted :: "(string \<times> json) list"
  cp_created_at :: int
  cp_updated_at :: int

definition to_channel_response :: "alert_lib \<Rightarrow> fernet \<Rightarrow> notification_channel \<Rightarrow> channel_response" where
  "to_channel_response L F ch =
     \<lparr>cp_id = nc_id ch, cp_name = nc_name ch, cp_kind = nc_kind ch, cp_enabled = nc_enabled ch,
      cp_config_redacted = redact_channel_config L (decrypt_channel_config F (nc_encrypted_config ch)),
      cp_created_at = nc_created_at ch, cp_updated_at = nc_updated_at ch\<rparr>"

definition list_channels :: "alert_lib \<Rightarrow> fernet \<Rightarrow> ('w sys, channel_response list) io" where
  "list_channels L F = asks (\<lambda>s. map (to_channel_response L F)
     (sort_key (\<lambda>c. - nc_created_at c) (notification_channels (sess s))))"

definition required_keys :: "(string \<times> string list) list" where
  "required_keys = [(''slack'', [''webhook_url'']), (''webhook'', [''url'']),
     (''email'', [''smtp_host'', ''from_addr'', ''to_addrs'']), (''tantor_internal'', [])]"

definition validate_channel_config :: "string \<Rightarrow> (string \<times> json) list \<Rightarrow> exn option" where
  "validate_channel_config kind config =
     (case map_of required_keys kind of
        None \<Rightarrow> Some (HTTPException 400 (''Unsupported channel kind: '' @ kind))
      | Some ks \<Rightarrow>
          (case List.find (\<lambda>k. \<not> truthy (jget config k)) ks of
             None \<Rightarrow> None
           | Some k \<Rightarrow> Some (HTTPException 400 (kind @ '' channel requires '' @ k))))"

record channel_create =
  xc_name :: string
  xc_kind :: string
  xc_enabled :: bool
  xc_config :: "(string \<times> json) list"

definition no_channel :: exn where "no_channel = HTTPException 404 ''Channel not found''"

definition create_channel :: "'w remote \<Rightarrow> settings \<Rightarrow> alert_lib \<Rightarrow> fernet \<Rightarrow> string \<Rightarrow> int \<Rightarrow> channel_create \<Rightarrow>
    ('w sys, channel_response) io" where
  "create_channel R cfg L F i now x =
     bnd (asks sess) (\<lambda>d.
     if list_ex (\<lambda>c. nc_name c = xc_name x) (notification_channels d)
     then raise (HTTPException 400 (''Channel name already in use: '' @ xc_name x))
     else (case validate_channel_config (xc_kind x) (xc_config x) of
             Some e \<Rightarrow> raise e
           | None \<Rightarrow>
               let ch = \<lparr>nc_id = i, nc_name = xc_name x, nc_kind = xc_kind x,
                         nc_encrypted_config = encrypt_channel_config F (xc_config x), nc_enabled = xc_enabled x,
                         nc_created_at = now, nc_updated_at = now\<rparr> in
               seqm (upd_sess (\<lambda>d. d\<lparr>notification_channels := notification_channels d @ [ch]\<rparr>))
              (seqm commit
              (seqm (trigger_reload_all R cfg L F) (ret (to_channel_response L F ch))))))"

record channel_update =
  yc_name :: "string option"
  yc_enabled :: "bool option"
  yc_config :: "(string \<times> json) list option"

text \<open>\<open>{**a, **b}\<close>\<close>

definition merged :: "(string \<times> json) list \<Rightarrow> (string \<times> json) list \<Rightarrow> (string \<times> json) list" where
  "merged a b = foldl (\<lambda>d (k, v). AList.update k v d) a b"

definition changed_channel :: "fernet \<Rightarrow> int \<Rightarrow> channel_update \<Rightarrow> notification_channel \<Rightarrow> exn + notification_channel" where
  "changed_channel F now x ch =
     (let ch1 = ch\<lparr>nc_name := or_old (yc_name x) (nc_name ch), nc_enabled := or_old (yc_enabled x) (nc_enabled ch)\<rparr>;
          stamp = (\<lambda>c. if c = ch then ch else c\<lparr>nc_updated_at := now\<rparr>) in
      case yc_config x of
        None \<Rightarrow> Inr (stamp ch1)
      | Some new \<Rightarrow>
          let m = merged (decrypt_channel_config F (nc_encrypted_config ch)) new in
          (case validate_channel_config (nc_kind ch) m of
             Some e \<Rightarrow> Inl e
           | None \<Rightarrow> Inr (stamp (ch1\<lparr>nc_encrypted_config := encrypt_channel_config F m\<rparr>))))"

text \<open>The names of channels are unique in the database, which a commit checks.\<close>

definition names_unique :: "tables \<Rightarrow> bool" where
  "names_unique d = distinct (map nc_name (notification_channels d))"

definition update_channel :: "'w remote \<Rightarrow> settings \<Rightarrow> alert_lib \<Rightarrow> fernet \<Rightarrow> int \<Rightarrow> string \<Rightarrow> channel_update \<Rightarrow>
    ('w sys, channel_response) io" where
  "update_channel R cfg L F now i x =
     bnd (asks (\<lambda>s. List.find (\<lambda>c. nc_id c = i) (notification_channels (sess s)))) (\<lambda>found.
     case found of
       None \<Rightarrow> raise no_channel
     | Some ch \<Rightarrow>
         bnd (lift (changed_channel F now x ch)) (\<lambda>ch'.
         seqm (upd_sess (\<lambda>d. d\<lparr>notification_channels := upd_by nc_id i (\<lambda>_. ch') (notification_channels d)\<rparr>))
        (bnd (asks (\<lambda>s. names_unique (sess s))) (\<lambda>ok.
         if \<not> ok then raise (Exn ''IntegrityError'' ''UNIQUE constraint failed: notification_channels.name'')
         else seqm commit (seqm (trigger_reload_all R cfg L F) (ret (to_channel_response L F ch')))))))"

definition delete_channel :: "'w remote \<Rightarrow> settings \<Rightarrow> alert_lib \<Rightarrow> fernet \<Rightarrow> string \<Rightarrow> ('w sys, string) io" where
  "delete_channel R cfg L F i =
     bnd (asks (\<lambda>s. List.find (\<lambda>c. nc_id c = i) (notification_channels (sess s)))) (\<lambda>found.
     if found = None then raise no_channel
     else seqm (upd_sess (\<lambda>d. d\<lparr>notification_channels := filter (\<lambda>c. nc_id c \<noteq> i) (notification_channels d)\<rparr>))
         (seqm commit
         (seqm (trigger_reload_all R cfg L F) (ret ''Channel deleted''))))"

section \<open>Testing a channel\<close>

record test_request =
  tr_severity :: string
  tr_summary :: string
  tr_description :: string

definition need_text :: "(string \<times> json) list \<Rightarrow> string \<Rightarrow> exn + string" where
  "need_text d k = (case map_of d k of None \<Rightarrow> Inl (KeyError (sq @ k @ sq)) | Some v \<Rightarrow> as_text v)"

definition json_type :: "string \<times> string" where
  "json_type = (''Content-Type'', ''application/json'')"

definition post_json :: "'w net \<Rightarrow> string \<Rightarrow> json \<Rightarrow> (string \<times> string) list \<Rightarrow> ('w sys, unit) io" where
  "post_json N url body headers =
     bnd (on_wld (net_post N url body headers)) (\<lambda>st.
     if 400 \<le> st then raise (RuntimeError (''HTTP '' @ show_int st @ '' from '' @ url)) else ret ())"

definition test_mail :: "(string \<times> json) list \<Rightarrow> test_request \<Rightarrow> exn + mail" where
  "test_mail cfg x =
     bind (need_text cfg ''from_addr'') (\<lambda>from_addr.
     bind (case map_of cfg ''to_addrs'' of None \<Rightarrow> Inl (KeyError (sq @ ''to_addrs'' @ sq)) | Some v \<Rightarrow> join_json '', '' v) (\<lambda>to_addrs.
     bind (py_int (jget_default cfg ''smtp_port'' (JInt 587))) (\<lambda>port.
     bind (need_text cfg ''smtp_host'') (\<lambda>smtp_host.
     bind (if truthy (jget cfg ''smtp_user'')
           then bind (as_text (jget cfg ''smtp_user'')) (\<lambda>u.
                bind (as_text (jget_default cfg ''smtp_password'' (JStr []))) (\<lambda>pw. Inr (Some (u, pw))))
           else Inr None) (\<lambda>login.
     Inr \<lparr>ma_host = smtp_host, ma_port = port, ma_starttls = truthy (jget_default cfg ''require_tls'' (JBool True)),
          ma_login = login, ma_subject = ''[Tantor '' @ tr_severity x @ ''] '' @ tr_summary x, ma_from = from_addr, ma_to = to_addrs,
          ma_content = tr_summary x @ nl @ nl @ tr_description x @ nl @ nl @ em_dash @ '' Tantor test notification''\<rparr>)))))"

text \<open>The alert that is sent to the own webhook; \<open>stamp\<close> is the current time as \<open>isoformat()\<close> writes it.\<close>

definition test_alert :: "string \<Rightarrow> int \<Rightarrow> string \<Rightarrow> test_request \<Rightarrow> (string \<times> json) list" where
  "test_alert i now stamp x =
     [(''alerts'', JArr [JObj
        [(''fingerprint'', JStr (''test-'' @ i @ ''-'' @ show_int now)),
         (''status'', JStr ''firing''),
         (''labels'', JObj [(''alertname'', JStr ''TantorChannelTest''), (''severity'', JStr (tr_severity x))]),
         (''annotations'', JObj [(''summary'', JStr (tr_summary x)), (''description'', JStr (tr_description x))]),
         (''startsAt'', JStr stamp)]])]"

definition send_test_through_channel :: "'w net \<Rightarrow> alert_lib \<Rightarrow> (nat \<Rightarrow> string) \<Rightarrow> int \<Rightarrow> string \<Rightarrow> notification_channel \<Rightarrow>
    (string \<times> json) list \<Rightarrow> test_request \<Rightarrow> ('w sys, unit) io" where
  "send_test_through_channel N L ids now stamp ch cfg x =
     (if nc_kind ch = ''slack'' then
        bnd (lift (need_text cfg ''webhook_url'')) (\<lambda>url.
        post_json N url (JObj [(''text'', JStr (''*['' @ upper (tr_severity x) @ ''] '' @ tr_summary x @ ''*'' @ nl @ tr_description x))]) [json_type])
      else if nc_kind ch = ''webhook'' then
        bnd (if truthy (jget cfg ''auth_header'') then lift (map_sum id Some (as_text (jget cfg ''auth_header''))) else ret None) (\<lambda>auth.
        bnd (lift (need_text cfg ''url'')) (\<lambda>url.
        post_json N url (JObj [(''severity'', JStr (tr_severity x)), (''summary'', JStr (tr_summary x)),
                               (''description'', JStr (tr_description x)), (''test'', JBool True)])
          (json_type # (case auth of None \<Rightarrow> [] | Some a \<Rightarrow> [(''Authorization'', a)]))))
      else if nc_kind ch = ''email'' then
        bnd (lift (test_mail cfg x)) (\<lambda>m. on_wld (net_mail N m))
      else if nc_kind ch = ''tantor_internal'' then
        seqm (receive_alertmanager_webhook L ids now (test_alert (nc_id ch) now stamp x)) (ret ())
      else ret ())"

definition test_channel :: "'w net \<Rightarrow> alert_lib \<Rightarrow> fernet \<Rightarrow> (nat \<Rightarrow> string) \<Rightarrow> int \<Rightarrow> string \<Rightarrow> string \<Rightarrow> test_request \<Rightarrow>
    ('w sys, bool \<times> string) io" where
  "test_channel N L F ids now stamp i x =
     bnd (asks (\<lambda>s. List.find (\<lambda>c. nc_id c = i) (notification_channels (sess s)))) (\<lambda>found.
     case found of
       None \<Rightarrow> raise no_channel
     | Some ch \<Rightarrow>
         catch (bnd (send_test_through_channel N L ids now stamp ch (decrypt_channel_config F (nc_encrypted_config ch)) x)
                  (\<lambda>_. ret (True, ''Test notification sent via '' @ nc_kind ch)))
           (\<lambda>e. ret (False, exn_class e @ '': '' @ exn_str e)))"

section \<open>What the webhook records\<close>

text \<open>The alerts a known incident is seen in, one after the other.\<close>

primrec seen_in :: "alert_lib \<Rightarrow> int \<Rightarrow> alert list \<Rightarrow> incident \<Rightarrow> exn + incident" where
  "seen_in L now [] x = Inr x"
| "seen_in L now (a # as) x =
     (if at_fingerprint a = ai_fingerprint x then bind (seen_again L now a x) (seen_in L now as) else seen_in L now as x)"

definition is_known :: "incident list \<Rightarrow> alert \<Rightarrow> bool" where
  "is_known known a \<longleftrightarrow> list_ex (\<lambda>x. ai_fingerprint x = at_fingerprint a) known"

definition first_seen :: "alert_lib \<Rightarrow> incident list \<Rightarrow> (nat \<Rightarrow> string) \<Rightarrow> int \<Rightarrow> nat \<Rightarrow> alert list \<Rightarrow> (exn + incident) list" where
  "first_seen L known ids now n alerts =
     List.map_filter (\<lambda>(i, a). if is_known known a then None else Some (new_incident L (ids i) now a)) (enumerate n alerts)"

lemma bind_InrE: "bind m k = Inr y \<Longrightarrow> (\<And>x. m = Inr x \<Longrightarrow> k x = Inr y \<Longrightarrow> thesis) \<Longrightarrow> thesis"
  by (cases m) auto

lemma seen_again_keeps: "seen_again L now a x = Inr x' \<Longrightarrow> ai_id x' = ai_id x \<and> ai_fingerprint x' = ai_fingerprint x"
  by (auto simp: seen_again_def elim!: bind_InrE)

lemma find_map_id: "distinct (map ai_id known) \<Longrightarrow> k \<in> set known \<Longrightarrow> (\<And>x. ai_id (f x) = ai_id x) \<Longrightarrow>
    List.find (\<lambda>x. ai_id x = ai_id k) (map f known @ rows) = Some (f k)"
  by (induction known) (auto simp: rev_image_eqI)

lemma upd_known: "distinct (map ai_id known) \<Longrightarrow> k \<in> set known \<Longrightarrow> (\<And>x. ai_id (f x) = ai_id x) \<Longrightarrow>
    \<forall>r\<in>set rows. ai_id r \<noteq> ai_id k \<Longrightarrow>
    upd_by ai_id (ai_id k) (\<lambda>_. x') (map f known @ rows) = map (f(k := x')) known @ rows"
  by (auto simp: upd_by_def intro!: map_idI) (metis distinct_map inj_onD)

lemma find_known: "distinct (map ai_fingerprint known) \<Longrightarrow> List.find (\<lambda>x. ai_fingerprint x = at_fingerprint a) known = Some k \<Longrightarrow>
    k \<in> set known \<and> at_fingerprint a = ai_fingerprint k \<and>
    (\<forall>x\<in>set known. at_fingerprint a = ai_fingerprint x \<longrightarrow> x = k)"
  by (drule find_Some_iff_first) (auto dest: inj_onD simp: distinct_map)

lemma find_unknown: "List.find (\<lambda>x. ai_fingerprint x = at_fingerprint a) known = None \<longleftrightarrow> \<not> is_known known a"
  by (auto simp: is_known_def list_ex_iff find_None_iff)

lemma record_alert_run:
  assumes run: "record_alert L known ids now (n, v) s = (r, t)"
    and ids: "distinct (map ai_id known)" and fps: "distinct (map ai_fingerprint known)"
    and rows: "incidents (sess s) = map f known @ rows" and f: "\<And>x. ai_id (f x) = ai_id x"
    and new: "\<forall>x\<in>set rows. ai_id x \<notin> ai_id ` set known"
  shows "case r of Inl e \<Rightarrow> t = s | Inr _ \<Rightarrow>
     (case read_alert L v of Inl e \<Rightarrow> False | Inr a \<Rightarrow>
       (if is_known known a
        then \<exists>k x'. k \<in> set known \<and> at_fingerprint a = ai_fingerprint k \<and>
               (\<forall>x\<in>set known. at_fingerprint a = ai_fingerprint x \<longrightarrow> x = k) \<and> seen_again L now a (f k) = Inr x' \<and>
               t = s\<lparr>sess := (sess s)\<lparr>incidents := map (f(k := x')) known @ rows\<rparr>\<rparr>
        else \<exists>x. new_incident L (ids n) now a = Inr x \<and>
               t = s\<lparr>sess := (sess s)\<lparr>incidents := map f known @ rows @ [x]\<rparr>\<rparr>))"
proof (cases "read_alert L v")
  case (Inl e)
  then show ?thesis using run by (auto simp: record_alert_def)
next
  case (Inr a)
  show ?thesis
  proof (cases "is_known known a")
    case False
    then have "List.find (\<lambda>x. ai_fingerprint x = at_fingerprint a) known = None" by (simp add: find_unknown)
    with run Inr have "bnd (lift (new_incident L (ids n) now a)) (\<lambda>x. upd_sess (\<lambda>d. d\<lparr>incidents := incidents d @ [x]\<rparr>)) s = (r, t)"
      by (simp add: record_alert_def)
    then show ?thesis using Inr False rows
      by (cases "new_incident L (ids n) now a") (auto simp: upd_sess_def)
  next
    case True
    then obtain k where k: "List.find (\<lambda>x. ai_fingerprint x = at_fingerprint a) known = Some k"
      using find_unknown[of a known] by auto
    note known_k = find_known[OF fps k]
    have cur: "List.find (\<lambda>x. ai_id x = ai_id k) (incidents (sess s)) = Some (f k)"
      unfolding rows by (rule find_map_id[OF ids conjunct1[OF known_k] f])
    have upd: "upd_by ai_id (ai_id k) (\<lambda>_. x') (incidents (sess s)) = map (f(k := x')) known @ rows" for x'
      unfolding rows using new known_k by (intro upd_known[OF ids _ f]) auto
    have step: "bnd (lift (seen_again L now a (f k)))
        (\<lambda>x'. upd_sess (\<lambda>d. d\<lparr>incidents := upd_by ai_id (ai_id k) (\<lambda>_. x') (incidents d)\<rparr>)) s = (r, t)"
      using run Inr k cur by (simp add: record_alert_def bnd_Inr[OF asks_run])
    show ?thesis
    proof (cases "seen_again L now a (f k)")
      fix e assume "seen_again L now a (f k) = Inl e"
      with step show ?thesis by auto
    next
      fix x' assume x': "seen_again L now a (f k) = Inr x'"
      from step have "(Inr (), s\<lparr>sess := (sess s)\<lparr>incidents := map (f(k := x')) known @ rows\<rparr>\<rparr>) = (r, t)"
        by (simp only: x' lift_Inr ret_bnd upd_sess_def modify_run upd)
      then have "r = Inr ()" and t: "t = s\<lparr>sess := (sess s)\<lparr>incidents := map (f(k := x')) known @ rows\<rparr>\<rparr>"
        by (simp_all only: prod.inject)
      moreover have "\<exists>k x'. k \<in> set known \<and> at_fingerprint a = ai_fingerprint k \<and>
               (\<forall>x\<in>set known. at_fingerprint a = ai_fingerprint x \<longrightarrow> x = k) \<and> seen_again L now a (f k) = Inr x' \<and>
               t = s\<lparr>sess := (sess s)\<lparr>incidents := map (f(k := x')) known @ rows\<rparr>\<rparr>"
        using known_k x' t by blast
      ultimately show ?thesis by (simp only: Inr True sum.case if_True)
    qed
  qed
qed

lemma record_alerts_run:
  assumes "for_each (record_alert L known ids now) (enumerate n as) s = (r, t)"
    and "distinct (map ai_id known)" and "distinct (map ai_fingerprint known)" and "\<And>i. ids i \<notin> ai_id ` set known"
    and "incidents (sess s) = map f known @ rows"
    and "\<And>x. ai_id (f x) = ai_id x" and "\<And>x. ai_fingerprint (f x) = ai_fingerprint x"
    and "\<forall>x\<in>set rows. ai_id x \<notin> ai_id ` set known"
  shows "committed t = committed s \<and> tasks t = tasks s \<and> wld t = wld s \<and>
    (case r of Inl e \<Rightarrow> True | Inr ys \<Rightarrow>
       (\<exists>alerts g new. map (read_alert L) as = map Inr alerts \<and> length ys = length alerts \<and>
          (\<forall>k\<in>set known. seen_in L now alerts (f k) = Inr (g k)) \<and>
          first_seen L known ids now n alerts = map Inr new \<and>
          sess t = (sess s)\<lparr>incidents := map g known @ rows @ new\<rparr>))"
  using assms
proof (induction as arbitrary: n s f rows r)
  case Nil
  then show ?case by (auto simp: first_seen_def intro!: exI[of _ f])
next
  case (Cons v as)
  obtain r1 s1 where one: "record_alert L known ids now (n, v) s = (r1, s1)" by (cases "record_alert L known ids now (n, v) s")
  note step = record_alert_run[OF one Cons.prems(2,3,5,6,8)]
  show ?case
  proof (cases r1)
    case (Inl e)
    then show ?thesis using Cons.prems(1) one step by (auto simp: bnd_run)
  next
    case (Inr u)
    obtain r2 where rest: "for_each (record_alert L known ids now) (enumerate (Suc n) as) s1 = (r2, t)"
      and r: "r = map_sum id (\<lambda>ys. u # ys) r2"
      using Cons.prems(1) one Inr by (cases "for_each (record_alert L known ids now) (enumerate (Suc n) as) s1")
        (auto simp: bnd_run split: sum.splits)
    from step Inr obtain a where a: "read_alert L v = Inr a" by (cases "read_alert L v") auto
    show ?thesis
    proof (cases "is_known known a")
      case False
      with step Inr a obtain x where x: "new_incident L (ids n) now a = Inr x"
        and s1: "s1 = s\<lparr>sess := (sess s)\<lparr>incidents := map f known @ rows @ [x]\<rparr>\<rparr>" by auto
      have "ai_id x = ids n" using x by (auto simp: new_incident_def elim!: bind_InrE)
      then have "\<forall>x\<in>set (rows @ [x]). ai_id x \<notin> ai_id ` set known" using Cons.prems(4,8) by auto
      note ih = Cons.IH[OF rest Cons.prems(2,3,4) _ Cons.prems(6,7) this]
      show ?thesis
      proof (cases r2)
        case (Inl e)
        with ih s1 show ?thesis by (simp add: r)
      next
        case (Inr ys)
        with ih s1 obtain alerts g new where ih': "map (read_alert L) as = map Inr alerts" "length ys = length alerts"
          "\<forall>k\<in>set known. seen_in L now alerts (f k) = Inr (g k)" "first_seen L known ids now (Suc n) alerts = map Inr new"
          "sess t = (sess s)\<lparr>incidents := map g known @ rows @ x # new\<rparr>"
          "committed t = committed s" "tasks t = tasks s" "wld t = wld s" by auto
        have "\<forall>k\<in>set known. seen_in L now (a # alerts) (f k) = Inr (g k)"
          using False ih'(3) Cons.prems(7) by (auto simp: is_known_def list_ex_iff)
        moreover have "first_seen L known ids now n (a # alerts) = map Inr (x # new)"
          using False x ih'(4) by (simp add: first_seen_def)
        ultimately have "\<exists>alerts' g' new'. map (read_alert L) (v # as) = map Inr alerts' \<and> length (u # ys) = length alerts' \<and>
            (\<forall>k\<in>set known. seen_in L now alerts' (f k) = Inr (g' k)) \<and> first_seen L known ids now n alerts' = map Inr new' \<and>
            sess t = (sess s)\<lparr>incidents := map g' known @ rows @ new'\<rparr>"
          using ih'(1,2,5) a by (intro exI[of _ "a # alerts"] exI[of _ g] exI[of _ "x # new"]) simp
        then show ?thesis using ih'(6-8) by (simp add: r Inr)
      qed
    next
      case True
      from step[unfolded Inr a] True obtain k x' where k: "k \<in> set known" "at_fingerprint a = ai_fingerprint k"
        "\<forall>x\<in>set known. at_fingerprint a = ai_fingerprint x \<longrightarrow> x = k" and x': "seen_again L now a (f k) = Inr x'"
        and s1: "s1 = s\<lparr>sess := (sess s)\<lparr>incidents := map (f(k := x')) known @ rows\<rparr>\<rparr>"
        by (simp only: sum.case if_True) (elim exE conjE, rule that)
      have f': "ai_id ((f(k := x')) y) = ai_id y" "ai_fingerprint ((f(k := x')) y) = ai_fingerprint y" for y
        using seen_again_keeps[OF x'] Cons.prems(6,7) by auto
      have "incidents (sess s1) = map (f(k := x')) known @ rows" unfolding s1 by simp
      note ih = Cons.IH[OF rest Cons.prems(2,3,4) this f' Cons.prems(8)]
      have frame: "committed s1 = committed s" "tasks s1 = tasks s" "wld s1 = wld s" "(sess s1)\<lparr>incidents := xs\<rparr> = (sess s)\<lparr>incidents := xs\<rparr>" for xs
        unfolding s1 by simp_all
      show ?thesis
      proof (cases r2)
        case (Inl e)
        with ih show ?thesis by (simp add: r frame)
      next
        case (Inr ys)
        from ih[unfolded frame Inr sum.case] obtain alerts g new where ih': "map (read_alert L) as = map Inr alerts" "length ys = length alerts"
          "\<forall>y\<in>set known. seen_in L now alerts ((f(k := x')) y) = Inr (g y)" "first_seen L known ids now (Suc n) alerts = map Inr new"
          "sess t = (sess s)\<lparr>incidents := map g known @ rows @ new\<rparr>"
          "committed t = committed s" "tasks t = tasks s" "wld t = wld s" by (elim conjE exE) (rule that)
        have "seen_in L now (a # alerts) (f y) = Inr (g y)" if y: "y \<in> set known" for y
        proof (cases "y = k")
          case True
          with ih'(3) y have "seen_in L now alerts x' = Inr (g k)" by (auto dest: bspec[of _ _ k])
          then show ?thesis using True k(2) Cons.prems(7)[of k] x' by simp
        next
          case False
          with k(3) y have "at_fingerprint a \<noteq> ai_fingerprint y" by blast
          moreover from ih'(3) y have "seen_in L now alerts ((f(k := x')) y) = Inr (g y)" by (rule bspec)
          ultimately show ?thesis using False Cons.prems(7)[of y] by simp
        qed
        moreover have "first_seen L known ids now n (a # alerts) = map Inr new"
          using True ih'(4) by (simp add: first_seen_def)
        ultimately have "\<exists>alerts' g' new'. map (read_alert L) (v # as) = map Inr alerts' \<and> length (u # ys) = length alerts' \<and>
            (\<forall>k\<in>set known. seen_in L now alerts' (f k) = Inr (g' k)) \<and> first_seen L known ids now n alerts' = map Inr new' \<and>
            sess t = (sess s)\<lparr>incidents := map g' known @ rows @ new'\<rparr>"
          using ih'(1,2,5) a by (intro exI[of _ "a # alerts"] exI[of _ g] exI[of _ new]) simp
        then show ?thesis using ih'(6-8) by (simp add: r Inr)
      qed
    qed
  qed
qed

text \<open>The status of a known incident is that of the last alert with its fingerprint.\<close>

definition status_after :: "alert list \<Rightarrow> incident \<Rightarrow> string" where
  "status_after alerts k =
     (case List.find (\<lambda>a. at_fingerprint a = ai_fingerprint k) (rev alerts) of
        None \<Rightarrow> ai_status k | Some a \<Rightarrow> if at_resolved a then ''resolved'' else ''firing'')"

lemma seen_in_status: "seen_in L now alerts k = Inr k' \<Longrightarrow> ai_status k' = status_after alerts k"
proof (induction alerts arbitrary: k)
  case Nil
  then show ?case by (simp add: status_after_def)
next
  case (Cons a alerts)
  show ?case
  proof (cases "at_fingerprint a = ai_fingerprint k")
    case False
    with Cons show ?thesis by (simp add: status_after_def find_append split: option.split)
  next
    case True
    with Cons.prems obtain x where x: "seen_again L now a k = Inr x" and r: "seen_in L now alerts x = Inr k'"
      by (auto elim: bind_InrE)
    have "ai_status x = (if at_resolved a then ''resolved'' else ''firing'')" "ai_fingerprint x = ai_fingerprint k"
      using x by (auto simp: seen_again_def elim!: bind_InrE)
    with Cons.IH[OF r] True show ?thesis by (simp add: status_after_def find_append split: option.split)
  qed
qed

section \<open>What is pushed\<close>

text \<open>
  How a POSIX shell reads one word: single quotes are literal up to the next single quote, an unquoted blank or operator
  ends the word.  Expansions do not occur in the texts considered here and are not modelled (\<open>None\<close>).
\<close>

datatype quoting = Bare | Single | Double

definition sh_break :: "char \<Rightarrow> bool" where
  "sh_break c \<longleftrightarrow> c \<in> set '' ;&|<>()'' \<or> c = CHR 0x0A \<or> c = CHR 0x09"

fun sh_word :: "quoting \<Rightarrow> string \<Rightarrow> (string \<times> string) option" where
  "sh_word q [] = (if q = Bare then Some ([], []) else None)"
| "sh_word Single (c # s) =
     (if c = CHR 0x27 then sh_word Bare s else map_option (\<lambda>(w, r). (c # w, r)) (sh_word Single s))"
| "sh_word Double (c # s) =
     (if c = CHR 0x22 then sh_word Bare s
      else if c = CHR 0x5C \<or> c = CHR 0x24 \<or> c = CHR 0x60 then None
      else map_option (\<lambda>(w, r). (c # w, r)) (sh_word Double s))"
| "sh_word Bare (c # s) =
     (if c = CHR 0x27 then sh_word Single s
      else if c = CHR 0x22 then sh_word Double s
      else if sh_break c then Some ([], c # s)
      else if c = CHR 0x5C \<or> c = CHR 0x24 \<or> c = CHR 0x60 then None
      else map_option (\<lambda>(w, r). (c # w, r)) (sh_word Bare s))"

text \<open>The script that the first \<open>sudo bash -c\<close> of a push gets, with what follows it.\<close>

definition pushed_script :: "string \<Rightarrow> (string \<times> string) option" where
  "pushed_script cmd = sh_word Bare (drop (length push_head) cmd)"

lemma sh_word_Single: "CHR 0x27 \<notin> set a \<Longrightarrow>
    sh_word Single (a @ CHR 0x27 # b) = map_option (\<lambda>(w, r). (a @ w, r)) (sh_word Bare b)"
  by (cases "sh_word Bare b"; induction a) auto

lemma pushed_push: "pushed_script (push_cmd cfg rules_yml am_yml) =
    sh_word Single (rules_script rules_yml @ CHR 0x27 # nl @ nl @ ''sudo bash -c '' @ sq @ am_script am_yml @ sq @ push_tail cfg)"
  by (simp add: pushed_script_def push_cmd_def)

definition no_quote :: "string \<Rightarrow> bool" where
  "no_quote s \<longleftrightarrow> list_all (\<lambda>c. c \<noteq> CHR 0x27) s"

definition quote_free :: "alert_rule \<Rightarrow> bool" where
  "quote_free r \<longleftrightarrow> list_all no_quote [al_id r, al_cluster_id r, al_name r, al_expr r, al_severity r,
     or_str (al_summary r) [], or_str (al_description r) [], or_str (al_channel_ids r) []]"

lemma no_quote_append [simp]: "no_quote (a @ b) \<longleftrightarrow> no_quote a \<and> no_quote b"
  by (simp add: no_quote_def)

lemma no_quote_Cons [simp]: "no_quote (c # s) \<longleftrightarrow> c \<noteq> CHR 0x27 \<and> no_quote s"
  by (simp add: no_quote_def)

lemma no_quote_Nil [simp]: "no_quote []"
  by (simp add: no_quote_def)

lemma no_quote_concat: "no_quote (concat xs) \<longleftrightarrow> list_all no_quote xs"
  by (induction xs) simp_all

lemma no_quote_replace: "no_quote s \<Longrightarrow> no_quote r \<Longrightarrow> no_quote (replace_char c r s)"
  by (auto simp: replace_char_def no_quote_concat list_all_iff no_quote_def)

lemma no_quote_yaml: "no_quote s \<Longrightarrow> no_quote (yaml_quote s)"
  by (simp add: yaml_quote_def no_quote_replace)

lemma no_quote_join: "no_quote sep \<Longrightarrow> list_all no_quote xs \<Longrightarrow> no_quote (join sep xs)"
  by (induction sep xs rule: join.induct) simp_all

lemma no_quote_sub: "no_quote s \<Longrightarrow> set t \<subseteq> set s \<Longrightarrow> no_quote t"
  unfolding no_quote_def list_all_iff by blast

lemma digit_no_quote: "0 \<le> d \<Longrightarrow> d < 10 \<Longrightarrow> digit_char d \<noteq> CHR 0x27"
proof
  assume d: "0 \<le> d" "d < 10" and "digit_char d = CHR 0x27"
  then have "of_char (digit_char d) = (39 :: int)" by simp
  moreover have "of_char (digit_char d) = 48 + d" using d by (simp add: digit_char_def)
  ultimately show False using d by simp
qed

lemma no_quote_show_pos: "0 \<le> n \<Longrightarrow> no_quote (show_pos n)"
proof (induction n rule: show_pos.induct)
  case (1 n)
  then show ?case by (subst show_pos.simps) (simp add: digit_no_quote)
qed

lemma no_quote_show_int: "no_quote (show_int n)"
  by (simp add: show_int_def no_quote_show_pos)

lemma no_quote_duration: "no_quote (seconds_to_duration n)"
  by (simp add: seconds_to_duration_def no_quote_show_int)

lemma no_quote_channel: "no_quote (or_str (al_channel_ids r) []) \<Longrightarrow> no_quote (primary_channel r)"
proof -
  assume a: "no_quote (or_str (al_channel_ids r) [])"
  have "split_on CHR '','' s \<noteq> []" for s by (cases s) (auto split: list.splits)
  then have "set (strip (hd (split_on CHR '','' s))) \<subseteq> set s" for s
    using set_strip set_split_on by (metis hd_in_set subset_trans)
  then have "no_quote (strip (hd (split_on CHR '','' s)))" if "no_quote s" for s using that no_quote_sub by blast
  then show ?thesis using a
    by (cases "al_channel_ids r") (auto simp: primary_channel_def or_str_def str_true_def split: if_splits)
qed

lemma no_quote_rule: "quote_free r \<Longrightarrow> list_all no_quote (rule_lines r)"
  unfolding rule_lines_def quote_free_def
  by (auto simp: no_quote_yaml no_quote_channel no_quote_duration yaml_str_def or_str_def str_true_def split: option.splits if_splits)

lemma no_quote_render: "list_all (\<lambda>r. al_enabled r \<longrightarrow> quote_free r) rules \<Longrightarrow> no_quote (render_prometheus_rules rules)"
proof -
  assume q: "list_all (\<lambda>r. al_enabled r \<longrightarrow> quote_free r) rules"
  have "no_quote x" if "r \<in> set rules" "al_enabled r" "x \<in> set (rule_lines r)" for r x
    using no_quote_rule[of r] q that by (auto simp: list_all_iff)
  then show ?thesis unfolding render_prometheus_rules_def by (auto intro!: no_quote_join simp: list_all_iff)
qed

lemma rules_script_quotes: "no_quote rules_yml \<Longrightarrow> CHR 0x27 \<notin> set (rules_script rules_yml)"
  by (auto simp: rules_script_def no_quote_def list_all_iff)

text \<open>The first script is cut at the first single quote of the rules, if an unquoted blank comes before the next one.\<close>

definition plain_char :: "char \<Rightarrow> bool" where
  "plain_char c \<longleftrightarrow> c \<in> set ''abcdefghijklmnopqrstuvwxyz''"

lemma sh_word_plain: "list_all plain_char b \<Longrightarrow> sh_word Bare (b @ CHR '' '' # c) = Some (b, CHR '' '' # c)"
proof (induction b)
  case Nil
  show ?case by (simp add: sh_break_def)
next
  case (Cons x b)
  then have "x \<noteq> CHR 0x27" "x \<noteq> CHR 0x22" "\<not> sh_break x" "x \<noteq> CHR 0x5C" "x \<noteq> CHR 0x24" "x \<noteq> CHR 0x60"
    by (auto simp: plain_char_def sh_break_def)
  with Cons show ?case by simp
qed

lemma pushed_cut:
  assumes "rules_yml = a @ CHR 0x27 # b @ CHR '' '' # c" and "no_quote a" and "list_all plain_char b"
  shows "\<exists>rest. pushed_script (push_cmd cfg rules_yml am_yml) =
     Some (''cat > /etc/prometheus/rules/tantor.yml << '' @ dq @ ''TANTORRULESEOF'' @ dq @ nl @ a @ b, rest)"
proof -
  let ?head = "''cat > /etc/prometheus/rules/tantor.yml << '' @ dq @ ''TANTORRULESEOF'' @ dq @ nl @ a"
  have q: "CHR 0x27 \<notin> set ?head" using assms(2) by (auto simp: no_quote_def list_all_iff)
  have "\<exists>rest. rules_script rules_yml @ CHR 0x27 # nl @ nl @ ''sudo bash -c '' @ sq @ am_script am_yml @ sq @ push_tail cfg =
      ?head @ CHR 0x27 # b @ CHR '' '' # rest"
    unfolding rules_script_def assms(1) by auto
  then obtain rest where "pushed_script (push_cmd cfg rules_yml am_yml) = sh_word Single (?head @ CHR 0x27 # b @ CHR '' '' # rest)"
    unfolding pushed_push by metis
  then show ?thesis unfolding sh_word_Single[OF q] sh_word_plain[OF assms(3)] by simp
qed

lemma join_around: "join sep (xs @ l # ys) =
    (if xs = [] then [] else join sep xs @ sep) @ l @ (if ys = [] then [] else sep @ join sep ys)"
proof (induction xs rule: induct_list012)
  case 1
  show ?case by (cases ys) simp_all
next
  case (2 x)
  show ?case by (cases ys) simp_all
qed simp_all

lemma replace_char_append: "replace_char c r (x @ y) = replace_char c r x @ replace_char c r y"
  by (simp add: replace_char_def)

lemma replace_char_other: "c \<notin> set x \<Longrightarrow> replace_char c r x = x"
  by (induction x) (auto simp: replace_char_def)

text \<open>A rule whose description has a single quote before a plain word and a blank, after rules without single quotes.\<close>

lemma render_quote:
  assumes "rules = before @ r # after" and "list_all (\<lambda>r. al_enabled r \<longrightarrow> quote_free r) before" and "al_enabled r"
    and "quote_free (r\<lparr>al_description := None\<rparr>)" and "al_description r = Some (a @ CHR 0x27 # b @ CHR '' '' # c)"
    and "no_quote a" and "list_all plain_char b"
  shows "\<exists>pre post. render_prometheus_rules rules = pre @ CHR 0x27 # b @ CHR '' '' # post \<and> no_quote pre"
proof -
  let ?r = "r\<lparr>al_description := None\<rparr>"
  let ?esc = "\<lambda>s. replace_char CHR 0x22 (bslash @ dq) (replace_char CHR 0x5C (bslash @ bslash) s)"
  let ?line = "''          description: '' @ dq @ ?esc a @ CHR 0x27 # b @ CHR '' '' # ?esc c @ dq"
  let ?pre = "[''groups:'', ''  - name: tantor'', ''    rules:''] @ concat (map rule_lines (filter al_enabled before)) @ rule_lines ?r"
  have "\<not> plain_char CHR 0x22" "\<not> plain_char CHR 0x5C" by code_simp+
  then have "CHR 0x22 \<notin> set b" "CHR 0x5C \<notin> set b" using assms(7) by (auto simp: list_all_iff)
  then have b: "?esc b = b" by (simp add: replace_char_other)
  have "rule_lines r = rule_lines ?r @ [?line]"
    using assms(5) b by (simp add: rule_lines_def str_true_def yaml_str_def yaml_quote_def replace_char_append primary_channel_def)
      (simp add: replace_char_def)
  then have "render_prometheus_rules rules = join nl (?pre @ ?line # concat (map rule_lines (filter al_enabled after))) @ nl"
    using assms(3) by (simp add: render_prometheus_rules_def assms(1))
  moreover obtain ls where ls: "ls = ?pre" by simp
  moreover obtain d where d: "d = ''          description: '' @ dq @ ?esc a" by simp
  ultimately have yml: "render_prometheus_rules rules =
      join nl (ls @ (d @ CHR 0x27 # b @ CHR '' '' # ?esc c @ dq) # concat (map rule_lines (filter al_enabled after))) @ nl" by simp
  have "list_all no_quote ls"
    using assms(2) no_quote_rule[OF assms(4)] no_quote_rule unfolding ls by (auto simp: list_all_iff)
  then have "no_quote (join nl ls @ nl @ d)"
    using no_quote_join[of nl ls] assms(6) by (simp add: d no_quote_replace)
  moreover have "ls \<noteq> []" by (simp add: ls)
  ultimately show ?thesis unfolding yml join_around by - (rule exI[of _ "join nl ls @ nl @ d"], simp)
qed

lemma early_templates: "list_all (\<lambda>t. list_all no_quote [te_name t, te_expr t, te_severity t, te_summary t, te_description t])
    (take 3 (map snd RULE_TEMPLATES))"
  by code_simp

section \<open>Properties\<close>

text \<open>
  What the rules file becomes.  If no text of an enabled rule contains a single quote, then the script that the
  root shell of the monitoring host is given is exactly the one that writes the rendered rules, whatever else the
  push command contains.
\<close>

theorem rules_push_exact:
  assumes "list_all (\<lambda>r. al_enabled r \<longrightarrow> quote_free r) rules"
  shows "pushed_script (push_cmd cfg (render_prometheus_rules rules) am_yml) =
     Some (rules_script (render_prometheus_rules rules),
           nl @ nl @ ''sudo bash -c '' @ sq @ am_script am_yml @ sq @ push_tail cfg)"
  unfolding pushed_push sh_word_Single[OF rules_script_quotes[OF no_quote_render[OF assms]]]
  by (simp add: sh_break_def)


lemma seed_rows: "filter (\<lambda>r. al_cluster_id r = cid) (alert_rules (sess s)) = [] \<Longrightarrow>
    filter (\<lambda>r. al_cluster_id r = cid) (alert_rules (committed (snd (seed_default_rules ids now cid s)))) =
    map (\<lambda>(n, t). seeded_rule (ids n) now cid t) (enumerate 0 (map snd RULE_TEMPLATES))"
proof -
  assume none: "filter (\<lambda>r. al_cluster_id r = cid) (alert_rules (sess s)) = []"
  let ?rows = "map (\<lambda>(n, t). seeded_rule (ids n) now cid t) (enumerate 0 (map snd RULE_TEMPLATES))"
  have "?rows \<noteq> []" by (simp add: RULE_TEMPLATES_def)
  moreover have "filter (\<lambda>r. al_cluster_id r = cid) ?rows = ?rows"
    by (auto simp: filter_id_conv seeded_rule_def)
  ultimately show ?thesis using none
    by (auto simp: seed_default_rules_def bnd_run seqm_run Let_def upd_sess_def commit_def)
qed

lemma quote_free_seeded:
  "no_quote i \<Longrightarrow> no_quote cid \<Longrightarrow> list_all no_quote [te_name t, te_expr t, te_severity t, te_summary t] \<Longrightarrow>
   quote_free ((seeded_rule i now cid t)\<lparr>al_description := None\<rparr>) \<and>
   (no_quote (te_description t) \<longrightarrow> quote_free (seeded_rule i now cid t))"
  by (simp add: quote_free_def seeded_rule_def or_str_def str_true_def no_quote_def)

lemma stalled_template:
  "list_all no_quote [te_name t, te_expr t, te_severity t, te_summary t] \<and>
   (\<exists>a c. te_description t = a @ CHR 0x27 # ''t'' @ CHR '' '' # c \<and> no_quote a)" if "t = map snd RULE_TEMPLATES ! 3"
proof -
  have "list_all no_quote [te_name t, te_expr t, te_severity t, te_summary t]" unfolding that by code_simp
  moreover have "takeWhile (\<lambda>c. c \<noteq> CHR 0x27) (te_description t) @ CHR 0x27 # ''t'' @ CHR '' '' #
      drop 3 (dropWhile (\<lambda>c. c \<noteq> CHR 0x27) (te_description t)) = te_description t" unfolding that by code_simp
  moreover have "no_quote (takeWhile (\<lambda>c. c \<noteq> CHR 0x27) (te_description t))"
    unfolding no_quote_def list_all_iff by (auto dest: set_takeWhileD)
  ultimately show ?thesis by metis
qed

text \<open>
  The rules that are seeded for every new cluster are not such rules: the description of one of them contains
  an apostrophe, which ends the quoted script in the middle of the file.  Whatever the cluster, the identifiers (without
  single quotes) and the channels are, what the root shell is given is not the script that writes the rules.
\<close>

theorem default_rules_break_push:
  assumes "filter (\<lambda>r. al_cluster_id r = cid) (alert_rules (sess s)) = []" and "no_quote cid" and "\<And>n. no_quote (ids n)"
  shows "let yml = render_prometheus_rules (filter (\<lambda>r. al_cluster_id r = cid)
                (alert_rules (committed (snd (seed_default_rules ids now cid s))))) in
    \<exists>script rest. pushed_script (push_cmd cfg yml am_yml) = Some (script, rest) \<and> script \<noteq> rules_script yml"
proof -
  let ?rows = "map (\<lambda>(n, t). seeded_rule (ids n) now cid t) (enumerate 0 (map snd RULE_TEMPLATES))"
  have len: "length RULE_TEMPLATES = 6" by (simp add: RULE_TEMPLATES_def)
  have row: "?rows ! n = seeded_rule (ids n) now cid (map snd RULE_TEMPLATES ! n)" if "n < 6" for n
    using that len by (simp add: nth_enumerate_eq)
  obtain rows where rows: "rows = ?rows" by simp
  obtain t where t: "t = map snd RULE_TEMPLATES ! 3" by simp
  have lenr: "length rows = 6" unfolding rows using len by simp
  then have split: "rows = take 3 rows @ rows ! 3 # drop 4 rows"
    using id_take_nth_drop[of 3 rows] by (simp add: numeral_eq_Suc)
  have r3: "rows ! 3 = seeded_rule (ids 3) now cid t" unfolding rows t by (rule row) simp
  have "quote_free (rows ! n)" if n: "n < 3" for n
  proof -
    have "list_all no_quote [te_name u, te_expr u, te_severity u, te_summary u, te_description u]"
      if "u = map snd RULE_TEMPLATES ! n" for u
      using early_templates n len unfolding that list_all_length by simp
    then show ?thesis unfolding rows row[OF less_trans[OF n, of 6, simplified]]
      using quote_free_seeded[OF assms(3)[of n] assms(2)] by simp
  qed
  then have early: "list_all (\<lambda>r. al_enabled r \<longrightarrow> quote_free r) (take 3 rows)"
    unfolding list_all_length using lenr by simp
  note st = stalled_template[OF t]
  obtain a c where d: "te_description t = a @ CHR 0x27 # ''t'' @ CHR '' '' # c" and a: "no_quote a" using st by blast
  have "\<exists>pre post. render_prometheus_rules rows = pre @ CHR 0x27 # ''t'' @ CHR '' '' # post \<and> no_quote pre"
  proof (rule render_quote[OF split early])
    show "al_enabled (rows ! 3)" unfolding r3 by (simp add: seeded_rule_def)
    show "quote_free ((rows ! 3)\<lparr>al_description := None\<rparr>)"
      unfolding r3 using quote_free_seeded[OF assms(3)[of 3] assms(2)] st by simp
    show "al_description (rows ! 3) = Some (a @ CHR 0x27 # ''t'' @ CHR '' '' # c)" unfolding r3 d[symmetric] by (simp add: seeded_rule_def)
  qed (simp_all add: a plain_char_def)
  then obtain pre post where yml: "render_prometheus_rules rows = pre @ CHR 0x27 # ''t'' @ CHR '' '' # post" and pre: "no_quote pre"
    by blast
  have "list_all plain_char ''t''" by (simp add: plain_char_def)
  from pushed_cut[OF yml pre this] obtain rest where cut: "pushed_script (push_cmd cfg (render_prometheus_rules rows) am_yml) =
      Some (''cat > /etc/prometheus/rules/tantor.yml << '' @ dq @ ''TANTORRULESEOF'' @ dq @ nl @ pre @ ''t'', rest)" by blast
  have "''cat > /etc/prometheus/rules/tantor.yml << '' @ dq @ ''TANTORRULESEOF'' @ dq @ nl @ pre @ ''t'' \<noteq>
      rules_script (render_prometheus_rules rows)"
    unfolding rules_script_def yml by simp
  with cut show ?thesis unfolding seed_rows[OF assms(1)] Let_def rows[symmetric] by blast
qed

theorem default_rules_break_push_witness:
  "let yml = render_prometheus_rules (filter (\<lambda>r. al_cluster_id r = ''c1'')
                (alert_rules (committed (snd (seed_default_rules (\<lambda>n. ''r'') 0 ''c1'' (plain_sys []))))))  in
    \<exists>script rest. pushed_script (push_cmd (default_settings ''/repo'') yml ''route:'') = Some (script, rest) \<and>
      script \<noteq> rules_script yml"
  by (rule default_rules_break_push) (simp_all add: plain_sys_def empty_tables_def no_quote_def)

theorem rules_push_exact_witness:
  "\<exists>rest. pushed_script (push_cmd (default_settings ''/repo'')
       (render_prometheus_rules [seeded_rule ''r1'' 0 ''c1'' (snd (hd RULE_TEMPLATES))]) ''route:'') =
     Some (rules_script (render_prometheus_rules [seeded_rule ''r1'' 0 ''c1'' (snd (hd RULE_TEMPLATES))]), rest)"
proof -
  have "list_all no_quote [te_name t, te_expr t, te_severity t, te_summary t, te_description t]" if "t = snd (hd RULE_TEMPLATES)" for t
    unfolding that by code_simp
  then have "quote_free (seeded_rule ''r1'' 0 ''c1'' (snd (hd RULE_TEMPLATES)))"
    using quote_free_seeded[of "''r1''" "''c1''" "snd (hd RULE_TEMPLATES)" 0] by (simp add: no_quote_def)
  then have "list_all (\<lambda>r. al_enabled r \<longrightarrow> quote_free r) [seeded_rule ''r1'' 0 ''c1'' (snd (hd RULE_TEMPLATES))]" by simp
  from rules_push_exact[OF this, of "default_settings ''/repo''" "''route:''"] show ?thesis by blast
qed

section \<open>Requests and their rows\<close>

lemma world_render: "world_only (render_alerting_files R cfg L F cid h)"
  unfolding render_alerting_files_def by (auto intro!: world_steps split: prod.splits)

lemma world_reload: "world_only (reload_alerting R cfg L F cid)"
  unfolding reload_alerting_def by (auto intro!: world_steps world_render)

lemma trigger_run: "\<exists>w. trigger_reload R cfg L F cid s = (Inr (), s\<lparr>wld := w\<rparr>)"
proof -
  obtain r t where t: "reload_alerting R cfg L F cid s = (r, t)" by (cases "reload_alerting R cfg L F cid s")
  have "t = s\<lparr>wld := wld t\<rparr>" using world_onlyD[OF world_reload t] by simp
  then show ?thesis unfolding trigger_reload_def ignore_run t by auto
qed

text \<open>
  Creating, changing and deleting a rule succeeds exactly if the cluster or the rule exists, and then commits
  exactly that change, whatever pushing the rules to the monitoring host does: a host that cannot be reached, or a
  configuration that it rejects, does not undo or fail the request.
\<close>

theorem rule_changes_committed:
  "(let a = create_rule R cfg L F i now cid new s; rows = alert_rules (sess s) @ [new_rule i now cid new] in
      if cluster_exists (sess s) cid
      then fst a = Inr (to_rule_response (new_rule i now cid new)) \<and> committed (snd a) = (sess s)\<lparr>alert_rules := rows\<rparr>
      else a = (Inl no_cluster, s)) \<and>
   (let a = update_rule R cfg L F now cid j x s in
      case find_rule (sess s) cid j of None \<Rightarrow> a = (Inl no_rule, s)
      | Some r \<Rightarrow> fst a = Inr (to_rule_response (changed_rule now x r)) \<and>
          committed (snd a) = (sess s)\<lparr>alert_rules := upd_by al_id j (changed_rule now x) (alert_rules (sess s))\<rparr>) \<and>
   (let a = delete_rule R cfg L F cid j s in
      if find_rule (sess s) cid j = None then a = (Inl no_rule, s)
      else fst a = Inr ''Rule deleted'' \<and>
          committed (snd a) = (sess s)\<lparr>alert_rules := filter (\<lambda>r. al_id r \<noteq> j) (alert_rules (sess s))\<rparr>)"
proof -
  have step: "\<exists>w. seqm (upd_sess f) (seqm commit (seqm (trigger_reload R cfg L F cid) (ret y))) s =
      (Inr y, s\<lparr>sess := f (sess s), committed := f (sess s), wld := w\<rparr>)" for f :: "tables \<Rightarrow> tables" and y :: 'b
    using trigger_run[of R cfg L F cid "s\<lparr>sess := f (sess s), committed := f (sess s)\<rparr>"]
    by (auto simp: seqm_run upd_sess_def commit_def)
  have "fst (seqm (upd_sess f) (seqm commit (seqm (trigger_reload R cfg L F cid) (ret y))) s) = Inr y \<and>
      committed (snd (seqm (upd_sess f) (seqm commit (seqm (trigger_reload R cfg L F cid) (ret y))) s)) = f (sess s)"
    for f :: "tables \<Rightarrow> tables" and y :: 'b
    using step[of f y] by auto
  note run = this
  show ?thesis
    unfolding create_rule_def update_rule_def delete_rule_def Let_def
    by (auto simp: bnd_run run split: option.splits)
qed

section \<open>Incidents\<close>

lemma world_firing: "world_only (list_firing_for_cluster N cfg cid)"
  unfolding list_firing_for_cluster_def by (auto intro!: world_steps)

lemma world_reachable: "world_only (alertmanager_reachable N cfg cid)"
  unfolding alertmanager_reachable_def by (auto intro!: world_steps)

text \<open>What Alertmanager answered, if it is reachable and the answer could be read.\<close>

definition live_answer :: "'w net \<Rightarrow> settings \<Rightarrow> string \<Rightarrow> 'w sys \<Rightarrow> firing list option" where
  "live_answer N cfg cid s =
     (case alertmanager_reachable N cfg cid s of
        (Inr (True, _), s') \<Rightarrow> (case fst (list_firing_for_cluster N cfg cid s') of Inr live \<Rightarrow> Some live | Inl _ \<Rightarrow> None)
      | _ \<Rightarrow> None)"

lemma reconcile_idle: "\<not> list_ex (stale_incident cid live) xs \<Longrightarrow> reconcile now cid live xs = xs"
  by (auto simp: reconcile_def list_ex_iff intro!: map_idI)

lemma reconcile_change: "list_ex (stale_incident cid live) xs \<Longrightarrow> reconcile now cid live xs \<noteq> xs"
proof
  assume "list_ex (stale_incident cid live) xs" and same: "reconcile now cid live xs = xs"
  then obtain x where x: "x \<in> set xs" "stale_incident cid live x" by (auto simp: list_ex_iff)
  have "map (\<lambda>x. if stale_incident cid live x then resolved_now now x else x) xs = map (\<lambda>x. x) xs"
    using same by (simp add: reconcile_def)
  then have "(if stale_incident cid live x then resolved_now now x else x) = x" using x(1) by (simp only: map_eq_conv)
  then have "resolved_now now x = x" using x(2) by simp
  then have "ai_status (resolved_now now x) = ai_status x" by simp
  then show False using x(2) by (simp add: resolved_now_def stale_incident_def)
qed

lemma reconcile_incidents_run:
  "fst (reconcile_incidents N cfg now cid s) = Inr () \<and>
   (let t = snd (reconcile_incidents N cfg now cid s);
        rows = (case live_answer N cfg cid s of None \<Rightarrow> incidents (sess s) | Some live \<Rightarrow> reconcile now cid live (incidents (sess s))) in
     sess t = (sess s)\<lparr>incidents := rows\<rparr> \<and>
     committed t = (if rows = incidents (sess s) then committed s else sess t))"
proof -
  obtain r1 s1 where a: "alertmanager_reachable N cfg cid s = (r1, s1)" by (cases "alertmanager_reachable N cfg cid s")
  note s1 = world_onlyD[OF world_reachable a]
  obtain r2 s2 where b: "list_firing_for_cluster N cfg cid s1 = (r2, s2)" by (cases "list_firing_for_cluster N cfg cid s1")
  note s2 = world_onlyD[OF world_firing b]
  show ?thesis
  proof (cases r1)
    case (Inl e)
    then show ?thesis using a s1 by (simp add: reconcile_incidents_def ignore_run bnd_run live_answer_def)
  next
    case (Inr p)
    obtain up u where p: "p = (up, u)" by (cases p)
    show ?thesis
    proof (cases up)
      case False
      then show ?thesis using a s1 Inr p by (simp add: reconcile_incidents_def ignore_run bnd_run live_answer_def)
    next
      case up: True
      show ?thesis
      proof (cases r2)
        case e: (Inl e)
        then show ?thesis using a b s1 s2 Inr p up by (simp add: reconcile_incidents_def ignore_run bnd_run live_answer_def)
      next
        case live: (Inr live)
        show ?thesis
        proof (cases "list_ex (stale_incident cid live) (incidents (sess s))")
          case True
          note reconcile_change[OF this]
          then show ?thesis using a b s1 s2 Inr p up live True
            by (simp add: reconcile_incidents_def ignore_run bnd_run seqm_run live_answer_def upd_sess_def commit_def Let_def)
        next
          case False
          note reconcile_idle[OF this]
          then show ?thesis using a b s1 s2 Inr p up live False
            by (simp add: reconcile_incidents_def ignore_run bnd_run live_answer_def Let_def)
        qed
      qed
    qed
  qed
qed

lemma list_incidents_run:
  "let a = list_incidents N cfg now cid limit status s;
       rows = (case live_answer N cfg cid s of None \<Rightarrow> incidents (sess s) | Some live \<Rightarrow>
         map (\<lambda>x. if ai_cluster_id x = Some cid \<and> ai_status x = ''firing'' \<and> \<not> is_live live x then resolved_now now x else x)
           (incidents (sess s))) in
     fst a = Inr (take limit (sort_key (\<lambda>x. - ai_last_seen_at x)
       (filter (\<lambda>x. ai_cluster_id x = Some cid \<and> (if str_true status then ai_status x = the status else True)) rows))) \<and>
     sess (snd a) = (sess s)\<lparr>incidents := rows\<rparr> \<and>
     committed (snd a) = (if rows = incidents (sess s) then committed s else sess (snd a))"
proof -
  obtain r t where t: "reconcile_incidents N cfg now cid s = (r, t)" by (cases "reconcile_incidents N cfg now cid s")
  have rec: "reconcile now cid live xs = map (\<lambda>x. if ai_cluster_id x = Some cid \<and> ai_status x = ''firing'' \<and> \<not> is_live live x
      then resolved_now now x else x) xs" for live xs
    by (simp add: reconcile_def stale_incident_def)
  have run: "list_incidents N cfg now cid limit status s = (Inr (take limit (sort_key (\<lambda>x. - ai_last_seen_at x)
       (filter (\<lambda>x. ai_cluster_id x = Some cid \<and> (if str_true status then ai_status x = the status else True)) (incidents (sess t))))), t)"
    using t reconcile_incidents_run[of N cfg now cid s] by (simp add: list_incidents_def seqm_run bnd_run if_bool_eq_conj)
  show ?thesis
    using reconcile_incidents_run[of N cfg now cid s] unfolding t run Let_def rec fst_conv snd_conv by simp
qed

text \<open>An alert of an answer that names a cluster, and its fingerprint.\<close>

definition names_alert :: "string \<Rightarrow> string \<Rightarrow> json \<Rightarrow> bool" where
  "names_alert cid fp a \<longleftrightarrow> (case a of JObj d \<Rightarrow> (case jget_default d ''labels'' (JObj []) of JObj labels \<Rightarrow>
      jget labels ''tantor_cluster_id'' = JStr cid \<and> jget d ''fingerprint'' = JStr fp | _ \<Rightarrow> False) | _ \<Rightarrow> False)"

lemma firing_named:
  assumes "\<not> isl (firing_of cid a)" and "fp \<noteq> []"
  shows "names_alert cid fp a \<longleftrightarrow> (\<exists>f. firing_of cid a = Inr (Some f) \<and> fi_fingerprint f = JStr fp)"
proof (cases "as_dict a")
  case (Inr d)
  then have a: "a = JObj d" by (cases a) simp_all
  have fp: "jget_default d ''fingerprint'' (JStr []) = JStr fp \<longleftrightarrow> jget d ''fingerprint'' = JStr fp"
    using assms(2) by (simp add: jget_default_def jget_def split: option.split)
  show ?thesis
  proof (cases "get_dict d ''labels''")
    case (Inl e)
    then show ?thesis using assms(1) by (simp add: a firing_of_def)
  next
    case (Inr labels)
    then have l: "jget_default d ''labels'' (JObj []) = JObj labels"
      unfolding get_dict_def by (cases "jget_default d ''labels'' (JObj [])") simp_all
    have n: "names_alert cid fp a \<longleftrightarrow> jget labels ''tantor_cluster_id'' = JStr cid \<and> jget d ''fingerprint'' = JStr fp"
      by (simp add: names_alert_def a l)
    show ?thesis
    proof (cases "jget labels ''tantor_cluster_id'' = JStr cid")
      case False
      then show ?thesis unfolding n by (simp add: firing_of_def a Inr)
    next
      case True
      then obtain ann st where "get_dict d ''annotations'' = Inr ann" "sub_dict d ''status'' = Inr st"
        using assms(1) by (cases "get_dict d ''annotations''"; cases "sub_dict d ''status''") (simp_all add: firing_of_def a Inr)
      then show ?thesis unfolding n using True fp by (simp add: firing_of_def a Inr)
    qed
  qed
qed (use assms(1) in \<open>simp add: firing_of_def\<close>)

lemma all_firing_named:
  assumes "list_all (\<lambda>a. \<not> isl (firing_of cid a)) as"
  shows "\<exists>live. all_firing cid as = Inr live \<and> (\<forall>x. is_live live x \<longleftrightarrow> ai_fingerprint x \<noteq> [] \<and> list_ex (names_alert cid (ai_fingerprint x)) as)"
  using assms
proof (induction as)
  case (Cons a as)
  then obtain live where live: "all_firing cid as = Inr live" "\<And>x. is_live live x \<longleftrightarrow> ai_fingerprint x \<noteq> [] \<and> list_ex (names_alert cid (ai_fingerprint x)) as" by auto
  obtain f where f: "firing_of cid a = Inr f" using Cons.prems by (cases "firing_of cid a") auto
  have "is_live ((case f of None \<Rightarrow> [] | Some g \<Rightarrow> [g]) @ live) x \<longleftrightarrow> ai_fingerprint x \<noteq> [] \<and> list_ex (names_alert cid (ai_fingerprint x)) (a # as)" for x
    using firing_named[of cid a "ai_fingerprint x"] live(2)[of x] f by (cases f) (auto simp: is_live_def)
  then show ?case using live(1) f by auto
qed (simp add: is_live_def)

lemma all_firing_bad: "\<not> list_all (\<lambda>a. \<not> isl (firing_of cid a)) as \<Longrightarrow> isl (all_firing cid as)"
  by (induction as) (auto simp: isl_map_sum split: sum.splits)

lemma live_answer_cases:
  assumes "monitoring_url cfg cid (sess s) = Some u"
  shows "live_answer N cfg cid s = (case net_get N (u @ ''/-/healthy'') 3 (wld s) of
      (Inl e, w) \<Rightarrow> None
    | (Inr r, w) \<Rightarrow> if fst r \<noteq> 200 then None
        else (case fst (net_get N (u @ ''/api/v2/alerts?active=true&silenced=false&inhibited=false'') 5 w) of
            Inl e \<Rightarrow> if unreachable_class e then Some [] else None
          | Inr r2 \<Rightarrow> (case parse_alerts cid (snd r2) of Inl e \<Rightarrow> None | Inr live \<Rightarrow> Some live)))"
  using assms
  by (auto simp: live_answer_def alertmanager_reachable_def list_firing_for_cluster_def bnd_run catch_run on_wld_def split: prod.splits sum.splits if_splits)


text \<open>A query of the alerts that fails although the health check succeeded is taken as an empty answer.\<close>

lemma failed_query_resolves:
  assumes "monitoring_url cfg cid (sess s) = Some u" and "net_get N (u @ ''/-/healthy'') 3 (wld s) = (Inr (200, page), w)"
    and "net_get N (u @ ''/api/v2/alerts?active=true&silenced=false&inhibited=false'') 5 w = (Inl e, w')" and "unreachable_class e"
  shows "list_all (\<lambda>x. \<not> (ai_cluster_id x = Some cid \<and> ai_status x = ''firing'')) (incidents (sess (snd (list_incidents N cfg now cid limit status s))))"
proof -
  have "live_answer N cfg cid s = Some []" using live_answer_cases[OF assms(1), of N] assms(2-4) by simp
  then show ?thesis
    using list_incidents_run[of N cfg now cid limit status s] by (auto simp: Let_def list_all_iff is_live_def resolved_now_def)
qed

lemma settled_by_answer:
  fixes out :: "incident list \<Rightarrow> bool"
  assumes "out (case live_answer N cfg cid s of None \<Rightarrow> xs | Some live \<Rightarrow>
      map (\<lambda>x. if ai_cluster_id x = Some cid \<and> ai_status x = ''firing'' \<and> \<not> is_live live x then resolved_now now x else x) xs)"
  shows "case monitoring_url cfg cid (sess s) of None \<Rightarrow> out xs
   | Some u \<Rightarrow> (case net_get N (u @ ''/-/healthy'') 3 (wld s) of
       (Inl e, w) \<Rightarrow> out xs
     | (Inr (code, page), w) \<Rightarrow> if code \<noteq> 200 then out xs
         else (case fst (net_get N (u @ ''/api/v2/alerts?active=true&silenced=false&inhibited=false'') 5 w) of
             Inl e \<Rightarrow> unreachable_class e \<or> out xs
           | Inr (c, Json (JArr as)) \<Rightarrow>
               if list_all (\<lambda>a. \<not> isl (firing_of cid a)) as
               then out (map (\<lambda>x. if ai_cluster_id x = Some cid \<and> ai_status x = ''firing'' \<and>
                   \<not> (ai_fingerprint x \<noteq> [] \<and> list_ex (names_alert cid (ai_fingerprint x)) as) then resolved_now now x else x) xs)
               else out xs
           | Inr _ \<Rightarrow> out xs))"
proof (cases "monitoring_url cfg cid (sess s)")
  case None
  then have "live_answer N cfg cid s = None" by (simp add: live_answer_def alertmanager_reachable_def bnd_run)
  with None assms show ?thesis by simp
next
  case (Some u)
  note run = assms[unfolded live_answer_cases[OF Some]]
  obtain r1 w where h: "net_get N (u @ ''/-/healthy'') 3 (wld s) = (r1, w)" by (cases "net_get N (u @ ''/-/healthy'') 3 (wld s)")
  obtain r2 where q: "fst (net_get N (u @ ''/api/v2/alerts?active=true&silenced=false&inhibited=false'') 5 w) = r2" by simp
  show ?thesis
  proof (cases "\<exists>page c as. r1 = Inr (200, page) \<and> r2 = Inr (c, Json (JArr as))")
    case True
    then obtain page c as where r: "r1 = Inr (200, page)" "r2 = Inr (c, Json (JArr as))" by blast
    show ?thesis
    proof (cases "list_all (\<lambda>a. \<not> isl (firing_of cid a)) as")
      case ok: True
      obtain live where live: "all_firing cid as = Inr live" "\<And>x. is_live live x \<longleftrightarrow> ai_fingerprint x \<noteq> [] \<and> list_ex (names_alert cid (ai_fingerprint x)) as"
        using all_firing_named[OF ok] by blast
      from run show ?thesis unfolding Some option.case h q r by (simp add: parse_alerts_def live ok q r)
    next
      case False
      then obtain e where "all_firing cid as = Inl e" using all_firing_bad by (auto simp: isl_def)
      with run False show ?thesis unfolding Some option.case h q r by (simp add: parse_alerts_def q r)
    qed
  next
    case False
    then show ?thesis using run unfolding Some option.case h
      by (cases r1; cases r2) (auto simp: parse_alerts_def q split: json_text.splits json.splits if_splits)
  qed
qed

text \<open>
  Claim C37.  Listing the incidents of a cluster first settles them against the Alertmanager at the address of its monitoring.  If that
  is healthy and answers with a list of alerts that can be read, exactly those firing incidents of the cluster become resolved
  whose fingerprint no alert in the answer has that is labelled with this cluster, now or at the time they were resolved at
  before; and this is committed.  If it is not healthy, or the answer is not such a list, or no address is known, no row changes.  The list is
  then taken from these rows.  Not covered is a query that fails as unreachable after a good health check, which
  resolves all firing incidents (\<open>failed_query_resolves\<close>).
\<close>

theorem incidents_reconciled:
  "let a = list_incidents N cfg now cid limit status s;
       outcome = (\<lambda>rows. fst a = Inr (take limit (sort_key (\<lambda>x. - ai_last_seen_at x)
           (filter (\<lambda>x. ai_cluster_id x = Some cid \<and> (if str_true status then ai_status x = the status else True)) rows))) \<and>
         sess (snd a) = (sess s)\<lparr>incidents := rows\<rparr> \<and>
         committed (snd a) = (if rows = incidents (sess s) then committed s else sess (snd a)));
       same = outcome (incidents (sess s)) in
   case monitoring_url cfg cid (sess s) of None \<Rightarrow> same
   | Some u \<Rightarrow> (case net_get N (u @ ''/-/healthy'') 3 (wld s) of
       (Inl e, w) \<Rightarrow> same
     | (Inr (code, page), w) \<Rightarrow> if code \<noteq> 200 then same
         else (case fst (net_get N (u @ ''/api/v2/alerts?active=true&silenced=false&inhibited=false'') 5 w) of
             Inl e \<Rightarrow> unreachable_class e \<or> same
           | Inr (c, Json (JArr as)) \<Rightarrow>
               if list_all (\<lambda>a. \<not> isl (firing_of cid a)) as
               then outcome (map (\<lambda>x. if ai_cluster_id x = Some cid \<and> ai_status x = ''firing'' \<and>
                   \<not> (ai_fingerprint x \<noteq> [] \<and> list_ex (\<lambda>a. case a of JObj d \<Rightarrow> (case jget_default d ''labels'' (JObj []) of
                       JObj labels \<Rightarrow> jget labels ''tantor_cluster_id'' = JStr cid \<and> jget d ''fingerprint'' = JStr (ai_fingerprint x)
                     | _ \<Rightarrow> False) | _ \<Rightarrow> False) as)
                 then x\<lparr>ai_status := ''resolved'', ai_resolved_at := (case ai_resolved_at x of None \<Rightarrow> Some now | Some t \<Rightarrow> Some t), ai_last_seen_at := now\<rparr>
                 else x) (incidents (sess s)))
               else same
           | Inr _ \<Rightarrow> same))"
  unfolding Let_def
  by (rule settled_by_answer[where xs = "incidents (sess s)", unfolded names_alert_def[abs_def] resolved_now_def])
    (rule list_incidents_run[of N cfg now cid limit status s, unfolded Let_def resolved_now_def])

text \<open>
  A webhook call that raises leaves the committed tables as they are.  One that succeeds counts all alerts of
  the payload; each incident that was known has gone through the alerts with its fingerprint in their order, each alert with an
  unknown fingerprint has added a row, also if the payload has the fingerprint twice and whether or not it names a cluster, and all of it
  is committed.
\<close>

lemma webhook_run:
  assumes "distinct (map ai_id (incidents (sess s)))" and "distinct (map ai_fingerprint (incidents (sess s)))"
    and "\<And>n. ids n \<notin> ai_id ` set (incidents (sess s))"
  shows "let known = incidents (sess s); a = receive_alertmanager_webhook L ids now payload s in
    case fst a of
      Inl e \<Rightarrow> committed (snd a) = committed s
    | Inr n \<Rightarrow> (\<exists>vs alerts g new.
        jget_default payload ''alerts'' (JArr []) = JArr vs \<and> map (read_alert L) vs = map Inr alerts \<and> n = int (length alerts) \<and>
        (\<forall>k\<in>set known. seen_in L now alerts k = Inr (g k) \<and> ai_status (g k) = status_after alerts k) \<and>
        first_seen L known ids now 0 alerts = map Inr new \<and>
        committed (snd a) = (sess s)\<lparr>incidents := map g known @ new\<rparr>)"
proof -
  let ?known = "incidents (sess s)"
  show ?thesis
  proof (cases "jget_default payload ''alerts'' (JArr [])")
    case (JArr vs)
    obtain r t where loop: "for_each (record_alert L ?known ids now) (enumerate 0 vs) s = (r, t)"
      by (cases "for_each (record_alert L ?known ids now) (enumerate 0 vs) s")
    note spec = record_alerts_run[where f = "\<lambda>x. x" and rows = "[]", OF loop assms(1,2,3), simplified]
    have run: "receive_alertmanager_webhook L ids now payload s =
        (case r of Inl e \<Rightarrow> (Inl e, t) | Inr ys \<Rightarrow> (Inr (int (length ys)), t\<lparr>committed := sess t\<rparr>))"
      using loop JArr by (simp add: receive_alertmanager_webhook_def bnd_run seqm_run commit_def split: sum.split)
    show ?thesis
    proof (cases r)
      case (Inl e)
      with run spec show ?thesis by simp
    next
      case (Inr ys)
      from spec[unfolded Inr sum.case append_Nil] obtain alerts g new where x: "map (read_alert L) vs = map Inr alerts" "length ys = length alerts"
        "\<forall>k\<in>set ?known. seen_in L now alerts k = Inr (g k)" "first_seen L ?known ids now 0 alerts = map Inr new"
        "sess t = (sess s)\<lparr>incidents := map g ?known @ new\<rparr>" by (elim conjE exE) (rule that)
      have "\<forall>k\<in>set ?known. seen_in L now alerts k = Inr (g k) \<and> ai_status (g k) = status_after alerts k"
        using x(3) seen_in_status by blast
      with x JArr show ?thesis unfolding run Inr Let_def sum.case fst_conv snd_conv
        by (intro exI[of _ vs] exI[of _ alerts] exI[of _ g] exI[of _ new]) simp
    qed
  qed (simp_all add: receive_alertmanager_webhook_def bnd_run)
qed

lemma bind_Inr_iff: "bind m k = Inr y \<longleftrightarrow> (\<exists>x. m = Inr x \<and> k x = Inr y)"
  by (cases m) auto

text \<open>The rows that are added.\<close>

abbreviation row_of_alert :: "alert \<Rightarrow> string \<times> string option \<times> string" where
  "row_of_alert a \<equiv> (at_fingerprint a, at_cluster_id a, if at_resolved a then ''resolved'' else ''firing'')"

lemma first_seen_rows:
  "first_seen L known ids now n alerts = map Inr new \<Longrightarrow>
   map (\<lambda>x. (ai_fingerprint x, ai_cluster_id x, ai_status x)) new =
   map row_of_alert (filter (\<lambda>a. at_fingerprint a \<notin> ai_fingerprint ` set known) alerts)"
proof (induction alerts arbitrary: n new)
  case (Cons a alerts)
  have known: "is_known known a \<longleftrightarrow> at_fingerprint a \<in> ai_fingerprint ` set known" by (force simp: is_known_def list_ex_iff)
  show ?case
  proof (cases "is_known known a")
    case True
    then have "first_seen L known ids now (Suc n) alerts = map Inr new" using Cons.prems by (simp add: first_seen_def)
    with Cons.IH True known show ?thesis by simp
  next
    case False
    then obtain x xs where new: "new = x # xs" "new_incident L (ids n) now a = Inr x" "first_seen L known ids now (Suc n) alerts = map Inr xs"
      using Cons.prems by (cases new) (auto simp: first_seen_def)
    then have "(ai_fingerprint x, ai_cluster_id x, ai_status x) = row_of_alert a" by (auto simp: new_incident_def bind_Inr_iff)
    with Cons.IH[OF new(3)] False known show ?thesis by (simp add: new(1))
  qed
qed (simp add: first_seen_def)

text \<open>
  Claim C36.  The webhook, for alerts that carry the label \<open>tantor_cluster_id\<close>: a call that raises leaves the committed tables as they
  are.  One that succeeds counts all alerts of the payload; each incident that was known has gone through the alerts with its
  fingerprint in their order and has the status of the last one; every alert with an unknown fingerprint has added, in order, a row
  with this fingerprint, the cluster of its label and its status; and all of it is committed.  (Fingerprints and ids of incidents are
  distinct before, and the new ids are new.)
\<close>

theorem webhook_records:
  assumes "distinct (map ai_id (incidents (sess s)))" and "distinct (map ai_fingerprint (incidents (sess s)))"
    and "\<And>n. ids n \<notin> ai_id ` set (incidents (sess s))"
    and "jget_default payload ''alerts'' (JArr []) = JArr vs"
    and "list_all (\<lambda>v. case v of JObj d \<Rightarrow> (case jget_default d ''labels'' (JObj []) of
        JObj labels \<Rightarrow> (case jget labels ''tantor_cluster_id'' of JStr c \<Rightarrow> True | _ \<Rightarrow> False) | _ \<Rightarrow> False) | _ \<Rightarrow> False) vs"
  shows "let known = incidents (sess s); a = receive_alertmanager_webhook L ids now payload s in
    case fst a of
      Inl e \<Rightarrow> committed (snd a) = committed s
    | Inr n \<Rightarrow> (\<exists>alerts g new. map (read_alert L) vs = map Inr alerts \<and> n = int (length alerts) \<and>
        list_all (\<lambda>a. at_cluster_id a \<noteq> None) alerts \<and>
        (\<forall>k\<in>set known. seen_in L now alerts k = Inr (g k) \<and>
           ai_status (g k) = (case List.find (\<lambda>a. at_fingerprint a = ai_fingerprint k) (rev alerts) of
             None \<Rightarrow> ai_status k | Some a \<Rightarrow> if at_resolved a then ''resolved'' else ''firing'')) \<and>
        map (\<lambda>x. (ai_fingerprint x, ai_cluster_id x, ai_status x)) new =
          map (\<lambda>a. (at_fingerprint a, at_cluster_id a, if at_resolved a then ''resolved'' else ''firing''))
            (filter (\<lambda>a. at_fingerprint a \<notin> ai_fingerprint ` set known) alerts) \<and>
        committed (snd a) = (sess s)\<lparr>incidents := map g known @ new\<rparr>)"
proof -
  have label: "at_cluster_id a \<noteq> None" if "v \<in> set vs" "read_alert L v = Inr a" for v a
  proof -
    have p: "case v of JObj d \<Rightarrow> (case jget_default d ''labels'' (JObj []) of
        JObj labels \<Rightarrow> (case jget labels ''tantor_cluster_id'' of JStr c \<Rightarrow> True | _ \<Rightarrow> False) | _ \<Rightarrow> False) | _ \<Rightarrow> False"
      using assms(5) that(1) unfolding list_all_iff by (rule bspec)
    then obtain d where v: "v = JObj d" by (cases v) simp_all
    with p obtain labels where l: "jget_default d ''labels'' (JObj []) = JObj labels" by (cases "jget_default d ''labels'' (JObj [])") simp_all
    with p v obtain c where c: "jget labels ''tantor_cluster_id'' = JStr c" by (cases "jget labels ''tantor_cluster_id''") simp_all
    have "text_field labels ''tantor_cluster_id'' = Inr (Some c)" by (simp add: text_field_def c)
    moreover have "get_dict d ''labels'' = Inr labels" by (simp add: get_dict_def l)
    ultimately show ?thesis using that(2) by (auto simp: read_alert_def v bind_Inr_iff)
  qed
  have labels: "list_all (\<lambda>a. at_cluster_id a \<noteq> None) alerts" if "map (read_alert L) vs = map Inr alerts" for alerts
  proof -
    have "\<exists>v\<in>set vs. read_alert L v = Inr a" if "a \<in> set alerts" for a
    proof -
      have "Inr a \<in> set (map (read_alert L) vs)" unfolding \<open>map (read_alert L) vs = map Inr alerts\<close> using that by simp
      then show ?thesis by auto
    qed
    with label show ?thesis unfolding list_all_iff by blast
  qed
  show ?thesis
  proof (cases "fst (receive_alertmanager_webhook L ids now payload s)")
    case (Inl e)
    with webhook_run[where L = L and ids = ids and now = now and payload = payload and s = s, OF assms(1-3)] show ?thesis by (simp add: Let_def)
  next
    case (Inr n)
    from webhook_run[where L = L and ids = ids and now = now and payload = payload and s = s, OF assms(1-3), unfolded Let_def Inr sum.case assms(4) json.inject]
    obtain alerts g new where w: "map (read_alert L) vs = map Inr alerts" "n = int (length alerts)"
      "\<forall>k\<in>set (incidents (sess s)). seen_in L now alerts k = Inr (g k) \<and> ai_status (g k) = status_after alerts k"
      "first_seen L (incidents (sess s)) ids now 0 alerts = map Inr new"
      "committed (snd (receive_alertmanager_webhook L ids now payload s)) = (sess s)\<lparr>incidents := map g (incidents (sess s)) @ new\<rparr>"
      by (elim exE conjE) (rule that, simp_all)
    note more = labels[OF w(1)] first_seen_rows[OF w(4)]
    show ?thesis unfolding Let_def Inr sum.case
      by (intro exI conjI) (fact w(1) w(2) w(5) more w(3)[unfolded status_after_def])+
  qed
qed

definition known_incident :: incident where
  "known_incident = \<lparr>ai_id = ''k'', ai_fingerprint = ''f1'', ai_cluster_id = Some ''c1'', ai_rule_id = None,
     ai_alert_name = ''BrokerDown'', ai_severity = ''critical'', ai_status = ''firing'', ai_summary = None,
     ai_description = None, ai_started_at = 1, ai_resolved_at = None, ai_last_seen_at = 1\<rparr>"

definition plain_alert_lib :: alert_lib where
  "plain_alert_lib = \<lparr>lib_iso = (\<lambda>s. None), lib_sha1 = (\<lambda>s. s), lib_repr = (\<lambda>v. ''{}'')\<rparr>"

text \<open>An Alertmanager that fires one alert of the cluster, and one of another cluster that has the same name as an incident of it.\<close>

definition alerts_net :: "unit net" where
  "alerts_net = \<lparr>net_get = (\<lambda>u n. ret (200, if ends_with u ''/-/healthy'' then Json JNull else Json (JArr [
        JObj [(''fingerprint'', JStr ''f1''), (''labels'', JObj [(''tantor_cluster_id'', JStr ''c1'')])],
        JObj [(''fingerprint'', JStr ''f2''), (''labels'', JObj [(''tantor_cluster_id'', JStr ''c2''), (''alertname'', JStr ''BrokerDown'')])]]))),
     net_post = (\<lambda>u j h. ret 200), net_mail = (\<lambda>m. ret ())\<rparr>"

definition firing_sys :: "unit sys" where
  "firing_sys = (plain_sys ())\<lparr>sess := empty_tables\<lparr>incidents := [known_incident, known_incident\<lparr>ai_id := ''l'', ai_fingerprint := ''f2''\<rparr>],
     monitoring_configs := [\<lparr>mc_id = ''m'', mc_cluster_id = Some ''c1'', mc_monitoring_host_id = Some ''h1'', mc_deployed = True,
       mc_prometheus_port = 9090, mc_grafana_port = 3000, mc_grafana_url = None, mc_prometheus_url = Some ''http://a:9090''\<rparr>]\<rparr>\<rparr>"

theorem incidents_reconciled_witness:
  "map ai_status (incidents (committed (snd (list_incidents alerts_net (default_settings []) 9 ''c1'' 10 None firing_sys)))) = [''firing'', ''resolved'']"
proof -
  let ?u = "''http://a:9094''" and ?q = "''/api/v2/alerts?active=true&silenced=false&inhibited=false''"
  obtain as where as: "as = [JObj [(''fingerprint'', JStr ''f1''), (''labels'', JObj [(''tantor_cluster_id'', JStr ''c1'')])],
        JObj [(''fingerprint'', JStr ''f2''), (''labels'', JObj [(''tantor_cluster_id'', JStr ''c2''), (''alertname'', JStr ''BrokerDown'')])]]" by simp
  have url: "monitoring_url (default_settings []) ''c1'' (sess firing_sys) = Some ?u" by code_simp
  have ends: "ends_with (?u @ ''/-/healthy'') ''/-/healthy''" "\<not> ends_with (?u @ ?q) ''/-/healthy''" by code_simp+
  have get: "net_get alerts_net (?u @ ''/-/healthy'') 3 w = (Inr (200, Json JNull), w)" "net_get alerts_net (?u @ ?q) 5 w = (Inr (200, Json (JArr as)), w)" for w
    unfolding alerts_net_def as using ends by (simp_all only: net.simps ret_def if_True if_False)
  have readable: "list_all (\<lambda>a. \<not> isl (firing_of ''c1'' a)) as" unfolding as by code_simp
  have rows: "incidents (sess firing_sys) = [known_incident, known_incident\<lparr>ai_id := ''l'', ai_fingerprint := ''f2''\<rparr>]" by code_simp
  show ?thesis
    using incidents_reconciled[of alerts_net "default_settings []" 9 "''c1''" 10 None firing_sys]
    unfolding Let_def url option.case get prod.case sum.case fst_conv rows
    using readable by (auto simp: known_incident_def as jget_default_def jget_def split: if_splits)
qed

text \<open>A known incident is resolved, and an unknown fingerprint comes twice: two rows are added.\<close>

theorem webhook_records_witness:
  "let s = (plain_sys ())\<lparr>sess := empty_tables\<lparr>incidents := [known_incident]\<rparr>\<rparr>;
       alert = \<lambda>fp st. JObj [(''fingerprint'', JStr fp), (''status'', JStr st), (''labels'', JObj [(''tantor_cluster_id'', JStr ''c1'')])];
       a = receive_alertmanager_webhook plain_alert_lib (\<lambda>n. ''n'' @ show_int (int n)) 5
             [(''alerts'', JArr [alert ''f1'' ''resolved'', alert ''f2'' ''firing'', alert ''f2'' ''firing''])] s in
     fst a = Inr 3 \<and> map (\<lambda>x. (ai_fingerprint x, ai_cluster_id x, ai_status x)) (tl (incidents (committed (snd a)))) =
       [(''f2'', Some ''c1'', ''firing''), (''f2'', Some ''c1'', ''firing'')]"
proof -
  let ?s = "(plain_sys ())\<lparr>sess := empty_tables\<lparr>incidents := [known_incident]\<rparr>\<rparr>"
  let ?alert = "\<lambda>fp st. JObj [(''fingerprint'', JStr fp), (''status'', JStr st), (''labels'', JObj [(''tantor_cluster_id'', JStr ''c1'')])]"
  let ?vs = "[?alert ''f1'' ''resolved'', ?alert ''f2'' ''firing'', ?alert ''f2'' ''firing'']"
  let ?ids = "\<lambda>n. ''n'' @ show_int (int n)"
  obtain s ids vs where s: "s = ?s" and ids: "ids = ?ids" and vs: "vs = ?vs" by simp
  obtain p where p: "p = [(''alerts'', JArr vs)]" by simp
  obtain a where a: "a = receive_alertmanager_webhook plain_alert_lib ids 5 p s" by simp
  have n: "fst a = Inr 3" unfolding a p vs ids s by code_simp
  have known: "incidents (sess s) = [known_incident]" unfolding s by simp
  have arr: "jget_default p ''alerts'' (JArr []) = JArr vs" unfolding p by (simp add: jget_default_def)
  have pre: "distinct (map ai_id (incidents (sess s)))" "distinct (map ai_fingerprint (incidents (sess s)))"
    "ids n \<notin> ai_id ` set (incidents (sess s))" for n
    unfolding known ids by (simp_all add: known_incident_def)
  have labelled: "list_all (\<lambda>v. case v of JObj d \<Rightarrow> (case jget_default d ''labels'' (JObj []) of
        JObj labels \<Rightarrow> (case jget labels ''tantor_cluster_id'' of JStr c \<Rightarrow> True | _ \<Rightarrow> False) | _ \<Rightarrow> False) | _ \<Rightarrow> False) vs"
    unfolding vs by code_simp
  let ?mk = "\<lambda>fp st. \<lparr>at_fingerprint = fp, at_resolved = st, at_cluster_id = Some ''c1'', at_rule_id = None,
      at_alert_name = ''unknown'', at_severity = ''warning'', at_summary = None, at_description = None, at_starts = JNull, at_ends = JNull\<rparr>"
  let ?as = "[?mk ''f1'' True, ?mk ''f2'' False, ?mk ''f2'' False]"
  have as: "map (read_alert plain_alert_lib) vs = map Inr ?as" unfolding vs by code_simp
  from webhook_records[where L = plain_alert_lib and ids = ids and s = s and now = 5 and payload = p, OF pre arr labelled]
  obtain alerts g new where w: "map (read_alert plain_alert_lib) vs = map Inr alerts"
    "map (\<lambda>x. (ai_fingerprint x, ai_cluster_id x, ai_status x)) new =
       map (\<lambda>a. (at_fingerprint a, at_cluster_id a, if at_resolved a then ''resolved'' else ''firing''))
         (filter (\<lambda>a. at_fingerprint a \<notin> ai_fingerprint ` set [known_incident]) alerts)"
    "committed (snd a) = (sess s)\<lparr>incidents := map g [known_incident] @ new\<rparr>"
    unfolding Let_def a[symmetric] n sum.case known by (elim exE conjE) (rule that)
  have "map Inr alerts = (map Inr ?as :: (exn + alert) list)" using w(1) as by simp
  then have "alerts = ?as" by (simp only: inj_map_eq_map[OF inj_Inr])
  then have "map (\<lambda>x. (ai_fingerprint x, ai_cluster_id x, ai_status x)) new = [(''f2'', Some ''c1'', ''firing''), (''f2'', Some ''c1'', ''firing'')]"
    using w(2) by (simp add: known_incident_def)
  with n w(3) show ?thesis unfolding Let_def a p vs ids s by simp
qed

end
