(* ===== verification/Config_Generator.thy ===== *)
theory Config_Generator
  imports Config_Manager
begin

text \<open>
  The generated files of a cluster: \<open>services/config_generator.py\<close> with the Jinja templates of \<open>templates/\<close>.  A template
  is the list of its lines; a tag on a line of its own leaves an empty line (Jinja's defaults), and \<open>default\<close> only
  replaces names that are not defined, which none of the rendered ones is.  \<open>rp\<close> is Python's \<open>repr\<close> of the lists and dicts
  in a cluster's configuration.  Shown: what the reader of the broker configuration finds in a generated
  file, and the bounds of the in-sync replicas.
\<close>

section \<open>Rendering\<close>

fun str_of :: "(json \<Rightarrow> string) \<Rightarrow> json \<Rightarrow> string" where
  "str_of rp JNull = ''None''"
| "str_of rp (JBool b) = (if b then ''True'' else ''False'')"
| "str_of rp (JInt i) = show_int i"
| "str_of rp (JStr s) = s"
| "str_of rp j = rp j"

definition if_lines :: "bool \<Rightarrow> string list \<Rightarrow> string list" where
  "if_lines b ls = (if b then [[]] @ ls @ [[]] else [[]])"

definition text_of :: "string list \<Rightarrow> string" where
  "text_of ls = join nl ls @ nl"

definition setting :: "string \<Rightarrow> string \<Rightarrow> string" where
  "setting k v = k @ ''='' @ v"

text \<open>A service as the generator sees it; \<open>sv_controller_port\<close> is a key that may be missing.\<close>

record svc_info =
  sv_role :: string
  sv_node_id :: int
  sv_ip :: string
  sv_host_id :: string
  sv_controller_port :: "json option"

type_synonym cluster_cfg = "(string \<times> json) list"

definition voter :: "(json \<Rightarrow> string) \<Rightarrow> svc_info \<Rightarrow> string" where
  "voter rp s = show_int (sv_node_id s) @ ''@'' @ sv_ip s @ '':'' @
     str_of rp (case sv_controller_port s of None \<Rightarrow> JInt 9093 | Some p \<Rightarrow> p)"

definition build_quorum_voters :: "(json \<Rightarrow> string) \<Rightarrow> svc_info list \<Rightarrow> string" where
  "build_quorum_voters rp svcs =
     join '','' (map (voter rp) (filter (\<lambda>s. sv_role s \<in> {''controller'', ''broker_controller''}) svcs))"

text \<open>\<open>replication_factor - 1\<close>\<close>

fun int_value :: "json \<Rightarrow> exn + int" where
  "int_value (JInt i) = Inr i"
| "int_value (JBool b) = Inr (if b then 1 else 0)"
| "int_value _ = Inl (TypeError ''unsupported operand type(s) for -'')"

text \<open>The parts of \<open>kraft_server.properties.j2\<close> without variables.\<close>

definition tls_comment :: "string list" where
  "tls_comment =
      [''# Tantor-managed TLS. Keystore is PKCS12 (cert + key + chain), truststore'',
       ''# is plain PEM (single CA cert) '' @ em_dash @ '' Java'' @ sq @ ''s PKCS12 truststore semantics don'' @ sq @ ''t'',
       ''# round-trip cleanly through the Python `cryptography` lib.'']"

definition principal_lines :: "string list" where
  "principal_lines =
      [''# Map every cert DN to the ANONYMOUS principal so SSL/mTLS clients hit'',
       ''# the same `super.users=User:ANONYMOUS` row Tantor sets up out of the'',
       ''# box and `allow.everyone.if.no.acl.found=true` continues to apply.'',
       ''# Tighten this rule (e.g. `RULE:^CN=(.*?),.*$/$1/`) once you start'',
       ''# enforcing per-principal ACLs on the cluster.'',
       ''ssl.principal.mapping.rules=RULE:^.*$/ANONYMOUS/,DEFAULT'']"

definition tuning_lines :: "string list" where
  "tuning_lines =
      [''num.network.threads=3'',
       ''num.io.threads=8'',
       ''socket.send.buffer.bytes=102400'',
       ''socket.receive.buffer.bytes=102400'',
       ''# v1.4.3 #6 '' @ em_dash @ '' raised from 100MB -> 200MB. The customer hit'',
       ''# `InvalidReceiveException: message size 369296129 exceeded ...104857600`'',
       ''# repeatedly. 369296129 = 0x16030101 = the first 4 bytes of a TLS 1.x'',
       ''# ClientHello '' @ em_dash @ '' i.e. an SSL client is connecting to a PLAINTEXT'',
       ''# listener and Kafka is reading the TLS handshake bytes as a Kafka'',
       ''# frame length. 200MB still rejects truly malformed traffic but stops'',
       ''# spamming the log every reconnect cycle. Real fix is to keep all'',
       ''# producers/consumers on the SSL listener when ssl_enabled is on.'',
       ''socket.request.max.bytes=209715200'']"

definition security_lines :: "string list" where
  "security_lines =
      [''# Security: ACL authorizer (KRaft native)'',
       ''authorizer.class.name=org.apache.kafka.metadata.authorizer.StandardAuthorizer'',
       ''super.users=User:ANONYMOUS'',
       ''allow.everyone.if.no.acl.found=true'']"

definition server_lines :: "(json \<Rightarrow> string) \<Rightarrow> string \<Rightarrow> svc_info \<Rightarrow> string \<Rightarrow> string \<Rightarrow> string \<Rightarrow> string \<Rightarrow> json \<Rightarrow> int \<Rightarrow>
    cluster_cfg \<Rightarrow> string list" where
  "server_lines rp process_roles svc voters listeners advertised protocols rf isr cfg =
      [''# Tantor-generated KRaft Kafka Server Configuration'',
       ''# Role: '' @ process_roles,
       [],
       setting ''node.id'' (show_int (sv_node_id svc)),
       setting ''process.roles'' (process_roles),
       [],
       setting ''controller.quorum.voters'' (voters),
       [],
       setting ''listeners'' (listeners),
       setting ''advertised.listeners'' (advertised),
       ''controller.listener.names=CONTROLLER'',
       ''inter.broker.listener.name=PLAINTEXT'',
       setting ''listener.security.protocol.map'' (protocols),
       []] @
      if_lines (truthy (jget cfg ''ssl_enabled''))
        (tls_comment @
          [''ssl.keystore.type=PKCS12'',
           setting ''ssl.keystore.location'' (''/etc/kafka/ssl/broker.p12''),
           setting ''ssl.keystore.password'' (str_of rp (jget_default cfg ''_ssl_keystore_password'' (JStr []))),
           setting ''ssl.key.password'' (str_of rp (jget_default cfg ''_ssl_keystore_password'' (JStr []))),
           ''ssl.truststore.type=PEM'',
           setting ''ssl.truststore.location'' (''/etc/kafka/ssl/truststore.pem'')] @
          if_lines (truthy (jget cfg ''mtls_required''))
            ([''# mTLS: every client must present a cert signed by the cluster CA.'',
               ''ssl.client.auth=required'']) @
          principal_lines) @
      [[],
       setting ''log.dirs'' (str_of rp (jget_default cfg ''log_dirs'' (JStr ''/var/lib/kafka/data''))),
       []] @
      tuning_lines @
      [[],
       setting ''num.partitions'' (str_of rp (jget_default cfg ''num_partitions'' (JInt 3))),
       setting ''default.replication.factor'' (str_of rp rf),
       setting ''min.insync.replicas'' (show_int isr),
       [],
       setting ''offsets.topic.replication.factor'' (str_of rp rf),
       setting ''transaction.state.log.replication.factor'' (str_of rp rf),
       setting ''transaction.state.log.min.isr'' (show_int isr),
       [],
       setting ''log.retention.hours'' (str_of rp (jget_default cfg ''retention_hours'' (JInt 168))),
       ''log.segment.bytes=1073741824'',
       ''log.retention.check.interval.ms=300000'',
       [],
       ''group.initial.rebalance.delay.ms=0'',
       []] @
      security_lines"

definition broker_listeners :: "(json \<Rightarrow> string) \<Rightarrow> svc_info \<Rightarrow> cluster_cfg \<Rightarrow> string list" where
  "broker_listeners rp svc cfg =
     (''PLAINTEXT://:'' @ str_of rp (jget_default cfg ''listener_port'' (JInt 9092))) #
     (if sv_role svc = ''broker_controller''
      then [''CONTROLLER://:'' @ str_of rp (jget_default cfg ''controller_port'' (JInt 9093))] else []) @
     (if truthy (jget cfg ''ssl_enabled'')
      then [''SSL://:'' @ str_of rp (jget_default cfg ''ssl_listener_port'' (JInt 9096))] else [])"

definition broker_advertised :: "(json \<Rightarrow> string) \<Rightarrow> svc_info \<Rightarrow> cluster_cfg \<Rightarrow> string list" where
  "broker_advertised rp svc cfg =
     (''PLAINTEXT://'' @ sv_ip svc @ '':'' @ str_of rp (jget_default cfg ''listener_port'' (JInt 9092))) #
     (if truthy (jget cfg ''ssl_enabled'')
      then [''SSL://'' @ sv_ip svc @ '':'' @ str_of rp (jget_default cfg ''ssl_listener_port'' (JInt 9096))] else [])"

definition process_roles :: "svc_info \<Rightarrow> string" where
  "process_roles svc = (if sv_role svc = ''broker_controller'' then ''broker,controller'' else ''broker'')"

definition generate_kraft_broker_config :: "(json \<Rightarrow> string) \<Rightarrow> svc_info \<Rightarrow> svc_info list \<Rightarrow> cluster_cfg \<Rightarrow> exn + string" where
  "generate_kraft_broker_config rp svc svcs cfg =
     (let rf = jget_default cfg ''replication_factor'' (JInt 3) in
      map_sum id (\<lambda>n. text_of (server_lines rp (process_roles svc) svc (build_quorum_voters rp svcs)
          (join '','' (broker_listeners rp svc cfg)) (join '','' (broker_advertised rp svc cfg))
          (join '','' ([''CONTROLLER:PLAINTEXT'', ''PLAINTEXT:PLAINTEXT''] @
             (if truthy (jget cfg ''ssl_enabled'') then [''SSL:SSL''] else [])))
          rf (max (n - 1) 1) cfg))
        (int_value rf))"

definition generate_kraft_controller_config :: "(json \<Rightarrow> string) \<Rightarrow> svc_info \<Rightarrow> svc_info list \<Rightarrow> cluster_cfg \<Rightarrow> string" where
  "generate_kraft_controller_config rp svc svcs cfg = text_of (
      [''# Tantor-generated KRaft Controller Configuration'',
       [],
       setting ''node.id'' (show_int (sv_node_id svc)),
       ''process.roles=controller'',
       [],
       setting ''controller.quorum.voters'' (build_quorum_voters rp svcs),
       [],
       setting ''listeners'' (''CONTROLLER://:'' @ str_of rp (jget_default cfg ''controller_port'' (JInt 9093))),
       ''controller.listener.names=CONTROLLER'',
       ''listener.security.protocol.map=CONTROLLER:PLAINTEXT'',
       [],
       setting ''log.dirs'' (str_of rp (jget_default cfg ''log_dirs'' (JStr ''/var/lib/kafka/data'')))])"

definition generate_zookeeper_config :: "svc_info \<Rightarrow> svc_info list \<Rightarrow> string" where
  "generate_zookeeper_config svc zks = text_of (
     [''# Tantor-generated ZooKeeper Configuration'', [], ''dataDir=/var/lib/zookeeper'', ''clientPort=2181'', ''maxClientCnxns=0'',
      ''admin.enableServer=false'', [], ''tickTime=2000'', ''initLimit=5'', ''syncLimit=2'', []] @
     concat (map (\<lambda>z. [[], ''server.'' @ show_int (sv_node_id z) @ ''='' @ sv_ip z @ '':2888:3888'']) zks) @ [[]])"

definition bootstrap :: "(json \<Rightarrow> string) \<Rightarrow> cluster_cfg \<Rightarrow> svc_info list \<Rightarrow> string" where
  "bootstrap rp cfg svcs = join '','' (map (\<lambda>s. sv_ip s @ '':'' @ str_of rp (jget_default cfg ''listener_port'' (JInt 9092))) svcs)"

definition is_broker :: "svc_info \<Rightarrow> bool" where
  "is_broker s \<longleftrightarrow> sv_role s \<in> {''broker'', ''broker_controller''}"

definition bootstrap_of :: "(json \<Rightarrow> string) \<Rightarrow> cluster_cfg \<Rightarrow> svc_info list \<Rightarrow> string" where
  "bootstrap_of rp cfg svcs = bootstrap rp cfg (filter is_broker svcs)"

definition generate_ksqldb_config :: "(json \<Rightarrow> string) \<Rightarrow> svc_info \<Rightarrow> svc_info list \<Rightarrow> cluster_cfg \<Rightarrow> string" where
  "generate_ksqldb_config rp svc brokers cfg = text_of (
      [''# Tantor-generated ksqlDB Configuration'',
       [],
       setting ''bootstrap.servers'' (bootstrap_of rp cfg brokers),
       setting ''listeners'' (''http://0.0.0.0:'' @ str_of rp (jget_default cfg ''ksqldb_port'' (JInt 8088))),
       setting ''ksql.service.id'' (''ksqldb_'' @ show_int (sv_node_id svc)),
       [],
       ''ksql.streams.auto.offset.reset=earliest'',
       ''ksql.logging.processing.topic.auto.create=true'',
       ''ksql.logging.processing.stream.auto.create=true''])"

definition generate_connect_config :: "(json \<Rightarrow> string) \<Rightarrow> svc_info list \<Rightarrow> cluster_cfg \<Rightarrow> string" where
  "generate_connect_config rp brokers cfg = text_of (
      [''# Tantor-generated Kafka Connect Distributed Configuration'',
       [],
       setting ''bootstrap.servers'' (bootstrap_of rp cfg brokers),
       setting ''group.id'' (''tantor-connect-cluster''),
       [],
       ''key.converter=org.apache.kafka.connect.storage.StringConverter'',
       ''value.converter=org.apache.kafka.connect.json.JsonConverter'',
       ''value.converter.schemas.enable=false'',
       [],
       setting ''offset.storage.topic'' (''tantor-connect-cluster'' @ ''-offsets''),
       ''offset.storage.replication.factor=3'',
       ''offset.storage.partitions=25'',
       [],
       setting ''config.storage.topic'' (''tantor-connect-cluster'' @ ''-configs''),
       ''config.storage.replication.factor=3'',
       [],
       setting ''status.storage.topic'' (''tantor-connect-cluster'' @ ''-status''),
       ''status.storage.replication.factor=3'',
       ''status.storage.partitions=5'',
       [],
       setting ''rest.port'' (str_of rp (jget_default cfg ''connect_rest_port'' (JInt 8083))),
       setting ''rest.advertised.port'' (str_of rp (jget_default cfg ''connect_rest_port'' (JInt 8083))),
       [],
       ''plugin.path=/opt/kafka/plugins''])"

definition generate_schema_registry_config :: "(json \<Rightarrow> string) \<Rightarrow> svc_info list \<Rightarrow> cluster_cfg \<Rightarrow> string" where
  "generate_schema_registry_config rp brokers cfg = text_of (
      [''# Tantor-generated Apicurio Registry configuration'',
       ''# Storage backend: kafkasql (Apicurio persists schemas in a Kafka topic on this cluster)'',
       [],
       setting ''quarkus.http.port'' (str_of rp (jget_default cfg ''schema_registry_port'' (JInt 8085))),
       ''quarkus.http.host=0.0.0.0'',
       [],
       ''# Storage'',
       ''apicurio.storage.kind=kafkasql'',
       setting ''apicurio.storage.kafkasql.bootstrap.servers'' (bootstrap rp cfg brokers),
       ''apicurio.storage.kafkasql.topic=apicurio-registry-kafkasql-journal'',
       [],
       ''# Confluent Schema Registry compatibility (clients targeting Confluent SR'',
       ''# point at this URL with /apis/ccompat/v7 prefix and just work).'',
       ''apicurio.ccompat.legacy-id-mode.enabled=false'',
       ''apicurio.ccompat.use-canonical-hash=false'',
       [],
       ''# Auth: anonymous read+write for the bootstrap install. Lock down by adding'',
       ''# OIDC config when ready.'',
       ''apicurio.auth.enabled=false'',
       [],
       ''# Sensible defaults for self-hosted single-node deployments.'',
       ''quarkus.log.level=INFO'',
       ''quarkus.http.cors=true'',
       ''quarkus.http.cors.origins=*''])"

definition generate_config_for_service :: "(json \<Rightarrow> string) \<Rightarrow> svc_info \<Rightarrow> svc_info list \<Rightarrow> cluster_cfg \<Rightarrow> exn + string" where
  "generate_config_for_service rp svc svcs cfg =
     (let role = sv_role svc; brokers = filter is_broker svcs in
      if role = ''broker'' \<or> role = ''broker_controller'' then generate_kraft_broker_config rp svc svcs cfg
      else if role = ''controller'' then Inr (generate_kraft_controller_config rp svc svcs cfg)
      else if role = ''zookeeper'' then Inr (generate_zookeeper_config svc (filter (\<lambda>s. sv_role s = ''zookeeper'') svcs))
      else if role = ''ksqldb'' then Inr (generate_ksqldb_config rp svc brokers cfg)
      else if role = ''kafka_connect'' then Inr (generate_connect_config rp brokers cfg)
      else if role = ''schema_registry'' then Inr (generate_schema_registry_config rp brokers cfg)
      else Inl (ValueError (''Unknown service role: '' @ role)))"

section \<open>Units\<close>

record unit_opts =
  uo_config_path :: string
  uo_kafka_home :: string
  uo_ksqldb_home :: string
  uo_heap_opts :: string
  uo_java_home :: string
  uo_unit_name :: "string option"
  uo_kafka_log_dir :: string
  uo_bootstrap :: string
  uo_sr_port :: int
  uo_cpu_quota :: json
  uo_memory_max :: json
  uo_jvm_opts :: json
  uo_jmx_port :: json
  uo_gc :: json

text \<open>The defaults of the arguments.\<close>

definition unit_defaults :: "string \<Rightarrow> unit_opts" where
  "unit_defaults config_path =
     \<lparr>uo_config_path = config_path, uo_kafka_home = ''/opt/kafka'', uo_ksqldb_home = ''/opt/ksqldb'', uo_heap_opts = [],
      uo_java_home = [], uo_unit_name = None, uo_kafka_log_dir = ''/var/log/kafka'', uo_bootstrap = ''127.0.0.1:9092'',
      uo_sr_port = 8085, uo_cpu_quota = JNull, uo_memory_max = JNull, uo_jvm_opts = JNull, uo_jmx_port = JNull,
      uo_gc = JBool False\<rparr>"

definition kafka_unit :: "(json \<Rightarrow> string) \<Rightarrow> string \<Rightarrow> unit_opts \<Rightarrow> string list" where
  "kafka_unit rp java_home x =
      [''[Unit]'',
       ''Description=Apache Kafka Broker'',
       ''After=network.target'',
       ''Documentation=https://kafka.apache.org/documentation/'',
       [],
       ''[Service]'',
       ''Type=simple'',
       ''User=kafka'',
       ''Group=kafka'',
       ''Environment='' @ dq @ ''JAVA_HOME='' @ java_home @ dq,
       ''Environment='' @ dq @ ''KAFKA_HEAP_OPTS='' @ uo_heap_opts x @ dq,
       ''# Kafka 4.x ships a log4j2 yaml (config/log4j2.yaml) '' @ em_dash @ '' point at it'',
       ''# explicitly so an old log4j.properties left over from a 3.x install'',
       ''# doesn'' @ sq @ ''t get auto-detected and silently swallow broker logs via the'',
       ''# log4j-1.x bridge.'',
       ''Environment='' @ dq @ ''KAFKA_LOG4J_OPTS=-Dlog4j2.configurationFile=file:'' @ uo_kafka_home x @ ''/config/log4j2.yaml'' @ dq,
       ''Environment='' @ dq @ ''LOG_DIR='' @ uo_kafka_log_dir x @ dq] @
      if_lines (truthy (uo_jvm_opts x))
        ([''Environment='' @ dq @ ''KAFKA_JVM_PERFORMANCE_OPTS='' @ str_of rp (uo_jvm_opts x) @ dq]) @
      if_lines (truthy (uo_jmx_port x))
        ([''Environment='' @ dq @ ''JMX_PORT='' @ str_of rp (uo_jmx_port x) @ dq]) @
      if_lines (truthy (uo_gc x))
        ([''Environment='' @ dq @ ''KAFKA_GC_LOG_OPTS=-Xlog:gc*:file='' @ uo_kafka_log_dir x @ ''/gc.log:time,level,tags:filecount=10,filesize=10M'' @ dq]) @
      [''ExecStartPre=/bin/bash -c '' @ sq @ ''test -x '' @ java_home @ ''/bin/java || (echo '' @ dq @ ''JAVA_HOME invalid: '' @ java_home @ dq @ '' && exit 1)'' @ sq,
       ''ExecStart='' @ uo_kafka_home x @ ''/bin/kafka-server-start.sh '' @ uo_config_path x,
       ''ExecStop='' @ uo_kafka_home x @ ''/bin/kafka-server-stop.sh'',
       ''Restart=on-failure'',
       ''RestartSec=10'',
       ''TimeoutStopSec=60'',
       ''LimitNOFILE=100000'',
       ''LimitNPROC=8192''] @
      if_lines (truthy (uo_cpu_quota x))
        ([''CPUQuota='' @ str_of rp (uo_cpu_quota x)]) @
      if_lines (truthy (uo_memory_max x))
        ([''MemoryMax='' @ str_of rp (uo_memory_max x)]) @
      [''StandardOutput=journal'',
       ''StandardError=journal'',
       ''SyslogIdentifier=kafka'',
       [],
       ''[Install]'',
       ''WantedBy=multi-user.target'']"

definition kraft_controller_unit :: "(json \<Rightarrow> string) \<Rightarrow> string \<Rightarrow> unit_opts \<Rightarrow> string list" where
  "kraft_controller_unit rp java_home x =
      [''[Unit]'',
       ''Description=Apache Kafka KRaft Controller'',
       ''After=network.target'',
       ''Documentation=https://kafka.apache.org/documentation/'',
       [],
       ''[Service]'',
       ''Type=simple'',
       ''User=kafka'',
       ''Group=kafka'',
       ''Environment='' @ dq @ ''JAVA_HOME='' @ java_home @ dq,
       ''Environment='' @ dq @ ''KAFKA_HEAP_OPTS='' @ uo_heap_opts x @ dq,
       ''Environment='' @ dq @ ''LOG_DIR=/var/log/kafka'' @ dq] @
      if_lines (truthy (uo_jvm_opts x))
        ([''Environment='' @ dq @ ''KAFKA_JVM_PERFORMANCE_OPTS='' @ str_of rp (uo_jvm_opts x) @ dq]) @
      if_lines (truthy (uo_jmx_port x))
        ([''Environment='' @ dq @ ''JMX_PORT='' @ str_of rp (uo_jmx_port x) @ dq]) @
      if_lines (truthy (uo_gc x))
        ([''Environment='' @ dq @ ''KAFKA_GC_LOG_OPTS=-Xlog:gc*:file=/var/log/kafka/gc-controller.log:time,level,tags:filecount=10,filesize=10M'' @ dq]) @
      [''ExecStartPre=/bin/bash -c '' @ sq @ ''test -x '' @ java_home @ ''/bin/java || (echo '' @ dq @ ''JAVA_HOME invalid: '' @ java_home @ dq @ '' && exit 1)'' @ sq,
       ''ExecStart='' @ uo_kafka_home x @ ''/bin/kafka-server-start.sh '' @ uo_config_path x,
       ''ExecStop='' @ uo_kafka_home x @ ''/bin/kafka-server-stop.sh'',
       ''Restart=on-failure'',
       ''RestartSec=10'',
       ''TimeoutStopSec=60'',
       ''LimitNOFILE=100000'',
       ''LimitNPROC=8192''] @
      if_lines (truthy (uo_cpu_quota x))
        ([''CPUQuota='' @ str_of rp (uo_cpu_quota x)]) @
      if_lines (truthy (uo_memory_max x))
        ([''MemoryMax='' @ str_of rp (uo_memory_max x)]) @
      [''StandardOutput=journal'',
       ''StandardError=journal'',
       ''SyslogIdentifier=kafka-controller'',
       [],
       ''[Install]'',
       ''WantedBy=multi-user.target'']"

definition ksqldb_unit :: "(json \<Rightarrow> string) \<Rightarrow> string \<Rightarrow> unit_opts \<Rightarrow> string list" where
  "ksqldb_unit rp java_home x =
      [''[Unit]'',
       ''Description=ksqlDB Server'',
       ''After=network.target kafka.service'',
       [],
       ''[Service]'',
       ''Type=simple'',
       ''User=kafka'',
       ''Group=kafka'',
       ''Environment='' @ dq @ ''JAVA_HOME='' @ java_home @ dq,
       ''Environment='' @ dq @ ''KSQL_HEAP_OPTS='' @ uo_heap_opts x @ dq,
       ''Environment='' @ dq @ ''KSQL_LOG4J_OPTS=-Dlog4j.configuration=file:'' @ uo_ksqldb_home x @ ''/etc/ksqldb/log4j-rolling.properties'' @ dq] @
      if_lines (truthy (uo_jvm_opts x))
        ([''Environment='' @ dq @ ''KAFKA_JVM_PERFORMANCE_OPTS='' @ str_of rp (uo_jvm_opts x) @ dq]) @
      if_lines (truthy (uo_jmx_port x))
        ([''Environment='' @ dq @ ''JMX_PORT='' @ str_of rp (uo_jmx_port x) @ dq]) @
      if_lines (truthy (uo_gc x))
        ([''Environment='' @ dq @ ''KAFKA_GC_LOG_OPTS=-Xlog:gc*:file=/var/log/kafka/gc-ksqldb.log:time,level,tags:filecount=10,filesize=10M'' @ dq]) @
      [''ExecStartPre=/bin/bash -c '' @ sq @ ''test -x '' @ java_home @ ''/bin/java || (echo '' @ dq @ ''JAVA_HOME invalid: '' @ java_home @ dq @ '' && exit 1)'' @ sq,
       ''ExecStart='' @ uo_ksqldb_home x @ ''/bin/ksql-server-start '' @ uo_config_path x,
       ''Restart=on-failure'',
       ''RestartSec=10'',
       ''TimeoutStopSec=60'',
       ''LimitNOFILE=100000''] @
      if_lines (truthy (uo_cpu_quota x))
        ([''CPUQuota='' @ str_of rp (uo_cpu_quota x)]) @
      if_lines (truthy (uo_memory_max x))
        ([''MemoryMax='' @ str_of rp (uo_memory_max x)]) @
      [''StandardOutput=journal'',
       ''StandardError=journal'',
       ''SyslogIdentifier=ksqldb'',
       [],
       ''[Install]'',
       ''WantedBy=multi-user.target'']"

definition connect_unit :: "(json \<Rightarrow> string) \<Rightarrow> string \<Rightarrow> unit_opts \<Rightarrow> string list" where
  "connect_unit rp java_home x =
      [''[Unit]'',
       ''Description=Kafka Connect Distributed'',
       ''After=network.target kafka.service'',
       [],
       ''[Service]'',
       ''Type=simple'',
       ''User=kafka'',
       ''Group=kafka'',
       ''Environment='' @ dq @ ''JAVA_HOME='' @ java_home @ dq,
       ''Environment='' @ dq @ ''KAFKA_HEAP_OPTS='' @ uo_heap_opts x @ dq] @
      if_lines (truthy (uo_jvm_opts x))
        ([''Environment='' @ dq @ ''KAFKA_JVM_PERFORMANCE_OPTS='' @ str_of rp (uo_jvm_opts x) @ dq]) @
      if_lines (truthy (uo_jmx_port x))
        ([''Environment='' @ dq @ ''JMX_PORT='' @ str_of rp (uo_jmx_port x) @ dq]) @
      if_lines (truthy (uo_gc x))
        ([''Environment='' @ dq @ ''KAFKA_GC_LOG_OPTS=-Xlog:gc*:file=/var/log/kafka/gc-connect.log:time,level,tags:filecount=10,filesize=10M'' @ dq]) @
      [''ExecStartPre=/bin/bash -c '' @ sq @ ''test -x '' @ java_home @ ''/bin/java || (echo '' @ dq @ ''JAVA_HOME invalid: '' @ java_home @ dq @ '' && exit 1)'' @ sq,
       ''ExecStart='' @ uo_kafka_home x @ ''/bin/connect-distributed.sh '' @ uo_config_path x,
       ''Restart=on-failure'',
       ''RestartSec=10'',
       ''TimeoutStopSec=60'',
       ''LimitNOFILE=100000''] @
      if_lines (truthy (uo_cpu_quota x))
        ([''CPUQuota='' @ str_of rp (uo_cpu_quota x)]) @
      if_lines (truthy (uo_memory_max x))
        ([''MemoryMax='' @ str_of rp (uo_memory_max x)]) @
      [''StandardOutput=journal'',
       ''StandardError=journal'',
       ''SyslogIdentifier=kafka-connect'',
       [],
       ''[Install]'',
       ''WantedBy=multi-user.target'']"

definition sr_java_opts :: "(json \<Rightarrow> string) \<Rightarrow> unit_opts \<Rightarrow> string list" where
  "sr_java_opts rp x =
     (if uo_heap_opts x \<noteq> [] then [uo_heap_opts x] else []) @
     (if truthy (uo_jvm_opts x) then [str_of rp (uo_jvm_opts x)] else []) @
     (if truthy (uo_gc x)
      then [''-Xlog:gc*:file=/var/log/kafka/gc-schema-registry.log:time,level,tags:filecount=10,filesize=10M''] else []) @
     (if truthy (uo_jmx_port x)
      then [''-Dcom.sun.management.jmxremote -Dcom.sun.management.jmxremote.port='' @ str_of rp (uo_jmx_port x) @
            '' -Dcom.sun.management.jmxremote.rmi.port='' @ str_of rp (uo_jmx_port x) @
            '' -Dcom.sun.management.jmxremote.authenticate=false -Dcom.sun.management.jmxremote.ssl=false''] else [])"

definition schema_registry_unit :: "(json \<Rightarrow> string) \<Rightarrow> string \<Rightarrow> unit_opts \<Rightarrow> string list" where
  "schema_registry_unit rp java_home x =
     (let opts = sr_java_opts rp x in
      [''[Unit]'',
       ''Description=Apicurio Schema Registry (Tantor-managed)'',
       ''After=network.target kafka.service'',
       ''Wants=kafka.service'',
       [],
       ''[Service]'',
       ''Type=simple'',
       ''User=apicurio'',
       ''Group=apicurio'',
       ''Environment='' @ dq @ ''JAVA_HOME='' @ java_home @ dq,
       ''# v1.4.0 '' @ em_dash @ '' Apicurio 3.x stopped honoring QUARKUS_CONFIG_LOCATIONS'',
       ''# at startup, so we pass the critical config keys as -D system'',
       ''# properties on the command line. The application.properties file'',
       ''# stays around for human inspection / future use.'',
       ''Environment='' @ dq @ ''QUARKUS_CONFIG_LOCATIONS='' @ uo_config_path x @ dq,
       [],
       [],
       [],
       [],
       []] @
      if_lines (opts \<noteq> [])
        ([''Environment='' @ dq @ ''JAVA_OPTS='' @ join '' '' opts @ dq]) @
      [''# Apicurio 3.1+ ships quarkus-run.jar at the tarball root after our'',
       ''# strip-components extract. The legacy quarkus-app/ subdir layout was'',
       ''# removed in 3.0. Pick whichever exists.'',
       ''ExecStart=/bin/sh -c '' @ sq @ ''JAR=/opt/apicurio/quarkus-app/quarkus-run.jar; [ -f '' @ dq @ ''$JAR'' @ dq @ '' ] || JAR=/opt/apicurio/quarkus-run.jar; exec '' @ java_home @ ''/bin/java $JAVA_OPTS -Dquarkus.http.port='' @ show_int (uo_sr_port x) @ '' -Dapicurio.storage.kind=kafkasql -Dapicurio.kafkasql.bootstrap.servers='' @ uo_bootstrap x @ '' -jar $JAR'' @ sq,
       ''Restart=always'',
       ''RestartSec=5'',
       ''# v1.4.1 '' @ em_dash @ '' Quarkus cold-start + kafkasql topic creation can exceed'',
       ''# systemd'' @ sq @ ''s default 90s start window on small VMs. 300s avoids spurious'',
       ''# '' @ dq @ ''service failed'' @ dq @ '' while still failing fast on a real bug.'',
       ''TimeoutStartSec=300'',
       ''LimitNOFILE=65536''] @
      if_lines (truthy (uo_cpu_quota x))
        ([''CPUQuota='' @ str_of rp (uo_cpu_quota x)]) @
      if_lines (truthy (uo_memory_max x))
        ([''MemoryMax='' @ str_of rp (uo_memory_max x)]) @
      [[],
       ''[Install]'',
       ''WantedBy=multi-user.target''])"

text \<open>A service type without a template raises; \<open>uo_unit_name\<close> is handed to the templates, which do not use it.\<close>

definition generate_systemd_unit :: "(json \<Rightarrow> string) \<Rightarrow> string \<Rightarrow> unit_opts \<Rightarrow> exn + string" where
  "generate_systemd_unit rp service_type x =
     (let java_home = (if uo_java_home x = [] then ''/usr'' else uo_java_home x) in
      if service_type = ''kafka'' then Inr (text_of (kafka_unit rp java_home x))
      else if service_type = ''kafka-kraft-controller'' then Inr (text_of (kraft_controller_unit rp java_home x))
      else if service_type = ''ksqldb'' then Inr (text_of (ksqldb_unit rp java_home x))
      else if service_type = ''kafka-connect'' then Inr (text_of (connect_unit rp java_home x))
      else if service_type = ''schema-registry'' then Inr (text_of (schema_registry_unit rp java_home x))
      else Inl (Exn ''TemplateNotFound'' (''systemd/'' @ service_type @ ''.service.j2'')))"

section \<open>What the reader of broker configurations finds\<close>

definition word_cfg :: "(json \<Rightarrow> string) \<Rightarrow> cluster_cfg \<Rightarrow> bool" where
  "word_cfg rp cfg \<longleftrightarrow> list_all (\<lambda>(k, v). word (str_of rp v)) cfg"

lemma word_jget: "word_cfg rp cfg \<Longrightarrow> word (str_of rp v) \<Longrightarrow> word (str_of rp (jget_default cfg k v))"
  by (auto simp: jget_default_def word_cfg_def list_all_iff split: option.split dest: map_of_SomeD)

lemma bindings_Cons: "bindings (l # ls) = (case parse_line l of None \<Rightarrow> bindings ls | Some p \<Rightarrow> p # bindings ls)"
  by (simp add: map_filter_simps split: option.split)

lemma parse_setting: "plain_key k \<Longrightarrow> parse_line (setting k v) = Some (k, strip v)"
  using parse_new_line[of k v] by (simp add: setting_def)

text \<open>The lines without variables.\<close>

lemma fixed_bindings:
  "bindings tls_comment = []"
  "bindings principal_lines = [(''ssl.principal.mapping.rules'', ''RULE:^.*$/ANONYMOUS/,DEFAULT'')]"
  "bindings tuning_lines = [(''num.network.threads'', ''3''), (''num.io.threads'', ''8''), (''socket.send.buffer.bytes'', ''102400''),
     (''socket.receive.buffer.bytes'', ''102400''), (''socket.request.max.bytes'', ''209715200'')]"
  "bindings security_lines =
     [(''authorizer.class.name'', ''org.apache.kafka.metadata.authorizer.StandardAuthorizer''), (''super.users'', ''User:ANONYMOUS''),
      (''allow.everyone.if.no.acl.found'', ''true'')]"
  by code_simp+

lemma fixed_lines:
  "parse_line [] = None"
  "parse_line ''# Tantor-generated KRaft Kafka Server Configuration'' = None"
  "parse_line ''controller.listener.names=CONTROLLER'' = Some (''controller.listener.names'', ''CONTROLLER'')"
  "parse_line ''inter.broker.listener.name=PLAINTEXT'' = Some (''inter.broker.listener.name'', ''PLAINTEXT'')"
  "parse_line ''ssl.keystore.type=PKCS12'' = Some (''ssl.keystore.type'', ''PKCS12'')"
  "parse_line ''ssl.truststore.type=PEM'' = Some (''ssl.truststore.type'', ''PEM'')"
  "parse_line ''# mTLS: every client must present a cert signed by the cluster CA.'' = None"
  "parse_line ''ssl.client.auth=required'' = Some (''ssl.client.auth'', ''required'')"
  "parse_line ''log.segment.bytes=1073741824'' = Some (''log.segment.bytes'', ''1073741824'')"
  "parse_line ''log.retention.check.interval.ms=300000'' = Some (''log.retention.check.interval.ms'', ''300000'')"
  "parse_line ''group.initial.rebalance.delay.ms=0'' = Some (''group.initial.rebalance.delay.ms'', ''0'')"
  by code_simp+

definition server_keys :: "string list" where
  "server_keys = [''node.id'', ''process.roles'', ''controller.quorum.voters'', ''listeners'', ''advertised.listeners'',
     ''listener.security.protocol.map'', ''ssl.keystore.location'', ''ssl.keystore.password'', ''ssl.key.password'',
     ''ssl.truststore.location'', ''log.dirs'', ''num.partitions'', ''default.replication.factor'', ''min.insync.replicas'',
     ''offsets.topic.replication.factor'', ''transaction.state.log.replication.factor'', ''transaction.state.log.min.isr'',
     ''log.retention.hours'']"

lemma plain_server_keys: "list_all plain_key server_keys"
  by code_simp

lemma parse_comment: "parse_line (CHR ''#'' # r) = None"
proof -
  have "\<not> py_ws CHR ''#''" by (simp add: py_ws_def ws_chars_def)
  then have "strip (CHR ''#'' # r) = CHR ''#'' # rev (dropWhile py_ws (rev r))"
    using dropWhile_upto[of py_ws "CHR ''#''" "rev r" "[]"] by (simp add: strip_def strip_by_def)
  then show ?thesis by (simp add: parse_line_def starts_with_def)
qed

lemma one_line_text: "list_all one_line ls \<Longrightarrow> ls \<noteq> [] \<Longrightarrow> map_of (parse_properties (text_of ls)) = map_of (rev (bindings ls))"
  by (simp add: map_of_parse text_of_def splitlines_join)

lemma bindings_if: "bindings (if_lines b ls) = (if b then bindings ls else [])"
  by (simp add: if_lines_def bindings_append bindings_Cons fixed_lines)

lemma one_line_if: "list_all one_line ls \<Longrightarrow> list_all one_line (if_lines b ls)"
  by (simp add: if_lines_def one_line_def)

lemma one_line_setting: "plain_key k \<Longrightarrow> one_line v \<Longrightarrow> one_line (setting k v)"
  by (simp add: setting_def plain_key_def one_line_def line_end_def)

lemma server_setting: "k \<in> set server_keys \<Longrightarrow> word v \<Longrightarrow> parse_line (setting k v) = Some (k, v)"
  "k \<in> set server_keys \<Longrightarrow> word v \<Longrightarrow> one_line (setting k v)"
  using plain_server_keys by (auto simp: list_all_iff parse_setting word_strip intro: one_line_setting word_one_line)

lemma fixed_one_line:
  "list_all one_line tls_comment" "list_all one_line principal_lines" "list_all one_line tuning_lines" "list_all one_line security_lines"
  "list_all one_line [[], ''# Tantor-generated KRaft Kafka Server Configuration'', ''controller.listener.names=CONTROLLER'',
     ''inter.broker.listener.name=PLAINTEXT'', ''ssl.keystore.type=PKCS12'', ''ssl.truststore.type=PEM'',
     ''# mTLS: every client must present a cert signed by the cluster CA.'', ''ssl.client.auth=required'',
     ''log.segment.bytes=1073741824'', ''log.retention.check.interval.ms=300000'', ''group.initial.rebalance.delay.ms=0'']"
  by code_simp+

text \<open>All settings of a generated \<open>server.properties\<close>, in the order of the file.\<close>

definition server_bindings :: "(json \<Rightarrow> string) \<Rightarrow> string \<Rightarrow> svc_info \<Rightarrow> string \<Rightarrow> string \<Rightarrow> string \<Rightarrow> string \<Rightarrow> json \<Rightarrow> int \<Rightarrow>
    cluster_cfg \<Rightarrow> (string \<times> string) list" where
  "server_bindings rp roles svc voters listeners advertised protocols rf isr cfg =
     [(''node.id'', show_int (sv_node_id svc)), (''process.roles'', roles), (''controller.quorum.voters'', voters),
      (''listeners'', listeners), (''advertised.listeners'', advertised), (''controller.listener.names'', ''CONTROLLER''),
      (''inter.broker.listener.name'', ''PLAINTEXT''), (''listener.security.protocol.map'', protocols)] @
     (if truthy (jget cfg ''ssl_enabled'')
      then [(''ssl.keystore.type'', ''PKCS12''), (''ssl.keystore.location'', ''/etc/kafka/ssl/broker.p12''),
            (''ssl.keystore.password'', str_of rp (jget_default cfg ''_ssl_keystore_password'' (JStr []))),
            (''ssl.key.password'', str_of rp (jget_default cfg ''_ssl_keystore_password'' (JStr []))),
            (''ssl.truststore.type'', ''PEM''), (''ssl.truststore.location'', ''/etc/kafka/ssl/truststore.pem'')] @
           (if truthy (jget cfg ''mtls_required'') then [(''ssl.client.auth'', ''required'')] else []) @
           [(''ssl.principal.mapping.rules'', ''RULE:^.*$/ANONYMOUS/,DEFAULT'')]
      else []) @
     [(''log.dirs'', str_of rp (jget_default cfg ''log_dirs'' (JStr ''/var/lib/kafka/data'')))] @ bindings tuning_lines @
     [(''num.partitions'', str_of rp (jget_default cfg ''num_partitions'' (JInt 3))), (''default.replication.factor'', str_of rp rf),
      (''min.insync.replicas'', show_int isr), (''offsets.topic.replication.factor'', str_of rp rf),
      (''transaction.state.log.replication.factor'', str_of rp rf), (''transaction.state.log.min.isr'', show_int isr),
      (''log.retention.hours'', str_of rp (jget_default cfg ''retention_hours'' (JInt 168))),
      (''log.segment.bytes'', ''1073741824''), (''log.retention.check.interval.ms'', ''300000''), (''group.initial.rebalance.delay.ms'', ''0'')] @
     bindings security_lines"

lemma server_lines_read:
  assumes "word roles" "word voters" "word listeners" "word advertised" "word protocols" "word (str_of rp rf)" "word_cfg rp cfg"
  shows "bindings (server_lines rp roles svc voters listeners advertised protocols rf isr cfg) =
      server_bindings rp roles svc voters listeners advertised protocols rf isr cfg"
    and "list_all one_line (server_lines rp roles svc voters listeners advertised protocols rf isr cfg)"
proof -
  have cfg: "word (str_of rp (jget_default cfg ''_ssl_keystore_password'' (JStr [])))"
    "word (str_of rp (jget_default cfg ''log_dirs'' (JStr ''/var/lib/kafka/data'')))"
    "word (str_of rp (jget_default cfg ''num_partitions'' (JInt 3)))" "word (str_of rp (jget_default cfg ''retention_hours'' (JInt 168)))"
    by (rule word_jget[OF assms(7)]; simp add: word_Cons py_ws_def ws_chars_def)+
  have paths: "word ''/etc/kafka/ssl/broker.p12''" "word ''/etc/kafka/ssl/truststore.pem''" by code_simp+
  have role_line: "one_line (''# Role: '' @ roles)" using word_one_line[OF assms(1)] by (simp add: one_line_def line_end_def)
  show "bindings (server_lines rp roles svc voters listeners advertised protocols rf isr cfg) =
      server_bindings rp roles svc voters listeners advertised protocols rf isr cfg"
    unfolding server_lines_def server_bindings_def
    by (simp add: bindings_append bindings_Cons bindings_if fixed_bindings fixed_lines parse_comment server_setting server_keys_def
        assms(1-6) cfg paths)
  show "list_all one_line (server_lines rp roles svc voters listeners advertised protocols rf isr cfg)"
    unfolding server_lines_def using fixed_one_line
    by (simp add: one_line_if server_setting server_keys_def assms(1-6) cfg paths role_line[simplified])
qed

lemma word_voters: "list_all (\<lambda>s. word (voter rp s)) svcs \<Longrightarrow> word (build_quorum_voters rp svcs)"
  unfolding build_quorum_voters_def by (rule word_join) (auto simp: word_Cons py_ws_def ws_chars_def list_all_iff)

text \<open>Addresses and the settings of the cluster have no white space.\<close>

definition plain_input :: "(json \<Rightarrow> string) \<Rightarrow> svc_info \<Rightarrow> svc_info list \<Rightarrow> cluster_cfg \<Rightarrow> bool" where
  "plain_input rp svc svcs cfg \<longleftrightarrow>
     word (sv_ip svc) \<and> list_all (\<lambda>s. word (voter rp s)) svcs \<and> word_cfg rp cfg"

lemma word_derived:
  assumes "plain_input rp svc svcs cfg"
  shows "word (build_quorum_voters rp svcs)" "word (join '','' (broker_listeners rp svc cfg))"
    "word (join '','' (broker_advertised rp svc cfg))" "word (process_roles svc)"
    "word (join '','' ([''CONTROLLER:PLAINTEXT'', ''PLAINTEXT:PLAINTEXT''] @ (if b then [''SSL:SSL''] else [])))"
    "word (str_of rp (jget_default cfg ''replication_factor'' (JInt 3)))"
proof -
  have ip: "word (sv_ip svc)" and v: "list_all (\<lambda>s. word (voter rp s)) svcs" and c: "word_cfg rp cfg"
    using assms by (simp_all add: plain_input_def)
  have port: "word (str_of rp (jget_default cfg k (JInt i)))" for k i using word_jget[OF c] by simp
  have lits: "word '',''" "word ''PLAINTEXT://:''" "word ''CONTROLLER://:''" "word ''SSL://:''" "word ''PLAINTEXT://''" "word ''SSL://''"
    "word '':''" "word ''broker''" "word ''broker,controller''" "word ''CONTROLLER:PLAINTEXT''" "word ''PLAINTEXT:PLAINTEXT''" "word ''SSL:SSL''"
    by code_simp+
  show "word (build_quorum_voters rp svcs)" by (rule word_voters[OF v])
  show "word (join '','' (broker_listeners rp svc cfg))"
    unfolding broker_listeners_def using word_append lits port by (intro word_join) (simp_all del: append.simps)
  show "word (join '','' (broker_advertised rp svc cfg))"
    unfolding broker_advertised_def using word_append lits port ip by (intro word_join) (simp_all del: append.simps)
  show "word (process_roles svc)" unfolding process_roles_def using lits by simp
  show "word (join '','' ([''CONTROLLER:PLAINTEXT'', ''PLAINTEXT:PLAINTEXT''] @ (if b then [''SSL:SSL''] else [])))"
    using lits by (intro word_join) simp_all
  show "word (str_of rp (jget_default cfg ''replication_factor'' (JInt 3)))" by (rule port)
qed

lemma server_keys_distinct:
  "distinct (map fst (server_bindings rp roles svc voters listeners advertised protocols rf isr cfg))"
  "''ssl.client.auth'' \<in> set (map fst (server_bindings rp roles svc voters listeners advertised protocols rf isr cfg)) \<longleftrightarrow>
     truthy (jget cfg ''ssl_enabled'') \<and> truthy (jget cfg ''mtls_required'')"
  unfolding server_bindings_def fixed_bindings
  by (cases "truthy (jget cfg ''ssl_enabled'')"; cases "truthy (jget cfg ''mtls_required'')";
      simp only: if_True if_False append.simps list.map fst_conv simp_thms, code_simp)+

lemma map_of_rev_distinct: "distinct (map fst xs) \<Longrightarrow> map_of (rev xs) = map_of xs"
  by (rule map_of_eqI) (auto simp: rev_map[symmetric] intro: map_of_is_SomeI)

lemma server_bindings_found:
  "map_of (rev (server_bindings rp roles svc voters listeners advertised protocols rf isr cfg)) =
   map_of (server_bindings rp roles svc voters listeners advertised protocols rf isr cfg)"
  by (rule map_of_rev_distinct[OF server_keys_distinct(1)])

lemma server_settings:
  assumes n: "int_value (jget_default cfg ''replication_factor'' (JInt 3)) = Inr n" and plain: "plain_input rp svc svcs cfg"
  shows "\<exists>body. generate_kraft_broker_config rp svc svcs cfg = Inr body \<and>
     map_of (parse_properties body) = map_of (server_bindings rp (process_roles svc) svc (build_quorum_voters rp svcs)
       (join '','' (broker_listeners rp svc cfg)) (join '','' (broker_advertised rp svc cfg))
       (join '','' ([''CONTROLLER:PLAINTEXT'', ''PLAINTEXT:PLAINTEXT''] @ (if truthy (jget cfg ''ssl_enabled'') then [''SSL:SSL''] else [])))
       (jget_default cfg ''replication_factor'' (JInt 3)) (max (n - 1) 1) cfg)"
proof -
  let ?lines = "server_lines rp (process_roles svc) svc (build_quorum_voters rp svcs)
          (join '','' (broker_listeners rp svc cfg)) (join '','' (broker_advertised rp svc cfg))
          (join '','' ([''CONTROLLER:PLAINTEXT'', ''PLAINTEXT:PLAINTEXT''] @
             (if truthy (jget cfg ''ssl_enabled'') then [''SSL:SSL''] else [])))
          (jget_default cfg ''replication_factor'' (JInt 3)) (max (n - 1) 1) cfg"
  have body: "generate_kraft_broker_config rp svc svcs cfg = Inr (text_of ?lines)"
    unfolding generate_kraft_broker_config_def Let_def n by simp
  have c: "word_cfg rp cfg" using plain by (simp add: plain_input_def)
  note words = word_derived[OF plain]
  note read = server_lines_read[OF words(4,1,2,3,5,6) c]
  have "map_of (parse_properties (text_of ?lines)) = map_of (rev (bindings ?lines))"
    by (rule one_line_text[OF read(2)]) (simp add: server_lines_def)
  then show ?thesis unfolding read(1) server_bindings_found using body by blast
qed

lemma server_lookups:
  assumes "generate_kraft_broker_config rp svc svcs cfg = Inr body" and plain: "plain_input rp svc svcs cfg"
  shows "map_of (parse_properties body) ''process.roles'' = Some (process_roles svc)"
    and "map_of (parse_properties body) ''controller.quorum.voters'' = Some (build_quorum_voters rp svcs)"
    and "map_of (parse_properties body) ''listeners'' = Some (join '','' (broker_listeners rp svc cfg))"
proof -
  obtain n where "int_value (jget_default cfg ''replication_factor'' (JInt 3)) = Inr n"
    using assms(1) unfolding generate_kraft_broker_config_def Let_def
    by (cases "int_value (jget_default cfg ''replication_factor'' (JInt 3))") simp_all
  from server_settings[OF this plain] assms(1)
  show "map_of (parse_properties body) ''process.roles'' = Some (process_roles svc)"
    "map_of (parse_properties body) ''controller.quorum.voters'' = Some (build_quorum_voters rp svcs)"
    "map_of (parse_properties body) ''listeners'' = Some (join '','' (broker_listeners rp svc cfg))"
    by (auto simp: server_bindings_def)
qed

text \<open>
  Claim C11.  A broker configuration is generated whenever the replication factor is a number, and the reader that shows and
  edits the configuration of a broker finds in the generated \<open>server.properties\<close> exactly the settings listed here and
  no other: those of the node, of the quorum of the whole cluster, of the listeners and of TLS, and every value given in the
  configuration of the cluster or its default, with in-sync replicas one below the replication factor but at least one.
  Addresses and given values must be free of white space (\<open>plain_input\<close>); \<open>str_of rp\<close> is Python's \<open>str\<close>.
\<close>

theorem server_config_read:
  assumes "int_value (jget_default cfg ''replication_factor'' (JInt 3)) = Inr n" and "plain_input rp svc svcs cfg"
  shows "let given = (\<lambda>k d. str_of rp (jget_default cfg k d)); tls = truthy (jget cfg ''ssl_enabled'');
      combined = (sv_role svc = ''broker_controller''); isr = show_int (max (n - 1) 1) in
    \<exists>body. generate_kraft_broker_config rp svc svcs cfg = Inr body \<and>
     map_of (parse_properties body) = map_of (
      [(''node.id'', show_int (sv_node_id svc)), (''process.roles'', if combined then ''broker,controller'' else ''broker''),
       (''controller.quorum.voters'', join '','' (map (\<lambda>s. show_int (sv_node_id s) @ ''@'' @ sv_ip s @ '':'' @
          str_of rp (case sv_controller_port s of None \<Rightarrow> JInt 9093 | Some p \<Rightarrow> p))
          (filter (\<lambda>s. sv_role s = ''controller'' \<or> sv_role s = ''broker_controller'') svcs))),
       (''listeners'', ''PLAINTEXT://:'' @ given ''listener_port'' (JInt 9092) @
          (if combined then '',CONTROLLER://:'' @ given ''controller_port'' (JInt 9093) else []) @
          (if tls then '',SSL://:'' @ given ''ssl_listener_port'' (JInt 9096) else [])),
       (''advertised.listeners'', ''PLAINTEXT://'' @ sv_ip svc @ '':'' @ given ''listener_port'' (JInt 9092) @
          (if tls then '',SSL://'' @ sv_ip svc @ '':'' @ given ''ssl_listener_port'' (JInt 9096) else [])),
       (''controller.listener.names'', ''CONTROLLER''), (''inter.broker.listener.name'', ''PLAINTEXT''),
       (''listener.security.protocol.map'', ''CONTROLLER:PLAINTEXT,PLAINTEXT:PLAINTEXT'' @ (if tls then '',SSL:SSL'' else []))] @
      (if tls then
        [(''ssl.keystore.type'', ''PKCS12''), (''ssl.keystore.location'', ''/etc/kafka/ssl/broker.p12''),
         (''ssl.keystore.password'', given ''_ssl_keystore_password'' (JStr [])),
         (''ssl.key.password'', given ''_ssl_keystore_password'' (JStr [])),
         (''ssl.truststore.type'', ''PEM''), (''ssl.truststore.location'', ''/etc/kafka/ssl/truststore.pem''),
         (''ssl.principal.mapping.rules'', ''RULE:^.*$/ANONYMOUS/,DEFAULT'')] @
        (if truthy (jget cfg ''mtls_required'') then [(''ssl.client.auth'', ''required'')] else [])
       else []) @
      [(''log.dirs'', given ''log_dirs'' (JStr ''/var/lib/kafka/data'')), (''num.network.threads'', ''3''), (''num.io.threads'', ''8''),
       (''socket.send.buffer.bytes'', ''102400''), (''socket.receive.buffer.bytes'', ''102400''), (''socket.request.max.bytes'', ''209715200''),
       (''num.partitions'', given ''num_partitions'' (JInt 3)), (''default.replication.factor'', given ''replication_factor'' (JInt 3)),
       (''min.insync.replicas'', isr), (''offsets.topic.replication.factor'', given ''replication_factor'' (JInt 3)),
       (''transaction.state.log.replication.factor'', given ''replication_factor'' (JInt 3)), (''transaction.state.log.min.isr'', isr),
       (''log.retention.hours'', given ''retention_hours'' (JInt 168)), (''log.segment.bytes'', ''1073741824''),
       (''log.retention.check.interval.ms'', ''300000''), (''group.initial.rebalance.delay.ms'', ''0''),
       (''authorizer.class.name'', ''org.apache.kafka.metadata.authorizer.StandardAuthorizer''), (''super.users'', ''User:ANONYMOUS''),
       (''allow.everyone.if.no.acl.found'', ''true'')])"
proof -
  have swap: "map_of (xs @ (if tls then ys @ (if m then [a] else []) @ [b] else []) @ zs) =
      map_of (xs @ (if tls then (ys @ [b]) @ (if m then [a] else []) else []) @ zs)"
    if "fst a \<noteq> fst b" for xs ys zs :: "(string \<times> string) list" and a b tls m
    using that by (auto simp: map_add_def fun_eq_iff split: option.split)
  have ne: "''ssl.client.auth'' \<noteq> ''ssl.principal.mapping.rules''" by simp
  have voters: "build_quorum_voters rp svcs = join '','' (map (\<lambda>s. show_int (sv_node_id s) @ ''@'' @ sv_ip s @ '':'' @
          str_of rp (case sv_controller_port s of None \<Rightarrow> JInt 9093 | Some p \<Rightarrow> p))
          (filter (\<lambda>s. sv_role s = ''controller'' \<or> sv_role s = ''broker_controller'') svcs))"
    unfolding build_quorum_voters_def voter_def[abs_def] by simp
  show ?thesis
    using server_settings[OF assms]
    unfolding Let_def server_bindings_def voters process_roles_def broker_listeners_def broker_advertised_def fixed_bindings
      swap[of "(''ssl.client.auth'', ''required'')" "(''ssl.principal.mapping.rules'', ''RULE:^.*$/ANONYMOUS/,DEFAULT'')", unfolded fst_conv, OF ne]
    by (cases "sv_role svc = ''broker_controller''"; cases "truthy (jget cfg ''ssl_enabled'')") simp_all
qed

definition plain_broker :: svc_info where
  "plain_broker = \<lparr>sv_role = ''broker_controller'', sv_node_id = 1, sv_ip = ''10.0.0.1'', sv_host_id = ''h1'', sv_controller_port = Some (JInt 9193)\<rparr>"

theorem server_config_read_witness:
  "\<exists>body. generate_kraft_broker_config (\<lambda>_. []) plain_broker [plain_broker] [(''controller_port'', JInt 9193), (''num_partitions'', JInt 6)] = Inr body \<and>
     map_of (parse_properties body) ''controller.quorum.voters'' = Some ''1@10.0.0.1:9193'' \<and>
     map_of (parse_properties body) ''num.partitions'' = Some ''6'' \<and>
     map_of (parse_properties body) ''min.insync.replicas'' = Some ''2'' \<and>
     map_of (parse_properties body) ''ssl.client.auth'' = None"
proof -
  let ?cfg = "[(''controller_port'', JInt 9193), (''num_partitions'', JInt 6)]"
  have plain: "plain_input (\<lambda>_. []) plain_broker [plain_broker] ?cfg" by code_simp
  have n: "int_value (jget_default ?cfg ''replication_factor'' (JInt 3)) = Inr 3" by code_simp
  have vals: "str_of (\<lambda>_. []) (jget_default ?cfg ''num_partitions'' (JInt 3)) = ''6''" "show_int (max (3 - 1) 1) = ''2''"
    "\<not> truthy (jget ?cfg ''ssl_enabled'')"
    "join '','' (map (\<lambda>s. show_int (sv_node_id s) @ ''@'' @ sv_ip s @ '':'' @
          str_of (\<lambda>_. []) (case sv_controller_port s of None \<Rightarrow> JInt 9093 | Some p \<Rightarrow> p))
          (filter (\<lambda>s. sv_role s = ''controller'' \<or> sv_role s = ''broker_controller'') [plain_broker])) = ''1@10.0.0.1:9193''"
    by code_simp+
  from server_config_read[OF n plain] show ?thesis unfolding Let_def vals if_not_P[OF vals(3)]
    by (elim exE conjE, intro exI conjI) (assumption | simp)+
qed

end
