(* ===== verification/Agent_Deployer.thy ===== *)
theory Agent_Deployer
  imports Config_Generator "HOL-Library.Char_ord" "HOL-Library.List_Lexorder"
begin

text \<open>
  Deployment through the agents of the hosts: \<open>services/agent_deployer.py\<close>, with the rows of deployment tasks that both
  deployers write.  A deployment runs in a session of its own (\<open>request\<close>).  \<open>rp\<close> is Python's \<open>repr\<close> of lists and dicts.
  Shown: every deployment ends its task, and what is in the database then: the whole cluster running, or the
  hosts up to one running and the cluster left in the state \<open>deploying\<close>; and what is written for dedicated controllers.
\<close>

section \<open>Task rows\<close>

definition find_task :: "tables \<Rightarrow> string \<Rightarrow> deployment_task option" where
  "find_task d i = List.find (\<lambda>t. dt_id t = i) (deployment_tasks d)"

text \<open>Assigning to a row and committing; nothing happens if the row does not exist.\<close>

definition save_task :: "string \<Rightarrow> (deployment_task \<Rightarrow> deployment_task) \<Rightarrow> ('w sys, unit) io" where
  "save_task tid f =
     bnd (asks (\<lambda>s. find_task (sess s) tid)) (\<lambda>t.
     if t = None then ret ()
     else seqm (upd_sess (\<lambda>d. d\<lparr>deployment_tasks := upd_by dt_id tid f (deployment_tasks d)\<rparr>)) commit)"

definition agent_log :: "string \<Rightarrow> string \<Rightarrow> ('w sys, unit) io" where
  "agent_log tid message = save_task tid (\<lambda>t. t\<lparr>dt_logs :=
     (let ls = dt_logs t @ [message] in if 5000 < length ls then drop (length ls - 5000) ls else ls)\<rparr>)"

definition step_note :: "string \<Rightarrow> string \<Rightarrow> ('w sys, unit) io" where
  "step_note tid step = save_task tid (\<lambda>t. t\<lparr>dt_current_step := Some step\<rparr>)"

definition agent_status :: "string \<Rightarrow> string \<Rightarrow> string option \<Rightarrow> ('w sys, unit) io" where
  "agent_status tid status err = save_task tid (\<lambda>t. t\<lparr>dt_status := status,
     dt_error_message := (if str_true err then err else dt_error_message t),
     dt_finished := (dt_finished t \<or> status \<in> {''success'', ''error''})\<rparr>)"

section \<open>Which clusters\<close>

definition agent_roles :: "string list" where
  "agent_roles = [''broker'', ''broker_controller'', ''controller'']"

definition host_label :: "host \<Rightarrow> string" where
  "host_label h = (if h_hostname h = [] then h_ip_address h else h_hostname h)"

text \<open>\<open>repr\<close> of a plain text and of a list of them.\<close>

definition text_repr :: "string \<Rightarrow> string" where
  "text_repr s = sq @ s @ sq"

definition texts_repr :: "string list \<Rightarrow> string" where
  "texts_repr xs = ''['' @ join '', '' (map text_repr xs) @ '']''"

fun hosts_ready :: "'w remote \<Rightarrow> host list \<Rightarrow> service list \<Rightarrow> ('w sys, bool \<times> string) io" where
  "hosts_ready R hs [] = ret (True, ''ok'')"
| "hosts_ready R hs (svc # svcs) =
     (case by_id h_id hs (s_host_id svc) of
        None \<Rightarrow> ret (False, ''host '' @ s_host_id svc @ '' missing for service '' @ s_role svc)
      | Some h \<Rightarrow> bnd (agent_available R (h_id h)) (\<lambda>up.
          if \<not> up then ret (False, ''no agent connected for host '' @ host_label h) else hosts_ready R hs svcs))"

definition supports_agent_deploy :: "'w remote \<Rightarrow> cluster \<Rightarrow> service list \<Rightarrow> host list \<Rightarrow> ('w sys, bool \<times> string) io" where
  "supports_agent_deploy R c svcs hs =
     (if c_mode c \<noteq> ''kraft'' then ret (False, ''agent deployer requires KRaft mode (got '' @ text_repr (c_mode c) @ '')'')
      else if c_ssl_enabled c \<or> c_mtls_required c then ret (False, ''agent deployer does not yet support SSL/mTLS'')
      else let unsupported = set (map s_role svcs) - set agent_roles in
        if unsupported \<noteq> {}
        then ret (False, ''agent deployer does not yet support roles: '' @ texts_repr (sorted_list_of_set unsupported))
        else hosts_ready R hs svcs)"

definition service_to_dict :: "service \<Rightarrow> host \<Rightarrow> svc_info" where
  "service_to_dict svc h =
     \<lparr>sv_role = s_role svc, sv_node_id = s_node_id svc, sv_ip = h_ip_address h, sv_host_id = h_id h, sv_controller_port = None\<rparr>"

section \<open>One service\<close>

text \<open>\<open>out.strip().splitlines()[i] if out else d\<close>, for the first and the last line.\<close>

definition line_of :: "(string list \<Rightarrow> string) \<Rightarrow> string \<Rightarrow> string \<Rightarrow> exn + string" where
  "line_of pick out d =
     (if out = [] then Inr d
      else let ls = splitlines (strip out) in
        if ls = [] then Inl (Exn ''IndexError'' ''list index out of range'') else Inr (pick ls))"

definition agent_fail :: "string \<Rightarrow> string \<Rightarrow> string \<Rightarrow> string \<Rightarrow> ('w sys, bool) io" where
  "agent_fail tid prefix line msg =
     seqm (agent_log tid (''['' @ prefix @ ''] ERROR: '' @ line))
    (seqm (agent_status tid ''error'' (Some (msg @ '' on '' @ prefix))) (ret False))"

definition agent_note :: "string \<Rightarrow> string \<Rightarrow> string \<Rightarrow> ('w sys, unit) io" where
  "agent_note tid prefix line = agent_log tid (''['' @ prefix @ ''] '' @ line)"

text \<open>\<open>json.loads(column) if column else {}\<close>, and the use of the result as a dict.\<close>

definition strict_config :: "json_text option \<Rightarrow> exn + json" where
  "strict_config t = (case t of None \<Rightarrow> Inr (JObj [])
     | Some (Bad_Json s) \<Rightarrow> if s = [] then Inr (JObj []) else Inl (Exn ''JSONDecodeError'' ''invalid JSON'')
     | Some (Json v) \<Rightarrow> Inr v)"

fun set_item :: "string \<Rightarrow> json \<Rightarrow> json \<Rightarrow> exn + cluster_cfg" where
  "set_item k v (JObj d) = Inr (AList.update k v d)"
| "set_item k v _ = Inl (TypeError ''object does not support item assignment'')"

record deploy_paths =
  dp_install :: string
  dp_data :: string
  dp_unit :: string
  dp_tarball_url :: string
  dp_tarball_dest :: string

definition install_software :: "'w remote \<Rightarrow> string \<Rightarrow> string \<Rightarrow> deploy_paths \<Rightarrow> host \<Rightarrow> ('w sys, bool) io" where
  "install_software R tid prefix p h =
     seqm (step_note tid (prefix @ '': java''))
    (seqm (agent_note tid prefix ''checking Java...'')
    (bnd (exec_script_via_agent R h ''install-java.sh'' [] DEFAULT_SCRIPT_TIMEOUT_SEC) (\<lambda>(ok, stdout, stderr).
     if \<not> ok then agent_fail tid prefix (''install-java.sh failed: '' @ stderr) ''java install failed''
     else bnd (lift (line_of last stdout ''installed'')) (\<lambda>l.
     seqm (agent_note tid prefix (''java ok: '' @ l))
    (seqm (step_note tid (prefix @ '': download kafka''))
    (seqm (agent_note tid prefix ''downloading Kafka tarball from SCM...'')
    (bnd (file_download_via_agent R h (dp_tarball_url p) (dp_tarball_dest p) None 420 DEFAULT_DOWNLOAD_TIMEOUT_SEC) (\<lambda>(ok, msg).
     if \<not> ok then agent_fail tid prefix (''download failed: '' @ msg) ''tarball download failed''
     else bnd (lift (line_of hd msg [])) (\<lambda>l.
     seqm (agent_note tid prefix (''download ok: '' @ l))
    (seqm (step_note tid (prefix @ '': extract kafka''))
    (seqm (agent_note tid prefix (''extracting Kafka to '' @ dp_install p @ ''...''))
    (bnd (exec_script_via_agent R h ''install-kafka.sh'' [dp_tarball_dest p, dp_install p, dp_data p, ''kafka''] DEFAULT_SCRIPT_TIMEOUT_SEC)
       (\<lambda>(ok, stdout, stderr).
     if \<not> ok then agent_fail tid prefix (''install-kafka.sh failed: '' @ stderr) ''extract failed''
     else bnd (lift (line_of last stdout [])) (\<lambda>l.
     seqm (agent_note tid prefix (''extracted: '' @ l)) (ret True)))))))))))))))"

definition agent_server_config :: "(json \<Rightarrow> string) \<Rightarrow> json \<Rightarrow> deploy_paths \<Rightarrow> service \<Rightarrow> host \<Rightarrow> svc_info list \<Rightarrow> exn + string" where
  "agent_server_config rp config p svc h infos =
     (case set_item ''log_dirs'' (JStr (dp_data p)) config of Inl e \<Rightarrow> Inl e
      | Inr d \<Rightarrow> generate_kraft_broker_config rp (service_to_dict svc h) infos d)"

definition write_files :: "'w remote \<Rightarrow> (json \<Rightarrow> string) \<Rightarrow> string \<Rightarrow> string \<Rightarrow> json \<Rightarrow> deploy_paths \<Rightarrow> svc_info list \<Rightarrow> service \<Rightarrow> host \<Rightarrow>
    ('w sys, bool) io" where
  "write_files R rp tid prefix config p infos svc h =
     (let cfg_path = dp_install p @ ''/config/server.properties''; unit_path = ''/etc/systemd/system/'' @ dp_unit p in
     seqm (step_note tid (prefix @ '': configure''))
    (seqm (agent_note tid prefix ''generating server.properties...'')
    (bnd (lift (agent_server_config rp config p svc h infos)) (\<lambda>server_props.
     bnd (file_write_via_agent R h cfg_path server_props 416) (\<lambda>(ok, msg).
     if \<not> ok then agent_fail tid prefix (''server.properties write failed: '' @ msg) ''config write failed''
     else
     seqm (agent_note tid prefix (''wrote '' @ cfg_path))
    (seqm (step_note tid (prefix @ '': systemd unit''))
    (seqm (agent_note tid prefix (''generating systemd unit '' @ dp_unit p @ ''...''))
    (bnd (lift (generate_systemd_unit rp ''kafka''
            ((unit_defaults cfg_path)\<lparr>uo_kafka_home := dp_install p, uo_unit_name := Some (dp_unit p)\<rparr>))) (\<lambda>unit_body.
     bnd (file_write_via_agent R h unit_path unit_body 420) (\<lambda>(ok, msg).
     if \<not> ok then agent_fail tid prefix (''systemd unit write failed: '' @ msg) ''unit write failed''
     else seqm (agent_note tid prefix (''wrote '' @ unit_path)) (ret True)))))))))))"

definition save_service_status :: "string \<Rightarrow> string \<Rightarrow> ('w sys, unit) io" where
  "save_service_status i st = seqm (set_service_status i st) commit"

definition save_cluster_state :: "string \<Rightarrow> string \<Rightarrow> ('w sys, unit) io" where
  "save_cluster_state i st = seqm (set_cluster_state i st) commit"

definition enable_and_start :: "'w remote \<Rightarrow> string \<Rightarrow> string \<Rightarrow> deploy_paths \<Rightarrow> service \<Rightarrow> host \<Rightarrow> ('w sys, bool) io" where
  "enable_and_start R tid prefix p svc h =
     bnd (exec_script_via_agent R h ''install-systemd-unit.sh'' [dp_unit p] DEFAULT_SCRIPT_TIMEOUT_SEC) (\<lambda>(ok, stdout, stderr).
     if \<not> ok then agent_fail tid prefix (''enable unit failed: '' @ stderr) ''unit enable failed''
     else
     seqm (agent_note tid prefix ''unit enabled'')
    (seqm (step_note tid (prefix @ '': start''))
    (bnd (systemctl_action R h ''start'' (dp_unit p) None) (\<lambda>(ok, msg).
     if \<not> ok then agent_fail tid prefix (''start failed: '' @ msg) ''start failed''
     else seqm (agent_note tid prefix (''started '' @ tick_sign))
         (seqm (save_service_status (s_id svc) ''running'') (ret True))))))"

definition and_then :: "('s, bool) io \<Rightarrow> ('s, bool) io \<Rightarrow> ('s, bool) io" where
  "and_then m n = bnd m (\<lambda>go. if go then n else ret False)"

definition deploy_service :: "'w remote \<Rightarrow> (json \<Rightarrow> string) \<Rightarrow> string \<Rightarrow> json \<Rightarrow> deploy_paths \<Rightarrow> svc_info list \<Rightarrow> host list \<Rightarrow> service \<Rightarrow>
    ('w sys, bool) io" where
  "deploy_service R rp tid config p infos hs svc =
     (case by_id h_id hs (s_host_id svc) of
        None \<Rightarrow> raise (KeyError (s_host_id svc))
      | Some h \<Rightarrow>
          let prefix = host_label h @ ''/'' @ s_role svc @ ''#'' @ show_int (s_node_id svc) in
          and_then (install_software R tid prefix p h)
         (and_then (write_files R rp tid prefix config p infos svc h)
           (enable_and_start R tid prefix p svc h)))"

section \<open>The deployment\<close>

definition deploy_order :: "service list \<Rightarrow> service list" where
  "deploy_order svcs = sort_key (\<lambda>s. if s_role s = ''controller'' then 0 else 1 :: nat) svcs"

definition service_dicts :: "host list \<Rightarrow> service list \<Rightarrow> svc_info list" where
  "service_dicts hs svcs = List.map_filter (\<lambda>s. map_option (service_to_dict s) (by_id h_id hs (s_host_id s))) svcs"

definition agent_deploy_from :: "'w remote \<Rightarrow> settings \<Rightarrow> (json \<Rightarrow> string) \<Rightarrow> string \<Rightarrow> string \<Rightarrow> string \<Rightarrow> string \<Rightarrow> tables \<Rightarrow>
    ('w sys, unit) io" where
  "agent_deploy_from R cfg rp cid tid scm_base tarball d =
     (case find_cluster d cid of
       None \<Rightarrow> seqm (agent_log tid ''ERROR: cluster not found'') (agent_status tid ''error'' (Some ''cluster not found''))
     | Some c \<Rightarrow>
         let svcs = services_of d cid; hs = hosts d;
             p = \<lparr>dp_install = install_dir cfg c, dp_data = data_dir cfg c, dp_unit = unit_name c,
                  dp_tarball_url = scm_base @ ''/api/repo/kafka/'' @ tarball,
                  dp_tarball_dest = ''/opt/tantor-stage/'' @ tarball\<rparr> in
         bnd (lift (strict_config (c_config_json c))) (\<lambda>config.
         bnd (supports_agent_deploy R c svcs hs) (\<lambda>(ok, reason).
         if \<not> ok
         then seqm (agent_log tid (''ERROR: agent deployer can'' @ sq @ ''t handle this cluster: '' @ reason))
                   (agent_status tid ''error'' (Some reason))
         else
         seqm (save_cluster_state cid ''deploying'')
        (seqm (step_note tid ''Pre-flight (agent path)'')
        (seqm (agent_log tid ''All target hosts have a connected tantor-agent'')
        (seqm (agent_log tid (''Kafka tarball: '' @ scm_base @ ''/repo/kafka/'' @ tarball))
        (seqm (agent_log tid (''Install dir: '' @ dp_install p))
        (seqm (agent_log tid (''Data dir: '' @ dp_data p))
        (seqm (agent_log tid (''Systemd unit: '' @ dp_unit p))
        (bnd (each_until (deploy_service R rp tid config p (service_dicts hs svcs) hs) (deploy_order svcs)) (\<lambda>complete.
         if \<not> complete then ret ()
         else
         seqm (save_cluster_state cid ''running'')
        (seqm (step_note tid ''complete'')
        (seqm (agent_log tid (''Agent-based deploy complete '' @ em_dash @ '' every step ran over the WebSocket.''))
              (agent_status tid ''success'' None))))))))))))))"

definition agent_deploy_inner :: "'w remote \<Rightarrow> settings \<Rightarrow> (json \<Rightarrow> string) \<Rightarrow> string \<Rightarrow> string \<Rightarrow> string \<Rightarrow> string \<Rightarrow> ('w sys, unit) io" where
  "agent_deploy_inner R cfg rp cid tid scm_base tarball = bnd (asks sess) (agent_deploy_from R cfg rp cid tid scm_base tarball)"

definition agent_deploy_cluster :: "'w remote \<Rightarrow> settings \<Rightarrow> (json \<Rightarrow> string) \<Rightarrow> string \<Rightarrow> string \<Rightarrow> string \<Rightarrow> string \<Rightarrow> ('w sys, unit) io" where
  "agent_deploy_cluster R cfg rp cid tid scm_base tarball =
     request (catch (agent_deploy_inner R cfg rp cid tid scm_base tarball)
       (\<lambda>e. seqm (agent_log tid (''ERROR: '' @ exn_str e)) (agent_status tid ''error'' (Some (exn_str e)))))"

section \<open>What a deployment leaves\<close>

text \<open>The tables without the deployment tasks, and the status of a task.\<close>

definition core :: "tables \<Rightarrow> tables" where
  "core d = d\<lparr>deployment_tasks := []\<rparr>"

definition task_status :: "tables \<Rightarrow> string \<Rightarrow> string option" where
  "task_status d tid = map_option dt_status (find_task d tid)"

definition seen :: "string \<Rightarrow> 'w sys \<Rightarrow> tables \<times> string option" where
  "seen tid s = (core (sess s), task_status (sess s) tid)"

definition with_state :: "string \<Rightarrow> string \<Rightarrow> tables \<Rightarrow> tables" where
  "with_state i st d = d\<lparr>clusters := upd_by c_id i (\<lambda>r. r\<lparr>c_state := st\<rparr>) (clusters d)\<rparr>"

definition with_status :: "string \<Rightarrow> string \<Rightarrow> tables \<Rightarrow> tables" where
  "with_status i st d = d\<lparr>services := upd_by s_id i (\<lambda>r. r\<lparr>s_status := st\<rparr>) (services d)\<rparr>"

definition synced :: "'w sys \<Rightarrow> bool" where
  "synced s \<longleftrightarrow> committed s = sess s"

text \<open>A loop whose body goes on, gives up or raises.\<close>

lemma yields_each_until:
  assumes "\<And>x. x \<in> set xs \<Longrightarrow> yields f (\<lambda>p r q. case r of Inl e \<Rightarrow> C p q | Inr go \<Rightarrow> if go then q = g x p else B p q) (body x)"
  shows "yields f (\<lambda>p r q. \<exists>k \<le> length xs. let p' = fold g (take k xs) p in
     (case r of Inl e \<Rightarrow> k < length xs \<and> C p' q
      | Inr go \<Rightarrow> if go then k = length xs \<and> q = p' else k < length xs \<and> B p' q)) (each_until body xs)"
  using assms
proof (induction xs)
  case Nil
  then show ?case by (simp add: yields_def)
next
  case (Cons x xs)
  let ?A = "\<lambda>n ys p r q. \<exists>k \<le> n. let p' = fold g (take k ys) p in
     (case r of Inl e \<Rightarrow> k < n \<and> C p' q | Inr go \<Rightarrow> if go then k = n \<and> q = p' else k < n \<and> B p' q)"
  have ih: "yields f (?A (length xs) xs) (each_until body xs)" using Cons by simp
  have head: "yields f (\<lambda>p r q. case r of Inl e \<Rightarrow> C p q | Inr go \<Rightarrow> if go then q = g x p else B p q) (body x)"
    using Cons.prems by simp
  have rest: "yields f (\<lambda>p r q. if go then ?A (length xs) xs p r q else r = Inr False \<and> q = p)
      (if go then each_until body xs else ret False)" for go
    using ih by (cases go) (simp_all add: yields_def)
  show ?case unfolding each_until.simps
  proof (rule yields_bnd[OF head rest])
    fix p and e :: exn and q
    assume "case Inl e of Inl e \<Rightarrow> C p q | Inr go \<Rightarrow> if go then q = g x p else B p q"
    then show "?A (length (x # xs)) (x # xs) p (Inl e) q" by (intro exI[of _ 0]) simp
  next
    fix p go q r u
    assume a: "case Inr go of Inl (e :: exn) \<Rightarrow> C p q | Inr go \<Rightarrow> if go then q = g x p else B p q"
      and b: "if go then ?A (length xs) xs q r u else r = Inr False \<and> u = q"
    show "?A (length (x # xs)) (x # xs) p r u"
    proof (cases go)
      case True
      with a b obtain k where k: "k \<le> length xs" "let p' = fold g (take k xs) (g x p) in
          (case r of Inl e \<Rightarrow> k < length xs \<and> C p' u
           | Inr go \<Rightarrow> if go then k = length xs \<and> u = p' else k < length xs \<and> B p' u)" by auto
      then show ?thesis by (intro exI[of _ "Suc k"]) (auto simp: Let_def split: sum.splits)
    next
      case False
      with a b show ?thesis by (intro exI[of _ 0]) simp
    qed
  qed
qed

interpretation deployment_table: keyed_table dt_id "\<lambda>f. \<forall>r. dt_id (f r) = dt_id r"
  by unfold_locales simp

lemma find_task_upd: "(\<And>t. dt_id (f t) = dt_id t) \<Longrightarrow>
    find_task (d\<lparr>deployment_tasks := upd_by dt_id tid f (deployment_tasks d)\<rparr>) tid' =
    (if tid' = tid then map_option f (find_task d tid') else find_task d tid')"
  by (simp add: find_task_def deployment_table.find_upd_same deployment_table.find_upd_other)

lemma save_task_run:
  assumes "\<And>t. dt_id (f t) = dt_id t"
  shows "\<exists>t. save_task tid f s = (Inr (), t) \<and> core (sess t) = core (sess s) \<and> tasks t = tasks s \<and> wld t = wld s \<and>
     find_task (sess t) tid = map_option f (find_task (sess s) tid) \<and> (synced s \<longrightarrow> synced t)"
proof (cases "find_task (sess s) tid")
  case None
  then show ?thesis by (simp add: save_task_def bnd_run)
next
  case (Some t)
  then show ?thesis using assms
    by (simp add: save_task_def bnd_run seqm_run upd_sess_def commit_def core_def synced_def find_task_upd)
qed

text \<open>Notes on the task are not seen.\<close>

lemma seen_save: "(\<And>t. dt_id (f t) = dt_id t) \<Longrightarrow> (\<And>t. dt_status (f t) = dt_status t) \<Longrightarrow> rel_io (keeps (seen tid)) (save_task tid f)"
proof (rule rel_ioI)
  fix s assume f: "\<And>t. dt_id (f t) = dt_id t" "\<And>t. dt_status (f t) = dt_status t"
  from save_task_run[OF f(1), of tid s] obtain t where "save_task tid f s = (Inr (), t)" "core (sess t) = core (sess s)"
    "find_task (sess t) tid = map_option f (find_task (sess s) tid)" by blast
  then show "keeps (seen tid) s (snd (save_task tid f s))"
    by (simp add: keeps_def seen_def task_status_def option.map_comp comp_def f(2))
qed

lemma seen_notes: "rel_io (keeps (seen tid)) (agent_log tid m)" "rel_io (keeps (seen tid)) (step_note tid m)"
  "rel_io (keeps (seen tid)) (agent_note tid pre m)"
  unfolding agent_log_def step_note_def agent_note_def by (rule seen_save; simp)+

lemma calm_notes: "calm (agent_log tid m)" "calm (step_note tid m)" "calm (agent_note tid pre m)" "calm (agent_status tid st err)"
  by (simp_all add: calm_def agent_log_def step_note_def agent_note_def agent_status_def save_task_def bnd_run seqm_run upd_sess_def commit_def)

lemma seen_world: "world_only m \<Longrightarrow> rel_io (keeps (seen tid)) m"
  by (auto simp: rel_io_def keeps_def seen_def off_wld_def)

lemma yields_status: "yields (seen tid) (\<lambda>p r q. r = Inr () \<and> q = (fst p, map_option (\<lambda>_. st) (snd p))) (agent_status tid st err)"
proof (rule yieldsI)
  fix s r t assume run: "agent_status tid st err s = (r, t)"
  let ?f = "\<lambda>t. t\<lparr>dt_status := st, dt_error_message := (if str_true err then err else dt_error_message t),
     dt_finished := (dt_finished t \<or> st \<in> {''success'', ''error''})\<rparr>"
  obtain t' where "save_task tid ?f s = (Inr (), t')" "core (sess t') = core (sess s)"
    "find_task (sess t') tid = map_option ?f (find_task (sess s) tid)" using save_task_run[of ?f tid s] by auto
  then show "r = Inr () \<and> seen tid t = (fst (seen tid s), map_option (\<lambda>_. st) (snd (seen tid s)))"
    using run by (simp add: agent_status_def seen_def task_status_def option.map_comp comp_def)
qed

lemma yields_fail: "yields (seen tid) (\<lambda>p r q. r = Inr False \<and> q = (fst p, map_option (\<lambda>_. ''error'') (snd p))) (agent_fail tid pre l m)"
  unfolding agent_fail_def
  by (rule yields_skip_seqm_calm[OF seen_notes(1) calm_notes(1)], rule yields_seqm[OF yields_status yields_value]) auto

lemma yields_save_state: "yields (seen tid) (\<lambda>p r q. r = Inr () \<and> q = (with_state i st (fst p), snd p)) (save_cluster_state i st)"
  by (auto simp: yields_def save_cluster_state_def seqm_run set_cluster_state_def upd_sess_def commit_def seen_def core_def
      with_state_def task_status_def find_task_def)

lemma yields_save_status: "yields (seen tid) (\<lambda>p r q. r = Inr () \<and> q = (with_status i st (fst p), snd p)) (save_service_status i st)"
  by (auto simp: yields_def save_service_status_def seqm_run set_service_status_def upd_sess_def commit_def seen_def core_def
      with_status_def task_status_def find_task_def)

text \<open>What one step of a deployment may do: go on with a change, give up with the task failed, or raise with no change.\<close>

definition outcome :: "(tables \<Rightarrow> tables) \<Rightarrow> tables \<times> string option \<Rightarrow> exn + bool \<Rightarrow> tables \<times> string option \<Rightarrow> bool" where
  "outcome g p r q = (case r of Inl e \<Rightarrow> q = p
     | Inr go \<Rightarrow> if go then q = (g (fst p), snd p) else q = (fst p, map_option (\<lambda>_. ''error'') (snd p)))"

lemma outcome_raise [simp]: "outcome g p (Inl e) p"
  by (simp add: outcome_def)

lemma outcome_fail: "yields (seen tid) (outcome g) (agent_fail tid pre l m)"
  by (rule yields_mono[OF yields_fail]) (simp add: outcome_def)

lemma outcome_done: "yields (seen tid) (outcome (\<lambda>d. d)) (ret True)"
  by (simp add: yields_def outcome_def)

lemma outcome_call: "world_only m \<Longrightarrow> (\<And>x. yields (seen tid) (outcome g) (k x)) \<Longrightarrow> yields (seen tid) (outcome g) (bnd m k)"
  by (rule yields_skip[OF seen_world]) simp_all

lemma outcome_note: "yields (seen tid) (outcome g) n \<Longrightarrow> yields (seen tid) (outcome g) (seqm (agent_log tid m) n)"
  "yields (seen tid) (outcome g) n \<Longrightarrow> yields (seen tid) (outcome g) (seqm (step_note tid m) n)"
  "yields (seen tid) (outcome g) n \<Longrightarrow> yields (seen tid) (outcome g) (seqm (agent_note tid pre m) n)"
  by (rule yields_skip_seqm[OF seen_notes(1)] yields_skip_seqm[OF seen_notes(2)] yields_skip_seqm[OF seen_notes(3)]; simp)+

lemma outcome_lift: "(\<And>x. yields (seen tid) (outcome g) (k x)) \<Longrightarrow> yields (seen tid) (outcome g) (bnd (lift v) k)"
  by (rule yields_skip[OF keeps_io.rel_lift]) simp_all

lemma outcome_and_then: "yields (seen tid) (outcome (\<lambda>d. d)) m \<Longrightarrow> yields (seen tid) (outcome g) n \<Longrightarrow>
    yields (seen tid) (outcome g) (and_then m n)"
  unfolding and_then_def
proof (rule yields_bnd[where C = "\<lambda>go p r q. if go then outcome g p r q else r = Inr False \<and> q = p"])
  assume n: "yields (seen tid) (outcome g) n"
  show "yields (seen tid) (\<lambda>p r q. if go then outcome g p r q else r = Inr False \<and> q = p) (if go then n else ret False)" for go
    using n by (cases go) (simp_all add: yields_def)
  show "outcome (\<lambda>d. d) p (Inr go) q \<Longrightarrow> if go then outcome g q r u else r = Inr False \<and> u = q \<Longrightarrow> outcome g p r u" for p go q r u
    by (cases go) (auto simp: outcome_def)
  show "outcome (\<lambda>d. d) p (Inl e) q \<Longrightarrow> outcome g p (Inl e) q" for p e q by (simp add: outcome_def)
qed

lemma world_agent_calls: "world_only (exec_script_via_agent R h sc as n)" "world_only (file_download_via_agent R h u d sha md n)"
  "world_only (file_write_via_agent R h path c md)"
  unfolding exec_script_via_agent_def file_download_via_agent_def file_write_via_agent_def
  by (auto intro!: world_steps world_only_guarded_op split: agent_reply.split)

lemmas outcome_steps = outcome_note outcome_lift outcome_fail outcome_done outcome_call[OF world_agent_calls(1)]
  outcome_call[OF world_agent_calls(2)] outcome_call[OF world_agent_calls(3)] yields_prod yields_if

lemma outcome_install: "yields (seen tid) (outcome (\<lambda>d. d)) (install_software R tid pre p h)"
  unfolding install_software_def by (intro outcome_steps)

lemma outcome_files: "yields (seen tid) (outcome (\<lambda>d. d)) (write_files R rp tid pre config p infos svc h)"
  unfolding write_files_def Let_def by (intro outcome_steps)

lemma outcome_start: "yields (seen tid) (outcome (with_status (s_id svc) ''running'')) (enable_and_start R tid pre p svc h)"
proof -
  have last: "yields (seen tid) (outcome (with_status (s_id svc) ''running'')) (seqm (save_service_status (s_id svc) ''running'') (ret True))"
    by (rule yields_seqm[OF yields_save_status yields_value]) (auto simp: outcome_def)
  show ?thesis unfolding enable_and_start_def
    by (intro outcome_steps last outcome_call[OF world_only_systemctl_action])
qed

lemma outcome_service: "yields (seen tid) (outcome (with_status (s_id svc) ''running'')) (deploy_service R rp tid config p infos hs svc)"
  unfolding deploy_service_def Let_def
  by (intro yields_option yields_raise outcome_raise outcome_and_then outcome_install outcome_files outcome_start)

text \<open>Everything is committed at once.\<close>

lemma synced_world: "world_only m \<Longrightarrow> rel_io (preserves synced) m"
  by (auto simp: rel_io_def keeps_def off_wld_def preserves_def synced_def)

lemma synced_save: "rel_io (preserves synced) (save_task tid f)"
  by (simp add: rel_io_def preserves_def synced_def save_task_def bnd_run seqm_run upd_sess_def commit_def)

lemma synced_saves: "rel_io (preserves synced) (agent_log tid m)" "rel_io (preserves synced) (step_note tid m)"
  "rel_io (preserves synced) (agent_note tid pre m)" "rel_io (preserves synced) (agent_status tid st err)"
  "rel_io (preserves synced) (save_cluster_state i st)" "rel_io (preserves synced) (save_service_status i st)"
  unfolding agent_log_def step_note_def agent_note_def agent_status_def by (rule synced_save)+
    (simp_all add: rel_io_def preserves_def synced_def save_cluster_state_def save_service_status_def set_cluster_state_def
      set_service_status_def seqm_run upd_sess_def commit_def)

lemmas synced_steps = preserves_io.rel_intros synced_saves synced_world[OF world_agent_calls(1)] synced_world[OF world_agent_calls(2)]
  synced_world[OF world_agent_calls(3)] synced_world[OF world_only_systemctl_action] synced_world[OF world_only_still[OF still_agent_available]]

lemma synced_fail: "rel_io (preserves synced) (agent_fail tid pre l m)"
  unfolding agent_fail_def by (intro synced_steps)

lemma synced_service: "rel_io (preserves synced) (deploy_service R rp tid config p infos hs svc)"
  unfolding deploy_service_def Let_def and_then_def install_software_def write_files_def enable_and_start_def
  by (intro synced_steps synced_fail)

lemma world_hosts_ready: "world_only (hosts_ready R hs svcs)"
  by (induction svcs) (auto intro!: world_steps world_only_still[OF still_agent_available])

lemma world_supports: "world_only (supports_agent_deploy R c svcs hs)"
  unfolding supports_agent_deploy_def Let_def by (auto intro!: world_steps world_hosts_ready)

lemma synced_inner: "rel_io (preserves synced) (agent_deploy_inner R cfg rp cid tid scm tarball)"
  unfolding agent_deploy_inner_def agent_deploy_from_def Let_def by (intro synced_steps synced_world[OF world_supports] synced_service)

text \<open>What the body leaves: \<open>running\<close> counts the hosts that were started.\<close>

definition started :: "string \<Rightarrow> service list \<Rightarrow> tables \<Rightarrow> tables" where
  "started cid svcs d = fold (\<lambda>svc. with_status (s_id svc) ''running'') svcs (with_state cid ''deploying'' d)"

lemma fold_fst: "fold (\<lambda>x p. (g x (fst p), snd p)) xs p = (fold g xs (fst p), snd p)"
  by (induction xs arbitrary: p) simp_all

lemma yields_services:
  "yields (seen tid) (\<lambda>p r q. \<exists>k \<le> length svcs. let d = fold (\<lambda>svc. with_status (s_id svc) ''running'') (take k svcs) (fst p) in
     (case r of Inl e \<Rightarrow> k < length svcs \<and> q = (d, snd p)
      | Inr go \<Rightarrow> if go then k = length svcs \<and> q = (d, snd p) else k < length svcs \<and> q = (d, map_option (\<lambda>_. ''error'') (snd p))))
    (each_until (deploy_service R rp tid config p0 infos hs) svcs)"
proof (rule yields_mono[OF yields_each_until[where g = "\<lambda>svc p. (with_status (s_id svc) ''running'' (fst p), snd p)"
      and B = "\<lambda>p q. q = (fst p, map_option (\<lambda>_. ''error'') (snd p))" and C = "\<lambda>p q. q = p"]])
  show "yields (seen tid) (\<lambda>p r q. case r of Inl e \<Rightarrow> q = p
      | Inr go \<Rightarrow> if go then q = (with_status (s_id x) ''running'' (fst p), snd p) else q = (fst p, map_option (\<lambda>_. ''error'') (snd p)))
      (deploy_service R rp tid config p0 infos hs x)" for x
    by (rule yields_mono[OF outcome_service]) (simp add: outcome_def)
qed ((erule exE conjE)+, rule exI, rule conjI, assumption,
    simp add: fold_fst[of "\<lambda>svc. with_status (s_id svc) ''running''"] Let_def split: sum.splits if_splits)

text \<open>How a deployment can end, from tables \<open>d\<close> and the services in the order of their deployment.\<close>

definition deploy_left :: "string \<Rightarrow> service list \<Rightarrow> tables \<Rightarrow> tables set" where
  "deploy_left cid svcs d = insert d {started cid (take k svcs) d | k. k < length svcs}"

definition inner_result :: "string \<Rightarrow> service list \<Rightarrow> tables \<times> string option \<Rightarrow> exn + unit \<Rightarrow> tables \<times> string option \<Rightarrow> bool" where
  "inner_result cid svcs p r q \<longleftrightarrow>
     (case r of Inl e \<Rightarrow> fst q \<in> deploy_left cid svcs (fst p) \<and> snd q = snd p
      | Inr _ \<Rightarrow> fst q \<in> deploy_left cid svcs (fst p) \<and> snd q = map_option (\<lambda>_. ''error'') (snd p) \<or>
          fst q = with_state cid ''running'' (started cid svcs (fst p)) \<and> snd q = map_option (\<lambda>_. ''success'') (snd p))"

lemma inner_raise [simp]: "inner_result cid svcs p (Inl e) p"
  by (simp add: inner_result_def deploy_left_def)

lemma yields_finish: "yields (seen tid) (\<lambda>p r q. r = Inr () \<and> q = (with_state cid ''running'' (fst p), map_option (\<lambda>_. ''success'') (snd p)))
    (seqm (save_cluster_state cid ''running'') (seqm (step_note tid st) (seqm (agent_log tid m) (agent_status tid ''success'' None))))"
  by (rule yields_seqm[OF yields_save_state yields_skip_seqm_calm[OF seen_notes(2) calm_notes(2)
      yields_skip_seqm_calm[OF seen_notes(1) calm_notes(1) yields_status]]]) auto

lemma yields_error: "yields (seen tid) (\<lambda>p r q. r = Inr () \<and> q = (fst p, map_option (\<lambda>_. ''error'') (snd p)))
    (seqm (agent_log tid m) (agent_status tid ''error'' err))"
  by (rule yields_skip_seqm_calm[OF seen_notes(1) calm_notes(1) yields_status])

lemma yields_deploying:
  "yields (seen tid) (inner_result cid svcs)
    (seqm (save_cluster_state cid ''deploying'') (seqm (step_note tid m1) (seqm (agent_log tid m2) (seqm (agent_log tid m3)
      (seqm (agent_log tid m4) (seqm (agent_log tid m5) (seqm (agent_log tid m6)
      (bnd (each_until (deploy_service R rp tid config p0 infos hs) svcs) (\<lambda>complete.
         if \<not> complete then ret ()
         else seqm (save_cluster_state cid ''running'') (seqm (step_note tid m7) (seqm (agent_log tid m8) (agent_status tid ''success'' None))))))))))))"
  (is "yields _ _ (seqm _ ?rest)")
proof -
  let ?after = "\<lambda>p r q. case r of
      Inl e \<Rightarrow> \<exists>k<length svcs. q = (fold (\<lambda>svc. with_status (s_id svc) ''running'') (take k svcs) (fst p), snd p)
    | Inr _ \<Rightarrow> (\<exists>k<length svcs. q = (fold (\<lambda>svc. with_status (s_id svc) ''running'') (take k svcs) (fst p), map_option (\<lambda>_. ''error'') (snd p))) \<or>
        q = (with_state cid ''running'' (fold (\<lambda>svc. with_status (s_id svc) ''running'') svcs (fst p)), map_option (\<lambda>_. ''success'') (snd p))"
  have body: "yields (seen tid) ?after (bnd (each_until (deploy_service R rp tid config p0 infos hs) svcs) (\<lambda>complete.
         if \<not> complete then ret ()
         else seqm (save_cluster_state cid ''running'') (seqm (step_note tid m7) (seqm (agent_log tid m8) (agent_status tid ''success'' None)))))"
  proof (rule yields_bnd[OF yields_services])
    show "yields (seen tid) (\<lambda>p r q. r = Inr () \<and> q = (if go then (with_state cid ''running'' (fst p), map_option (\<lambda>_. ''success'') (snd p)) else p))
        (if \<not> go then ret () else seqm (save_cluster_state cid ''running'')
          (seqm (step_note tid m7) (seqm (agent_log tid m8) (agent_status tid ''success'' None))))" for go
      using yields_finish[of tid cid m7 m8] by (cases go) (simp_all add: yields_value)
  qed (auto simp: Let_def split: if_splits)
  note skip = yields_skip_seqm_calm[OF seen_notes(1) calm_notes(1)]
  have "yields (seen tid) ?after ?rest"
    by (rule yields_skip_seqm_calm[OF seen_notes(2) calm_notes(2)], (rule skip)+, rule body)
  then show ?thesis
    by (rule yields_seqm[OF yields_save_state]) (auto simp: inner_result_def deploy_left_def started_def split: sum.splits)
qed

lemma services_core: "services_of (core d) cid = services_of d cid" "find_cluster (core d) cid = find_cluster d cid"
  by (simp_all add: services_of_def find_cluster_def core_def)

lemma yields_from:
  assumes svcs: "svcs = deploy_order (services_of d cid)"
  shows "yields (seen tid) (inner_result cid svcs) (agent_deploy_from R cfg rp cid tid scm tarball d)"
proof -
  have err: "yields (seen tid) (inner_result cid svcs) (seqm (agent_log tid m) (agent_status tid ''error'' e))" for m e
    by (rule yields_mono[OF yields_error]) (simp add: inner_result_def deploy_left_def)
  show ?thesis unfolding agent_deploy_from_def Let_def svcs[symmetric]
    by (intro yields_option err yields_skip[OF keeps_io.rel_lift] yields_skip[OF seen_world[OF world_supports]] inner_raise
        yields_prod yields_if yields_deploying)
qed

lemma yields_inner:
  "yields (seen tid) (\<lambda>p. inner_result cid (deploy_order (services_of (fst p) cid)) p) (agent_deploy_inner R cfg rp cid tid scm tarball)"
proof (rule yieldsI)
  fix s r t assume "agent_deploy_inner R cfg rp cid tid scm tarball s = (r, t)"
  then have "agent_deploy_from R cfg rp cid tid scm tarball (sess s) s = (r, t)" by (simp add: agent_deploy_inner_def bnd_run)
  from yieldsD[OF yields_from[OF refl] this]
  show "inner_result cid (deploy_order (services_of (fst (seen tid s)) cid)) (seen tid s) r (seen tid t)"
    by (simp add: seen_def services_core)
qed

text \<open>
  Claim C10.  However the agents answer, a deployment through them ends its task: either as a success with the cluster and
  all its services running, or as an error.  After an error the rest of the database is as before, or the
  cluster is left as \<open>deploying\<close> with the services before the failing one, controllers first, marked as running.
\<close>

theorem agent_deploy_ends:
  assumes "find_task (committed s) tid \<noteq> None"
  shows "let d = committed s; svcs = deploy_order (services_of d cid);
      a = agent_deploy_cluster R cfg rp cid tid scm tarball s; d' = committed (snd a) in
    fst a = Inr () \<and>
    (task_status d' tid = Some ''success'' \<and> core d' = with_state cid ''running'' (started cid svcs (core d)) \<or>
     task_status d' tid = Some ''error'' \<and>
       (core d' = core d \<or> (\<exists>k < length svcs. core d' = started cid (take k svcs) (core d))))"
proof -
  let ?s0 = "s\<lparr>sess := committed s\<rparr>" and ?svcs = "deploy_order (services_of (committed s) cid)"
  let ?h = "\<lambda>e. seqm (agent_log tid (''ERROR: '' @ exn_str e)) (agent_status tid ''error'' (Some (exn_str e)))"
  obtain r t where run: "catch (agent_deploy_inner R cfg rp cid tid scm tarball) ?h ?s0 = (r, t)"
    by (cases "catch (agent_deploy_inner R cfg rp cid tid scm tarball) ?h ?s0")
  have "yields (seen tid) (\<lambda>p r q. r = Inr () \<and>
      (fst q \<in> deploy_left cid (deploy_order (services_of (fst p) cid)) (fst p) \<and> snd q = map_option (\<lambda>_. ''error'') (snd p) \<or>
       fst q = with_state cid ''running'' (started cid (deploy_order (services_of (fst p) cid)) (fst p)) \<and>
         snd q = map_option (\<lambda>_. ''success'') (snd p)))
      (catch (agent_deploy_inner R cfg rp cid tid scm tarball) ?h)"
    by (rule yields_catch[OF yields_inner yields_error]) (auto simp: inner_result_def)
  from yieldsD[OF this run] have r: "r = Inr ()"
    and out: "fst (seen tid t) \<in> deploy_left cid ?svcs (core (committed s)) \<and> snd (seen tid t) = map_option (\<lambda>_. ''error'') (task_status (committed s) tid) \<or>
       fst (seen tid t) = with_state cid ''running'' (started cid ?svcs (core (committed s))) \<and>
         snd (seen tid t) = map_option (\<lambda>_. ''success'') (task_status (committed s) tid)"
    by (auto simp: seen_def services_core)
  have "rel_io (preserves synced) (catch (agent_deploy_inner R cfg rp cid tid scm tarball) ?h)"
    by (intro preserves_io.rel_catch synced_inner preserves_io.rel_seqm synced_saves)
  from rel_ioD[OF this run] have "committed t = sess t" by (simp add: preserves_def synced_def)
  moreover have "\<exists>st. task_status (committed s) tid = Some st" using assms by (auto simp: task_status_def)
  moreover have "agent_deploy_cluster R cfg rp cid tid scm tarball s = (r, t\<lparr>sess := committed t\<rparr>)"
    using run by (simp add: agent_deploy_cluster_def request_def)
  ultimately show ?thesis using r out by (auto simp: seen_def deploy_left_def Let_def)
qed

text \<open>A host whose agent answers every command with success.\<close>

definition agent_host :: "unit remote" where
  "agent_host = (scripted (\<lambda>_. (0, [], [])))\<lparr>r_agent_connected := \<lambda>_ _. True,
     r_agent_send := \<lambda>_ _ _ _. ret (AgentOk \<lparr>ar_exit_code = None, ar_stdout = None, ar_stderr = None\<rparr>)\<rparr>"

definition new_task :: deployment_task where
  "new_task = \<lparr>dt_id = ''t1'', dt_cluster_id = ''c1'', dt_status = ''running'', dt_current_step = None, dt_logs = [],
     dt_error_message = None, dt_started_at = 0, dt_finished = False\<rparr>"

definition deploy_tables :: tables where
  "deploy_tables = empty_tables\<lparr>clusters := [bare_cluster ''c1'' ''east''], hosts := [sample_host],
     services := [(sample_service ''s1'' ''controller'')\<lparr>s_cluster_id := ''c1'', s_host_id := h_id sample_host, s_status := ''pending''\<rparr>],
     deployment_tasks := [new_task]\<rparr>"

theorem agent_deploy_ends_witness:
  "let d = committed ((plain_sys ())\<lparr>committed := deploy_tables\<rparr>); svcs = deploy_order (services_of d ''c1'');
      a = agent_deploy_cluster agent_host (default_settings ''/repo'') (\<lambda>_. []) ''c1'' ''t1'' ''http://scm'' ''kafka.tgz''
            ((plain_sys ())\<lparr>committed := deploy_tables\<rparr>); d' = committed (snd a) in
    fst a = Inr () \<and>
    (task_status d' ''t1'' = Some ''success'' \<and> core d' = with_state ''c1'' ''running'' (started ''c1'' svcs (core d)) \<or>
     task_status d' ''t1'' = Some ''error'' \<and>
       (core d' = core d \<or> (\<exists>k < length svcs. core d' = started ''c1'' (take k svcs) (core d))))"
  by (rule agent_deploy_ends) (simp add: deploy_tables_def find_task_def new_task_def)

section \<open>The configuration of dedicated controllers\<close>

lemma default_port: "list_all (\<lambda>x. sv_controller_port x = None) (service_dicts hs svcs)"
  by (induction svcs) (auto simp: service_dicts_def List.map_filter_def service_to_dict_def list_all_iff)

lemma voters_default: "list_all (\<lambda>x. sv_controller_port x = None) infos \<Longrightarrow> build_quorum_voters rp infos =
    join '','' (map (\<lambda>x. show_int (sv_node_id x) @ ''@'' @ sv_ip x @ '':9093'')
      (filter (\<lambda>x. sv_role x \<in> {''controller'', ''broker_controller''}) infos))"
proof -
  assume none: "list_all (\<lambda>x. sv_controller_port x = None) infos"
  have "show_int 9093 = ''9093''" by code_simp
  then have "map (voter rp) (filter (\<lambda>x. sv_role x \<in> {''controller'', ''broker_controller''}) infos) =
      map (\<lambda>x. show_int (sv_node_id x) @ ''@'' @ sv_ip x @ '':9093'') (filter (\<lambda>x. sv_role x \<in> {''controller'', ''broker_controller''}) infos)"
    using none by (intro map_cong refl) (auto simp: voter_def list_all_iff)
  then show ?thesis by (simp only: build_quorum_voters_def)
qed

text \<open>
  A service with the role \<open>controller\<close> that is deployed through an agent is configured as a broker: the file
  that is written has the roles and listeners of a broker and no listener of a controller.  The quorum it names has
  every controller at port 9093, whatever port the cluster is configured with.
\<close>

theorem agent_controller_as_broker:
  assumes "agent_server_config rp (JObj config) p svc h (service_dicts hs svcs) = Inr body" and "s_role svc = ''controller''"
    and "plain_input rp (service_to_dict svc h) (service_dicts hs svcs) (AList.update ''log_dirs'' (JStr (dp_data p)) config)"
  shows "let found = map_of (parse_properties body); port = str_of rp (jget_default config ''listener_port'' (JInt 9092)) in
    found ''process.roles'' = Some ''broker'' \<and>
    (\<not> truthy (jget config ''ssl_enabled'') \<longrightarrow> found ''listeners'' = Some (''PLAINTEXT://:'' @ port)) \<and>
    found ''controller.quorum.voters'' =
      Some (join '','' (map (\<lambda>x. show_int (sv_node_id x) @ ''@'' @ sv_ip x @ '':9093'')
        (filter (\<lambda>x. sv_role x \<in> {''controller'', ''broker_controller''}) (service_dicts hs svcs))))"
proof -
  let ?d = "AList.update ''log_dirs'' (JStr (dp_data p)) config"
  have gen: "generate_kraft_broker_config rp (service_to_dict svc h) (service_dicts hs svcs) ?d = Inr body"
    using assms(1) by (simp add: agent_server_config_def)
  have keys: "jget_default ?d k v = jget_default config k v" "jget ?d k = jget config k" if "k \<noteq> ''log_dirs''" for k v
    using that by (simp_all add: jget_default_def jget_def update_conv')
  have role: "process_roles (service_to_dict svc h) = ''broker''"
    using assms(2) by (simp add: process_roles_def service_to_dict_def)
  have "broker_listeners rp (service_to_dict svc h) ?d = [''PLAINTEXT://:'' @ str_of rp (jget_default config ''listener_port'' (JInt 9092))]"
    if "\<not> truthy (jget config ''ssl_enabled'')"
    using that assms(2) by (simp add: broker_listeners_def service_to_dict_def keys)
  then have listeners: "\<not> truthy (jget config ''ssl_enabled'') \<Longrightarrow> join '','' (broker_listeners rp (service_to_dict svc h) ?d) =
      ''PLAINTEXT://:'' @ str_of rp (jget_default config ''listener_port'' (JInt 9092))" by simp
  show ?thesis unfolding Let_def
    using listeners server_lookups[OF gen assms(3)] by (simp add: role voters_default[OF default_port])
qed

theorem agent_controller_as_broker_witness:
  "let svc = (sample_service ''s1'' ''controller'')\<lparr>s_host_id := ''h1'', s_node_id := 1\<rparr>;
       p = \<lparr>dp_install = ''/opt/kafka'', dp_data = ''/data'', dp_unit = ''kafka.service'', dp_tarball_url = [], dp_tarball_dest = []\<rparr> in
   \<exists>body. agent_server_config (\<lambda>_. []) (JObj [(''controller_port'', JInt 9193)]) p svc sample_host (service_dicts [sample_host] [svc]) = Inr body \<and>
     map_of (parse_properties body) ''process.roles'' = Some ''broker'' \<and>
     map_of (parse_properties body) ''controller.quorum.voters'' = Some ''1@10.0.0.1:9093''"
proof -
  let ?rp = "\<lambda>_ :: json. [] :: string" and ?config = "[(''controller_port'', JInt 9193)]"
  let ?svc = "(sample_service ''s1'' ''controller'')\<lparr>s_host_id := ''h1'', s_node_id := 1\<rparr>"
  let ?p = "\<lparr>dp_install = ''/opt/kafka'', dp_data = ''/data'', dp_unit = ''kafka.service'', dp_tarball_url = [], dp_tarball_dest = []\<rparr>"
  let ?infos = "service_dicts [sample_host] [?svc]"
  have "int_value (jget_default (AList.update ''log_dirs'' (JStr (dp_data ?p)) ?config) ''replication_factor'' (JInt 3)) = Inr 3"
    by code_simp
  then obtain body where body: "agent_server_config ?rp (JObj ?config) ?p ?svc sample_host ?infos = Inr body"
    by (simp add: agent_server_config_def generate_kraft_broker_config_def Let_def)
  have role: "s_role ?svc = ''controller''" by (simp add: sample_service_def)
  have plain: "plain_input ?rp (service_to_dict ?svc sample_host) ?infos (AList.update ''log_dirs'' (JStr (dp_data ?p)) ?config)"
    by code_simp
  have "join '','' (map (\<lambda>x. show_int (sv_node_id x) @ ''@'' @ sv_ip x @ '':9093'')
        (filter (\<lambda>x. sv_role x \<in> {''controller'', ''broker_controller''}) ?infos)) = ''1@10.0.0.1:9093''" by code_simp
  with agent_controller_as_broker[OF body role plain, unfolded Let_def] body show ?thesis unfolding Let_def by auto
qed

end
