(* ===== verification/Kafka_Output.thy ===== *)
theory Kafka_Output
  imports Models Py_Text "HOL-Library.AList" "HOL-Library.Char_ord" "HOL-Library.List_Lexorder"
begin

text \<open>
  The parsers of \<open>services/kafka_admin.py\<close> for what the Kafka command line tools print.  Regular expressions are written
  as the functions they denote; \<open>\d\<close> and \<open>\w\<close> stand for the ASCII characters.  A dict of configurations is the list of its items in
  insertion order, and a Python set a set.
\<close>

section \<open>Matching\<close>

text \<open>\<open>re.search\<close> for an anchored matcher, and the matchers of a literal and of a non-empty run.\<close>

fun search :: "(string \<Rightarrow> 'a option) \<Rightarrow> string \<Rightarrow> 'a option" where
  "search f [] = f []"
| "search f (c # s) = (case f (c # s) of Some x \<Rightarrow> Some x | None \<Rightarrow> search f s)"

definition lit :: "string \<Rightarrow> string \<Rightarrow> string option" where
  "lit p s = (if starts_with s p then Some (drop (length p) s) else None)"

definition run_of :: "(char \<Rightarrow> bool) \<Rightarrow> string \<Rightarrow> (string \<times> string) option" where
  "run_of P s = (let w = takeWhile P s in if w = [] then None else Some (w, dropWhile P s))"

definition skip_space :: "string \<Rightarrow> string" where
  "skip_space s = dropWhile py_ws s"

definition word_char :: "char \<Rightarrow> bool" where
  "word_char c \<longleftrightarrow> c \<in> set ''abcdefghijklmnopqrstuvwxyzABCDEFGHIJKLMNOPQRSTUVWXYZ0123456789_''"

text \<open>A pattern of single characters; \<open>None\<close> is a digit.\<close>

fun prefix_pat :: "char option list \<Rightarrow> string \<Rightarrow> bool" where
  "prefix_pat [] s = True"
| "prefix_pat (p # ps) [] = False"
| "prefix_pat (p # ps) (c # s) = ((case p of None \<Rightarrow> is_digit c | Some d \<Rightarrow> c = d) \<and> prefix_pat ps s)"

text \<open>In the texts below \<open>9\<close> stands for a digit.\<close>

definition digits_as :: "string \<Rightarrow> char option list" where
  "digits_as s = map (\<lambda>c. if c = CHR ''9'' then None else Some c) s"

definition capitalize :: "string \<Rightarrow> string" where
  "capitalize s = (case s of [] \<Rightarrow> [] | c # r \<Rightarrow> upper_char c # lower r)"

definition after_colon :: "string \<Rightarrow> string" where
  "after_colon s = strip (case find_sub '':'' s of None \<Rightarrow> [] | Some (a, b) \<Rightarrow> b)"

text \<open>\<open>int(part.split(":")[1].strip())\<close> and the list of integers separated by commas.\<close>

definition second_field :: "string \<Rightarrow> string" where
  "second_field part = strip (split_on CHR '':'' part ! 1)"

fun all_ints :: "string list \<Rightarrow> exn + int list" where
  "all_ints [] = Inr []"
| "all_ints (x # xs) = (case py_int (JStr x) of Inl e \<Rightarrow> Inl e | Inr i \<Rightarrow> map_sum id (Cons i) (all_ints xs))"

definition int_field :: "string \<Rightarrow> exn + int" where
  "int_field part = py_int (JStr (second_field part))"

definition ints_field :: "string \<Rightarrow> exn + int list" where
  "ints_field part = all_ints (split_on CHR '','' (second_field part))"

section \<open>kafka-topics.sh --describe\<close>

definition is_header :: "string \<Rightarrow> bool" where
  "is_header line \<longleftrightarrow> starts_with line ''Topic:'' \<and> contains line ''PartitionCount:''"

definition is_partition :: "string \<Rightarrow> bool" where
  "is_partition line \<longleftrightarrow> starts_with line ''Topic:'' \<and> contains line ''Partition:''"

fun add_config :: "string \<Rightarrow> (string \<times> string) list \<Rightarrow> (string \<times> string) list" where
  "add_config pair cs = (case find_sub ''='' pair of None \<Rightarrow> cs | Some (k, v) \<Rightarrow> AList.update (strip k) (strip v) cs)"

definition add_configs :: "string \<Rightarrow> (string \<times> string) list \<Rightarrow> (string \<times> string) list" where
  "add_configs cfg_str cs = (if cfg_str = [] then cs else fold add_config (split_on CHR '','' cfg_str) cs)"

text \<open>The parts of a header line, and of a line of a partition.\<close>

fun header_parts :: "string list \<Rightarrow> topic_info \<Rightarrow> (string \<times> string) list \<Rightarrow> exn + (topic_info \<times> (string \<times> string) list)" where
  "header_parts [] t cs = Inr (t, cs)"
| "header_parts (p # ps) t cs =
     (let part = strip p in
      if starts_with part ''PartitionCount:''
      then (case int_field part of Inl e \<Rightarrow> Inl e | Inr n \<Rightarrow> header_parts ps (t\<lparr>ti_partitions := n\<rparr>) cs)
      else if starts_with part ''ReplicationFactor:''
      then (case int_field part of Inl e \<Rightarrow> Inl e | Inr n \<Rightarrow> header_parts ps (t\<lparr>ti_rf := n\<rparr>) cs)
      else if starts_with part ''Configs:'' then header_parts ps t (add_configs (after_colon part) cs)
      else header_parts ps t cs)"

fun detail_parts :: "string list \<Rightarrow> partition_detail \<Rightarrow> exn + partition_detail" where
  "detail_parts [] d = Inr d"
| "detail_parts (p # ps) d =
     (let part = strip p in
      if starts_with part ''Partition:''
      then (case int_field part of Inl e \<Rightarrow> Inl e | Inr n \<Rightarrow> detail_parts ps (d\<lparr>pd_partition := Some n\<rparr>))
      else if starts_with part ''Leader:''
      then (case int_field part of Inl e \<Rightarrow> Inl e | Inr n \<Rightarrow> detail_parts ps (d\<lparr>pd_leader := Some n\<rparr>))
      else if starts_with part ''Replicas:''
      then (case ints_field part of Inl e \<Rightarrow> Inl e | Inr ns \<Rightarrow> detail_parts ps (d\<lparr>pd_replicas := Some ns\<rparr>))
      else if starts_with part ''Isr:''
      then (case ints_field part of Inl e \<Rightarrow> Inl e | Inr ns \<Rightarrow> detail_parts ps (d\<lparr>pd_isr := Some ns\<rparr>))
      else detail_parts ps d)"

definition no_detail :: partition_detail where
  "no_detail = \<lparr>pd_partition = None, pd_leader = None, pd_replicas = None, pd_isr = None\<rparr>"

fun describe_lines :: "string list \<Rightarrow> topic_info \<Rightarrow> (string \<times> string) list \<Rightarrow> exn + topic_info" where
  "describe_lines [] t cs = Inr (t\<lparr>ti_configs := (if cs = [] then None else Some cs)\<rparr>)"
| "describe_lines (l # ls) t cs =
     (let line = strip l in
      if is_header line
      then (case header_parts (split_on CHR 0x09 line) t cs of Inl e \<Rightarrow> Inl e | Inr (t, cs) \<Rightarrow> describe_lines ls t cs)
      else if is_partition line
      then (case detail_parts (split_on CHR 0x09 line) no_detail of Inl e \<Rightarrow> Inl e
        | Inr d \<Rightarrow> describe_lines ls (if d = no_detail then t else t\<lparr>ti_details := ti_details t @ [d]\<rparr>) cs)
      else describe_lines ls t cs)"

definition parse_topic_describe :: "string \<Rightarrow> string \<Rightarrow> exn + topic_info" where
  "parse_topic_describe name raw =
     describe_lines (splitlines (strip raw)) \<lparr>ti_name = Some name, ti_partitions = 0, ti_rf = 0, ti_configs = None, ti_details = []\<rparr> []"

text \<open>The blocks of a description of all topics: the name and the lines of each.\<close>

definition header_name :: "string \<Rightarrow> string" where
  "header_name line = after_colon (hd (split_on CHR 0x09 line))"

fun topic_blocks :: "string list \<Rightarrow> (string \<times> string list) option \<Rightarrow> (string \<times> string list) list" where
  "topic_blocks [] cur = (case cur of None \<Rightarrow> [] | Some b \<Rightarrow> [b])"
| "topic_blocks (l # ls) cur =
     (let line = strip l in
      if line = [] then topic_blocks ls cur
      else if is_header line
      then (case cur of None \<Rightarrow> [] | Some b \<Rightarrow> [b]) @ topic_blocks ls (Some (header_name line, [line]))
      else if is_partition line then topic_blocks ls (map_option (\<lambda>(n, bs). (n, bs @ [line])) cur)
      else topic_blocks ls cur)"

fun parse_blocks :: "(string \<times> string list) list \<Rightarrow> exn + topic_info list" where
  "parse_blocks [] = Inr []"
| "parse_blocks ((n, ls) # bs) =
     (case parse_topic_describe n (join nl ls) of Inl e \<Rightarrow> Inl e | Inr t \<Rightarrow> map_sum id (Cons t) (parse_blocks bs))"

definition parse_all_topics_describe :: "string \<Rightarrow> exn + topic_info list" where
  "parse_all_topics_describe raw = (if strip raw = [] then Inr [] else parse_blocks (topic_blocks (splitlines raw) None))"

section \<open>kafka-consumer-groups.sh\<close>

definition group_char :: "char \<Rightarrow> bool" where
  "group_char c \<longleftrightarrow> word_char c \<or> c \<in> set ''.-''"

definition iso_time :: "string \<Rightarrow> bool" where
  "iso_time g = prefix_pat (digits_as ''9999-99-99T99:99:99'') g"

text \<open>The guards of the loop over the output of \<open>--list\<close>, in the order of the code.\<close>

definition keep_group :: "string \<Rightarrow> bool" where
  "keep_group g =
     (if g = [] then False
      else let low = lower g in
      if starts_with g ''['' \<or> starts_with g ''WARN'' \<or> starts_with g ''INFO'' \<or> starts_with g ''ERROR'' \<or> starts_with g ''Error:''
         \<or> starts_with low ''exception'' \<or> contains low ''log4j'' \<or> contains low '' is deprecated '' \<or> starts_with g ''('' \<or> contains g '' ''
      then False
      else if 256 < length g then False
      else if iso_time g then False
      else if starts_with g ''console-consumer-'' then False
      else list_all group_char g)"

definition group_ids :: "string \<Rightarrow> string list" where
  "group_ids stdout = filter keep_group (map strip (splitlines stdout))"

record group_offset =
  go_topic :: string
  go_partition :: int
  go_current :: int
  go_end :: int
  go_lag :: int

text \<open>The members are the set of consumer ids, of which the code shows the number.\<close>

record group_info =
  gi_group_id :: string
  gi_state :: string
  gi_members :: "string set"
  gi_topics :: "string set"
  gi_offsets :: "group_offset list"

definition dash_int :: "string \<Rightarrow> exn + int" where
  "dash_int s = (if s = ''-'' then Inr 0 else py_int (JStr s))"

text \<open>One row; \<open>None\<close> for a row that raises and is skipped.\<close>

definition read_row :: "string list \<Rightarrow> (group_offset \<times> string) option" where
  "read_row parts =
     (case (py_int (JStr (parts ! 2)), dash_int (parts ! 3), dash_int (parts ! 4), dash_int (parts ! 5)) of
        (Inr p, Inr c, Inr e, Inr l) \<Rightarrow>
          Some (\<lparr>go_topic = parts ! 1, go_partition = p, go_current = c, go_end = e, go_lag = l\<rparr>,
                if 6 < length parts then parts ! 6 else [])
      | _ \<Rightarrow> None)"

definition is_member :: "string \<Rightarrow> bool" where
  "is_member cid \<longleftrightarrow> cid \<noteq> [] \<and> cid \<noteq> ''-''"

definition add_row :: "group_offset \<Rightarrow> string \<Rightarrow> group_info \<Rightarrow> group_info" where
  "add_row o' cid g =
     g\<lparr>gi_topics := insert (go_topic o') (gi_topics g),
       gi_members := (if is_member cid then insert cid (gi_members g) else gi_members g),
       gi_offsets := gi_offsets g @ [o'],
       gi_state := (if gi_state g = ''Unknown'' then if is_member cid then ''Stable'' else ''Empty'' else gi_state g)\<rparr>"

definition group_line :: "string \<Rightarrow> group_info \<Rightarrow> group_info" where
  "group_line line g =
     (if starts_with line ''GROUP'' \<or> starts_with line ''Consumer group'' then g
      else if contains line ''has no active members'' then g\<lparr>gi_state := ''Empty''\<rparr>
      else let parts = split_ws line in
        if length parts < 6 then g
        else (case read_row parts of None \<Rightarrow> g | Some (r, cid) \<Rightarrow> add_row r cid g))"

definition unknown_group :: "string \<Rightarrow> group_info" where
  "unknown_group i = \<lparr>gi_group_id = i, gi_state = ''Unknown'', gi_members = {}, gi_topics = {}, gi_offsets = []\<rparr>"

definition parse_consumer_group :: "string \<Rightarrow> string \<Rightarrow> group_info" where
  "parse_consumer_group i raw = fold group_line (splitlines (strip raw)) (unknown_group i)"

text \<open>The combined description of all groups: \<open>cur\<close> is the current group with its lines.\<close>

definition finish_group :: "(string \<times> string list) option \<Rightarrow> group_info list" where
  "finish_group cur = (case cur of None \<Rightarrow> []
     | Some (i, ls) \<Rightarrow> if i = [] \<or> ls = [] then [] else
         let g = parse_consumer_group i (join nl ls) in if gi_state g = ''Unknown'' then [] else [g])"

definition skip_line :: "string \<Rightarrow> bool" where
  "skip_line line \<longleftrightarrow> strip line = [] \<or> starts_with line ''GROUP'' \<or>
     list_ex (starts_with line) [''['', ''WARN'', ''INFO'', ''ERROR'', ''Error:'', ''Exception'']"

fun group_sections :: "string list \<Rightarrow> string list \<Rightarrow> (string \<times> string list) option \<Rightarrow> group_info list" where
  "group_sections groups [] cur = finish_group cur"
| "group_sections groups (line # ls) cur =
     (if skip_line line then group_sections groups ls cur
      else let parts = split_ws line in
      if 6 \<le> length parts
      then (let gid = hd parts in
        case cur of
          Some (i, xs) \<Rightarrow>
            if gid = i then group_sections groups ls (Some (i, xs @ [line]))
            else finish_group cur @ group_sections groups ls (Some (gid, [line]))
        | None \<Rightarrow> group_sections groups ls (Some (gid, [line])))
      else if contains line ''has no active members''
      then (case List.find (contains line) groups of None \<Rightarrow> []
              | Some g \<Rightarrow> [(unknown_group g)\<lparr>gi_state := ''Empty''\<rparr>]) @ group_sections groups ls cur
      else group_sections groups ls cur)"

section \<open>kafka-console-consumer.sh\<close>

record message =
  ms_timestamp :: json
  ms_partition :: "int option"
  ms_offset :: "int option"
  ms_key :: "string option"
  ms_value :: "string option"
  ms_headers :: "string option"

definition log_time :: "string \<Rightarrow> bool" where
  "log_time line \<longleftrightarrow> prefix_pat (digits_as ''99:99:99'') line \<and>
     (case drop 8 line of [] \<Rightarrow> False
      | c # s \<Rightarrow> c \<in> set ''.,'' \<and> (case run_of is_digit s of None \<Rightarrow> False
          | Some (d, r) \<Rightarrow> (case run_of py_ws r of None \<Rightarrow> False | Some (w, r) \<Rightarrow> starts_with r ''['')))"

definition severity_prefix :: "string \<Rightarrow> bool" where
  "severity_prefix line \<longleftrightarrow> list_ex (\<lambda>p. case lit p line of Some (c # r) \<Rightarrow> py_ws c | _ \<Rightarrow> False)
     [''INFO'', ''WARN'', ''ERROR'', ''FATAL'', ''DEBUG'', ''TRACE'']"

text \<open>\<open>^\s+at\s+[\w.$]+\<close>, and a Java class name with \<open>.Exception\<close>, \<open>.Error\<close> or \<open>.Timeout\<close> in it.\<close>

definition stack_frame :: "string \<Rightarrow> bool" where
  "stack_frame line = (case run_of py_ws line of None \<Rightarrow> False
     | Some (w, r) \<Rightarrow> (case lit ''at'' r of None \<Rightarrow> False
        | Some r \<Rightarrow> (case run_of py_ws r of Some (w, c # r) \<Rightarrow> word_char c \<or> c \<in> set ''.$'' | _ \<Rightarrow> False)))"

definition java_exception :: "string \<Rightarrow> bool" where
  "java_exception line \<longleftrightarrow> list_ex (\<lambda>p. case lit p line of None \<Rightarrow> False
     | Some r \<Rightarrow> let w = takeWhile (\<lambda>c. \<not> py_ws c) r in
         list_ex (contains (drop 1 w)) [''.Exception'', ''.Error'', ''.Timeout''])
     [''org.'', ''java.'', ''javax.'', ''io.'']"

definition noise_markers :: "string list" where
  "noise_markers = [''StatusLogger'', ''Reconfiguration failed'', ''Error processing message'', ''terminating consumer process'',
     ''ConsoleConsumer'', ''TimeoutException'', ''Processed a total of'', ''SLF4J:'', ''log4j'', ''kafka.tools'']"

definition is_noise :: "string \<Rightarrow> bool" where
  "is_noise line \<longleftrightarrow> prefix_pat (digits_as ''[9999-99-99'') line \<or> log_time line \<or> severity_prefix line \<or> stack_frame line \<or>
     java_exception line \<or> starts_with line ''Caused by:'' \<or> list_ex (contains line) noise_markers"

definition colon_int :: "string \<Rightarrow> int option" where
  "colon_int raw = (if contains raw '':'' then parse_int (after_colon raw) else None)"

definition text_unless :: "string \<Rightarrow> string \<Rightarrow> string option" where
  "text_unless none raw = (if raw = [] \<or> raw = none then None else Some raw)"

definition parse_consumer_line :: "string \<Rightarrow> message option" where
  "parse_consumer_line line =
     (let parts = split_on CHR 0x09 line in
      if length parts < 5 then None
      else Some \<lparr>ms_timestamp = (if contains (parts ! 0) '':''
                   then (case parse_int (after_colon (parts ! 0)) of Some i \<Rightarrow> JInt i | None \<Rightarrow> JStr (after_colon (parts ! 0)))
                   else JNull),
                 ms_partition = colon_int (parts ! 1), ms_offset = colon_int (parts ! 2),
                 ms_key = text_unless ''null'' (parts ! 4),
                 ms_value = Some (if 5 < length parts then parts ! 5 else []),
                 ms_headers = text_unless ''NO_HEADERS'' (parts ! 3)\<rparr>)"

definition parse_messages :: "string \<Rightarrow> message list" where
  "parse_messages stdout = List.map_filter parse_consumer_line
     (filter (\<lambda>l. l \<noteq> [] \<and> \<not> is_noise l) (map strip (splitlines stdout)))"

section \<open>Users and ACLs\<close>

text \<open>\<open>re.search(r"'([^']+)'", line)\<close>.\<close>

definition quoted_at :: "string \<Rightarrow> string option" where
  "quoted_at s = Option.bind (lit sq s) (\<lambda>r. Option.bind (run_of (\<lambda>c. c \<noteq> CHR 0x27) r) (\<lambda>(w, r). if r = [] then None else Some w))"

definition scram_user :: "string \<Rightarrow> (string \<times> string) option" where
  "scram_user line =
     (if line = [] \<or> \<not> contains line ''SCRAM credential configs'' then None
      else map_option (\<lambda>u. (u, if contains line ''SCRAM-SHA-512'' then ''SCRAM-SHA-512'' else ''SCRAM-SHA-256'')) (search quoted_at line))"

definition parse_scram_users :: "string \<Rightarrow> (string \<times> string) list" where
  "parse_scram_users raw = List.map_filter scram_user (map strip (splitlines (strip raw)))"

record acl_entry =
  ac_principal :: string
  ac_host :: string
  ac_operation :: string
  ac_permission_type :: string
  ac_resource_type :: string
  ac_resource_name :: string
  ac_pattern_type :: string

definition no_comma :: "char \<Rightarrow> bool" where "no_comma c \<longleftrightarrow> c \<noteq> CHR '',''"

text \<open>A comma, optional white space and a literal; and a word before a closing parenthesis.\<close>

definition comma_lit :: "string \<Rightarrow> string \<Rightarrow> string option" where
  "comma_lit p s = Option.bind (lit '','' s) (\<lambda>r. lit p (skip_space r))"

definition last_word :: "string \<Rightarrow> string option" where
  "last_word s = Option.bind (run_of word_char s) (\<lambda>(w, r). map_option (\<lambda>_. w) (lit '')'' r))"

definition resource_at :: "string \<Rightarrow> (string \<times> string \<times> string) option" where
  "resource_at s =
     Option.bind (lit ''ResourcePattern(resourceType='' s) (\<lambda>r.
     Option.bind (run_of word_char r) (\<lambda>(t, r).
     Option.bind (comma_lit ''name='' r) (\<lambda>r.
     Option.bind (run_of no_comma r) (\<lambda>(n, r).
     Option.bind (comma_lit ''patternType='' r) (\<lambda>r.
     map_option (\<lambda>p. (lower t, strip n, lower p)) (last_word r))))))"

definition acl_at :: "string \<Rightarrow> (string \<times> string \<times> string \<times> string) option" where
  "acl_at s =
     Option.bind (lit ''(principal='' s) (\<lambda>r.
     Option.bind (run_of no_comma r) (\<lambda>(p, r).
     Option.bind (comma_lit ''host='' r) (\<lambda>r.
     Option.bind (run_of no_comma r) (\<lambda>(h, r).
     Option.bind (comma_lit ''operation='' r) (\<lambda>r.
     Option.bind (run_of no_comma r) (\<lambda>(o', r).
     Option.bind (comma_lit ''permissionType='' r) (\<lambda>r.
     map_option (\<lambda>t. (strip p, strip h, strip o', capitalize (strip t))) (last_word r))))))))"

fun acl_lines :: "string list \<Rightarrow> string \<times> string \<times> string \<Rightarrow> acl_entry list" where
  "acl_lines [] cur = []"
| "acl_lines (l # ls) cur =
     (let line = strip l in
      case search resource_at line of Some res \<Rightarrow> acl_lines ls res
      | None \<Rightarrow>
        (case search acl_at line of None \<Rightarrow> []
          | Some (p, h, o', t) \<Rightarrow> [\<lparr>ac_principal = p, ac_host = h, ac_operation = o', ac_permission_type = t,
              ac_resource_type = fst cur, ac_resource_name = fst (snd cur), ac_pattern_type = snd (snd cur)\<rparr>])
        @ acl_lines ls cur)"

definition parse_acl_list :: "string \<Rightarrow> acl_entry list" where
  "parse_acl_list raw = acl_lines (splitlines (strip raw)) ([], [], [])"

section \<open>The distribution of partitions\<close>

record partition_row =
  pr_topic :: string
  pr_partition :: int
  pr_leader :: int
  pr_replicas :: "int list"
  pr_isr :: "int list"

fun row_parts :: "string list \<Rightarrow> partition_row \<Rightarrow> exn + partition_row" where
  "row_parts [] d = Inr d"
| "row_parts (p # ps) d =
     (let part = strip p in
      if starts_with part ''Topic:'' then row_parts ps (d\<lparr>pr_topic := after_colon part\<rparr>)
      else if starts_with part ''Partition:''
      then (case int_field part of Inl e \<Rightarrow> Inl e | Inr n \<Rightarrow> row_parts ps (d\<lparr>pr_partition := n\<rparr>))
      else if starts_with part ''Leader:''
      then (case int_field part of Inl e \<Rightarrow> Inl e | Inr n \<Rightarrow> row_parts ps (d\<lparr>pr_leader := n\<rparr>))
      else if starts_with part ''Replicas:''
      then (case ints_field part of Inl e \<Rightarrow> Inl e | Inr ns \<Rightarrow> row_parts ps (d\<lparr>pr_replicas := ns\<rparr>))
      else if starts_with part ''Isr:''
      then (case ints_field part of Inl e \<Rightarrow> Inl e | Inr ns \<Rightarrow> row_parts ps (d\<lparr>pr_isr := ns\<rparr>))
      else row_parts ps d)"

definition no_row :: partition_row where
  "no_row = \<lparr>pr_topic = [], pr_partition = 0, pr_leader = -1, pr_replicas = [], pr_isr = []\<rparr>"

fun partition_rows :: "string list \<Rightarrow> exn + partition_row list" where
  "partition_rows [] = Inr []"
| "partition_rows (l # ls) =
     (let line = strip l in
      if \<not> is_partition line then partition_rows ls
      else (case row_parts (split_on CHR 0x09 line) no_row of Inl e \<Rightarrow> Inl e
        | Inr r \<Rightarrow> if pr_topic r = [] then partition_rows ls else map_sum id (Cons r) (partition_rows ls)))"

text \<open>\<open>d[k] = d.get(k, 0) + 1\<close>\<close>

definition tally :: "int \<Rightarrow> (int \<times> int) list \<Rightarrow> (int \<times> int) list" where
  "tally k d = AList.update k ((case map_of d k of None \<Rightarrow> 0 | Some n \<Rightarrow> n) + 1) d"

record tallies =
  tl_leaders :: "(int \<times> int) list"
  tl_replicas :: "(int \<times> int) list"
  tl_topics :: "(string \<times> partition_row list) list"

definition count_row :: "partition_row \<Rightarrow> tallies \<Rightarrow> tallies" where
  "count_row r t =
     \<lparr>tl_leaders = (if 0 \<le> pr_leader r then tally (pr_leader r) (tl_leaders t) else tl_leaders t),
      tl_replicas = fold tally (pr_replicas r) (tl_replicas t),
      tl_topics = AList.update (pr_topic r)
        ((case map_of (tl_topics t) (pr_topic r) of None \<Rightarrow> [] | Some rs \<Rightarrow> rs) @ [r]) (tl_topics t)\<rparr>"

record broker_count =
  bc_broker :: int
  bc_leaders :: int
  bc_replicas :: int

record distribution =
  ds_brokers :: "broker_count list"
  ds_topics :: "(string \<times> partition_row list) list"

definition get_or_0 :: "(int \<times> int) list \<Rightarrow> int \<Rightarrow> int" where
  "get_or_0 d k = (case map_of d k of None \<Rightarrow> 0 | Some n \<Rightarrow> n)"

definition distribution_of :: "partition_row list \<Rightarrow> distribution" where
  "distribution_of rows =
     (let t = fold count_row rows \<lparr>tl_leaders = [], tl_replicas = [], tl_topics = []\<rparr>;
          bids = sorted_list_of_set (set (map fst (tl_leaders t)) \<union> set (map fst (tl_replicas t))) in
      \<lparr>ds_brokers = map (\<lambda>b. \<lparr>bc_broker = b, bc_leaders = get_or_0 (tl_leaders t) b, bc_replicas = get_or_0 (tl_replicas t) b\<rparr>) bids,
       ds_topics = sort_key fst (tl_topics t)\<rparr>)"

definition parse_distribution :: "string \<Rightarrow> exn + distribution" where
  "parse_distribution stdout = map_sum id distribution_of (partition_rows (splitlines (strip stdout)))"

section \<open>kafka-reassign-partitions.sh\<close>

text \<open>\<open>line.split("partition")[1].split("is")[0].strip() if "partition" in line else line\<close>\<close>

definition before_sub :: "string \<Rightarrow> string \<Rightarrow> string" where
  "before_sub p s = (case find_sub p s of None \<Rightarrow> s | Some (a, b) \<Rightarrow> a)"

definition partition_name :: "string \<Rightarrow> string" where
  "partition_name line = (case find_sub ''partition'' line of None \<Rightarrow> line
     | Some (a, b) \<Rightarrow> strip (before_sub ''is'' (before_sub ''partition'' b)))"

definition verify_line :: "string \<Rightarrow> (string \<times> string) option" where
  "verify_line line =
     (if starts_with line ''Status of partition reassignment'' then None
      else if contains (lower line) ''is completed'' \<or> contains (lower line) ''is complete'' then Some (partition_name line, ''completed'')
      else if contains (lower line) ''in progress'' then Some (partition_name line, ''in_progress'')
      else if line \<noteq> [] then Some (line, ''unknown'') else None)"

record verify_result =
  vr_complete :: bool
  vr_partitions :: "(string \<times> string) list"
  vr_raw :: string

definition parse_verify :: "string \<Rightarrow> verify_result" where
  "parse_verify stdout =
     (let results = List.map_filter verify_line (map strip (splitlines (strip stdout))) in
      \<lparr>vr_complete = list_all (\<lambda>r. snd r \<noteq> ''in_progress'') results, vr_partitions = results, vr_raw = strip stdout\<rparr>)"

text \<open>The two assignments in the output of \<open>--generate\<close>; \<open>loads\<close> is \<open>json.loads\<close>.\<close>

fun plan_lines :: "(string \<Rightarrow> json option) \<Rightarrow> string list \<Rightarrow> bool option \<Rightarrow> json \<times> json \<Rightarrow> json \<times> json" where
  "plan_lines loads [] section plan = plan"
| "plan_lines loads (l # ls) section plan =
     (let line = strip l in
      if contains line ''Current partition replica assignment'' then plan_lines loads ls (Some False) plan
      else if contains line ''Proposed partition reassignment configuration'' then plan_lines loads ls (Some True) plan
      else (case (section, starts_with line ''{'', loads line) of
          (Some proposed, True, Some v) \<Rightarrow> plan_lines loads ls section (if proposed then (fst plan, v) else (v, snd plan))
        | _ \<Rightarrow> plan_lines loads ls section plan))"

definition parse_plan :: "(string \<Rightarrow> json option) \<Rightarrow> string \<Rightarrow> json \<times> json" where
  "parse_plan loads stdout = plan_lines loads (splitlines (strip stdout)) None (JObj [], JObj [])"

end
