(* ===== verification/Kafka_Reading.thy ===== *)
theory Kafka_Reading
  imports Kafka_Output
begin

text \<open>
  What the parsers of \<open>Kafka_Output\<close> make of the output of the tools: descriptions of topics are read back, consumer
  groups are filtered, replicas are counted, and which lines are lost or misread.
\<close>

section \<open>Descriptions of topics\<close>

text \<open>
  The output of \<open>kafka-topics.sh --describe\<close>: a partition without a leader has the leader \<open>none\<close>, one without in-sync replicas an empty list.
  The fields of a partition that come after these, as \<open>Elr: \<close> and \<open>LastKnownElr: \<close> in Kafka 4, are a parameter \<open>x\<close> of the name of the topic
  and the partition.
\<close>

definition tab :: string where "tab = [CHR 0x09]"

definition ints_text :: "int list \<Rightarrow> string" where
  "ints_text ns = join '','' (map show_int ns)"

definition partition_fields :: "string \<Rightarrow> partition_detail \<Rightarrow> string list" where
  "partition_fields n d =
     [field ''Topic'' n, field ''Partition'' (show_int (the (pd_partition d))),
      field ''Leader'' (case pd_leader d of None \<Rightarrow> ''none'' | Some l \<Rightarrow> show_int l),
      field ''Replicas'' (ints_text (the (pd_replicas d))), field ''Isr'' (ints_text (the (pd_isr d)))]"

definition configs_text :: "topic_info \<Rightarrow> string" where
  "configs_text t = join '','' (map (\<lambda>(k, v). k @ ''='' @ v) (case ti_configs t of None \<Rightarrow> [] | Some cs \<Rightarrow> cs))"

definition header_fields :: "string \<Rightarrow> topic_info \<Rightarrow> string list" where
  "header_fields u t =
     [field ''Topic'' (the (ti_name t)), field ''TopicId'' u, field ''PartitionCount'' (show_int (ti_partitions t)),
      field ''ReplicationFactor'' (show_int (ti_rf t)), field ''Configs'' (configs_text t)]"

definition topic_lines :: "(string \<Rightarrow> partition_detail \<Rightarrow> string list) \<Rightarrow> string \<times> topic_info \<Rightarrow> string list" where
  "topic_lines x = (\<lambda>(u, t). join tab (header_fields u t) #
     map (\<lambda>d. tab @ join tab (partition_fields (the (ti_name t)) d @ x (the (ti_name t)) d)) (ti_details t))"

definition described_text :: "(string \<Rightarrow> partition_detail \<Rightarrow> string list) \<Rightarrow> (string \<times> topic_info) list \<Rightarrow> string" where
  "described_text x ts = join nl (concat (map (topic_lines x) ts)) @ nl"

text \<open>
  Names without white space and colons; configurations without white space, whose value may be a list separated by commas, without \<open>=\<close> after
  the first comma; further fields with other labels than the fields that are read.
\<close>

definition plain_name :: "string \<Rightarrow> bool" where
  "plain_name n \<longleftrightarrow> n \<noteq> [] \<and> word n \<and> CHR '':'' \<notin> set n"

definition plain_config :: "string \<times> string \<Rightarrow> bool" where
  "plain_config = (\<lambda>(k, v). word k \<and> word v \<and> CHR '','' \<notin> set k \<and> CHR ''='' \<notin> set k \<and>
     CHR ''='' \<notin> set (dropWhile (\<lambda>c. c \<noteq> CHR '','') v))"

definition further_field :: "string \<Rightarrow> bool" where
  "further_field e \<longleftrightarrow> e \<noteq> [] \<and> \<not> py_ws (hd e) \<and> CHR 0x09 \<notin> set e \<and> one_line e \<and> \<not> contains e ''PartitionCount:'' \<and>
     \<not> starts_with e ''Partition:'' \<and> \<not> starts_with e ''Leader:'' \<and> \<not> starts_with e ''Replicas:'' \<and> \<not> starts_with e ''Isr:''"

definition full_detail :: "partition_detail \<Rightarrow> bool" where
  "full_detail d \<longleftrightarrow> pd_partition d \<noteq> None \<and> pd_replicas d \<notin> {None, Some []} \<and> pd_isr d \<noteq> None"

definition plain_topic :: "(string \<Rightarrow> partition_detail \<Rightarrow> string list) \<Rightarrow> string \<times> topic_info \<Rightarrow> bool" where
  "plain_topic x = (\<lambda>(u, t). plain_name u \<and> ti_name t \<noteq> None \<and> plain_name (the (ti_name t)) \<and>
     (case ti_configs t of None \<Rightarrow> True | Some cs \<Rightarrow> cs \<noteq> [] \<and> distinct (map fst cs) \<and> list_all plain_config cs) \<and>
     ti_details t \<noteq> [] \<and> list_all (\<lambda>d. full_detail d \<and> list_all further_field (x (the (ti_name t)) d)) (ti_details t))"

subsection \<open>Fields\<close>

lemma show_int_no: "\<not> is_digit c \<Longrightarrow> c \<noteq> CHR ''-'' \<Longrightarrow> c \<notin> set (show_int n)"
  using set_show_int[of n] by auto

lemma show_int_marks: "CHR '':'' \<notin> set (show_int n)" "CHR '','' \<notin> set (show_int n)"
  by (rule show_int_no; simp add: is_digit_def)+

lemma ints_text_plain: "word (ints_text ns)" "CHR '':'' \<notin> set (ints_text ns)" "ns \<noteq> [] \<Longrightarrow> ints_text ns \<noteq> []"
proof -
  have "word '',''" by code_simp
  then show "word (ints_text ns)" unfolding ints_text_def by (rule word_join) (simp add: list_all_iff)
  show "CHR '':'' \<notin> set (ints_text ns)"
    unfolding ints_text_def using set_join[of "'',''" "map show_int ns"] show_int_marks(1) by fastforce
  show "ns \<noteq> [] \<Longrightarrow> ints_text ns \<noteq> []"
    by (cases ns rule: remdups_adj.cases) (simp_all add: ints_text_def show_int_nonempty)
qed

lemma second_field_field: "CHR '':'' \<notin> set k \<Longrightarrow> CHR '':'' \<notin> set v \<Longrightarrow> word v \<Longrightarrow> second_field (field k v) = v"
proof -
  assume v: "CHR '':'' \<notin> set k" "CHR '':'' \<notin> set v" "word v"
  have "split_on CHR '':'' (field k v) = [k, '' '' @ v]"
    using split_on_append[OF v(1)] split_on_no[of "CHR '':''" "'' '' @ v"] v(2) by (simp add: field_def)
  moreover have "strip ('' '' @ v) = v" using v(3) word_strip[OF v(3)] by (simp add: strip_def strip_by_def py_ws_def ws_chars_def)
  ultimately show ?thesis by (simp add: second_field_def)
qed

lemma after_colon_field: "CHR '':'' \<notin> set k \<Longrightarrow> word v \<Longrightarrow> after_colon (field k v) = v"
  using word_strip[of v] by (simp add: after_colon_def find_colon_field strip_def strip_by_def py_ws_def ws_chars_def)

lemma all_ints_show: "all_ints (map show_int ns) = Inr ns"
  by (induction ns) (simp_all)

lemma int_fields:
  "CHR '':'' \<notin> set k \<Longrightarrow> int_field (field k (show_int n)) = Inr n"
  "CHR '':'' \<notin> set k \<Longrightarrow> ns \<noteq> [] \<Longrightarrow> ints_field (field k (ints_text ns)) = Inr ns"
proof -
  assume k: "CHR '':'' \<notin> set k"
  show "int_field (field k (show_int n)) = Inr n"
    by (simp add: int_field_def second_field_field k show_int_marks)
  assume "ns \<noteq> []"
  then have "split_on CHR '','' (ints_text ns) = map show_int ns"
    unfolding ints_text_def by (intro split_on_join) (simp_all add: list_all_iff show_int_marks)
  then show "ints_field (field k (ints_text ns)) = Inr ns"
    by (simp add: ints_field_def second_field_field k ints_text_plain all_ints_show)
qed

definition bad_int :: "string \<Rightarrow> exn" where
  "bad_int s = ValueError (''invalid literal for int() with base 10: '' @ sq @ s @ sq)"

lemma leader_none: "int_field (field ''Leader'' ''none'') = Inl (bad_int ''none'')"
proof -
  have "second_field (field ''Leader'' ''none'') = ''none''" "parse_int ''none'' = None" by code_simp+
  then show ?thesis by (simp add: int_field_def bad_int_def)
qed

subsection \<open>White space at the end of a line\<close>

abbreviation rstrip :: "string \<Rightarrow> string" where
  "rstrip s \<equiv> rev (dropWhile py_ws (rev s))"

definition clip :: "string list \<Rightarrow> string list" where
  "clip fs = (if fs = [] then [] else butlast fs @ [rstrip (last fs)])"

lemma join_last: "xs \<noteq> [] \<Longrightarrow> join sep (xs @ [x]) = join sep xs @ sep @ x"
  by (induction sep xs rule: join.induct) auto

lemma rstrip_join:
  assumes "fs \<noteq> []" and "c \<in> set (last fs)" and "\<not> py_ws c"
  shows "rstrip (join sep fs) = join sep (clip fs)"
proof -
  have cut: "rstrip (a @ last fs) = a @ rstrip (last fs)" for a
    using assms(2,3) by (simp add: dropWhile_append1[of c])
  obtain ys y where fs: "fs = ys @ [y]" using assms(1) by (cases fs rule: rev_cases) auto
  show ?thesis
  proof (cases "ys = []")
    case False
    then show ?thesis using cut[of "join sep ys @ sep"] by (simp add: fs clip_def join_last)
  qed (simp add: fs clip_def)
qed

lemma map_strip_clip: "map strip (clip fs) = map strip fs"
  by (cases fs rule: rev_cases) (simp_all add: clip_def strip_rstrip)

lemma clip_Cons: "fs \<noteq> [] \<Longrightarrow> clip (f # fs) = f # clip fs"
  by (simp add: clip_def)

lemma clip_one_line: "list_all one_line fs \<Longrightarrow> list_all one_line (clip fs)"
proof (cases fs rule: rev_cases)
  case (snoc es e)
  moreover assume "list_all one_line fs"
  ultimately have "list_all one_line es" "one_line (rev e)" by (simp_all add: one_line_def)
  with snoc one_line_dropWhile[of "rev e" py_ws] show ?thesis by (simp add: clip_def) (simp add: one_line_def)
qed (simp add: clip_def)

text \<open>A field that can stand in a line: it starts with a character that is not white space.\<close>

definition field_like :: "string \<Rightarrow> bool" where
  "field_like e \<longleftrightarrow> e \<noteq> [] \<and> \<not> py_ws (hd e) \<and> CHR 0x09 \<notin> set e \<and> one_line e"

lemma rstrip_prefix: "\<exists>w. e = rstrip e @ w"
  using takeWhile_dropWhile_id[of py_ws "rev e"] by (metis rev_append rev_rev_ident)

lemma field_like_rstrip: "field_like e \<Longrightarrow> field_like (rstrip e)"
proof -
  assume e: "field_like e"
  obtain w where w: "e = rstrip e @ w" using rstrip_prefix by blast
  have "rstrip e \<noteq> []"
  proof
    assume "rstrip e = []"
    then have "\<forall>c\<in>set e. py_ws c" by (simp add: dropWhile_eq_Nil_conv)
    then show False using e by (cases e) (auto simp: field_like_def)
  qed
  moreover from this have "hd (rstrip e) = hd e" using w by (metis hd_append2)
  moreover have "set (rstrip e) \<subseteq> set e" by (auto dest: set_dropWhileD)
  ultimately show ?thesis using e by (auto simp: field_like_def one_line_def list_all_iff)
qed

lemma clip_fields: "list_all field_like fs \<Longrightarrow> list_all field_like (clip fs)"
  by (cases fs rule: rev_cases) (simp_all add: clip_def field_like_rstrip)

lemma fields_line:
  assumes "list_all field_like fs" and "fs \<noteq> []"
  shows "strip (tab @ join tab fs) = join tab (clip fs)" "split_on CHR 0x09 (join tab (clip fs)) = clip fs"
    "join tab (clip fs) \<noteq> []" "\<not> py_ws (hd (join tab (clip fs)))" "one_line (join tab (clip fs))"
proof -
  have hd: "join tab gs \<noteq> [] \<and> \<not> py_ws (hd (join tab gs)) \<and> one_line (join tab gs)" if "list_all field_like gs" "gs \<noteq> []" for gs
    using that by (induction tab gs rule: join.induct) (auto simp: field_like_def tab_def one_line_def line_end_def)
  have ne: "clip fs \<noteq> []" using assms(2) by (simp add: clip_def)
  show "join tab (clip fs) \<noteq> []" "\<not> py_ws (hd (join tab (clip fs)))" "one_line (join tab (clip fs))"
    using hd[OF clip_fields[OF assms(1)] ne] by simp_all
  have "field_like (last fs)" using assms by (simp add: list_all_iff)
  then have "hd (last fs) \<in> set (last fs)" "\<not> py_ws (hd (last fs))" by (simp_all add: field_like_def)
  note last = rstrip_join[OF assms(2) this]
  have "dropWhile py_ws (tab @ join tab fs) = join tab fs"
    using hd[OF assms] by (cases "join tab fs") (auto simp: tab_def py_ws_def ws_chars_def)
  then show "strip (tab @ join tab fs) = join tab (clip fs)" unfolding strip_def strip_by_def using last by simp
  show "split_on CHR 0x09 (join tab (clip fs)) = clip fs"
    unfolding tab_def using clip_fields[OF assms(1)] ne by (intro split_on_join) (auto simp: list_all_iff field_like_def)
qed

subsection \<open>Lines\<close>

lemma labels: "CHR '':'' \<notin> set ''Topic''" "CHR '':'' \<notin> set ''Partition''" "CHR '':'' \<notin> set ''Leader''"
  "CHR '':'' \<notin> set ''Replicas''" "CHR '':'' \<notin> set ''Isr''" "CHR '':'' \<notin> set ''TopicId''" "CHR '':'' \<notin> set ''PartitionCount''"
  "CHR '':'' \<notin> set ''ReplicationFactor''" "CHR '':'' \<notin> set ''Configs''"
  "word ''Topic''" "word ''Partition''" "word ''Leader''" "word ''Replicas''" "word ''Isr''" "word ''TopicId''"
  "word ''PartitionCount''" "word ''ReplicationFactor''" "word ''Configs''"
  by code_simp+

definition leader_text :: "partition_detail \<Rightarrow> string" where
  "leader_text d = (case pd_leader d of None \<Rightarrow> ''none'' | Some l \<Rightarrow> show_int l)"

lemma leader_text_plain: "word (leader_text d)" "CHR '':'' \<notin> set (leader_text d)" "leader_text d \<noteq> []"
proof -
  have "word ''none''" "CHR '':'' \<notin> set ''none''" by code_simp+
  then show "word (leader_text d)" "CHR '':'' \<notin> set (leader_text d)" "leader_text d \<noteq> []"
    by (simp_all add: leader_text_def show_int_marks show_int_nonempty split: option.split)
qed

text \<open>What \<open>int\<close> is asked to read of a partition and cannot.\<close>

definition trouble :: "partition_detail \<Rightarrow> string option" where
  "trouble d = (if pd_leader d = None then Some ''none'' else if pd_isr d = Some [] then Some [] else None)"

lemma detail_parts_cong: "map strip ps = map strip qs \<Longrightarrow> detail_parts ps d = detail_parts qs d"
proof (induction ps arbitrary: qs d)
  case (Cons p ps)
  then obtain q qs' where q: "qs = q # qs'" "strip p = strip q" "map strip ps = map strip qs'" by (cases qs) auto
  then show ?case using Cons.IH[OF q(3)] by (simp add: Let_def split: sum.split)
qed simp

lemma further_ignored: "list_all further_field es \<Longrightarrow> detail_parts es d = Inr d"
proof (induction es)
  case (Cons e es)
  then have e: "further_field e" by simp
  then have "dropWhile py_ws e = e" by (cases e) (simp_all add: further_field_def)
  then have "strip e = rstrip e" by (simp add: strip_def strip_by_def)
  then obtain w where "e = strip e @ w" using rstrip_prefix[of e] by auto
  then have "\<not> starts_with (strip e) l" if "\<not> starts_with e l" for l
    using that by (metis append.assoc starts_with_iff)
  with e Cons show ?case by (simp add: further_field_def Let_def)
qed simp

lemma isr_empty: "strip (field ''Isr'' []) = ''Isr:''" "starts_with ''Isr:'' ''Isr:''" "\<not> starts_with ''Isr:'' ''Partition:''"
  "\<not> starts_with ''Isr:'' ''Leader:''" "\<not> starts_with ''Isr:'' ''Replicas:''" "ints_text [] = []"
  by code_simp+

lemma isr_none: "ints_field ''Isr:'' = Inl (bad_int [])"
proof -
  have "second_field ''Isr:'' = []" "split_on CHR '','' [] = [[]]" "parse_int [] = None" by code_simp+
  then show ?thesis by (simp add: ints_field_def bad_int_def)
qed

lemma partition_parts:
  assumes "full_detail d" "plain_name n" "list_all further_field es"
  shows "detail_parts (clip (partition_fields n d @ es)) no_detail = (case trouble d of Some v \<Rightarrow> Inl (bad_int v) | None \<Rightarrow> Inr d)"
proof -
  obtain i rs js where d: "pd_partition d = Some i" "pd_replicas d = Some rs" "pd_isr d = Some js" "rs \<noteq> []"
    using assms(1) by (auto simp: full_detail_def)
  have n: "n \<noteq> []" "word n" using assms(2) by (simp_all add: plain_name_def)
  note s = strip_field labels ints_text_plain leader_text_plain show_int_nonempty starts_with_field int_fields
  have "detail_parts (partition_fields n d @ es) no_detail = (case trouble d of Some v \<Rightarrow> Inl (bad_int v) | None \<Rightarrow> Inr d)"
  proof (cases "pd_leader d")
    case None
    have "strip (field ''Leader'' ''none'') = field ''Leader'' ''none''" by code_simp
    with None show ?thesis by (simp add: partition_fields_def d n s leader_none trouble_def)
  next
    case (Some l)
    show ?thesis
    proof (cases "js = []")
      case True
      then show ?thesis using Some by (simp add: partition_fields_def d n s isr_empty isr_none trouble_def)
    next
      case False
      have "no_detail\<lparr>pd_partition := Some i, pd_leader := Some l, pd_replicas := Some rs, pd_isr := Some js\<rparr> = d"
        using d Some by (cases d) (simp add: no_detail_def)
      with Some False show ?thesis by (simp add: partition_fields_def d n s trouble_def further_ignored[OF assms(3)])
    qed
  qed
  then show ?thesis using detail_parts_cong[OF map_strip_clip] by simp
qed

lemma AList_update_new: "k \<notin> fst ` set d \<Longrightarrow> AList.update k v d = d @ [(k, v)]"
  by (induction d) auto

text \<open>The value of a setting ends at the first comma.\<close>

definition shown_config :: "string \<times> string \<Rightarrow> string \<times> string" where
  "shown_config = (\<lambda>(k, v). (k, takeWhile (\<lambda>c. c \<noteq> CHR '','') v))"

definition shown_topic :: "topic_info \<Rightarrow> topic_info" where
  "shown_topic t = t\<lparr>ti_configs := map_option (map shown_config) (ti_configs t)\<rparr>"

lemma split_first: "split_on c s = (case dropWhile (\<lambda>x. x \<noteq> c) s of [] \<Rightarrow> [s] | _ # r \<Rightarrow> takeWhile (\<lambda>x. x \<noteq> c) s # split_on c r)"
proof (cases "dropWhile (\<lambda>x. x \<noteq> c) s")
  case Nil
  then have "c \<notin> set s" by (auto simp: dropWhile_eq_Nil_conv)
  then show ?thesis unfolding Nil by (simp add: split_on_no)
next
  case (Cons x r)
  have "x = c" using hd_dropWhile[of "\<lambda>x. x \<noteq> c" s] Cons by auto
  have "s = takeWhile (\<lambda>x. x \<noteq> c) s @ c # r"
    using takeWhile_dropWhile_id[of "\<lambda>x. x \<noteq> c" s] unfolding Cons \<open>x = c\<close> by simp
  moreover have "c \<notin> set (takeWhile (\<lambda>x. x \<noteq> c) s)" by (auto dest: set_takeWhileD)
  ultimately show ?thesis unfolding Cons list.case using split_on_append by metis
qed

lemma split_on_sep: "split_on c (a @ c # s) = split_on c a @ split_on c s"
proof (induction a)
  case (Cons x a)
  show ?case using Cons split_on_nonempty[of c a] by (auto split: list.split)
qed simp

lemma split_join: "xs \<noteq> [] \<Longrightarrow> split_on c (join [c] xs) = concat (map (split_on c) xs)"
proof (induction xs rule: list_nonempty_induct)
  case (cons x xs)
  have "join [c] (x # xs) = x @ c # join [c] xs" using cons.hyps by (cases xs) simp_all
  then show ?case using cons by (simp add: split_on_sep)
qed simp

lemma add_config_ignored: "CHR ''='' \<notin> set p \<Longrightarrow> add_config p cs = cs"
  using find_sub_None[of "''=''" p] by (auto split: option.split)

lemma add_configs_ignored: "list_all (\<lambda>p. CHR ''='' \<notin> set p) ps \<Longrightarrow> fold add_config ps cs = cs"
  by (induction ps arbitrary: cs) (simp_all del: add_config.simps add: add_config_ignored)

lemma word_takeWhile: "word v \<Longrightarrow> word (takeWhile P v)"
  by (auto simp: word_def list_all_iff dest: set_takeWhileD)

lemma add_config_pair: "plain_config (k, v) \<Longrightarrow>
   fold add_config (split_on CHR '','' (k @ ''='' @ v)) cs = AList.update k (takeWhile (\<lambda>c. c \<noteq> CHR '','') v) cs"
proof -
  assume p: "plain_config (k, v)"
  let ?P = "\<lambda>c. c \<noteq> CHR '',''" and ?s = "k @ ''='' @ v"
  have k: "CHR '','' \<notin> set k" "word k" "word v" "CHR ''='' \<notin> set k" "CHR ''='' \<notin> set (dropWhile ?P v)" using p by (simp_all add: plain_config_def)
  have t: "takeWhile ?P ?s = k @ ''='' @ takeWhile ?P v" and r: "dropWhile ?P ?s = dropWhile ?P v"
    using k(1) by (simp_all add: takeWhile_append dropWhile_append)
  have first: "add_config (k @ ''='' @ takeWhile ?P v) cs = AList.update k (takeWhile ?P v) cs"
    using find_sub_char[of "CHR ''=''" k "takeWhile ?P v"] k(2-4) by (simp add: word_strip word_takeWhile)
  show ?thesis
  proof (cases "dropWhile ?P v")
    case Nil
    then have v: "takeWhile ?P v = v" by (simp add: dropWhile_eq_Nil_conv takeWhile_eq_all_conv)
    show ?thesis using first unfolding split_first[of _ ?s] t r Nil v by simp
  next
    case (Cons c rest)
    then have "CHR ''='' \<notin> set rest" using k(5) by simp
    then have "list_all (\<lambda>p. CHR ''='' \<notin> set p) (split_on CHR '','' rest)" using set_split_on[of "CHR '',''" rest] by (auto simp: list_all_iff)
    then show ?thesis using first unfolding split_first[of _ ?s] t r Cons
      by (simp del: add_config.simps append.simps add: add_configs_ignored)
  qed
qed

lemma add_plain_configs: "list_all plain_config kvs \<Longrightarrow> distinct (map fst kvs) \<Longrightarrow> fst ` set kvs \<inter> fst ` set cs = {} \<Longrightarrow>
    fold add_config (concat (map (\<lambda>(k, v). split_on CHR '','' (k @ ''='' @ v)) kvs)) cs = cs @ map shown_config kvs"
proof (induction kvs arbitrary: cs)
  case (Cons kv kvs)
  obtain k v where kv: "kv = (k, v)" by (cases kv)
  let ?e = "(k, takeWhile (\<lambda>c. c \<noteq> CHR '','') v)"
  have "fold add_config (concat (map (\<lambda>(k, v). split_on CHR '','' (k @ ''='' @ v)) kvs)) (cs @ [?e]) = (cs @ [?e]) @ map shown_config kvs"
    using Cons.prems kv by (intro Cons.IH) auto
  then show ?case using Cons.prems kv
    by (simp del: add_config.simps append.simps split_on.simps add: add_config_pair AList_update_new shown_config_def)
qed simp

lemma configs_read:
  assumes "plain_topic x (u, t)"
  shows "word (configs_text t)" "add_configs (configs_text t) [] = (case ti_configs t of None \<Rightarrow> [] | Some cs \<Rightarrow> map shown_config cs)"
    "configs_text t = [] \<longleftrightarrow> ti_configs t = None"
proof -
  define kvs where "kvs = (case ti_configs t of None \<Rightarrow> [] | Some cs \<Rightarrow> cs)"
  let ?f = "\<lambda>(k, v). k @ ''='' @ v"
  have kvs: "list_all plain_config kvs" "distinct (map fst kvs)"
    using assms by (auto simp: plain_topic_def kvs_def split: option.splits)
  have none: "kvs = [] \<longleftrightarrow> ti_configs t = None" using assms by (auto simp: plain_topic_def kvs_def split: option.splits)
  have t: "configs_text t = join '','' (map ?f kvs)" by (simp add: configs_text_def kvs_def)
  have "word '',''" "word ''=''" by code_simp+
  then show w: "word (configs_text t)"
    unfolding t using kvs(1) by (intro word_join) (auto simp: list_all_iff plain_config_def simp del: append.simps)
  show empty: "configs_text t = [] \<longleftrightarrow> ti_configs t = None"
    unfolding none[symmetric] t by (cases kvs rule: remdups_adj.cases) auto
  have "split_on CHR '','' (configs_text t) = concat (map (\<lambda>(k, v). split_on CHR '','' (k @ ''='' @ v)) kvs)" if "kvs \<noteq> []"
    unfolding t using split_join[of "map ?f kvs" "CHR '',''"] that by (simp add: comp_def case_prod_unfold del: append.simps)
  then have "add_configs (configs_text t) [] = map shown_config kvs"
    using add_plain_configs[OF kvs, of "[]"] empty none by (cases "kvs = []") (auto simp: add_configs_def)
  then show "add_configs (configs_text t) [] = (case ti_configs t of None \<Rightarrow> [] | Some cs \<Rightarrow> map shown_config cs)"
    by (simp add: kvs_def split: option.split)
qed

lemma tab_word: "word w \<Longrightarrow> CHR 0x09 \<notin> set w"
  by (auto simp: word_def list_all_iff py_ws_def ws_chars_def)

lemma tab_field: "word k \<Longrightarrow> word v \<Longrightarrow> CHR 0x09 \<notin> set (field k v)"
  by (simp add: field_def tab_word)

text \<open>The line of a partition without the tabulator in front.\<close>

abbreviation partition_text :: "(string \<Rightarrow> partition_detail \<Rightarrow> string list) \<Rightarrow> string \<Rightarrow> partition_detail \<Rightarrow> string" where
  "partition_text x n d \<equiv> join tab (clip (partition_fields n d @ x n d))"

lemma field_like_field: "k \<noteq> [] \<Longrightarrow> word k \<Longrightarrow> word v \<Longrightarrow> field_like (field k v)"
  using word_one_line[of k] word_one_line[of v] tab_field[of k v]
  by (cases k) (auto simp: field_like_def field_def word_def one_line_def line_end_def)

lemma further_like: "further_field e \<Longrightarrow> field_like e"
  by (simp add: further_field_def field_like_def)

lemma partition_line:
  assumes "full_detail d" "plain_name n" "list_all further_field (x n d)"
  shows "strip (tab @ join tab (partition_fields n d @ x n d)) = partition_text x n d"
    "split_on CHR 0x09 (partition_text x n d) = clip (partition_fields n d @ x n d)"
    "\<not> is_header (partition_text x n d)" "is_partition (partition_text x n d)"
    "partition_text x n d \<noteq> []" "\<not> py_ws (hd (partition_text x n d))" "one_line (partition_text x n d)"
proof -
  obtain i rs js where d: "pd_partition d = Some i" "pd_replicas d = Some rs" "pd_isr d = Some js" "rs \<noteq> []"
    using assms(1) by (auto simp: full_detail_def)
  have n: "n \<noteq> []" "word n" "CHR '':'' \<notin> set n" using assms(2) by (simp_all add: plain_name_def)
  have fields: "partition_fields n d = [field ''Topic'' n, field ''Partition'' (show_int i), field ''Leader'' (leader_text d),
      field ''Replicas'' (ints_text rs), field ''Isr'' (ints_text js)]"
    by (simp add: partition_fields_def leader_text_def d)
  note plain = labels ints_text_plain leader_text_plain show_int_marks show_int_nonempty n
  have like: "list_all field_like (partition_fields n d @ x n d)" "partition_fields n d @ x n d \<noteq> []"
    unfolding fields using assms(3) plain further_like by (simp_all add: field_like_field list_all_iff)
  note line = fields_line[OF like]
  show "strip (tab @ join tab (partition_fields n d @ x n d)) = partition_text x n d"
    "split_on CHR 0x09 (partition_text x n d) = clip (partition_fields n d @ x n d)"
    "partition_text x n d \<noteq> []" "\<not> py_ws (hd (partition_text x n d))" "one_line (partition_text x n d)"
    by (fact line)+
  have "\<not> ends_with ''Topic'' ''PartitionCount''" "\<not> ends_with ''Partition'' ''PartitionCount''" "\<not> ends_with ''Leader'' ''PartitionCount''"
    "\<not> ends_with ''Replicas'' ''PartitionCount''" "\<not> ends_with ''Isr'' ''PartitionCount''" by code_simp+
  then have none: "list_all (\<lambda>f. \<not> contains f ''PartitionCount:'') (partition_fields n d @ x n d)"
    unfolding fields using plain assms(3) by (auto simp: contains_field list_all_iff further_field_def)
  have "\<not> contains f ''PartitionCount:''" if "f \<in> set (clip (partition_fields n d @ x n d))" for f
  proof -
    from that obtain g where g: "g \<in> set (partition_fields n d @ x n d)" "f = g \<or> f = rstrip g"
      using like(2) unfolding clip_def by (auto split: if_splits dest: in_set_butlastD) (metis last_in_set like(2) set_append UnE)+
    obtain w where "g = rstrip g @ w" using rstrip_prefix by blast
    then have "contains f ''PartitionCount:'' \<Longrightarrow> contains g ''PartitionCount:''"
      using g(2) unfolding contains_iff by (metis append.assoc)
    then show ?thesis using none g(1) by (auto simp: list_all_iff)
  qed
  then show "\<not> is_header (partition_text x n d)"
    unfolding is_header_def tab_def by (auto simp: contains_join list_ex_iff simp del: join.simps)
  have "clip (partition_fields n d @ x n d) = field ''Topic'' n # field ''Partition'' (show_int i) #
      clip (field ''Leader'' (leader_text d) # field ''Replicas'' (ints_text rs) # field ''Isr'' (ints_text js) # x n d)"
    unfolding fields by (simp add: clip_Cons)
  then obtain fs where fs: "clip (partition_fields n d @ x n d) = field ''Topic'' n # field ''Partition'' (show_int i) # fs" by blast
  have "ends_with ''Partition'' ''Partition''" by code_simp
  then have "contains (partition_text x n d) ''Partition:''"
    unfolding fs tab_def using plain by (simp add: contains_join contains_field del: join.simps)
  then show "is_partition (partition_text x n d)"
    unfolding is_partition_def fs by (simp add: field_def starts_with_def)
qed

text \<open>The stripped header.\<close>

definition header_line :: "string \<Rightarrow> topic_info \<Rightarrow> string" where
  "header_line u t = strip (join tab (header_fields u t))"

lemma header_line:
  assumes "plain_topic x (u, t)"
  shows "strip (header_line u t) = header_line u t" "is_header (header_line u t)" "header_name (header_line u t) = the (ti_name t)"
    "one_line (header_line u t)" "header_line u t \<noteq> []" "\<not> py_ws (hd (header_line u t))"
    "header_parts (split_on CHR 0x09 (header_line u t)) t0 [] =
      Inr (t0\<lparr>ti_partitions := ti_partitions t, ti_rf := ti_rf t\<rparr>, case ti_configs t of None \<Rightarrow> [] | Some cs \<Rightarrow> map shown_config cs)"
proof -
  let ?n = "the (ti_name t)" and ?c = "configs_text t"
  have n: "?n \<noteq> []" "word ?n" "CHR '':'' \<notin> set ?n" "u \<noteq> []" "word u" "CHR '':'' \<notin> set u"
    using assms by (simp_all add: plain_topic_def plain_name_def)
  note plain = labels show_int_marks show_int_nonempty n
  define fs where "fs = [field ''Topic'' ?n, field ''TopicId'' u, field ''PartitionCount'' (show_int (ti_partitions t)),
    field ''ReplicationFactor'' (show_int (ti_rf t))]"
  define f where "f = ''Configs:'' @ (if ?c = [] then [] else '' '' @ ?c)"
  have c: "word ?c" by (rule configs_read(1)[OF assms])
  have trim: "rev (dropWhile py_ws (rev ('' '' @ ?c))) = (if ?c = [] then [] else '' '' @ ?c)"
  proof (cases ?c rule: rev_cases)
    case (snoc xs x)
    then have "\<not> py_ws x" using c by (simp add: word_def)
    then show ?thesis by (simp add: snoc)
  qed (simp add: py_ws_def ws_chars_def)
  have k: "join tab fs @ tab @ ''Configs'' \<noteq> []" "\<not> py_ws (hd (join tab fs @ tab @ ''Configs''))" "\<not> py_ws CHR '':''"
    by (simp_all add: fs_def field_def py_ws_def ws_chars_def)
  have "join tab (header_fields u t) = (join tab fs @ tab @ ''Configs'') @ CHR '':'' # ('' '' @ ?c)"
    by (simp add: header_fields_def fs_def field_def tab_def)
  then have "header_line u t = (join tab fs @ tab @ ''Configs'') @ CHR '':'' # (if ?c = [] then [] else '' '' @ ?c)"
    unfolding header_line_def by (simp only: strip_between[OF k] trim)
  then have e: "header_line u t = join tab (fs @ [f])" by (simp add: fs_def f_def tab_def)
  have "f = (if ?c = [] then ''Configs:'' else field ''Configs'' ?c)" by (simp add: f_def field_def)
  moreover have "CHR 0x09 \<notin> set ''Configs:''" by simp
  ultimately have tf: "CHR 0x09 \<notin> set f" using c plain by (simp add: tab_field)
  have split: "split_on CHR 0x09 (header_line u t) = fs @ [f]"
    unfolding e tab_def using tf plain by (intro split_on_join) (simp_all add: fs_def tab_field)
  show "strip (header_line u t) = header_line u t" by (simp add: header_line_def strip_idem)
  show ne: "header_line u t \<noteq> []" unfolding e by (simp add: fs_def field_def)
  show hd: "\<not> py_ws (hd (header_line u t))" unfolding e by (simp add: fs_def field_def py_ws_def ws_chars_def)
  have "contains (field ''PartitionCount'' x) ''PartitionCount:''" for x unfolding contains_iff field_def by (metis append_Nil append.assoc append_Cons)
  then have "contains (header_line u t) ''PartitionCount:''" unfolding e tab_def by (simp add: contains_join fs_def del: join.simps)
  then show "is_header (header_line u t)" unfolding is_header_def e by (simp add: fs_def field_def starts_with_def)
  show "header_name (header_line u t) = ?n" unfolding header_name_def split using plain by (simp add: fs_def after_colon_field)
  show "one_line (header_line u t)"
  proof -
    have "one_line ?c" using c by (rule word_one_line)
    then have "one_line f" by (simp add: f_def one_line_def line_end_def)
    moreover have "one_line (field k v)" if "word k" "word v" for k v
      using word_one_line[OF that(1)] word_one_line[OF that(2)] by (simp add: field_def one_line_def line_end_def)
    ultimately show ?thesis unfolding e using plain by (simp add: fs_def tab_def one_line_def line_end_def)
  qed
  have "f = (if ?c = [] then ''Configs:'' else field ''Configs'' ?c)" by (simp add: f_def field_def)
  moreover have "strip ''Configs:'' = ''Configs:''" "\<not> starts_with ''Configs:'' ''PartitionCount:''"
    "\<not> starts_with ''Configs:'' ''ReplicationFactor:''" by code_simp+
  ultimately have sf: "strip f = f" "starts_with f ''Configs:''" "\<not> starts_with f ''PartitionCount:''" "\<not> starts_with f ''ReplicationFactor:''"
    using strip_field[of "''Configs''" ?c] c plain by (auto simp: starts_with_field starts_with_def[of "''Configs:''"])
  have cf: "after_colon f = ?c"
  proof (cases "?c = []")
    case True
    have "after_colon ''Configs:'' = []" by code_simp
    then show ?thesis by (simp add: f_def True)
  next
    case False
    then have "f = field ''Configs'' ?c" by (simp add: f_def field_def)
    then show ?thesis using c plain by (simp add: after_colon_field)
  qed
  show "header_parts (split_on CHR 0x09 (header_line u t)) t0 [] =
      Inr (t0\<lparr>ti_partitions := ti_partitions t, ti_rf := ti_rf t\<rparr>, case ti_configs t of None \<Rightarrow> [] | Some cs \<Rightarrow> map shown_config cs)"
    unfolding split using plain configs_read(2)[OF assms]
    by (simp add: fs_def sf cf strip_field starts_with_field int_fields)
qed

subsection \<open>The whole output\<close>

lemma blocks_details:
  "list_all (\<lambda>d. full_detail d \<and> list_all further_field (x n d)) ds \<Longrightarrow> plain_name n \<Longrightarrow>
   topic_blocks (map (\<lambda>d. tab @ join tab (partition_fields n d @ x n d)) ds @ ls) (Some (m, bs)) =
   topic_blocks ls (Some (m, bs @ map (partition_text x n) ds))"
  by (induction ds arbitrary: bs) (simp_all add: partition_line Let_def)

definition block_of :: "(string \<Rightarrow> partition_detail \<Rightarrow> string list) \<Rightarrow> string \<times> topic_info \<Rightarrow> string \<times> string list" where
  "block_of x = (\<lambda>(u, t). (the (ti_name t), header_line u t # map (partition_text x (the (ti_name t))) (ti_details t)))"

lemma blocks_topics: "list_all (plain_topic x) ts \<Longrightarrow>
    topic_blocks (concat (map (topic_lines x) ts)) cur = (case cur of None \<Rightarrow> [] | Some b \<Rightarrow> [b]) @ map (block_of x) ts"
proof (induction ts arbitrary: cur)
  case (Cons y ts)
  obtain u t where y: "y = (u, t)" by (cases y)
  have p: "plain_topic x (u, t)" using Cons.prems y by simp
  then have d: "list_all (\<lambda>d. full_detail d \<and> list_all further_field (x (the (ti_name t)) d)) (ti_details t)" "plain_name (the (ti_name t))"
    by (simp_all add: plain_topic_def)
  have lines: "topic_lines x y = join tab (header_fields u t) #
        map (\<lambda>d. tab @ join tab (partition_fields (the (ti_name t)) d @ x (the (ti_name t)) d)) (ti_details t)"
    and block: "block_of x y = (the (ti_name t), header_line u t # map (partition_text x (the (ti_name t))) (ti_details t))"
    by (simp_all add: y topic_lines_def block_of_def)
  have "strip (join tab (header_fields u t)) = header_line u t" by (simp add: header_line_def)
  then show ?case
    using Cons.prems header_line[OF p] blocks_details[where x = x and n = "the (ti_name t)", OF d]
    by (simp add: lines block Cons.IH Let_def split: option.split)
qed simp

lemma topic_blocks_cong: "map strip ls = map strip ls' \<Longrightarrow> topic_blocks ls cur = topic_blocks ls' cur"
proof (induction ls arbitrary: ls' cur)
  case (Cons l ls)
  then obtain l' ls'' where l: "ls' = l' # ls''" "strip l = strip l'" "map strip ls = map strip ls''" by (cases ls') auto
  then show ?case using Cons.IH[OF l(3)] by (simp add: Let_def)
qed simp

lemma describe_details: "list_all (\<lambda>d. full_detail d \<and> list_all further_field (x n d)) ds \<Longrightarrow> plain_name n \<Longrightarrow>
    describe_lines (map (partition_text x n) ds) t cs =
    (case List.find (\<lambda>d. trouble d \<noteq> None) ds of
       None \<Rightarrow> Inr (t\<lparr>ti_details := ti_details t @ ds, ti_configs := (if cs = [] then None else Some cs)\<rparr>)
     | Some d \<Rightarrow> Inl (bad_int (the (trouble d))))"
proof (induction ds arbitrary: t)
  case (Cons d ds)
  have p: "full_detail d" "plain_name n" "list_all further_field (x n d)" using Cons.prems by simp_all
  have "strip (partition_text x n d) = partition_text x n d"
    using partition_line(1)[of d n x, OF p] strip_idem[of "tab @ join tab (partition_fields n d @ x n d)"] by simp
  moreover have "d \<noteq> no_detail" using p by (auto simp: full_detail_def no_detail_def)
  ultimately show ?case using Cons p by (simp add: partition_line partition_parts Let_def split: option.split)
qed simp

lemma hd_join: "ls \<noteq> [] \<Longrightarrow> hd ls \<noteq> [] \<Longrightarrow> hd (join sep ls) = hd (hd ls)"
  by (induction sep ls rule: join.induct) auto

lemma last_join: "ls \<noteq> [] \<Longrightarrow> last ls \<noteq> [] \<Longrightarrow> join sep ls \<noteq> [] \<and> last (join sep ls) = last (last ls)"
  by (cases "butlast ls = []"; cases ls rule: rev_cases) (auto simp: join_last)

lemma strip_join: "ls \<noteq> [] \<Longrightarrow> hd ls \<noteq> [] \<Longrightarrow> last ls \<noteq> [] \<Longrightarrow> \<not> py_ws (hd (hd ls)) \<Longrightarrow> \<not> py_ws (last (last ls)) \<Longrightarrow>
    strip (join sep ls) = join sep ls"
  using last_join[of ls sep] hd_join[of ls sep] by (intro strip_id) simp_all

lemma strip_nl: "s \<noteq> [] \<Longrightarrow> \<not> py_ws (hd s) \<Longrightarrow> strip (s @ nl) = strip s"
proof -
  assume s: "s \<noteq> []" "\<not> py_ws (hd s)"
  then have "dropWhile py_ws (s @ nl) = s @ nl" "dropWhile py_ws s = s" by (cases s; simp)+
  moreover have "py_ws CHR 0x0A" by (simp add: py_ws_def ws_chars_def)
  ultimately show ?thesis by (simp add: strip_def strip_by_def)
qed

lemma last_strip: "strip s = s \<Longrightarrow> s \<noteq> [] \<Longrightarrow> \<not> py_ws (last s)"
  unfolding strip_def strip_by_def
  by (metis hd_dropWhile hd_rev rev_is_Nil_conv rev_rev_ident dropWhile.simps(1))

lemma last_partition: "full_detail d \<Longrightarrow> plain_name n \<Longrightarrow> list_all further_field (x n d) \<Longrightarrow> \<not> py_ws (last (partition_text x n d))"
  using partition_line(1,5)[of d n x] strip_idem[of "tab @ join tab (partition_fields n d @ x n d)"]
  by (intro last_strip) simp_all

lemma describe_read:
  assumes p: "plain_topic x (u, t)"
  shows "parse_topic_describe (the (ti_name t)) (join nl (snd (block_of x (u, t)))) =
    (case List.find (\<lambda>d. trouble d \<noteq> None) (ti_details t) of None \<Rightarrow> Inr (shown_topic t) | Some d \<Rightarrow> Inl (bad_int (the (trouble d))))"
proof -
  let ?n = "the (ti_name t)" and ?ls = "header_line u t # map (partition_text x (the (ti_name t))) (ti_details t)"
  have d: "list_all (\<lambda>d. full_detail d \<and> list_all further_field (x ?n d)) (ti_details t)" "plain_name ?n" "ti_details t \<noteq> []" "ti_name t = Some ?n"
    using p by (auto simp: plain_topic_def)
  have cs: "(case ti_configs t of None \<Rightarrow> [] | Some cs \<Rightarrow> map shown_config cs) = [] \<longleftrightarrow> ti_configs t = None"
    using p by (auto simp: plain_topic_def split: option.splits)
  have lines: "list_all one_line ?ls" using header_line(4)[OF p] d partition_line(7) by (auto simp: list_all_iff)
  have "last (ti_details t) \<in> set (ti_details t)" using d(3) by simp
  then have l: "full_detail (last (ti_details t))" "list_all further_field (x ?n (last (ti_details t)))" using d(1) by (simp_all add: list_all_iff)
  have last: "last ?ls \<noteq> []" using d(3) partition_line(5)[of _ ?n x, OF l(1) d(2) l(2)] by (simp add: last_map)
  have "strip (join nl ?ls) = join nl ?ls"
    using header_line(5,6)[OF p] last d last_partition[of _ ?n x, OF l(1) d(2) l(2)] by (intro strip_join) (simp_all add: last_map)
  then have "splitlines (strip (join nl ?ls)) = ?ls" using splitlines_join_last[OF _ lines last] by simp
  then show ?thesis
    unfolding parse_topic_describe_def block_of_def
    using header_line(1,2)[OF p] header_line(7)[OF p] d
    by (simp add: Let_def describe_details cs shown_topic_def del: join.simps split: option.split)
qed

lemma blocks_read: "list_all (plain_topic x) ts \<Longrightarrow> parse_blocks (map (block_of x) ts) =
    (case List.find (\<lambda>d. trouble d \<noteq> None) (concat (map (\<lambda>(u, t). ti_details t) ts)) of
       None \<Rightarrow> Inr (map (\<lambda>(u, t). shown_topic t) ts) | Some d \<Rightarrow> Inl (bad_int (the (trouble d))))"
proof (induction ts)
  case (Cons y ts)
  obtain u t where y: "y = (u, t)" by (cases y)
  have "block_of x y = (the (ti_name t), snd (block_of x (u, t)))" by (simp add: block_of_def y)
  then have "parse_blocks (map (block_of x) (y # ts)) =
      (case parse_topic_describe (the (ti_name t)) (join nl (snd (block_of x (u, t)))) of Inl e \<Rightarrow> Inl e
        | Inr t \<Rightarrow> map_sum id (Cons t) (parse_blocks (map (block_of x) ts)))"
    using parse_blocks.simps(2)[of "the (ti_name t)" "snd (block_of x (u, t))" "map (block_of x) ts"] by simp
  then show ?case using Cons describe_read[of x u t] by (simp add: y find_append split: option.split)
qed simp

lemma topic_lines_one_line: "plain_topic x y \<Longrightarrow> list_all one_line (topic_lines x y)"
proof -
  assume p: "plain_topic x y"
  obtain u t where y: "y = (u, t)" by (cases y)
  have d: "list_all (\<lambda>d. full_detail d \<and> list_all further_field (x (the (ti_name t)) d)) (ti_details t)" "plain_name (the (ti_name t))" "plain_name u"
    using p y by (simp_all add: plain_topic_def)
  have word: "one_line (field k v)" if "word k" "word v" for k v
    using word_one_line[OF that(1)] word_one_line[OF that(2)] by (simp add: field_def one_line_def line_end_def)
  then have "one_line (join tab (header_fields u t))"
    using labels configs_read(1)[of x u t] p y d by (simp add: header_fields_def tab_def plain_name_def one_line_def line_end_def)
  moreover have "one_line (tab @ join tab fs)" if "list_all one_line fs" for fs
    using that by (induction tab fs rule: join.induct) (auto simp: tab_def one_line_def line_end_def)
  moreover have "list_all one_line (partition_fields (the (ti_name t)) e @ x (the (ti_name t)) e)" if "e \<in> set (ti_details t)" for e
    using d that labels ints_text_plain leader_text_plain word
    by (auto simp: partition_fields_def leader_text_def[symmetric] plain_name_def list_all_iff further_field_def)
  ultimately show ?thesis by (auto simp: topic_lines_def y list_all_iff)
qed

lemma described_lines:
  assumes p: "list_all (plain_topic x) ts" and ne: "ts \<noteq> []"
  shows "splitlines (described_text x ts) = concat (map (topic_lines x) ts)" "strip (described_text x ts) \<noteq> []"
    "splitlines (strip (described_text x ts)) = clip (concat (map (topic_lines x) ts))"
proof -
  let ?ls = "concat (map (topic_lines x) ts)"
  obtain u t ts' where ts: "ts = (u, t) # ts'" using ne by (cases ts) auto
  obtain v r ts'' where ts2: "ts = ts'' @ [(v, r)]" using ne by (cases ts rule: rev_cases) auto
  let ?n = "the (ti_name r)" and ?d = "last (ti_details r)"
  have pr: "plain_topic x (v, r)" using p ts2 by simp
  then have dr: "ti_details r \<noteq> []" by (simp add: plain_topic_def)
  have lines: "list_all one_line ?ls" using p topic_lines_one_line by (auto simp: list_all_iff)
  have hd: "hd ?ls = join tab (header_fields u t)" "?ls \<noteq> []" by (simp_all add: ts topic_lines_def)
  have h: "hd ?ls \<noteq> []" "\<not> py_ws (hd (hd ?ls))"
    unfolding hd by (simp_all add: header_fields_def field_def py_ws_def ws_chars_def)
  have "topic_lines x (v, r) \<noteq> []" by (simp add: topic_lines_def)
  then have last: "last ?ls = tab @ join tab (partition_fields ?n ?d @ x ?n ?d)"
    using dr by (simp add: ts2 topic_lines_def last_map)
  have T: "CHR ''T'' \<in> set (last ?ls)" "\<not> py_ws CHR ''T''"
    unfolding last by (simp_all add: partition_fields_def field_def py_ws_def ws_chars_def)
  show "splitlines (described_text x ts) = ?ls" unfolding described_text_def by (rule splitlines_join[OF hd(2) lines])
  have "dropWhile py_ws (join nl ?ls @ nl) = join nl ?ls @ nl"
  proof -
    have "last ?ls \<noteq> []" using T(1) by auto
    then have "join nl ?ls \<noteq> []" using last_join[OF hd(2)] by blast
    moreover from this have "\<not> py_ws (hd (join nl ?ls))" using hd_join[OF hd(2) h(1), of nl] h by simp
    ultimately show ?thesis by (cases "join nl ?ls") simp_all
  qed
  then have "strip (described_text x ts) = rstrip (join nl ?ls)"
    unfolding described_text_def strip_def strip_by_def by (simp add: py_ws_def ws_chars_def)
  then have e: "strip (described_text x ts) = join nl (clip ?ls)" using rstrip_join[OF hd(2) T] by simp
  have c: "clip ?ls \<noteq> []" "last (clip ?ls) = rstrip (last ?ls)"
    unfolding clip_def if_not_P[OF hd(2)] by simp_all
  have "last (clip ?ls) \<noteq> []" unfolding c(2) using T by (auto simp: dropWhile_eq_Nil_conv)
  moreover have "list_all one_line (clip ?ls)"
    by (rule clip_one_line[OF lines])
  ultimately show "splitlines (strip (described_text x ts)) = clip ?ls" "strip (described_text x ts) \<noteq> []"
    unfolding e using c(1) last_join[OF c(1), of nl] by (auto intro: splitlines_join_last)
qed

text \<open>
  Claim C27.  The description of all topics is read back for any number of topics with plain names and configurations, and whatever further
  fields the lines of the partitions have, whether it arrives stripped, as over SSH, or not: every topic with its counts, its partitions
  and its configuration, in which a value ends at its first comma.  But if one partition of one topic has no leader, or no replica in sync, then
  the whole listing raises \<open>ValueError\<close>, for the first such partition.
\<close>

theorem topics_described:
  assumes "list_all (plain_topic x) ts"
  shows "let cut = (\<lambda>t. t\<lparr>ti_configs := map_option (map (\<lambda>(k, v). (k, takeWhile (\<lambda>c. c \<noteq> CHR '','') v))) (ti_configs t)\<rparr>);
      read = (case List.find (\<lambda>d. pd_leader d = None \<or> pd_isr d = Some []) (concat (map (ti_details \<circ> snd) ts)) of
           None \<Rightarrow> Inr (map (cut \<circ> snd) ts)
         | Some d \<Rightarrow> Inl (ValueError (''invalid literal for int() with base 10: '' @ sq @ (if pd_leader d = None then ''none'' else []) @ sq))) in
    parse_all_topics_describe (described_text x ts) = read \<and> parse_all_topics_describe (strip (described_text x ts)) = read"
proof (cases "ts = []")
  case True
  have "strip (described_text x []) = []" "strip [] = []" by (simp add: described_text_def, code_simp) code_simp
  then show ?thesis by (simp add: True parse_all_topics_describe_def strip_idem)
next
  case False
  note lines = described_lines[OF assms False]
  have blocks: "parse_blocks (topic_blocks (concat (map (topic_lines x) ts)) None) = parse_blocks (map (block_of x) ts)"
    by (simp add: blocks_topics[OF assms])
  then have "parse_blocks (topic_blocks (clip (concat (map (topic_lines x) ts))) None) = parse_blocks (map (block_of x) ts)"
    using topic_blocks_cong[OF map_strip_clip] by metis
  then have all: "parse_all_topics_describe (described_text x ts) = parse_blocks (map (block_of x) ts)"
    "parse_all_topics_describe (strip (described_text x ts)) = parse_blocks (map (block_of x) ts)"
    using lines blocks by (simp_all add: parse_all_topics_describe_def strip_idem)
  have P: "(\<lambda>d. trouble d \<noteq> None) = (\<lambda>d. pd_leader d = None \<or> pd_isr d = Some [])" by (auto simp: trouble_def fun_eq_iff)
  have ds: "concat (map (\<lambda>(u, t). ti_details t) ts) = concat (map (ti_details \<circ> snd) ts)"
    by (simp add: case_prod_unfold comp_def)
  note read = blocks_read[OF assms, unfolded P ds]
  show ?thesis
  proof (cases "List.find (\<lambda>d. pd_leader d = None \<or> pd_isr d = Some []) (concat (map (ti_details \<circ> snd) ts))")
    case None
    have "map (\<lambda>(u, t). shown_topic t) ts = map (shown_topic \<circ> snd) ts" by (simp add: case_prod_unfold comp_def)
    then show ?thesis unfolding all read Let_def None by (simp add: shown_topic_def[abs_def] shown_config_def[abs_def] comp_def)
  next
    case (Some d)
    then have "pd_leader d = None \<or> pd_isr d = Some []" by (auto simp: find_Some_iff)
    then have "the (trouble d) = (if pd_leader d = None then ''none'' else [])" by (auto simp: trouble_def)
    then show ?thesis unfolding all read Let_def Some by (simp add: bad_int_def)
  qed
qed

definition sample_topic :: "int option \<Rightarrow> string \<times> topic_info" where
  "sample_topic leader = (''abc123'', \<lparr>ti_name = Some ''orders'', ti_partitions = 2, ti_rf = 2,
     ti_configs = Some [(''cleanup.policy'', ''compact,delete''), (''retention.ms'', ''1000'')],
     ti_details = [\<lparr>pd_partition = Some 0, pd_leader = Some 1, pd_replicas = Some [1, 2], pd_isr = Some [1, 2]\<rparr>,
                   \<lparr>pd_partition = Some 1, pd_leader = leader, pd_replicas = Some [2, 1], pd_isr = Some [2]\<rparr>]\<rparr>)"

definition elr_fields :: "string \<Rightarrow> partition_detail \<Rightarrow> string list" where
  "elr_fields n d = [''Elr: '', ''LastKnownElr: '']"

theorem topics_described_witness:
  "parse_all_topics_describe (described_text elr_fields [sample_topic (Some 2)]) =
     Inr [(snd (sample_topic (Some 2)))\<lparr>ti_configs := Some [(''cleanup.policy'', ''compact''), (''retention.ms'', ''1000'')]\<rparr>] \<and>
   parse_all_topics_describe (described_text elr_fields [sample_topic None]) =
     Inl (ValueError (''invalid literal for int() with base 10: '' @ sq @ ''none'' @ sq))"
proof -
  have p: "list_all (plain_topic elr_fields) [sample_topic (Some 2)]" "list_all (plain_topic elr_fields) [sample_topic None]" by code_simp+
  show ?thesis using topics_described[OF p(1)] topics_described[OF p(2)] by (simp add: sample_topic_def Let_def)
qed


section \<open>Consumer groups\<close>

lemma starts_with_set: "starts_with s p \<Longrightarrow> set p \<subseteq> set s"
  by (auto simp: starts_with_iff)

lemma contains_set: "contains s p \<Longrightarrow> set p \<subseteq> set s"
  by (auto simp: contains_iff)

lemma prefix_pat_set: "prefix_pat ps s \<Longrightarrow> Some c \<in> set ps \<Longrightarrow> c \<in> set s"
  by (induction ps s rule: prefix_pat.induct) auto

lemma lower_char_space: "lower_char c = CHR '' '' \<Longrightarrow> c = CHR '' ''"
proof (rule ccontr)
  assume l: "lower_char c = CHR '' ''" and c: "c \<noteq> CHR '' ''"
  let ?n = "of_char c :: int"
  have n: "65 \<le> ?n \<and> ?n \<le> 90" using l c by (auto simp: lower_char_def Let_def split: if_splits)
  then have "char_of (?n + 32) = CHR '' ''" using l by (simp add: lower_char_def Let_def)
  then have "(of_char (char_of (?n + 32) :: char) :: int) = 32" by simp
  then show False using n by simp
qed

lemma no_group_chars: "\<not> group_char CHR '' ''" "\<not> group_char CHR ''[''" "\<not> group_char CHR ''(''" "\<not> group_char CHR '':''"
  by code_simp+

text \<open>
  The ids that are taken from the output of \<open>kafka-consumer-groups.sh --list\<close> are, in order, exactly the lines
  of letters, digits, dots, underscores and hyphens of at most 256 characters that do not start like a log line or
  a console consumer and do not mention log4j: the tests for brackets, blanks, \<open>Error:\<close>, deprecations and time
  stamps are implied.
\<close>

theorem group_ids_exact:
  "group_ids stdout = filter (\<lambda>g. g \<noteq> [] \<and> list_all group_char g \<and> length g \<le> 256
       \<and> \<not> list_ex (starts_with g) [''WARN'', ''INFO'', ''ERROR'', ''console-consumer-'']
       \<and> \<not> starts_with (lower g) ''exception'' \<and> \<not> contains (lower g) ''log4j'') (map strip (splitlines stdout))"
proof -
  have "keep_group g \<longleftrightarrow> g \<noteq> [] \<and> list_all group_char g \<and> length g \<le> 256
       \<and> \<not> list_ex (starts_with g) [''WARN'', ''INFO'', ''ERROR'', ''console-consumer-'']
       \<and> \<not> starts_with (lower g) ''exception'' \<and> \<not> contains (lower g) ''log4j''" for g
  proof (cases "list_all group_char g")
    case False
    then show ?thesis by (auto simp: keep_group_def Let_def)
  next
    case True
    then have no: "CHR '' '' \<notin> set g" "CHR ''['' \<notin> set g" "CHR ''('' \<notin> set g" "CHR '':'' \<notin> set g"
      using no_group_chars by (auto simp: list_all_iff)
    then have "CHR '' '' \<notin> set (lower g)" by (auto simp: lower_def dest: lower_char_space[OF sym])
    then have "\<not> starts_with g ''[''" "\<not> starts_with g ''Error:''" "\<not> starts_with g ''(''" "\<not> contains g '' ''"
      "\<not> contains (lower g) '' is deprecated ''"
      using no starts_with_set[of g] contains_set[of g] contains_set[of "lower g"] by fastforce+
    moreover have "Some CHR '':'' \<in> set (digits_as ''9999-99-99T99:99:99'')" by code_simp
    then have "\<not> iso_time g" unfolding iso_time_def using prefix_pat_set no(4) by blast
    ultimately show ?thesis using True by (auto simp: keep_group_def Let_def not_less)
  qed
  then show ?thesis unfolding group_ids_def by (intro filter_cong refl)
qed

section \<open>The distribution of partitions\<close>

lemma get_tally: "get_or_0 (tally k d) b = get_or_0 d b + (if b = k then 1 else 0)"
  by (simp add: tally_def get_or_0_def update_conv')

lemma keys_tally: "fst ` set (tally k d) = insert k (fst ` set d)"
  by (simp add: tally_def dom_map_of_conv_image_fst[symmetric] update_conv')

lemma fold_tally: "get_or_0 (fold tally ks d) b = get_or_0 d b + int (count_list ks b)"
  "fst ` set (fold tally ks d) = fst ` set d \<union> set ks"
  by (induction ks arbitrary: d) (auto simp: get_tally keys_tally)

lemma leaders_fold:
  "get_or_0 (tl_leaders (fold count_row rows t)) b =
     get_or_0 (tl_leaders t) b + int (length (filter (\<lambda>r. 0 \<le> pr_leader r \<and> pr_leader r = b) rows))"
  "fst ` set (tl_leaders (fold count_row rows t)) = fst ` set (tl_leaders t) \<union> {l \<in> pr_leader ` set rows. 0 \<le> l}"
  by (induction rows arbitrary: t) (auto simp: count_row_def get_tally keys_tally)

lemma replicas_fold:
  "get_or_0 (tl_replicas (fold count_row rows t)) b =
     get_or_0 (tl_replicas t) b + int (count_list (concat (map pr_replicas rows)) b)"
  "fst ` set (tl_replicas (fold count_row rows t)) = fst ` set (tl_replicas t) \<union> set (concat (map pr_replicas rows))"
  by (induction rows arbitrary: t) (auto simp: count_row_def fold_tally)

lemma topics_fold:
  "map_of (tl_topics (fold count_row rows t)) n =
     (case (map_of (tl_topics t) n, filter (\<lambda>r. pr_topic r = n) rows) of
        (None, []) \<Rightarrow> None | (None, rs) \<Rightarrow> Some rs | (Some xs, rs) \<Rightarrow> Some (xs @ rs))"
  by (induction rows arbitrary: t) (auto simp: count_row_def update_conv' split: option.splits list.splits)

lemma topics_distinct: "distinct (map fst (tl_topics t)) \<Longrightarrow> distinct (map fst (tl_topics (fold count_row rows t)))"
  by (induction rows arbitrary: t) (auto simp: count_row_def distinct_update)

text \<open>
  The distribution shows, in ascending order, exactly the brokers that lead or hold a partition, each with the number
  of the partitions it leads and of the replicas it holds, and every topic with its partitions in the order of
  the output.
\<close>

theorem distribution_exact:
  "ds_brokers (distribution_of rows) =
     map (\<lambda>b. \<lparr>bc_broker = b, bc_leaders = int (length (filter (\<lambda>r. 0 \<le> pr_leader r \<and> pr_leader r = b) rows)),
                bc_replicas = int (count_list (concat (map pr_replicas rows)) b)\<rparr>)
       (sorted_list_of_set ({l \<in> pr_leader ` set rows. 0 \<le> l} \<union> set (concat (map pr_replicas rows)))) \<and>
   map_of (ds_topics (distribution_of rows)) n =
     (let rs = filter (\<lambda>r. pr_topic r = n) rows in if rs = [] then None else Some rs) \<and>
   sorted (map fst (ds_topics (distribution_of rows)))"
proof -
  let ?start = "\<lparr>tl_leaders = [], tl_replicas = [], tl_topics = []\<rparr>"
  let ?t = "fold count_row rows ?start"
  have d: "distinct (map fst (tl_topics ?t))" using topics_distinct[of ?start rows] by simp
  then have "map_of (sort_key fst (tl_topics ?t)) = map_of (tl_topics ?t)"
    by (intro map_of_inject_set[THEN iffD2]) (auto simp: distinct_map)
  then show ?thesis
    using leaders_fold[of rows ?start] replicas_fold[of rows ?start] topics_fold[of rows ?start n]
    by (simp add: distribution_of_def Let_def get_or_0_def image_image split: list.split)
qed

section \<open>Consumed records\<close>

text \<open>
  A printed record with any headers and key and any value gives the time stamp, partition, offset and headers it was
  printed with, no key if the key is empty or the text \<open>null\<close>, and of the value the part before its first
  tabulator.
\<close>

theorem record_read:
  assumes "CHR 0x09 \<notin> set h" and "CHR 0x09 \<notin> set k"
  shows "parse_consumer_line (join tab [''CreateTime:'' @ show_int t, ''Partition:'' @ show_int p, ''Offset:'' @ show_int i, h, k, v]) =
    Some \<lparr>ms_timestamp = JInt t, ms_partition = Some p, ms_offset = Some i,
          ms_key = (if k = [] \<or> k = ''null'' then None else Some k), ms_value = Some (takeWhile (\<lambda>c. c \<noteq> CHR 0x09) v),
          ms_headers = (if h = [] \<or> h = ''NO_HEADERS'' then None else Some h)\<rparr>"
proof -
  have num: "CHR 0x09 \<notin> set (show_int n)" for n by (rule tab_word) simp
  have labels: "CHR 0x09 \<notin> set ''CreateTime:''" "CHR 0x09 \<notin> set ''Partition:''" "CHR 0x09 \<notin> set ''Offset:''" by code_simp+
  have "\<exists>ws. split_on CHR 0x09 v = takeWhile (\<lambda>c. c \<noteq> CHR 0x09) v # ws" for v
    by (induction v) (auto split: list.splits)
  then obtain ws where ws: "split_on CHR 0x09 v = takeWhile (\<lambda>c. c \<noteq> CHR 0x09) v # ws" by blast
  have split: "split_on CHR 0x09 (join tab [''CreateTime:'' @ show_int t, ''Partition:'' @ show_int p, ''Offset:'' @ show_int i, h, k, v]) =
      [''CreateTime:'' @ show_int t, ''Partition:'' @ show_int p, ''Offset:'' @ show_int i, h, k, takeWhile (\<lambda>c. c \<noteq> CHR 0x09) v] @ ws"
    using assms num labels by (simp add: tab_def split_on_append[OF _] ws del: append.simps) (simp add: split_on_append num ws)
  have colon: "contains (l @ '':'' @ show_int n) '':''" "after_colon (l @ '':'' @ show_int n) = show_int n" if "CHR '':'' \<notin> set l" for l n
    using find_sub_char[OF that, of "show_int n"] by (simp_all add: contains_def after_colon_def word_strip)
  have c: "contains (''CreateTime:'' @ show_int n) '':''" "after_colon (''CreateTime:'' @ show_int n) = show_int n"
    "contains (''Partition:'' @ show_int n) '':''" "after_colon (''Partition:'' @ show_int n) = show_int n"
    "contains (''Offset:'' @ show_int n) '':''" "after_colon (''Offset:'' @ show_int n) = show_int n" for n
    using colon[of "''CreateTime''" n] colon[of "''Partition''" n] colon[of "''Offset''" n] by simp_all
  show ?thesis unfolding parse_consumer_line_def split
    by (simp add: colon_int_def text_unless_def c[simplified])
qed

theorem record_read_witness:
  "parse_consumer_line (join tab [''CreateTime:'' @ show_int 7, ''Partition:'' @ show_int 0, ''Offset:'' @ show_int 3, ''NO_HEADERS'', ''k'',
      ''a'' @ tab @ ''b'']) =
    Some \<lparr>ms_timestamp = JInt 7, ms_partition = Some 0, ms_offset = Some 3, ms_key = Some ''k'', ms_value = Some ''a'', ms_headers = None\<rparr>"
  using record_read[of "''NO_HEADERS''" "''k''" 7 0 3 "''a'' @ tab @ ''b''"] by (simp add: tab_def)

section \<open>Access control lists\<close>

lemma search_Some: "search f s = Some x \<Longrightarrow> \<exists>a b. s = a @ b \<and> f b = Some x"
proof (induction s)
  case (Cons c s)
  show ?case
  proof (cases "f (c # s)")
    case None
    with Cons obtain a b where "s = a @ b" "f b = Some x" by auto
    then have "c # s = (c # a) @ b" by simp
    then show ?thesis using \<open>f b = Some x\<close> by blast
  next
    case (Some y)
    then have "f (c # s) = Some x" "c # s = [] @ (c # s)" using Cons.prems by simp_all
    then show ?thesis by blast
  qed
qed simp

lemma search_here: "f s = Some x \<Longrightarrow> search f s = Some x"
  by (cases s) simp_all

lemma search_skip: "(\<And>c s. c \<in> set a \<Longrightarrow> f (c # s) = None) \<Longrightarrow> search f (a @ s) = search f s"
  by (induction a) simp_all

lemma lit_append: "lit p (p @ s) = Some s"
  by (simp add: lit_def)

lemma lit_SomeD: "lit p s = Some r \<Longrightarrow> s = p @ r"
  by (auto simp: lit_def starts_with_iff split: if_splits)

lemma run_upto: "w \<noteq> [] \<Longrightarrow> list_all P w \<Longrightarrow> \<not> P c \<Longrightarrow> run_of P (w @ c # r) = Some (w, c # r)"
  by (simp add: run_of_def takeWhile_append2 dropWhile_append2 list_all_iff)

lemma comma_lit_next: "p \<noteq> [] \<Longrightarrow> \<not> py_ws (hd p) \<Longrightarrow> comma_lit p (CHR '','' # CHR '' '' # p @ r) = Some r"
proof -
  assume "p \<noteq> []" "\<not> py_ws (hd p)"
  then have "skip_space (CHR '' '' # p @ r) = p @ r" by (cases p) (simp_all add: skip_space_def py_ws_def ws_chars_def)
  moreover have "lit '','' (CHR '','' # CHR '' '' # p @ r) = Some (CHR '' '' # p @ r)" by (simp add: lit_def starts_with_def)
  ultimately show ?thesis by (simp add: comma_lit_def lit_append)
qed

text \<open>The output of \<open>kafka-acls.sh --list\<close>: resources with the entries of each.\<close>

type_synonym listed_acl = "string \<times> string \<times> string \<times> string"
type_synonym listed_resource = "(string \<times> string \<times> string) \<times> listed_acl list"

definition acl_text :: "listed_acl \<Rightarrow> string" where
  "acl_text = (\<lambda>(p, h, o', t). ''(principal='' @ p @ '', host='' @ h @ '', operation='' @ o' @ '', permissionType='' @ t @ '')'')"

definition resource_text :: "string \<times> string \<times> string \<Rightarrow> string" where
  "resource_text = (\<lambda>(t, n, p). ''Current ACLs for resource `ResourcePattern(resourceType='' @ t @ '', name='' @ n @ '', patternType='' @ p @ '')`:'')"

definition acls_text :: "listed_resource list \<Rightarrow> string" where
  "acls_text rs = join nl (concat (map (\<lambda>(r, as). resource_text r # map (\<lambda>a. tab @ acl_text a) as) rs))"

definition acl_value :: "string \<Rightarrow> bool" where
  "acl_value s \<longleftrightarrow> s \<noteq> [] \<and> strip s = s \<and> one_line s \<and> CHR ''('' \<notin> set s"

definition acl_word :: "string \<Rightarrow> bool" where
  "acl_word s \<longleftrightarrow> s \<noteq> [] \<and> list_all word_char s"

abbreviation comma_free :: "string \<Rightarrow> bool" where
  "comma_free s \<equiv> CHR '','' \<notin> set s"

definition plain_acl :: "listed_acl \<Rightarrow> bool" where
  "plain_acl = (\<lambda>(p, h, o', t). acl_value p \<and> \<not> contains p ''host='' \<and> acl_value h \<and> comma_free h \<and> acl_value o' \<and> comma_free o' \<and> acl_word t)"

definition plain_resource :: "listed_resource \<Rightarrow> bool" where
  "plain_resource = (\<lambda>((t, n, p), as). acl_word t \<and> acl_value n \<and> comma_free n \<and> acl_word p \<and> list_all plain_acl as)"

definition entry_of :: "string \<times> string \<times> string \<Rightarrow> listed_acl \<Rightarrow> acl_entry" where
  "entry_of = (\<lambda>(rt, n, pt) (p, h, o', t). \<lparr>ac_principal = p, ac_host = h, ac_operation = o', ac_permission_type = capitalize t,
     ac_resource_type = lower rt, ac_resource_name = n, ac_pattern_type = lower pt\<rparr>)"

lemma word_char_facts: "word_char c \<Longrightarrow> \<not> py_ws c" "\<not> word_char CHR '',''" "\<not> word_char CHR '')''" "\<not> word_char CHR ''(''"
proof -
  have "list_all (\<lambda>c. \<not> py_ws c) ''abcdefghijklmnopqrstuvwxyzABCDEFGHIJKLMNOPQRSTUVWXYZ0123456789_''" by code_simp
  then show "word_char c \<Longrightarrow> \<not> py_ws c" by (auto simp: word_char_def list_all_iff)
  show "\<not> word_char CHR '',''" "\<not> word_char CHR '')''" "\<not> word_char CHR ''(''" by code_simp+
qed

lemma acl_word_strip: "acl_word s \<Longrightarrow> strip s = s \<and> word s \<and> comma_free s \<and> CHR ''('' \<notin> set s"
  using word_char_facts by (auto simp: acl_word_def word_def list_all_iff intro: word_strip)

lemma run_no_comma: "w \<noteq> [] \<Longrightarrow> comma_free w \<Longrightarrow> run_of no_comma (w @ CHR '','' # r) = Some (w, CHR '','' # r)"
  by (rule run_upto) (auto simp: no_comma_def list_all_iff)

lemma last_word_close: "acl_word w \<Longrightarrow> last_word (w @ CHR '')'' # r) = Some w"
  using run_upto[of w word_char "CHR '')''" r] word_char_facts by (simp add: last_word_def acl_word_def lit_def starts_with_def)

lemma resource_at_text:
  assumes "acl_word t" "n \<noteq> []" "strip n = n" "comma_free n" "acl_word p"
  shows "resource_at (''ResourcePattern(resourceType='' @ t @ '', name='' @ n @ '', patternType='' @ p @ '')`:'') = Some (lower t, n, lower p)"
proof -
  have t: "run_of word_char (t @ CHR '','' # r) = Some (t, CHR '','' # r)" for r
    using run_upto[of t word_char "CHR '',''" r] assms(1) word_char_facts by (simp add: acl_word_def)
  have c1: "comma_lit ''name='' (CHR '','' # CHR '' '' # ''name='' @ r) = Some r"
    and c2: "comma_lit ''patternType='' (CHR '','' # CHR '' '' # ''patternType='' @ r) = Some r" for r
    by (rule comma_lit_next; simp add: py_ws_def ws_chars_def)+
  have l: "lit ''ResourcePattern(resourceType='' (''ResourcePattern(resourceType='' @ r) = Some r" for r by (rule lit_append)
  show ?thesis
    unfolding resource_at_def l Option.bind.simps
    using t[of "'' name='' @ n @ '', patternType='' @ p @ '')`:''"] c1[of "n @ '', patternType='' @ p @ '')`:''"]
      run_no_comma[OF assms(2,4), of "'' patternType='' @ p @ '')`:''"] c2[of "p @ '')`:''"] last_word_close[OF assms(5), of "''`:''"] assms(3)
    by simp
qed

lemma acl_at_text:
  assumes "comma_free p" "p \<noteq> []" "strip p = p" "h \<noteq> []" "strip h = h" "comma_free h" "o' \<noteq> []" "strip o' = o'" "comma_free o'" "acl_word t"
  shows "acl_at (''(principal='' @ p @ '', host='' @ h @ '', operation='' @ o' @ '', permissionType='' @ t @ '')'') = Some (p, h, o', capitalize t)"
proof -
  have c1: "comma_lit ''host='' (CHR '','' # CHR '' '' # ''host='' @ r) = Some r"
    and c2: "comma_lit ''operation='' (CHR '','' # CHR '' '' # ''operation='' @ r) = Some r"
    and c3: "comma_lit ''permissionType='' (CHR '','' # CHR '' '' # ''permissionType='' @ r) = Some r" for r
    by (rule comma_lit_next; simp add: py_ws_def ws_chars_def)+
  have l: "lit ''(principal='' (''(principal='' @ r) = Some r" for r by (rule lit_append)
  show ?thesis
    unfolding acl_at_def l Option.bind.simps
    using run_no_comma[OF assms(2,1), of "'' host='' @ h @ '', operation='' @ o' @ '', permissionType='' @ t @ '')''"]
      c1[of "h @ '', operation='' @ o' @ '', permissionType='' @ t @ '')''"]
      run_no_comma[OF assms(4,6), of "'' operation='' @ o' @ '', permissionType='' @ t @ '')''"]
      c2[of "o' @ '', permissionType='' @ t @ '')''"] run_no_comma[OF assms(7,9), of "'' permissionType='' @ t @ '')''"]
      c3[of "t @ '')''"] last_word_close[OF assms(10), of "[]"] assms acl_word_strip[OF assms(10)]
    by simp
qed

lemma starts_with_before: "starts_with (q @ c # r) p \<Longrightarrow> c \<notin> set p \<Longrightarrow> starts_with q p"
  by (auto simp: starts_with_iff append_eq_append_conv2 Cons_eq_append_conv)

lemma acl_at_comma:
  assumes "\<not> comma_free p" "\<not> contains p ''host=''"
  shows "acl_at (''(principal='' @ p @ CHR '','' # r) = None"
proof -
  obtain w q where p: "p = w @ CHR '','' # q" and w: "comma_free w" using split_list_first assms(1) by metis
  have l: "lit ''(principal='' (''(principal='' @ p @ CHR '','' # r) = Some (p @ CHR '','' # r)" by (rule lit_append)
  show ?thesis
  proof (cases "w = []")
    case True
    then have "run_of no_comma (p @ CHR '','' # r) = None" by (simp add: run_of_def p no_comma_def)
    then show ?thesis by (simp only: acl_at_def l Option.bind.simps)
  next
    case False
    have run: "run_of no_comma (p @ CHR '','' # r) = Some (w, CHR '','' # q @ CHR '','' # r)"
      using run_no_comma[OF False w] by (simp add: p)
    define q' where "q' = skip_space q"
    have "\<not> py_ws CHR '',''" by (simp add: py_ws_def ws_chars_def)
    then have skip: "skip_space (q @ CHR '','' # r) = q' @ CHR '','' # r" by (simp add: skip_space_def q'_def dropWhile_upto)
    have "\<not> starts_with (q' @ CHR '','' # r) ''host=''"
    proof
      assume "starts_with (q' @ CHR '','' # r) ''host=''"
      then have "starts_with q' ''host=''" by (rule starts_with_before) simp
      then obtain z where "q' = ''host='' @ z" by (auto simp: starts_with_iff)
      moreover obtain u where "q = u @ q'" unfolding q'_def skip_space_def by (metis takeWhile_dropWhile_id)
      ultimately have "p = (w @ '','' @ u) @ ''host='' @ z" by (simp add: p)
      then show False using assms(2) unfolding contains_iff by blast
    qed
    then have "comma_lit ''host='' (CHR '','' # q @ CHR '','' # r) = None"
      using skip by (simp add: comma_lit_def lit_def starts_with_def)
    then show ?thesis by (simp only: acl_at_def l run Option.bind.simps prod.case)
  qed
qed

text \<open>The lines of a listing.\<close>

lemma paren_once: "search f s = Some x \<Longrightarrow> (\<And>b y. f b = Some y \<Longrightarrow> \<exists>r. b = u @ CHR ''('' # r) \<Longrightarrow>
    s = CHR ''('' # t \<Longrightarrow> CHR ''('' \<notin> set t \<Longrightarrow> u = [] \<and> f s = Some x"
proof -
  assume "search f s = Some x" and f: "\<And>b y. f b = Some y \<Longrightarrow> \<exists>r. b = u @ CHR ''('' # r"
    and s: "s = CHR ''('' # t" "CHR ''('' \<notin> set t"
  then obtain a b where ab: "s = a @ b" "f b = Some x" using search_Some by metis
  from f[OF ab(2)] obtain r where "b = u @ CHR ''('' # r" by blast
  with ab s have "a = [] \<and> u = []" by (cases a; cases u) auto
  with ab show ?thesis by simp
qed

lemma acl_line_found:
  assumes "plain_acl (p, h, o', t)"
  shows "search resource_at (acl_text (p, h, o', t)) = None"
    "search acl_at (acl_text (p, h, o', t)) = (if comma_free p then Some (p, h, o', capitalize t) else None)"
proof -
  let ?l = "acl_text (p, h, o', t)"
  let ?r = "'' host='' @ h @ '', operation='' @ o' @ '', permissionType='' @ t @ '')''"
  have host: "\<not> contains p ''host=''" using assms by (simp add: plain_acl_def)
  have v: "p \<noteq> []" "strip p = p" "h \<noteq> []" "strip h = h" "comma_free h" "o' \<noteq> []" "strip o' = o'" "comma_free o'" "acl_word t"
    "CHR ''('' \<notin> set p" "CHR ''('' \<notin> set h" "CHR ''('' \<notin> set o'"
    using assms by (simp_all add: plain_acl_def acl_value_def)
  have l: "?l = CHR ''('' # ''principal='' @ p @ CHR '','' # ?r" "CHR ''('' \<notin> set (''principal='' @ p @ CHR '','' # ?r)"
    using v acl_word_strip[OF v(9)] by (simp_all add: acl_text_def)
  have res: "\<exists>r. b = ''ResourcePattern'' @ CHR ''('' # r" if "resource_at b = Some y" for b y
    using that by (auto simp: resource_at_def bind_eq_Some_conv dest!: lit_SomeD)
  have acl: "\<exists>r. b = [] @ CHR ''('' # r" if "acl_at b = Some y" for b y
    using that by (auto simp: acl_at_def bind_eq_Some_conv dest!: lit_SomeD)
  show "search resource_at ?l = None"
  proof (rule ccontr)
    assume "search resource_at ?l \<noteq> None"
    then obtain x where "search resource_at ?l = Some x" by blast
    from paren_once[where u = "''ResourcePattern''", OF this _ l] res show False by blast
  qed
  have "search acl_at ?l = acl_at ?l"
  proof (cases "search acl_at ?l")
    case None
    then show ?thesis using l(1) by (simp split: option.splits)
  next
    case (Some x)
    from paren_once[OF this acl l] show ?thesis using Some by simp
  qed
  also have "\<dots> = (if comma_free p then Some (p, h, o', capitalize t) else None)"
    using acl_at_text[OF _ v(1-9)] acl_at_comma[OF _ host, of ?r] by (simp add: acl_text_def)
  finally show "search acl_at ?l = (if comma_free p then Some (p, h, o', capitalize t) else None)" .
qed

lemma resource_line_found:
  assumes "plain_resource ((t, n, p), as)"
  shows "search resource_at (resource_text (t, n, p)) = Some (lower t, n, lower p)"
proof -
  have v: "acl_word t" "n \<noteq> []" "strip n = n" "comma_free n" "acl_word p"
    using assms by (simp_all add: plain_resource_def acl_value_def)
  let ?r = "''ResourcePattern(resourceType='' @ t @ '', name='' @ n @ '', patternType='' @ p @ '')`:''"
  have skip: "resource_at (c # s) = None" if "c \<in> set ''Current ACLs for resource `''" for c s
    using that by (auto simp: resource_at_def lit_def starts_with_def)
  have "resource_text (t, n, p) = ''Current ACLs for resource `'' @ ?r" by (simp add: resource_text_def)
  then have "search resource_at (resource_text (t, n, p)) = search resource_at ?r"
    using search_skip[of "''Current ACLs for resource `''" resource_at ?r] skip by (simp only:)
  also have "\<dots> = Some (lower t, n, lower p)" using search_here[of resource_at ?r, OF resource_at_text[OF v]] .
  finally show ?thesis .
qed

lemma acl_text_ends: "strip (tab @ acl_text a) = acl_text a" "strip (acl_text a) = acl_text a" "acl_text a \<noteq> []" "last (acl_text a) = CHR '')''"
proof -
  obtain p h o' t where a: "a = (p, h, o', t)" by (cases a)
  have ends: "acl_text a \<noteq> []" "\<not> py_ws (hd (acl_text a))" "last (acl_text a) = CHR '')''"
    by (simp_all add: acl_text_def a py_ws_def ws_chars_def)
  then show "acl_text a \<noteq> []" "last (acl_text a) = CHR '')''" by simp_all
  show s: "strip (acl_text a) = acl_text a" using ends by (intro strip_id) (simp_all add: py_ws_def ws_chars_def)
  have "dropWhile py_ws (tab @ acl_text a) = dropWhile py_ws (acl_text a)" by (simp add: tab_def py_ws_def ws_chars_def)
  then show "strip (tab @ acl_text a) = acl_text a" using s by (simp add: strip_def strip_by_def)
qed

lemma resource_text_ends: "strip (resource_text r) = resource_text r" "resource_text r \<noteq> []" "hd (resource_text r) = CHR ''C''"
  "last (resource_text r) = CHR '':''"
proof -
  obtain t n p where r: "r = (t, n, p)" by (cases r)
  show ends: "resource_text r \<noteq> []" "hd (resource_text r) = CHR ''C''" "last (resource_text r) = CHR '':''"
    by (simp_all add: resource_text_def r)
  then show "strip (resource_text r) = resource_text r" by (intro strip_id) (simp_all add: py_ws_def ws_chars_def)
qed

abbreviation resource_lines :: "listed_resource \<Rightarrow> string list" where
  "resource_lines r \<equiv> resource_text (fst r) # map (\<lambda>a. tab @ acl_text a) (snd r)"

definition shown_entries :: "listed_resource \<Rightarrow> acl_entry list" where
  "shown_entries = (\<lambda>(r, as). map (entry_of r) (filter (\<lambda>(p, h, o', t). comma_free p) as))"

lemma entries_lines: "list_all plain_acl as \<Longrightarrow>
    acl_lines (map (\<lambda>a. tab @ acl_text a) as @ ls) (lower t, n, lower p) =
    map (entry_of (t, n, p)) (filter (\<lambda>(p, h, o', t). comma_free p) as) @ acl_lines ls (lower t, n, lower p)"
proof (induction as)
  case (Cons a as)
  obtain q h o' u where a: "a = (q, h, o', u)" by (cases a)
  have p: "plain_acl (q, h, o', u)" using Cons.prems by (simp add: a)
  have e: "entry_of (t, n, p) (q, h, o', u) = \<lparr>ac_principal = q, ac_host = h, ac_operation = o', ac_permission_type = capitalize u,
      ac_resource_type = lower t, ac_resource_name = n, ac_pattern_type = lower p\<rparr>" for p
    by (simp add: entry_of_def)
  show ?case using Cons acl_line_found[OF p]
    by (simp add: a e acl_text_ends(1) Let_def)
qed simp

lemma resources_lines: "list_all plain_resource rs \<Longrightarrow>
    acl_lines (concat (map resource_lines rs)) cur = concat (map shown_entries rs)"
proof (induction rs arbitrary: cur)
  case (Cons r rs)
  obtain t n p as where r: "r = ((t, n, p), as)" by (metis prod_cases3 surj_pair)
  have pr: "plain_resource ((t, n, p), as)" and as: "list_all plain_acl as" using Cons.prems by (simp_all add: r plain_resource_def)
  show ?case using resource_line_found[OF pr] entries_lines[OF as] Cons
    by (simp add: r shown_entries_def resource_text_ends Let_def)
qed simp

lemma one_line_parts: "one_line (a @ b) \<longleftrightarrow> one_line a \<and> one_line b" "one_line (c # a) \<longleftrightarrow> \<not> line_end c \<and> one_line a" "one_line []"
  by (simp_all add: one_line_def)

lemma resource_lines_clean: "plain_resource r \<Longrightarrow> list_all one_line (resource_lines r)"
proof -
  assume p: "plain_resource r"
  obtain t n q as where r: "r = ((t, n, q), as)" by (metis prod_cases3 surj_pair)
  have w: "acl_word s \<Longrightarrow> one_line s" for s using acl_word_strip[of s] word_one_line by blast
  have "one_line (resource_text (t, n, q))"
    using p w[of t] w[of q] by (simp add: r plain_resource_def acl_value_def resource_text_def one_line_parts line_end_def)
  moreover have "one_line (tab @ acl_text a)" if "a \<in> set as" for a
  proof -
    obtain p' h o' u where a: "a = (p', h, o', u)" by (cases a)
    have "plain_acl (p', h, o', u)" using p that by (auto simp: r a plain_resource_def list_all_iff)
    then show ?thesis using w[of u] by (simp add: a plain_acl_def acl_value_def acl_text_def tab_def one_line_parts line_end_def)
  qed
  ultimately show ?thesis by (simp add: r list_all_iff)
qed

text \<open>
  Claim C29.  The access control lists shown are, in order and with their resource, exactly those whose principal has no comma:
  an entry of a principal like a distinguished name, as clients with certificates have, is dropped without a trace.
\<close>

theorem acls_listed:
  assumes "list_all plain_resource rs"
  shows "parse_acl_list (acls_text rs) =
    concat (map (\<lambda>(r, as). map (entry_of r) (filter (\<lambda>(p, h, o', t). CHR '','' \<notin> set p) as)) rs)"
proof (cases "rs = []")
  case True
  have "parse_acl_list (acls_text []) = []" by code_simp
  then show ?thesis by (simp add: True)
next
  case False
  let ?ls = "concat (map resource_lines rs)"
  have txt_eq: "acls_text rs = join nl ?ls" by (simp add: acls_text_def case_prod_unfold)
  have lines: "list_all one_line ?ls" using assms resource_lines_clean by (auto simp: list_all_iff)
  obtain r rs1 where rs1: "rs = r # rs1" using False by (cases rs) auto
  obtain r2 rs2 where rs2: "rs = rs2 @ [r2]" using False by (cases rs rule: rev_cases) auto
  have hd: "?ls \<noteq> []" "hd ?ls = resource_text (fst r)" by (simp_all add: rs1)
  have "last ?ls = (if snd r2 = [] then resource_text (fst r2) else tab @ acl_text (last (snd r2)))"
    by (simp add: rs2 last_map)
  then have last: "last ?ls \<noteq> []" "\<not> py_ws (last (last ?ls))"
    using resource_text_ends[of "fst r2"] acl_text_ends[of "last (snd r2)"] by (auto simp: py_ws_def ws_chars_def)
  have "strip (join nl ?ls) = join nl ?ls"
    using hd last resource_text_ends[of "fst r"] by (intro strip_join) (simp_all add: py_ws_def ws_chars_def)
  then have "splitlines (strip (acls_text rs)) = ?ls" unfolding txt_eq using splitlines_join_last[OF hd(1) lines last(1)] by simp
  then show ?thesis using resources_lines[OF assms] by (simp add: parse_acl_list_def shown_entries_def case_prod_unfold)
qed

theorem acls_listed_witness:
  "parse_acl_list (acls_text [((''TOPIC'', ''orders'', ''LITERAL''),
      [(''User:bob'', ''*'', ''READ'', ''ALLOW''), (''User:CN=eve,OU=ops'', ''*'', ''READ'', ''DENY'')])]) =
    [\<lparr>ac_principal = ''User:bob'', ac_host = ''*'', ac_operation = ''READ'', ac_permission_type = ''Allow'',
      ac_resource_type = ''topic'', ac_resource_name = ''orders'', ac_pattern_type = ''literal''\<rparr>]"
proof -
  let ?rs = "[((''TOPIC'', ''orders'', ''LITERAL''),
      [(''User:bob'', ''*'', ''READ'', ''ALLOW''), (''User:CN=eve,OU=ops'', ''*'', ''READ'', ''DENY'')])]"
  have p: "list_all plain_resource ?rs" by code_simp
  have "capitalize ''ALLOW'' = ''Allow''" "lower ''TOPIC'' = ''topic''" "lower ''LITERAL'' = ''literal''" by code_simp+
  then show ?thesis using acls_listed[OF p] by (simp add: entry_of_def)
qed

end
