(* ===== verification/Shell_Words.thy ===== *)
theory Shell_Words
  imports Py_Prelude
begin

text \<open>
  How a command line is read.  \<open>shlex_split\<close> is Python's \<open>shlex.split\<close>, the state machine of \<open>shlex.py\<close> in POSIX mode.
  \<open>sh_words\<close> is how a POSIX shell splits a simple command: \<open>None\<close> stands for a line in which an unquoted operator or
  expansion gives it another meaning; an assignment \<open>NAME=value\<close> in front of a command is a word like the others.  Shown: what the quoting idioms of the program are read as, and that \<open>shlex.split\<close>
  agrees with the shell on every simple command.
\<close>

section \<open>shlex.split\<close>

datatype shlex_state = Between | Word | Quote char | Escape "char option"

definition shlex_space :: "char \<Rightarrow> bool" where
  "shlex_space c \<longleftrightarrow> c \<in> {CHR '' '', CHR 0x09, CHR 0x0D, CHR 0x0A}"

abbreviation bslash :: char where "bslash \<equiv> CHR 0x5C"
abbreviation apos :: char where "apos \<equiv> CHR 0x27"
abbreviation quot :: char where "quot \<equiv> CHR 0x22"

text \<open>\<open>tok\<close> is the token read so far, backwards.\<close>

fun shlex_go :: "shlex_state \<Rightarrow> string \<Rightarrow> string \<Rightarrow> exn + string list" where
  "shlex_go Between tok [] = Inr []"
| "shlex_go Between tok (c # s) =
     (if shlex_space c then shlex_go Between [] s
      else if c = bslash then shlex_go (Escape None) [] s
      else if c = apos \<or> c = quot then shlex_go (Quote c) [] s
      else shlex_go Word [c] s)"
| "shlex_go Word tok [] = Inr [rev tok]"
| "shlex_go Word tok (c # s) =
     (if shlex_space c then map_sum id (Cons (rev tok)) (shlex_go Between [] s)
      else if c = apos \<or> c = quot then shlex_go (Quote c) tok s
      else if c = bslash then shlex_go (Escape None) tok s
      else shlex_go Word (c # tok) s)"
| "shlex_go (Quote q) tok [] = Inl (ValueError ''No closing quotation'')"
| "shlex_go (Quote q) tok (c # s) =
     (if c = q then shlex_go Word tok s
      else if c = bslash \<and> q = quot then shlex_go (Escape (Some q)) tok s
      else shlex_go (Quote q) (c # tok) s)"
| "shlex_go (Escape e) tok [] = Inl (ValueError ''No escaped character'')"
| "shlex_go (Escape None) tok (c # s) = shlex_go Word (c # tok) s"
| "shlex_go (Escape (Some q)) tok (c # s) =
     shlex_go (Quote q) (if c \<noteq> bslash \<and> c \<noteq> q then c # bslash # tok else c # tok) s"

definition shlex_split :: "string \<Rightarrow> exn + string list" where
  "shlex_split s = shlex_go Between [] s"

section \<open>A POSIX shell\<close>

text \<open>
  Unquoted characters that start other commands in the background or a pipe, redirect, expand, or start a comment, and
  control characters; the semicolon is handled.  Inside double quotes only the backslash, the dollar sign and the backquote
  are special.
\<close>

datatype sh_state = Gap | Plain | Single | Double | Literal

datatype sh_token = Arg string | Semi

definition sh_special :: "char \<Rightarrow> bool" where
  "sh_special c \<longleftrightarrow> c \<in> set ''&|<>()$`*?[#~!{}'' \<or> of_char c < (32 :: nat)"

abbreviation sh_blank :: "char \<Rightarrow> bool" where
  "sh_blank c \<equiv> c = CHR '' '' \<or> c = CHR 0x09"

fun sh_go :: "sh_state \<Rightarrow> string \<Rightarrow> string \<Rightarrow> sh_token list option" where
  "sh_go Gap tok [] = Some []"
| "sh_go Gap tok (c # s) =
     (if sh_blank c then sh_go Gap [] s
      else if c = CHR '';'' then map_option (Cons Semi) (sh_go Gap [] s)
      else if c = bslash then sh_go Literal [] s
      else if c = apos then sh_go Single [] s
      else if c = quot then sh_go Double [] s
      else if sh_special c then None
      else sh_go Plain [c] s)"
| "sh_go Plain tok [] = Some [Arg (rev tok)]"
| "sh_go Plain tok (c # s) =
     (if sh_blank c then map_option (Cons (Arg (rev tok))) (sh_go Gap [] s)
      else if c = CHR '';'' then map_option (\<lambda>ts. Arg (rev tok) # Semi # ts) (sh_go Gap [] s)
      else if c = bslash then sh_go Literal tok s
      else if c = apos then sh_go Single tok s
      else if c = quot then sh_go Double tok s
      else if sh_special c then None
      else sh_go Plain (c # tok) s)"
| "sh_go Single tok [] = None"
| "sh_go Single tok (c # s) = (if c = apos then sh_go Plain tok s else sh_go Single (c # tok) s)"
| "sh_go Double tok [] = None"
| "sh_go Double tok (c # s) =
     (if c = quot then sh_go Plain tok s
      else if c \<in> {bslash, CHR 0x24, CHR 0x60} then None
      else sh_go Double (c # tok) s)"
| "sh_go Literal tok [] = None"
| "sh_go Literal tok (c # s) = (if c = CHR 0x0A then None else sh_go Plain (c # tok) s)"

text \<open>The commands of a line, each with its words.\<close>

fun sh_split :: "sh_token list \<Rightarrow> string list list" where
  "sh_split [] = [[]]"
| "sh_split (Semi # ts) = [] # sh_split ts"
| "sh_split (Arg w # ts) = (case sh_split ts of [] \<Rightarrow> [[w]] | c # cs \<Rightarrow> (w # c) # cs)"

definition sh_commands :: "string \<Rightarrow> string list list option" where
  "sh_commands s = map_option sh_split (sh_go Gap [] s)"

text \<open>A line that is one simple command.\<close>

definition sh_words :: "string \<Rightarrow> string list option" where
  "sh_words s = (case sh_commands s of Some [ws] \<Rightarrow> Some ws | _ \<Rightarrow> None)"

section \<open>The two agree\<close>

fun shlex_of :: "sh_state \<Rightarrow> shlex_state" where
  "shlex_of Gap = Between"
| "shlex_of Plain = Word"
| "shlex_of Single = Quote apos"
| "shlex_of Double = Quote quot"
| "shlex_of Literal = Escape None"

lemma space_facts: "shlex_space CHR '' ''" "shlex_space CHR 0x09" "\<not> shlex_space bslash" "\<not> shlex_space apos" "\<not> shlex_space quot"
  by (simp_all add: shlex_space_def)

lemma space_special: "shlex_space c \<Longrightarrow> c = CHR '' '' \<or> c = CHR 0x09 \<or> sh_special c"
proof -
  have "sh_special CHR 0x0A" "sh_special CHR 0x0D" by code_simp+
  then show "shlex_space c \<Longrightarrow> c = CHR '' '' \<or> c = CHR 0x09 \<or> sh_special c" by (auto simp: shlex_space_def)
qed

lemma sh_split_args: "sh_split (map Arg ws) = [ws]"
  by (induction ws) simp_all

lemma sh_split_single: "sh_split ts = [ws] \<Longrightarrow> ts = map Arg ws"
proof (induction ts arbitrary: ws rule: sh_split.induct)
  case (2 ts)
  have "sh_split ts \<noteq> []" by (induction ts rule: sh_split.induct) (auto split: list.splits)
  with 2 show ?case by simp
next
  case (3 w ts)
  have "sh_split ts \<noteq> []" by (induction ts rule: sh_split.induct) (auto split: list.splits)
  then obtain c cs where c: "sh_split ts = c # cs" by (cases "sh_split ts") auto
  then have "ws = w # c" "cs = []" using 3 by simp_all
  then show ?case using 3(1)[of c] c by simp
qed simp

lemma sh_words_go: "sh_words s = Some ws \<longleftrightarrow> sh_go Gap [] s = Some (map Arg ws)"
proof
  assume "sh_words s = Some ws"
  then obtain ts where "sh_go Gap [] s = Some ts" "sh_split ts = [ws]"
    by (auto simp: sh_words_def sh_commands_def split: option.splits list.splits)
  then show "sh_go Gap [] s = Some (map Arg ws)" using sh_split_single by simp
qed (simp add: sh_words_def sh_commands_def sh_split_args)

lemma shlex_sh: "sh_go st tok s = Some (map Arg ws) \<Longrightarrow> shlex_go (shlex_of st) tok s = Inr ws"
proof (induction st tok s arbitrary: ws rule: sh_go.induct)
  case (2 tok c s)
  consider "sh_blank c" | "c = CHR '';''" | "c = bslash" | "c = apos" | "c = quot"
    | "\<not> sh_blank c" "c \<noteq> CHR '';''" "c \<noteq> bslash" "c \<noteq> apos" "c \<noteq> quot" by blast
  then show ?case using 2 space_special[of c] by cases (auto simp: space_facts Cons_eq_map_conv split: if_splits)
next
  case (4 tok c s)
  consider "sh_blank c" | "c = CHR '';''" | "c = bslash" | "c = apos" | "c = quot"
    | "\<not> sh_blank c" "c \<noteq> CHR '';''" "c \<noteq> bslash" "c \<noteq> apos" "c \<noteq> quot" by blast
  then show ?case using 4 space_special[of c] by cases (auto simp: space_facts Cons_eq_map_conv split: if_splits)
qed (auto simp: Cons_eq_map_conv split: if_splits)

lemma shlex_split_sh: "sh_words s = Some ws \<Longrightarrow> shlex_split s = Inr ws"
  using shlex_sh[of Gap "[]" s ws] by (simp add: sh_words_go shlex_split_def)

section \<open>Quoting\<close>

text \<open>\<open>s.replace("'", "'\\''")\<close>, which the program uses inside single quotes.\<close>

definition sq_escape :: "string \<Rightarrow> string" where
  "sq_escape s = replace_char apos [apos, bslash, apos, apos] s"

lemma sh_single: "apos \<notin> set a \<Longrightarrow> sh_go Single tok (a @ r) = sh_go Single (rev a @ tok) r"
  by (induction a arbitrary: tok) auto

lemma sh_sq_escape: "sh_go Single tok (sq_escape s @ apos # r) = sh_go Plain (rev s @ tok) r"
  by (induction s arbitrary: tok) (simp_all add: sq_escape_def replace_char_def)

lemma sh_dq_escape: "sh_go Single tok (replace_char apos (sq @ dq @ sq @ dq @ sq) s @ apos # r) = sh_go Plain (rev s @ tok) r"
  by (induction s arbitrary: tok) (simp_all add: replace_char_def)

definition sh_plain :: "char \<Rightarrow> bool" where
  "sh_plain c \<longleftrightarrow> c \<notin> {CHR '' '', CHR 0x09, CHR '';'', bslash, apos, quot} \<and> \<not> sh_special c"

lemma sh_plain_step: "sh_plain c \<Longrightarrow> sh_go Plain tok (c # s) = sh_go Plain (c # tok) s"
  "sh_plain c \<Longrightarrow> sh_go Gap tok (c # s) = sh_go Plain [c] s"
  by (simp_all add: sh_plain_def)

lemma sh_plain_run: "list_all sh_plain a \<Longrightarrow> sh_go Plain tok (a @ r) = sh_go Plain (rev a @ tok) r"
  by (induction a arbitrary: tok) (simp_all add: sh_plain_step del: sh_go.simps)

lemma sh_plain_start: "list_all sh_plain a \<Longrightarrow> a \<noteq> [] \<Longrightarrow> sh_go Gap tok (a @ r) = sh_go Plain (rev a) r"
  by (cases a) (simp_all add: sh_plain_step sh_plain_run del: sh_go.simps)

lemma shell_safe_plain: "shell_safe c \<Longrightarrow> sh_plain c"
proof -
  have "list_all sh_plain ''abcdefghijklmnopqrstuvwxyzABCDEFGHIJKLMNOPQRSTUVWXYZ0123456789_@%+=:,./-''" by code_simp
  then show "shell_safe c \<Longrightarrow> sh_plain c" by (auto simp: shell_safe_def list_all_iff)
qed

lemma sh_quoted: "sh_go Plain tok (shlex_quote s @ r) = sh_go Plain (rev s @ tok) r"
  "sh_go Gap [] (shlex_quote s @ r) = sh_go Plain (rev s) r"
proof -
  have safe: "list_all shell_safe s \<Longrightarrow> list_all sh_plain s" using shell_safe_plain by (auto simp: list_all_iff)
  show "sh_go Plain tok (shlex_quote s @ r) = sh_go Plain (rev s @ tok) r"
    using sh_plain_run[OF safe] sh_dq_escape[of tok s r] by (auto simp: shlex_quote_def)
  show "sh_go Gap [] (shlex_quote s @ r) = sh_go Plain (rev s) r"
    using sh_plain_start[OF safe] sh_dq_escape[of "[]" s r] by (auto simp: shlex_quote_def)
qed

text \<open>A quoted word after a blank, and a command line of quoted words.\<close>

lemma sh_next: "sh_go Plain tok (CHR '' '' # s) = map_option (Cons (Arg (rev tok))) (sh_go Gap [] s)"
  by simp

lemma sh_quoted_line: "xs \<noteq> [] \<Longrightarrow> sh_go Gap [] (join '' '' (map shlex_quote xs)) = Some (map Arg xs)"
proof (induction xs rule: list_nonempty_induct)
  case (single x)
  show ?case using sh_quoted(2)[of x "[]"] by simp
next
  case (cons x xs)
  have "join '' '' (map shlex_quote (x # xs)) = shlex_quote x @ CHR '' '' # join '' '' (map shlex_quote xs)"
    using cons.hyps by (cases xs) simp_all
  then show ?case using cons sh_quoted(2)[of x "CHR '' '' # join '' '' (map shlex_quote xs)"] by simp
qed

lemma sh_words_quoted: "sh_words (join '' '' (map shlex_quote xs)) = Some xs"
  by (cases "xs = []") (simp_all add: sh_words_go sh_quoted_line)

lemma quote_safe: "list_all shell_safe s \<Longrightarrow> s \<noteq> [] \<Longrightarrow> shlex_quote s = s"
  by (simp add: shlex_quote_def)

text \<open>A plain word and a word with a quoted part, each followed by a blank.\<close>

lemma sh_word: "list_all sh_plain a \<Longrightarrow> a \<noteq> [] \<Longrightarrow> sh_go Gap [] (a @ '' '' @ r) = map_option (Cons (Arg a)) (sh_go Gap [] r)"
  using sh_plain_start[of a "[]" "'' '' @ r"] by simp

lemma sh_last_word: "list_all sh_plain a \<Longrightarrow> a \<noteq> [] \<Longrightarrow> sh_go Gap [] a = Some [Arg a]"
  using sh_plain_start[of a "[]" "[]"] by simp

lemma sh_open: "list_all sh_plain a \<Longrightarrow> sh_go Gap [] (a @ sq @ r) = sh_go Single (rev a) r"
  using sh_plain_start[of a "[]" "sq @ r"] by (cases "a = []") simp_all

lemma sh_single_run: "apos \<notin> set a \<Longrightarrow> sh_go Single tok (a @ sq @ r) = sh_go Plain (rev a @ tok) r"
  using sh_single[of a tok "sq @ r"] by simp

lemma sh_unterminated: "apos \<notin> set a \<Longrightarrow> sh_go Single tok a = None"
  using sh_single[of a tok "[]"] by simp

lemma sh_blank_next: "sh_go Plain tok ('' '' @ s) = map_option (Cons (Arg (rev tok))) (sh_go Gap [] s)"
  by simp

lemma sh_blank_gap: "sh_go Gap tok ('' '' @ s) = sh_go Gap [] s"
  by simp

end
