(* ===== verification/External_Admin.thy ===== *)
theory External_Admin
  imports Config_Manager Kafka_Output Shell_Words
begin

text \<open>
  Clusters that Tantor did not deploy: \<open>services/external_admin.py\<close>.  Their brokers are reached with kafka-python, which
  is the parameter \<open>kafka_py\<close>: a client is named by its settings (\<open>conn\<close>, with the PEM texts in place of the temporary
  files), and its methods are steps of the outside world.  SCRAM users are managed over SSH on a registered broker host.
  Shown: how a password reaches the shell, and what is encoded for an access control list.
\<close>

section \<open>Connections\<close>

definition ext_encrypt_secrets :: "fernet \<Rightarrow> (string \<times> json) list \<Rightarrow> string" where
  "ext_encrypt_secrets F plain = fe_encrypt F plain"

definition decrypt_secrets :: "fernet \<Rightarrow> string option \<Rightarrow> (string \<times> json) list" where
  "decrypt_secrets F encrypted =
     (if str_true encrypted then (case fe_decrypt F (the encrypted) of None \<Rightarrow> [] | Some d \<Rightarrow> d) else [])"

record connection_view =
  cv_bootstrap_servers :: "string option"
  cv_security_protocol :: string
  cv_sasl_mechanism :: "string option"
  cv_sasl_username :: json
  cv_sasl_password_set :: bool
  cv_ssl_ca_set :: bool
  cv_ssl_cert_set :: bool
  cv_ssl_key_set :: bool
  cv_ssl_verify :: bool

definition redact_connection :: "fernet \<Rightarrow> cluster \<Rightarrow> connection_view" where
  "redact_connection F c =
     (let secrets = decrypt_secrets F (c_secrets c) in
      \<lparr>cv_bootstrap_servers = c_bootstrap_servers c, cv_security_protocol = or_str (c_security_protocol c) ''PLAINTEXT'',
       cv_sasl_mechanism = c_sasl_mechanism c, cv_sasl_username = jget secrets ''sasl_username'',
       cv_sasl_password_set = truthy (jget secrets ''sasl_password''), cv_ssl_ca_set = truthy (jget secrets ''ssl_ca_pem''),
       cv_ssl_cert_set = truthy (jget secrets ''ssl_cert_pem''), cv_ssl_key_set = truthy (jget secrets ''ssl_key_pem''),
       cv_ssl_verify = c_ssl_verify c\<rparr>)"

text \<open>A TLS context: whether the server is verified, the CA and the certificate with its key.\<close>

record tls_context =
  tc_verify :: bool
  tc_ca :: "json option"
  tc_chain :: "(json \<times> json) option"

record conn =
  cn_bootstrap :: "string list"
  cn_protocol :: string
  cn_tls :: "tls_context option"
  cn_sasl :: "(string \<times> json \<times> json) option"

definition pem_of :: "(string \<times> json) list \<Rightarrow> string \<Rightarrow> json option" where
  "pem_of secrets k = (let body = jget secrets k in if truthy body then Some body else None)"

definition common_kwargs :: "cluster \<Rightarrow> (string \<times> json) list \<Rightarrow> conn" where
  "common_kwargs c secrets =
     (let protocol = or_str (c_security_protocol c) ''PLAINTEXT'' in
      \<lparr>cn_bootstrap = filter (\<lambda>s. s \<noteq> []) (map strip (split_on CHR '','' (or_str (c_bootstrap_servers c) []))),
       cn_protocol = protocol,
       cn_tls = (if protocol \<in> {''SSL'', ''SASL_SSL''}
         then Some \<lparr>tc_verify = c_ssl_verify c, tc_ca = pem_of secrets ''ssl_ca_pem'',
                    tc_chain = (case (pem_of secrets ''ssl_cert_pem'', pem_of secrets ''ssl_key_pem'') of
                       (Some x, Some y) \<Rightarrow> Some (x, y) | _ \<Rightarrow> None)\<rparr>
         else None),
       cn_sasl = (if protocol \<in> {''SASL_PLAINTEXT'', ''SASL_SSL''}
         then Some (or_str (c_sasl_mechanism c) ''PLAIN'', jget_default secrets ''sasl_username'' (JStr []),
                    jget_default secrets ''sasl_password'' (JStr []))
         else None)\<rparr>)"

section \<open>kafka-python\<close>

text \<open>
  The values its methods return, with the attributes the code reads.  A description of a topic may lack its name or its
  partitions; an entry of \<open>describe_configs\<close> and a configuration in it are tuples of unknown length.
\<close>

record topic_desc =
  td_topic :: "string option"
  td_partitions :: "partition_detail list"

record group_member =
  gm_member_id :: string
  gm_client_id :: string
  gm_client_host :: string
  gm_subscription :: "string list option"
  gm_topics :: "string list option"

record group_desc =
  gd_group :: string
  gd_state :: string
  gd_members :: "group_member list"

record broker_desc =
  bd_node_id :: int
  bd_host :: string
  bd_port :: int
  bd_rack :: "string option"

record cluster_desc =
  cd_brokers :: "broker_desc list"
  cd_controller_id :: "int option"
  cd_cluster_id :: "string option"

record raw_record =
  rr_partition :: int
  rr_offset :: int
  rr_timestamp :: int
  rr_key :: string
  rr_value :: string

record acl_filter =
  af_principal :: "string option"
  af_host :: string
  af_operation :: string
  af_permission_type :: string
  af_resource_type :: string
  af_resource_name :: "string option"
  af_pattern_type :: string

record 'w kafka_py =
  kp_open :: "conn \<Rightarrow> ('w, unit) io"
  kp_close :: "conn \<Rightarrow> ('w, unit) io"
  kp_is_kafka_error :: "string \<Rightarrow> bool"
  kp_describe_cluster :: "conn \<Rightarrow> ('w, cluster_desc) io"
  kp_software_version :: "conn \<Rightarrow> ('w, string option) io"
  kp_check_version :: "conn \<Rightarrow> ('w, int list) io"
  kp_list_topics :: "conn \<Rightarrow> ('w, string list) io"
  kp_describe_topics :: "conn \<Rightarrow> string list option \<Rightarrow> ('w, topic_desc list) io"
  kp_describe_configs :: "conn \<Rightarrow> string \<Rightarrow> string list \<Rightarrow> ('w, json list list list) io"
  kp_create_topic :: "conn \<Rightarrow> string \<Rightarrow> int \<Rightarrow> int \<Rightarrow> ('w, unit) io"
  kp_delete_topic :: "conn \<Rightarrow> string \<Rightarrow> ('w, unit) io"
  kp_create_partitions :: "conn \<Rightarrow> string \<Rightarrow> int \<Rightarrow> ('w, unit) io"
  kp_alter_configs :: "conn \<Rightarrow> string \<Rightarrow> (string \<times> json) list \<Rightarrow> ('w, unit) io"
  kp_incremental_alter :: "conn \<Rightarrow> int \<Rightarrow> (string \<times> json) list \<Rightarrow> ('w, unit) io"
  kp_alter_version :: "conn \<Rightarrow> ('w, int) io"
  kp_alter_legacy :: "conn \<Rightarrow> int \<Rightarrow> (json \<times> json) list \<Rightarrow> ('w, (int \<times> string option \<times> string) list) io"
  kp_error_text :: "int \<Rightarrow> string"
  kp_list_groups :: "conn \<Rightarrow> ('w, (string \<times> string option) list) io"
  kp_describe_groups :: "conn \<Rightarrow> string list \<Rightarrow> ('w, group_desc list) io"
  kp_group_offsets :: "conn \<Rightarrow> string \<Rightarrow> ('w, ((string \<times> int) \<times> int) list) io"
  kp_produce :: "conn \<Rightarrow> string \<Rightarrow> string option \<Rightarrow> string \<Rightarrow> ('w, string \<times> int \<times> int) io"
  kp_consume :: "conn \<Rightarrow> string \<Rightarrow> bool \<Rightarrow> int \<Rightarrow> ('w, raw_record list) io"
  kp_decode :: "string \<Rightarrow> exn + string"
  kp_decode_replace :: "string \<Rightarrow> string"
  kp_describe_acls :: "conn \<Rightarrow> acl_filter \<Rightarrow> ('w, acl_entry list) io"
  kp_create_acl :: "conn \<Rightarrow> acl_filter \<Rightarrow> ('w, unit) io"
  kp_delete_acls :: "conn \<Rightarrow> acl_filter \<Rightarrow> ('w, unit) io"

text \<open>A client that is closed whatever the body does.\<close>

definition with_client :: "'w kafka_py \<Rightarrow> conn \<Rightarrow> ('w sys, 'a) io \<Rightarrow> ('w sys, 'a) io" where
  "with_client K cn body = seqm (on_wld (kp_open K cn)) (finally_do body (on_wld (kp_close K cn)))"

definition conn_of :: "fernet \<Rightarrow> cluster \<Rightarrow> conn" where
  "conn_of F c = common_kwargs c (decrypt_secrets F (c_secrets c))"

abbreviation with_admin :: "'w kafka_py \<Rightarrow> fernet \<Rightarrow> cluster \<Rightarrow> (conn \<Rightarrow> ('w sys, 'a) io) \<Rightarrow> ('w sys, 'a) io" where
  "with_admin K F c body \<equiv> with_client K (conn_of F c) (body (conn_of F c))"

section \<open>Topics and groups\<close>

abbreviation geq_sign :: string where "geq_sign \<equiv> [CHR 0xE2, CHR 0x89, CHR 0xA5]"

definition detect_broker_version :: "'w kafka_py \<Rightarrow> conn \<Rightarrow> ('w sys, string option) io" where
  "detect_broker_version K cn =
     bnd (catch (on_wld (kp_software_version K cn)) (\<lambda>_. ret None)) (\<lambda>v.
     if str_true v then ret v
     else bnd (attempt (on_wld (kp_check_version K cn))) (\<lambda>r. ret (case r of Inl e \<Rightarrow> None
       | Inr ver \<Rightarrow> if 2 \<le> length ver then Some (geq_sign @ '' '' @ join ''.'' (map show_int ver)) else None)))"

record connection_test =
  ct_success :: bool
  ct_message :: string
  ct_cluster :: "(cluster_desc \<times> string option) option"

definition ext_test_connection :: "'w kafka_py \<Rightarrow> fernet \<Rightarrow> cluster \<Rightarrow> ('w sys, connection_test) io" where
  "ext_test_connection K F c =
     catch (with_admin K F c (\<lambda>cn.
         bnd (on_wld (kp_describe_cluster K cn)) (\<lambda>desc.
         bnd (detect_broker_version K cn) (\<lambda>v.
         ret \<lparr>ct_success = True, ct_message = ''Connected to '' @ show_int (int (length (cd_brokers desc))) @ '' broker(s)'',
              ct_cluster = Some (desc, v)\<rparr>))))
       (\<lambda>e. ret \<lparr>ct_success = False,
          ct_message = (if kp_is_kafka_error K (exn_class e) then ''Kafka error: '' else []) @ exn_class e @ '': '' @ exn_str e,
          ct_cluster = None\<rparr>)"

definition replicas_of :: "partition_detail \<Rightarrow> int list" where
  "replicas_of d = (case pd_replicas d of None \<Rightarrow> [] | Some rs \<Rightarrow> rs)"

definition topic_row :: "topic_desc \<Rightarrow> topic_info" where
  "topic_row d = \<lparr>ti_name = td_topic d, ti_partitions = int (length (td_partitions d)),
     ti_rf = (case td_partitions d of [] \<Rightarrow> 0 | p # ps \<Rightarrow> int (length (replicas_of p))), ti_configs = None, ti_details = []\<rparr>"

definition ext_list_topics :: "'w kafka_py \<Rightarrow> fernet \<Rightarrow> cluster \<Rightarrow> ('w sys, topic_info list) io" where
  "ext_list_topics K F c = with_admin K F c (\<lambda>cn.
     bnd (on_wld (kp_list_topics K cn)) (\<lambda>names.
     bnd (on_wld (kp_describe_topics K cn (Some names))) (\<lambda>descs. ret (map topic_row descs))))"

text \<open>The detail of an external topic has the key \<open>partitions_info\<close> where that of a managed one has \<open>partition_details\<close>.\<close>

record ext_topic_detail =
  xt_name :: string
  xt_partitions :: int
  xt_rf :: int
  xt_partitions_info :: "partition_detail list"
  xt_configs :: "(json \<times> json) list"

definition partition_info :: "partition_detail \<Rightarrow> partition_detail" where
  "partition_info p = p\<lparr>pd_replicas := Some (replicas_of p), pd_isr := Some (case pd_isr p of None \<Rightarrow> [] | Some xs \<Rightarrow> xs)\<rparr>"

fun add_setting :: "json \<Rightarrow> (json \<times> json) list \<Rightarrow> (json \<times> json) list" where
  "add_setting (JArr (k # v # r)) m = AList.update k v m"
| "add_setting _ m = m"

definition add_entry :: "json list \<Rightarrow> (json \<times> json) list \<Rightarrow> (json \<times> json) list" where
  "add_entry entry m = (if 4 < length entry then (case entry ! 4 of JArr es \<Rightarrow> fold add_setting es m | _ \<Rightarrow> m) else m)"

definition topic_configs :: "json list list list \<Rightarrow> (json \<times> json) list" where
  "topic_configs responses = fold (fold add_entry) responses []"

definition ext_get_topic_detail :: "'w kafka_py \<Rightarrow> fernet \<Rightarrow> cluster \<Rightarrow> string \<Rightarrow> ('w sys, ext_topic_detail) io" where
  "ext_get_topic_detail K F c name = with_admin K F c (\<lambda>cn.
     bnd (on_wld (kp_describe_topics K cn (Some [name]))) (\<lambda>descs.
     case descs of
       [] \<Rightarrow> raise (ValueError (''Topic not found: '' @ name))
     | d # ds \<Rightarrow>
         let info = map partition_info (td_partitions d) in
         bnd (catch (on_wld (kp_describe_configs K cn ''topic'' [name])) (\<lambda>_. ret [])) (\<lambda>cfg.
         ret \<lparr>xt_name = name, xt_partitions = int (length info),
              xt_rf = (case info of [] \<Rightarrow> 0 | p # ps \<Rightarrow> int (length (replicas_of p))),
              xt_partitions_info = info, xt_configs = topic_configs cfg\<rparr>)))"

record member_detail =
  md_id :: string
  md_client_id :: string
  md_client_host :: string
  md_topics :: "string list"

record ext_group =
  xg_group_id :: string
  xg_state :: string
  xg_members :: "member_detail list"
  xg_topics :: "string list"
  xg_offsets :: "((string \<times> int) \<times> int) list"

definition member_topics :: "group_member \<Rightarrow> string list" where
  "member_topics m = (case gm_subscription m of Some ts \<Rightarrow> ts | None \<Rightarrow> (case gm_topics m of Some ts \<Rightarrow> ts | None \<Rightarrow> []))"

definition member_detail_of :: "group_member \<Rightarrow> member_detail" where
  "member_detail_of m = \<lparr>md_id = gm_member_id m, md_client_id = gm_client_id m, md_client_host = gm_client_host m, md_topics = member_topics m\<rparr>"

definition describe_group :: "'w kafka_py \<Rightarrow> conn \<Rightarrow> group_desc \<Rightarrow> ('w sys, ext_group) io" where
  "describe_group K cn d =
     bnd (catch (on_wld (kp_group_offsets K cn (gd_group d))) (\<lambda>_. ret [])) (\<lambda>offs.
     ret \<lparr>xg_group_id = gd_group d, xg_state = gd_state d, xg_members = map member_detail_of (gd_members d),
          xg_topics = sorted_list_of_set (set (concat (map member_topics (gd_members d)))), xg_offsets = offs\<rparr>)"

definition ext_list_consumer_groups_with_lag :: "'w kafka_py \<Rightarrow> fernet \<Rightarrow> cluster \<Rightarrow> ('w sys, ext_group list) io" where
  "ext_list_consumer_groups_with_lag K F c = with_admin K F c (\<lambda>cn.
     bnd (on_wld (kp_list_groups K cn)) (\<lambda>gs.
     if gs = [] then ret []
     else bnd (on_wld (kp_describe_groups K cn (map fst gs))) (for_each (describe_group K cn))))"

definition ext_get_consumer_group_detail :: "'w kafka_py \<Rightarrow> fernet \<Rightarrow> cluster \<Rightarrow> string \<Rightarrow> ('w sys, ext_group) io" where
  "ext_get_consumer_group_detail K F c gid =
     bnd (ext_list_consumer_groups_with_lag K F c) (\<lambda>gs.
     case filter (\<lambda>g. xg_group_id g = gid) gs of
       [] \<Rightarrow> raise (ValueError (''Consumer group not found: '' @ gid)) | g # r \<Rightarrow> ret g)"

definition ext_list_consumer_groups :: "'w kafka_py \<Rightarrow> fernet \<Rightarrow> cluster \<Rightarrow> ('w sys, (string \<times> string) list) io" where
  "ext_list_consumer_groups K F c = with_admin K F c (\<lambda>cn.
     bnd (on_wld (kp_list_groups K cn)) (\<lambda>gs. ret (map (\<lambda>(g, p). (g, case p of None \<Rightarrow> [] | Some x \<Rightarrow> x)) gs)))"

definition ext_alter_topic_config :: "'w kafka_py \<Rightarrow> fernet \<Rightarrow> cluster \<Rightarrow> string \<Rightarrow> (string \<times> json) list \<Rightarrow> ('w sys, unit) io" where
  "ext_alter_topic_config K F c name configs = with_admin K F c (\<lambda>cn. on_wld (kp_alter_configs K cn name configs))"

definition ext_increase_partitions :: "'w kafka_py \<Rightarrow> fernet \<Rightarrow> cluster \<Rightarrow> string \<Rightarrow> int \<Rightarrow> ('w sys, unit) io" where
  "ext_increase_partitions K F c name n = with_admin K F c (\<lambda>cn. on_wld (kp_create_partitions K cn name n))"

definition ext_create_topic :: "'w kafka_py \<Rightarrow> fernet \<Rightarrow> cluster \<Rightarrow> string \<Rightarrow> int \<Rightarrow> int \<Rightarrow> ('w sys, unit) io" where
  "ext_create_topic K F c name n rf = with_admin K F c (\<lambda>cn. on_wld (kp_create_topic K cn name n rf))"

definition ext_delete_topic :: "'w kafka_py \<Rightarrow> fernet \<Rightarrow> cluster \<Rightarrow> string \<Rightarrow> ('w sys, unit) io" where
  "ext_delete_topic K F c name = with_admin K F c (\<lambda>cn. on_wld (kp_delete_topic K cn name))"

definition ext_produce_message :: "'w kafka_py \<Rightarrow> fernet \<Rightarrow> cluster \<Rightarrow> string \<Rightarrow> string option \<Rightarrow> string \<Rightarrow> ('w sys, bool \<times> string) io" where
  "ext_produce_message K F c topic key v = with_admin K F c (\<lambda>cn.
     bnd (on_wld (kp_produce K cn topic (if str_true key then key else None) v)) (\<lambda>(t, p, o').
     ret (True, ''Produced to '' @ t @ '' (partition '' @ show_int p @ '', offset '' @ show_int o' @ '')'')))"

text \<open>The consumer yields its records until its time is up; the loop stops once it has enough.\<close>

definition read_record :: "'w kafka_py \<Rightarrow> raw_record \<Rightarrow> exn + message" where
  "read_record K r =
     (case (if rr_key r = [] then Inr None else map_sum id Some (kp_decode K (rr_key r))) of
        Inl e \<Rightarrow> Inl e
      | Inr k \<Rightarrow> Inr \<lparr>ms_timestamp = JInt (rr_timestamp r), ms_partition = Some (rr_partition r), ms_offset = Some (rr_offset r), ms_key = k,
           ms_value = (if rr_value r = [] then None else Some (kp_decode_replace K (rr_value r))), ms_headers = None\<rparr>)"

definition ext_consume_messages :: "'w kafka_py \<Rightarrow> fernet \<Rightarrow> cluster \<Rightarrow> string \<Rightarrow> int \<Rightarrow> int \<Rightarrow> bool \<Rightarrow> ('w sys, message list) io" where
  "ext_consume_messages K F c topic max_messages timeout_ms from_beginning = with_admin K F c (\<lambda>cn.
     bnd (on_wld (kp_consume K cn topic from_beginning timeout_ms)) (\<lambda>rs.
     for_each (\<lambda>r. lift (read_record K r)) (take (nat (max 1 max_messages)) rs)))"

section \<open>Validation\<close>

datatype step_data = No_Data | Names "string option list" | Records "message list"

record validation_step =
  vs_step :: string
  vs_success :: bool
  vs_message :: string
  vs_data :: step_data

record validation =
  vl_steps :: "validation_step list"
  vl_success :: bool

definition vstep :: "string \<Rightarrow> bool \<Rightarrow> string \<Rightarrow> step_data \<Rightarrow> validation_step" where
  "vstep name ok msg data = \<lparr>vs_step = name, vs_success = ok, vs_message = msg, vs_data = data\<rparr>"

definition TEST_TOPIC :: string where "TEST_TOPIC = ''__tantor_validation_test''"

definition count_text :: "string \<Rightarrow> 'a list \<Rightarrow> string \<Rightarrow> string" where
  "count_text verb xs what = verb @ '' '' @ show_int (int (length xs)) @ '' '' @ what"

definition mentions :: "string \<Rightarrow> message list \<Rightarrow> bool" where
  "mentions p ms \<longleftrightarrow> list_ex (\<lambda>m. contains (or_str (ms_value m) []) p) ms"

text \<open>The steps up to the production of the test message; \<open>False\<close> means that the validation ends here.\<close>

definition ext_create_step :: "'w kafka_py \<Rightarrow> fernet \<Rightarrow> cluster \<Rightarrow> bool \<Rightarrow> ('w sys, bool \<times> validation_step list) io" where
  "ext_create_step K F c create =
     (if \<not> create then ret (True, [])
      else bnd (attempt (ext_create_topic K F c TEST_TOPIC 1 1)) (\<lambda>r. ret (case r of
          Inr _ \<Rightarrow> (True, [vstep ''create_test_topic'' True (''Created topic '' @ sq @ TEST_TOPIC @ sq) No_Data])
        | Inl e \<Rightarrow> if contains (lower (exn_str e)) ''already exists'' \<or> contains (exn_str e) ''TopicAlreadyExistsError''
            then (True, [vstep ''create_test_topic'' True ''Test topic already present (reusing)'' No_Data])
            else (False, [vstep ''create_test_topic'' False (exn_str e) No_Data]))))"

definition ext_consume_step :: "'w kafka_py \<Rightarrow> fernet \<Rightarrow> cluster \<Rightarrow> ('w sys, validation_step) io" where
  "ext_consume_step K F c =
     bnd (attempt (ext_consume_messages K F c TEST_TOPIC 5 8000 True)) (\<lambda>r. ret (case r of
       Inl e \<Rightarrow> vstep ''consume_message'' False (exn_str e) No_Data
     | Inr ms \<Rightarrow> let found = mentions (dq @ ''validation'' @ dq) ms in
         vstep ''consume_message'' found
           (count_text ''Consumed'' ms ''message(s)'' @ '', validation message '' @ (if found then ''found'' else ''NOT found'')) (Records ms)))"

definition ext_cleanup_step :: "'w kafka_py \<Rightarrow> fernet \<Rightarrow> cluster \<Rightarrow> bool \<Rightarrow> ('w sys, validation_step list) io" where
  "ext_cleanup_step K F c create =
     (if \<not> create then ret []
      else bnd (attempt (ext_delete_topic K F c TEST_TOPIC)) (\<lambda>r. ret (case r of
          Inr _ \<Rightarrow> [vstep ''cleanup'' True ''Cleaned up test topic'' No_Data]
        | Inl e \<Rightarrow> [vstep ''cleanup'' False (exn_str e) No_Data])))"

definition ext_validate_cluster :: "'w kafka_py \<Rightarrow> fernet \<Rightarrow> cluster \<Rightarrow> bool \<Rightarrow> ('w sys, validation) io" where
  "ext_validate_cluster K F c create =
     bnd (attempt (ext_list_topics K F c)) (\<lambda>r.
     case r of
       Inl e \<Rightarrow> ret \<lparr>vl_steps = [vstep ''list_topics'' False (exn_str e) No_Data], vl_success = False\<rparr>
     | Inr topics \<Rightarrow>
       let s1 = vstep ''list_topics'' True (count_text ''Found'' topics ''topic(s)'') (Names (take 5 (map ti_name topics))) in
       bnd (ext_create_step K F c create) (\<lambda>(go, s2).
       if \<not> go then ret \<lparr>vl_steps = s1 # s2, vl_success = False\<rparr>
       else bnd (attempt (ext_produce_message K F c TEST_TOPIC (Some ''validation-key'') (''{'' @ dq @ ''validation'' @ dq @ '': true}''))) (\<lambda>r.
       case r of
         Inl e \<Rightarrow> ret \<lparr>vl_steps = s1 # s2 @ [vstep ''produce_message'' False (exn_str e) No_Data], vl_success = False\<rparr>
       | Inr _ \<Rightarrow>
         bnd (ext_consume_step K F c) (\<lambda>s4.
         bnd (ext_cleanup_step K F c create) (\<lambda>s5.
         ret \<lparr>vl_steps = s1 # s2 @ [vstep ''produce_message'' True ''Message produced'' No_Data, s4] @ s5,
              vl_success = vs_success s4\<rparr>)))))"

section \<open>SCRAM users over SSH\<close>

definition no_ssh_hosts_msg :: string where
  "no_ssh_hosts_msg = ''No SSH broker hosts are registered for this external cluster. Go to the Lifecycle tab and add at least one '' @
     ''broker host to enable SCRAM user management from the UI.''"

definition no_host_msg :: string where
  "no_host_msg = ''Registered broker hosts could not be resolved. Check that the hosts still exist in Tantor Hosts.''"

fun first_registered :: "tables \<Rightarrow> json list \<Rightarrow> exn + host option" where
  "first_registered d [] = Inr None"
| "first_registered d (e # es) =
     (case entry_dict e of
        Inl x \<Rightarrow> Inl x
      | Inr entry \<Rightarrow>
          (case jget entry ''host_id'' of
             JStr i \<Rightarrow> (case find_host d i of Some h \<Rightarrow> Inr (Some h) | None \<Rightarrow> first_registered d es)
           | _ \<Rightarrow> first_registered d es))"

definition kafka_dirs :: "cluster \<Rightarrow> string list" where
  "kafka_dirs c = (if str_true (c_install_dir c) then [the (c_install_dir c)] else []) @
     [''/opt/kafka'', ''/opt/kafka/current'', ''/usr/local/kafka'', ''/opt/confluent'', ''/opt/kafka_2.13-3.9.0'', ''/opt/kafka_2.13-4.1.0'',
      ''/opt/apache/kafka'', ''/opt_apb/kafka'']"

definition configs_script :: string where "configs_script = ''/bin/kafka-configs.sh''"

definition find_configs_cmd :: string where
  "find_configs_cmd = ''find /opt /usr/local /usr/share -maxdepth 3 -name kafka-configs.sh 2>/dev/null | head -5''"

text \<open>Every line is inserted in front of the candidates.\<close>

definition found_dirs :: "string \<Rightarrow> string list" where
  "found_dirs stdout = rev (List.map_filter
     (\<lambda>l. if ends_with l configs_script then Some (take (length l - length configs_script) l) else None) (splitlines (strip stdout)))"

fun first_valid :: "'w remote \<Rightarrow> host \<Rightarrow> string list \<Rightarrow> ('w sys, string option) io" where
  "first_valid R h [] = ret None"
| "first_valid R h (d # ds) =
     bnd (exec_command R h (''test -f '' @ d @ configs_script @ '' && echo yes || echo no'') 5) (\<lambda>(rc, out, err).
     if strip out = ''yes'' then ret (Some d) else first_valid R h ds)"

definition find_kafka_dir_on_host :: "'w remote \<Rightarrow> host \<Rightarrow> cluster \<Rightarrow> ('w sys, string) io" where
  "find_kafka_dir_on_host R h c =
     bnd (attempt (seqm (ssh_connect R h) (exec_command R h find_configs_cmd 10))) (\<lambda>r.
     case r of
       Inl e \<Rightarrow> ret (hd (kafka_dirs c))
     | Inr (rc, out, err) \<Rightarrow>
         let candidates = found_dirs out @ kafka_dirs c in
         bnd (catch (first_valid R h candidates) (\<lambda>_. ret None)) (\<lambda>v.
         ret (case v of Some d \<Rightarrow> d | None \<Rightarrow> hd candidates)))"

text \<open>The hosts are read in a session of its own.\<close>

definition get_ssh_broker :: "'w remote \<Rightarrow> cluster \<Rightarrow> ('w sys, host \<times> string \<times> string) io" where
  "get_ssh_broker R c =
     (let entries = read_external_broker_hosts c in
      if \<not> truthy entries then raise (ValueError no_ssh_hosts_msg)
      else bnd (asks committed) (\<lambda>d.
        bnd (lift (case entry_list entries of Inl e \<Rightarrow> Inl e | Inr es \<Rightarrow> first_registered d es)) (\<lambda>found.
        case found of
          None \<Rightarrow> raise (ValueError no_host_msg)
        | Some h \<Rightarrow> bnd (find_kafka_dir_on_host R h c) (\<lambda>dir.
            ret (h, dir, or_str (c_bootstrap_servers c) (h_ip_address h @ '':9092''))))))"

text \<open>The client configuration for SASL: \<open>printf\<close> with the lines joined by a backslash and an n.\<close>

definition command_config_path :: string where "command_config_path = ''/tmp/tantor-cmd.properties''"

definition escape_pass :: "string \<Rightarrow> string" where
  "escape_pass p = replace_char quot [bslash, quot] (replace_char bslash [bslash, bslash] p)"

definition command_config_lines :: "(json \<Rightarrow> string) \<Rightarrow> cluster \<Rightarrow> string \<Rightarrow> (string \<times> json) list \<Rightarrow> string list" where
  "command_config_lines rp c protocol secrets =
     [''security.protocol='' @ protocol, ''sasl.mechanism='' @ or_str (c_sasl_mechanism c) ''SCRAM-SHA-512'',
      ''sasl.jaas.config=org.apache.kafka.common.security.scram.ScramLoginModule required username='' @ dq @
        rp (jget_default secrets ''sasl_username'' (JStr [])) @ dq @ '' password='' @ dq @
        escape_pass (rp (jget_default secrets ''sasl_password'' (JStr []))) @ dq @ '';''] @
     (if protocol = ''SASL_SSL''
      then [''ssl.truststore.type=PKCS12'', ''ssl.truststore.location='' @ or_str (c_install_dir c) ''/opt/kafka'' @ ''/ssl/truststore.p12'',
            ''ssl.truststore.password=changeit'', ''ssl.endpoint.identification.algorithm='']
      else [])"

definition build_command_config :: "'w remote \<Rightarrow> fernet \<Rightarrow> (json \<Rightarrow> string) \<Rightarrow> cluster \<Rightarrow> host \<Rightarrow> ('w sys, string option) io" where
  "build_command_config R F rp c h =
     (let protocol = upper (or_str (c_security_protocol c) ''PLAINTEXT'') in
      if protocol \<notin> {''SASL_PLAINTEXT'', ''SASL_SSL''} then ret None
      else seqm (exec_command R h (''printf '' @ sq @ join [bslash, CHR ''n''] (command_config_lines rp c protocol (decrypt_secrets F (c_secrets c)))
             @ sq @ '' > '' @ command_config_path @ '' && chmod 600 '' @ command_config_path) 10)
           (ret (Some command_config_path)))"

definition configs_cmd :: "string \<Rightarrow> string \<Rightarrow> string option \<Rightarrow> string" where
  "configs_cmd dir bootstrap config =
     ''KAFKA_HEAP_OPTS='' @ sq @ ''-Xmx256m -Xms64m'' @ sq @ '' '' @ dir @ ''/bin/kafka-configs.sh --bootstrap-server '' @ bootstrap @
     (if str_true config then '' --command-config '' @ the config else [])"

text \<open>\<open>User:(\S+)\s+has config\s+(.+)\<close>, and the mechanisms in the last group.\<close>

definition scram_config_line :: "string \<Rightarrow> (string \<times> string) option" where
  "scram_config_line l =
     Option.bind (lit ''User:'' l) (\<lambda>r.
     Option.bind (run_of (\<lambda>c. \<not> py_ws c) r) (\<lambda>(u, r).
     Option.bind (run_of py_ws r) (\<lambda>(w, r).
     Option.bind (lit ''has config'' r) (\<lambda>r.
     case r of c # x # s \<Rightarrow> if py_ws c then Some (u, x # s) else None | _ \<Rightarrow> None))))"

fun scram_mechanisms :: "string \<Rightarrow> string list" where
  "scram_mechanisms [] = []"
| "scram_mechanisms (c # s) =
     (if starts_with (c # s) ''SCRAM-SHA-256'' then ''SCRAM-SHA-256'' # scram_mechanisms s
      else if starts_with (c # s) ''SCRAM-SHA-512'' then ''SCRAM-SHA-512'' # scram_mechanisms s
      else scram_mechanisms s)"

definition scram_users_of_line :: "string \<Rightarrow> (string \<times> string) list" where
  "scram_users_of_line l =
     (if contains l ''has config'' \<and> contains l ''SCRAM''
      then (case scram_config_line l of None \<Rightarrow> []
        | Some (u, cfg) \<Rightarrow> let ms = scram_mechanisms cfg in map (Pair u) (if ms = [] then [''SCRAM-SHA-512''] else ms))
      else [])"

definition ext_list_scram_users :: "'w remote \<Rightarrow> fernet \<Rightarrow> (json \<Rightarrow> string) \<Rightarrow> cluster \<Rightarrow> ('w sys, (string \<times> string) list) io" where
  "ext_list_scram_users R F rp c =
     bnd (attempt (get_ssh_broker R c)) (\<lambda>r.
     case r of
       Inl e \<Rightarrow> if exn_class e = ''ValueError'' then ret [] else raise e
     | Inr (h, dir, bootstrap) \<Rightarrow>
         catch (seqm (ssh_connect R h)
               (bnd (build_command_config R F rp c h) (\<lambda>cfg.
                bnd (exec_command R h (configs_cmd dir bootstrap cfg @ '' --describe --entity-type users'') 30) (\<lambda>(rc, out, err).
                ret (if rc \<noteq> 0 then [] else concat (map scram_users_of_line (splitlines out)))))))
           (\<lambda>_. ret []))"

text \<open>\<open>password.replace("'", "'\''")\<close>: the Python literal is three single quotes.\<close>

definition ext_escape :: "string \<Rightarrow> string" where
  "ext_escape p = replace_char apos [apos, apos, apos] p"

definition ext_scram_cmd :: "string \<Rightarrow> string \<Rightarrow> string option \<Rightarrow> string \<Rightarrow> string \<Rightarrow> string \<Rightarrow> string" where
  "ext_scram_cmd dir bootstrap cfg mechanism password username =
     configs_cmd dir bootstrap cfg @ '' --alter --add-config '' @ sq @ mechanism @ ''=[password='' @ ext_escape password @ '']'' @ sq @
     '' --entity-type users --entity-name '' @ username"

definition ext_create_scram_user :: "'w remote \<Rightarrow> fernet \<Rightarrow> (json \<Rightarrow> string) \<Rightarrow> cluster \<Rightarrow> string \<Rightarrow> string \<Rightarrow> string \<Rightarrow> ('w sys, string) io" where
  "ext_create_scram_user R F rp c username password mechanism =
     bnd (get_ssh_broker R c) (\<lambda>(h, dir, bootstrap).
     seqm (ssh_connect R h)
    (bnd (build_command_config R F rp c h) (\<lambda>cfg.
     bnd (exec_command R h (ext_scram_cmd dir bootstrap cfg mechanism password username) 30) (\<lambda>(rc, out, err).
     if rc \<noteq> 0 then raise (ValueError (''Failed to create SCRAM user: '' @ err_or_out err out))
     else ret (''User '' @ sq @ username @ sq @ '' created via SSH on '' @ (if h_hostname h = [] then h_ip_address h else h_hostname h))))))"

definition ext_delete_scram_user :: "'w remote \<Rightarrow> fernet \<Rightarrow> (json \<Rightarrow> string) \<Rightarrow> cluster \<Rightarrow> string \<Rightarrow> ('w sys, string) io" where
  "ext_delete_scram_user R F rp c username =
     bnd (get_ssh_broker R c) (\<lambda>(h, dir, bootstrap).
     seqm (ssh_connect R h)
    (bnd (build_command_config R F rp c h) (\<lambda>cfg.
     bnd (for_each (\<lambda>mech. exec_command R h (configs_cmd dir bootstrap cfg @ '' --alter --delete-config '' @ sq @ mech @ sq @
           '' --entity-type users --entity-name '' @ username) 30) [''SCRAM-SHA-256'', ''SCRAM-SHA-512'']) (\<lambda>results.
     ret (''User '' @ sq @ username @ sq @ '' deleted via SSH on '' @ (if h_hostname h = [] then h_ip_address h else h_hostname h))))))"

section \<open>Access control lists\<close>

record acl_request =
  aq_principal :: string
  aq_resource_type :: string
  aq_resource_name :: string
  aq_pattern_type :: string
  aq_operations :: "string list"
  aq_permission_type :: string
  aq_host :: string

text \<open>The members of kafka-python's enumerations, by name.\<close>

definition acl_resource_type :: "string option \<Rightarrow> string" where
  "acl_resource_type name =
     (if \<not> str_true name then ''ANY''
      else case map_of [(''topic'', ''TOPIC''), (''group'', ''GROUP''), (''cluster'', ''CLUSTER''), (''transactional_id'', ''TRANSACTIONAL_ID''),
             (''delegation_token'', ''DELEGATION_TOKEN'')] (lower (the name)) of None \<Rightarrow> ''ANY'' | Some t \<Rightarrow> t)"

definition acl_pattern :: "string \<Rightarrow> string" where
  "acl_pattern name = (if lower name = ''prefixed'' then ''PREFIXED'' else ''LITERAL'')"

definition acl_op :: "string option \<Rightarrow> string" where
  "acl_op name =
     (if \<not> str_true name then ''ANY''
      else if lower (the name) \<in> {''all'', ''read'', ''write'', ''create'', ''delete'', ''alter'', ''describe'', ''cluster_action'',
             ''describe_configs'', ''alter_configs'', ''idempotent_write''}
      then upper (the name) else ''ANY'')"

definition acl_perm :: "string option \<Rightarrow> string" where
  "acl_perm name = (if str_true name \<and> lower (the name) \<in> {''allow'', ''deny''} then upper (the name) else ''ANY'')"

definition ext_list_acls :: "'w kafka_py \<Rightarrow> fernet \<Rightarrow> cluster \<Rightarrow> string option \<Rightarrow> string option \<Rightarrow> string option \<Rightarrow> ('w sys, acl_entry list) io" where
  "ext_list_acls K F c prin rt rn = with_admin K F c (\<lambda>cn.
     on_wld (kp_describe_acls K cn \<lparr>af_principal = prin, af_host = ''*'', af_operation = acl_op None, af_permission_type = acl_perm None,
       af_resource_type = acl_resource_type rt, af_resource_name = rn, af_pattern_type = ''ANY''\<rparr>))"

definition ext_create_acl :: "'w kafka_py \<Rightarrow> fernet \<Rightarrow> cluster \<Rightarrow> acl_request \<Rightarrow> string \<Rightarrow> ('w sys, unit) io" where
  "ext_create_acl K F c q op' = with_admin K F c (\<lambda>cn.
     on_wld (kp_create_acl K cn \<lparr>af_principal = Some (aq_principal q), af_host = aq_host q, af_operation = acl_op (Some op'),
       af_permission_type = acl_perm (Some (aq_permission_type q)), af_resource_type = acl_resource_type (Some (aq_resource_type q)),
       af_resource_name = Some (aq_resource_name q), af_pattern_type = acl_pattern (aq_pattern_type q)\<rparr>))"

definition ext_delete_acl :: "'w kafka_py \<Rightarrow> fernet \<Rightarrow> cluster \<Rightarrow> acl_request \<Rightarrow> string \<Rightarrow> ('w sys, unit) io" where
  "ext_delete_acl K F c q op' = with_admin K F c (\<lambda>cn.
     on_wld (kp_delete_acls K cn \<lparr>af_principal = Some (aq_principal q), af_host = aq_host q, af_operation = acl_op (Some op'),
       af_permission_type = acl_perm (Some (aq_permission_type q)), af_resource_type = acl_resource_type (Some (aq_resource_type q)),
       af_resource_name = Some (aq_resource_name q), af_pattern_type = ''LITERAL''\<rparr>))"

section \<open>Broker configuration\<close>

record broker_setting =
  bs_name :: json
  bs_value :: json
  bs_is_default :: bool
  bs_is_dynamic :: bool
  bs_is_sensitive :: bool
  bs_is_read_only :: bool

definition nth_true :: "json list \<Rightarrow> nat \<Rightarrow> bool" where
  "nth_true cfg i \<longleftrightarrow> i < length cfg \<and> truthy (cfg ! i)"

text \<open>The fourth field is a source (an \<open>int\<close>) since version 1 of the protocol, and \<open>is_default\<close> (a \<open>bool\<close>) before.\<close>

definition config_source :: "json list \<Rightarrow> int option" where
  "config_source cfg = (if 6 \<le> length cfg then (case cfg ! 3 of JInt src \<Rightarrow> Some src | _ \<Rightarrow> None) else None)"

definition read_setting :: "json list \<Rightarrow> exn + broker_setting" where
  "read_setting cfg =
     (if length cfg < 2 then Inl (Exn ''IndexError'' ''tuple index out of range'')
      else Inr \<lparr>bs_name = cfg ! 0, bs_value = (if nth_true cfg 4 then JStr ''***'' else cfg ! 1),
        bs_is_default = (case config_source cfg of Some src \<Rightarrow> src = 6 | None \<Rightarrow> nth_true cfg 3),
        bs_is_dynamic = (case config_source cfg of Some src \<Rightarrow> src \<in> {3, 4} | None \<Rightarrow> \<not> nth_true cfg 3 \<and> \<not> nth_true cfg 2),
        bs_is_sensitive = nth_true cfg 4, bs_is_read_only = nth_true cfg 2\<rparr>)"

fun cfg_fields :: "json \<Rightarrow> json list" where
  "cfg_fields (JArr xs) = xs"
| "cfg_fields _ = []"

fun settings_of :: "json list \<Rightarrow> exn + broker_setting list" where
  "settings_of [] = Inr []"
| "settings_of (x # xs) =
     (case read_setting (cfg_fields x) of
        Inl e \<Rightarrow> Inl e
      | Inr b \<Rightarrow> (case settings_of xs of Inl e \<Rightarrow> Inl e | Inr bs \<Rightarrow> Inr (b # bs)))"

definition broker_entry :: "json list \<Rightarrow> exn + int \<times> broker_setting list" where
  "broker_entry entry =
     (let e = take 5 (entry @ replicate 5 JNull) in
      case settings_of (cfg_fields (e ! 4)) of
        Inl x \<Rightarrow> Inl x
      | Inr bs \<Rightarrow> (case py_int (e ! 3) of Inl x \<Rightarrow> Inl x | Inr i \<Rightarrow> Inr (i, bs)))"

definition ext_describe_broker_configs :: "'w kafka_py \<Rightarrow> fernet \<Rightarrow> cluster \<Rightarrow> ('w sys, (int \<times> broker_setting list) list) io" where
  "ext_describe_broker_configs K F c = with_admin K F c (\<lambda>cn.
     bnd (on_wld (kp_describe_cluster K cn)) (\<lambda>meta.
     let ids = map bd_node_id (cd_brokers meta) in
     if ids = [] then ret []
     else bnd (on_wld (kp_describe_configs K cn ''broker'' (map show_int ids))) (\<lambda>resp.
       for_each (\<lambda>entry. lift (broker_entry entry)) (concat resp))))"

text \<open>Before the whole configuration is replaced, the settings known to be dynamic are collected from what the broker has.\<close>

definition keep_setting :: "broker_setting \<Rightarrow> bool" where
  "keep_setting b \<longleftrightarrow>
     bs_is_dynamic b \<and>
     (case bs_name b of JStr n \<Rightarrow> (case map_of KAFKA_BROKER_CONFIGS n of Some i \<Rightarrow> ci_dynamic i | None \<Rightarrow> True) | _ \<Rightarrow> True) \<and>
     \<not> bs_is_read_only b"

definition merged_configs :: "(int \<times> broker_setting list) list \<Rightarrow> int \<Rightarrow> (string \<times> json) list \<Rightarrow> (json \<times> json) list" where
  "merged_configs brokers bid configs =
     fold (\<lambda>(k, v). AList.update (JStr k) v) configs
       (fold (\<lambda>b. AList.update (bs_name b) (bs_value b)) (filter keep_setting (case map_of brokers bid of Some bs \<Rightarrow> bs | None \<Rightarrow> [])) [])"

definition legacy_result :: "'w kafka_py \<Rightarrow> (int \<times> string option \<times> string) list \<Rightarrow> exn + unit" where
  "legacy_result K results =
     (case filter (\<lambda>(code, m, n). code \<noteq> 0) results of
        [] \<Rightarrow> Inr ()
      | (code, msg, name) # r \<Rightarrow> Inl (RuntimeError (''Broker config update failed for '' @ name @ '': '' @
          (if str_true msg then the msg else kp_error_text K code))))"

definition alter_legacy :: "'w kafka_py \<Rightarrow> fernet \<Rightarrow> cluster \<Rightarrow> conn \<Rightarrow> int \<Rightarrow> (string \<times> json) list \<Rightarrow> ('w sys, string) io" where
  "alter_legacy K F c cn bid configs =
     bnd (ext_describe_broker_configs K F c) (\<lambda>brokers.
     bnd (on_wld (kp_alter_version K cn)) (\<lambda>version.
     if 1 < version then raise (Exn ''NotImplementedError'' (''Support for AlterConfigs v'' @ show_int version @
         '' has not yet been added to KafkaAdminClient.''))
     else bnd (on_wld (kp_alter_legacy K cn bid (merged_configs brokers bid configs))) (\<lambda>results.
       seqm (lift (legacy_result K results)) (ret ''fallback_targeted''))))"

definition ext_alter_broker_config :: "'w kafka_py \<Rightarrow> fernet \<Rightarrow> cluster \<Rightarrow> int \<Rightarrow> (string \<times> json) list \<Rightarrow> ('w sys, string) io" where
  "ext_alter_broker_config K F c bid configs = with_admin K F c (\<lambda>cn.
     catch (seqm (on_wld (kp_incremental_alter K cn bid configs)) (ret ''incremental''))
       (\<lambda>e. if exn_class e \<in> {''AttributeError'', ''NotImplementedError''} then alter_legacy K F c cn bid configs else raise e))"

section \<open>Properties\<close>

text \<open>
  Reading a line loses characters but adds none: a word counts no more than what it was read from, not counting blanks and
  single quotes, and a single quote only gets into a word by a backslash or by double quotes, which are lost.
\<close>

definition weight :: "string \<Rightarrow> nat" where
  "weight s = length (filter (\<lambda>c. c \<noteq> apos \<and> \<not> sh_blank c) s)"

lemma weight_simps [simp]: "weight [] = 0" "weight (c # s) = (if c \<noteq> apos \<and> \<not> sh_blank c then 1 else 0) + weight s"
  "weight (s @ t) = weight s + weight t" "weight (rev s) = weight s"
  by (simp_all add: weight_def rev_filter[symmetric])

fun args_weight :: "sh_token list \<Rightarrow> nat" where
  "args_weight [] = 0"
| "args_weight (Semi # ts) = args_weight ts"
| "args_weight (Arg w # ts) = weight w + args_weight ts"

fun quoted_arg :: "sh_token list \<Rightarrow> bool" where
  "quoted_arg [] = False"
| "quoted_arg (Semi # ts) = quoted_arg ts"
| "quoted_arg (Arg w # ts) = (apos \<in> set w \<or> quoted_arg ts)"

definition lighter :: "sh_state \<Rightarrow> string \<Rightarrow> nat \<Rightarrow> sh_token list \<Rightarrow> bool" where
  "lighter st tok n ts \<longleftrightarrow> args_weight ts \<le> (if st = Gap then 0 else weight tok) + n \<and>
     (quoted_arg ts \<and> st \<notin> {Literal, Double} \<and> (st = Gap \<or> apos \<notin> set tok) \<longrightarrow> args_weight ts < (if st = Gap then 0 else weight tok) + n)"

lemma sh_go_weight: "sh_go st tok s = Some ts \<Longrightarrow> lighter st tok (weight s) ts"
proof (induction st tok s arbitrary: ts rule: sh_go.induct)
  case (2 tok c s)
  consider (blank) "sh_blank c" | "c = CHR '';''" | "c = bslash" | "c = apos" | "c = quot"
    | (other) "\<not> sh_blank c" "c \<noteq> CHR '';''" "c \<noteq> bslash" "c \<noteq> apos" "c \<noteq> quot" by blast
  then show ?case
  proof cases
    case blank
    then show ?thesis using 2(1)[of ts] 2(7) by (auto simp: lighter_def)
  next
    case other
    then show ?thesis using 2(6)[of ts] 2(7) by (auto simp: lighter_def split: if_splits)
  qed (use 2(2-5,7) in \<open>auto simp: lighter_def\<close>)
next
  case (4 tok c s)
  consider (blank) "sh_blank c" | "c = CHR '';''" | "c = bslash" | "c = apos" | "c = quot"
    | (other) "\<not> sh_blank c" "c \<noteq> CHR '';''" "c \<noteq> bslash" "c \<noteq> apos" "c \<noteq> quot" by blast
  then show ?case
  proof cases
    case blank
    then obtain us where "sh_go Gap [] s = Some us" "ts = Arg (rev tok) # us" using 4(7) by auto
    then show ?thesis using 4(1)[of us] blank by (auto simp: lighter_def)
  next
    case other
    then show ?thesis using 4(6)[of ts] 4(7) by (auto simp: lighter_def split: if_splits)
  qed (use 4(2-5,7) in \<open>auto simp: lighter_def\<close>)
next
  case (8 tok c s)
  show ?case
  proof (cases "c = quot")
    case True
    then show ?thesis using 8(1)[of ts] 8(3) by (simp add: lighter_def)
  next
    case False
    then have "sh_go Double (c # tok) s = Some ts" using 8(3) by (auto split: if_splits)
    from 8(2)[OF False _ this] 8(3) False show ?thesis by (auto simp: lighter_def split: if_splits)
  qed
qed (auto simp: lighter_def split: if_splits)


lemma weight_join: "weight (join '' '' ws) = sum_list (map weight ws)"
  by (induction ws rule: induct_list012) simp_all

lemma args_weight_args: "args_weight (map Arg ws) = sum_list (map weight ws)" "quoted_arg (map Arg ws) \<longleftrightarrow> list_ex (\<lambda>w. apos \<in> set w) ws"
  by (induction ws) simp_all

lemma weight_escape: "weight (ext_escape p) = weight p"
  by (induction p) (simp_all add: ext_escape_def replace_char_def)

lemma intended_unquoted:
  assumes "sh_go Single [] (m @ ext_escape pw @ '']'' @ sq @ '' '' @ join '' '' ws) = Some (map Arg ((m @ pw @ '']'') # ws))"
  shows "apos \<notin> set pw"
proof
  assume "apos \<in> set pw"
  then have "quoted_arg (map Arg ((m @ pw @ '']'') # ws))" by (simp add: args_weight_args)
  with sh_go_weight[OF assms] show False
    by (simp add: lighter_def weight_escape weight_join args_weight_args)
qed

text \<open>The line up to the password is read as words, and leaves the reader inside single quotes.\<close>

definition cfg_words :: "string option \<Rightarrow> string list" where
  "cfg_words cfg = (if str_true cfg then [''--command-config'', the cfg] else [])"

definition alter_argv :: "string \<Rightarrow> string \<Rightarrow> string option \<Rightarrow> string list" where
  "alter_argv dir bs cfg = [''KAFKA_HEAP_OPTS=-Xmx256m -Xms64m'', dir @ ''/bin/kafka-configs.sh'', ''--bootstrap-server'', bs] @
     cfg_words cfg @ [''--alter'', ''--add-config'']"

lemma configs_cmd_read:
  assumes "list_all sh_plain dir" "list_all sh_plain bs" "bs \<noteq> []" "pred_option (list_all sh_plain) cfg"
  shows "sh_go Gap [] (configs_cmd dir bs cfg @ '' '' @ r) =
    map_option (\<lambda>ts. map Arg ([''KAFKA_HEAP_OPTS=-Xmx256m -Xms64m'', dir @ ''/bin/kafka-configs.sh'', ''--bootstrap-server'', bs] @ cfg_words cfg) @ ts)
      (sh_go Gap [] r)"
proof -
  have lit: "list_all sh_plain ''KAFKA_HEAP_OPTS=''" "list_all sh_plain ''--bootstrap-server''" "list_all sh_plain ''/bin/kafka-configs.sh''"
    "list_all sh_plain ''--command-config''" "apos \<notin> set ''-Xmx256m -Xms64m''" by code_simp+
  have plain: "list_all sh_plain (dir @ ''/bin/kafka-configs.sh'')" using assms(1) lit(3) by (simp only: list_all_append simp_thms)
  have parts: "configs_cmd dir bs cfg @ '' '' @ r = ''KAFKA_HEAP_OPTS='' @ sq @ ''-Xmx256m -Xms64m'' @ sq @ '' '' @
      (dir @ ''/bin/kafka-configs.sh'') @ '' '' @ ''--bootstrap-server'' @ '' '' @ bs @ '' '' @
      (if str_true cfg then ''--command-config'' @ '' '' @ the cfg @ '' '' @ r else r)"
    by (simp add: configs_cmd_def)
  have ne: "dir @ ''/bin/kafka-configs.sh'' \<noteq> []" "''--bootstrap-server'' \<noteq> []" "''--command-config'' \<noteq> []" by simp_all
  have flag: "sh_go Gap [] (''--command-config'' @ '' '' @ p @ '' '' @ r) = map_option (\<lambda>ts. Arg ''--command-config'' # Arg p # ts) (sh_go Gap [] r)"
    if "list_all sh_plain p" "p \<noteq> []" for p
    unfolding sh_word[OF lit(4) ne(3)] sh_word[OF that] by (simp add: option.map_comp comp_def)
  have "sh_go Gap [] (if str_true cfg then ''--command-config'' @ '' '' @ the cfg @ '' '' @ r else r) =
      map_option (\<lambda>ts. map Arg (cfg_words cfg) @ ts) (sh_go Gap [] r)"
  proof (cases "str_true cfg")
    case True
    then obtain p where p: "cfg = Some p" "p \<noteq> []" by (cases cfg) (auto simp: str_true_def)
    then have "list_all sh_plain p" using assms(4) by simp
    have two: "(@) (map Arg [''--command-config'', p]) = (\<lambda>ts. Arg ''--command-config'' # Arg p # ts)" by (simp add: fun_eq_iff)
    have "cfg_words cfg = [''--command-config'', p]" using p by (simp add: cfg_words_def str_true_def)
    with flag[OF \<open>list_all sh_plain p\<close> p(2)] True p(1) show ?thesis by (simp only: two if_True option.sel)
  qed (simp add: cfg_words_def option.map_ident)
  then show ?thesis
    unfolding parts sh_open[OF lit(1)] sh_single_run[OF lit(5)] sh_blank_next sh_word[OF plain ne(1)] sh_word[OF lit(2) ne(2)]
      sh_word[OF assms(2,3)]
    by (simp add: option.map_comp comp_def)
qed

definition entity_argv :: "string \<Rightarrow> string list" where
  "entity_argv user = [''--entity-type'', ''users'', ''--entity-name'', user]"

lemma scram_cmd_read:
  assumes "list_all sh_plain dir" "list_all sh_plain bs" "bs \<noteq> []" "pred_option (list_all sh_plain) cfg"
  shows "sh_go Gap [] (ext_scram_cmd dir bs cfg mech pw user) = map_option (\<lambda>ts. map Arg (alter_argv dir bs cfg) @ ts)
     (sh_go Single [] ((mech @ ''=[password='') @ ext_escape pw @ '']'' @ sq @ '' '' @ join '' '' (entity_argv user)))"
    (is "_ = map_option _ (sh_go Single [] ?t)")
proof -
  have lit: "list_all sh_plain ''--alter''" "list_all sh_plain ''--add-config''" "list_all sh_plain []" by code_simp+
  have ne: "''--alter'' \<noteq> []" "''--add-config'' \<noteq> []" by simp_all
  have parts: "ext_scram_cmd dir bs cfg mech pw user = configs_cmd dir bs cfg @ '' '' @ ''--alter'' @ '' '' @ ''--add-config'' @ '' '' @ [] @ sq @ ?t"
    by (simp add: ext_scram_cmd_def entity_argv_def)
  show ?thesis
    unfolding parts configs_cmd_read[OF assms] sh_word[OF lit(1) ne(1)] sh_word[OF lit(2) ne(2)] sh_open[OF lit(3)]
    by (simp add: option.map_comp comp_def alter_argv_def)
qed

lemma entity_read:
  assumes "list_all sh_plain user" "user \<noteq> []"
  shows "sh_go Gap [] (join '' '' (entity_argv user)) = Some (map Arg (entity_argv user))"
proof -
  have lit: "list_all sh_plain ''--entity-type''" "list_all sh_plain ''users''" "list_all sh_plain ''--entity-name''" by code_simp+
  have ne: "''--entity-type'' \<noteq> []" "''users'' \<noteq> []" "''--entity-name'' \<noteq> []" by simp_all
  have parts: "join '' '' (entity_argv user) = ''--entity-type'' @ '' '' @ ''users'' @ '' '' @ ''--entity-name'' @ '' '' @ user"
    by (simp add: entity_argv_def)
  show ?thesis
    unfolding parts sh_word[OF lit(1) ne(1)] sh_word[OF lit(2) ne(2)] sh_word[OF lit(3) ne(3)] sh_last_word[OF assms]
    by (simp add: entity_argv_def)
qed

lemma ext_escape_append: "ext_escape (a @ b) = ext_escape a @ ext_escape b"
  by (simp add: ext_escape_def replace_char_def)

lemma ext_escape_id: "apos \<notin> set a \<Longrightarrow> ext_escape a = a"
  by (induction a) (auto simp: ext_escape_def replace_char_def)

lemma ext_escape_apos: "ext_escape (apos # b) = sq @ sq @ sq @ ext_escape b"
  by (simp add: ext_escape_def replace_char_def)

text \<open>Three single quotes close the quotes around the password and leave the reader outside of them.\<close>

lemma sh_pair: "sh_go Plain tok (sq @ sq @ r) = sh_go Plain tok r" "sh_go Plain tok (sq @ r) = sh_go Single tok r"
  "sh_go Gap tok (sq @ sq @ sq @ r) = sh_go Single [] r" "sh_go Plain tok ('';'' @ r) = map_option (\<lambda>ts. Arg (rev tok) # Semi # ts) (sh_go Gap [] r)"
  by simp_all

lemma plain_no_quote: "list_all sh_plain user \<Longrightarrow> apos \<notin> set user"
  by (auto simp: list_all_iff sh_plain_def)

lemma tail_quotes: "list_all sh_plain user \<Longrightarrow> apos \<notin> set ('' '' @ join '' '' (entity_argv user))"
  using plain_no_quote[of user] by (simp add: entity_argv_def)

lemma password_one_quote:
  assumes "apos \<notin> set m" "apos \<notin> set a" "list_all sh_plain b" "list_all sh_plain user"
  shows "sh_go Single [] (m @ ext_escape (a @ apos # b) @ '']'' @ sq @ '' '' @ join '' '' (entity_argv user)) = None"
proof -
  have t: "m @ ext_escape (a @ apos # b) @ '']'' @ sq @ '' '' @ join '' '' (entity_argv user) =
      (m @ a) @ sq @ sq @ sq @ (b @ '']'') @ sq @ '' '' @ join '' '' (entity_argv user)"
    using assms(2) plain_no_quote[OF assms(3)] by (simp add: ext_escape_append ext_escape_apos ext_escape_id del: append.simps)
  have q: "apos \<notin> set (m @ a)" using assms(1,2) by simp
  have "sh_plain CHR '']''" by code_simp
  then have b: "list_all sh_plain (b @ '']'')" using assms(3) by simp
  show ?thesis unfolding t sh_single_run[OF q] unfolding sh_pair(1) sh_plain_run[OF b]
    unfolding sh_pair(2) sh_unterminated[OF tail_quotes[OF assms(4)]] ..
qed

lemma password_exact:
  assumes "apos \<notin> set m" "apos \<notin> set a" "list_all sh_plain user" "user \<noteq> []"
  shows "sh_go Single [] (m @ ext_escape a @ '']'' @ sq @ '' '' @ join '' '' (entity_argv user)) =
    Some (map Arg ((m @ a @ '']'') # entity_argv user))"
proof -
  have t: "m @ ext_escape a @ '']'' @ sq @ '' '' @ join '' '' (entity_argv user) =
      (m @ a @ '']'') @ sq @ '' '' @ join '' '' (entity_argv user)"
    using assms(2) by (simp add: ext_escape_id del: append.simps)
  have q: "apos \<notin> set (m @ a @ '']'')" using assms(1,2) by simp
  show ?thesis unfolding t sh_single_run[OF q] sh_blank_next entity_read[OF assms(3,4)] by simp
qed

lemma safe_line: "list_all (\<lambda>x. x \<noteq> [] \<and> list_all shell_safe x) xs \<Longrightarrow> map shlex_quote xs = xs"
  by (induction xs) (simp_all add: quote_safe)

lemma safe_no_quote: "list_all shell_safe x \<Longrightarrow> apos \<notin> set x"
  using plain_no_quote[of x] shell_safe_plain by (auto simp: list_all_iff)

lemma sh_line_then: "xs \<noteq> [] \<Longrightarrow> list_all (\<lambda>x. x \<noteq> [] \<and> list_all shell_safe x) xs \<Longrightarrow>
  sh_go Gap [] (join '' '' xs @ '';'' @ r) = map_option (\<lambda>ts. map Arg xs @ Semi # ts) (sh_go Gap [] r)"
proof (induction xs rule: list_nonempty_induct)
  case (single x)
  then have "list_all sh_plain x" "x \<noteq> []" using shell_safe_plain by (auto simp: list_all_iff)
  from sh_plain_start[OF this, of "[]" "'';'' @ r"] show ?case by simp
next
  case (cons x xs)
  then have x: "list_all sh_plain x" "x \<noteq> []" using shell_safe_plain by (auto simp: list_all_iff)
  have t: "join '' '' (x # xs) @ '';'' @ r = x @ '' '' @ join '' '' xs @ '';'' @ r" using cons.hyps by (cases xs) simp_all
  have "sh_go Gap [] (join '' '' xs @ '';'' @ r) = map_option (\<lambda>ts. map Arg xs @ Semi # ts) (sh_go Gap [] r)" using cons by simp
  then show ?case unfolding t sh_word[OF x] by (simp add: option.map_comp comp_def)
qed

lemma ext_escape_two:
  "apos \<notin> set a \<Longrightarrow> apos \<notin> set b \<Longrightarrow> apos \<notin> set c \<Longrightarrow>
    ext_escape (a @ sq @ b @ sq @ c) = a @ sq @ sq @ sq @ b @ sq @ sq @ sq @ c"
  by (simp add: ext_escape_append ext_escape_apos ext_escape_id)

lemma password_injects:
  assumes "apos \<notin> set m" "apos \<notin> set a" "apos \<notin> set c" "list_all sh_plain user" "user \<noteq> []"
    and xs: "xs \<noteq> []" "list_all (\<lambda>x. x \<noteq> [] \<and> list_all shell_safe x) xs"
  shows "sh_go Single [] (m @ ext_escape (a @ sq @ '';'' @ join '' '' xs @ '';'' @ sq @ c) @ '']'' @ sq @ '' '' @ join '' '' (entity_argv user)) =
    Some (Arg (m @ a) # Semi # map Arg xs @ Semi # map Arg ((c @ '']'') # entity_argv user))"
proof -
  have "apos \<notin> set (join '' '' xs)"
    using xs(2) safe_no_quote set_join[of "'' ''" xs] by (auto simp: list_all_iff)
  then have b: "apos \<notin> set ('';'' @ join '' '' xs @ '';'')" by simp
  have e: "ext_escape (a @ sq @ '';'' @ join '' '' xs @ '';'' @ sq @ c) = a @ sq @ sq @ sq @ '';'' @ join '' '' xs @ '';'' @ sq @ sq @ sq @ c"
    using ext_escape_two[OF assms(2) b assms(3)] by simp
  have t: "m @ ext_escape (a @ sq @ '';'' @ join '' '' xs @ '';'' @ sq @ c) @ '']'' @ sq @ '' '' @ join '' '' (entity_argv user) =
      (m @ a) @ sq @ sq @ sq @ '';'' @ join '' '' xs @ '';'' @ sq @ sq @ sq @ (c @ '']'') @ sq @ '' '' @ join '' '' (entity_argv user)"
    unfolding e by (simp del: append.simps)
  have q: "apos \<notin> set (m @ a)" "apos \<notin> set (c @ '']'')" using assms(1,2,3) by simp_all
  show ?thesis unfolding t sh_single_run[OF q(1)] sh_pair(1,4) sh_line_then[OF xs] sh_pair(3) sh_single_run[OF q(2)] sh_blank_next
      entity_read[OF assms(4,5)] by simp
qed

lemma sh_split_nonempty: "sh_split ts \<noteq> []"
  by (induction ts rule: sh_split.induct) (auto split: list.splits)

lemma sh_split_then: "sh_split (map Arg ws @ ts) = (case sh_split ts of [] \<Rightarrow> [ws] | c # cs \<Rightarrow> (ws @ c) # cs)"
  by (induction ws) (auto simp: sh_split_nonempty split: list.splits)

lemma scram_cmd_at:
  assumes "list_all sh_plain dir" "list_all sh_plain bs" "bs \<noteq> []" "pred_option (list_all sh_plain) cfg"
    and "sh_go Single [] ((mech @ ''=[password='') @ ext_escape pw @ '']'' @ sq @ '' '' @ join '' '' (entity_argv user)) = r"
  shows "sh_commands (ext_scram_cmd dir bs cfg mech pw user) =
    map_option (\<lambda>ts. sh_split (map Arg (alter_argv dir bs cfg) @ ts)) r"
  using assms scram_cmd_read[OF assms(1-4)] by (simp add: sh_commands_def option.map_comp comp_def)

lemma ext_scram_facts:
  assumes "list_all sh_plain dir" "list_all sh_plain bs" "bs \<noteq> []" "pred_option (list_all sh_plain) cfg"
    and "list_all sh_plain user" "user \<noteq> []" "apos \<notin> set mech"
  shows "sh_words (ext_scram_cmd dir bs cfg mech pw user) =
      Some (alter_argv dir bs cfg @ (mech @ ''=[password='' @ pw @ '']'') # entity_argv user) \<longleftrightarrow> apos \<notin> set pw"
    and "apos \<notin> set a \<Longrightarrow> list_all sh_plain b \<Longrightarrow> sh_commands (ext_scram_cmd dir bs cfg mech (a @ sq @ b) user) = None"
    and "apos \<notin> set a \<Longrightarrow> apos \<notin> set b \<Longrightarrow> xs \<noteq> [] \<Longrightarrow> list_all (\<lambda>x. x \<noteq> [] \<and> list_all shell_safe x) xs \<Longrightarrow>
      sh_commands (ext_scram_cmd dir bs cfg mech (a @ sq @ '';'' @ join '' '' xs @ '';'' @ sq @ b) user) =
      Some [alter_argv dir bs cfg @ [mech @ ''=[password='' @ a], xs, (b @ '']'') # entity_argv user]"
proof -
  have m: "apos \<notin> set (mech @ ''=[password='')" using assms(7) by simp
  note at = scram_cmd_at[OF assms(1-4)]
  show "sh_words (ext_scram_cmd dir bs cfg mech pw user) = Some (alter_argv dir bs cfg @ (mech @ ''=[password='' @ pw @ '']'') # entity_argv user) \<longleftrightarrow>
    apos \<notin> set pw"
  proof
    assume none: "apos \<notin> set pw"
    show "sh_words (ext_scram_cmd dir bs cfg mech pw user) = Some (alter_argv dir bs cfg @ (mech @ ''=[password='' @ pw @ '']'') # entity_argv user)"
      unfolding sh_words_def at[OF password_exact[OF m none assms(5,6)]] by (simp add: sh_split_then sh_split_args flip: append.simps map_append)
  next
    assume "sh_words (ext_scram_cmd dir bs cfg mech pw user) = Some (alter_argv dir bs cfg @ (mech @ ''=[password='' @ pw @ '']'') # entity_argv user)"
    then have "sh_go Single [] ((mech @ ''=[password='') @ ext_escape pw @ '']'' @ sq @ '' '' @ join '' '' (entity_argv user)) =
        Some (map Arg (((mech @ ''=[password='') @ pw @ '']'') # entity_argv user))"
      unfolding sh_words_go scram_cmd_read[OF assms(1-4)] by auto
    then show "apos \<notin> set pw" by (rule intended_unquoted)
  qed
  show "sh_commands (ext_scram_cmd dir bs cfg mech (a @ sq @ b) user) = None" if "apos \<notin> set a" "list_all sh_plain b"
    using at[OF password_one_quote[OF m that assms(5)]] by simp
  show "sh_commands (ext_scram_cmd dir bs cfg mech (a @ sq @ '';'' @ join '' '' xs @ '';'' @ sq @ b) user) =
      Some [alter_argv dir bs cfg @ [mech @ ''=[password='' @ a], xs, (b @ '']'') # entity_argv user]"
    if "apos \<notin> set a" "apos \<notin> set b" "xs \<noteq> []" "list_all (\<lambda>x. x \<noteq> [] \<and> list_all shell_safe x) xs"
    unfolding at[OF password_injects[OF m that(1,2) assms(5,6) that(3,4)]] by (simp add: sh_split_then sh_split_args)
qed

text \<open>
  Claim C23. The password of a SCRAM user of an external cluster is put between single quotes, with every single quote in it
  replaced by three of them (the Python literal \<open>"'\''"\<close> has no backslash).  When the other parts of the line are plain, with or
  without a \<open>--command-config\<close> file, a POSIX shell reads the line as the intended command if and only if the password has no single
  quote.  Two kinds of what else can happen: one single quote before a remainder of plain characters leaves the line with an open
  quotation, so that nothing runs; and a line of plain words between two single quotes and semicolons runs as a command of its own.
  (The words include the assignment \<open>KAFKA_HEAP_OPTS=...\<close> that the shell takes from the front of the command; \<open>sh_plain\<close> characters
  are those without a meaning to the shell.)
\<close>

theorem ext_scram_password:
  assumes "list_all sh_plain dir" "list_all sh_plain bs" "bs \<noteq> []" "pred_option (list_all sh_plain) cfg"
    and "list_all sh_plain user" "user \<noteq> []" "apos \<notin> set mech"
  shows "(sh_words (ext_scram_cmd dir bs cfg mech pw user) =
      Some ([''KAFKA_HEAP_OPTS=-Xmx256m -Xms64m'', dir @ ''/bin/kafka-configs.sh'', ''--bootstrap-server'', bs] @
        (if str_true cfg then [''--command-config'', the cfg] else []) @ [''--alter'', ''--add-config'', mech @ ''=[password='' @ pw @ '']'',
         ''--entity-type'', ''users'', ''--entity-name'', user]) \<longleftrightarrow> apos \<notin> set pw) \<and>
    (apos \<notin> set a \<and> list_all sh_plain b \<longrightarrow> sh_commands (ext_scram_cmd dir bs cfg mech (a @ sq @ b) user) = None) \<and>
    (apos \<notin> set a \<and> apos \<notin> set c \<and> xs \<noteq> [] \<and> list_all (\<lambda>x. x \<noteq> [] \<and> list_all shell_safe x) xs \<longrightarrow>
      (\<exists>first last. sh_commands (ext_scram_cmd dir bs cfg mech (a @ sq @ '';'' @ join '' '' xs @ '';'' @ sq @ c) user) = Some [first, xs, last]))"
  using ext_scram_facts[OF assms] unfolding alter_argv_def cfg_words_def entity_argv_def append_assoc append.simps by blast

theorem ext_scram_password_witness:
  "sh_words (ext_scram_cmd ''/opt/kafka'' ''k1:9092'' (Some ''/tmp/c.properties'') ''SCRAM-SHA-512'' ''s3cret'' ''app'') =
     Some [''KAFKA_HEAP_OPTS=-Xmx256m -Xms64m'', ''/opt/kafka/bin/kafka-configs.sh'', ''--bootstrap-server'', ''k1:9092'', ''--command-config'',
       ''/tmp/c.properties'', ''--alter'', ''--add-config'', ''SCRAM-SHA-512=[password=s3cret]'', ''--entity-type'', ''users'', ''--entity-name'', ''app''] \<and>
   sh_commands (ext_scram_cmd ''/opt/kafka'' ''k1:9092'' (Some ''/tmp/c.properties'') ''SCRAM-SHA-512'' (''x'' @ sq @ ''y'') ''app'') = None \<and>
   (\<exists>first last. sh_commands (ext_scram_cmd ''/opt/kafka'' ''k1:9092'' (Some ''/tmp/c.properties'') ''SCRAM-SHA-512''
       (''x'' @ sq @ '';'' @ join '' '' [''rm'', ''-rf'', ''/data''] @ '';'' @ sq @ ''z'') ''app'') = Some [first, [''rm'', ''-rf'', ''/data''], last])"
proof -
  have h: "list_all sh_plain ''/opt/kafka''" "list_all sh_plain ''k1:9092''" "''k1:9092'' \<noteq> []"
    "pred_option (list_all sh_plain) (Some ''/tmp/c.properties'')"
    "list_all sh_plain ''app''" "''app'' \<noteq> []" "apos \<notin> set ''SCRAM-SHA-512''" unfolding option.pred_inject by code_simp+
  have g: "apos \<notin> set ''s3cret''" "apos \<notin> set ''x''" "list_all sh_plain ''y''" "apos \<notin> set ''z''" "[''rm'', ''-rf'', ''/data''] \<noteq> []"
    "list_all (\<lambda>x. x \<noteq> [] \<and> list_all shell_safe x) [''rm'', ''-rf'', ''/data'']" by code_simp+
  have line: "[''KAFKA_HEAP_OPTS=-Xmx256m -Xms64m'', ''/opt/kafka'' @ ''/bin/kafka-configs.sh'', ''--bootstrap-server'', ''k1:9092''] @
        (if str_true (Some ''/tmp/c.properties'') then [''--command-config'', the (Some ''/tmp/c.properties'')] else []) @
        [''--alter'', ''--add-config'', ''SCRAM-SHA-512'' @ ''=[password='' @ ''s3cret'' @ '']'', ''--entity-type'', ''users'', ''--entity-name'', ''app''] =
     [''KAFKA_HEAP_OPTS=-Xmx256m -Xms64m'', ''/opt/kafka/bin/kafka-configs.sh'', ''--bootstrap-server'', ''k1:9092'', ''--command-config'',
       ''/tmp/c.properties'', ''--alter'', ''--add-config'', ''SCRAM-SHA-512=[password=s3cret]'', ''--entity-type'', ''users'', ''--entity-name'', ''app'']"
    by (simp add: str_true_def)
  show ?thesis
    using ext_scram_password[OF h, of "''s3cret''" "''x''" "''y''" "''z''" "[''rm'', ''-rf'', ''/data'']", unfolded line] g by blast
qed

lemma fold_update:
  "distinct (map fst xs) \<Longrightarrow> map_of (fold (\<lambda>(k, v). AList.update k v) xs m) k = (case map_of xs k of Some v \<Rightarrow> Some v | None \<Rightarrow> map_of m k)"
proof (induction xs arbitrary: m)
  case (Cons x xs)
  obtain j v where x: "x = (j, v)" by fastforce
  have "map_of xs j = None" using Cons.prems x by (simp add: map_of_eq_None_iff)
  with Cons x show ?case by (simp add: AList.update_conv' split: option.splits)
qed simp

lemma map_of_names: "map_of (map (\<lambda>(k, v). (JStr k, v)) configs) (JStr n) = map_of configs n"
  by (induction configs) auto

lemma merged_lookup:
  assumes "distinct (map fst configs)" "map_of brokers bid = Some bs" "distinct (map bs_name bs)"
  shows "map_of (merged_configs brokers bid configs) k =
    (case map_of (map (\<lambda>(k, v). (JStr k, v)) configs) k of Some v \<Rightarrow> Some v
     | None \<Rightarrow> map_of (map (\<lambda>b. (bs_name b, bs_value b)) (filter keep_setting bs)) k)"
proof -
  have inner: "fold (\<lambda>b. AList.update (bs_name b) (bs_value b)) ys m = fold (\<lambda>(k, v). AList.update k v) (map (\<lambda>b. (bs_name b, bs_value b)) ys) m"
    for ys m by (induction ys arbitrary: m) simp_all
  have outer: "fold (\<lambda>(k, v). AList.update (JStr k) v) ys m = fold (\<lambda>(k, v). AList.update k v) (map (\<lambda>(k, v). (JStr k, v)) ys) m"
    for ys :: "(string \<times> json) list" and m by (induction ys arbitrary: m) auto
  have "distinct (map fst (map (\<lambda>(k, v). (JStr k, v)) configs))"
    using assms(1) by (induction configs) (auto simp: image_iff)
  moreover have "distinct (map fst (map (\<lambda>b. (bs_name b, bs_value b)) (filter keep_setting bs)))"
    using assms(3) by (simp add: comp_def distinct_map_filter)
  ultimately show ?thesis by (simp add: merged_configs_def inner outer fold_update assms(2) split: option.splits)
qed

lemma legacy_payload_facts:
  assumes "distinct (map fst configs)" "map_of brokers bid = Some bs" "distinct (map bs_name bs)"
  shows "map_of configs n = Some v \<Longrightarrow> map_of (merged_configs brokers bid configs) (JStr n) = Some v"
    and "b \<in> set bs \<Longrightarrow> bs_name b \<notin> (\<lambda>(k, v). JStr k) ` set configs \<Longrightarrow>
      map_of (merged_configs brokers bid configs) (bs_name b) = (if keep_setting b then Some (bs_value b) else None)"
proof -
  note look = merged_lookup[OF assms]
  show "map_of configs n = Some v \<Longrightarrow> map_of (merged_configs brokers bid configs) (JStr n) = Some v"
    by (simp add: look map_of_names)
  assume b: "b \<in> set bs" "bs_name b \<notin> (\<lambda>(k, v). JStr k) ` set configs"
  have "map_of (map (\<lambda>(k, v). (JStr k, v)) configs) (bs_name b) = None"
    using b(2) by (auto simp: map_of_eq_None_iff)
  moreover have "map_of (map (\<lambda>b. (bs_name b, bs_value b)) (filter keep_setting bs)) (bs_name b) = (if keep_setting b then Some (bs_value b) else None)"
    using b(1) assms(3)
  proof (induction bs)
    case (Cons x xs)
    show ?case
    proof (cases "x = b")
      case True
      then have "bs_name b \<notin> set (map bs_name xs)" using Cons.prems(2) by simp
      with True show ?thesis by (auto simp: map_of_eq_None_iff image_iff)
    next
      case False
      then have "bs_name x \<noteq> bs_name b" using Cons.prems by (auto simp: image_iff)
      with False Cons show ?thesis by simp
    qed
  qed simp
  ultimately show "map_of (merged_configs brokers bid configs) (bs_name b) = (if keep_setting b then Some (bs_value b) else None)"
    by (simp add: look)
qed

text \<open>What is reported of a sensitive setting.\<close>

abbreviation starred :: "broker_setting \<Rightarrow> bool" where
  "starred b \<equiv> bs_is_sensitive b \<longrightarrow> bs_value b = JStr ''***''"

lemma settings_starred: "settings_of xs = Inr bs \<Longrightarrow> list_all starred bs"
  by (induction xs arbitrary: bs) (auto simp: read_setting_def split: sum.splits if_splits)

lemma entry_starred: "broker_entry e = Inr ib \<Longrightarrow> list_all starred (snd ib)"
  using settings_starred by (auto simp: broker_entry_def Let_def split: sum.splits)

lemma entries_starred: "for_each (\<lambda>e. lift (broker_entry e)) xs s = (Inr ys, t) \<Longrightarrow> list_all (\<lambda>ib. list_all starred (snd ib)) ys"
  using entry_starred by (induction xs arbitrary: s ys) (auto elim!: bnd_InrE)

lemma described_starred:
  assumes "ext_describe_broker_configs K F c s = (Inr brokers, t)"
  shows "list_all (\<lambda>ib. list_all starred (snd ib)) brokers"
  using assms entries_starred
  by (auto simp: ext_describe_broker_configs_def with_client_def seqm_run finally_do_def Let_def split: prod.splits sum.splits if_splits elim!: bnd_InrE)

lemma distinct_fold_update: "distinct (map fst m) \<Longrightarrow> distinct (map fst (fold (\<lambda>x. AList.update (f x) (g x)) xs m))"
  by (induction xs arbitrary: m) (simp_all add: distinct_update)

lemma merged_keys: "distinct (map fst (merged_configs brokers bid configs))"
  unfolding merged_configs_def case_prod_beta by (intro distinct_fold_update) simp

lemma merged_other:
  assumes "distinct (map fst configs)" "map_of brokers bid = Some bs" "distinct (map bs_name bs)"
    and "k \<notin> JStr ` set (map fst configs) \<union> set (map bs_name bs)"
  shows "map_of (merged_configs brokers bid configs) k = None"
proof -
  have "map_of (map (\<lambda>(k, v). (JStr k, v)) configs) k = None" using assms(4) by (auto simp: map_of_eq_None_iff image_iff)
  moreover have "map_of (map (\<lambda>b. (bs_name b, bs_value b)) (filter keep_setting bs)) k = None"
    using assms(4) by (auto simp: map_of_eq_None_iff image_iff)
  ultimately show ?thesis by (simp add: merged_lookup[OF assms(1-3)])
qed

lemma kept_iff: "keep_setting b \<longleftrightarrow> bs_is_dynamic b \<and> \<not> bs_is_read_only b \<and>
    (\<forall>n i. bs_name b = JStr n \<and> map_of KAFKA_BROKER_CONFIGS n = Some i \<longrightarrow> ci_dynamic i)"
  by (auto simp: keep_setting_def split: json.split option.split)

text \<open>
  Claim C28. When a broker cannot alter its configuration incrementally, the whole configuration is replaced by one that is put together from
  what the broker reports: it has every requested value; of every other setting reported for the broker the reported value if the setting
  is dynamic, not read-only, and not known to the program as static, and three stars in place of that value if the setting is sensitive; and
  nothing else.  So changing any setting of such a broker overwrites its dynamic passwords with \<open>***\<close>.  Assumed are a broker that
  is described with distinct names, requested names that are distinct, and version 0 or 1 of the request.
\<close>

theorem legacy_payload:
  assumes "ext_describe_broker_configs K F c s = (Inr brokers, s1)" and "kp_alter_version K cn (wld s1) = (Inr version, w)" and "version \<le> 1"
    and "distinct (map fst configs)" "map_of brokers bid = Some bs" "distinct (map bs_name bs)"
  shows "\<exists>payload. alter_legacy K F c cn bid configs s =
      bnd (on_wld (kp_alter_legacy K cn bid payload)) (\<lambda>results. seqm (lift (legacy_result K results)) (ret ''fallback_targeted'')) (s1\<lparr>wld := w\<rparr>) \<and>
    distinct (map fst payload) \<and>
    (\<forall>n v. map_of configs n = Some v \<longrightarrow> map_of payload (JStr n) = Some v) \<and>
    (\<forall>b\<in>set bs. bs_name b \<notin> JStr ` set (map fst configs) \<longrightarrow> map_of payload (bs_name b) =
      (if bs_is_dynamic b \<and> \<not> bs_is_read_only b \<and>
          (\<forall>n i. bs_name b = JStr n \<and> map_of KAFKA_BROKER_CONFIGS n = Some i \<longrightarrow> ci_dynamic i)
       then Some (if bs_is_sensitive b then JStr ''***'' else bs_value b) else None)) \<and>
    (\<forall>k. k \<notin> JStr ` set (map fst configs) \<union> set (map bs_name bs) \<longrightarrow> map_of payload k = None)"
proof (intro exI conjI)
  show "alter_legacy K F c cn bid configs s = bnd (on_wld (kp_alter_legacy K cn bid (merged_configs brokers bid configs)))
      (\<lambda>results. seqm (lift (legacy_result K results)) (ret ''fallback_targeted'')) (s1\<lparr>wld := w\<rparr>)"
    using assms(1,3) on_wld_def[of "kp_alter_version K cn", THEN fun_cong, of s1] assms(2)
    by (simp add: alter_legacy_def bnd_run[of "ext_describe_broker_configs K F c"] bnd_run[of "on_wld (kp_alter_version K cn)"])
  show "distinct (map fst (merged_configs brokers bid configs))" by (rule merged_keys)
  show "\<forall>n v. map_of configs n = Some v \<longrightarrow> map_of (merged_configs brokers bid configs) (JStr n) = Some v"
    using legacy_payload_facts(1)[OF assms(4-6)] by blast
  have stars: "list_all starred bs"
    using described_starred[OF assms(1)] map_of_SomeD[OF assms(5)] by (auto simp: list_all_iff)
  show "\<forall>b\<in>set bs. bs_name b \<notin> JStr ` set (map fst configs) \<longrightarrow> map_of (merged_configs brokers bid configs) (bs_name b) =
      (if bs_is_dynamic b \<and> \<not> bs_is_read_only b \<and>
          (\<forall>n i. bs_name b = JStr n \<and> map_of KAFKA_BROKER_CONFIGS n = Some i \<longrightarrow> ci_dynamic i)
       then Some (if bs_is_sensitive b then JStr ''***'' else bs_value b) else None)"
  proof (intro ballI impI)
    fix b assume b: "b \<in> set bs" "bs_name b \<notin> JStr ` set (map fst configs)"
    then have "bs_name b \<notin> (\<lambda>(k, v). JStr k) ` set configs" by (auto simp: image_iff)
    from legacy_payload_facts(2)[OF assms(4-6) b(1) this] show "map_of (merged_configs brokers bid configs) (bs_name b) =
      (if bs_is_dynamic b \<and> \<not> bs_is_read_only b \<and>
          (\<forall>n i. bs_name b = JStr n \<and> map_of KAFKA_BROKER_CONFIGS n = Some i \<longrightarrow> ci_dynamic i)
       then Some (if bs_is_sensitive b then JStr ''***'' else bs_value b) else None)"
      using stars b(1) unfolding kept_iff[symmetric] by (simp add: list_all_iff)
  qed
  show "\<forall>k. k \<notin> JStr ` set (map fst configs) \<union> set (map bs_name bs) \<longrightarrow> map_of (merged_configs brokers bid configs) k = None"
    using merged_other[OF assms(4-6)] by blast
qed

text \<open>A broker with a dynamic password; its world is the configuration it was given last.\<close>

definition old_kafka :: "(json \<times> json) list kafka_py" where
  "old_kafka = \<lparr>kp_open = (\<lambda>cn. ret ()), kp_close = (\<lambda>cn. ret ()), kp_is_kafka_error = (\<lambda>e. False),
     kp_describe_cluster = (\<lambda>cn. ret \<lparr>cd_brokers = [\<lparr>bd_node_id = 1, bd_host = ''k1'', bd_port = 9092, bd_rack = None\<rparr>],
       cd_controller_id = None, cd_cluster_id = None\<rparr>),
     kp_software_version = (\<lambda>cn. ret None), kp_check_version = (\<lambda>cn. ret []),
     kp_list_topics = (\<lambda>cn. ret []), kp_describe_topics = (\<lambda>cn ts. ret []),
     kp_describe_configs = (\<lambda>cn k ns. ret [[[JInt 0, JNull, JInt 4, JStr ''1'', JArr [JArr [JStr ''ssl.keystore.password'', JNull,
       JBool False, JInt 3, JBool True, JArr []]]]]]),
     kp_create_topic = (\<lambda>cn n p f. ret ()), kp_delete_topic = (\<lambda>cn n. ret ()), kp_create_partitions = (\<lambda>cn n p. ret ()),
     kp_alter_configs = (\<lambda>cn n cs. ret ()), kp_incremental_alter = (\<lambda>cn b cs. ret ()), kp_alter_version = (\<lambda>cn. ret 1),
     kp_alter_legacy = (\<lambda>cn b cs w. (Inr [], cs)), kp_error_text = (\<lambda>n. []), kp_list_groups = (\<lambda>cn. ret []), kp_describe_groups = (\<lambda>cn gs. ret []),
     kp_group_offsets = (\<lambda>cn g. ret []), kp_produce = (\<lambda>cn t k v. ret (t, 0, 0)), kp_consume = (\<lambda>cn t b n. ret []),
     kp_decode = Inr, kp_decode_replace = (\<lambda>s. s), kp_describe_acls = (\<lambda>cn f. ret []), kp_create_acl = (\<lambda>cn f. ret ()),
     kp_delete_acls = (\<lambda>cn f. ret ())\<rparr>"

definition no_fernet :: fernet where
  "no_fernet = \<lparr>fe_encrypt = (\<lambda>d. []), fe_decrypt = (\<lambda>s. None)\<rparr>"

definition demo_conn :: conn where
  "demo_conn = \<lparr>cn_bootstrap = [''k1:9092''], cn_protocol = ''PLAINTEXT'', cn_tls = None, cn_sasl = None\<rparr>"

definition demo_password :: broker_setting where
  "demo_password = \<lparr>bs_name = JStr ''ssl.keystore.password'', bs_value = JStr ''***'', bs_is_default = False,
     bs_is_dynamic = True, bs_is_sensitive = True, bs_is_read_only = False\<rparr>"

theorem legacy_payload_witness:
  "\<exists>t. alter_legacy old_kafka no_fernet (bare_cluster ''c1'' ''east'') demo_conn 1 [(''log.retention.ms'', JStr ''1000'')] (plain_sys []) =
      (Inr ''fallback_targeted'', t) \<and>
    map_of (wld t) (JStr ''log.retention.ms'') = Some (JStr ''1000'') \<and> map_of (wld t) (JStr ''ssl.keystore.password'') = Some (JStr ''***'')"
proof -
  let ?s = "plain_sys [] :: (json \<times> json) list sys" and ?new = "[(''log.retention.ms'', JStr ''1000'')]"
  have described: "ext_describe_broker_configs old_kafka no_fernet (bare_cluster ''c1'' ''east'') ?s = (Inr [(1, [demo_password])], ?s)"
    by code_simp
  have version: "kp_alter_version old_kafka demo_conn (wld ?s) = (Inr 1, wld ?s)" by (simp add: old_kafka_def ret_def)
  have sent: "on_wld (kp_alter_legacy old_kafka demo_conn 1 p) u = (Inr [], u\<lparr>wld := p\<rparr>)" for p u
    by (simp add: old_kafka_def on_wld_def)
  have known: "map_of KAFKA_BROKER_CONFIGS ''ssl.keystore.password'' = None" by code_simp
  from legacy_payload[OF described version, of ?new 1 "[demo_password]"] obtain payload where
    "alter_legacy old_kafka no_fernet (bare_cluster ''c1'' ''east'') demo_conn 1 ?new ?s =
      bnd (on_wld (kp_alter_legacy old_kafka demo_conn 1 payload)) (\<lambda>results. seqm (lift (legacy_result old_kafka results)) (ret ''fallback_targeted'')) (?s\<lparr>wld := wld ?s\<rparr>)"
    "map_of payload (JStr ''log.retention.ms'') = Some (JStr ''1000'')" "map_of payload (JStr ''ssl.keystore.password'') = Some (JStr ''***'')"
    by (auto simp: demo_password_def known)
  then show ?thesis by (simp add: bnd_run seqm_run sent legacy_result_def)
qed

end
