(* ===== verification/Kafka_Admin.thy ===== *)
theory Kafka_Admin
  imports External_Admin Agent_Deployer
begin

text \<open>
  The administration of topics, groups, users, access control lists and partitions: the operations of
  \<open>services/kafka_admin.py\<close> and their routes in \<open>api/topics.py\<close>, \<open>api/rebalance.py\<close> and \<open>api/security.py\<close>.  For a managed cluster
  they run the Kafka tools on the host of a broker, through its agent or over SSH; for an external one they call
  \<open>External_Admin\<close>.  Shown: that an agent is given the arguments a shell would read, what quoting does and does not hold, how long
  a listing is kept, and which operations leave an audit row.
\<close>

section \<open>Surroundings\<close>

text \<open>
  What the operations use of other modules and libraries: the hosts, kafka-python, Fernet for connection secrets (\<open>kx_fernet\<close>) and for
  texts (\<open>kx_encrypt\<close>), the settings, \<open>repr\<close>, \<open>json.dumps\<close> and \<open>json.loads\<close> (\<open>None\<close> for a text it rejects).
\<close>

record 'w kafka_env =
  kx_remote :: "'w remote"
  kx_kafka :: "'w kafka_py"
  kx_fernet :: fernet
  kx_encrypt :: "string \<Rightarrow> string"
  kx_settings :: settings
  kx_repr :: "json \<Rightarrow> string"
  kx_dumps :: "json \<Rightarrow> string"
  kx_loads :: "string \<Rightarrow> json option"

text \<open>An answer with the shape it has for managed or for external clusters.\<close>

datatype ('m, 'e) shaped = Managed 'm | External 'e

section \<open>The cache of topic listings\<close>

definition TOPIC_LIST_CACHE_TTL :: int where "TOPIC_LIST_CACHE_TTL = 5"

definition topic_list_cached :: "'w remote \<Rightarrow> string \<Rightarrow> 'w sys \<Rightarrow> topic_info list option" where
  "topic_list_cached R cid s =
     (case map_of (topic_cache (tasks s)) cid of
        None \<Rightarrow> None
      | Some (time, topics) \<Rightarrow> if r_clock R (wld s) - time < TOPIC_LIST_CACHE_TTL then Some topics else None)"

definition upd_topic_cache :: "('w \<Rightarrow> (string \<times> int \<times> topic_info list) list \<Rightarrow> (string \<times> int \<times> topic_info list) list) \<Rightarrow> ('w sys, unit) io" where
  "upd_topic_cache f = modify (\<lambda>s. s\<lparr>tasks := (tasks s)\<lparr>topic_cache := f (wld s) (topic_cache (tasks s))\<rparr>\<rparr>)"

definition topic_list_set :: "'w remote \<Rightarrow> string \<Rightarrow> topic_info list \<Rightarrow> ('w sys, unit) io" where
  "topic_list_set R cid topics = upd_topic_cache (\<lambda>w. AList.update cid (r_clock R w, topics))"

definition topic_list_invalidate :: "string \<Rightarrow> ('w sys, unit) io" where
  "topic_list_invalidate cid = upd_topic_cache (\<lambda>w. AList.delete cid)"

section \<open>Finding a broker and running a tool\<close>

definition external_cluster :: "string \<Rightarrow> ('w sys, cluster option) io" where
  "external_cluster cid =
     bnd (asks sess) (\<lambda>d.
     case find_cluster d cid of
       None \<Rightarrow> raise (ValueError ''Cluster not found'')
     | Some c \<Rightarrow> ret (if is_external c then Some c else None))"

definition external_only_unsupported :: "string \<Rightarrow> ('w sys, 'a) io" where
  "external_only_unsupported operation = raise (ValueError (operation @
     '' is not supported on externally-connected clusters yet '' @ [CHR 0xE2, CHR 0x80, CHR 0x94] @
     '' the action requires SSH access to broker hosts that Tantor doesn'' @ sq @ ''t have.''))"

definition first_broker :: "tables \<Rightarrow> string \<Rightarrow> service option" where
  "first_broker d cid = List.find (\<lambda>s. s_cluster_id s = cid \<and> s_role s \<in> {''broker'', ''broker_controller''}) (services d)"

definition get_broker_with_paths :: "'w kafka_env \<Rightarrow> string \<Rightarrow> ('w sys, host \<times> string \<times> string) io" where
  "get_broker_with_paths E cid =
     bnd (asks sess) (\<lambda>d.
     case first_broker d cid of
       None \<Rightarrow> raise (ValueError ''No broker found in cluster'')
     | Some svc \<Rightarrow>
        (case find_host d (s_host_id svc) of
           None \<Rightarrow> raise (ValueError ''Broker host not found'')
         | Some h \<Rightarrow>
            let c = find_cluster d cid in
            bnd (lift (strict_config (case c of None \<Rightarrow> None | Some x \<Rightarrow> c_config_json x))) (\<lambda>config.
            bnd (lift (as_dict config)) (\<lambda>cfg.
            ret (h, h_ip_address h @ '':'' @ str_of (kx_repr E) (jget_default cfg ''listener_port'' (JInt 9092)),
                 case c of None \<Rightarrow> DEFAULT_INSTALL_DIR (kx_settings E) | Some x \<Rightarrow> install_dir (kx_settings E) x)))))"

definition get_broker :: "'w kafka_env \<Rightarrow> string \<Rightarrow> ('w sys, host \<times> string) io" where
  "get_broker E cid = bnd (get_broker_with_paths E cid) (\<lambda>(h, boot, kh). ret (h, boot))"

text \<open>The text before and after the last occurrence (\<open>rfind\<close>).\<close>

fun last_sub :: "string \<Rightarrow> string \<Rightarrow> (string \<times> string) option" where
  "last_sub p [] = None"
| "last_sub p (c # s) =
     (case last_sub p s of
        Some (a, b) \<Rightarrow> Some (c # a, b)
      | None \<Rightarrow> if starts_with (c # s) p then Some ([], drop (length p) (c # s)) else None)"

definition verb_map :: "(string \<times> string) list" where
  "verb_map = [(''kafka-topics.sh'', ''topics''), (''kafka-configs.sh'', ''configs''), (''kafka-acls.sh'', ''acls''),
     (''kafka-consumer-groups.sh'', ''consumer_groups'')]"

fun invocation_args :: "string list \<Rightarrow> string \<times> string option \<times> string list \<Rightarrow> string \<times> string option \<times> string list" where
  "invocation_args [] acc = acc"
| "invocation_args [t] (boot, config, extra) = (boot, config, extra @ [t])"
| "invocation_args (t # v # ts) (boot, config, extra) =
     (if t = ''--bootstrap-server'' then invocation_args ts (v, config, extra)
      else if t = ''--command-config'' then invocation_args ts (boot, Some v, extra)
      else invocation_args (v # ts) (boot, config, extra @ [t]))"

definition parse_kafka_invocation :: "string \<Rightarrow> (string \<times> string \<times> string \<times> string list \<times> string option) option" where
  "parse_kafka_invocation cmd =
     (case shlex_split cmd of
        Inl e \<Rightarrow> None
      | Inr [] \<Rightarrow> None
      | Inr (script # ts) \<Rightarrow>
          if \<not> contains script ''/bin/kafka-'' \<or> \<not> ends_with script ''.sh'' then None
          else (case last_sub ''/bin/'' script of
              None \<Rightarrow> None
            | Some (idir, base) \<Rightarrow>
               (case map_of verb_map base of
                  None \<Rightarrow> None
                | Some verb \<Rightarrow>
                   (case invocation_args ts ([], None, []) of (boot, config, extra) \<Rightarrow>
                      if boot = [] then None else Some (verb, idir, boot, extra, config)))))"

text \<open>Whatever goes wrong with the agent, the command runs over SSH.\<close>

definition run_over_ssh :: "'w remote \<Rightarrow> host \<Rightarrow> string \<Rightarrow> int \<Rightarrow> ('w sys, int \<times> string \<times> string) io" where
  "run_over_ssh R h cmd timeout = seqm (ssh_connect R h) (exec_command R h cmd timeout)"

definition run_kafka_cmd :: "'w remote \<Rightarrow> host \<Rightarrow> string \<Rightarrow> int \<Rightarrow> ('w sys, int \<times> string \<times> string) io" where
  "run_kafka_cmd R h cmd timeout =
     bnd (agent_available R (h_id h)) (\<lambda>available.
     if \<not> available then run_over_ssh R h cmd timeout
     else (case parse_kafka_invocation cmd of
         None \<Rightarrow> run_over_ssh R h cmd timeout
       | Some (verb, idir, boot, extra, config) \<Rightarrow>
          bnd (attempt (kafka_cli R h verb boot idir extra config timeout)) (\<lambda>r.
          case r of
            Inl e \<Rightarrow> run_over_ssh R h cmd timeout
          | Inr (ok, out, err) \<Rightarrow> ret (if ok then 0 else 1, out, err))))"

text \<open>A tool of the cluster with its arguments, and the output unless it fails.\<close>

definition tool_cmd :: "string \<Rightarrow> string \<Rightarrow> string \<Rightarrow> string \<Rightarrow> string" where
  "tool_cmd kh script boot args = kh @ ''/bin/'' @ script @ '' --bootstrap-server '' @ boot @ args"

definition run_tool :: "'w kafka_env \<Rightarrow> string \<Rightarrow> string \<Rightarrow> string \<Rightarrow> int \<Rightarrow> string \<Rightarrow> ('w sys, string) io" where
  "run_tool E cid script args timeout failed =
     bnd (get_broker_with_paths E cid) (\<lambda>(h, boot, kh).
     bnd (run_kafka_cmd (kx_remote E) h (tool_cmd kh script boot args) timeout) (\<lambda>(rc, out, err).
     if rc \<noteq> 0 then raise (ValueError (failed @ '': '' @ err)) else ret out))"

text \<open>The external branch comes first in every operation.\<close>

definition dispatch :: "string \<Rightarrow> (cluster \<Rightarrow> ('w sys, 'a) io) \<Rightarrow> ('w sys, 'a) io \<Rightarrow> ('w sys, 'a) io" where
  "dispatch cid ext managed = bnd (external_cluster cid) (\<lambda>c. case c of Some x \<Rightarrow> ext x | None \<Rightarrow> managed)"

text \<open>The actor is the user of the request; a deployment has none.\<close>

definition audit :: "fresh \<Rightarrow> user option \<Rightarrow> string \<Rightarrow> string \<Rightarrow> string \<Rightarrow> string \<Rightarrow> string option \<Rightarrow> ('w sys, unit) io" where
  "audit fr actor cid action rtype rname details =
     upd_sess (\<lambda>d. d\<lparr>audit_logs := audit_logs d @ [\<lparr>au_id = f_audit_id fr, au_cluster_id = cid, au_action = action, au_resource_type = rtype,
       au_resource_name = rname, au_details = details, au_actor_user_id = map_option u_id actor, au_actor_username = map_option u_username actor,
       au_created_at = f_now fr\<rparr>]\<rparr>)"

section \<open>Topics\<close>

definition visible_topic :: "topic_desc \<Rightarrow> bool" where
  "visible_topic d \<longleftrightarrow> str_true (td_topic d) \<and> \<not> starts_with (the (td_topic d)) ''__''"

definition list_topics_via_kafka_python :: "'w kafka_py \<Rightarrow> string \<Rightarrow> ('w sys, topic_info list) io" where
  "list_topics_via_kafka_python K boot =
     (let cn = \<lparr>cn_bootstrap = [boot], cn_protocol = ''PLAINTEXT'', cn_tls = None, cn_sasl = None\<rparr> in
      with_client K cn (bnd (on_wld (kp_describe_topics K cn None)) (\<lambda>descs. ret (map topic_row (filter visible_topic descs)))))"

definition list_topics :: "'w kafka_env \<Rightarrow> string \<Rightarrow> ('w sys, topic_info list) io" where
  "list_topics E cid =
     (let R = kx_remote E; keep = (\<lambda>topics. seqm (topic_list_set R cid topics) (ret topics)) in
      bnd (asks (topic_list_cached R cid)) (\<lambda>cached.
      case cached of
        Some topics \<Rightarrow> ret topics
      | None \<Rightarrow>
          dispatch cid (\<lambda>c. bnd (ext_list_topics (kx_kafka E) (kx_fernet E) c) keep)
            (bnd (get_broker_with_paths E cid) (\<lambda>(h, boot, kh).
             bnd (attempt (list_topics_via_kafka_python (kx_kafka E) boot)) (\<lambda>r.
             case r of
               Inr topics \<Rightarrow> keep topics
             | Inl e \<Rightarrow>
                 bnd (run_kafka_cmd R h (tool_cmd kh ''kafka-topics.sh'' boot '' --describe'') 60) (\<lambda>(rc, out, err).
                 if rc \<noteq> 0 then raise (ValueError (''Failed to list topics: '' @ err))
                 else bnd (lift (parse_all_topics_describe out)) keep))))))"

definition get_topic_detail :: "'w kafka_env \<Rightarrow> string \<Rightarrow> string \<Rightarrow> ('w sys, (topic_info, ext_topic_detail) shaped) io" where
  "get_topic_detail E cid name =
     dispatch cid (\<lambda>c. bnd (ext_get_topic_detail (kx_kafka E) (kx_fernet E) c name) (\<lambda>t. ret (External t)))
       (bnd (run_tool E cid ''kafka-topics.sh'' ('' --describe --topic '' @ name) 30 ''Failed to describe topic'') (\<lambda>out.
        bnd (lift (parse_topic_describe name out)) (\<lambda>t. ret (Managed t))))"

definition create_topic_args :: "string \<Rightarrow> int \<Rightarrow> int \<Rightarrow> (string \<times> string) list \<Rightarrow> string" where
  "create_topic_args name partitions rf config =
     '' --create --topic '' @ name @ '' --partitions '' @ show_int partitions @ '' --replication-factor '' @ show_int rf @
     concat (map (\<lambda>(k, v). '' --config '' @ k @ ''='' @ v) config)"

text \<open>The result is the \<open>message\<close>, which only managed clusters have.\<close>

definition create_topic :: "'w kafka_env \<Rightarrow> string \<Rightarrow> string \<Rightarrow> int \<Rightarrow> int \<Rightarrow> (string \<times> string) list \<Rightarrow> ('w sys, string option) io" where
  "create_topic E cid name partitions rf config =
     dispatch cid
       (\<lambda>c. seqm (ext_create_topic (kx_kafka E) (kx_fernet E) c name partitions rf) (seqm (topic_list_invalidate cid) (ret None)))
       (bnd (run_tool E cid ''kafka-topics.sh'' (create_topic_args name partitions rf config) 30 ''Failed to create topic'') (\<lambda>out.
        seqm (topic_list_invalidate cid) (ret (Some (if out = [] then ''Topic created'' else out)))))"

definition delete_topic :: "'w kafka_env \<Rightarrow> string \<Rightarrow> string \<Rightarrow> ('w sys, unit) io" where
  "delete_topic E cid name =
     dispatch cid
       (\<lambda>c. seqm (ext_delete_topic (kx_kafka E) (kx_fernet E) c name) (topic_list_invalidate cid))
       (seqm (run_tool E cid ''kafka-topics.sh'' ('' --delete --topic '' @ name) 30 ''Failed to delete topic'') (topic_list_invalidate cid))"

fun dict_items :: "json \<Rightarrow> exn + (string \<times> json) list" where
  "dict_items (JObj kvs) = Inr kvs"
| "dict_items _ = Inl (Exn ''AttributeError'' ''object has no attribute items'')"

definition alter_topic_args :: "(json \<Rightarrow> string) \<Rightarrow> string \<Rightarrow> (string \<times> json) list \<Rightarrow> string" where
  "alter_topic_args rp name configs =
     '' --alter --entity-type topics --entity-name '' @ name @ '' --add-config '' @ join '','' (map (\<lambda>(k, v). k @ ''='' @ str_of rp v) configs)"

definition alter_topic_config :: "'w kafka_env \<Rightarrow> fresh \<Rightarrow> user \<Rightarrow> string \<Rightarrow> string \<Rightarrow> json \<Rightarrow> ('w sys, unit) io" where
  "alter_topic_config E fr actor cid name configs =
     (let done = seqm (audit fr (Some actor) cid ''topic_config_altered'' ''topic'' name (Some (str_of (kx_repr E) configs))) commit in
      dispatch cid
        (\<lambda>c. bnd (lift (dict_items configs)) (\<lambda>items. seqm (ext_alter_topic_config (kx_kafka E) (kx_fernet E) c name items) done))
        (bnd (get_broker_with_paths E cid) (\<lambda>(h, boot, kh).
         bnd (lift (dict_items configs)) (\<lambda>items.
         bnd (run_kafka_cmd (kx_remote E) h (tool_cmd kh ''kafka-configs.sh'' boot (alter_topic_args (kx_repr E) name items)) 30) (\<lambda>(rc, out, err).
         if rc \<noteq> 0 then raise (ValueError (''Failed to alter topic config: '' @ err)) else done)))))"

definition partitions_of :: "(topic_info, ext_topic_detail) shaped \<Rightarrow> int" where
  "partitions_of t = (case t of Managed m \<Rightarrow> ti_partitions m | External e \<Rightarrow> xt_partitions e)"

definition increase_partitions :: "'w kafka_env \<Rightarrow> fresh \<Rightarrow> user \<Rightarrow> string \<Rightarrow> string \<Rightarrow> int \<Rightarrow> ('w sys, unit) io" where
  "increase_partitions E fr actor cid name n =
     (let done = (\<lambda>details. seqm (audit fr (Some actor) cid ''topic_partitions_increased'' ''topic'' name (Some details)) commit) in
      dispatch cid
        (\<lambda>c. seqm (ext_increase_partitions (kx_kafka E) (kx_fernet E) c name n) (done (''to '' @ show_int n)))
        (bnd (get_broker_with_paths E cid) (\<lambda>(h, boot, kh).
         bnd (get_topic_detail E cid name) (\<lambda>detail.
         let current = partitions_of detail in
         if n \<le> current
         then raise (ValueError (''New partition count ('' @ show_int n @ '') must be greater than current ('' @ show_int current @ '')''))
         else bnd (run_kafka_cmd (kx_remote E) h (tool_cmd kh ''kafka-topics.sh'' boot
                ('' --alter --topic '' @ name @ '' --partitions '' @ show_int n)) 30) (\<lambda>(rc, out, err).
           if rc \<noteq> 0 then raise (ValueError (''Failed to increase partitions: '' @ err))
           else done (''from '' @ show_int current @ '' to '' @ show_int n))))))"

section \<open>Consumer groups and messages\<close>

definition list_consumer_groups :: "'w kafka_env \<Rightarrow> string \<Rightarrow> ('w sys, (group_info list, ext_group list) shaped) io" where
  "list_consumer_groups E cid =
     dispatch cid (\<lambda>c. bnd (ext_list_consumer_groups_with_lag (kx_kafka E) (kx_fernet E) c) (\<lambda>gs. ret (External gs)))
       (bnd (get_broker_with_paths E cid) (\<lambda>(h, boot, kh).
        bnd (run_kafka_cmd (kx_remote E) h (tool_cmd kh ''kafka-consumer-groups.sh'' boot '' --list'') 30) (\<lambda>(rc, out, err).
        if rc \<noteq> 0 then raise (ValueError (''Failed to list consumer groups: '' @ err))
        else
          let groups = group_ids out in
          if groups = [] then ret (Managed [])
          else bnd (run_kafka_cmd (kx_remote E) h (tool_cmd kh ''kafka-consumer-groups.sh'' boot
                 ('' --describe '' @ join '' '' (map ((@) ''--group '') groups))) 60) (\<lambda>(rc2, out2, err2).
            if rc2 \<noteq> 0 then ret (Managed [])
            else ret (Managed (group_sections groups (splitlines out2) None))))))"

definition get_consumer_group_detail :: "'w kafka_env \<Rightarrow> string \<Rightarrow> string \<Rightarrow> ('w sys, (group_info, ext_group) shaped) io" where
  "get_consumer_group_detail E cid gid =
     dispatch cid (\<lambda>c. bnd (ext_get_consumer_group_detail (kx_kafka E) (kx_fernet E) c gid) (\<lambda>g. ret (External g)))
       (bnd (run_tool E cid ''kafka-consumer-groups.sh'' ('' --describe --group '' @ gid) 30 ''Failed to describe group'') (\<lambda>out.
        ret (Managed (parse_consumer_group gid out))))"

definition produce_cmd :: "string \<Rightarrow> string \<Rightarrow> string \<Rightarrow> string option \<Rightarrow> string \<Rightarrow> string" where
  "produce_cmd kh boot topic key v =
     (let producer = '' | '' @ kh @ ''/bin/kafka-console-producer.sh --bootstrap-server '' @ boot @ '' --topic '' @ topic in
      if str_true key
      then ''echo '' @ sq @ sq_escape (the key) @ '':'' @ sq_escape v @ sq @ producer @ '' --property parse.key=true --property key.separator=:''
      else ''echo '' @ sq @ sq_escape v @ sq @ producer)"

definition produce_message :: "'w kafka_env \<Rightarrow> string \<Rightarrow> string \<Rightarrow> string option \<Rightarrow> string \<Rightarrow> ('w sys, bool \<times> string) io" where
  "produce_message E cid topic key v =
     dispatch cid (\<lambda>c. ext_produce_message (kx_kafka E) (kx_fernet E) c topic key v)
       (bnd (get_broker_with_paths E cid) (\<lambda>(h, boot, kh).
        bnd (run_kafka_cmd (kx_remote E) h (produce_cmd kh boot topic key v) 15) (\<lambda>(rc, out, err).
        ret (if rc \<noteq> 0 then (False, ''Failed: '' @ err) else (True, ''Message produced successfully'')))))"

definition consume_cmd :: "string \<Rightarrow> string \<Rightarrow> string \<Rightarrow> bool \<Rightarrow> int \<Rightarrow> string option \<Rightarrow> int \<Rightarrow> string" where
  "consume_cmd kh boot topic from_beginning max_messages group_id timeout_ms =
     join '' '' ([kh @ ''/bin/kafka-console-consumer.sh'', ''--bootstrap-server '' @ boot, ''--topic '' @ topic,
       ''--max-messages '' @ show_int max_messages, ''--timeout-ms '' @ show_int timeout_ms, ''--property print.timestamp=true'',
       ''--property print.key=true'', ''--property print.offset=true'', ''--property print.partition=true'', ''--property print.headers=true''] @
       (if from_beginning then [''--from-beginning''] else []) @
       (if str_true group_id then [''--group '' @ sq @ sq_escape (the group_id) @ sq] else [])) @ '' 2>/dev/null''"

definition consume_messages :: "'w kafka_env \<Rightarrow> string \<Rightarrow> string \<Rightarrow> bool \<Rightarrow> int \<Rightarrow> string option \<Rightarrow> int \<Rightarrow> ('w sys, message list) io" where
  "consume_messages E cid topic from_beginning max_messages group_id timeout_ms =
     dispatch cid (\<lambda>c. ext_consume_messages (kx_kafka E) (kx_fernet E) c topic max_messages timeout_ms from_beginning)
       (bnd (get_broker_with_paths E cid) (\<lambda>(h, boot, kh).
        bnd (run_kafka_cmd (kx_remote E) h (consume_cmd kh boot topic from_beginning max_messages group_id timeout_ms) 30)
          (\<lambda>(rc, out, err). ret (parse_messages out))))"

section \<open>Validation\<close>

definition create_step :: "'w kafka_env \<Rightarrow> string \<Rightarrow> bool \<Rightarrow> ('w sys, bool \<times> validation_step list) io" where
  "create_step E cid create =
     (if \<not> create then ret (True, [])
      else bnd (attempt (create_topic E cid TEST_TOPIC 1 1 [])) (\<lambda>r. ret (case r of
          Inr _ \<Rightarrow> (True, [vstep ''create_test_topic'' True (''Created topic '' @ sq @ TEST_TOPIC @ sq) No_Data])
        | Inl e \<Rightarrow> if contains (lower (exn_str e)) ''already exists''
            then (True, [vstep ''create_test_topic'' True (''Topic '' @ sq @ TEST_TOPIC @ sq @ '' already exists'') No_Data])
            else (False, [vstep ''create_test_topic'' False (exn_str e) No_Data]))))"

definition produce_step :: "'w kafka_env \<Rightarrow> string \<Rightarrow> ('w sys, validation_step) io" where
  "produce_step E cid =
     bnd (asks (\<lambda>s. r_clock (kx_remote E) (wld s))) (\<lambda>now.
     bnd (attempt (produce_message E cid TEST_TOPIC (Some ''validation-key'')
         (''{'' @ dq @ ''validation'' @ dq @ '': true, '' @ dq @ ''timestamp'' @ dq @ '': '' @ show_int now @ ''}''))) (\<lambda>r.
     ret (case r of Inl e \<Rightarrow> vstep ''produce_message'' False (exn_str e) No_Data
       | Inr (ok, msg) \<Rightarrow> vstep ''produce_message'' ok msg No_Data)))"

definition consume_step :: "'w kafka_env \<Rightarrow> string \<Rightarrow> ('w sys, validation_step) io" where
  "consume_step E cid =
     seqm (sleep (kx_remote E) 2)
    (bnd (attempt (consume_messages E cid TEST_TOPIC True 5 None 15000)) (\<lambda>r. ret (case r of
       Inl e \<Rightarrow> vstep ''consume_message'' False (exn_str e) No_Data
     | Inr ms \<Rightarrow> let found = mentions ''validation'' ms in
         vstep ''consume_message'' found
           (count_text ''Consumed'' ms ''message(s)'' @ '', validation message '' @ (if found then ''found'' else ''not found'')) (Records ms))))"

definition cleanup_step :: "'w kafka_env \<Rightarrow> string \<Rightarrow> bool \<Rightarrow> ('w sys, validation_step list) io" where
  "cleanup_step E cid create =
     (if \<not> create then ret []
      else bnd (attempt (delete_topic E cid TEST_TOPIC)) (\<lambda>r. ret (case r of
          Inr _ \<Rightarrow> [vstep ''cleanup'' True ''Cleaned up test topic'' No_Data]
        | Inl e \<Rightarrow> [vstep ''cleanup'' True ''Test topic cleanup skipped'' No_Data])))"

definition validate_managed :: "'w kafka_env \<Rightarrow> string \<Rightarrow> bool \<Rightarrow> ('w sys, validation) io" where
  "validate_managed E cid create =
     bnd (attempt (list_topics E cid)) (\<lambda>r.
     case r of
       Inl e \<Rightarrow> ret \<lparr>vl_steps = [vstep ''list_topics'' False (exn_str e) No_Data], vl_success = False\<rparr>
     | Inr topics \<Rightarrow>
       let s1 = vstep ''list_topics'' True (count_text ''Found'' topics ''topic(s)'') (Names (map ti_name topics)) in
       bnd (create_step E cid create) (\<lambda>(go, s2).
       if \<not> go then ret \<lparr>vl_steps = s1 # s2, vl_success = False\<rparr>
       else bnd (produce_step E cid) (\<lambda>s3.
         if \<not> vs_success s3 then ret \<lparr>vl_steps = s1 # s2 @ [s3], vl_success = False\<rparr>
         else bnd (consume_step E cid) (\<lambda>s4.
         bnd (cleanup_step E cid create) (\<lambda>s5.
         ret \<lparr>vl_steps = s1 # s2 @ [s3, s4] @ s5, vl_success = vs_success s4\<rparr>)))))"

definition validate_cluster :: "'w kafka_env \<Rightarrow> string \<Rightarrow> bool \<Rightarrow> ('w sys, validation) io" where
  "validate_cluster E cid create =
     dispatch cid (\<lambda>c. ext_validate_cluster (kx_kafka E) (kx_fernet E) c create) (validate_managed E cid create)"

section \<open>SCRAM users\<close>

record scram_row =
  sr_id :: string
  sr_cluster_id :: string
  sr_username :: string
  sr_mechanism :: string
  sr_created_at :: "int option"
  sr_updated_at :: "int option"

text \<open>What the operations on a user return; \<open>None\<close> for a key that is not there.\<close>

record scram_result =
  sc_id :: "string option"
  sc_username :: string
  sc_mechanism :: "string option"
  sc_password :: "string option"
  sc_message :: "string option"

definition scram_row_of :: "tables \<Rightarrow> string \<Rightarrow> string \<times> string \<Rightarrow> scram_row" where
  "scram_row_of d cid = (\<lambda>(name, mechanism).
     let local = by_id ku_username (filter (\<lambda>u. ku_cluster_id u = cid) (kafka_users d)) name in
     \<lparr>sr_id = (case local of Some u \<Rightarrow> ku_id u | None \<Rightarrow> []), sr_cluster_id = cid, sr_username = name, sr_mechanism = mechanism,
      sr_created_at = map_option ku_created_at local, sr_updated_at = map_option ku_updated_at local\<rparr>)"

definition ext_scram_row :: "string \<Rightarrow> string \<times> string \<Rightarrow> scram_row" where
  "ext_scram_row cid = (\<lambda>(name, mechanism). \<lparr>sr_id = [], sr_cluster_id = cid, sr_username = name, sr_mechanism = mechanism,
     sr_created_at = None, sr_updated_at = None\<rparr>)"

definition list_scram_users :: "'w kafka_env \<Rightarrow> string \<Rightarrow> ('w sys, scram_row list) io" where
  "list_scram_users E cid =
     dispatch cid (\<lambda>c. bnd (ext_list_scram_users (kx_remote E) (kx_fernet E) (str_of (kx_repr E)) c) (\<lambda>us. ret (map (ext_scram_row cid) us)))
       (bnd (run_tool E cid ''kafka-configs.sh'' '' --describe --entity-type users'' 30 ''Failed to list users'') (\<lambda>out.
        bnd (asks sess) (\<lambda>d. ret (map (scram_row_of d cid) (parse_scram_users out)))))"

definition scram_args :: "string \<Rightarrow> string \<Rightarrow> string \<Rightarrow> string" where
  "scram_args mechanism password username =
     '' --alter --add-config '' @ sq @ mechanism @ ''=[password='' @ sq_escape password @ '']'' @ sq @ '' --entity-type users --entity-name '' @ username"

definition new_kafka_user :: "'w kafka_env \<Rightarrow> fresh \<Rightarrow> string \<Rightarrow> string \<Rightarrow> string \<Rightarrow> string \<Rightarrow> kafka_user" where
  "new_kafka_user E fr cid username mechanism password =
     \<lparr>ku_id = f_hex fr, ku_cluster_id = cid, ku_username = username, ku_mechanism = mechanism,
      ku_encrypted_password = kx_encrypt E password, ku_created_at = f_now fr, ku_updated_at = f_now fr\<rparr>"

text \<open>\<open>generated\<close> is the value of \<open>secrets.token_urlsafe(24)\<close>.\<close>

definition chosen_password :: "string option \<Rightarrow> string \<Rightarrow> string" where
  "chosen_password password generated = (if str_true password then the password else generated)"

definition store_user :: "'w kafka_env \<Rightarrow> fresh \<Rightarrow> user \<Rightarrow> string \<Rightarrow> string \<Rightarrow> string \<Rightarrow> string \<Rightarrow> ('w sys, unit) io" where
  "store_user E fr actor cid username mechanism password =
     seqm (upd_sess (\<lambda>d. d\<lparr>kafka_users := kafka_users d @ [new_kafka_user E fr cid username mechanism password]\<rparr>))
    (seqm (audit fr (Some actor) cid ''user_created'' ''user'' username (Some (''mechanism='' @ mechanism))) commit)"

definition create_scram_user :: "'w kafka_env \<Rightarrow> fresh \<Rightarrow> string \<Rightarrow> user \<Rightarrow> string \<Rightarrow> string \<Rightarrow> string option \<Rightarrow> string \<Rightarrow> ('w sys, scram_result) io" where
  "create_scram_user E fr generated actor cid username password mechanism =
     (let pw = chosen_password password generated;
          result = (\<lambda>msg. \<lparr>sc_id = Some (f_hex fr), sc_username = username, sc_mechanism = Some mechanism, sc_password = Some pw, sc_message = msg\<rparr>) in
      dispatch cid
        (\<lambda>c. seqm (ext_create_scram_user (kx_remote E) (kx_fernet E) (str_of (kx_repr E)) c username pw mechanism)
            (seqm (store_user E fr actor cid username mechanism pw) (ret (result None))))
        (seqm (run_tool E cid ''kafka-configs.sh'' (scram_args mechanism pw username) 30 ''Failed to create user'')
        (seqm (store_user E fr actor cid username mechanism pw)
        (ret (result (Some (''User '' @ sq @ username @ sq @ '' created with '' @ mechanism)))))))"

definition is_user_of :: "string \<Rightarrow> string \<Rightarrow> kafka_user \<Rightarrow> bool" where
  "is_user_of cid username u \<longleftrightarrow> ku_cluster_id u = cid \<and> ku_username u = username"

definition forget_user :: "fresh \<Rightarrow> user \<Rightarrow> string \<Rightarrow> string \<Rightarrow> string option \<Rightarrow> ('w sys, unit) io" where
  "forget_user fr actor cid username details =
     seqm (upd_sess (\<lambda>d. d\<lparr>kafka_users := filter (\<lambda>u. \<not> is_user_of cid username u) (kafka_users d)\<rparr>))
    (seqm (audit fr (Some actor) cid ''user_deleted'' ''user'' username details) commit)"

definition delete_args :: "string \<Rightarrow> string \<Rightarrow> string" where
  "delete_args mech username = '' --alter --delete-config '' @ sq @ mech @ sq @ '' --entity-type users --entity-name '' @ username"

definition delete_scram_user :: "'w kafka_env \<Rightarrow> fresh \<Rightarrow> user \<Rightarrow> string \<Rightarrow> string \<Rightarrow> ('w sys, scram_result) io" where
  "delete_scram_user E fr actor cid username =
     (let result = (\<lambda>msg. \<lparr>sc_id = None, sc_username = username, sc_mechanism = None, sc_password = None, sc_message = msg\<rparr>) in
      dispatch cid
        (\<lambda>c. seqm (ext_delete_scram_user (kx_remote E) (kx_fernet E) (str_of (kx_repr E)) c username)
            (seqm (forget_user fr actor cid username (Some [])) (ret (result None))))
        (bnd (get_broker_with_paths E cid) (\<lambda>(h, boot, kh).
         seqm (for_each (\<lambda>mech. run_kafka_cmd (kx_remote E) h (tool_cmd kh ''kafka-configs.sh'' boot (delete_args mech username)) 30)
           [''SCRAM-SHA-256'', ''SCRAM-SHA-512''])
        (seqm (forget_user fr actor cid username None)
        (ret (result (Some (''User '' @ sq @ username @ sq @ '' deleted''))))))))"

text \<open>A row that was found is changed as an object, by its id.\<close>

definition set_password :: "'w kafka_env \<Rightarrow> fresh \<Rightarrow> kafka_user option \<Rightarrow> string \<Rightarrow> ('w sys, unit) io" where
  "set_password E fr found pw =
     (case found of
        None \<Rightarrow> ret ()
      | Some u \<Rightarrow> upd_sess (\<lambda>d. d\<lparr>kafka_users := upd_by ku_id (ku_id u)
          (\<lambda>r. r\<lparr>ku_encrypted_password := kx_encrypt E pw, ku_updated_at := f_now fr\<rparr>) (kafka_users d)\<rparr>))"

definition rotate_scram_password :: "'w kafka_env \<Rightarrow> fresh \<Rightarrow> string \<Rightarrow> user \<Rightarrow> string \<Rightarrow> string \<Rightarrow> string option \<Rightarrow> ('w sys, scram_result) io" where
  "rotate_scram_password E fr generated actor cid username password =
     (let pw = chosen_password password generated in
      bnd (external_cluster cid) (\<lambda>ext.
      bnd (asks (\<lambda>s. List.find (is_user_of cid username) (kafka_users (sess s)))) (\<lambda>found.
      case ext of
        Some c \<Rightarrow>
          seqm (ext_create_scram_user (kx_remote E) (kx_fernet E) (str_of (kx_repr E)) c username pw
                 (case found of Some u \<Rightarrow> ku_mechanism u | None \<Rightarrow> ''SCRAM-SHA-512''))
         (seqm (set_password E fr found pw)
         (seqm (audit fr (Some actor) cid ''user_password_rotated'' ''user'' username (Some []))
         (seqm commit
         (ret \<lparr>sc_id = None, sc_username = username, sc_mechanism = None, sc_password = Some pw, sc_message = None\<rparr>))))
      | None \<Rightarrow>
          let mechanism = (case found of Some u \<Rightarrow> ku_mechanism u | None \<Rightarrow> ''SCRAM-SHA-256'') in
          seqm (run_tool E cid ''kafka-configs.sh'' (scram_args mechanism pw username) 30 ''Failed to rotate password'')
         (seqm (set_password E fr found pw)
         (seqm (audit fr (Some actor) cid ''user_password_rotated'' ''user'' username None)
         (seqm commit
         (ret \<lparr>sc_id = None, sc_username = username, sc_mechanism = Some mechanism, sc_password = Some pw,
           sc_message = Some (''Password rotated for '' @ sq @ username @ sq)\<rparr>)))))))"

section \<open>Access control lists\<close>

definition ACL_RESOURCE_TYPES :: "string list" where
  "ACL_RESOURCE_TYPES = [''topic'', ''group'', ''cluster'', ''transactional-id'']"

definition ACL_PATTERN_TYPES :: "string list" where "ACL_PATTERN_TYPES = [''literal'', ''prefixed'']"

definition ACL_OPERATIONS :: "string list" where
  "ACL_OPERATIONS = [''Read'', ''Write'', ''Create'', ''Describe'', ''Alter'', ''Delete'', ''All'']"

definition ACL_PERMISSION_TYPES :: "string list" where "ACL_PERMISSION_TYPES = [''Allow'', ''Deny'']"

definition or_default :: "string \<Rightarrow> string \<Rightarrow> string" where
  "or_default d s = (if s = [] then d else s)"

fun normalize_operations :: "string list \<Rightarrow> exn + string list" where
  "normalize_operations [] = Inr []"
| "normalize_operations (o' # os) =
     (let n = capitalize (strip o') in
      if n \<notin> set ACL_OPERATIONS then Inl (ValueError (''Invalid ACL operation: '' @ o'))
      else map_sum id (Cons n) (normalize_operations os))"

definition normalize_acl_create_request :: "acl_request \<Rightarrow> exn + acl_request" where
  "normalize_acl_create_request q =
     (let p = strip (aq_principal q);
          rt = lower (strip (aq_resource_type q));
          rn = strip (aq_resource_name q);
          pt = lower (strip (or_default ''literal'' (aq_pattern_type q)));
          perm = capitalize (lower (strip (or_default ''Allow'' (aq_permission_type q)))) in
      if p = [] then Inl (ValueError ''Principal is required'')
      else if rt \<notin> set ACL_RESOURCE_TYPES then Inl (ValueError (''Invalid ACL resource type: '' @ rt))
      else if rt \<noteq> ''cluster'' \<and> rn = [] then Inl (ValueError ''Resource name is required'')
      else if pt \<notin> set ACL_PATTERN_TYPES then Inl (ValueError (''Invalid ACL pattern type: '' @ pt))
      else if perm \<notin> set ACL_PERMISSION_TYPES then Inl (ValueError (''Invalid ACL permission type: '' @ aq_permission_type q))
      else (case normalize_operations (aq_operations q) of
          Inl e \<Rightarrow> Inl e
        | Inr ops \<Rightarrow> if ops = [] then Inl (ValueError ''At least one ACL operation is required'')
            else Inr \<lparr>aq_principal = (if contains p '':'' then p else ''User:'' @ p), aq_resource_type = rt,
              aq_resource_name = (if rt = ''cluster'' \<and> rn = [] then ''kafka-cluster'' else rn), aq_pattern_type = pt,
              aq_operations = ops, aq_permission_type = perm, aq_host = or_default ''*'' (strip (or_default ''*'' (aq_host q)))\<rparr>))"

text \<open>The words of the commands, with or without quoting the values.\<close>

definition resource_words :: "(string \<Rightarrow> string) \<Rightarrow> string \<Rightarrow> string \<Rightarrow> string list" where
  "resource_words q rt rn =
     (if rt = ''topic'' then [''--topic '' @ q rn]
      else if rt = ''group'' then [''--group '' @ q rn]
      else if rt = ''cluster'' then [''--cluster'']
      else if rt = ''transactional-id'' then [''--transactional-id '' @ q rn]
      else [])"

definition principal_flag :: "string \<Rightarrow> string" where
  "principal_flag permission = (if permission = ''Allow'' then ''--allow-principal'' else ''--deny-principal'')"

definition create_acl_cmd :: "string \<Rightarrow> string \<Rightarrow> acl_request \<Rightarrow> string" where
  "create_acl_cmd kh boot q =
     join '' '' ([shlex_quote (kh @ ''/bin/kafka-acls.sh''), ''--bootstrap-server '' @ shlex_quote boot, ''--add'',
       principal_flag (aq_permission_type q) @ '' '' @ shlex_quote (aq_principal q)] @
       resource_words shlex_quote (lower (aq_resource_type q)) (aq_resource_name q) @
       map (\<lambda>o'. ''--operation '' @ shlex_quote o') (aq_operations q) @
       [''--resource-pattern-type '' @ shlex_quote (aq_pattern_type q)] @
       (if aq_host q \<noteq> ''*'' then [''--host '' @ shlex_quote (aq_host q)] else []))"

definition acl_details :: "acl_request \<Rightarrow> (string \<times> json) list" where
  "acl_details q =
     [(''principal'', JStr (aq_principal q)), (''resource_type'', JStr (lower (aq_resource_type q))),
      (''resource_name'', JStr (aq_resource_name q)), (''operations'', JArr (map JStr (aq_operations q)))]"

definition acl_name :: "acl_request \<Rightarrow> string \<Rightarrow> string" where
  "acl_name q o' = aq_principal q @ ''::'' @ aq_resource_type q @ '':'' @ aq_resource_name q @ ''::'' @ o'"

text \<open>The \<open>n\<close>-th operation of an external cluster has the audit row of \<open>frs n\<close>; \<open>acls_added\<close> and \<open>acls_deleted\<close> count the operations.\<close>

definition create_acl_ext :: "'w kafka_env \<Rightarrow> (nat \<Rightarrow> fresh) \<Rightarrow> user option \<Rightarrow> string \<Rightarrow> acl_request \<Rightarrow> cluster \<Rightarrow> ('w sys, string \<times> nat) io" where
  "create_acl_ext E frs actor cid q c =
     bnd (for_each (ext_create_acl (kx_kafka E) (kx_fernet E) c q) (aq_operations q)) (\<lambda>results.
     seqm (for_each (\<lambda>(n, o'). audit (frs n) actor cid ''acl_created'' ''acl'' (acl_name q o') (Some (''permission='' @ aq_permission_type q)))
            (enumerate 0 (aq_operations q)))
    (seqm commit
    (ret (''ACL(s) created via kafka-python AdminClient on external cluster'', length results))))"

definition create_acl_managed :: "'w kafka_env \<Rightarrow> fresh \<Rightarrow> user option \<Rightarrow> string \<Rightarrow> acl_request \<Rightarrow> ('w sys, string \<times> nat) io" where
  "create_acl_managed E fr actor cid q =
     bnd (get_broker_with_paths E cid) (\<lambda>(h, boot, kh).
     bnd (run_kafka_cmd (kx_remote E) h (create_acl_cmd kh boot q) 30) (\<lambda>(rc, out, err).
     if rc \<noteq> 0 then raise (ValueError (''Failed to create ACL: '' @ strip (or_default
         (or_default (''kafka-acls.sh exited with code '' @ show_int rc) out) err)))
     else
       seqm (audit fr actor cid ''acl_created'' ''acl'' (aq_principal q @ '':'' @ aq_resource_name q)
          (Some (kx_dumps E (JObj (acl_details q @ [(''pattern_type'', JStr (aq_pattern_type q)), (''permission_type'', JStr (aq_permission_type q))])))))
      (seqm commit
      (ret (or_default ''ACL(s) created'' (strip out), length (aq_operations q))))))"

definition create_acl :: "'w kafka_env \<Rightarrow> (nat \<Rightarrow> fresh) \<Rightarrow> user option \<Rightarrow> string \<Rightarrow> acl_request \<Rightarrow> ('w sys, string \<times> nat) io" where
  "create_acl E frs actor cid req =
     bnd (lift (normalize_acl_create_request req)) (\<lambda>q.
     dispatch cid (create_acl_ext E frs actor cid q) (create_acl_managed E (frs 0) actor cid q))"

definition list_acls_args :: "string option \<Rightarrow> string option \<Rightarrow> string option \<Rightarrow> string" where
  "list_acls_args prin rt rn =
     '' --list'' @ (if str_true prin then '' --principal '' @ the prin else []) @
     (if str_true rt \<and> str_true rn then concat (map ((@) '' '') (resource_words (\<lambda>s. s) (lower (the rt)) (the rn))) else [])"

definition list_acls :: "'w kafka_env \<Rightarrow> string \<Rightarrow> string option \<Rightarrow> string option \<Rightarrow> string option \<Rightarrow> ('w sys, acl_entry list) io" where
  "list_acls E cid prin rt rn =
     dispatch cid (\<lambda>c. ext_list_acls (kx_kafka E) (kx_fernet E) c prin rt rn)
       (bnd (run_tool E cid ''kafka-acls.sh'' (list_acls_args prin rt rn) 15 ''Failed to list ACLs'') (\<lambda>out. ret (parse_acl_list out)))"

definition delete_acl_cmd :: "string \<Rightarrow> string \<Rightarrow> acl_request \<Rightarrow> string" where
  "delete_acl_cmd kh boot q =
     join '' '' ([kh @ ''/bin/kafka-acls.sh'', ''--bootstrap-server '' @ boot, ''--remove'',
       principal_flag (aq_permission_type q) @ '' '' @ aq_principal q] @
       resource_words (\<lambda>s. s) (lower (aq_resource_type q)) (aq_resource_name q) @
       map ((@) ''--operation '') (aq_operations q) @
       [''--resource-pattern-type '' @ aq_pattern_type q, ''--force''])"

definition delete_acl_ext :: "'w kafka_env \<Rightarrow> (nat \<Rightarrow> fresh) \<Rightarrow> user \<Rightarrow> string \<Rightarrow> acl_request \<Rightarrow> cluster \<Rightarrow> ('w sys, string) io" where
  "delete_acl_ext E frs actor cid q c =
     seqm (for_each (\<lambda>(n, o').
         seqm (ext_delete_acl (kx_kafka E) (kx_fernet E) c q o') (audit (frs n) (Some actor) cid ''acl_deleted'' ''acl'' (acl_name q o') (Some [])))
       (enumerate 0 (aq_operations q)))
    (seqm commit
    (ret ''ACL(s) deleted via kafka-python AdminClient on external cluster''))"

definition delete_acl_managed :: "'w kafka_env \<Rightarrow> fresh \<Rightarrow> user \<Rightarrow> string \<Rightarrow> acl_request \<Rightarrow> ('w sys, string) io" where
  "delete_acl_managed E fr actor cid q =
     bnd (get_broker_with_paths E cid) (\<lambda>(h, boot, kh).
     bnd (run_kafka_cmd (kx_remote E) h (delete_acl_cmd kh boot q) 30) (\<lambda>(rc, out, err).
     if rc \<noteq> 0 then raise (ValueError (''Failed to delete ACL: '' @ err))
     else
       seqm (audit fr (Some actor) cid ''acl_deleted'' ''acl'' (aq_principal q @ '':'' @ aq_resource_name q) (Some (kx_dumps E (JObj (acl_details q)))))
      (seqm commit
      (ret (or_default ''ACL(s) deleted'' (strip out))))))"

definition delete_acl :: "'w kafka_env \<Rightarrow> (nat \<Rightarrow> fresh) \<Rightarrow> user \<Rightarrow> string \<Rightarrow> acl_request \<Rightarrow> ('w sys, string) io" where
  "delete_acl E frs actor cid q = dispatch cid (delete_acl_ext E frs actor cid q) (delete_acl_managed E (frs 0) actor cid q)"

section \<open>Moving partitions\<close>

definition get_partition_distribution :: "'w kafka_env \<Rightarrow> string \<Rightarrow> ('w sys, distribution) io" where
  "get_partition_distribution E cid =
     dispatch cid (\<lambda>c. external_only_unsupported ''Partition rebalance/reassignment'')
       (bnd (run_tool E cid ''kafka-topics.sh'' '' --describe'' 60 ''Failed to describe topics'') (\<lambda>out. lift (parse_distribution out)))"

text \<open>A JSON text is written to a new file on the broker's host; \<open>hex\<close> is the value of \<open>secrets.token_hex(8)\<close>.\<close>

definition write_json_cmd :: "string \<Rightarrow> string \<Rightarrow> string" where
  "write_json_cmd content path = ''printf '' @ sq @ ''%s'' @ sq @ '' '' @ sq @ sq_escape content @ sq @ '' > '' @ shlex_quote path"

definition write_json :: "'w kafka_env \<Rightarrow> host \<Rightarrow> string \<Rightarrow> string \<Rightarrow> string \<Rightarrow> ('w sys, unit) io" where
  "write_json E h content path what =
     bnd (run_kafka_cmd (kx_remote E) h (write_json_cmd content path) 30) (\<lambda>(rc, out, err).
     if rc \<noteq> 0 then raise (ValueError (''Failed to write '' @ what @ '' file: '' @ err)) else ret ())"

definition topics_to_move :: "string list \<Rightarrow> json" where
  "topics_to_move topics = JObj [(''topics'', JArr (map (\<lambda>t. JObj [(''topic'', JStr t)]) topics)), (''version'', JInt 1)]"

definition generate_reassignment_plan :: "'w kafka_env \<Rightarrow> string \<Rightarrow> string \<Rightarrow> string list \<Rightarrow> int list \<Rightarrow> ('w sys, json \<times> json) io" where
  "generate_reassignment_plan E hex cid topics broker_ids =
     bnd (get_broker_with_paths E cid) (\<lambda>(h, boot, kh).
     let path = ''/tmp/tantor_topics_to_move_'' @ hex @ ''.json'' in
     seqm (write_json E h (kx_dumps E (topics_to_move topics)) path ''topics'')
    (bnd (run_kafka_cmd (kx_remote E) h (tool_cmd kh ''kafka-reassign-partitions.sh'' boot ('' --topics-to-move-json-file '' @
           shlex_quote path @ '' --broker-list '' @ dq @ join '','' (map show_int broker_ids) @ dq @ '' --generate'')) 60) (\<lambda>(rc, out, err).
     if rc \<noteq> 0 then raise (ValueError (''Failed to generate reassignment plan: '' @ err)) else ret (parse_plan (kx_loads E) out))))"

definition reassign :: "'w kafka_env \<Rightarrow> string \<Rightarrow> string \<Rightarrow> (string \<times> json) list \<Rightarrow> string \<Rightarrow> int \<Rightarrow> ('w sys, string) io" where
  "reassign E hex cid reassignment verb timeout =
     bnd (get_broker_with_paths E cid) (\<lambda>(h, boot, kh).
     let path = ''/tmp/tantor_reassignment_'' @ hex @ ''.json'' in
     seqm (write_json E h (kx_dumps E (JObj reassignment)) path ''reassignment'')
    (bnd (run_kafka_cmd (kx_remote E) h (tool_cmd kh ''kafka-reassign-partitions.sh'' boot ('' --reassignment-json-file '' @
           shlex_quote path @ '' --'' @ verb)) timeout) (\<lambda>(rc, out, err).
     if rc \<noteq> 0 then raise (ValueError (''Failed to '' @ verb @ '' reassignment: '' @ err)) else ret out)))"

fun json_len :: "json \<Rightarrow> exn + nat" where
  "json_len (JArr xs) = Inr (length xs)"
| "json_len (JObj kvs) = Inr (length kvs)"
| "json_len (JStr s) = Inr (length s)"
| "json_len _ = Inl (TypeError ''object has no len()'')"

definition execute_reassignment :: "'w kafka_env \<Rightarrow> fresh \<Rightarrow> user \<Rightarrow> string \<Rightarrow> string \<Rightarrow> (string \<times> json) list \<Rightarrow> ('w sys, string) io" where
  "execute_reassignment E fr actor hex cid reassignment =
     bnd (reassign E hex cid reassignment ''execute'' 120) (\<lambda>out.
     bnd (lift (json_len (jget_default reassignment ''partitions'' (JArr [])))) (\<lambda>n.
     seqm (audit fr (Some actor) cid ''partition_reassignment_executed'' ''cluster'' cid (Some (''partitions: '' @ show_int (int n))))
    (seqm commit
    (ret (or_default ''Reassignment started'' (strip out))))))"

definition verify_reassignment :: "'w kafka_env \<Rightarrow> string \<Rightarrow> string \<Rightarrow> (string \<times> json) list \<Rightarrow> ('w sys, verify_result) io" where
  "verify_reassignment E hex cid reassignment =
     bnd (reassign E hex cid reassignment ''verify'' 60) (\<lambda>out. ret (parse_verify out))"

section \<open>Routes\<close>

text \<open>\<open>json.JSONDecodeError\<close> is a \<open>ValueError\<close>.\<close>

definition is_value_error :: "exn \<Rightarrow> bool" where
  "is_value_error e \<longleftrightarrow> exn_class e \<in> {''ValueError'', ''JSONDecodeError''}"

definition bad_request :: "('w sys, 'a) io \<Rightarrow> ('w sys, 'a) io" where
  "bad_request m = catch m (\<lambda>e. if is_value_error e then raise (HTTPException 400 (exn_str e)) else raise e)"

fun matching_topics :: "string \<Rightarrow> topic_info list \<Rightarrow> exn + topic_info list" where
  "matching_topics q [] = Inr []"
| "matching_topics q (t # ts) =
     (case ti_name t of
        None \<Rightarrow> Inl (Exn ''AttributeError'' ''object has no attribute lower'')
      | Some n \<Rightarrow> map_sum id (\<lambda>r. if contains (lower n) (lower q) then t # r else r) (matching_topics q ts))"

definition list_topics_route :: "'w kafka_env \<Rightarrow> string \<Rightarrow> string option \<Rightarrow> ('w sys, topic_info list) io" where
  "list_topics_route E cid wanted = bad_request (bnd (list_topics E cid) (\<lambda>topics.
     if str_true wanted then lift (matching_topics (the wanted) topics) else ret topics))"

definition create_topic_route :: "'w kafka_env \<Rightarrow> string \<Rightarrow> string \<Rightarrow> int \<Rightarrow> int \<Rightarrow> (string \<times> string) list option \<Rightarrow> ('w sys, string option) io" where
  "create_topic_route E cid name partitions rf config =
     bad_request (create_topic E cid name partitions rf (case config of None \<Rightarrow> [] | Some c \<Rightarrow> c))"

definition get_topic_route :: "'w kafka_env \<Rightarrow> string \<Rightarrow> string \<Rightarrow> ('w sys, (topic_info, ext_topic_detail) shaped) io" where
  "get_topic_route E cid name = bad_request (get_topic_detail E cid name)"

definition delete_topic_route :: "'w kafka_env \<Rightarrow> string \<Rightarrow> string \<Rightarrow> ('w sys, unit) io" where
  "delete_topic_route E cid name = bad_request (delete_topic E cid name)"

definition unprocessable_on_key_error :: "string \<Rightarrow> ('w sys, 'a) io \<Rightarrow> ('w sys, 'a) io" where
  "unprocessable_on_key_error msg m = catch m (\<lambda>e. if exn_class e = ''KeyError'' then raise (HTTPException 422 msg)
     else if is_value_error e then raise (HTTPException 400 (exn_str e)) else raise e)"

definition body_item :: "(string \<times> json) list \<Rightarrow> string \<Rightarrow> exn + json" where
  "body_item body k = (case map_of body k of None \<Rightarrow> Inl (KeyError (sq @ k @ sq)) | Some v \<Rightarrow> Inr v)"

definition update_topic_config :: "'w kafka_env \<Rightarrow> fresh \<Rightarrow> user \<Rightarrow> string \<Rightarrow> string \<Rightarrow> (string \<times> json) list \<Rightarrow> ('w sys, unit) io" where
  "update_topic_config E fr actor cid name body =
     unprocessable_on_key_error (''Request body must include '' @ sq @ ''configs'' @ sq @ '' dict'')
       (bnd (lift (body_item body ''configs'')) (alter_topic_config E fr actor cid name))"

text \<open>A count that is not an integer is compared with one, which raises.\<close>

fun count_of :: "json \<Rightarrow> exn + int" where
  "count_of (JInt n) = Inr n"
| "count_of (JBool b) = Inr (if b then 1 else 0)"
| "count_of _ = Inl (TypeError ''not supported between instances'')"

definition update_topic_partitions :: "'w kafka_env \<Rightarrow> fresh \<Rightarrow> user \<Rightarrow> string \<Rightarrow> string \<Rightarrow> (string \<times> json) list \<Rightarrow> ('w sys, unit) io" where
  "update_topic_partitions E fr actor cid name body =
     unprocessable_on_key_error (''Request body must include '' @ sq @ ''count'' @ sq @ '' integer'')
       (bnd (lift (body_item body ''count'')) (\<lambda>v. bnd (lift (count_of v)) (increase_partitions E fr actor cid name)))"

definition list_consumer_groups_route :: "'w kafka_env \<Rightarrow> string \<Rightarrow> ('w sys, (group_info list, ext_group list) shaped) io" where
  "list_consumer_groups_route E cid = bad_request (list_consumer_groups E cid)"

definition get_consumer_group_route :: "'w kafka_env \<Rightarrow> string \<Rightarrow> string \<Rightarrow> ('w sys, (group_info, ext_group) shaped) io" where
  "get_consumer_group_route E cid gid = bad_request (get_consumer_group_detail E cid gid)"

definition produce_route :: "'w kafka_env \<Rightarrow> string \<Rightarrow> string \<Rightarrow> string option \<Rightarrow> string \<Rightarrow> ('w sys, bool \<times> string) io" where
  "produce_route E cid topic key v = bad_request (produce_message E cid topic key v)"

definition or_server_error :: "string \<Rightarrow> ('w sys, 'a) io \<Rightarrow> ('w sys, 'a) io" where
  "or_server_error what m = catch m (\<lambda>e. if is_value_error e then raise (HTTPException 400 (exn_str e))
     else raise (HTTPException 500 (what @ '': '' @ exn_str e)))"

definition consume_route :: "'w kafka_env \<Rightarrow> string \<Rightarrow> string \<Rightarrow> bool \<Rightarrow> int \<Rightarrow> string option \<Rightarrow> int \<Rightarrow> ('w sys, message list \<times> nat) io" where
  "consume_route E cid topic from_beginning max_messages group_id timeout_ms =
     or_server_error ''Consume failed'' (bnd (consume_messages E cid topic from_beginning max_messages group_id timeout_ms) (\<lambda>ms. ret (ms, length ms)))"

definition validate_route :: "'w kafka_env \<Rightarrow> string \<Rightarrow> bool \<Rightarrow> ('w sys, validation) io" where
  "validate_route E cid create = or_server_error ''Validation failed'' (validate_cluster E cid create)"

definition distribution_route :: "'w kafka_env \<Rightarrow> string \<Rightarrow> ('w sys, distribution) io" where
  "distribution_route E cid = bad_request (get_partition_distribution E cid)"

definition generate_plan_route :: "'w kafka_env \<Rightarrow> string \<Rightarrow> string \<Rightarrow> string list \<Rightarrow> int list \<Rightarrow> ('w sys, json \<times> json) io" where
  "generate_plan_route E hex cid topics broker_ids = bad_request (generate_reassignment_plan E hex cid topics broker_ids)"

definition execute_route :: "'w kafka_env \<Rightarrow> fresh \<Rightarrow> user \<Rightarrow> string \<Rightarrow> string \<Rightarrow> (string \<times> json) list \<Rightarrow> ('w sys, string) io" where
  "execute_route E fr actor hex cid reassignment = bad_request (execute_reassignment E fr actor hex cid reassignment)"

definition verify_route :: "'w kafka_env \<Rightarrow> string \<Rightarrow> string \<Rightarrow> (string \<times> json) list \<Rightarrow> ('w sys, verify_result) io" where
  "verify_route E hex cid reassignment = bad_request (verify_reassignment E hex cid reassignment)"

text \<open>The answer is checked against the response model after the handler has returned: a key that is missing is an error of the server.\<close>

definition validated :: "('a \<Rightarrow> bool) \<Rightarrow> ('w sys, 'a) io \<Rightarrow> ('w sys, 'a) io" where
  "validated ok m = bnd m (\<lambda>r. if ok r then ret r else raise (Exn ''ResponseValidationError'' ''field required''))"

definition list_users_route :: "'w kafka_env \<Rightarrow> string \<Rightarrow> ('w sys, scram_row list) io" where
  "list_users_route E cid =
     validated (list_all (\<lambda>r. sr_created_at r \<noteq> None \<and> sr_updated_at r \<noteq> None)) (bad_request (list_scram_users E cid))"

definition create_user_route :: "'w kafka_env \<Rightarrow> fresh \<Rightarrow> string \<Rightarrow> user \<Rightarrow> string \<Rightarrow> string \<Rightarrow> string option \<Rightarrow> string \<Rightarrow> ('w sys, scram_result) io" where
  "create_user_route E fr generated actor cid username password mechanism =
     validated (\<lambda>r. sc_id r \<noteq> None \<and> sc_mechanism r \<noteq> None \<and> sc_password r \<noteq> None \<and> sc_message r \<noteq> None)
       (bad_request (create_scram_user E fr generated actor cid username password mechanism))"

definition delete_user_route :: "'w kafka_env \<Rightarrow> fresh \<Rightarrow> user \<Rightarrow> string \<Rightarrow> string \<Rightarrow> ('w sys, scram_result) io" where
  "delete_user_route E fr actor cid username = validated (\<lambda>r. sc_message r \<noteq> None) (bad_request (delete_scram_user E fr actor cid username))"

definition rotate_user_password :: "'w kafka_env \<Rightarrow> fresh \<Rightarrow> string \<Rightarrow> user \<Rightarrow> string \<Rightarrow> string \<Rightarrow> string option \<Rightarrow> ('w sys, scram_result) io" where
  "rotate_user_password E fr generated actor cid username password =
     validated (\<lambda>r. sc_mechanism r \<noteq> None \<and> sc_password r \<noteq> None \<and> sc_message r \<noteq> None)
       (bad_request (rotate_scram_password E fr generated actor cid username password))"

definition acl_keywords :: "string list" where
  "acl_keywords = [''ClusterAuthorization'', ''SecurityDisabled'', ''PolicyViolation'', ''AuthorizationException'', ''authorizer'',
     ''SECURITY_DISABLED'', ''acl'', ''NoBrokersAvailable'', ''KafkaConnectionError'']"

definition acl_disabled_msg :: "string \<Rightarrow> string" where
  "acl_disabled_msg err = ''ACLs are not enabled on this cluster. Set '' @ sq @
     ''authorizer.class.name=org.apache.kafka.metadata.authorizer.StandardAuthorizer'' @ sq @
     '' in server.properties and restart the broker to enable ACL support. Broker error: '' @ err"

definition list_acls_route :: "'w kafka_env \<Rightarrow> string \<Rightarrow> string option \<Rightarrow> string option \<Rightarrow> string option \<Rightarrow> ('w sys, acl_entry list \<times> nat) io" where
  "list_acls_route E cid prin rt rn =
     catch (bnd (list_acls E cid prin rt rn) (\<lambda>as. ret (as, length as))) (\<lambda>e.
       if is_value_error e then raise (HTTPException 400 (exn_str e))
       else if list_ex (\<lambda>k. contains (lower (exn_str e)) (lower k)) acl_keywords
       then raise (HTTPException 400 (acl_disabled_msg (exn_str e)))
       else raise (HTTPException 500 (''Failed to list ACLs: '' @ exn_str e)))"

definition create_acl_route :: "'w kafka_env \<Rightarrow> (nat \<Rightarrow> fresh) \<Rightarrow> user \<Rightarrow> string \<Rightarrow> acl_request \<Rightarrow> ('w sys, string \<times> nat) io" where
  "create_acl_route E frs actor cid q = bad_request (create_acl E frs (Some actor) cid q)"

definition delete_acl_route :: "'w kafka_env \<Rightarrow> (nat \<Rightarrow> fresh) \<Rightarrow> user \<Rightarrow> string \<Rightarrow> acl_request \<Rightarrow> ('w sys, string) io" where
  "delete_acl_route E frs actor cid q = bad_request (delete_acl E frs actor cid q)"

definition get_topic_acls :: "'w kafka_env \<Rightarrow> string \<Rightarrow> string \<Rightarrow> ('w sys, acl_entry list \<times> nat) io" where
  "get_topic_acls E cid name = bad_request (bnd (list_acls E cid None (Some ''topic'') (Some name)) (\<lambda>as. ret (as, length as)))"

definition get_principal_acls :: "'w kafka_env \<Rightarrow> string \<Rightarrow> string \<Rightarrow> ('w sys, acl_entry list \<times> nat) io" where
  "get_principal_acls E cid prin = bad_request (bnd (list_acls E cid (Some prin) None None) (\<lambda>as. ret (as, length as)))"

text \<open>\<open>order_by(created_at.desc())\<close>: rows with the same time stay in the order they were inserted.\<close>

definition security_audit_log :: "string \<Rightarrow> nat \<Rightarrow> nat \<Rightarrow> string option \<Rightarrow> ('w sys, audit_log list) io" where
  "security_audit_log cid limit offset' action =
     asks (\<lambda>s. take limit (drop offset' (sort_key (\<lambda>r. - au_created_at r)
       (filter (\<lambda>r. au_cluster_id r = cid \<and> (str_true action \<longrightarrow> au_action r = the action)) (audit_logs (sess s))))))"

section \<open>What reaches a shell and what reaches an agent\<close>

lemma last_sub_prefix: "last_sub p s = Some (a, b) \<Longrightarrow> last_sub p (k @ s) = Some (k @ a, b)"
  by (induction k) simp_all

lemma tool_scripts:
  assumes "map_of verb_map script = Some verb"
  shows "last_sub ''/bin/'' (kh @ ''/bin/'' @ script) = Some (kh, script)" "list_all sh_plain (''/bin/'' @ script)"
    "contains (kh @ ''/bin/'' @ script) ''/bin/kafka-''" "ends_with (kh @ ''/bin/'' @ script) ''.sh''"
proof -
  have mem: "script \<in> set (map fst verb_map)" using map_of_SomeD[OF assms] by (force simp: image_iff)
  have all: "list_all (\<lambda>s. last_sub ''/bin/'' (''/bin/'' @ s) = Some ([], s) \<and> list_all sh_plain (''/bin/'' @ s) \<and>
      starts_with (''/bin/'' @ s) ''/bin/kafka-'' \<and> starts_with (rev (''/bin/'' @ s)) (rev ''.sh'')) (map fst verb_map)" by code_simp
  note here = list_all_iff[THEN iffD1, OF all, THEN bspec, OF mem]
  note s = here[THEN conjunct1] here[THEN conjunct2, THEN conjunct1] here[THEN conjunct2, THEN conjunct2, THEN conjunct1]
    here[THEN conjunct2, THEN conjunct2, THEN conjunct2]
  show "last_sub ''/bin/'' (kh @ ''/bin/'' @ script) = Some (kh, script)" using last_sub_prefix[OF s(1), of kh] by simp
  show "list_all sh_plain (''/bin/'' @ script)" by (fact s(2))
  obtain r where "''/bin/'' @ script = ''/bin/kafka-'' @ r" using s(3) unfolding starts_with_iff by blast
  then show "contains (kh @ ''/bin/'' @ script) ''/bin/kafka-''" unfolding contains_iff by blast
  obtain r where "rev (''/bin/'' @ script) = rev ''.sh'' @ r" using s(4) unfolding starts_with_iff by blast
  then have "rev (kh @ ''/bin/'' @ script) = rev ''.sh'' @ (r @ rev kh)" by (simp del: append.simps rev.simps)
  then show "ends_with (kh @ ''/bin/'' @ script) ''.sh''" unfolding ends_with_def starts_with_iff by blast
qed

lemma invocation_rest:
  "\<not> list_ex (\<lambda>w. w \<in> {''--bootstrap-server'', ''--command-config''}) ws \<Longrightarrow> invocation_args ws (b, c, extra) = (b, c, extra @ ws)"
  by (induction ws "(b, c, extra)" arbitrary: extra rule: invocation_args.induct) auto

lemma invocation_parsed:
  assumes "map_of verb_map script = Some verb" "boot \<noteq> []" "\<not> list_ex (\<lambda>w. w \<in> {''--bootstrap-server'', ''--command-config''}) ws"
    and "shlex_split cmd = Inr ((kh @ ''/bin/'' @ script) # ''--bootstrap-server'' # boot # ws)"
  shows "parse_kafka_invocation cmd = Some (verb, kh, boot, ws, None)"
  using tool_scripts(1,3,4)[OF assms(1), of kh] invocation_rest[OF assms(3), where b = boot and c = None and extra = "[]"] assms(1,2,4)
  by (simp add: parse_kafka_invocation_def del: append.simps)

lemma tool_cmd_read:
  assumes "map_of verb_map script = Some verb" "list_all sh_plain kh" "list_all sh_plain boot" "boot \<noteq> []"
  shows "sh_go Gap [] (tool_cmd kh script boot ('' '' @ args)) =
    map_option (\<lambda>ts. Arg (kh @ ''/bin/'' @ script) # Arg ''--bootstrap-server'' # Arg boot # ts) (sh_go Gap [] args)"
proof -
  have lit: "list_all sh_plain ''--bootstrap-server''" "''--bootstrap-server'' \<noteq> []" by code_simp+
  have plain: "list_all sh_plain (kh @ ''/bin/'' @ script)" using assms(2) tool_scripts(2)[OF assms(1)] by (simp only: list_all_append)
  have ne: "kh @ ''/bin/'' @ script \<noteq> []" by simp
  have parts: "tool_cmd kh script boot ('' '' @ args) =
      (kh @ ''/bin/'' @ script) @ '' '' @ ''--bootstrap-server'' @ '' '' @ boot @ '' '' @ args" by (simp add: tool_cmd_def)
  show ?thesis unfolding parts sh_word[OF plain ne] sh_word[OF lit] sh_word[OF assms(3,4)] by (simp add: option.map_comp comp_def)
qed

lemma tool_cmd_words:
  assumes "map_of verb_map script = Some verb" "list_all sh_plain kh" "list_all sh_plain boot" "boot \<noteq> []" "sh_words args = Some ws"
  shows "sh_words (tool_cmd kh script boot ('' '' @ args)) = Some ([kh @ ''/bin/'' @ script, ''--bootstrap-server'', boot] @ ws)"
proof -
  have "sh_go Gap [] args = Some (map Arg ws)" using assms(5) by (simp only: sh_words_go)
  then show ?thesis unfolding sh_words_go tool_cmd_read[OF assms(1-4)] by simp
qed

lemma run_over_ssh_trace:
  "\<exists>es. trace (snd (run_over_ssh (recorded R) h cmd n s)) = trace s @ Connected (h_id h) # es \<and> (es = [] \<or> (\<exists>rc. es = [Ran (h_id h) cmd rc]))"
proof -
  obtain r t where c: "ssh_connect (recorded R) h s = (r, t)" by (cases "ssh_connect (recorded R) h s")
  note tr = connect_recorded[OF c]
  obtain w es where w: "wld t = (w, es)" by (cases "wld t")
  have "\<exists>rc. trace (snd (exec_command (recorded R) h cmd n t)) = trace t @ [Ran (h_id h) cmd rc]"
    by (cases "r_exec R h cmd n w")
      (auto simp: exec_command_def bnd_run on_wld_def recorded_def log_ev_of_def trace_def w split: sum.splits)
  then show ?thesis using c tr by (cases r) (auto simp: run_over_ssh_def seqm_run)
qed

lemma kafka_cli_sends:
  assumes "r_agent_connected R (h_id h) (fst (wld s))" "install_dir_ok kh"
    and "payload = [(''bootstrap'', JStr boot), (''install_dir'', JStr kh), (''args'', JArr (map JStr ws))]"
  obtains r t where "kafka_cli (recorded R) h verb boot kh ws None n s = (r, t)" "trace t = trace s @ [Sent (h_id h) (''kafka_cli.'' @ verb) payload]"
    "isl r \<longleftrightarrow> isl (fst (r_agent_send R (h_id h) (''kafka_cli.'' @ verb) payload n (fst (wld s))))"
proof -
  define op where "op = ''kafka_cli.'' @ verb"
  obtain w es where w: "wld s = (w, es)" by (cases "wld s")
  obtain q w' where q: "r_agent_send R (h_id h) op payload n w = (q, w')" by (cases "r_agent_send R (h_id h) op payload n w")
  have c: "r_agent_connected R (h_id h) w" using assms(1) w by simp
  have run: "kafka_cli (recorded R) h verb boot kh ws None n s =
     bnd (run_op (recorded R) (h_id h) op payload n) (\<lambda>res.
     case res of AgentErr e \<Rightarrow> ret (False, [], err_text e)
     | AgentOk r \<Rightarrow> ret (exit_code r = 0, text_or_empty (ar_stdout r), text_or_empty (ar_stderr r))) s"
    using assms unfolding kafka_cli_def op_def
    by (simp add: bnd_Inr[of "agent_available (recorded R) (h_id h)"] agent_available_def recorded_def w bnd_def)
  obtain r t where rt: "kafka_cli (recorded R) h verb boot kh ws None n s = (r, t)" by (cases "kafka_cli (recorded R) h verb boot kh ws None n s")
  have "trace t = trace s @ [Sent (h_id h) op payload] \<and> (isl r \<longleftrightarrow> isl q)"
    using rt unfolding run bnd_run run_op_recorded[OF w c q]
    by (auto simp: trace_def w split: sum.splits agent_reply.splits)
  then show ?thesis using that[of r t] rt q w by (simp add: op_def)
qed

text \<open>
  Claim C17.  The agent is given what a shell would read.  For the command lines of the operations, with a tool that agents may run, a
  plain directory and address and arguments that a POSIX shell reads as the words \<open>ws\<close> of one command, the line is taken apart into exactly
  the directory, the address and \<open>ws\<close>; with an agent connected and an allowed directory they are sent to it in one request, and nothing
  else happens, except that the same line runs a second time over SSH when the agent does not answer.
\<close>

theorem agent_same_words:
  assumes "map_of verb_map script = Some verb" "list_all sh_plain kh" "list_all sh_plain boot" "boot \<noteq> []" "sh_words args = Some ws"
    and "\<not> list_ex (\<lambda>w. w \<in> {''--bootstrap-server'', ''--command-config''}) ws"
    and "install_dir_ok kh" "r_agent_connected R (h_id h) (fst (wld s))"
  shows "let cmd = tool_cmd kh script boot ('' '' @ args); op = ''kafka_cli.'' @ verb;
      payload = [(''bootstrap'', JStr boot), (''install_dir'', JStr kh), (''args'', JArr (map JStr ws))] in
    sh_words cmd = Some ([kh @ ''/bin/'' @ script, ''--bootstrap-server'', boot] @ ws) \<and>
    (\<exists>rest. trace (snd (run_kafka_cmd (recorded R) h cmd n s)) = trace s @ Sent (h_id h) op payload # rest \<and>
      (if isl (fst (r_agent_send R (h_id h) op payload n (fst (wld s))))
       then rest = [Connected (h_id h)] \<or> (\<exists>rc. rest = [Connected (h_id h), Ran (h_id h) cmd rc])
       else rest = []))"
proof -
  define cmd where "cmd = tool_cmd kh script boot ('' '' @ args)"
  define op where "op = ''kafka_cli.'' @ verb"
  define payload where "payload = [(''bootstrap'', JStr boot), (''install_dir'', JStr kh), (''args'', JArr (map JStr ws))]"
  note words = tool_cmd_words[OF assms(1-5), folded cmd_def]
  have parsed: "parse_kafka_invocation cmd = Some (verb, kh, boot, ws, None)"
    using invocation_parsed[OF assms(1,4,6), of cmd kh] shlex_split_sh[OF words] by simp
  obtain r t where cli: "kafka_cli (recorded R) h verb boot kh ws None n s = (r, t)"
      "trace t = trace s @ [Sent (h_id h) op payload]"
      "isl r \<longleftrightarrow> isl (fst (r_agent_send R (h_id h) op payload n (fst (wld s))))"
    using kafka_cli_sends[OF assms(8,7) payload_def, of verb n] unfolding op_def by metis
  have available: "agent_available (recorded R) (h_id h) s = (Inr True, s)"
    using assms(8) by (cases "wld s") (simp add: agent_available_def recorded_def)
  have run: "run_kafka_cmd (recorded R) h cmd n s = (case r of Inl e \<Rightarrow> run_over_ssh (recorded R) h cmd n t
      | Inr (ok, out, err) \<Rightarrow> (Inr (if ok then 0 else 1, out, err), t))"
    by (cases r) (auto simp: run_kafka_cmd_def bnd_run available parsed attempt_run cli(1))
  have "sh_words cmd = Some ([kh @ ''/bin/'' @ script, ''--bootstrap-server'', boot] @ ws) \<and>
    (\<exists>rest. trace (snd (run_kafka_cmd (recorded R) h cmd n s)) = trace s @ Sent (h_id h) op payload # rest \<and>
      (if isl (fst (r_agent_send R (h_id h) op payload n (fst (wld s))))
       then rest = [Connected (h_id h)] \<or> (\<exists>rc. rest = [Connected (h_id h), Ran (h_id h) cmd rc])
       else rest = []))"
  proof (cases r)
    case (Inl e)
    obtain es where "trace (snd (run_over_ssh (recorded R) h cmd n t)) = trace t @ Connected (h_id h) # es"
        "es = [] \<or> (\<exists>rc. es = [Ran (h_id h) cmd rc])"
      using run_over_ssh_trace[of R h cmd n t] by blast
    then show ?thesis using words run cli(2,3) Inl by (intro conjI exI[of _ "Connected (h_id h) # es"]) auto
  next
    case (Inr x)
    then show ?thesis using words run cli(2,3) by (cases x) auto
  qed
  then show ?thesis unfolding cmd_def op_def payload_def Let_def .
qed

definition agent_world :: "unit remote" where
  "agent_world = (scripted (\<lambda>c. (0, [], [])))\<lparr>r_agent_connected := \<lambda>h w. True\<rparr>"

theorem agent_same_words_witness:
  "trace (snd (run_kafka_cmd (recorded agent_world) sample_host
      (tool_cmd ''/opt/kafka'' ''kafka-topics.sh'' ''k1:9092'' ('' '' @ ''--describe --topic '' @ sq @ ''a b'' @ sq)) 30 (plain_sys ((), [])))) =
    [Sent (h_id sample_host) (''kafka_cli.'' @ ''topics'') [(''bootstrap'', JStr ''k1:9092''), (''install_dir'', JStr ''/opt/kafka''),
      (''args'', JArr (map JStr [''--describe'', ''--topic'', ''a b'']))]]"
proof -
  have h: "map_of verb_map ''kafka-topics.sh'' = Some ''topics''" "list_all sh_plain ''/opt/kafka''" "list_all sh_plain ''k1:9092''" "''k1:9092'' \<noteq> []"
    "sh_words (''--describe --topic '' @ sq @ ''a b'' @ sq) = Some [''--describe'', ''--topic'', ''a b'']"
    "\<not> list_ex (\<lambda>w. w \<in> {''--bootstrap-server'', ''--command-config''}) [''--describe'', ''--topic'', ''a b'']"
    "install_dir_ok ''/opt/kafka''" "r_agent_connected agent_world (h_id sample_host) (fst (wld (plain_sys ((), []))))" by code_simp+
  have "\<not> isl (fst (r_agent_send agent_world i op p n w))" for i op p n w by (simp add: agent_world_def scripted_def)
  moreover have "trace (plain_sys ((), [])) = []" by (simp add: trace_def plain_sys_def)
  ultimately show ?thesis
    using agent_same_words[OF h, of 30] by (simp del: append.simps add: Let_def)
qed

section \<open>Access control lists\<close>

text \<open>The words of the command that grants access.\<close>

definition resource_argv :: "string \<Rightarrow> string \<Rightarrow> string list list" where
  "resource_argv rt rn =
     (if rt = ''topic'' then [[''--topic'', rn]]
      else if rt = ''group'' then [[''--group'', rn]]
      else if rt = ''cluster'' then [[''--cluster'']]
      else if rt = ''transactional-id'' then [[''--transactional-id'', rn]]
      else [])"

definition acl_parts :: "string \<Rightarrow> string \<Rightarrow> acl_request \<Rightarrow> string list list" where
  "acl_parts kh boot q =
     [[kh @ ''/bin/kafka-acls.sh''], [''--bootstrap-server'', boot], [''--add''], [principal_flag (aq_permission_type q), aq_principal q]] @
     resource_argv (lower (aq_resource_type q)) (aq_resource_name q) @ map (\<lambda>o'. [''--operation'', o']) (aq_operations q) @
     [[''--resource-pattern-type'', aq_pattern_type q]] @ (if aq_host q \<noteq> ''*'' then [[''--host'', aq_host q]] else [])"

lemma join_append: "xs \<noteq> [] \<Longrightarrow> ys \<noteq> [] \<Longrightarrow> join sep (xs @ ys) = join sep xs @ sep @ join sep ys"
proof (induction xs)
  case (Cons x xs)
  then show ?case by (cases xs; cases ys) simp_all
qed simp

lemma join_parts: "list_all (\<lambda>p. p \<noteq> []) ps \<Longrightarrow> join sep (map (join sep) ps) = join sep (concat ps)"
proof (induction ps)
  case (Cons p ps)
  show ?case
  proof (cases ps)
    case Nil
    then show ?thesis by simp
  next
    case (Cons p' ps')
    moreover from this have "join sep (map (join sep) (p # ps)) = join sep p @ sep @ join sep (map (join sep) ps)" by simp
    ultimately show ?thesis using Cons.IH Cons.prems join_append[of p "concat ps" sep] by simp
  qed
qed simp

definition quoted :: "string list \<Rightarrow> string" where
  "quoted p = join '' '' (map shlex_quote p)"

lemma quoted_pair: "list_all shell_safe a \<Longrightarrow> a \<noteq> [] \<Longrightarrow> quoted [a, b] = a @ '' '' @ shlex_quote b"
  "list_all shell_safe a \<Longrightarrow> a \<noteq> [] \<Longrightarrow> quoted [a] = a"
  by (simp_all add: quoted_def quote_safe)

lemma acl_flags:
  "list_all shell_safe ''--bootstrap-server''" "list_all shell_safe ''--add''" "list_all shell_safe ''--topic''"
  "list_all shell_safe ''--group''" "list_all shell_safe ''--cluster''" "list_all shell_safe ''--transactional-id''" "list_all shell_safe ''--operation''"
  "list_all shell_safe ''--resource-pattern-type''" "list_all shell_safe ''--host''" "list_all shell_safe ''--allow-principal''"
  "list_all shell_safe ''--deny-principal''"
  by code_simp+

lemma principal_flag_safe: "list_all shell_safe (principal_flag t)" "principal_flag t \<noteq> []"
  by (cases "t = ''Allow''"; simp only: principal_flag_def if_True if_False simp_thms acl_flags list.distinct)+

lemma acl_pairs:
  "quoted [''--bootstrap-server'', b] = ''--bootstrap-server '' @ shlex_quote b"
  "quoted [''--topic'', b] = ''--topic '' @ shlex_quote b"
  "quoted [''--group'', b] = ''--group '' @ shlex_quote b"
  "quoted [''--transactional-id'', b] = ''--transactional-id '' @ shlex_quote b"
  "quoted [''--operation'', b] = ''--operation '' @ shlex_quote b"
  "quoted [''--resource-pattern-type'', b] = ''--resource-pattern-type '' @ shlex_quote b"
  "quoted [''--host'', b] = ''--host '' @ shlex_quote b"
  "quoted [principal_flag t, b] = principal_flag t @ '' '' @ shlex_quote b"
  "quoted [''--add''] = ''--add''" "quoted [''--cluster''] = ''--cluster''"
  using quoted_pair(1)[OF acl_flags(1)] quoted_pair(1)[OF acl_flags(3)] quoted_pair(1)[OF acl_flags(4)] quoted_pair(1)[OF acl_flags(6)]
    quoted_pair(1)[OF acl_flags(7)] quoted_pair(1)[OF acl_flags(8)] quoted_pair(1)[OF acl_flags(9)] quoted_pair(1)[OF principal_flag_safe]
    quoted_pair(2)[OF acl_flags(2)] quoted_pair(2)[OF acl_flags(5)]
  by simp_all

lemma quoted_one: "quoted [b] = shlex_quote b"
  by (simp add: quoted_def)

lemma resource_words_quoted: "resource_words shlex_quote rt rn = map quoted (resource_argv rt rn)"
  unfolding resource_words_def resource_argv_def by (simp only: acl_pairs if_distrib[of "map quoted"] list.map)

lemma create_acl_parts: "create_acl_cmd kh boot q = join '' '' (map quoted (acl_parts kh boot q))"
  unfolding create_acl_cmd_def acl_parts_def
  by (simp only: map_append list.map acl_pairs quoted_one[of "kh @ ''/bin/kafka-acls.sh''"] resource_words_quoted if_distrib[of "map quoted"] map_map comp_def)

lemma create_acl_quoted: "create_acl_cmd kh boot q = join '' '' (map shlex_quote (concat (acl_parts kh boot q)))"
proof -
  have parts: "map quoted (acl_parts kh boot q) = map (join '' '') (map (map shlex_quote) (acl_parts kh boot q))" by (simp add: quoted_def)
  have "list_all (\<lambda>p. p \<noteq> []) (map (map shlex_quote) (acl_parts kh boot q))"
    by (auto simp: acl_parts_def resource_argv_def list_all_iff)
  from join_parts[OF this, of "'' ''"] show ?thesis unfolding create_acl_parts parts map_concat .
qed

text \<open>
  Claim C18.  Whatever the principal, the resource, the host and the other values of a request are, a POSIX shell reads the command that
  grants access as exactly one command with these values as its arguments, one each.
\<close>

theorem create_acl_exact:
  "sh_words (create_acl_cmd kh boot q) = Some ([kh @ ''/bin/kafka-acls.sh'', ''--bootstrap-server'', boot, ''--add'',
      principal_flag (aq_permission_type q), aq_principal q] @ concat (resource_argv (lower (aq_resource_type q)) (aq_resource_name q)) @
      concat (map (\<lambda>o'. [''--operation'', o']) (aq_operations q)) @ [''--resource-pattern-type'', aq_pattern_type q] @
      (if aq_host q \<noteq> ''*'' then [''--host'', aq_host q] else []))"
  unfolding create_acl_quoted sh_words_quoted by (simp add: acl_parts_def)

lemma acl_words_fixed:
  "t \<in> set ACL_RESOURCE_TYPES \<Longrightarrow> lower (strip t) = t" "t \<in> set ACL_PATTERN_TYPES \<Longrightarrow> lower (strip t) = t"
  "t \<in> set ACL_PATTERN_TYPES \<Longrightarrow> t \<noteq> []" "t \<in> set ACL_PERMISSION_TYPES \<Longrightarrow> capitalize (lower (strip t)) = t"
  "t \<in> set ACL_PERMISSION_TYPES \<Longrightarrow> t \<noteq> []" "t \<in> set ACL_OPERATIONS \<Longrightarrow> capitalize (strip t) = t"
proof -
  have "list_all (\<lambda>t. lower (strip t) = t) ACL_RESOURCE_TYPES" "list_all (\<lambda>t. lower (strip t) = t \<and> t \<noteq> []) ACL_PATTERN_TYPES"
    "list_all (\<lambda>t. capitalize (lower (strip t)) = t \<and> t \<noteq> []) ACL_PERMISSION_TYPES" "list_all (\<lambda>t. capitalize (strip t) = t) ACL_OPERATIONS"
    by code_simp+
  then show "t \<in> set ACL_RESOURCE_TYPES \<Longrightarrow> lower (strip t) = t" "t \<in> set ACL_PATTERN_TYPES \<Longrightarrow> lower (strip t) = t"
    "t \<in> set ACL_PATTERN_TYPES \<Longrightarrow> t \<noteq> []" "t \<in> set ACL_PERMISSION_TYPES \<Longrightarrow> capitalize (lower (strip t)) = t"
    "t \<in> set ACL_PERMISSION_TYPES \<Longrightarrow> t \<noteq> []" "t \<in> set ACL_OPERATIONS \<Longrightarrow> capitalize (strip t) = t"
    by (auto simp: list_all_iff)
qed

lemma normalize_operations_Inr: "normalize_operations os = Inr ops \<Longrightarrow> set ops \<subseteq> set ACL_OPERATIONS"
proof (induction os arbitrary: ops)
  case (Cons o' os)
  then show ?case by (cases "normalize_operations os") (auto simp: Let_def split: if_splits)
qed simp

lemma normalize_operations_fixed: "set ops \<subseteq> set ACL_OPERATIONS \<Longrightarrow> normalize_operations ops = Inr ops"
  by (induction ops) (simp_all add: acl_words_fixed)

lemma strip_last: "strip p = p \<Longrightarrow> p \<noteq> [] \<Longrightarrow> \<not> py_ws (last p)"
  using hd_strip[of "rev p"] by (simp add: hd_rev strip_def strip_by_def) (metis (no_types, lifting) dropWhile_eq_Nil_conv dropWhile_idem hd_rev hd_dropWhile rev_is_Nil_conv rev_rev_ident)

lemma user_principal: "strip p = p \<Longrightarrow> p \<noteq> [] \<Longrightarrow> strip (''User:'' @ p) = ''User:'' @ p \<and> contains (''User:'' @ p) '':''"
proof -
  assume p: "strip p = p" "p \<noteq> []"
  have "\<not> py_ws CHR ''U''" by code_simp
  then have "strip (''User:'' @ p) = ''User:'' @ p" using strip_last[OF p] p(2) by (intro strip_id) auto
  moreover have "contains (''User:'' @ p) '':''" unfolding contains_iff by (rule exI[of _ "''User''"]) simp
  ultimately show ?thesis by simp
qed

lemma normalize_cases:
  assumes "normalize_acl_create_request q = Inr q'"
  obtains rt rn pt perm ops where "strip (aq_principal q) \<noteq> []" "rt \<in> set ACL_RESOURCE_TYPES" "rt = ''cluster'' \<or> rn \<noteq> []" "strip rn = rn"
    "pt \<in> set ACL_PATTERN_TYPES" "perm \<in> set ACL_PERMISSION_TYPES" "set ops \<subseteq> set ACL_OPERATIONS" "ops \<noteq> []"
    "q' = \<lparr>aq_principal = (if contains (strip (aq_principal q)) '':'' then strip (aq_principal q) else ''User:'' @ strip (aq_principal q)),
      aq_resource_type = rt, aq_resource_name = (if rt = ''cluster'' \<and> rn = [] then ''kafka-cluster'' else rn), aq_pattern_type = pt,
      aq_operations = ops, aq_permission_type = perm, aq_host = or_default ''*'' (strip (or_default ''*'' (aq_host q)))\<rparr>"
proof -
  define p where "p = strip (aq_principal q)"
  define rt where "rt = lower (strip (aq_resource_type q))"
  define rn where "rn = strip (aq_resource_name q)"
  define pt where "pt = lower (strip (or_default ''literal'' (aq_pattern_type q)))"
  define perm where "perm = capitalize (lower (strip (or_default ''Allow'' (aq_permission_type q))))"
  note n = assms[unfolded normalize_acl_create_request_def Let_def, folded p_def rt_def rn_def pt_def perm_def]
  have guards: "p \<noteq> []" "rt \<in> set ACL_RESOURCE_TYPES" "rt = ''cluster'' \<or> rn \<noteq> []" "pt \<in> set ACL_PATTERN_TYPES" "perm \<in> set ACL_PERMISSION_TYPES"
    using n by (simp_all split: if_splits)
  with n obtain ops where ops: "normalize_operations (aq_operations q) = Inr ops"
    by (cases "normalize_operations (aq_operations q)") (simp_all split: if_splits)
  have ne: "ops \<noteq> []" using n guards ops by (simp split: if_splits)
  have "\<not> rt \<notin> set ACL_RESOURCE_TYPES" "\<not> (rt \<noteq> ''cluster'' \<and> rn = [])" "\<not> pt \<notin> set ACL_PATTERN_TYPES" "\<not> perm \<notin> set ACL_PERMISSION_TYPES"
    using guards by blast+
  note q' = n[unfolded if_not_P[OF guards(1)] if_not_P[OF this(1)] if_not_P[OF this(2)] if_not_P[OF this(3)] if_not_P[OF this(4)] ops sum.case
    if_not_P[OF ne], THEN sum.inject(2)[THEN iffD1], symmetric]
  have "strip rn = rn" by (simp add: rn_def strip_idem)
  then show ?thesis using that[folded p_def, of rt rn pt perm ops] guards ne normalize_operations_Inr[OF ops] q' by blast
qed

lemma normalize_Inr:
  assumes "normalize_acl_create_request q = Inr q'"
  shows "strip (aq_principal q') = aq_principal q'" "aq_principal q' \<noteq> []" "contains (aq_principal q') '':''"
    "aq_resource_type q' \<in> set ACL_RESOURCE_TYPES" "strip (aq_resource_name q') = aq_resource_name q'" "aq_resource_name q' \<noteq> []"
    "aq_pattern_type q' \<in> set ACL_PATTERN_TYPES" "aq_permission_type q' \<in> set ACL_PERMISSION_TYPES"
    "aq_operations q' \<noteq> []" "set (aq_operations q') \<subseteq> set ACL_OPERATIONS" "strip (aq_host q') = aq_host q'" "aq_host q' \<noteq> []"
proof -
  have fixed: "strip ''kafka-cluster'' = ''kafka-cluster''" "strip ''*'' = ''*''" "''kafka-cluster'' \<noteq> []" "''*'' \<noteq> []" by code_simp+
  define p where "p = strip (aq_principal q)"
  obtain rt rn pt perm ops where c: "p \<noteq> []" "rt \<in> set ACL_RESOURCE_TYPES" "rt = ''cluster'' \<or> rn \<noteq> []" "strip rn = rn"
    "pt \<in> set ACL_PATTERN_TYPES" "perm \<in> set ACL_PERMISSION_TYPES" "set ops \<subseteq> set ACL_OPERATIONS" "ops \<noteq> []"
    "q' = \<lparr>aq_principal = (if contains p '':'' then p else ''User:'' @ p),
      aq_resource_type = rt, aq_resource_name = (if rt = ''cluster'' \<and> rn = [] then ''kafka-cluster'' else rn), aq_pattern_type = pt,
      aq_operations = ops, aq_permission_type = perm, aq_host = or_default ''*'' (strip (or_default ''*'' (aq_host q)))\<rparr>"
    using normalize_cases[OF assms] unfolding p_def by metis
  have p: "strip p = p" by (simp add: p_def strip_idem)
  have principal: "aq_principal q' = (if contains p '':'' then p else ''User:'' @ p)" by (simp only: c(9) acl_request.select_convs)
  show "strip (aq_principal q') = aq_principal q'" "aq_principal q' \<noteq> []" "contains (aq_principal q') '':''"
    unfolding principal using user_principal[OF p c(1)] p c(1) by (auto split: if_split simp del: append.simps)
  show "aq_resource_type q' \<in> set ACL_RESOURCE_TYPES" "aq_pattern_type q' \<in> set ACL_PATTERN_TYPES" "aq_permission_type q' \<in> set ACL_PERMISSION_TYPES"
    "aq_operations q' \<noteq> []" "set (aq_operations q') \<subseteq> set ACL_OPERATIONS"
    using c(1-8) by (simp_all only: c(9) acl_request.select_convs simp_thms)
  have name: "aq_resource_name q' = (if rt = ''cluster'' \<and> rn = [] then ''kafka-cluster'' else rn)" by (simp only: c(9) acl_request.select_convs)
  have "strip (aq_resource_name q') = aq_resource_name q' \<and> aq_resource_name q' \<noteq> []"
  proof (cases "rt = ''cluster'' \<and> rn = []")
    case True
    show ?thesis unfolding name if_P[OF True] using fixed(1,3) by blast
  next
    case False
    then show ?thesis unfolding name if_not_P[OF False] using c(3,4) by blast
  qed
  then show "strip (aq_resource_name q') = aq_resource_name q'" "aq_resource_name q' \<noteq> []" by blast+
  have host: "aq_host q' = or_default ''*'' (strip (or_default ''*'' (aq_host q)))" by (simp only: c(9) acl_request.select_convs)
  show "strip (aq_host q') = aq_host q'" "aq_host q' \<noteq> []"
    unfolding host or_default_def using fixed(2,4) by (simp_all add: strip_idem split: if_split)
qed

lemma normalize_fixed:
  assumes "normalize_acl_create_request q = Inr q'"
  shows "normalize_acl_create_request q' = Inr q'"
  using normalize_Inr[OF assms] acl_words_fixed(1)[of "aq_resource_type q'"] acl_words_fixed(2,3)[of "aq_pattern_type q'"]
    acl_words_fixed(4,5)[of "aq_permission_type q'"] normalize_operations_fixed[of "aq_operations q'"]
  by (simp add: normalize_acl_create_request_def or_default_def)

text \<open>
  Claim C22.  A request to grant access that is accepted has its normal form: a principal with a type, one of the four resource types with
  a name, a pattern type, a permission type and at least one operation, all of the known ones, and a host; and a normal form is
  left as it is.
\<close>

theorem acl_normal_form:
  assumes "normalize_acl_create_request q = Inr q'"
  shows "aq_principal q' \<noteq> [] \<and> contains (aq_principal q') '':'' \<and> aq_resource_type q' \<in> set ACL_RESOURCE_TYPES \<and> aq_resource_name q' \<noteq> [] \<and>
    aq_pattern_type q' \<in> set ACL_PATTERN_TYPES \<and> aq_permission_type q' \<in> set ACL_PERMISSION_TYPES \<and>
    aq_operations q' \<noteq> [] \<and> set (aq_operations q') \<subseteq> set ACL_OPERATIONS \<and> aq_host q' \<noteq> [] \<and>
    normalize_acl_create_request q' = Inr q'"
  using normalize_Inr[OF assms] normalize_fixed[OF assms] by blast

definition loose_request :: acl_request where
  "loose_request = \<lparr>aq_principal = '' bob '', aq_resource_type = ''Cluster'', aq_resource_name = [], aq_pattern_type = [],
     aq_operations = [''read'', '' ALL''], aq_permission_type = ''ALLOW'', aq_host = '' ''\<rparr>"

definition normal_request :: acl_request where
  "normal_request = \<lparr>aq_principal = ''User:bob'', aq_resource_type = ''cluster'', aq_resource_name = ''kafka-cluster'', aq_pattern_type = ''literal'',
     aq_operations = [''Read'', ''All''], aq_permission_type = ''Allow'', aq_host = ''*''\<rparr>"

theorem acl_normal_form_witness: "normalize_acl_create_request normal_request = Inr normal_request"
proof -
  have "normalize_acl_create_request loose_request = Inr normal_request" by code_simp
  from acl_normal_form[OF this] show ?thesis by blast
qed

section \<open>What changes the tables and the cache\<close>

lemma world_only_kafka_cli: "world_only (kafka_cli R h verb b d args cc n)"
  unfolding kafka_cli_def run_op_def
  by (auto intro!: world_steps world_only_still[OF still_agent_available] split: agent_reply.split)

lemma world_only_run_kafka: "world_only (run_kafka_cmd R h cmd n)"
  unfolding run_kafka_cmd_def run_over_ssh_def
  by (auto intro!: world_steps world_only_still[OF still_agent_available] world_only_kafka_cli split: option.split sum.split)

lemma still_external_cluster: "still (external_cluster cid)"
  unfolding external_cluster_def by (auto intro!: keeps_io.rel_intros split: option.split)

lemma still_get_broker: "still (get_broker_with_paths E cid)"
  unfolding get_broker_with_paths_def by (auto intro!: keeps_io.rel_intros simp: Let_def split: option.split)

lemma world_only_run_tool: "world_only (run_tool E cid script args n failed)"
  unfolding run_tool_def by (auto intro!: keeps_io.rel_intros world_only_still[OF still_get_broker] world_only_run_kafka)

lemma world_only_dispatch: "(\<And>c. world_only (ext c)) \<Longrightarrow> world_only m \<Longrightarrow> world_only (dispatch cid ext m)"
  unfolding dispatch_def by (auto intro!: keeps_io.rel_intros world_only_still[OF still_external_cluster] split: option.split)

lemma world_only_with_client: "world_only body \<Longrightarrow> world_only (with_client K cn body)"
  unfolding with_client_def by (intro world_steps)

lemma world_only_get_topic: "world_only (get_topic_detail E cid name)"
  unfolding get_topic_detail_def ext_get_topic_detail_def
  by (auto intro!: world_only_dispatch world_steps world_only_with_client world_only_run_tool simp: Let_def split: list.split)

lemma world_only_ext_ops: "world_only (ext_create_topic K F c name n rf)" "world_only (ext_delete_topic K F c name)"
  "world_only (ext_alter_topic_config K F c name cfg)" "world_only (ext_increase_partitions K F c name n)"
  "world_only (ext_create_acl K F c q o')" "world_only (ext_delete_acl K F c q o')"
  unfolding ext_create_topic_def ext_delete_topic_def ext_alter_topic_config_def ext_increase_partitions_def ext_create_acl_def ext_delete_acl_def
  by (intro world_only_with_client world_only_on_wld)+

text \<open>What the cache has for a cluster.\<close>

definition cache_of :: "string \<Rightarrow> 'w sys \<Rightarrow> (int \<times> topic_info list) option" where
  "cache_of cid s = map_of (topic_cache (tasks s)) cid"

lemma cache_world: "world_only m \<Longrightarrow> rel_io (keeps (cache_of cid)) m"
  unfolding rel_io_def keeps_def off_wld_def cache_of_def by auto


lemma cache_tables: "rel_io (keeps (cache_of cid)) (upd_sess f)" "rel_io (keeps (cache_of cid)) commit"
  "rel_io (keeps (cache_of cid)) (audit fr actor c a rt rn d)"
  by (simp_all add: rel_io_def keeps_def upd_sess_def commit_def cache_of_def audit_def)

lemmas world_ops = world_only_still[OF still_external_cluster] world_only_still[OF still_get_broker] world_only_run_kafka world_only_run_tool
  world_only_get_topic world_only_ext_ops

lemmas cache_steps = keeps_io.rel_intros cache_tables world_ops[THEN cache_world]

lemma cache_alter: "rel_io (keeps (cache_of cid)) (alter_topic_config E fr actor c name configs)"
  unfolding alter_topic_config_def dispatch_def by (auto intro!: cache_steps simp: Let_def split: option.split)

lemma cache_increase: "rel_io (keeps (cache_of cid)) (increase_partitions E fr actor c name n)"
  unfolding increase_partitions_def dispatch_def by (auto intro!: cache_steps simp: Let_def split: option.split)






lemma cached_of: "topic_list_cached R cid s = (case cache_of cid s of None \<Rightarrow> None
    | Some (time, topics) \<Rightarrow> if r_clock R (wld s) - time < TOPIC_LIST_CACHE_TTL then Some topics else None)"
  by (simp add: topic_list_cached_def cache_of_def)

text \<open>
  What the cache shows after a change that does not empty it: neither a changed configuration nor an increased number of partitions
  does, although the comment on \<open>_topic_list_invalidate\<close> says that altering calls it.
\<close>

lemma listing_after_alter:
  assumes "cache_of cid s = Some (time, old)"
    and "t = snd (alter_topic_config E fr actor cid name configs s) \<or> t = snd (increase_partitions E fr actor cid name n s)"
    and "r_clock (kx_remote E) (wld t) - time < TOPIC_LIST_CACHE_TTL"
  shows "list_topics E cid t = (Inr old, t)"
proof -
  have "cache_of cid t = cache_of cid s"
    using assms(2) cache_alter[of cid E fr actor cid name configs] cache_increase[of cid E fr actor cid name n] by (auto simp: rel_io_def keeps_def)
  then show ?thesis using assms(1,3) by (simp add: list_topics_def Let_def bnd_run cached_of)
qed

















text \<open>An external cluster whose brokers do everything, in a world without time.\<close>

definition easily :: "'w \<Rightarrow> (exn + unit) \<times> 'w" where
  "easily w = (Inr (), w)"

definition easy_kafka :: "unit kafka_py" where
  "easy_kafka = \<lparr>kp_open = (\<lambda>cn. easily), kp_close = (\<lambda>cn. easily), kp_is_kafka_error = (\<lambda>e. False),
     kp_describe_cluster = (\<lambda>cn. raise (RuntimeError [])), kp_software_version = (\<lambda>cn. ret None), kp_check_version = (\<lambda>cn. ret []),
     kp_list_topics = (\<lambda>cn. ret []), kp_describe_topics = (\<lambda>cn ts. ret []), kp_describe_configs = (\<lambda>cn k ns. ret []),
     kp_create_topic = (\<lambda>cn n p f. easily), kp_delete_topic = (\<lambda>cn n. easily), kp_create_partitions = (\<lambda>cn n p. easily),
     kp_alter_configs = (\<lambda>cn n cs. easily), kp_incremental_alter = (\<lambda>cn b cs. easily), kp_alter_version = (\<lambda>cn. ret 0),
     kp_alter_legacy = (\<lambda>cn b cs. ret []), kp_error_text = (\<lambda>n. []), kp_list_groups = (\<lambda>cn. ret []), kp_describe_groups = (\<lambda>cn gs. ret []),
     kp_group_offsets = (\<lambda>cn g. ret []), kp_produce = (\<lambda>cn t k v. ret (t, 0, 0)), kp_consume = (\<lambda>cn t b n. ret []),
     kp_decode = Inr, kp_decode_replace = (\<lambda>s. s), kp_describe_acls = (\<lambda>cn f. ret []), kp_create_acl = (\<lambda>cn f. easily),
     kp_delete_acls = (\<lambda>cn f. easily)\<rparr>"

definition easy_env :: "unit kafka_env" where
  "easy_env = \<lparr>kx_remote = scripted (\<lambda>c. (0, [], [])), kx_kafka = easy_kafka,
     kx_fernet = \<lparr>fe_encrypt = (\<lambda>d. []), fe_decrypt = (\<lambda>s. None)\<rparr>, kx_encrypt = (\<lambda>s. ''enc'' @ s), kx_settings = default_settings ''/repo'',
     kx_repr = (\<lambda>j. []), kx_dumps = (\<lambda>j. ''{}''), kx_loads = (\<lambda>s. None)\<rparr>"

definition ext_tables :: tables where
  "ext_tables = empty_tables\<lparr>clusters := [(bare_cluster ''c1'' ''east'')\<lparr>c_kind := Some ''external'',
     c_external_broker_hosts_json := Some (Json (JArr [JObj [(''host_id'', JStr ''h1'')]]))\<rparr>], hosts := [sample_host]\<rparr>"

definition ext_sys :: "unit sys" where
  "ext_sys = \<lparr>sess = ext_tables, committed = ext_tables, tasks = no_tasks\<lparr>topic_cache := [(''c1'', 0, [])]\<rparr>, wld = ()\<rparr>"


section \<open>Users of external clusters\<close>

lemma dispatch_ext: "find_cluster (sess s) cid = Some c \<Longrightarrow> is_external c \<Longrightarrow> dispatch cid ext m s = ext c s"
  by (simp add: dispatch_def external_cluster_def bnd_run)

lemma world_only_first_valid: "world_only (first_valid R h ds)"
  by (induction ds) (auto intro!: world_steps)

lemma world_only_ssh_broker: "world_only (get_ssh_broker R c)"
  unfolding get_ssh_broker_def find_kafka_dir_on_host_def
  by (auto intro!: world_steps world_only_first_valid simp: Let_def split: option.split sum.split)

lemma world_only_command_config: "world_only (build_command_config R F rp c h)"
  unfolding build_command_config_def by (auto intro!: world_steps simp: Let_def)

lemma world_only_ext_users: "world_only (ext_create_scram_user R F rp c user pw mech)" "world_only (ext_delete_scram_user R F rp c user)"
  unfolding ext_create_scram_user_def ext_delete_scram_user_def
  by (auto intro!: world_steps world_only_ssh_broker world_only_command_config split: prod.split)

lemma store_user_run:
  assumes "store_user E fr actor cid user mech pw s = (r, t)"
  shows "r = Inr ()" "kafka_users (committed t) = kafka_users (sess s) @ [new_kafka_user E fr cid user mech pw]"
    "map au_action (audit_logs (committed t)) = map au_action (audit_logs (sess s)) @ [''user_created'']"
  using assms by (auto simp: store_user_def audit_def upd_sess_def commit_def seqm_run)

text \<open>What a step can return.\<close>

definition returns :: "('a \<Rightarrow> bool) \<Rightarrow> ('s, 'a) io \<Rightarrow> bool" where
  "returns P m \<longleftrightarrow> (\<forall>s x t. m s = (Inr x, t) \<longrightarrow> P x)"

lemma returns_ret: "P x \<Longrightarrow> returns P (ret x)"
  by (simp add: returns_def)

lemma returns_bnd: "(\<And>x. returns P (k x)) \<Longrightarrow> returns P (bnd m k)"
  unfolding returns_def bnd_def by (auto split: prod.splits sum.splits)

lemma returns_seqm: "returns P n \<Longrightarrow> returns P (seqm m n)"
  unfolding seqm_def by (rule returns_bnd)

lemma validated_missing: "(\<And>x t. m s = (Inr x, t) \<Longrightarrow> \<not> ok x) \<Longrightarrow> isl (fst (validated ok m s)) \<and> snd (validated ok m s) = snd (m s)"
  by (cases "m s") (auto simp: validated_def bnd_run split: sum.split)

lemma bad_request_run: "bad_request m s = (Inr x, t) \<longleftrightarrow> m s = (Inr x, t)" "snd (bad_request m s) = snd (m s)"
  by (cases "m s"; cases "fst (m s)"; auto simp: bad_request_def catch_run)+

text \<open>
  Claim C21.  The routes that create, delete and rotate users check their answer against response models with a message, which the answer for
  an external cluster lacks.  There no such request is ever answered with success: when the user was created on the brokers, the new
  row and its audit row are committed, and the client is told of a server error.
\<close>

theorem external_users_fail:
  assumes "find_cluster (sess s) cid = Some c" "is_external c"
  shows "isl (fst (create_user_route E fr g actor cid user pw mech s)) \<and> isl (fst (delete_user_route E fr actor cid user s)) \<and>
    isl (fst (rotate_user_password E fr g actor cid user pw s)) \<and>
    (\<not> isl (fst (create_scram_user E fr g actor cid user pw mech s)) \<longrightarrow>
      (let t = snd (create_user_route E fr g actor cid user pw mech s) in
       kafka_users (committed t) = kafka_users (sess s) @ [new_kafka_user E fr cid user mech (chosen_password pw g)] \<and>
       map au_action (audit_logs (committed t)) = map au_action (audit_logs (sess s)) @ [''user_created'']))"
proof -
  note ext = dispatch_ext[OF assms]
  let ?m = "ext_create_scram_user (kx_remote E) (kx_fernet E) (str_of (kx_repr E)) c user (chosen_password pw g) mech"
  have run: "create_scram_user E fr g actor cid user pw mech s =
      seqm ?m (seqm (store_user E fr actor cid user mech (chosen_password pw g))
        (ret \<lparr>sc_id = Some (f_hex fr), sc_username = user, sc_mechanism = Some mech, sc_password = Some (chosen_password pw g), sc_message = None\<rparr>)) s"
    by (simp add: create_scram_user_def Let_def ext)
  have no_message: "sc_message x = None" if "create_scram_user E fr g actor cid user pw mech s = (Inr x, t)" for x t
  proof -
    have "returns (\<lambda>x. sc_message x = None) (seqm ?m (seqm (store_user E fr actor cid user mech (chosen_password pw g))
        (ret \<lparr>sc_id = Some (f_hex fr), sc_username = user, sc_mechanism = Some mech, sc_password = Some (chosen_password pw g), sc_message = None\<rparr>)))"
      by (intro returns_seqm returns_ret) simp
    then show ?thesis using that unfolding run returns_def by blast
  qed
  then have create: "isl (fst (create_user_route E fr g actor cid user pw mech s))"
    "snd (create_user_route E fr g actor cid user pw mech s) = snd (create_scram_user E fr g actor cid user pw mech s)"
    unfolding create_user_route_def using validated_missing[of "bad_request (create_scram_user E fr g actor cid user pw mech)" s] 
    by (auto simp: bad_request_run)
  have "sc_message x = None" if "delete_scram_user E fr actor cid user s = (Inr x, t)" for x t
  proof -
    have "returns (\<lambda>x. sc_message x = None) (seqm (ext_delete_scram_user (kx_remote E) (kx_fernet E) (str_of (kx_repr E)) c user)
        (seqm (forget_user fr actor cid user (Some []))
        (ret \<lparr>sc_id = None, sc_username = user, sc_mechanism = None, sc_password = None, sc_message = None\<rparr>)))"
      by (intro returns_seqm returns_ret) simp
    then show ?thesis using that unfolding returns_def by (simp add: delete_scram_user_def Let_def ext) blast
  qed
  then have delete: "isl (fst (delete_user_route E fr actor cid user s))"
    unfolding delete_user_route_def using validated_missing[of "bad_request (delete_scram_user E fr actor cid user)" s]
    by (auto simp: bad_request_run)
  have "sc_message x = None" if "rotate_scram_password E fr g actor cid user pw s = (Inr x, t)" for x t
  proof -
    let ?found = "List.find (is_user_of cid user) (kafka_users (sess s))"
    have r: "rotate_scram_password E fr g actor cid user pw s = seqm (ext_create_scram_user (kx_remote E) (kx_fernet E) (str_of (kx_repr E)) c user
          (chosen_password pw g) (case ?found of Some u \<Rightarrow> ku_mechanism u | None \<Rightarrow> ''SCRAM-SHA-512''))
         (seqm (set_password E fr ?found (chosen_password pw g)) (seqm (audit fr (Some actor) cid ''user_password_rotated'' ''user'' user (Some []))
         (seqm commit (ret \<lparr>sc_id = None, sc_username = user, sc_mechanism = None, sc_password = Some (chosen_password pw g), sc_message = None\<rparr>)))) s"
      using assms by (simp add: rotate_scram_password_def external_cluster_def bnd_run Let_def)
    have "returns (\<lambda>x. sc_message x = None) (seqm (ext_create_scram_user (kx_remote E) (kx_fernet E) (str_of (kx_repr E)) c user
          (chosen_password pw g) (case ?found of Some u \<Rightarrow> ku_mechanism u | None \<Rightarrow> ''SCRAM-SHA-512''))
         (seqm (set_password E fr ?found (chosen_password pw g)) (seqm (audit fr (Some actor) cid ''user_password_rotated'' ''user'' user (Some []))
         (seqm commit (ret \<lparr>sc_id = None, sc_username = user, sc_mechanism = None, sc_password = Some (chosen_password pw g), sc_message = None\<rparr>)))))"
      by (intro returns_seqm returns_ret) simp
    then show ?thesis using that unfolding r returns_def by blast
  qed
  then have rotate: "isl (fst (rotate_user_password E fr g actor cid user pw s))"
    unfolding rotate_user_password_def using validated_missing[of "bad_request (rotate_scram_password E fr g actor cid user pw)" s]
    by (auto simp: bad_request_run)
  have done': "kafka_users (committed t) = kafka_users (sess s) @ [new_kafka_user E fr cid user mech (chosen_password pw g)] \<and>
      map au_action (audit_logs (committed t)) = map au_action (audit_logs (sess s)) @ [''user_created'']"
    if "create_scram_user E fr g actor cid user pw mech s = (Inr x, t)" for x t
  proof -
    obtain r u where m: "?m s = (r, u)" by (cases "?m s")
    obtain r' v where st: "store_user E fr actor cid user mech (chosen_password pw g) u = (r', v)"
      by (cases "store_user E fr actor cid user mech (chosen_password pw g) u")
    have "sess u = sess s" using world_onlyD[OF world_only_ext_users(1) m] by simp
    moreover have "v = t" using that m st store_user_run(1)[OF st] unfolding run by (auto simp: seqm_run split: sum.splits)
    ultimately show ?thesis using store_user_run(2,3)[OF st] by simp
  qed
  show ?thesis
    using create delete rotate done' by (cases "create_scram_user E fr g actor cid user pw mech s"; cases "fst (create_scram_user E fr g actor cid user pw mech s)")
      (auto simp: Let_def)
qed

theorem external_users_fail_witness:
  "isl (fst (create_user_route easy_env (sample_fresh 0) ''pw'' root_user ''c1'' ''app'' None ''SCRAM-SHA-512'' ext_sys)) \<and>
   map au_action (audit_logs (committed (snd (create_user_route easy_env (sample_fresh 0) ''pw'' root_user ''c1'' ''app'' None ''SCRAM-SHA-512'' ext_sys)))) =
     [''user_created'']"
proof -
  have h: "find_cluster (sess ext_sys) ''c1'' = Some (hd (clusters ext_tables))" "is_external (hd (clusters ext_tables))" by code_simp+
  have ok: "\<not> isl (fst (create_scram_user easy_env (sample_fresh 0) ''pw'' root_user ''c1'' ''app'' None ''SCRAM-SHA-512'' ext_sys))" by code_simp
  have "audit_logs (sess ext_sys) = []" by code_simp
  with ok external_users_fail[OF h, of easy_env "sample_fresh 0" "''pw''" root_user "''app''" None "''SCRAM-SHA-512''"]
  show ?thesis by (simp add: Let_def)
qed

section \<open>The audit of access control lists\<close>

definition both :: "'w sys \<Rightarrow> tables \<times> tables" where
  "both s = (sess s, committed s)"

lemma both_world: "world_only m \<Longrightarrow> rel_io (keeps both) m"
  unfolding rel_io_def keeps_def off_wld_def both_def by auto

definition granted_row :: "string \<Rightarrow> user option \<Rightarrow> audit_log \<Rightarrow> bool" where
  "granted_row cid actor a \<longleftrightarrow> au_action a = ''acl_created'' \<and> au_cluster_id a = cid \<and> au_actor_user_id a = map_option u_id actor \<and>
     au_actor_username a = map_option u_username actor"

text \<open>Either nothing has changed, or \<open>n\<close> rows that satisfy \<open>P\<close> are committed.\<close>

definition audited_rows :: "nat \<Rightarrow> (audit_log \<Rightarrow> bool) \<Rightarrow> tables \<times> tables \<Rightarrow> exn + 'a \<Rightarrow> tables \<times> tables \<Rightarrow> bool" where
  "audited_rows n P p r q \<longleftrightarrow> (if isl r then q = p
     else \<exists>rows. length rows = n \<and> list_all P rows \<and> q = ((fst p)\<lparr>audit_logs := audit_logs (fst p) @ rows\<rparr>, (fst p)\<lparr>audit_logs := audit_logs (fst p) @ rows\<rparr>))"

lemma audit_granted:
  obtains row u where "audit fr actor cid ''acl_created'' t nm dt s = (Inr (), u)" "granted_row cid actor row"
    "sess u = (sess s)\<lparr>audit_logs := audit_logs (sess s) @ [row]\<rparr>" "committed u = committed s"
proof -
  define row where "row = \<lparr>au_id = f_audit_id fr, au_cluster_id = cid, au_action = ''acl_created'', au_resource_type = t,
       au_resource_name = nm, au_details = dt, au_actor_user_id = map_option u_id actor, au_actor_username = map_option u_username actor,
       au_created_at = f_now fr\<rparr>"
  have "granted_row cid actor row" by (simp only: granted_row_def row_def audit_log.simps simp_thms)
  then show ?thesis by (intro that[of "snd (audit fr actor cid ''acl_created'' t nm dt s)" row])
    (simp_all add: audit_def row_def[symmetric] upd_sess_def)
qed

lemma audits_run: "for_each (\<lambda>(n, o'). audit (frs n) actor cid ''acl_created'' t (nm o') (dt o')) ops s = (r, t') \<Longrightarrow>
  \<exists>ys rows. r = Inr ys \<and> length rows = length ops \<and> list_all (granted_row cid actor) rows \<and>
    sess t' = (sess s)\<lparr>audit_logs := audit_logs (sess s) @ rows\<rparr> \<and> committed t' = committed s"
proof (induction ops arbitrary: s r t')
  case (Cons x ops)
  obtain n o' where x: "x = (n, o')" by fastforce
  obtain row u where u: "audit (frs n) actor cid ''acl_created'' t (nm o') (dt o') s = (Inr (), u)" "granted_row cid actor row"
    "sess u = (sess s)\<lparr>audit_logs := audit_logs (sess s) @ [row]\<rparr>" "committed u = committed s"
    by (rule audit_granted)
  obtain r2 t2 where rest: "for_each (\<lambda>(n, o'). audit (frs n) actor cid ''acl_created'' t (nm o') (dt o')) ops u = (r2, t2)" by fastforce
  obtain ys rows where rows: "r2 = Inr ys" "length rows = length ops" "list_all (granted_row cid actor) rows"
     "sess t2 = (sess u)\<lparr>audit_logs := audit_logs (sess u) @ rows\<rparr>" "committed t2 = committed u"
    using Cons.IH[OF rest] by blast
  have "r = Inr (() # ys)" "t' = t2" using Cons.prems u(1) rest rows(1) by (auto simp: x bnd_run)
  moreover have "sess t2 = (sess s)\<lparr>audit_logs := audit_logs (sess s) @ (row # rows)\<rparr>" using rows(4) u(3) by simp
  ultimately show ?case using rows u by (intro exI[of _ "() # ys"] exI[of _ "row # rows"]) simp
qed (auto intro: exI[of _ "[]"])

lemma audits_commit:
  "yields both (audited_rows (length ops) (granted_row cid actor))
     (seqm (for_each (\<lambda>(n, o'). audit (frs n) actor cid ''acl_created'' t (nm o') (dt o')) ops) (seqm commit (ret x)))"
proof (rule yieldsI)
  fix s r u
  let ?m = "for_each (\<lambda>(n, o'). audit (frs n) actor cid ''acl_created'' t (nm o') (dt o')) ops"
  assume run: "seqm ?m (seqm commit (ret x)) s = (r, u)"
  obtain r1 v where v: "?m s = (r1, v)" by fastforce
  from audits_run[OF v] obtain ys rows where rows: "r1 = Inr ys" "length rows = length ops" "list_all (granted_row cid actor) rows"
    "sess v = (sess s)\<lparr>audit_logs := audit_logs (sess s) @ rows\<rparr>" by blast
  from this(1) run v have "r = Inr x" "sess u = sess v" "committed u = sess v" by (auto simp: seqm_run commit_def)
  with rows show "audited_rows (length ops) (granted_row cid actor) (both s) r (both u)"
    unfolding audited_rows_def both_def by (intro iffD2[OF if_not_P] exI[of _ rows]) simp_all
qed

lemma audit_commit:
  "yields both (audited_rows 1 (granted_row cid actor)) (seqm (audit fr actor cid ''acl_created'' t nm dt) (seqm commit (ret x)))"
proof (rule yieldsI)
  fix s r u
  assume run: "seqm (audit fr actor cid ''acl_created'' t nm dt) (seqm commit (ret x)) s = (r, u)"
  obtain row v where v: "audit fr actor cid ''acl_created'' t nm dt s = (Inr (), v)" "granted_row cid actor row"
    "sess v = (sess s)\<lparr>audit_logs := audit_logs (sess s) @ [row]\<rparr>" "committed v = committed s"
    by (rule audit_granted)
  then have "r = Inr x" "sess u = sess v" "committed u = sess v" using run by (auto simp: seqm_run commit_def)
  with v show "audited_rows 1 (granted_row cid actor) (both s) r (both u)"
    unfolding audited_rows_def both_def by (intro iffD2[OF if_not_P] exI[of _ "[row]"]) simp_all
qed

lemma audited_raise: "yields both (audited_rows n P) (raise e)"
  by (rule yields_raise) (simp add: audited_rows_def)

lemma audited_skip: "rel_io (keeps both) m \<Longrightarrow> (\<And>x. yields both (audited_rows n P) (k x)) \<Longrightarrow> yields both (audited_rows n P) (bnd m k)"
  by (rule yields_skip) (simp_all add: audited_rows_def)

lemma acl_ext_audited: "yields both (audited_rows (length (aq_operations q)) (granted_row cid actor)) (create_acl_ext E frs actor cid q c)"
proof -
  have "rel_io (keeps both) (for_each (ext_create_acl (kx_kafka E) (kx_fernet E) c q) (aq_operations q))"
    by (intro keeps_io.rel_intros both_world world_only_ext_ops)
  then show ?thesis unfolding create_acl_ext_def
    using audits_commit[of "enumerate 0 (aq_operations q)"] by (intro audited_skip) simp_all
qed

lemma acl_managed_audited: "yields both (audited_rows 1 (granted_row cid actor)) (create_acl_managed E fr actor cid q)"
  unfolding create_acl_managed_def
  by (intro audited_skip both_world world_ops yields_prod yields_if audited_raise audit_commit)

text \<open>
  Claim C19.  Granting access is audited.  When the request is answered with success, exactly one row by the acting user is
  committed, or one per operation on an external cluster, and nothing else has changed.  When it fails, no row is written, not even
  for the operations of an external cluster that were granted before the one that failed.
\<close>

theorem acl_grant_audited:
  "case create_acl E frs actor cid q s of (r, t) \<Rightarrow>
    case r of
      Inl e \<Rightarrow> sess t = sess s \<and> committed t = committed s
    | Inr (msg, n) \<Rightarrow> \<exists>rows. list_all (granted_row cid actor) rows \<and> sess t = (sess s)\<lparr>audit_logs := audit_logs (sess s) @ rows\<rparr> \<and>
        committed t = sess t \<and>
        (\<exists>q' c. normalize_acl_create_request q = Inr q' \<and> find_cluster (sess s) cid = Some c \<and>
          length rows = (if is_external c then length (aq_operations q') else 1))"
proof -
  obtain r t where run: "create_acl E frs actor cid q s = (r, t)" by fastforce
  show ?thesis
  proof (cases "normalize_acl_create_request q")
    case (Inl e)
    then show ?thesis by (simp add: create_acl_def bnd_run)
  next
    case (Inr q')
    show ?thesis
    proof (cases "find_cluster (sess s) cid")
      case None
      then show ?thesis using Inr by (simp add: create_acl_def bnd_run dispatch_def external_cluster_def)
    next
      case (Some c)
      let ?n = "if is_external c then length (aq_operations q') else 1"
      have "create_acl E frs actor cid q s = (if is_external c then create_acl_ext E frs actor cid q' c s else create_acl_managed E (frs 0) actor cid q' s)"
        using Inr Some by (simp add: create_acl_def bnd_run dispatch_def external_cluster_def)
      then have "audited_rows ?n (granted_row cid actor) (both s) r (both t)"
        using run yieldsD[OF acl_ext_audited[of q' cid actor E frs c], of s r t]
          yieldsD[OF acl_managed_audited[of cid actor E "frs 0" q'], of s r t]
        by (cases "is_external c") simp_all
      then show ?thesis using run Inr Some
        by (cases r) (auto simp: audited_rows_def both_def split: if_splits)
    qed
  qed
qed

end
