(* ===== verification/Ssh_Pool.thy ===== *)
theory Ssh_Pool
  imports Py_Text Models
begin

text \<open>
  \<open>services/ssh_manager.py\<close>: the pool of SSH connections.  Paramiko is the record \<open>paramiko\<close> of steps of a world \<open>'w\<close>; a client object
  is named by the number of clients made before it.  Decryption, of \<open>services/crypto.py\<close>, is Fernet, a field of the record.
  \<open>pool\<close> is the dictionary of the process: the key is a text, the entry a client and the time of its last use.

  \<open>acquire\<close> is what a pool has to do, over addresses instead of texts and a map instead of a dictionary; \<open>connect\<close> implements it.
  \<open>pool_reach\<close> are the states that threads reach which connect, work and leave at the same time: the two sections under
  the lock are single steps, everything else interleaves.
\<close>

section \<open>Paramiko\<close>

datatype ssh_login = Password string | Private_Key string

record 'w paramiko =
  pm_key_classes :: "string list"
  pm_from_key :: "string \<Rightarrow> string \<Rightarrow> exn + string"
  pm_login :: "nat \<Rightarrow> string \<Rightarrow> int \<Rightarrow> string \<Rightarrow> ssh_login \<Rightarrow> ('w, unit) io"
  pm_ping :: "nat \<Rightarrow> ('w, unit) io"
  pm_close :: "nat \<Rightarrow> ('w, unit) io"
  pm_socket :: "string \<Rightarrow> int \<Rightarrow> ('w, nat) io"
  pm_sock_close :: "nat \<Rightarrow> ('w, unit) io"
  pm_transport :: "nat \<Rightarrow> ('w, nat) io"
  pm_start :: "nat \<Rightarrow> ('w, unit) io"
  pm_interactive :: "nat \<Rightarrow> string \<Rightarrow> ((string \<times> bool) list \<Rightarrow> string list) \<Rightarrow> ('w, unit) io"
  pm_authenticated :: "nat \<Rightarrow> 'w \<Rightarrow> bool"
  pm_adopt :: "nat \<Rightarrow> nat \<Rightarrow> 'w \<Rightarrow> 'w"
  pm_exec :: "nat \<Rightarrow> string \<Rightarrow> int \<Rightarrow> ('w, int \<times> string \<times> string) io"
  pm_now :: "'w \<Rightarrow> int"
  pm_bad_auth :: "exn \<Rightarrow> bool"
  pm_allowed :: "exn \<Rightarrow> string list"
  pm_decrypt :: "string \<Rightarrow> exn + string"

record endpoint =
  ep_ip :: string
  ep_port :: int
  ep_user :: string
  ep_auth :: string

section \<open>Logging in\<close>

text \<open>The key classes in the order of the code; \<open>last_error\<close> starts as \<open>None\<close>.\<close>

definition KEY_CLASSES :: "string list" where
  "KEY_CLASSES = [''RSAKey'', ''ECDSAKey'', ''Ed25519Key'', ''DSSKey'']"

fun try_keys :: "(string \<Rightarrow> exn + string) \<Rightarrow> string list \<Rightarrow> string \<Rightarrow> exn + string" where
  "try_keys from_key [] last_error = Inl (Exn ''SSHException'' (''Unsupported or invalid private key: '' @ last_error))"
| "try_keys from_key (k # ks) last_error =
     (case from_key k of Inr key \<Rightarrow> Inr key | Inl e \<Rightarrow> try_keys from_key ks (exn_str e))"

definition parse_private_key :: "'w paramiko \<Rightarrow> string \<Rightarrow> exn + string" where
  "parse_private_key P credential =
     try_keys (\<lambda>k. pm_from_key P k credential) (filter (\<lambda>k. k \<in> set (pm_key_classes P)) KEY_CLASSES) ''None''"

definition connect_arcos :: "'w paramiko \<Rightarrow> nat \<Rightarrow> string \<Rightarrow> int \<Rightarrow> string \<Rightarrow> string \<Rightarrow> ('w, unit) io" where
  "connect_arcos P c ip port user credential =
     bnd (pm_socket P ip port) (\<lambda>sock.
     catch
       (bnd (pm_transport P sock) (\<lambda>tr.
        seqm (pm_start P tr)
       (seqm (pm_interactive P tr user (map (\<lambda>_. credential)))
       (bnd (asks (pm_authenticated P tr)) (\<lambda>ok.
        if \<not> ok then raise (Exn ''AuthenticationException'' ''ARCOS interactive authentication was not accepted'')
        else modify (pm_adopt P c tr))))))
       (\<lambda>e. seqm (pm_sock_close P sock) (raise e)))"

definition log_in_with :: "'w paramiko \<Rightarrow> nat \<Rightarrow> endpoint \<Rightarrow> string \<Rightarrow> ('w, unit) io" where
  "log_in_with P c ep credential =
     (let auth = lower (ep_auth ep) in
      if auth = ''password'' then pm_login P c (ep_ip ep) (ep_port ep) (ep_user ep) (Password credential)
      else if auth = ''key'' then
        bnd (lift (parse_private_key P credential)) (\<lambda>pkey. pm_login P c (ep_ip ep) (ep_port ep) (ep_user ep) (Private_Key pkey))
      else if auth = ''arcos'' then
        catch (connect_arcos P c (ep_ip ep) (ep_port ep) (ep_user ep) credential)
          (\<lambda>e. if pm_bad_auth P e \<and> ''password'' \<in> set (pm_allowed P e)
               then pm_login P c (ep_ip ep) (ep_port ep) (ep_user ep) (Password credential) else raise e)
      else raise (Exn ''SSHException'' (''Unsupported SSH auth type: '' @ ep_auth ep)))"

text \<open>A credential that does not decrypt raises before the block that closes the client.\<close>

definition log_in :: "'w paramiko \<Rightarrow> nat \<Rightarrow> endpoint \<Rightarrow> string \<Rightarrow> ('w, unit) io" where
  "log_in P c ep encrypted =
     bnd (lift (pm_decrypt P encrypted)) (\<lambda>credential.
     catch (log_in_with P c ep credential) (\<lambda>e. seqm (pm_close P c) (raise e)))"

section \<open>The pool\<close>

definition POOL_TTL :: int where "POOL_TTL = 120"

definition pool_key :: "string \<Rightarrow> int \<Rightarrow> string \<Rightarrow> string \<Rightarrow> string" where
  "pool_key ip port user auth = auth @ '':'' @ user @ ''@'' @ ip @ '':'' @ show_int port"

definition key_of :: "endpoint \<Rightarrow> string" where
  "key_of ep = pool_key (ep_ip ep) (ep_port ep) (ep_user ep) (lower (ep_auth ep))"

record 'w pool_state =
  pool :: "(string \<times> nat \<times> int) list"
  next_client :: nat
  net :: 'w

definition on_net :: "('w, 'a) io \<Rightarrow> ('w pool_state, 'a) io" where
  "on_net m = (\<lambda>s. case m (net s) of (r, w) \<Rightarrow> (r, s\<lparr>net := w\<rparr>))"

definition pool_set :: "'w paramiko \<Rightarrow> string \<Rightarrow> nat \<Rightarrow> ('w pool_state, unit) io" where
  "pool_set P key c = modify (\<lambda>s. s\<lparr>pool := AList.update key (c, pm_now P (net s)) (pool s)\<rparr>)"

definition pool_del :: "string \<Rightarrow> ('w pool_state, unit) io" where
  "pool_del key = modify (\<lambda>s. s\<lparr>pool := AList.delete key (pool s)\<rparr>)"

definition is_stale :: "int \<Rightarrow> string \<times> nat \<times> int \<Rightarrow> bool" where
  "is_stale now = (\<lambda>(k, c, ts). POOL_TTL < now - ts)"

definition cleanup_pool :: "'w paramiko \<Rightarrow> ('w pool_state, unit) io" where
  "cleanup_pool P =
     bnd (asks (\<lambda>s. filter (is_stale (pm_now P (net s))) (pool s))) (\<lambda>stale.
     bnd (for_each (\<lambda>(k, c, ts). seqm (ignore (on_net (pm_close P c))) (pool_del k)) stale) (\<lambda>_. ret ()))"

text \<open>The first section under the lock: a live pooled client, if there is one.\<close>

definition grab :: "'w paramiko \<Rightarrow> string \<Rightarrow> ('w pool_state, nat option) io" where
  "grab P key =
     seqm (cleanup_pool P)
    (bnd (asks (\<lambda>s. map_of (pool s) key)) (\<lambda>entry.
     case entry of
       None \<Rightarrow> ret None
     | Some (c, ts) \<Rightarrow>
        catch (seqm (on_net (pm_ping P c)) (seqm (pool_set P key c) (ret (Some c))))
          (\<lambda>_. seqm (ignore (on_net (pm_close P c))) (seqm (pool_del key) (ret None)))))"

definition new_client :: "('w pool_state, nat) io" where
  "new_client = (\<lambda>s. (Inr (next_client s), s\<lparr>next_client := Suc (next_client s)\<rparr>))"

definition connect :: "'w paramiko \<Rightarrow> endpoint \<Rightarrow> string \<Rightarrow> ('w pool_state, nat) io" where
  "connect P ep encrypted =
     bnd (grab P (key_of ep)) (\<lambda>found.
     case found of
       Some c \<Rightarrow> ret c
     | None \<Rightarrow>
        bnd new_client (\<lambda>c.
        seqm (on_net (log_in P c ep encrypted))
       (seqm (pool_set P (key_of ep) c)
       (ret c))))"

text \<open>\<open>with SSHManager.connect(...) as client: body\<close>; what the body raises passes through.\<close>

definition with_connection :: "'w paramiko \<Rightarrow> endpoint \<Rightarrow> string \<Rightarrow> (nat \<Rightarrow> ('w pool_state, 'a) io) \<Rightarrow> ('w pool_state, 'a) io" where
  "with_connection P ep encrypted body = bnd (connect P ep encrypted) body"

section \<open>Keys and addresses\<close>

type_synonym address = "string \<times> int \<times> string \<times> string"

definition addr :: "endpoint \<Rightarrow> address" where
  "addr ep = (ep_ip ep, ep_port ep, ep_user ep, lower (ep_auth ep))"

fun plain :: "address \<Rightarrow> bool" where
  "plain (ip, port, user, auth) \<longleftrightarrow> CHR '':'' \<notin> set auth \<and> CHR ''@'' \<notin> set ip"

fun key_text :: "address \<Rightarrow> string" where
  "key_text (ip, port, user, auth) = pool_key ip port user auth"

lemma key_of_text: "key_of ep = key_text (addr ep)"
  by (simp add: key_of_def addr_def)

lemma append_sep_eq: "a @ x # b = a' @ x # b' \<Longrightarrow> x \<notin> set a \<Longrightarrow> x \<notin> set a' \<Longrightarrow> a = a' \<and> b = b'"
proof (induction a arbitrary: a')
  case Nil
  then show ?case by (cases a') auto
next
  case (Cons c a)
  then show ?case by (cases a') auto
qed

lemma append_last_sep_eq: "a @ x # b = a' @ x # b' \<Longrightarrow> x \<notin> set b \<Longrightarrow> x \<notin> set b' \<Longrightarrow> a = a' \<and> b = b'"
  using append_sep_eq[of "rev b" x "rev a" "rev b'" "rev a'"] by (metis append.assoc append_Cons append_Nil rev.simps(2) rev_append rev_is_rev_conv set_rev)

lemma show_int_inj: "show_int m = show_int n \<longleftrightarrow> m = n"
  by (metis option.inject parse_int_show)

lemma show_int_no_sep: "CHR '':'' \<notin> set (show_int n)" "CHR ''@'' \<notin> set (show_int n)"
  using set_show_int[of n] by (auto simp: is_digit_def)

lemma key_text_inj: "plain a \<Longrightarrow> plain b \<Longrightarrow> key_text a = key_text b \<longleftrightarrow> a = b"
proof
  assume "plain a" "plain b" and same: "key_text a = key_text b"
  obtain ip port user auth ip' port' user' auth' where a: "a = (ip, port, user, auth)" and b: "b = (ip', port', user', auth')"
    by (metis surj_pair)
  from same have "auth @ CHR '':'' # (user @ CHR ''@'' # ip @ CHR '':'' # show_int port) = auth' @ CHR '':'' # (user' @ CHR ''@'' # ip' @ CHR '':'' # show_int port')"
    by (simp add: a b pool_key_def)
  then have 1: "auth = auth' \<and> user @ CHR ''@'' # ip @ CHR '':'' # show_int port = user' @ CHR ''@'' # ip' @ CHR '':'' # show_int port'"
    using \<open>plain a\<close> \<open>plain b\<close> by (intro append_sep_eq) (auto simp: a b)
  then have 2: "user = user' \<and> ip @ CHR '':'' # show_int port = ip' @ CHR '':'' # show_int port'"
    using \<open>plain a\<close> \<open>plain b\<close> show_int_no_sep by (intro append_last_sep_eq) (auto simp: a b)
  then have "ip = ip' \<and> show_int port = show_int port'"
    using show_int_no_sep by (intro append_last_sep_eq) auto
  with 1 2 show "a = b" by (simp add: a b show_int_inj)
qed simp

declare plain.simps [simp del] key_text.simps [simp del]

section \<open>What a pool has to do\<close>

type_synonym sessions = "address \<Rightarrow> (nat \<times> int) option"

definition expired :: "int \<Rightarrow> sessions \<Rightarrow> address set" where
  "expired now A = {a. case A a of None \<Rightarrow> False | Some (c, ts) \<Rightarrow> POOL_TTL < now - ts}"

definition close_all :: "'w paramiko \<Rightarrow> nat list \<Rightarrow> 'w \<Rightarrow> 'w" where
  "close_all P cs w = fold (\<lambda>c w. snd (pm_close P c w)) cs w"

text \<open>A session for \<open>ep\<close> is opened with the client \<open>c\<close> and kept, or none is.\<close>

definition start_session :: "'w paramiko \<Rightarrow> endpoint \<Rightarrow> string \<Rightarrow> nat \<Rightarrow> sessions \<Rightarrow> 'w \<Rightarrow> (exn + nat) \<times> sessions \<times> 'w" where
  "start_session P ep enc c A w =
     (case log_in P c ep enc w of
        (Inl e, v) \<Rightarrow> (Inl e, A, v)
      | (Inr _, v) \<Rightarrow> (Inr c, A(addr ep \<mapsto> (c, pm_now P v)), v))"

text \<open>
  Sessions that have been idle for too long are closed, in any order, and forgotten; the session of \<open>ep\<close> is used if it
  answers, and otherwise closed, forgotten and opened anew.
\<close>

definition acquire :: "'w paramiko \<Rightarrow> endpoint \<Rightarrow> string \<Rightarrow> nat \<Rightarrow> sessions \<Rightarrow> 'w \<Rightarrow> (exn + nat) \<times> sessions \<times> 'w \<Rightarrow> bool" where
  "acquire P ep enc c A w out \<longleftrightarrow>
     (\<exists>as. distinct as \<and> set as = expired (pm_now P w) A \<and>
       (let v = close_all P (map (fst \<circ> the \<circ> A) as) w; B = A |` (- expired (pm_now P w) A) in
        out = (case B (addr ep) of
            None \<Rightarrow> start_session P ep enc c B v
          | Some (old, _) \<Rightarrow>
             (case pm_ping P old v of
                (Inr _, u) \<Rightarrow> (Inr old, B(addr ep \<mapsto> (old, pm_now P u)), u)
              | (Inl _, u) \<Rightarrow> start_session P ep enc c (B(addr ep := None)) (snd (pm_close P old u))))))"

section \<open>The pool implements it\<close>

definition sessions_of :: "(string \<times> nat \<times> int) list \<Rightarrow> sessions" where
  "sessions_of p a = (if plain a then map_of p (key_text a) else None)"

definition pool_ok :: "(string \<times> nat \<times> int) list \<Rightarrow> bool" where
  "pool_ok p \<longleftrightarrow> distinct (map fst p) \<and> (\<forall>k \<in> fst ` set p. \<exists>a. plain a \<and> k = key_text a)"

lemma sessions_update: "plain a \<Longrightarrow> sessions_of (AList.update (key_text a) v p) = (sessions_of p)(a \<mapsto> v)"
  by (auto simp: sessions_of_def fun_eq_iff update_conv' key_text_inj)

lemma sessions_delete: "plain a \<Longrightarrow> sessions_of (AList.delete (key_text a) p) = (sessions_of p)(a := None)"
  by (auto simp: sessions_of_def fun_eq_iff delete_conv' key_text_inj)

lemma pool_ok_update: "pool_ok p \<Longrightarrow> plain a \<Longrightarrow> pool_ok (AList.update (key_text a) v p)"
  unfolding pool_ok_def using dom_update[of "key_text a" v p] by (auto simp: distinct_update simp del: split_paired_Ex)

lemma set_delete_sub: "e \<in> set (AList.delete k p) \<Longrightarrow> e \<in> set p"
  by (auto simp: AList.delete_eq)

lemma fst_inj: "distinct (map fst p) \<Longrightarrow> e \<in> set p \<Longrightarrow> e' \<in> set p \<Longrightarrow> fst e = fst e' \<Longrightarrow> e = e'"
  by (metis distinct_map inj_onD)

lemma pool_ok_delete: "pool_ok p \<Longrightarrow> pool_ok (AList.delete k p)"
  unfolding pool_ok_def by (auto simp: distinct_delete dest: set_delete_sub simp del: split_paired_Ex)

lemma pool_ok_filter: "pool_ok p \<Longrightarrow> pool_ok (filter P p)"
  unfolding pool_ok_def by (auto simp: distinct_map_filter)

lemma on_net_run: "on_net m s = (case m (net s) of (r, w) \<Rightarrow> (r, s\<lparr>net := w\<rparr>))"
  by (simp add: on_net_def)

lemma close_each:
  "for_each (\<lambda>(k, c, ts). seqm (ignore (on_net (pm_close P c))) (pool_del k)) L s =
    (Inr (map (\<lambda>_. ()) L), s\<lparr>pool := filter (\<lambda>e. fst e \<notin> fst ` set L) (pool s), net := close_all P (map (fst \<circ> snd) L) (net s)\<rparr>)"
proof (induction L arbitrary: s)
  case Nil
  then show ?case by (simp add: close_all_def)
next
  case (Cons x L)
  obtain k c ts where x: "x = (k, c, ts)" by (metis surj_pair)
  let ?s = "s\<lparr>net := snd (pm_close P c (net s)), pool := AList.delete k (pool s)\<rparr>"
  have "filter (\<lambda>e. fst e \<notin> fst ` set L) (AList.delete k (pool s)) = filter (\<lambda>e. fst e \<notin> fst ` set (x # L)) (pool s)"
    by (auto simp: x AList.delete_eq intro!: filter_cong)
  moreover have "seqm (ignore (on_net (pm_close P c))) (pool_del k) s = (Inr (), ?s)"
    by (simp add: seqm_run ignore_run on_net_run pool_del_def split: prod.splits)
  ultimately show ?case
    by (simp add: x bnd_run Cons.IH[of ?s] close_all_def)
qed

lemma cleanup_run:
  assumes "distinct (map fst (pool s))"
  shows "cleanup_pool P s = (Inr (), s\<lparr>pool := filter (\<lambda>e. \<not> is_stale (pm_now P (net s)) e) (pool s),
    net := close_all P (map (fst \<circ> snd) (filter (is_stale (pm_now P (net s))) (pool s))) (net s)\<rparr>)"
proof -
  let ?old = "is_stale (pm_now P (net s))"
  have "filter (\<lambda>e. fst e \<notin> fst ` set (filter ?old (pool s))) (pool s) = filter (\<lambda>e. \<not> ?old e) (pool s)"
    by (intro filter_cong refl) (auto dest: fst_inj[OF assms])
  then show ?thesis by (simp add: cleanup_pool_def bnd_run close_each)
qed

lemma expired_sessions: "pool_ok p \<Longrightarrow> a \<in> expired now (sessions_of p) \<longleftrightarrow> plain a \<and> (\<exists>e\<in>set p. fst e = key_text a \<and> is_stale now e)"
proof -
  assume "pool_ok p"
  then have "distinct (map fst p)" by (simp add: pool_ok_def)
  then have m: "map_of p k = Some v \<longleftrightarrow> (k, v) \<in> set p" for k v by simp
  have "a \<in> expired now (sessions_of p) \<longleftrightarrow> plain a \<and> (\<exists>v. map_of p (key_text a) = Some v \<and> is_stale now (key_text a, v))"
    by (auto simp: expired_def sessions_of_def is_stale_def split: option.splits)
  also have "\<dots> \<longleftrightarrow> plain a \<and> (\<exists>e\<in>set p. fst e = key_text a \<and> is_stale now e)"
    unfolding m by (metis fst_conv prod.collapse)
  finally show ?thesis .
qed

lemma sessions_fresh:
  assumes "pool_ok p"
  shows "sessions_of (filter (\<lambda>e. \<not> is_stale now e) p) = sessions_of p |` (- expired now (sessions_of p))"
proof
  fix a
  have d: "distinct (map fst p)" using assms by (simp add: pool_ok_def)
  show "sessions_of (filter (\<lambda>e. \<not> is_stale now e) p) a = (sessions_of p |` (- expired now (sessions_of p))) a"
  proof (cases "\<exists>v. (key_text a, v) \<in> set p")
    case True
    then obtain v where v: "(key_text a, v) \<in> set p" ..
    then have "map_of p (key_text a) = Some v" using d by simp
    moreover have only: "e = (key_text a, v)" if "e \<in> set p" "fst e = key_text a" for e
      using fst_inj[OF d that(1) v] that(2) by simp
    moreover have "map_of (filter (\<lambda>e. \<not> is_stale now e) p) (key_text a) = (if is_stale now (key_text a, v) then None else Some v)"
    proof (cases "is_stale now (key_text a, v)")
      case True
      then show ?thesis using only by (auto simp: map_of_eq_None_iff simp del: split_paired_All)
    next
      case False
      then show ?thesis using v d by (simp add: distinct_map_filter)
    qed
    moreover have "(\<exists>e\<in>set p. fst e = key_text a \<and> is_stale now e) \<longleftrightarrow> is_stale now (key_text a, v)"
      using v only by (metis fst_conv)
    ultimately show ?thesis
      by (auto simp: sessions_of_def restrict_map_def expired_sessions[OF assms])
  next
    case False
    then have "map_of p (key_text a) = None" "map_of (filter (\<lambda>e. \<not> is_stale now e) p) (key_text a) = None"
      by (auto simp: map_of_eq_None_iff)
    then show ?thesis by (simp add: sessions_of_def restrict_map_def)
  qed
qed

text \<open>The addresses of the stale entries, in the order of the dictionary.\<close>

lemma stale_addresses:
  assumes "pool_ok p"
  obtains as where "distinct as" "set as = expired now (sessions_of p)"
    "map (fst \<circ> the \<circ> sessions_of p) as = map (fst \<circ> snd) (filter (is_stale now) p)"
proof -
  let ?old = "filter (is_stale now) p"
  have "\<forall>e\<in>set ?old. \<exists>a. plain a \<and> fst e = key_text a" using assms by (auto simp: pool_ok_def)
  then obtain f where f: "\<And>e. e \<in> set ?old \<Longrightarrow> plain (f e) \<and> fst e = key_text (f e)" by metis
  have d: "distinct (map fst p)" using assms by (simp add: pool_ok_def)
  have dold: "distinct (map fst ?old)" using d by (rule distinct_map_filter)
  have "inj_on f (set ?old)"
  proof (rule inj_onI)
    fix e e' assume e: "e \<in> set ?old" "e' \<in> set ?old" "f e = f e'"
    then have "fst e = fst e'" using f[OF e(1)] f[OF e(2)] by simp
    then show "e = e'" by (rule fst_inj[OF dold e(1,2)])
  qed
  moreover have "distinct ?old" using dold by (simp add: distinct_map)
  ultimately have 1: "distinct (map f ?old)" by (simp add: distinct_map)
  have 2: "set (map f ?old) = expired now (sessions_of p)"
  proof (intro set_eqI iffI)
    fix a assume "a \<in> expired now (sessions_of p)"
    then obtain e where e: "e \<in> set p" "fst e = key_text a" "is_stale now e" "plain a"
      unfolding expired_sessions[OF assms] by blast
    then have "e \<in> set ?old" by simp
    moreover from f[OF this] have "f e = a" using e key_text_inj[of "f e" a] by simp
    ultimately show "a \<in> set (map f ?old)" by auto
  next
    fix a assume "a \<in> set (map f ?old)"
    then obtain e where "e \<in> set ?old" "a = f e" by auto
    then show "a \<in> expired now (sessions_of p)" unfolding expired_sessions[OF assms] using f[of e] by (auto intro!: bexI[of _ e])
  qed
  have 3: "sessions_of p (f e) = Some (snd e)" if e: "e \<in> set ?old" for e
  proof -
    have "(key_text (f e), snd e) \<in> set p" using e f[OF e] by (metis filter_is_subset prod.collapse subsetD)
    then show ?thesis using d f[OF e] by (simp add: sessions_of_def)
  qed
  show ?thesis by (rule that[OF 1 2]) (auto simp: 3)
qed

section \<open>Connecting\<close>

lemma open_run:
  assumes "plain (addr ep)" "pool_ok (pool s)"
  shows "bnd new_client (\<lambda>c. seqm (on_net (log_in P c ep enc)) (seqm (pool_set P (key_of ep) c) (ret c))) s = (r, t) \<Longrightarrow>
    pool_ok (pool t) \<and> (r, sessions_of (pool t), net t) = start_session P ep enc (next_client s) (sessions_of (pool s)) (net s)"
  using assms
  by (auto simp: bnd_run seqm_run new_client_def on_net_run pool_set_def start_session_def key_of_text sessions_update pool_ok_update
      split: prod.splits sum.splits)

lemma connect_refines:
  assumes run: "connect P ep enc s = (r, t)" and plain: "plain (addr ep)" and ok: "pool_ok (pool s)"
  shows "acquire P ep enc (next_client s) (sessions_of (pool s)) (net s) (r, sessions_of (pool t), net t) \<and> pool_ok (pool t)"
proof -
  define now where "now = pm_now P (net s)"
  define p where "p = filter (\<lambda>e. \<not> is_stale now e) (pool s)"
  define v where "v = close_all P (map (fst \<circ> snd) (filter (is_stale now) (pool s))) (net s)"
  let ?B = "sessions_of p"
  let ?s = "s\<lparr>pool := p, net := v\<rparr>"
  let ?open = "bnd new_client (\<lambda>c. seqm (on_net (log_in P c ep enc)) (seqm (pool_set P (key_of ep) c) (ret c)))"
  have B: "?B = sessions_of (pool s) |` (- expired now (sessions_of (pool s)))"
    unfolding p_def by (rule sessions_fresh[OF ok])
  have pok: "pool_ok p" unfolding p_def by (rule pool_ok_filter[OF ok])
  have clean: "cleanup_pool P s = (Inr (), ?s)"
    using cleanup_run[of s P] ok by (simp add: pool_ok_def p_def v_def now_def)
  have look: "map_of p (key_of ep) = ?B (addr ep)" using plain by (simp add: key_of_text sessions_of_def)
  obtain as where as: "distinct as" "set as = expired now (sessions_of (pool s))"
    "map (fst \<circ> the \<circ> sessions_of (pool s)) as = map (fst \<circ> snd) (filter (is_stale now) (pool s))"
    by (rule stale_addresses[OF ok])
  have spec: "acquire P ep enc (next_client s) (sessions_of (pool s)) (net s) out"
    if "out = (case ?B (addr ep) of None \<Rightarrow> start_session P ep enc (next_client s) ?B v
      | Some (old, _) \<Rightarrow> (case pm_ping P old v of (Inr _, u) \<Rightarrow> (Inr old, ?B(addr ep \<mapsto> (old, pm_now P u)), u)
          | (Inl _, u) \<Rightarrow> start_session P ep enc (next_client s) (?B(addr ep := None)) (snd (pm_close P old u))))" for out
    unfolding acquire_def Let_def now_def[symmetric] B[symmetric]
    by (intro exI[of _ as] conjI as(1,2)) (unfold as(3) v_def[symmetric], rule that)
  show ?thesis
  proof (cases "?B (addr ep)")
    case None
    then have "grab P (key_of ep) s = (Inr None, ?s)" by (simp add: grab_def seqm_run clean bnd_run look)
    then have "?open ?s = (r, t)" using run by (simp add: connect_def bnd_run)
    from open_run[OF plain _ this] pok show ?thesis by (auto intro!: spec simp: None)
  next
    case (Some e)
    obtain old ts where e: "e = (old, ts)" by (cases e)
    obtain a u where ping: "pm_ping P old v = (a, u)" by fastforce
    show ?thesis
    proof (cases a)
      case (Inr _)
      let ?t = "?s\<lparr>net := u, pool := AList.update (key_of ep) (old, pm_now P u) p\<rparr>"
      have "grab P (key_of ep) s = (Inr (Some old), ?t)"
        by (simp add: grab_def seqm_run clean bnd_run look Some e catch_run on_net_run ping Inr pool_set_def)
      then have "r = Inr old" "t = ?t" using run by (simp_all add: connect_def bnd_run)
      then show ?thesis using plain pok
        by (auto intro!: spec simp: Some e ping Inr key_of_text sessions_update pool_ok_update)
    next
      case (Inl _)
      let ?u = "?s\<lparr>net := snd (pm_close P old u), pool := AList.delete (key_of ep) p\<rparr>"
      have "grab P (key_of ep) s = (Inr None, ?u)"
        by (simp add: grab_def seqm_run clean bnd_run look Some e catch_run on_net_run ping Inl pool_del_def ignore_run split: prod.splits)
      then have "?open ?u = (r, t)" using run by (simp add: connect_def bnd_run)
      from open_run[OF plain _ this] pok plain show ?thesis
        by (auto intro!: spec simp: Some e ping Inl key_of_text sessions_delete pool_ok_delete)
    qed
  qed
qed

text \<open>
  Claim C12.  The dictionary of connections is a pool of sessions by address.  When the host has no at sign in its address and the
  method no colon, connecting closes and forgets exactly the sessions that have been idle for more than 120 seconds, hands out the session
  of this method, user, host and port if there still is one and it answers, with the time of its use renewed, and otherwise
  opens a new one, which is kept only if the login succeeds; texts as keys never confuse two addresses.
\<close>

theorem connect_implements_acquire:
  assumes "connect P ep enc s = (r, t)" "plain (addr ep)" "pool_ok (pool s)"
  shows "acquire P ep enc (next_client s) (sessions_of (pool s)) (net s) (r, sessions_of (pool t), net t) \<and> pool_ok (pool t)"
  by (rule connect_refines[OF assms])

section \<open>Threads\<close>

text \<open>
  A thread wants a session, has one in its hands, or works with it.  \<open>logins\<close> are the addresses clients have been logged in to, by whom ever.
\<close>

datatype job = Wants endpoint string | Holds endpoint nat | Works endpoint nat

record 'w pool_sys =
  shared :: "'w pool_state"
  jobs :: "(nat \<times> job) list"
  logins :: "(nat \<times> address) list"

inductive pool_step :: "'w paramiko \<Rightarrow> 'w pool_sys \<Rightarrow> 'w pool_sys \<Rightarrow> bool" for P :: "'w paramiko" where
  hit: "map_of (jobs s) i = None \<Longrightarrow> plain (addr ep) \<Longrightarrow> grab P (key_of ep) (shared s) = (Inr (Some c), t) \<Longrightarrow>
    pool_step P s (s\<lparr>shared := t, jobs := AList.update i (Works ep c) (jobs s)\<rparr>)"
| miss: "map_of (jobs s) i = None \<Longrightarrow> plain (addr ep) \<Longrightarrow> grab P (key_of ep) (shared s) = (Inr None, t) \<Longrightarrow>
    pool_step P s (s\<lparr>shared := t, jobs := AList.update i (Wants ep enc) (jobs s)\<rparr>)"
| opened: "map_of (jobs s) i = Some (Wants ep enc) \<Longrightarrow> new_client (shared s) = (Inr c, u) \<Longrightarrow> on_net (log_in P c ep enc) u = (Inr x, t) \<Longrightarrow>
    pool_step P s (s\<lparr>shared := t, jobs := AList.update i (Holds ep c) (jobs s), logins := (c, addr ep) # logins s\<rparr>)"
| failed: "map_of (jobs s) i = Some (Wants ep enc) \<Longrightarrow> new_client (shared s) = (Inr c, u) \<Longrightarrow> on_net (log_in P c ep enc) u = (Inl e, t) \<Longrightarrow>
    pool_step P s (s\<lparr>shared := t, jobs := AList.delete i (jobs s)\<rparr>)"
| kept: "map_of (jobs s) i = Some (Holds ep c) \<Longrightarrow> pool_set P (key_of ep) c (shared s) = (Inr x, t) \<Longrightarrow>
    pool_step P s (s\<lparr>shared := t, jobs := AList.update i (Works ep c) (jobs s)\<rparr>)"
| worked: "map_of (jobs s) i = Some (Works ep c) \<Longrightarrow> on_net (pm_exec P c cmd timeout) (shared s) = (r, t) \<Longrightarrow>
    pool_step P s (s\<lparr>shared := t\<rparr>)"
| left: "map_of (jobs s) i = Some (Works ep c) \<Longrightarrow> pool_step P s (s\<lparr>jobs := AList.delete i (jobs s)\<rparr>)"
| elsewhere: "pool_step P s (s\<lparr>shared := (shared s)\<lparr>net := w\<rparr>\<rparr>)"

definition no_threads :: "'w \<Rightarrow> 'w pool_sys" where
  "no_threads w = \<lparr>shared = \<lparr>pool = [], next_client = 0, net = w\<rparr>, jobs = [], logins = []\<rparr>"

inductive pool_reach :: "'w paramiko \<Rightarrow> 'w pool_sys \<Rightarrow> bool" for P :: "'w paramiko" where
  start: "pool_reach P (no_threads w)"
| step: "pool_reach P s \<Longrightarrow> pool_step P s t \<Longrightarrow> pool_reach P t"

lemma set_update: "e \<in> set (AList.update k v p) \<Longrightarrow> e = (k, v) \<or> e \<in> set p"
  by (induction p) (auto split: if_splits)

lemma cleanup_pool_set:
  "cleanup_pool P s = (r, t) \<Longrightarrow> set (pool t) \<subseteq> set (pool s) \<and> next_client t = next_client s \<and> r = Inr ()"
  by (auto simp: cleanup_pool_def bnd_run close_each)

lemma grab_set:
  assumes "grab P key s = (r, t)"
  shows "next_client t = next_client s" "(k, c, ts) \<in> set (pool t) \<Longrightarrow> \<exists>ts'. (k, c, ts') \<in> set (pool s)"
    "r = Inr (Some c) \<Longrightarrow> \<exists>ts'. (key, c, ts') \<in> set (pool s)"
proof -
  obtain u where u: "cleanup_pool P s = (Inr (), u)" "set (pool u) \<subseteq> set (pool s)" "next_client u = next_client s"
    using cleanup_pool_set by (metis prod.exhaust)
  have "next_client t = next_client s \<and> (\<forall>k c ts. (k, c, ts) \<in> set (pool t) \<longrightarrow> (\<exists>ts'. (k, c, ts') \<in> set (pool s))) \<and>
    (\<forall>c. r = Inr (Some c) \<longrightarrow> (\<exists>ts'. (key, c, ts') \<in> set (pool s)))"
  proof (cases "map_of (pool u) key")
    case None
    then show ?thesis using assms u by (auto simp: grab_def seqm_run bnd_run)
  next
    case (Some e)
    obtain c0 t0 where e: "e = (c0, t0)" by (cases e)
    have "(key, c0, t0) \<in> set (pool s)" using map_of_SomeD[OF Some] u(2) e by auto
    with assms u show ?thesis
      by (auto simp: grab_def seqm_run bnd_run Some e catch_run on_net_run pool_set_def pool_del_def ignore_run
          split: prod.splits sum.splits dest!: set_update set_delete_sub) blast+
  qed
  then show "next_client t = next_client s" "(k, c, ts) \<in> set (pool t) \<Longrightarrow> \<exists>ts'. (k, c, ts') \<in> set (pool s)"
    "r = Inr (Some c) \<Longrightarrow> \<exists>ts'. (key, c, ts') \<in> set (pool s)" by blast+
qed

text \<open>Every client was logged in at most once, the pooled ones to the address of their key, and those of the threads to the one they asked for.\<close>

fun job_ok :: "(nat \<times> address) list \<Rightarrow> job \<Rightarrow> bool" where
  "job_ok L (Wants ep enc) \<longleftrightarrow> plain (addr ep)"
| "job_ok L (Holds ep c) \<longleftrightarrow> plain (addr ep) \<and> (c, addr ep) \<in> set L"
| "job_ok L (Works ep c) \<longleftrightarrow> plain (addr ep) \<and> (c, addr ep) \<in> set L"

definition pooled_ok :: "(nat \<times> address) list \<Rightarrow> string \<times> nat \<times> int \<Rightarrow> bool" where
  "pooled_ok L = (\<lambda>(k, c, ts). \<exists>a. plain a \<and> k = key_text a \<and> (c, a) \<in> set L)"

definition threads_ok :: "'w pool_sys \<Rightarrow> bool" where
  "threads_ok s \<longleftrightarrow> (\<forall>e\<in>set (pool (shared s)). pooled_ok (logins s) e) \<and> (\<forall>(i, j)\<in>set (jobs s). job_ok (logins s) j) \<and>
     distinct (map fst (logins s)) \<and> (\<forall>(c, a)\<in>set (logins s). c < next_client (shared s))"

lemma job_ok_more: "job_ok L j \<Longrightarrow> job_ok (x # L) j"
  by (cases j) auto

lemma pooled_ok_more: "pooled_ok L e \<Longrightarrow> pooled_ok (x # L) e"
  by (auto simp: pooled_ok_def)

lemma pooled_ok_grab:
  assumes "grab P key s = (r, t)" "\<forall>e\<in>set (pool s). pooled_ok L e"
  shows "\<forall>e\<in>set (pool t). pooled_ok L e"
proof
  fix e assume e: "e \<in> set (pool t)"
  obtain k c ts where x: "e = (k, c, ts)" by (metis surj_pair)
  obtain ts' where "(k, c, ts') \<in> set (pool s)" using grab_set(2)[OF assms(1)] e x by blast
  then have "pooled_ok L (k, c, ts')" using assms(2) by blast
  then show "pooled_ok L e" by (simp add: x pooled_ok_def)
qed

lemma threads_ok_step: "pool_step P s t \<Longrightarrow> threads_ok s \<Longrightarrow> threads_ok t"
proof (induction rule: pool_step.induct)
  case (hit s i ep c t)
  obtain ts where "(key_of ep, c, ts) \<in> set (pool (shared s))" using grab_set(3)[OF hit(3)] by blast
  then obtain a where a: "plain a" "key_of ep = key_text a" "(c, a) \<in> set (logins s)"
    using hit(4) by (fastforce simp: threads_ok_def pooled_ok_def)
  then have "addr ep = a" using hit(2) key_text_inj by (simp add: key_of_text)
  with a hit show ?case
    using pooled_ok_grab[OF hit(3)] grab_set(1)[OF hit(3)] by (auto simp: threads_ok_def dest!: set_update)
next
  case (miss s i ep t enc)
  then show ?case
    using pooled_ok_grab[OF miss(3)] grab_set(1)[OF miss(3)] by (auto simp: threads_ok_def dest!: set_update)
next
  case (opened s i ep enc c u x t)
  have t: "pool t = pool (shared s)" "next_client t = Suc (next_client (shared s))" "c = next_client (shared s)"
    using opened(2,3) by (auto simp: new_client_def on_net_run split: prod.splits)
  have "plain (addr ep)" using map_of_SomeD[OF opened(1)] opened(4) by (auto simp: threads_ok_def)
  with opened(4) show ?case
    by (auto simp: threads_ok_def t job_ok_more pooled_ok_more less_Suc_eq dest!: set_update)
next
  case (failed s i ep enc c u e t)
  have "pool t = pool (shared s)" "next_client t = Suc (next_client (shared s))"
    using failed(2,3) by (auto simp: new_client_def on_net_run split: prod.splits)
  with failed(4) show ?case by (fastforce simp: threads_ok_def dest!: set_delete_sub)
next
  case (kept s i ep c x t)
  have t: "pool t = AList.update (key_of ep) (c, pm_now P (net (shared s))) (pool (shared s))" "next_client t = next_client (shared s)"
    using kept(2) by (auto simp: pool_set_def)
  have j: "job_ok (logins s) (Holds ep c)" using map_of_SomeD[OF kept(1)] kept(3) by (auto simp: threads_ok_def)
  then have "pooled_ok (logins s) (key_of ep, c, n)" for n by (auto simp: pooled_ok_def key_of_text simp del: split_paired_Ex)
  with j kept(3) show ?case by (auto simp: threads_ok_def t dest!: set_update)
next
  case (worked s i ep c cmd timeout r t)
  then show ?case by (auto simp: threads_ok_def on_net_run split: prod.splits)
next
  case (left s i ep c)
  then show ?case by (auto simp: threads_ok_def dest!: set_delete_sub)
qed (simp add: threads_ok_def)

lemma threads_ok_reach: "pool_reach P s \<Longrightarrow> threads_ok s"
  by (induction rule: pool_reach.induct) (simp add: threads_ok_def no_threads_def, erule threads_ok_step)

text \<open>
  Claim C13.  However threads that connect, work and leave interleave, the client a thread works with was logged in exactly once, to
  the host, port, user and method the thread asked for; the pool never hands a session to another address.
\<close>

theorem own_connections_only:
  assumes "pool_reach P s" "map_of (jobs s) i = Some (Works ep c)"
  shows "filter (\<lambda>(c', a). c' = c) (logins s) = [(c, addr ep)]"
proof -
  have ok: "threads_ok s" by (rule threads_ok_reach[OF assms(1)])
  then have in': "(c, addr ep) \<in> set (logins s)" and d: "distinct (map fst (logins s))"
    using map_of_SomeD[OF assms(2)] by (fastforce simp: threads_ok_def)+
  have "distinct (map fst L) \<Longrightarrow> (c, a) \<in> set L \<Longrightarrow> filter (\<lambda>(c', a). c' = c) L = [(c, a)]" for L and a :: address
    by (induction L) (auto simp: filter_empty_conv image_iff)
  with d in' show ?thesis by blast
qed

text \<open>Hosts that let everybody in; the world has a clock and the clients that were closed.\<close>

definition open_ssh :: "(int \<times> nat list) paramiko" where
  "open_ssh = \<lparr>pm_key_classes = [''RSAKey''], pm_from_key = (\<lambda>k s. Inr s), pm_login = (\<lambda>c ip port user l w. (Inr (), w)),
     pm_ping = (\<lambda>c w. (Inr (), w)), pm_close = (\<lambda>c (n, cs). (Inr (), (n, cs @ [c]))),
     pm_socket = (\<lambda>ip port w. (Inr 0, w)), pm_sock_close = (\<lambda>x w. (Inr (), w)), pm_transport = (\<lambda>x w. (Inr 0, w)),
     pm_start = (\<lambda>x w. (Inr (), w)), pm_interactive = (\<lambda>x u f w. (Inr (), w)), pm_authenticated = (\<lambda>x w. True),
     pm_adopt = (\<lambda>c x w. w), pm_exec = (\<lambda>c cmd n w. (Inr (0, [], []), w)), pm_now = fst, pm_bad_auth = (\<lambda>e. False),
     pm_allowed = (\<lambda>e. []), pm_decrypt = Inr\<rparr>"

definition broker_ep :: "nat \<Rightarrow> endpoint" where
  "broker_ep n = \<lparr>ep_ip = ''10.0.0.'' @ show_int (int n), ep_port = 22, ep_user = ''root'', ep_auth = ''Password''\<rparr>"

definition fresh_pool :: "(int \<times> nat list) pool_state" where
  "fresh_pool = \<lparr>pool = [], next_client = 0, net = (0, [])\<rparr>"

definition with_one :: "(int \<times> nat list) pool_state" where
  "with_one = \<lparr>pool = [(''password:root@10.0.0.1:22'', 0, 0)], next_client = 1, net = (0, [])\<rparr>"

lemma open_connect: "connect open_ssh (broker_ep 1) ''pw'' fresh_pool = (Inr 0, with_one)"
  by code_simp

lemma broker_ep_plain: "plain (addr (broker_ep 1))" "plain (addr (broker_ep 2))"
  by code_simp+

theorem connect_implements_acquire_witness:
  "acquire open_ssh (broker_ep 1) ''pw'' 0 (sessions_of []) (0, []) (Inr 0, sessions_of (pool with_one), (0, []))"
  using connect_implements_acquire[OF open_connect broker_ep_plain(1)] by (simp add: fresh_pool_def with_one_def pool_ok_def)

definition stage :: "nat \<Rightarrow> (int \<times> nat list) pool_sys" where
  "stage n = [no_threads (0, []),
     \<lparr>shared = fresh_pool, jobs = [(1, Wants (broker_ep 1) ''pw'')], logins = []\<rparr>,
     \<lparr>shared = fresh_pool\<lparr>next_client := 1\<rparr>, jobs = [(1, Holds (broker_ep 1) 0)], logins = [(0, addr (broker_ep 1))]\<rparr>,
     \<lparr>shared = with_one, jobs = [(1, Works (broker_ep 1) 0)], logins = [(0, addr (broker_ep 1))]\<rparr>,
     \<lparr>shared = with_one\<lparr>net := (121, [])\<rparr>, jobs = [(1, Works (broker_ep 1) 0)], logins = [(0, addr (broker_ep 1))]\<rparr>,
     \<lparr>shared = \<lparr>pool = [], next_client = 1, net = (121, [0])\<rparr>, jobs = [(1, Works (broker_ep 1) 0), (2, Wants (broker_ep 2) ''pw'')],
       logins = [(0, addr (broker_ep 1))]\<rparr>] ! n"

lemma stage_reach: "pool_reach open_ssh (stage n)" if "n < 6" for n
proof -
  have 0: "pool_reach open_ssh (stage 0)" unfolding stage_def by (simp add: pool_reach.start)
  have g: "grab open_ssh (key_of (broker_ep 1)) (shared (stage 0)) = (Inr None, shared (stage 1))"
    "new_client (shared (stage 1)) = (Inr 0, shared (stage 2))"
    "on_net (log_in open_ssh 0 (broker_ep 1) ''pw'') (shared (stage 2)) = (Inr (), shared (stage 2))"
    "pool_set open_ssh (key_of (broker_ep 1)) 0 (shared (stage 2)) = (Inr (), shared (stage 3))"
    "grab open_ssh (key_of (broker_ep 2)) (shared (stage 4)) = (Inr None, shared (stage 5))"
    by code_simp+
  have "pool_step open_ssh (stage 0) (stage 1)"
    using pool_step.miss[OF _ broker_ep_plain(1) g(1), of 1 "''pw''"] by (simp add: stage_def no_threads_def)
  note 1 = pool_reach.step[OF 0 this]
  have "pool_step open_ssh (stage 1) (stage 2)"
    using pool_step.opened[OF _ g(2,3), of 1] by (simp add: stage_def)
  note 2 = pool_reach.step[OF 1 this]
  have "pool_step open_ssh (stage 2) (stage 3)"
    using pool_step.kept[OF _ g(4), of 1] by (simp add: stage_def)
  note 3 = pool_reach.step[OF 2 this]
  have "pool_step open_ssh (stage 3) (stage 4)"
    using pool_step.elsewhere[of open_ssh "stage 3" "(121, [])"] by (simp add: stage_def)
  note 4 = pool_reach.step[OF 3 this]
  have "pool_step open_ssh (stage 4) (stage 5)"
    using pool_step.miss[OF _ broker_ep_plain(2) g(5), of 2 "''pw''"] by (simp add: stage_def)
  note 5 = pool_reach.step[OF 4 this]
  show ?thesis using that 0 1 2 3 4 5 by (auto simp: less_Suc_eq numeral_eq_Suc)
qed

theorem own_connections_only_witness:
  "pool_reach open_ssh (stage 3) \<and> filter (\<lambda>(c', a). c' = 0) (logins (stage 3)) = [(0, addr (broker_ep 1))]"
proof -
  have r: "pool_reach open_ssh (stage 3)" by (rule stage_reach) simp
  have "map_of (jobs (stage 3)) 1 = Some (Works (broker_ep 1) 0)" by (simp add: stage_def)
  from own_connections_only[OF r this] r show ?thesis by simp
qed

text \<open>
  A session is taken as idle from the time it was handed out.  A thread whose command runs for more than 120 seconds loses its
  connection to the next thread that connects to any host.
\<close>

theorem busy_session_closed:
  "pool_reach open_ssh (stage 5) \<and> map_of (jobs (stage 5)) 1 = Some (Works (broker_ep 1) 0) \<and> snd (net (shared (stage 5))) = [0]"
  by (intro conjI stage_reach) (simp_all add: stage_def)

section \<open>The interface of the other components\<close>

text \<open>
  The operations that the other components take as the parameter \<open>remote\<close>, over this pool: a host is reached at its address, and a
  command runs on its session.
\<close>

definition endpoint_of :: "host \<Rightarrow> endpoint" where
  "endpoint_of h = \<lparr>ep_ip = h_ip_address h, ep_port = h_ssh_port h, ep_user = h_username h, ep_auth = h_auth_type h\<rparr>"

definition pool_connect :: "'w paramiko \<Rightarrow> host \<Rightarrow> ('w pool_state, unit) io" where
  "pool_connect P h = with_connection P (endpoint_of h) (h_encrypted_credential h) (\<lambda>c. ret ())"

definition pool_exec :: "'w paramiko \<Rightarrow> host \<Rightarrow> string \<Rightarrow> int \<Rightarrow> ('w pool_state, int \<times> string \<times> string) io" where
  "pool_exec P h cmd timeout =
     with_connection P (endpoint_of h) (h_encrypted_credential h) (\<lambda>c. on_net (pm_exec P c cmd timeout))"

end
