(* ===== verification/Host_Api.thy ===== *)
theory Host_Api
  imports Agent_Transport Agents Py_Text
begin

text \<open>
  \<open>api/hosts.py\<close> with \<open>services/prereq_checker.py\<close> and \<open>SSHManager.test_connection\<close>: registering, changing, removing and testing hosts.
  The connection is the parameter \<open>remote\<close> (\<open>Ssh_Pool\<close> is the pool behind it); \<open>is_a\<close> is \<open>isinstance\<close> on the exceptions of Paramiko
  and Python, \<open>encrypt\<close> is Fernet.
\<close>

section \<open>Testing a connection\<close>

definition os_info_cmd :: string where
  "os_info_cmd = ''cat /etc/os-release | grep PRETTY_NAME | cut -d= -f2 | tr -d '' @ sq @ dq @ sq"

definition test_connection :: "'w remote \<Rightarrow> (exn \<Rightarrow> string \<Rightarrow> bool) \<Rightarrow> host \<Rightarrow> ('w sys, bool \<times> string \<times> string option) io" where
  "test_connection R is_a h =
     catch
       (seqm (ssh_connect R h)
       (bnd (exec_command R h os_info_cmd 30) (\<lambda>(rc, os_info, err).
        ret (True, ''Connection successful'', if os_info = [] then None else Some os_info))))
       (\<lambda>e. ret
         (if is_a e ''AuthenticationException'' then
            (False, if lower (h_auth_type h) = ''arcos''
               then ''ARCOS authentication failed. Check the ARCOS password/token and interactive SSH policy.''
               else ''Authentication failed. Check credentials.'', None)
          else if is_a e ''SSHException'' then (False, ''SSH error: '' @ exn_str e, None)
          else if is_a e ''TimeoutError'' then (False, ''Connection timed out'', None)
          else (False, ''Connection failed: '' @ exn_str e, None)))"

section \<open>The checks of a host\<close>

record check_row =
  cr_name :: string
  cr_status :: string
  cr_message :: string
  cr_details :: "string option"

definition row_of :: "string \<Rightarrow> string \<Rightarrow> string \<Rightarrow> string option \<Rightarrow> check_row" where
  "row_of name status message details = \<lparr>cr_name = name, cr_status = status, cr_message = message, cr_details = details\<rparr>"

text \<open>The dash of the messages in UTF-8.\<close>

definition long_dash :: string where "long_dash = [CHR 0xE2, CHR 0x80, CHR 0x94]"

definition stdout_of :: "'w remote \<Rightarrow> host \<Rightarrow> string \<Rightarrow> ('w sys, string) io" where
  "stdout_of R h cmd = bnd (exec_command R h cmd 30) (\<lambda>(rc, out, err). ret out)"

text \<open>The value after the first equals sign, without quotes.\<close>

definition os_value :: "string \<Rightarrow> string" where
  "os_value line = strip_chars dq (drop 1 (dropWhile (\<lambda>c. c \<noteq> CHR ''='') line))"

fun os_fields :: "string list \<Rightarrow> string \<times> string \<times> string \<Rightarrow> string \<times> string \<times> string" where
  "os_fields [] acc = acc"
| "os_fields (l # ls) (os_id, version_id, pretty) =
     os_fields ls
       (if starts_with l ''ID='' then (os_value l, version_id, pretty)
        else if starts_with l ''VERSION_ID='' then (os_id, os_value l, pretty)
        else if starts_with l ''PRETTY_NAME='' then (os_id, version_id, os_value l)
        else (os_id, version_id, pretty))"

definition supported_os :: "(string \<times> int) list" where
  "supported_os = [(''ubuntu'', 20), (''debian'', 11), (''rhel'', 8), (''centos'', 8), (''rocky'', 8), (''almalinux'', 8),
     (''fedora'', 37), (''amzn'', 2)]"

definition os_check :: "string \<Rightarrow> check_row" where
  "os_check out =
     (case os_fields (splitlines out) ([], [], []) of (os_id, version_id, pretty) \<Rightarrow>
        case parse_int (hd (split_on CHR ''.'' version_id)) of
          None \<Rightarrow> row_of ''Operating System'' ''warn'' (''Could not parse version: '' @ pretty) (Some out)
        | Some major \<Rightarrow>
           (case map_of supported_os os_id of
              None \<Rightarrow> row_of ''Operating System'' ''warn'' (''Untested OS: '' @ pretty) (Some out)
            | Some min_version \<Rightarrow>
                if min_version \<le> major then row_of ''Operating System'' ''pass'' pretty None
                else row_of ''Operating System'' ''fail'' (pretty @ '' '' @ long_dash @ '' minimum '' @ os_id @ '' '' @ show_int min_version @ ''+'') (Some out)))"

definition check_os :: "'w remote \<Rightarrow> host \<Rightarrow> ('w sys, check_row) io" where
  "check_os R h = bnd (stdout_of R h ''cat /etc/os-release'') (\<lambda>out. ret (os_check out))"

text \<open>The digits after a double quote and before a dot or an underscore.\<close>

fun java_version :: "string \<Rightarrow> string option" where
  "java_version [] = None"
| "java_version (c # s) =
     (let d = takeWhile is_digit s; rest = dropWhile is_digit s in
      if [c] = dq \<and> d \<noteq> [] \<and> rest \<noteq> [] \<and> hd rest \<in> {CHR ''.'', CHR ''_''} then Some d else java_version s)"

definition java_check :: "int \<Rightarrow> string \<Rightarrow> string \<Rightarrow> check_row" where
  "java_check rc out err =
     (let output = (if out = [] then err else out) in
      if rc \<noteq> 0 then row_of ''Java'' ''fail'' ''Java not installed'' (Some output)
      else case java_version output of
          Some d \<Rightarrow>
            let version = nat_of_digits d in
            if version \<in> {11, 17, 21} then row_of ''Java'' ''pass'' (''Java '' @ show_int version @ '' detected'') (Some output)
            else row_of ''Java'' ''warn'' (''Java '' @ show_int version @ '' '' @ long_dash @ '' recommend 11, 17, or 21'') (Some output)
        | None \<Rightarrow> row_of ''Java'' ''warn'' ''Could not determine Java version'' (Some output))"

definition check_java :: "'w remote \<Rightarrow> host \<Rightarrow> ('w sys, check_row) io" where
  "check_java R h = bnd (exec_command R h ''java -version 2>&1'' 30) (\<lambda>(rc, out, err). ret (java_check rc out err))"

text \<open>
  \<open>f"{mb / 1024:.1f}"\<close>: the nearest tenth, a tie going to the even one.  The quotient is exact for less than \<open>2 ^ 53\<close> megabytes.
\<close>

definition tenths :: "int \<Rightarrow> int" where
  "tenths mb = (let q = 10 * mb div 1024; r = 10 * mb mod 1024 in if 512 < r \<or> r = 512 \<and> odd q then q + 1 else q)"

definition show_gb :: "int \<Rightarrow> string" where
  "show_gb mb = (let t = tenths \<bar>mb\<bar> in (if mb < 0 then ''-'' else []) @ show_int (t div 10) @ ''.'' @ show_int (t mod 10))"

definition ram_check :: "string \<Rightarrow> check_row" where
  "ram_check out =
     (case parse_int out of
        None \<Rightarrow> row_of ''RAM'' ''fail'' ''Could not determine RAM'' (Some out)
      | Some mb \<Rightarrow>
          if 8 * 1024 \<le> mb then row_of ''RAM'' ''pass'' (show_gb mb @ '' GB available'') None
          else if 7 * 1024 \<le> 2 * mb then row_of ''RAM'' ''warn'' (show_gb mb @ '' GB '' @ long_dash @ '' 8GB+ recommended for production'') None
          else row_of ''RAM'' ''fail'' (show_gb mb @ '' GB '' @ long_dash @ '' minimum 3.5GB required'') None)"

definition check_ram :: "'w remote \<Rightarrow> host \<Rightarrow> ('w sys, check_row) io" where
  "check_ram R h = bnd (stdout_of R h (''free -m | awk '' @ sq @ ''/Mem:/{print $2}'' @ sq)) (\<lambda>out. ret (ram_check out))"

definition disk_check :: "string \<Rightarrow> check_row" where
  "disk_check out =
     (case parse_int out of
        None \<Rightarrow> row_of ''Disk Space'' ''fail'' ''Could not determine disk space'' (Some out)
      | Some gb \<Rightarrow>
          if 50 \<le> gb then row_of ''Disk Space'' ''pass'' (show_int gb @ '' GB free on /opt'') None
          else if 15 \<le> gb then row_of ''Disk Space'' ''warn'' (show_int gb @ '' GB free '' @ long_dash @ '' 50GB+ recommended for production'') None
          else row_of ''Disk Space'' ''fail'' (show_int gb @ '' GB free '' @ long_dash @ '' minimum 15GB'') None)"

definition check_disk :: "'w remote \<Rightarrow> host \<Rightarrow> ('w sys, check_row) io" where
  "check_disk R h =
     bnd (stdout_of R h (''df -BG /opt | tail -1 | awk '' @ sq @ ''{print $4}'' @ sq @ '' | tr -d '' @ sq @ ''G'' @ sq)) (\<lambda>out. ret (disk_check out))"

definition cpu_check :: "string \<Rightarrow> check_row" where
  "cpu_check out =
     (case parse_int out of
        None \<Rightarrow> row_of ''CPU Cores'' ''fail'' ''Could not determine CPU count'' (Some out)
      | Some cores \<Rightarrow>
          if 4 \<le> cores then row_of ''CPU Cores'' ''pass'' (show_int cores @ '' cores'') None
          else if 2 \<le> cores then row_of ''CPU Cores'' ''warn'' (show_int cores @ '' cores '' @ long_dash @ '' 4+ recommended'') None
          else row_of ''CPU Cores'' ''fail'' (show_int cores @ '' core(s) '' @ long_dash @ '' minimum 2'') None)"

definition check_cpu :: "'w remote \<Rightarrow> host \<Rightarrow> ('w sys, check_row) io" where
  "check_cpu R h = bnd (stdout_of R h ''nproc'') (\<lambda>out. ret (cpu_check out))"

text \<open>The digits between a colon and white space.\<close>

fun port_in_line :: "string \<Rightarrow> string option" where
  "port_in_line [] = None"
| "port_in_line (c # s) =
     (let d = takeWhile is_digit s; rest = dropWhile is_digit s in
      if c = CHR '':'' \<and> d \<noteq> [] \<and> rest \<noteq> [] \<and> py_ws (hd rest) then Some d else port_in_line s)"

definition ports_check :: "string \<Rightarrow> check_row" where
  "ports_check out =
     (if strip out \<noteq> [] then row_of ''Port Availability'' ''warn''
        (''Ports in use: '' @ join '', '' (List.map_filter port_in_line (splitlines (strip out)))) (Some out)
      else row_of ''Port Availability'' ''pass'' ''All Kafka ports available (9092, 9093, 2181, 8088, 8083)'' None)"

definition check_ports_in_use :: "'w remote \<Rightarrow> host \<Rightarrow> ('w sys, check_row) io" where
  "check_ports_in_use R h =
     bnd (stdout_of R h (''ss -tlnp 2>/dev/null | grep -E '' @ sq @ '':(9092|9093|2181|8088|8083)'' @ sq @ '' || true'')) (\<lambda>out. ret (ports_check out))"

definition time_check :: "string \<Rightarrow> check_row" where
  "time_check out =
     (if contains (lower out) ''yes'' then row_of ''Time Sync'' ''pass'' ''NTP synchronized'' (Some out)
      else if contains out ''unavailable'' then row_of ''Time Sync'' ''warn'' ''timedatectl not available'' None
      else row_of ''Time Sync'' ''warn'' ''NTP may not be synchronized'' (Some out))"

definition check_time_sync :: "'w remote \<Rightarrow> host \<Rightarrow> ('w sys, check_row) io" where
  "check_time_sync R h =
     bnd (stdout_of R h (''timedatectl 2>/dev/null | grep -i '' @ sq @ ''synchronized'' @ [CHR 0x5C] @ ''|NTP'' @ sq @ '' || echo '' @ sq @ ''unavailable'' @ sq))
       (\<lambda>out. ret (time_check out))"

definition check_sudo :: "'w remote \<Rightarrow> host \<Rightarrow> ('w sys, check_row) io" where
  "check_sudo R h =
     bnd (exec_command R h ''sudo -n true 2>&1'' 30) (\<lambda>(rc, out, err). ret
       (if rc = 0 then row_of ''Sudo Access'' ''pass'' ''Passwordless sudo available'' None
        else row_of ''Sudo Access'' ''warn'' (''No passwordless sudo '' @ long_dash @ '' deployment may prompt for password'') (Some err)))"

definition firewall_check :: "string \<Rightarrow> check_row" where
  "firewall_check out =
     (let lines = map strip (splitlines out);
          active = map fst (filter (\<lambda>(s, l). l = ''active'') (zip [''firewalld'', ''ufw''] lines)) in
      if active \<noteq> [] then row_of ''Firewall'' ''warn''
        (''Active firewall(s): '' @ join '', '' active @ '' '' @ long_dash @ '' ensure Kafka ports are open'') (Some out)
      else row_of ''Firewall'' ''pass'' ''No active firewall detected'' None)"

definition check_firewall :: "'w remote \<Rightarrow> host \<Rightarrow> ('w sys, check_row) io" where
  "check_firewall R h =
     bnd (stdout_of R h ''systemctl is-active firewalld 2>/dev/null; systemctl is-active ufw 2>/dev/null'') (\<lambda>out. ret (firewall_check out))"

text \<open>\<open>name.replace("_", " ").title()\<close>: a letter after anything that is not a letter is a capital, the others are small.\<close>

definition is_letter :: "char \<Rightarrow> bool" where
  "is_letter c \<longleftrightarrow> (let n = (of_char (lower_char c) :: int) in 97 \<le> n \<and> n \<le> 122)"

fun title_from :: "bool \<Rightarrow> string \<Rightarrow> string" where
  "title_from inside [] = []"
| "title_from inside (c # s) = (if inside then lower_char c else upper_char c) # title_from (is_letter c) s"

definition check_title :: "string \<Rightarrow> string" where
  "check_title fn = title_from False (replace_char CHR ''_'' '' '' fn)"

definition all_checks :: "'w remote \<Rightarrow> host \<Rightarrow> (string \<times> ('w sys, check_row) io) list" where
  "all_checks R h =
     [(''os'', check_os R h), (''java'', check_java R h), (''ram'', check_ram R h), (''disk'', check_disk R h), (''cpu'', check_cpu R h),
      (''ports'', check_ports_in_use R h), (''time_sync'', check_time_sync R h), (''sudo'', check_sudo R h), (''firewall'', check_firewall R h)]"

definition run_all :: "'w remote \<Rightarrow> host \<Rightarrow> ('w sys, check_row list) io" where
  "run_all R h = for_each (\<lambda>(fn, check).
     catch check (\<lambda>e. ret (row_of (check_title fn) ''fail'' (''Check failed: '' @ exn_str e) None))) (all_checks R h)"

section \<open>The routes\<close>

record host_create =
  hc_hostname :: string
  hc_ip_address :: string
  hc_ssh_port :: int
  hc_username :: string
  hc_auth_type :: string
  hc_credential :: string

record host_update =
  hu_hostname :: "string option"
  hu_ip_address :: "string option"
  hu_ssh_port :: "int option"
  hu_username :: "string option"
  hu_auth_type :: "string option"
  hu_credential :: "string option"

definition host_row :: "(string \<Rightarrow> string) \<Rightarrow> string \<Rightarrow> int \<Rightarrow> host_create \<Rightarrow> host" where
  "host_row encrypt new_id now q =
     \<lparr>h_id = new_id, h_hostname = hc_hostname q, h_ip_address = hc_ip_address q, h_ssh_port = hc_ssh_port q,
      h_username = (if hc_username q = [] then ''tantor-agent'' else hc_username q), h_auth_type = hc_auth_type q,
      h_encrypted_credential = encrypt (if hc_credential q = [] then ''__agent__'' else hc_credential q),
      h_os_info = None, h_status = ''unknown'', h_created_at = now\<rparr>"

definition create_host :: "(string \<Rightarrow> string) \<Rightarrow> string \<Rightarrow> int \<Rightarrow> host_create \<Rightarrow> ('w sys, host) io" where
  "create_host encrypt new_id now q =
     (let row = host_row encrypt new_id now q in
      seqm (upd_sess (\<lambda>d. d\<lparr>hosts := hosts d @ [row]\<rparr>)) (seqm commit (ret row)))"

text \<open>The newest first; rows of the same time stay in the order they were inserted.\<close>

definition list_hosts :: "('w sys, host list) io" where
  "list_hosts = asks (\<lambda>s. sort_key (\<lambda>h. - h_created_at h) (hosts (sess s)))"

definition host_or_404 :: "string \<Rightarrow> ('w sys, host) io" where
  "host_or_404 hid = bnd (asks sess) (\<lambda>d.
     case find_host d hid of None \<Rightarrow> raise (HTTPException 404 ''Host not found'') | Some h \<Rightarrow> ret h)"

definition upd_host :: "string \<Rightarrow> (host \<Rightarrow> host) \<Rightarrow> ('w sys, unit) io" where
  "upd_host hid f = upd_sess (\<lambda>d. d\<lparr>hosts := upd_by h_id hid f (hosts d)\<rparr>)"

definition opt :: "'a option \<Rightarrow> 'a \<Rightarrow> 'a" where
  "opt x old = (case x of None \<Rightarrow> old | Some v \<Rightarrow> v)"

definition changed_host :: "(string \<Rightarrow> string) \<Rightarrow> host_update \<Rightarrow> host \<Rightarrow> host" where
  "changed_host encrypt q h =
     h\<lparr>h_hostname := opt (hu_hostname q) (h_hostname h), h_ip_address := opt (hu_ip_address q) (h_ip_address h),
       h_ssh_port := opt (hu_ssh_port q) (h_ssh_port h), h_username := opt (hu_username q) (h_username h),
       h_auth_type := opt (hu_auth_type q) (h_auth_type h),
       h_encrypted_credential := opt (map_option encrypt (hu_credential q)) (h_encrypted_credential h)\<rparr>"

definition update_host :: "(string \<Rightarrow> string) \<Rightarrow> string \<Rightarrow> host_update \<Rightarrow> ('w sys, host) io" where
  "update_host encrypt hid q =
     bnd (host_or_404 hid) (\<lambda>h.
     seqm (upd_host hid (changed_host encrypt q)) (seqm commit (ret (changed_host encrypt q h))))"

text \<open>The database does not enforce foreign keys, so services and agents of the host stay.\<close>

definition delete_host :: "string \<Rightarrow> ('w sys, string) io" where
  "delete_host hid =
     bnd (host_or_404 hid) (\<lambda>h.
     seqm (upd_sess (\<lambda>d. d\<lparr>hosts := filter (\<lambda>r. h_id r \<noteq> hid) (hosts d)\<rparr>)) (seqm commit (ret ''Host deleted'')))"

definition set_host_status :: "string \<Rightarrow> string \<Rightarrow> ('w sys, unit) io" where
  "set_host_status hid st = upd_host hid (\<lambda>r. r\<lparr>h_status := st\<rparr>)"

definition no_agent_msg :: string where
  "no_agent_msg = ''No tantor-agent connected for this host. Mint a token via '' @
     ''POST /api/hosts/{id}/agent/token and run the install command '' @ ''on the broker host.''"

definition test_host_connection :: "'w remote \<Rightarrow> (exn \<Rightarrow> string \<Rightarrow> bool) \<Rightarrow> string \<Rightarrow> ('w sys, bool \<times> string \<times> string option) io" where
  "test_host_connection R is_a hid =
     bnd (host_or_404 hid) (\<lambda>h.
     if h_auth_type h = ''agent'' then
       bnd (agent_available R (h_id h)) (\<lambda>available.
       if available then
         seqm (set_host_status hid ''online'') (seqm commit (ret (True, ''tantor-agent is connected and heartbeating'', h_os_info h)))
       else seqm (set_host_status hid ''offline'') (seqm commit (ret (False, no_agent_msg, h_os_info h))))
     else
       bnd (test_connection R is_a h) (\<lambda>(success, message, os_info).
       seqm
         (if success \<and> str_true os_info then upd_host hid (\<lambda>r. r\<lparr>h_os_info := os_info, h_status := ''online''\<rparr>)
          else if \<not> success then set_host_status hid ''offline''
          else ret ())
       (seqm commit
       (ret (success, message, os_info)))))"

definition check_prerequisites :: "'w remote \<Rightarrow> string \<Rightarrow> ('w sys, check_row list \<times> bool) io" where
  "check_prerequisites R hid =
     bnd (host_or_404 hid) (\<lambda>h.
     bnd (catch (seqm (ssh_connect R h) (run_all R h)) (\<lambda>e. raise (HTTPException 500 (''SSH connection failed: '' @ exn_str e)))) (\<lambda>checks.
     ret (checks, list_all (\<lambda>c. cr_status c \<noteq> ''fail'') checks)))"

section \<open>What the checks say\<close>

text \<open>
  Claim C39.  The thresholds of the checks of memory, disk and processors are exact: memory passes from 8192 MB and fails below 3584 MB,
  disk passes from 50 and fails below 15 GB, processors pass from 4 and fail below 2, with a warning in between.  The memory
  that is shown differs from the one that was measured by at most half a tenth of a gigabyte.
\<close>

theorem resource_bounds:
  assumes "0 \<le> mb"
  shows "cr_status (ram_check (show_int mb)) = (if mb < 3584 then ''fail'' else if mb < 8192 then ''warn'' else ''pass'') \<and>
    cr_status (disk_check (show_int gb)) = (if gb < 15 then ''fail'' else if gb < 50 then ''warn'' else ''pass'') \<and>
    cr_status (cpu_check (show_int n)) = (if n < 2 then ''fail'' else if n < 4 then ''warn'' else ''pass'') \<and>
    starts_with (cr_message (ram_check (show_int mb))) (show_int (tenths mb div 10) @ ''.'' @ show_int (tenths mb mod 10) @ '' GB'') \<and>
    2 * \<bar>1024 * tenths mb - 10 * mb\<bar> \<le> 1024"
proof -
  have "2 * \<bar>1024 * tenths mb - 10 * mb\<bar> \<le> 1024"
    unfolding tenths_def Let_def using div_mult_mod_eq[of "10 * mb" 1024] pos_mod_bound[of 1024 "10 * mb"] pos_mod_sign[of 1024 "10 * mb"] by auto
  moreover have "cr_message (ram_check (show_int mb)) = (show_gb mb @ '' GB'') @ (if 8192 \<le> mb then '' available''
      else if 3584 \<le> mb then '' '' @ long_dash @ '' 8GB+ recommended for production'' else '' '' @ long_dash @ '' minimum 3.5GB required'')"
    by (simp add: ram_check_def row_of_def)
  then have "starts_with (cr_message (ram_check (show_int mb))) (show_int (tenths mb div 10) @ ''.'' @ show_int (tenths mb mod 10) @ '' GB'')"
    using assms by (simp only: starts_with_def) (simp add: show_gb_def Let_def del: append_assoc add: append_assoc[symmetric])
  ultimately show ?thesis
    by (auto simp: ram_check_def disk_check_def cpu_check_def row_of_def)
qed

theorem resource_bounds_witness:
  "cr_status (ram_check (show_int 8191)) = ''warn'' \<and> starts_with (cr_message (ram_check (show_int 8191))) ''8.0 GB'' \<and> tenths 8191 = 80"
proof -
  have t: "tenths 8191 = 80" by (simp add: tenths_def)
  moreover have "show_int 8 = ''8''" "show_int 0 = ''0''" by code_simp+
  ultimately show ?thesis using resource_bounds[of 8191 50 4] by simp
qed

lemma run_all_ends: "\<exists>rows t. run_all R h s = (Inr rows, t)"
  unfolding run_all_def by (rule for_each_total) (auto simp: catch_run split: sum.split prod.split)

lemma world_only_test: "world_only (test_connection R is_a h)"
  unfolding test_connection_def by (intro world_steps)

lemma test_connection_ends: "\<exists>ok msg os t. test_connection R is_a h s = (Inr (ok, msg, os), t)"
  unfolding test_connection_def by (auto simp: catch_run split: sum.split prod.split)

definition tested_host :: "bool \<Rightarrow> bool \<Rightarrow> string option \<Rightarrow> host \<Rightarrow> host" where
  "tested_host by_agent ok os h =
     (if \<not> ok then h\<lparr>h_status := ''offline''\<rparr>
      else if by_agent then h\<lparr>h_status := ''online''\<rparr>
      else if str_true os then h\<lparr>h_os_info := os, h_status := ''online''\<rparr> else h)"

lemma upd_host_run: "seqm (upd_host hid f) (seqm commit (ret x)) s =
    (Inr x, s\<lparr>sess := (sess s)\<lparr>hosts := upd_by h_id hid f (hosts (sess s))\<rparr>, committed := (sess s)\<lparr>hosts := upd_by h_id hid f (hosts (sess s))\<rparr>\<rparr>)"
  by (simp add: upd_host_def seqm_run upd_sess_def commit_def)

lemma tested_host_simps:
  "tested_host True True os = (\<lambda>r. r\<lparr>h_status := ''online''\<rparr>)" "tested_host a False os = (\<lambda>r. r\<lparr>h_status := ''offline''\<rparr>)"
  "str_true os \<Longrightarrow> tested_host False True os = (\<lambda>r. r\<lparr>h_os_info := os, h_status := ''online''\<rparr>)"
  "\<not> str_true os \<Longrightarrow> tested_host False True os = (\<lambda>r. r)"
  by (simp_all add: tested_host_def fun_eq_iff)

text \<open>
  Testing the connection of a host always answers, and commits what it found and nothing else: a host that does not answer is
  offline, one with a connected agent or that tells its system is online, with the system it told, and one that answers without
  telling its system keeps the status it had.
\<close>

theorem host_tested:
  assumes "find_host (sess s) hid = Some h"
  shows "case test_host_connection R is_a hid s of (r, t) \<Rightarrow>
    case r of Inl e \<Rightarrow> False
    | Inr (ok, msg, os) \<Rightarrow> committed t = sess t \<and>
        sess t = (sess s)\<lparr>hosts := upd_by h_id hid (tested_host (h_auth_type h = ''agent'') ok os) (hosts (sess s))\<rparr>"
proof (cases "h_auth_type h = ''agent''")
  case True
  then show ?thesis
    by (simp add: test_host_connection_def host_or_404_def bnd_run assms agent_available_def set_host_status_def upd_host_run tested_host_simps)
next
  case False
  obtain ok msg os u where run: "test_connection R is_a h s = (Inr (ok, msg, os), u)" using test_connection_ends by blast
  then have u: "sess u = sess s" using world_onlyD[OF world_only_test run] by simp
  have same: "d\<lparr>hosts := upd_by h_id hid (\<lambda>r. r) (hosts d)\<rparr> = d" for d :: tables by (simp add: upd_by_ident)
  have keep: "seqm (ret ()) (seqm commit (ret x)) u = (Inr x, u\<lparr>committed := sess u\<rparr>)" for x :: "bool \<times> string \<times> string option"
    by (simp add: seqm_run commit_def)
  show ?thesis
    using False run u same
    by (cases ok; cases "str_true os")
      (simp_all add: test_host_connection_def host_or_404_def bnd_run assms set_host_status_def upd_host_run tested_host_simps keep)
qed

definition silent_host :: host where
  "silent_host = \<lparr>h_id = ''h1'', h_hostname = ''b1'', h_ip_address = ''10.0.0.1'', h_ssh_port = 22, h_username = ''root'', h_auth_type = ''key'',
     h_encrypted_credential = [], h_os_info = None, h_status = ''offline'', h_created_at = 0\<rparr>"

definition silent_remote :: "unit remote" where
  "silent_remote = \<lparr>r_connect = (\<lambda>h w. (Inr (), w)), r_exec = (\<lambda>h c n w. (Inr (0, [], []), w)),
     r_write = (\<lambda>h c p w. (Inr (), w)), r_put = (\<lambda>h l p w. (Inr (), w)), r_sleep = (\<lambda>n w. w),
     r_clock = (\<lambda>w. 0), r_agent_connected = (\<lambda>h w. False),
     r_agent_send = (\<lambda>h op args n w. (Inr (AgentErr None), w))\<rparr>"

definition silent_sys :: "unit sys" where
  "silent_sys = \<lparr>sess = empty_tables\<lparr>hosts := [silent_host]\<rparr>, committed = empty_tables\<lparr>hosts := [silent_host]\<rparr>, tasks = no_tasks, wld = ()\<rparr>"

text \<open>A host without \<open>/etc/os-release\<close> was offline once and stays so, however often it answers.\<close>

theorem host_tested_witness:
  "fst (test_host_connection silent_remote (\<lambda>e c. False) ''h1'' silent_sys) = Inr (True, ''Connection successful'', None) \<and>
   hosts (committed (snd (test_host_connection silent_remote (\<lambda>e c. False) ''h1'' silent_sys))) = [silent_host]"
proof -
  have run: "fst (test_host_connection silent_remote (\<lambda>e c. False) ''h1'' silent_sys) = Inr (True, ''Connection successful'', None)" by code_simp
  have f: "find_host (sess silent_sys) ''h1'' = Some silent_host" by code_simp
  have "hosts (sess silent_sys) = [silent_host]" "h_auth_type silent_host \<noteq> ''agent''" by code_simp+
  with run host_tested[OF f, of silent_remote "\<lambda>e c. False"] show ?thesis
    by (auto simp: tested_host_simps upd_by_ident str_true_def split: prod.splits)
qed

end
