(* ===== verification/Cluster_Api.thy ===== *)
theory Cluster_Api
  imports Agent_Deployer External_Admin Host_Api
begin

text \<open>
  \<open>api/clusters.py\<close> with the requests of \<open>schemas/cluster.py\<close>: creating, deploying, scaling and removing clusters.  A request runs in the
  session \<open>sess\<close>; a task that is put in the background is part of the answer (\<open>background\<close>), and its row is written in a session of
  its own (\<open>init_task\<close>).  Identifiers and times that the program draws are parameters.
\<close>

section \<open>Requests\<close>

text \<open>\<open>_SAFE_PATH_RE\<close>.\<close>

definition path_char :: "char \<Rightarrow> bool" where
  "path_char c \<longleftrightarrow> is_letter c \<or> is_digit c \<or> c \<in> set ''/_-.''"

definition safe_path :: "string \<Rightarrow> bool" where
  "safe_path p \<longleftrightarrow> (case p of [] \<Rightarrow> False | c # s \<Rightarrow> c = CHR ''/'' \<and> 1 \<le> length s \<and> length s \<le> 510 \<and> list_all path_char s)"

definition validate_deploy_path :: "string option \<Rightarrow> string \<Rightarrow> (string \<Rightarrow> string) \<Rightarrow> exn + string option" where
  "validate_deploy_path v field_name rp =
     (if \<not> str_true v \<or> strip (the v) = [] then Inr None
      else let path = strip (the v) in
        if \<not> starts_with path ''/'' then Inl (ValueError (field_name @ '' must be an absolute path (start with '' @ text_repr ''/'' @ ''); got: '' @ rp path))
        else if ''..'' \<in> set (split_on CHR ''/'' path) then
          Inl (ValueError (field_name @ '' must not contain '' @ text_repr ''..'' @ '' path traversal components; got: '' @ rp path))
        else if \<not> safe_path path then
          Inl (ValueError (field_name @ '' contains characters that are not allowed in a '' @ ''deploy-time path. Use only alphanumerics, '' @
            text_repr ''/'' @ '', '' @ text_repr ''-'' @ '', '' @ text_repr ''_'' @ '', '' @ text_repr ''.'' @ ''; got: '' @ rp path))
        else Inr (Some path))"

record service_assignment =
  as_host_id :: string
  as_role :: string
  as_node_id :: int

text \<open>The configuration as \<open>model_dump\<close> gives it, with the two paths that were validated.\<close>

record cluster_create =
  cq_name :: string
  cq_kafka_version :: string
  cq_mode :: string
  cq_services :: "service_assignment list"
  cq_config :: "(string \<times> json) list"
  cq_install_dir :: "string option"
  cq_data_dir :: "string option"
  cq_environment :: string
  cq_initial_acls :: "acl_request list"

definition text_or_null :: "string option \<Rightarrow> json" where
  "text_or_null x = (case x of None \<Rightarrow> JNull | Some s \<Rightarrow> JStr s)"

definition config_dump :: "cluster_create \<Rightarrow> (string \<times> json) list" where
  "config_dump q = cq_config q @ [(''kafka_install_dir'', text_or_null (cq_install_dir q)), (''kafka_data_dir'', text_or_null (cq_data_dir q))]"

definition acl_json :: "acl_request \<Rightarrow> json" where
  "acl_json a = JObj [(''principal'', JStr (aq_principal a)), (''resource_type'', JStr (aq_resource_type a)),
     (''resource_name'', JStr (aq_resource_name a)), (''pattern_type'', JStr (aq_pattern_type a)),
     (''operations'', JArr (map JStr (aq_operations a))), (''permission_type'', JStr (aq_permission_type a)), (''host'', JStr (aq_host a))]"

section \<open>Rows\<close>

definition new_cluster :: "string \<Rightarrow> int \<Rightarrow> string \<Rightarrow> string \<Rightarrow> string \<Rightarrow> (string \<times> json) list \<Rightarrow> string \<Rightarrow> cluster" where
  "new_cluster new_id now name version mode config env =
     \<lparr>c_id = new_id, c_name = name, c_kafka_version = version, c_mode = mode, c_state = ''configured'',
      c_config_json = Some (Json (JObj config)), c_cluster_uuid = None, c_kind = Some ''managed'', c_bootstrap_servers = None,
      c_environment = env, c_ssl_enabled = False, c_external_broker_hosts_json = None, c_install_dir = None, c_data_dir = None,
      c_unit_name = None, c_mtls_required = False, c_tls_password = None, c_security_protocol = None, c_sasl_mechanism = None,
      c_secrets = None, c_ssl_verify = True, c_created_at = now\<rparr>"

definition new_service :: "string \<Rightarrow> string \<Rightarrow> service_assignment \<Rightarrow> service" where
  "new_service cid sid a =
     \<lparr>s_id = sid, s_cluster_id = cid, s_host_id = as_host_id a, s_role = as_role a, s_node_id = as_node_id a, s_status = ''pending''\<rparr>"

definition new_services :: "(nat \<Rightarrow> string) \<Rightarrow> string \<Rightarrow> service_assignment list \<Rightarrow> service list" where
  "new_services ids cid as = map (\<lambda>(n, a). new_service cid (ids n) a) (enumerate 0 as)"

text \<open>The ids that no host has, each once; Python's set may list them in another order.\<close>

definition missing_hosts :: "tables \<Rightarrow> service_assignment list \<Rightarrow> string list" where
  "missing_hosts d as = filter (\<lambda>i. find_host d i = None) (remdups (map as_host_id as))"

definition hosts_exist :: "service_assignment list \<Rightarrow> ('w sys, unit) io" where
  "hosts_exist as = bnd (asks (\<lambda>s. missing_hosts (sess s) as)) (\<lambda>missing.
     if missing \<noteq> [] then raise (HTTPException 400 (''Hosts not found: '' @ join '', '' missing)) else ret ())"

definition add_cluster :: "cluster \<Rightarrow> ('w sys, unit) io" where
  "add_cluster c = upd_sess (\<lambda>d. d\<lparr>clusters := clusters d @ [c]\<rparr>)"

definition add_service_rows :: "service list \<Rightarrow> ('w sys, unit) io" where
  "add_service_rows svcs = upd_sess (\<lambda>d. d\<lparr>services := services d @ svcs\<rparr>)"

definition upd_cluster :: "string \<Rightarrow> (cluster \<Rightarrow> cluster) \<Rightarrow> ('w sys, unit) io" where
  "upd_cluster cid f = upd_sess (\<lambda>d. d\<lparr>clusters := upd_by c_id cid f (clusters d)\<rparr>)"

section \<open>Creating and reading clusters\<close>

definition own_paths :: "cluster_create \<Rightarrow> cluster \<Rightarrow> cluster" where
  "own_paths q c = c\<lparr>c_install_dir := (if str_true (cq_install_dir q) then cq_install_dir q else c_install_dir c),
     c_data_dir := (if str_true (cq_data_dir q) then cq_data_dir q else c_data_dir c)\<rparr>"

text \<open>\<open>json.loads(column or "{}")\<close>, used as a dict.\<close>

definition config_dict :: "cluster \<Rightarrow> exn + (string \<times> json) list" where
  "config_dict c = (case strict_config (c_config_json c) of Inl e \<Rightarrow> Inl e | Inr v \<Rightarrow> as_dict v)"

definition create_cluster :: "string \<Rightarrow> (nat \<Rightarrow> string) \<Rightarrow> int \<Rightarrow> cluster_create \<Rightarrow> ('w sys, cluster) io" where
  "create_cluster cid ids now q =
     seqm (hosts_exist (cq_services q))
    (let row = new_cluster cid now (cq_name q) (cq_kafka_version q) (cq_mode q) (config_dump q) (lower (strip (cq_environment q))) in
     bnd (lift (assign_paths_for_new_cluster (own_paths q row))) (\<lambda>c.
     seqm (add_cluster c)
    (seqm (add_service_rows (new_services ids cid (cq_services q)))
    (seqm commit
    (if cq_initial_acls q = [] then ret c
     else bnd (lift (config_dict c)) (\<lambda>cfg.
       let c' = c\<lparr>c_config_json := Some (Json (JObj (AList.update ''_initial_acls'' (JArr (map acl_json (cq_initial_acls q))) cfg)))\<rparr> in
       seqm (upd_cluster cid (\<lambda>r. r\<lparr>c_config_json := c_config_json c'\<rparr>)) (seqm commit (ret c'))))))))"

definition list_clusters :: "('w sys, cluster list) io" where
  "list_clusters = asks (\<lambda>s. sort_key (\<lambda>c. - c_created_at c) (clusters (sess s)))"

definition cluster_or_404 :: "string \<Rightarrow> ('w sys, cluster) io" where
  "cluster_or_404 cid = bnd (asks sess) (\<lambda>d.
     case find_cluster d cid of None \<Rightarrow> raise (HTTPException 404 ''Cluster not found'') | Some c \<Rightarrow> ret c)"

text \<open>The rows that stand for the brokers of an external cluster; they are never stored.\<close>

definition external_rows :: "cluster \<Rightarrow> connection_test \<Rightarrow> service list" where
  "external_rows c probe =
     (case ct_cluster probe of
        None \<Rightarrow> []
      | Some (desc, v) \<Rightarrow> map (\<lambda>b. \<lparr>s_id = ''ext-'' @ take_chars 8 (c_id c) @ ''-'' @ show_int (bd_node_id b), s_cluster_id = c_id c,
          s_host_id = [], s_role = ''broker'', s_node_id = bd_node_id b,
          s_status = (if ct_success probe then ''connected'' else ''unknown'')\<rparr>) (cd_brokers desc))"

definition get_cluster :: "'w kafka_py \<Rightarrow> fernet \<Rightarrow> string \<Rightarrow> ('w sys, cluster \<times> service list) io" where
  "get_cluster K F cid =
     bnd (cluster_or_404 cid) (\<lambda>c.
     bnd (asks (\<lambda>s. services_of (sess s) cid)) (\<lambda>svcs.
     bnd (sync_cluster_state_from_services cid) (\<lambda>changed.
     seqm (if changed then commit else ret ())
    (bnd (if is_external c \<and> svcs = []
          then catch (bnd (ext_test_connection K F c) (\<lambda>probe. ret (external_rows c probe))) (\<lambda>e. ret [])
          else ret svcs) (\<lambda>rows.
     bnd (cluster_or_404 cid) (\<lambda>c'. ret (c', rows)))))))"

definition failure_msg :: string where
  "failure_msg = ''Cluster cleanup failed; not deleting while services may still be running''"

definition delete_cluster :: "'w remote \<Rightarrow> string \<Rightarrow> ('w sys, string) io" where
  "delete_cluster R cid =
     bnd (cluster_or_404 cid) (\<lambda>c.
     bnd (cleanup_cluster R cid True) (\<lambda>results.
     if \<not> list_all r_success results then raise (HTTPException 409 failure_msg)
     else
       seqm (upd_sess (\<lambda>d. d\<lparr>services := filter (\<lambda>r. s_cluster_id r \<noteq> cid) (services d)\<rparr>))
      (seqm (upd_sess (\<lambda>d. d\<lparr>clusters := filter (\<lambda>r. c_id r \<noteq> cid) (clusters d)\<rparr>))
      (seqm commit
      (ret ''Cluster deleted'')))))"

definition patch_cluster :: "string \<Rightarrow> string option \<Rightarrow> string option \<Rightarrow> ('w sys, cluster) io" where
  "patch_cluster cid name env =
     bnd (cluster_or_404 cid) (\<lambda>c.
     seqm (upd_cluster cid (\<lambda>r. r\<lparr>c_name := opt (map_option strip name) (c_name r),
            c_environment := opt (map_option (\<lambda>e. lower (strip e)) env) (c_environment r)\<rparr>))
    (seqm commit
    (cluster_or_404 cid)))"

section \<open>Deployments\<close>

datatype background = Deploy_Cluster string string | Deploy_Registry string string int string

text \<open>The row is written and committed in a session of its own.\<close>

definition new_task_row :: "string \<Rightarrow> string \<Rightarrow> int \<Rightarrow> deployment_task" where
  "new_task_row tid cid now = \<lparr>dt_id = tid, dt_cluster_id = cid, dt_status = ''running'', dt_current_step = None, dt_logs = [],
     dt_error_message = None, dt_started_at = now, dt_finished = False\<rparr>"

definition init_task :: "string \<Rightarrow> string \<Rightarrow> int \<Rightarrow> ('w sys, unit) io" where
  "init_task tid cid now =
     (let add = (\<lambda>d. d\<lparr>deployment_tasks := deployment_tasks d @ [new_task_row tid cid now]\<rparr>) in
      modify (\<lambda>s. s\<lparr>sess := add (sess s), committed := add (committed s)\<rparr>))"

definition refuse_if :: "bool \<Rightarrow> int \<Rightarrow> string \<Rightarrow> ('w sys, unit) io" where
  "refuse_if b code msg = (if b then raise (HTTPException code msg) else ret ())"

definition move_acls :: "(json \<Rightarrow> string) \<Rightarrow> string \<Rightarrow> string \<Rightarrow> cluster \<Rightarrow> ('w sys, unit) io" where
  "move_acls dumps cid tid c =
     bnd (lift (config_dict c)) (\<lambda>cfg.
     let acls = jget cfg ''_initial_acls'' in
     if \<not> truthy acls then ret ()
     else
       seqm (upd_cluster cid (\<lambda>r. r\<lparr>c_config_json := Some (Json (JObj (AList.delete ''_initial_acls'' cfg)))\<rparr>))
      (seqm commit
      (save_task tid (\<lambda>t. t\<lparr>dt_logs := dt_logs t @ [''INITIAL_ACLS:'' @ dumps acls]\<rparr>))))"

definition start_deployment :: "(json \<Rightarrow> string) \<Rightarrow> string \<Rightarrow> int \<Rightarrow> string \<Rightarrow> ('w sys, background) io" where
  "start_deployment dumps tid now cid =
     bnd (cluster_or_404 cid) (\<lambda>c.
     seqm (refuse_if (c_kind c = Some ''external'') 400 ''Deploy is not supported for externally-connected clusters'')
    (seqm (refuse_if (c_state c = ''deploying'') 400 ''Deployment already in progress'')
    (seqm (init_task tid cid now)
    (seqm (move_acls dumps cid tid c)
    (ret (Deploy_Cluster cid tid))))))"

definition get_deployment_status :: "string \<Rightarrow> ('w sys, deployment_task) io" where
  "get_deployment_status tid = bnd (asks (\<lambda>s. find_task (sess s) tid)) (\<lambda>t.
     case t of None \<Rightarrow> raise (HTTPException 404 ''Task not found'') | Some row \<Rightarrow> ret row)"

definition list_deployment_tasks :: "string \<Rightarrow> int \<Rightarrow> ('w sys, deployment_task list) io" where
  "list_deployment_tasks cid limit =
     asks (\<lambda>s. take (nat (min (max limit 1) 100)) (sort_key (\<lambda>t. - dt_started_at t) (filter (\<lambda>t. dt_cluster_id t = cid) (deployment_tasks (sess s)))))"

section \<open>Starting and stopping\<close>

definition not_external :: "cluster \<Rightarrow> ('w sys, unit) io" where
  "not_external c = refuse_if (c_kind c = Some ''external'') 400 ''start/stop are not supported for externally-connected clusters''"

definition start_cluster_route :: "'w remote \<Rightarrow> string \<Rightarrow> ('w sys, svc_result list) io" where
  "start_cluster_route R cid = bnd (cluster_or_404 cid) (\<lambda>c. seqm (not_external c) (start_cluster R cid))"

definition stop_cluster_route :: "'w remote \<Rightarrow> string \<Rightarrow> ('w sys, svc_result list) io" where
  "stop_cluster_route R cid = bnd (cluster_or_404 cid) (\<lambda>c. seqm (not_external c) (stop_cluster R cid))"

definition cluster_status_route :: "'w remote \<Rightarrow> string \<Rightarrow> ('w sys, status_result list) io" where
  "cluster_status_route R cid = bnd (cluster_or_404 cid) (\<lambda>c. get_cluster_status R cid)"

section \<open>Quick deploy\<close>

definition cluster_number :: "nat \<Rightarrow> string" where
  "cluster_number i = ''cluster-'' @ show_int (int i)"

lemma cluster_number_inj: "cluster_number i = cluster_number j \<longleftrightarrow> i = j"
  by (simp add: cluster_number_def) (metis nat_int option.inject parse_int_show)

lemma finite_numbers: "finite {j. cluster_number j \<in> set taken}"
proof -
  have "inj_on cluster_number UNIV" by (simp add: inj_on_def cluster_number_inj)
  then show ?thesis using finite_vimageI[of "set taken" cluster_number] by (simp add: vimage_def)
qed

text \<open>\<open>while f"cluster-{i}" in existing: i += 1\<close>.\<close>

function free_number :: "string list \<Rightarrow> nat \<Rightarrow> nat" where
  "free_number taken i = (if cluster_number i \<in> set taken then free_number taken (Suc i) else i)"
  by pat_completeness auto
termination
proof (relation "measure (\<lambda>(taken, i). card {j. i \<le> j \<and> cluster_number j \<in> set taken})")
  fix taken i
  assume taken: "cluster_number i \<in> set taken"
  have "i \<in> {j. i \<le> j \<and> cluster_number j \<in> set taken} - {j. Suc i \<le> j \<and> cluster_number j \<in> set taken}"
    using taken by simp
  moreover have "{j. Suc i \<le> j \<and> cluster_number j \<in> set taken} \<subseteq> {j. i \<le> j \<and> cluster_number j \<in> set taken}" by auto
  ultimately have "{j. Suc i \<le> j \<and> cluster_number j \<in> set taken} \<subset> {j. i \<le> j \<and> cluster_number j \<in> set taken}" by blast
  moreover have "finite {j. i \<le> j \<and> cluster_number j \<in> set taken}" by (rule finite_subset[OF _ finite_numbers[of taken]]) auto
  ultimately show "((taken, Suc i), (taken, i)) \<in> measure (\<lambda>(taken, i). card {j. i \<le> j \<and> cluster_number j \<in> set taken})"
    using psubset_card_mono by simp
qed simp

declare free_number.simps [simp del]

definition quick_name :: "tables \<Rightarrow> string option \<Rightarrow> exn + string" where
  "quick_name d wanted =
     (let name = strip (or_str wanted []); taken = map c_name (clusters d) in
      if name = [] then Inr (cluster_number (free_number taken 1))
      else if name \<in> set taken then Inl (HTTPException 400 (''Cluster '' @ sq @ name @ sq @ '' already exists''))
      else Inr name)"

text \<open>
  The version of a file that matches \<open>kafka_*-*.tgz\<close>, what comes after the first dash, and the tuple by which versions are compared.
\<close>

definition tgz_version :: "string \<Rightarrow> string option" where
  "tgz_version f =
     (if starts_with f ''kafka_'' \<and> ends_with f ''.tgz'' \<and> contains (drop 6 (removesuffix f ''.tgz'')) ''-'' \<and> 10 \<le> length f
      then Some (drop 1 (dropWhile (\<lambda>c. c \<noteq> CHR ''-'') (removesuffix f ''.tgz''))) else None)"

fun all_some :: "'a option list \<Rightarrow> 'a list option" where
  "all_some [] = Some []"
| "all_some (x # xs) = (case x of None \<Rightarrow> None | Some y \<Rightarrow> map_option (Cons y) (all_some xs))"

definition version_key :: "string \<Rightarrow> int list" where
  "version_key v = (case all_some (map parse_int (split_on CHR ''.'' v)) of None \<Rightarrow> [0] | Some ns \<Rightarrow> ns)"

text \<open>The first of a stable sort in reverse order: the first of the greatest.\<close>

definition latest :: "string list \<Rightarrow> string option" where
  "latest vs = (case vs of [] \<Rightarrow> None | v # rest \<Rightarrow> Some (foldl (\<lambda>best w. if version_key best < version_key w then w else best) v rest))"

definition quick_version :: "string list \<Rightarrow> string" where
  "quick_version files = (case latest (List.map_filter tgz_version files) of None \<Rightarrow> ''4.1.0'' | Some v \<Rightarrow> v)"

definition PORT_KEYS :: "string list" where
  "PORT_KEYS = [''listener_port'', ''controller_port'', ''ssl_listener_port'', ''schema_registry_port'', ''ksqldb_port'', ''connect_rest_port'']"

definition int_or_zero :: "(string \<times> json) list \<Rightarrow> string \<Rightarrow> exn + int" where
  "int_or_zero cfg k = (if truthy (jget cfg k) then py_int (jget cfg k) else Inr 0)"

fun all_right :: "(exn + 'a) list \<Rightarrow> exn + 'a list" where
  "all_right [] = Inr []"
| "all_right (x # xs) = (case x of Inl e \<Rightarrow> Inl e | Inr y \<Rightarrow> map_sum id (Cons y) (all_right xs))"

text \<open>The ports of a cluster; a configuration that is not JSON has none, one that is not an object raises.\<close>

definition ports_of_cluster :: "cluster \<Rightarrow> exn + int list" where
  "ports_of_cluster c =
     (case strict_config (c_config_json c) of
        Inl e \<Rightarrow> Inr []
      | Inr v \<Rightarrow> (case as_dict v of Inl e \<Rightarrow> Inl e
          | Inr cfg \<Rightarrow> map_sum id (filter (\<lambda>p. p \<noteq> 0)) (all_right (map (int_or_zero cfg) PORT_KEYS))))"

definition occupied_ports :: "tables \<Rightarrow> exn + (string \<Rightarrow> int list)" where
  "occupied_ports d =
     map_sum id (\<lambda>pss h. concat (map (\<lambda>(c, ps). if list_ex (\<lambda>s. s_cluster_id s = c_id c \<and> s_host_id s = h) (services d) then ps else [])
        (zip (clusters d) pss)))
       (all_right (map ports_of_cluster (clusters d)))"

definition quick_config :: "nat \<Rightarrow> port_set \<Rightarrow> (string \<times> json) list" where
  "quick_config n free =
     [(''replication_factor'', JInt (min 3 (int n))), (''num_partitions'', JInt 3), (''log_dirs'', JStr ''/var/lib/kafka/data''),
      (''listener_port'', JInt (ps_listener free)), (''controller_port'', JInt (ps_controller free)),
      (''ssl_listener_port'', JInt (ps_ssl free)), (''heap_size'', JStr ''1G'')]"

definition quick_services :: "host list \<Rightarrow> service_assignment list" where
  "quick_services hs = map (\<lambda>(i, h). \<lparr>as_host_id = h_id h, as_role = ''broker_controller'', as_node_id = int i\<rparr>) (enumerate 1 hs)"

record quick_result =
  qr_cluster_id :: string
  qr_name :: string
  qr_task_id :: string
  qr_kafka_version :: string
  qr_broker_count :: nat
  qr_ports :: port_set

definition quick_deploy :: "string list \<Rightarrow> string \<Rightarrow> (nat \<Rightarrow> string) \<Rightarrow> string \<Rightarrow> int \<Rightarrow> string option \<Rightarrow> string \<Rightarrow>
    ('w sys, quick_result \<times> background) io" where
  "quick_deploy files cid ids tid now wanted env =
     bnd (asks sess) (\<lambda>d.
     if hosts d = [] then raise (HTTPException 400 ''Register at least one host before quick-deploy'')
     else
       bnd (lift (quick_name d wanted)) (\<lambda>name.
       bnd (lift (occupied_ports d)) (\<lambda>occupied.
       let version = quick_version files;
           free = find_free_port_set occupied (map h_id (hosts d));
           row = new_cluster cid now name version ''kraft'' (quick_config (length (hosts d)) free)
             (lower (strip (if env = [] then ''dev'' else env))) in
       bnd (lift (assign_paths_for_new_cluster row)) (\<lambda>c.
       seqm (add_cluster c)
      (seqm (add_service_rows (new_services ids cid (quick_services (hosts d))))
      (seqm commit
      (seqm (init_task tid cid now)
      (ret (\<lparr>qr_cluster_id = cid, qr_name = name, qr_task_id = tid, qr_kafka_version = version,
             qr_broker_count = length (hosts d), qr_ports = free\<rparr>, Deploy_Cluster cid tid)))))))))"

section \<open>Port check of the wizard\<close>

record ports_report =
  pp_ok :: bool
  pp_conflicts :: "port_conflict list"
  pp_failures :: "(string \<times> string) list"

definition wizard_checks :: "string list \<Rightarrow> int list \<Rightarrow> port_check list" where
  "wizard_checks hids ports = concat (map (\<lambda>hid. map (\<lambda>p. \<lparr>pc_host_id = hid, pc_port = p, pc_label = ''port '' @ show_int p\<rparr>) ports) hids)"

definition no_answer :: "port_conflict \<Rightarrow> bool" where
  "no_answer c \<longleftrightarrow> starts_with (pf_label c) ''ssh-precheck-failed''"

definition preflight_ports :: "'w remote \<Rightarrow> string list \<Rightarrow> int list \<Rightarrow> ('w sys, ports_report) io" where
  "preflight_ports R hids ports =
     bnd (asks (\<lambda>s. by_id h_id (filter (\<lambda>h. h_id h \<in> set hids) (hosts (sess s))))) (\<lambda>host_of.
     bnd (check_ports R (wizard_checks hids ports) host_of) (\<lambda>cs.
     ret \<lparr>pp_ok = \<not> list_ex (\<lambda>c. \<not> no_answer c) cs, pp_conflicts = filter (\<lambda>c. \<not> no_answer c) cs,
          pp_failures = map (\<lambda>c. (pf_host_ip c, pf_process c)) (filter no_answer cs)\<rparr>))"

section \<open>Schema registry\<close>

definition deploy_schema_registry_endpoint :: "string \<Rightarrow> int \<Rightarrow> string \<Rightarrow> string \<Rightarrow> int \<Rightarrow> ('w sys, background) io" where
  "deploy_schema_registry_endpoint tid now cid hid port =
     bnd (cluster_or_404 cid) (\<lambda>c.
     seqm (refuse_if (is_external c) 400 ''Schema Registry deploy is only supported on managed clusters'')
    (bnd (asks (\<lambda>s. find_host (sess s) hid)) (\<lambda>h.
     seqm (refuse_if (h = None) 400 ''Host not found'')
    (seqm (init_task tid cid now)
    (ret (Deploy_Registry cid hid port tid))))))"

section \<open>Adding and removing services\<close>

definition reach_host :: "'w remote \<Rightarrow> (exn \<Rightarrow> string \<Rightarrow> bool) \<Rightarrow> host \<Rightarrow> ('w sys, unit) io" where
  "reach_host R is_a h =
     bnd (test_connection R is_a h) (\<lambda>(success, message, os_info).
     if \<not> success then raise (HTTPException 400 (''Cannot add node on '' @ h_hostname h @ '' ('' @ h_ip_address h @ ''): '' @ message))
     else if str_true os_info then upd_host (h_id h) (\<lambda>r. r\<lparr>h_os_info := os_info, h_status := ''online''\<rparr>)
     else ret ())"

definition add_services :: "'w remote \<Rightarrow> (exn \<Rightarrow> string \<Rightarrow> bool) \<Rightarrow> (nat \<Rightarrow> string) \<Rightarrow> string \<Rightarrow> service_assignment list \<Rightarrow>
    ('w sys, service list) io" where
  "add_services R is_a ids cid as =
     bnd (cluster_or_404 cid) (\<lambda>c.
     seqm (hosts_exist as)
    (bnd (asks (\<lambda>s. filter (\<lambda>h. h_id h \<in> set (map as_host_id as)) (hosts (sess s)))) (\<lambda>hs.
     bnd (for_each (reach_host R is_a) hs) (\<lambda>_.
     let created = new_services ids cid as in
     seqm (add_service_rows created) (seqm commit (ret created))))))"

definition brokering_roles :: "string list" where "brokering_roles = [''broker'', ''broker_controller'']"

definition controller_roles :: "string list" where "controller_roles = [''controller'', ''broker_controller'']"

text \<open>The factor as the message shows it; only a number or a truth value gets that far.\<close>

fun show_json_int :: "json \<Rightarrow> string" where
  "show_json_int (JInt n) = show_int n"
| "show_json_int (JBool b) = (if b then ''True'' else ''False'')"
| "show_json_int _ = []"

text \<open>\<open>len(remaining_brokers) < rf\<close>: a number is compared, anything else raises.\<close>

fun fewer_than :: "nat \<Rightarrow> json \<Rightarrow> exn + bool" where
  "fewer_than n (JInt rf) = Inr (int n < rf)"
| "fewer_than n (JBool b) = Inr (n < (if b then 1 else 0))"
| "fewer_than n _ = Inl (TypeError ''not supported between instances'')"

definition last_broker_msg :: string where
  "last_broker_msg = ''Cannot remove the last broker. This would leave the cluster with no brokers. Use force=true to override.''"

definition last_controller_msg :: string where
  "last_controller_msg = ''Cannot remove the last controller. This would leave the cluster with no controllers. Use force=true to override.''"

definition dependents_msg :: string where
  "dependents_msg = ''Cannot remove the last broker: ksqlDB/Connect services depend on it. Use force=true to override.''"

definition under_replicated_msg :: "nat \<Rightarrow> json \<Rightarrow> string" where
  "under_replicated_msg n rf = ''Removing this broker would leave '' @ show_int (int n) @ '' broker(s), '' @
     ''but replication_factor is '' @ show_json_int rf @ ''. Topics would be under-replicated. Use force=true to override.''"

definition removal_checks :: "cluster \<Rightarrow> service list \<Rightarrow> service \<Rightarrow> exn + unit" where
  "removal_checks c svcs target =
     (let remaining = filter (\<lambda>s. s_id s \<noteq> s_id target) svcs;
          brokers = filter (\<lambda>s. s_role s \<in> set brokering_roles) remaining;
          controllers = filter (\<lambda>s. s_role s \<in> set controller_roles) remaining;
          is_broker = s_role target \<in> set brokering_roles in
      if is_broker \<and> brokers = [] then Inl (HTTPException 409 last_broker_msg)
      else if s_role target \<in> set controller_roles \<and> controllers = [] then Inl (HTTPException 409 last_controller_msg)
      else case config_dict c of
        Inl e \<Rightarrow> Inl e
      | Inr cfg \<Rightarrow>
          let rf = jget_default cfg ''replication_factor'' (JInt 1) in
          (case (if is_broker then fewer_than (length brokers) rf else Inr False) of
             Inl e \<Rightarrow> Inl e
           | Inr True \<Rightarrow> Inl (HTTPException 409 (under_replicated_msg (length brokers) rf))
           | Inr False \<Rightarrow>
               if is_broker \<and> brokers = [] \<and> list_ex (\<lambda>s. s_role s \<in> {''ksqldb'', ''kafka_connect''}) remaining
               then Inl (HTTPException 409 dependents_msg)
               else Inr ()))"

definition remove_service :: "'w remote \<Rightarrow> string \<Rightarrow> string \<Rightarrow> bool \<Rightarrow> ('w sys, service) io" where
  "remove_service R cid sid force =
     bnd (cluster_or_404 cid) (\<lambda>c.
     bnd (asks (\<lambda>s. services_of (sess s) cid)) (\<lambda>svcs.
     case List.find (\<lambda>s. s_id s = sid) svcs of
       None \<Rightarrow> raise (HTTPException 404 ''Service not found in cluster'')
     | Some target \<Rightarrow>
         seqm (if force then ret () else lift (removal_checks c svcs target))
        (bnd (asks (\<lambda>s. find_host (sess s) (s_host_id target))) (\<lambda>h.
         seqm (case h of
             None \<Rightarrow> ret ()
           | Some host \<Rightarrow> bnd (cleanup_service R (Some c) target host True) (\<lambda>r.
               refuse_if (\<not> r_success r \<and> \<not> force) 409
                 (''Service cleanup failed: '' @ r_message r @ ''. Use force=true to remove the DB row anyway.'')))
        (seqm (upd_sess (\<lambda>d. d\<lparr>services := filter (\<lambda>r. s_id r \<noteq> sid) (services d)\<rparr>))
        (seqm commit
        (ret target)))))))"

section \<open>What the requests promise\<close>

lemma path_char_safe: "path_char c \<Longrightarrow> shell_safe c"
proof -
  assume c: "path_char c"
  define n where "n = (of_char c :: nat)"
  have n: "c = char_of n" by (simp add: n_def)
  have i: "(of_char c :: int) = int n" by (simp add: n_def of_nat_of_char)
  have safe: "\<forall>n\<in>{45..<58::nat}. shell_safe (char_of n)" "\<forall>n\<in>{65..<91::nat}. shell_safe (char_of n)"
    "\<forall>n\<in>{97..<123::nat}. shell_safe (char_of n)" "shell_safe (char_of (95 :: nat))"
    unfolding atLeastLessThan_upt list_all_iff[symmetric] by (code_simp, code_simp, code_simp, code_simp)
  consider "is_letter c" | "is_digit c" | "c \<in> set ''/_-.''" using c by (auto simp: path_char_def)
  then have "n \<in> {45..<58} \<or> n \<in> {65..<91} \<or> n \<in> {97..<123} \<or> n = 95"
  proof cases
    case 1
    then show ?thesis by (auto simp: is_letter_def lower_char_def Let_def i split: if_splits)
  next
    case 2
    then show ?thesis by (auto simp: is_digit_def Let_def i)
  next
    case 3
    then show ?thesis by (auto simp: n_def)
  qed
  then show "shell_safe c" unfolding n using safe by blast
qed

text \<open>
  Claim C38.  A directory that the request to create a cluster may name is absolute, has no component \<open>..\<close>, is at most 511 characters long, and is
  one word to a shell without quotes; and such a directory is accepted as it is.
\<close>

theorem deploy_path_safe:
  assumes "validate_deploy_path v nm rp = Inr (Some p)"
  shows "starts_with p ''/'' \<and> ''..'' \<notin> set (split_on CHR ''/'' p) \<and> length p \<le> 511 \<and> sh_words p = Some [p] \<and> shlex_quote p = p \<and>
    validate_deploy_path (Some p) nm rp = Inr (Some p)"
proof -
  have p: "p = strip (the v)" "starts_with p ''/''" "''..'' \<notin> set (split_on CHR ''/'' p)" "safe_path p" "p \<noteq> []"
    using assms by (auto simp: validate_deploy_path_def Let_def split: if_splits)
  then have l: "length p \<le> 511" "list_all path_char p"
    by (auto simp: safe_path_def path_char_def split: list.splits)
  then have safe: "list_all shell_safe p" using path_char_safe by (auto simp: list_all_iff)
  then have q: "shlex_quote p = p" using quote_safe p(5) by blast
  have "sh_words p = Some [p]" using sh_words_quoted[of "[p]"] q by simp
  moreover have "strip p = p" by (simp add: p(1) strip_idem)
  then have "validate_deploy_path (Some p) nm rp = Inr (Some p)"
    using p by (simp add: validate_deploy_path_def str_true_def)
  ultimately show ?thesis using p l q by blast
qed

theorem deploy_path_safe_witness:
  "validate_deploy_path (Some '' /data/kafka-1 '') ''kafka_data_dir'' id = Inr (Some ''/data/kafka-1'') \<and> sh_words ''/data/kafka-1'' = Some [''/data/kafka-1'']"
proof -
  have v: "validate_deploy_path (Some '' /data/kafka-1 '') ''kafka_data_dir'' id = Inr (Some ''/data/kafka-1'')" by code_simp
  with deploy_path_safe[OF v] show ?thesis by blast
qed

text \<open>
  Claim C14.  Removing a service without \<open>force\<close>.  When it succeeds, the rest of the cluster still has a broker, a controller and as many brokers as the
  replication factor asks for, as far as the removed service was one of these; exactly its row is gone, committed, and if its host is known its cleanup
  succeeded.  When it fails, nothing is committed.  The last check of the code, for ksqlDB and Connect without a broker, is never reached.
\<close>

theorem removal_guarded:
  assumes "find_cluster (sess s) cid = Some c" "committed s = sess s"
  shows "case remove_service R cid sid False s of
      (Inl e, t) \<Rightarrow> committed t = committed s \<and> exn_str e \<noteq> dependents_msg
    | (Inr target, t) \<Rightarrow>
        let rest = filter (\<lambda>x. s_id x \<noteq> sid) (services_of (sess s) cid);
            brokers = filter (\<lambda>x. s_role x \<in> set brokering_roles) rest in
        target \<in> set (services_of (sess s) cid) \<and> s_id target = sid \<and> committed t = sess t \<and>
        map s_id (services (committed t)) = map s_id (filter (\<lambda>x. s_id x \<noteq> sid) (services (committed s))) \<and>
        (s_role target \<in> set brokering_roles \<longrightarrow> brokers \<noteq> [] \<and> (case config_dict c of Inl e \<Rightarrow> False | Inr cfg \<Rightarrow>
           fewer_than (length brokers) (jget_default cfg ''replication_factor'' (JInt 1)) = Inr False)) \<and>
        (s_role target \<in> set controller_roles \<longrightarrow> list_ex (\<lambda>x. s_role x \<in> set controller_roles) rest) \<and>
        (case find_host (sess s) (s_host_id target) of None \<Rightarrow> True
         | Some h \<Rightarrow> \<exists>r u. cleanup_service R (Some c) target h True s = (Inr r, u) \<and> r_success r)"
proof (cases "List.find (\<lambda>x. s_id x = sid) (services_of (sess s) cid)")
  case None
  have "''Service not found in cluster'' \<noteq> dependents_msg" by code_simp
  with None assms show ?thesis by (simp add: remove_service_def cluster_or_404_def bnd_run)
next
  case (Some target)
  then have target: "target \<in> set (services_of (sess s) cid)" "s_id target = sid" by (auto dest: find_Some_iff_first)
  have other: "removal_checks c svcs x = Inl e \<Longrightarrow> exn_str e \<noteq> dependents_msg" for svcs x e
  proof -
    have "last_broker_msg \<noteq> dependents_msg" "last_controller_msg \<noteq> dependents_msg" "''invalid JSON'' \<noteq> dependents_msg"
      "''object has no attribute '' @ sq @ ''get'' @ sq \<noteq> dependents_msg" "''not supported between instances'' \<noteq> dependents_msg"
      by code_simp+
    moreover have "under_replicated_msg n rf \<noteq> dependents_msg" for n rf
    proof
      assume "under_replicated_msg n rf = dependents_msg"
      then have "hd (under_replicated_msg n rf) = hd dependents_msg" by (rule arg_cong)
      moreover have "hd dependents_msg = CHR ''C''" by code_simp
      ultimately show False by (simp add: under_replicated_msg_def)
    qed
    ultimately show "removal_checks c svcs x = Inl e \<Longrightarrow> exn_str e \<noteq> dependents_msg"
      by (auto simp: removal_checks_def Let_def config_dict_def strict_config_def split: if_splits sum.splits option.splits json_text.splits bool.splits
        elim!: as_dict.elims fewer_than.elims)
  qed
  show ?thesis
  proof (cases "removal_checks c (services_of (sess s) cid) target")
    case (Inl e)
    then show ?thesis using assms Some other[OF Inl] by (simp add: remove_service_def cluster_or_404_def bnd_run seqm_run)
  next
    case (Inr x)
    define rest where "rest = filter (\<lambda>x. s_id x \<noteq> sid) (services_of (sess s) cid)"
    define brokers where "brokers = filter (\<lambda>x. s_role x \<in> set brokering_roles) rest"
    have checks: "s_role target \<in> set brokering_roles \<longrightarrow> brokers \<noteq> [] \<and> (case config_dict c of Inl e \<Rightarrow> False | Inr cfg \<Rightarrow>
           fewer_than (length brokers) (jget_default cfg ''replication_factor'' (JInt 1)) = Inr False)"
      "s_role target \<in> set controller_roles \<longrightarrow> list_ex (\<lambda>x. s_role x \<in> set controller_roles) rest"
      using Inr target(2) by (auto simp: removal_checks_def Let_def rest_def brokers_def list_ex_iff filter_empty_conv
          split: if_splits sum.splits bool.splits)
    let ?del = "\<lambda>u. seqm (upd_sess (\<lambda>d. d\<lparr>services := filter (\<lambda>r. s_id r \<noteq> sid) (services d)\<rparr>)) (seqm commit (ret target)) u"
    show ?thesis
    proof (cases "find_host (sess s) (s_host_id target)")
      case None
      then have "remove_service R cid sid False s = ?del s"
        using assms Some Inr by (simp add: remove_service_def cluster_or_404_def bnd_run seqm_run)
      then show ?thesis using target checks assms None
        by (unfold Let_def, fold rest_def, fold brokers_def) (simp add: seqm_run upd_sess_def commit_def)
    next
      case h: (Some h)
      obtain res u where u: "cleanup_service R (Some c) target h True s = (Inr res, u)" "committed u = committed s"
        "sess u = (sess s)\<lparr>services := upd_by s_id (s_id target) (stop_mark target res) (services (sess s))\<rparr>"
        using cleanup_service_mark[of R "Some c" target h True s] by blast
      have ids: "map s_id (filter (\<lambda>r. s_id r \<noteq> sid) (upd_by s_id (s_id target) (stop_mark target res) rows)) =
          map s_id (filter (\<lambda>r. s_id r \<noteq> sid) rows)" for rows
        by (induction rows) (auto simp: upd_by_def stop_mark_def)
      have "''Service cleanup failed: '' @ m \<noteq> dependents_msg" for m
      proof
        assume "''Service cleanup failed: '' @ m = dependents_msg"
        then have "hd (''Service cleanup failed: '' @ m) = hd dependents_msg" by (rule arg_cong)
        moreover have "hd dependents_msg = CHR ''C''" by code_simp
        ultimately show False by simp
      qed
      then show ?thesis using target checks assms h Some Inr u ids
        by (unfold Let_def, fold rest_def, fold brokers_def, cases "r_success res")
          (simp_all add: remove_service_def cluster_or_404_def bnd_run seqm_run refuse_if_def upd_sess_def commit_def)
    qed
  qed
qed

section \<open>Deleting a cluster\<close>

lemma filter_untouched:
  assumes "\<And>i g r. (i, g) \<in> set ups \<Longrightarrow> s_cluster_id (g r) = s_cluster_id r \<and> s_id (g r) = s_id r"
    and "\<And>r i g. r \<in> set rows \<Longrightarrow> s_cluster_id r \<noteq> cid \<Longrightarrow> (i, g) \<in> set ups \<Longrightarrow> s_id r \<noteq> i"
  shows "filter (\<lambda>r. s_cluster_id r \<noteq> cid) (fold (\<lambda>(i, g). upd_by s_id i g) ups rows) = filter (\<lambda>r. s_cluster_id r \<noteq> cid) rows"
  using assms
proof (induction ups arbitrary: rows)
  case (Cons x ups)
  obtain i g where x: "x = (i, g)" by (cases x)
  have g: "s_cluster_id (g r) = s_cluster_id r" "s_id (g r) = s_id r" for r using Cons.prems(1)[of i g r] by (simp_all add: x)
  have "s_id r \<noteq> i" if "r \<in> set rows" "s_cluster_id r \<noteq> cid" for r using Cons.prems(2)[OF that, of i g] by (simp add: x)
  then have "filter (\<lambda>r. s_cluster_id r \<noteq> cid) (upd_by s_id i g rows) = filter (\<lambda>r. s_cluster_id r \<noteq> cid) rows"
    by (induction rows) (auto simp: upd_by_def g)
  moreover have "filter (\<lambda>r. s_cluster_id r \<noteq> cid) (fold (\<lambda>(i, g). upd_by s_id i g) ups (upd_by s_id i g rows)) =
      filter (\<lambda>r. s_cluster_id r \<noteq> cid) (upd_by s_id i g rows)"
  proof (rule Cons.IH)
    show "s_cluster_id (g' r) = s_cluster_id r \<and> s_id (g' r) = s_id r" if "(j, g') \<in> set ups" for j g' r
      using Cons.prems(1)[of j g' r] that by (simp add: x)
    show "s_id r \<noteq> j" if r: "r \<in> set (upd_by s_id i g rows)" "s_cluster_id r \<noteq> cid" and j: "(j, g') \<in> set ups" for r j g'
    proof -
      obtain r0 where r0: "r0 \<in> set rows" "r = (if s_id r0 = i then g r0 else r0)" using r(1) by (auto simp: upd_by_def)
      then have "s_cluster_id r0 \<noteq> cid" "s_id r = s_id r0" using r(2) g by (auto split: if_splits)
      then show ?thesis using Cons.prems(2)[OF r0(1), of j g'] j by (simp add: x)
    qed
  qed
  ultimately show ?case by (simp add: x)
qed simp

lemma map_id_fold: "(\<And>i g r. (i, g) \<in> set ups \<Longrightarrow> s_id (g r) = s_id r) \<Longrightarrow>
    map s_id (fold (\<lambda>(i, g). upd_by s_id i g) ups rows) = map s_id rows"
proof (induction ups arbitrary: rows)
  case (Cons x ups)
  obtain i g where x: "x = (i, g)" by (cases x)
  have "map s_id (upd_by s_id i g rows) = map s_id rows" using Cons.prems[of i g] by (auto simp: upd_by_def x)
  moreover have "map s_id (fold (\<lambda>(i, g). upd_by s_id i g) ups (upd_by s_id i g rows)) = map s_id (upd_by s_id i g rows)"
  proof (rule Cons.IH)
    fix j h r assume "(j, h) \<in> set ups"
    then show "s_id (h r) = s_id r" using Cons.prems[of j h r] by simp
  qed
  ultimately show ?case by (simp add: x)
qed simp

text \<open>
  Claim C15.  Deleting a cluster first stops every service of it and removes its units; it succeeds exactly if each of these stops was a success, and then
  neither the cluster nor a service of it is left, while the other clusters and their services are as before.  Otherwise the
  cluster and all rows of services stay.  Either way everything is committed.
\<close>

theorem delete_cluster_outcome:
  assumes "find_cluster (sess s) cid = Some c" "distinct (map s_id (services (sess s)))"
  shows "case delete_cluster R cid s of (r, t) \<Rightarrow> case stop_services R cid True s of (q, u) \<Rightarrow>
    (case q of Inl e \<Rightarrow> False | Inr results \<Rightarrow> map r_service_id results = map s_id (sort_key (\<lambda>x. dict_get STOP_ORDER (s_role x) 9) (services_of (sess s) cid)) \<and>
        isl r = (\<not> list_all r_success results)) \<and>
    committed t = sess t \<and>
    (if isl r then r = Inl (HTTPException 409 failure_msg) \<and> clusters (sess t) = clusters (sess s) \<and> map s_id (services (sess t)) = map s_id (services (sess s))
     else find_cluster (sess t) cid = None \<and> services_of (sess t) cid = [] \<and>
       clusters (sess t) = filter (\<lambda>r. c_id r \<noteq> cid) (clusters (sess s)) \<and>
       services (sess t) = filter (\<lambda>r. s_cluster_id r \<noteq> cid) (services (sess s)))"
proof -
  let ?d = "sess s"
  let ?svcs = "sort_key (\<lambda>x. dict_get STOP_ORDER (s_role x) 9) (services_of ?d cid)"
  obtain results u where r: "for_each (stop_one R (find_cluster ?d cid) (hosts ?d) True) ?svcs s = (Inr results, u)"
    "map r_service_id results = map s_id ?svcs" "committed u = committed s"
    "sess u = ?d\<lparr>services := fold (\<lambda>(i, g). upd_by s_id i g) (mark_list stop_mark ?svcs results) (services ?d)\<rparr>"
    using for_each_marks[OF stop_one_marks] by blast
  have keep: "s_cluster_id (g x) = s_cluster_id x \<and> s_id (g x) = s_id x" if "(i, g) \<in> set (mark_list stop_mark ?svcs results)" for i g x
    using that by (auto simp: mark_list_def stop_mark_def)
  have apart: "s_id x \<noteq> i" if x: "x \<in> set (services ?d)" "s_cluster_id x \<noteq> cid" and g: "(i, g) \<in> set (mark_list stop_mark ?svcs results)" for x i g
  proof -
    obtain y where y: "y \<in> set (services ?d)" "s_cluster_id y = cid" "i = s_id y"
      using g by (auto simp: mark_list_def services_of_def dest!: set_zip_leftD)
    then show ?thesis using x assms(2) by (auto simp: distinct_map dest!: inj_onD)
  qed
  have others: "filter (\<lambda>r. s_cluster_id r \<noteq> cid) (services (sess u)) = filter (\<lambda>r. s_cluster_id r \<noteq> cid) (services ?d)"
    by (simp add: r(4)) (rule filter_untouched, rule keep, assumption, rule apart)
  have ids: "map s_id (services (sess u)) = map s_id (services ?d)" using keep by (simp add: r(4) map_id_fold)
  have stops: "stop_services R cid True s = (Inr results, u)" by (simp add: stop_services_def bnd_run r(1))
  have gone: "List.find (\<lambda>r. c_id r = cid) (filter (\<lambda>r. c_id r \<noteq> cid) cs) = None" for cs by (simp add: find_None_iff)
  have "clusters (sess u) = clusters ?d" by (simp add: r(4))
  then show ?thesis
    using assms(1) others ids r(2)
    by (simp add: delete_cluster_def cluster_or_404_def cleanup_cluster_def bnd_run seqm_run stops commit_def upd_sess_def find_cluster_def services_of_def gone)
qed

section \<open>Quick deploy\<close>

lemma free_number_least: "cluster_number (free_number taken i) \<notin> set taken \<and> i \<le> free_number taken i \<and>
    (\<forall>j. i \<le> j \<longrightarrow> j < free_number taken i \<longrightarrow> cluster_number j \<in> set taken)"
proof (induction taken i rule: free_number.induct)
  case (1 taken i)
  show ?case
  proof (cases "cluster_number i \<in> set taken")
    case True
    then have "free_number taken i = free_number taken (Suc i)" by (subst free_number.simps) simp
    moreover have "cluster_number j \<in> set taken" if "i \<le> j" "j < free_number taken (Suc i)" for j
      using 1[OF True] True that by (cases "j = i") simp_all
    ultimately show ?thesis using 1[OF True] by simp
  next
    case False
    then have "free_number taken i = i" by (subst free_number.simps) simp
    then show ?thesis using False by simp
  qed
qed

lemma quick_name_free:
  assumes "quick_name d wanted = Inr name"
  shows "name \<notin> set (map c_name (clusters d))"
proof -
  define taken where "taken = map c_name (clusters d)"
  have "cluster_number (free_number taken 1) \<notin> set taken" using free_number_least by blast
  with assms show ?thesis
    unfolding quick_name_def Let_def taken_def[symmetric]
    by (cases "strip (or_str wanted []) = []"; cases "strip (or_str wanted []) \<in> set taken") (simp_all del: set_map)
qed

lemma all_right_Inr: "all_right xs = Inr ys \<Longrightarrow> xs = map Inr ys"
proof (induction xs arbitrary: ys)
  case (Cons x xs)
  obtain y where x: "x = Inr y" using Cons.prems by (cases x) simp_all
  obtain zs where zs: "all_right xs = Inr zs" "ys = y # zs" using Cons.prems x by (cases "all_right xs") simp_all
  show ?case using Cons.IH[OF zs(1)] x zs(2) by simp
qed simp

lemma quick_deploy_run:
  assumes "quick_deploy files cid ids tid now wanted env s = (Inr (q, b), t)"
  obtains name occupied c where "hosts (sess s) \<noteq> []" "quick_name (sess s) wanted = Inr name" "occupied_ports (sess s) = Inr occupied"
    "qr_ports q = find_free_port_set occupied (map h_id (hosts (sess s)))"
    "assign_paths_for_new_cluster (new_cluster cid now name (quick_version files) ''kraft'' (quick_config (length (hosts (sess s))) (qr_ports q))
       (lower (strip (if env = [] then ''dev'' else env)))) = Inr c"
    "qr_name q = name" "b = Deploy_Cluster cid tid" "committed t = sess t" "clusters (sess t) = clusters (sess s) @ [c]"
    "services (sess t) = services (sess s) @ new_services ids cid (quick_services (hosts (sess s)))"
    "qr_cluster_id q = cid" "qr_kafka_version q = quick_version files"
    "find_task (sess t) tid = (case find_task (sess s) tid of None \<Rightarrow> Some (new_task_row tid cid now) | Some r \<Rightarrow> Some r)"
proof -
  have find_snoc: "List.find P (xs @ [y]) = (case List.find P xs of None \<Rightarrow> if P y then Some y else None | Some z \<Rightarrow> Some z)" for P xs and y :: deployment_task
    by (induction xs) auto
  have id: "dt_id (new_task_row tid cid now) = tid" by (simp add: new_task_row_def)
  from assms show ?thesis
    by (auto simp: quick_deploy_def bnd_run seqm_run Let_def add_cluster_def add_service_rows_def upd_sess_def commit_def init_task_def
      find_task_def find_snoc id split: if_splits sum.splits intro!: that)
qed


text \<open>A port of the configuration of a cluster that has a service on one of the hosts.\<close>

definition port_taken :: "tables \<Rightarrow> int \<Rightarrow> bool" where
  "port_taken d p \<longleftrightarrow> list_ex (\<lambda>c. list_ex (\<lambda>s. s_cluster_id s = c_id c \<and> s_host_id s \<in> set (map h_id (hosts d))) (services d) \<and>
     (case ports_of_cluster c of Inl e \<Rightarrow> False | Inr ps \<Rightarrow> p \<in> set ps)) (clusters d)"

lemma used_taken:
  assumes "occupied_ports d = Inr occupied"
  shows "p \<in> set (used_on occupied (map h_id (hosts d))) \<longleftrightarrow> port_taken d p"
proof -
  obtain pss where pss: "all_right (map ports_of_cluster (clusters d)) = Inr pss"
    "occupied = (\<lambda>h. concat (map (\<lambda>(c, ps). if list_ex (\<lambda>s. s_cluster_id s = c_id c \<and> s_host_id s = h) (services d) then ps else [])
        (zip (clusters d) pss)))"
    using assms by (cases "all_right (map ports_of_cluster (clusters d))") (auto simp: occupied_ports_def)
  have each: "map ports_of_cluster (clusters d) = map Inr pss" by (rule all_right_Inr[OF pss(1)])
  then have len: "length pss = length (clusters d)" by (metis length_map)
  have at: "ports_of_cluster (clusters d ! n) = Inr (pss ! n)" if "n < length (clusters d)" for n
    using arg_cong[OF each, of "\<lambda>xs. xs ! n"] that len by simp
  have "p \<in> set (used_on occupied (map h_id (hosts d))) \<longleftrightarrow>
     (\<exists>n<length (clusters d). (\<exists>s\<in>set (services d). s_cluster_id s = c_id (clusters d ! n) \<and> s_host_id s \<in> set (map h_id (hosts d))) \<and> p \<in> set (pss ! n))"
    using len by (fastforce simp: used_on_def pss(2) list_ex_iff in_set_zip)
  also have "\<dots> \<longleftrightarrow> port_taken d p"
    using at by (fastforce simp: port_taken_def list_ex_iff in_set_conv_nth)
  finally show ?thesis .
qed

lemma assigned_same: "assign_paths_for_new_cluster c = Inr c' \<Longrightarrow> c_id c' = c_id c \<and> c_name c' = c_name c \<and> c_state c' = c_state c"
  by (auto simp: assign_paths_for_new_cluster_def sync_log_dirs_def derive_columns_def Let_def split: if_splits json.splits)

lemma enumerate_snd: "map (\<lambda>x. f (snd x)) (enumerate k xs) = map f xs"
  by (induction xs arbitrary: k) auto

lemma enumerate_fst: "map (\<lambda>x. int (fst x)) (enumerate k xs) = map int [k..<k + length xs]"
  by (induction xs arbitrary: k) (auto simp: upt_conv_Cons simp del: upt_Suc)

lemma rows_of_hosts:
  "map s_host_id (new_services ids cid (quick_services hs)) = map h_id hs"
  "map s_node_id (new_services ids cid (quick_services hs)) = map int [1..<Suc (length hs)]"
  "list_all (\<lambda>r. s_cluster_id r = cid \<and> s_role r = ''broker_controller'') (new_services ids cid (quick_services hs))"
proof -
  have "map s_host_id (new_services ids cid as) = map as_host_id as" "map s_node_id (new_services ids cid as) = map as_node_id as"
    "map s_role (new_services ids cid as) = map as_role as" "list_all (\<lambda>r. s_cluster_id r = cid) (new_services ids cid as)" for as
    unfolding new_services_def using enumerate_snd[of as_host_id 0 as] enumerate_snd[of as_node_id 0 as] enumerate_snd[of as_role 0 as]
    by (simp_all add: comp_def case_prod_beta new_service_def list_all_iff)
  note rows = this
  have "map as_host_id (quick_services hs) = map h_id hs" "map as_node_id (quick_services hs) = map int [1..<Suc (length hs)]"
    using enumerate_snd[of h_id 1 hs] enumerate_fst[of 1 hs] by (simp_all add: quick_services_def comp_def case_prod_beta del: upt_Suc)
  then show "map s_host_id (new_services ids cid (quick_services hs)) = map h_id hs"
    "map s_node_id (new_services ids cid (quick_services hs)) = map int [1..<Suc (length hs)]" using rows by simp_all
  have "list_all (\<lambda>x. x = ''broker_controller'') (map s_role (new_services ids cid (quick_services hs)))"
    unfolding rows(3) by (auto simp: quick_services_def list_all_iff)
  with rows(4)[of "quick_services hs"]
  show "list_all (\<lambda>r. s_cluster_id r = cid \<and> s_role r = ''broker_controller'') (new_services ids cid (quick_services hs))"
    by (auto simp: list_all_iff)
qed

lemma assigned_config:
  assumes "assign_paths_for_new_cluster c = Inr c'" and "c_config_json c = Some (Json (JObj cfg))"
  shows "\<exists>cfg'. c_config_json c' = Some (Json (JObj cfg')) \<and> (\<forall>k. k \<noteq> ''log_dirs'' \<longrightarrow> map_of cfg' k = map_of cfg k) \<and>
    c_kafka_version c' = c_kafka_version c"
  using assms
  by (auto simp: assign_paths_for_new_cluster_def sync_log_dirs_def derive_columns_def Let_def load_config_def update_conv' split: if_splits json.splits)

lemma candidate_chosen: "\<exists>i. find_free_port_set occupied hs = candidate_set i"
  by (auto simp: find_free_port_set_def Let_def split: option.split)

lemma quick_cluster_config:
  assumes "assign_paths_for_new_cluster (new_cluster cid now name version mode (quick_config n (candidate_set i)) env) = Inr c"
  shows "\<exists>cfg. c_config_json c = Some (Json (JObj cfg)) \<and> map_of cfg ''replication_factor'' = Some (JInt (min 3 (int n))) \<and>
    map_of cfg ''listener_port'' = Some (JInt (ps_listener (candidate_set i))) \<and>
    map_of cfg ''controller_port'' = Some (JInt (ps_controller (candidate_set i))) \<and>
    map_of cfg ''ssl_listener_port'' = Some (JInt (ps_ssl (candidate_set i))) \<and>
    c_kafka_version c = version \<and> ports_of_cluster c = Inr (ports_of (candidate_set i))"
proof -
  have "c_config_json (new_cluster cid now name version mode (quick_config n (candidate_set i)) env) = Some (Json (JObj (quick_config n (candidate_set i))))"
    by (simp add: new_cluster_def)
  from assigned_config[OF assms this] obtain cfg where cfg: "c_config_json c = Some (Json (JObj cfg))"
    and same: "\<And>k. k \<noteq> ''log_dirs'' \<Longrightarrow> map_of cfg k = map_of (quick_config n (candidate_set i)) k"
    and v: "c_kafka_version c = version" by (auto simp: new_cluster_def)
  have keys: "map_of cfg ''replication_factor'' = Some (JInt (min 3 (int n)))"
    "map_of cfg ''listener_port'' = Some (JInt (ps_listener (candidate_set i)))"
    "map_of cfg ''controller_port'' = Some (JInt (ps_controller (candidate_set i)))"
    "map_of cfg ''ssl_listener_port'' = Some (JInt (ps_ssl (candidate_set i)))"
    "map_of cfg ''schema_registry_port'' = None" "map_of cfg ''ksqldb_port'' = None" "map_of cfg ''connect_rest_port'' = None"
    by (simp_all add: same quick_config_def)
  have "ports_of_cluster c = Inr (ports_of (candidate_set i))"
    unfolding ports_of_cluster_def cfg
    by (simp add: strict_config_def PORT_KEYS_def int_or_zero_def jget_def jget_default_def keys ports_of_def candidate_set_def truthy.simps)
  with cfg keys v show ?thesis by blast
qed

text \<open>
  Claim C16.  A quick deployment creates and commits one cluster with a name that no other cluster has, with one combined broker and controller on every host,
  numbered from 1, and puts its deployment in the background.  The ports of the reply are those in the committed configuration of the
  cluster, and all that the next deployment counts as its ports; the replication factor in it is the number of hosts, but at most three.
  If one of the ten port sets is not touched by the configuration of any cluster with a service on a host, the new cluster gets such
  a set, and otherwise the first one.
\<close>

theorem quick_deploy_fresh:
  assumes "quick_deploy files cid ids tid now wanted env s = (Inr (q, b), t)"
  shows "b = Deploy_Cluster cid tid \<and> committed t = sess t \<and> qr_name q \<notin> set (map c_name (clusters (sess s))) \<and>
    (\<exists>c cfg. clusters (sess t) = clusters (sess s) @ [c] \<and> c_id c = cid \<and> qr_cluster_id q = cid \<and> c_name c = qr_name q \<and>
       c_state c = ''configured'' \<and> c_kafka_version c = qr_kafka_version q \<and> c_config_json c = Some (Json (JObj cfg)) \<and>
       map_of cfg ''listener_port'' = Some (JInt (ps_listener (qr_ports q))) \<and>
       map_of cfg ''controller_port'' = Some (JInt (ps_controller (qr_ports q))) \<and>
       map_of cfg ''ssl_listener_port'' = Some (JInt (ps_ssl (qr_ports q))) \<and>
       map_of cfg ''replication_factor'' = Some (JInt (min 3 (int (length (hosts (sess s)))))) \<and>
       ports_of_cluster c = Inr (ports_of (qr_ports q))) \<and>
    (\<exists>rows. services (sess t) = services (sess s) @ rows \<and> map s_host_id rows = map h_id (hosts (sess s)) \<and>
       map s_node_id rows = map int [1..<Suc (length (hosts (sess s)))] \<and>
       list_all (\<lambda>r. s_cluster_id r = cid \<and> s_role r = ''broker_controller'') rows) \<and>
    (if list_ex (\<lambda>i. list_all (\<lambda>p. \<not> port_taken (sess s) p) (ports_of (candidate_set i))) [0..<10]
     then list_all (\<lambda>p. \<not> port_taken (sess s) p) (ports_of (qr_ports q)) else qr_ports q = candidate_set 0)"
proof -
  obtain name occupied c where run: "quick_name (sess s) wanted = Inr name" "occupied_ports (sess s) = Inr occupied"
    "qr_ports q = find_free_port_set occupied (map h_id (hosts (sess s)))"
    "assign_paths_for_new_cluster (new_cluster cid now name (quick_version files) ''kraft'' (quick_config (length (hosts (sess s))) (qr_ports q))
       (lower (strip (if env = [] then ''dev'' else env)))) = Inr c"
    "qr_name q = name" "b = Deploy_Cluster cid tid" "committed t = sess t" "clusters (sess t) = clusters (sess s) @ [c]"
    "services (sess t) = services (sess s) @ new_services ids cid (quick_services (hosts (sess s)))"
    "qr_cluster_id q = cid" "qr_kafka_version q = quick_version files"
    by (rule quick_deploy_run[OF assms])
  obtain i where i: "qr_ports q = candidate_set i" using candidate_chosen run(3) by metis
  obtain cfg where cfg: "c_config_json c = Some (Json (JObj cfg)) \<and> map_of cfg ''replication_factor'' = Some (JInt (min 3 (int (length (hosts (sess s)))))) \<and>
    map_of cfg ''listener_port'' = Some (JInt (ps_listener (qr_ports q))) \<and>
    map_of cfg ''controller_port'' = Some (JInt (ps_controller (qr_ports q))) \<and>
    map_of cfg ''ssl_listener_port'' = Some (JInt (ps_ssl (qr_ports q))) \<and>
    c_kafka_version c = quick_version files \<and> ports_of_cluster c = Inr (ports_of (qr_ports q))"
    using quick_cluster_config[OF run(4)[unfolded i]] unfolding i by blast
  have c: "c_id c = cid" "c_name c = name" "c_state c = ''configured''" using assigned_same[OF run(4)] by (simp_all add: new_cluster_def)
  let ?rows = "new_services ids cid (quick_services (hosts (sess s)))"
  have rows: "map s_host_id ?rows = map h_id (hosts (sess s))" "map s_node_id ?rows = map int [1..<Suc (length (hosts (sess s)))]"
    "list_all (\<lambda>r. s_cluster_id r = cid \<and> s_role r = ''broker_controller'') ?rows"
    by (simp_all only: rows_of_hosts)
  have hit: "list_ex (\<lambda>p. p \<in> set (used_on occupied (map h_id (hosts (sess s))))) ps \<longleftrightarrow> \<not> list_all (\<lambda>p. \<not> port_taken (sess s) p) ps" for ps
    using used_taken[OF run(2)] by (auto simp: list_ex_iff list_all_iff)
  have ports: "if list_ex (\<lambda>i. list_all (\<lambda>p. \<not> port_taken (sess s) p) (ports_of (candidate_set i))) [0..<10]
     then list_all (\<lambda>p. \<not> port_taken (sess s) p) (ports_of (qr_ports q)) else qr_ports q = candidate_set 0"
  proof (cases "List.find (\<lambda>i. \<not> list_ex (\<lambda>p. p \<in> set (used_on occupied (map h_id (hosts (sess s))))) (ports_of (candidate_set i))) [0..<10]")
    case None
    have "qr_ports q = candidate_set 0" using run(3) unfolding find_free_port_set_def Let_def None by simp
    moreover have "\<not> list_ex (\<lambda>i. list_all (\<lambda>p. \<not> port_taken (sess s) p) (ports_of (candidate_set i))) [0..<10]"
      using None by (simp add: hit find_upt_None list_ex_iff)
    ultimately show ?thesis by simp
  next
    case (Some i)
    note found = find_upt_Some[OF Some]
    have "qr_ports q = candidate_set i" using Some run(3) by (simp add: find_free_port_set_def)
    then show ?thesis using found by (auto simp: hit list_ex_iff)
  qed
  show ?thesis using run(5-11) c cfg rows ports quick_name_free[OF run(1)] by (intro conjI exI[of _ c] exI[of _ cfg] exI[of _ ?rows]) simp_all
qed

text \<open>Two hosts, one with a cluster at the first port set.\<close>

definition quick_tables :: tables where
  "quick_tables = empty_tables\<lparr>hosts := [silent_host, silent_host\<lparr>h_id := ''h2''\<rparr>],
     clusters := [new_cluster ''c1'' 0 ''cluster-1'' ''4.1.0'' ''kraft'' [(''listener_port'', JInt 9092)] ''dev''],
     services := [new_service ''c1'' ''s1'' \<lparr>as_host_id = ''h1'', as_role = ''broker'', as_node_id = 1\<rparr>]\<rparr>"

definition quick_sys :: "unit sys" where
  "quick_sys = \<lparr>sess = quick_tables, committed = quick_tables, tasks = no_tasks, wld = ()\<rparr>"

definition quick_run :: "(exn + (quick_result \<times> background)) \<times> unit sys" where
  "quick_run = quick_deploy [''kafka_2.13-3.9.1.tgz'', ''kafka_2.13-4.1.0.tgz'', ''README''] ''c2'' (\<lambda>n. ''s'' @ show_int (int n)) ''t1'' 7 None [] quick_sys"

theorem quick_deploy_fresh_witness:
  "\<exists>q b t. quick_run = (Inr (q, b), t) \<and> qr_name q = ''cluster-2'' \<and> qr_kafka_version q = ''4.1.0'' \<and> qr_ports q = candidate_set 1 \<and>
    b = Deploy_Cluster ''c2'' ''t1'' \<and> committed t = sess t \<and> (\<exists>c. c \<in> set (clusters (sess t)) \<and> ports_of_cluster c = Inr [9192, 9193, 9196])"
proof -
  have f: "fst quick_run = Inr (\<lparr>qr_cluster_id = ''c2'', qr_name = ''cluster-2'', qr_task_id = ''t1'', qr_kafka_version = ''4.1.0'',
     qr_broker_count = 2, qr_ports = candidate_set 1\<rparr>, Deploy_Cluster ''c2'' ''t1'')" by code_simp
  obtain t where run: "quick_run = (Inr (\<lparr>qr_cluster_id = ''c2'', qr_name = ''cluster-2'', qr_task_id = ''t1'', qr_kafka_version = ''4.1.0'',
     qr_broker_count = 2, qr_ports = candidate_set 1\<rparr>, Deploy_Cluster ''c2'' ''t1''), t)" using f by (metis prod.collapse)
  have ports: "ports_of (candidate_set (Suc 0)) = [9192, 9193, 9196]" by code_simp
  from quick_deploy_fresh[OF run[unfolded quick_run_def]]
  have "committed t = sess t" "\<exists>c. c \<in> set (clusters (sess t)) \<and> ports_of_cluster c = Inr [9192, 9193, 9196]"
    by (auto simp: ports)
  with run show ?thesis by force
qed


section \<open>Examples\<close>

text \<open>Two brokers whose host was removed: one of them can be removed, the cluster cannot be deleted any more.\<close>

definition orphan_tables :: tables where
  "orphan_tables = empty_tables\<lparr>clusters := [new_cluster ''c1'' 0 ''one'' ''4.1.0'' ''kraft'' [(''replication_factor'', JInt 1)] ''dev''],
     services := [new_service ''c1'' ''s1'' \<lparr>as_host_id = ''h9'', as_role = ''broker_controller'', as_node_id = 1\<rparr>,
       new_service ''c1'' ''s2'' \<lparr>as_host_id = ''h9'', as_role = ''broker_controller'', as_node_id = 2\<rparr>]\<rparr>"

definition orphan_sys :: "unit sys" where
  "orphan_sys = \<lparr>sess = orphan_tables, committed = orphan_tables, tasks = no_tasks, wld = ()\<rparr>"

lemma orphan_facts: "find_cluster (sess orphan_sys) ''c1'' = Some (hd (clusters orphan_tables))" "committed orphan_sys = sess orphan_sys"
  "distinct (map s_id (services (sess orphan_sys)))" "map s_id (services orphan_tables) = [''s1'', ''s2'']"
  by code_simp+

theorem removal_guarded_witness:
  "map s_id (services (committed (snd (remove_service silent_remote ''c1'' ''s1'' False orphan_sys)))) = [''s2'']"
proof -
  have "fst (remove_service silent_remote ''c1'' ''s1'' False orphan_sys) = Inr (hd (services orphan_tables))" by code_simp
  then obtain t where run: "remove_service silent_remote ''c1'' ''s1'' False orphan_sys = (Inr (hd (services orphan_tables)), t)" by (metis prod.collapse)
  have "map s_id (filter (\<lambda>x. s_id x \<noteq> ''s1'') (services (committed orphan_sys))) = [''s2'']" by code_simp
  with removal_guarded[OF orphan_facts(1,2), where R = silent_remote and sid = "''s1''"] show ?thesis
    unfolding run prod.case sum.case Let_def snd_conv by (elim conjE) simp
qed

theorem delete_cluster_outcome_witness:
  "fst (delete_cluster silent_remote ''c1'' orphan_sys) = Inl (HTTPException 409 failure_msg) \<and>
   map s_id (services (sess (snd (delete_cluster silent_remote ''c1'' orphan_sys)))) = [''s1'', ''s2'']"
proof -
  have "isl (fst (delete_cluster silent_remote ''c1'' orphan_sys))" by code_simp
  moreover have "map s_id (services (sess orphan_sys)) = [''s1'', ''s2'']" by code_simp
  ultimately show ?thesis using delete_cluster_outcome[OF orphan_facts(1,3), of silent_remote]
    by (cases "delete_cluster silent_remote ''c1'' orphan_sys"; cases "stop_services silent_remote ''c1'' True orphan_sys") (simp only: fst_conv snd_conv prod.case if_True)
qed

text \<open>Nothing marks a cluster before its deployment starts in the background, so a second request is accepted as well.\<close>

lemma second_deployment_accepted:
  "fst (bnd (start_deployment dumps t1 now ''c1'') (\<lambda>_. start_deployment dumps t2 now ''c1'') orphan_sys) = Inr (Deploy_Cluster ''c1'' t2)"
proof -
  have "find_cluster (sess orphan_sys) ''c1'' = Some (hd (clusters orphan_tables))" "c_kind (hd (clusters orphan_tables)) \<noteq> Some ''external''"
    "c_state (hd (clusters orphan_tables)) \<noteq> ''deploying''"
    "config_dict (hd (clusters orphan_tables)) = Inr [(''replication_factor'', JInt 1)]" "\<not> truthy (jget [(''replication_factor'', JInt 1)] ''_initial_acls'')"
    by code_simp+
  then show ?thesis
    by (simp add: start_deployment_def cluster_or_404_def bnd_run seqm_run refuse_if_def init_task_def move_acls_def Let_def find_cluster_def)
qed

end
