(* ===== verification/Local_Files.thy ===== *)
theory Local_Files
  imports Models "HOL-Library.Char_ord" "HOL-Library.List_Lexorder"
begin

text \<open>
  The file system of the host the backend runs on, as \<open>pathlib\<close> and \<open>shutil\<close> show it: what certificates, workspaces of Ansible and
  downloaded binaries are kept in.  A path is the list of its components below the root, where \<open>..\<close> may occur; there are no symbolic
  links, and modes are left out.  \<open>disk\<close> places the files in the outside world and says which operations fail there.  Shown: what
  each operation does to the files below and beside a path.
\<close>

section \<open>Paths\<close>

type_synonym path = "string list"

datatype node = Dir | File string

type_synonym files = "(path \<times> node) list"

definition components :: "string \<Rightarrow> path" where
  "components s = filter (\<lambda>c. c \<noteq> [] \<and> c \<noteq> ''.'') (split_on CHR ''/'' s)"

text \<open>\<open>p / s\<close>: an absolute \<open>s\<close> replaces \<open>p\<close>.\<close>

definition path_div :: "path \<Rightarrow> string \<Rightarrow> path" where
  "path_div p s = (if starts_with s ''/'' then components s else p @ components s)"

definition path_str :: "path \<Rightarrow> string" where
  "path_str p = ''/'' @ join ''/'' p"

abbreviation up :: string where "up \<equiv> ''..''"

definition is_dir :: "files \<Rightarrow> path \<Rightarrow> bool" where
  "is_dir fs p \<longleftrightarrow> p = [] \<or> map_of fs p = Some Dir"

text \<open>The place a path leads to: every component but the last one has to be a directory.\<close>

fun walk :: "files \<Rightarrow> path \<Rightarrow> path \<Rightarrow> path option" where
  "walk fs acc [] = Some acc"
| "walk fs acc (c # cs) =
     (if c = up then walk fs (butlast acc) cs
      else if cs = [] then Some (acc @ [c])
      else if is_dir fs (acc @ [c]) then walk fs (acc @ [c]) cs else None)"

definition resolve :: "files \<Rightarrow> path \<Rightarrow> path option" where
  "resolve fs p = walk fs [] p"

definition path_exists :: "files \<Rightarrow> path \<Rightarrow> bool" where
  "path_exists fs p \<longleftrightarrow> (case resolve fs p of None \<Rightarrow> False | Some q \<Rightarrow> q = [] \<or> map_of fs q \<noteq> None)"

section \<open>Operations\<close>

definition missing :: "path \<Rightarrow> exn" where
  "missing p = Exn ''FileNotFoundError'' (''[Errno 2] No such file or directory: '' @ sq @ path_str p @ sq)"

definition is_a_directory :: "path \<Rightarrow> exn" where
  "is_a_directory p = Exn ''IsADirectoryError'' (''[Errno 21] Is a directory: '' @ sq @ path_str p @ sq)"

definition file_exists :: "path \<Rightarrow> exn" where
  "file_exists p = Exn ''FileExistsError'' (''[Errno 17] File exists: '' @ sq @ path_str p @ sq)"

definition read_file :: "path \<Rightarrow> (files, string) io" where
  "read_file p = (\<lambda>fs. (case resolve fs p of
       None \<Rightarrow> Inl (missing p)
     | Some q \<Rightarrow> (case map_of fs q of Some (File c) \<Rightarrow> Inr c | Some Dir \<Rightarrow> Inl (is_a_directory p)
         | None \<Rightarrow> Inl (if q = [] then is_a_directory p else missing p)), fs))"

definition write_file :: "path \<Rightarrow> string \<Rightarrow> (files, unit) io" where
  "write_file p c = (\<lambda>fs. case resolve fs p of
       None \<Rightarrow> (Inl (missing p), fs)
     | Some q \<Rightarrow> if is_dir fs q then (Inl (is_a_directory p), fs) else (Inr (), AList.update q (File c) fs))"

text \<open>\<open>mkdir(parents=True, exist_ok=True)\<close> of \<open>p @ cs\<close>, where \<open>p\<close> is there.\<close>

fun make_dirs :: "path \<Rightarrow> path \<Rightarrow> (files, unit) io" where
  "make_dirs p [] fs = (Inr (), fs)"
| "make_dirs p (c # cs) fs =
     (case resolve fs (p @ [c]) of
        None \<Rightarrow> (Inl (missing (p @ [c])), fs)
      | Some q \<Rightarrow>
          if is_dir fs q then make_dirs (p @ [c]) cs fs
          else if map_of fs q \<noteq> None then (Inl (file_exists (p @ [c])), fs)
          else make_dirs (p @ [c]) cs (AList.update q Dir fs))"

definition make_dir :: "path \<Rightarrow> (files, unit) io" where
  "make_dir p = make_dirs [] p"

definition remove_file :: "path \<Rightarrow> (files, unit) io" where
  "remove_file p = (\<lambda>fs. case resolve fs p of
       None \<Rightarrow> (Inl (missing p), fs)
     | Some q \<Rightarrow> (case map_of fs q of Some (File c) \<Rightarrow> (Inr (), AList.delete q fs) | _ \<Rightarrow> (Inl (missing p), fs)))"

definition below :: "path \<Rightarrow> path \<Rightarrow> bool" where
  "below d p \<longleftrightarrow> length d < length p \<and> take (length d) p = d"

text \<open>\<open>shutil.rmtree\<close> empties the directory first; the directory itself goes by the name it was given, which no longer leads there when it ends in \<open>..\<close>.\<close>

definition remove_tree :: "path \<Rightarrow> (files, unit) io" where
  "remove_tree p = (\<lambda>fs. case resolve fs p of
       None \<Rightarrow> (Inl (missing p), fs)
     | Some d \<Rightarrow>
         if d \<noteq> [] \<and> map_of fs d = None then (Inl (missing p), fs)
         else if \<not> is_dir fs d then (Inl (Exn ''NotADirectoryError'' (''[Errno 20] Not a directory: '' @ sq @ path_str p @ sq)), fs)
         else let emptied = filter (\<lambda>(q, _). \<not> below d q) fs in
           if p = [] \<or> last p = up then (Inl (missing p), emptied) else (Inr (), AList.delete d emptied))"

text \<open>The names in a directory.\<close>

definition dir_names :: "files \<Rightarrow> path \<Rightarrow> string list" where
  "dir_names fs d = map last (filter (\<lambda>p. p \<noteq> [] \<and> butlast p = d) (map fst fs))"

definition list_names :: "files \<Rightarrow> path \<Rightarrow> string list" where
  "list_names fs p = (case resolve fs p of None \<Rightarrow> [] | Some d \<Rightarrow> if is_dir fs d then dir_names fs d else [])"

definition file_size :: "files \<Rightarrow> path \<Rightarrow> int option" where
  "file_size fs p = (case resolve fs p of None \<Rightarrow> None
     | Some q \<Rightarrow> (case map_of fs q of Some (File c) \<Rightarrow> Some (int (length c)) | Some Dir \<Rightarrow> Some 4096 | None \<Rightarrow> None))"

section \<open>The disk of the host\<close>

record 'w disk =
  dk_files :: "'w \<Rightarrow> files"
  dk_set :: "files \<Rightarrow> 'w \<Rightarrow> 'w"
  dk_fault :: "string \<Rightarrow> path \<Rightarrow> 'w \<Rightarrow> exn option"

definition on_disk :: "'w disk \<Rightarrow> string \<Rightarrow> path \<Rightarrow> (files, 'a) io \<Rightarrow> ('w sys, 'a) io" where
  "on_disk D name p m = on_wld (\<lambda>w. case dk_fault D name p w of
       Some e \<Rightarrow> (Inl e, w)
     | None \<Rightarrow> (case m (dk_files D w) of (r, fs) \<Rightarrow> (r, dk_set D fs w)))"

definition on_files :: "'w disk \<Rightarrow> 'w sys \<Rightarrow> files" where
  "on_files D s = dk_files D (wld s)"

definition exists_at :: "'w disk \<Rightarrow> path \<Rightarrow> ('w sys, bool) io" where
  "exists_at D p = asks (\<lambda>s. path_exists (on_files D s) p)"

definition read_at :: "'w disk \<Rightarrow> path \<Rightarrow> ('w sys, string) io" where
  "read_at D p = on_disk D ''read'' p (read_file p)"

definition write_at :: "'w disk \<Rightarrow> path \<Rightarrow> string \<Rightarrow> ('w sys, unit) io" where
  "write_at D p c = on_disk D ''write'' p (write_file p c)"

definition mkdir_at :: "'w disk \<Rightarrow> path \<Rightarrow> ('w sys, unit) io" where
  "mkdir_at D p = on_disk D ''mkdir'' p (make_dir p)"

definition rmtree_at :: "'w disk \<Rightarrow> path \<Rightarrow> ('w sys, unit) io" where
  "rmtree_at D p = on_disk D ''rmtree'' p (remove_tree p)"

definition unlink_at :: "'w disk \<Rightarrow> path \<Rightarrow> ('w sys, unit) io" where
  "unlink_at D p = on_disk D ''unlink'' p (remove_file p)"

definition names_at :: "'w disk \<Rightarrow> path \<Rightarrow> ('w sys, string list) io" where
  "names_at D p = asks (\<lambda>s. list_names (on_files D s) p)"

definition size_at :: "'w disk \<Rightarrow> path \<Rightarrow> ('w sys, int option) io" where
  "size_at D p = asks (\<lambda>s. file_size (on_files D s) p)"

text \<open>A host with nothing but files on which no operation fails, and what is asked of a disk: that it holds
  what was written and does not fail.\<close>

definition plain_disk :: "files disk" where
  "plain_disk = \<lparr>dk_files = (\<lambda>fs. fs), dk_set = (\<lambda>fs _. fs), dk_fault = (\<lambda>_ _ _. None)\<rparr>"

definition disk_ok :: "'w disk \<Rightarrow> bool" where
  "disk_ok D \<longleftrightarrow> (\<forall>fs w. dk_files D (dk_set D fs w) = fs) \<and> (\<forall>name p w. dk_fault D name p w = None)"

lemma world_disk: "world_only (on_disk D name p m)" "world_only (exists_at D p)" "world_only (read_at D p)" "world_only (write_at D p c)"
  "world_only (mkdir_at D p)" "world_only (rmtree_at D p)" "world_only (unlink_at D p)" "world_only (names_at D p)" "world_only (size_at D p)"
  unfolding on_disk_def exists_at_def read_at_def write_at_def mkdir_at_def rmtree_at_def unlink_at_def names_at_def size_at_def
  by (intro world_steps)+

section \<open>Plain paths\<close>

text \<open>Without \<open>..\<close>, and with its directories there, a path leads to where it says.\<close>

definition parents_there :: "files \<Rightarrow> path \<Rightarrow> bool" where
  "parents_there fs p \<longleftrightarrow> (\<forall>n < length p. is_dir fs (take n p))"

lemma walk_plain: "up \<notin> set cs \<Longrightarrow> \<forall>n. n < length cs \<longrightarrow> is_dir fs (acc @ take n cs) \<Longrightarrow> walk fs acc cs = Some (acc @ cs)"
proof (induction cs arbitrary: acc)
  case (Cons c cs)
  have "is_dir fs ((acc @ [c]) @ take n cs)" if "n < length cs" for n
    using Cons.prems(2)[rule_format, of "Suc n"] that by simp
  then have rest: "walk fs (acc @ [c]) cs = Some ((acc @ [c]) @ cs)" using Cons by simp
  show ?case
  proof (cases "cs = []")
    case False
    then have "is_dir fs (acc @ [c])" using Cons.prems(2)[rule_format, of 1] by (cases cs) auto
    with rest Cons.prems(1) show ?thesis by auto
  qed (use Cons.prems(1) in auto)
qed simp

lemma resolve_plain: "up \<notin> set p \<Longrightarrow> parents_there fs p \<Longrightarrow> resolve fs p = Some p"
  unfolding resolve_def parents_there_def using walk_plain[of p fs "[]"] by simp

lemma on_disk_run: "disk_ok D \<Longrightarrow> on_disk D name p m s =
    (fst (m (on_files D s)), s\<lparr>wld := dk_set D (snd (m (on_files D s))) (wld s)\<rparr>)"
  by (simp add: disk_ok_def on_disk_def on_wld_def on_files_def split: prod.splits)

lemma on_files_set: "disk_ok D \<Longrightarrow> on_files D (s\<lparr>wld := dk_set D fs w\<rparr>) = fs"
  by (simp add: disk_ok_def on_files_def)

lemma parents_prefix: "parents_there fs (p @ q) \<Longrightarrow> parents_there fs p"
  unfolding parents_there_def
proof (intro allI impI)
  fix n assume all: "\<forall>n < length (p @ q). is_dir fs (take n (p @ q))" and n: "n < length p"
  from all[rule_format, of n] n show "is_dir fs (take n p)" by simp
qed

text \<open>Directories that are there are left alone.\<close>

lemma make_dirs_there: "up \<notin> set (p @ cs) \<Longrightarrow> \<forall>n \<le> length cs. is_dir fs (p @ take n cs) \<Longrightarrow> parents_there fs p \<Longrightarrow>
    make_dirs p cs fs = (Inr (), fs)"
proof (induction cs arbitrary: p)
  case (Cons c cs)
  have p: "is_dir fs p" and pc: "is_dir fs (p @ [c])" using Cons.prems(2)[rule_format, of 0] Cons.prems(2)[rule_format, of 1] by auto
  have there: "parents_there fs (p @ [c])"
    using Cons.prems(3) p unfolding parents_there_def by (auto simp: less_Suc_eq)
  have "resolve fs (p @ [c]) = Some (p @ [c])" using Cons.prems(1) there by (intro resolve_plain) auto
  moreover have "make_dirs (p @ [c]) cs fs = (Inr (), fs)"
  proof (rule Cons.IH)
    show "\<forall>n \<le> length cs. is_dir fs ((p @ [c]) @ take n cs)" using Cons.prems(2) by (metis Suc_le_mono append.assoc append_Cons append_Nil length_Cons take_Suc_Cons)
  qed (use Cons.prems(1) there in auto)
  ultimately show ?case using pc by simp
qed simp

lemma make_dir_there: "up \<notin> set p \<Longrightarrow> parents_there fs p \<Longrightarrow> is_dir fs p \<Longrightarrow> make_dir p fs = (Inr (), fs)"
  unfolding make_dir_def by (rule make_dirs_there) (auto simp: parents_there_def is_dir_def le_less)

lemma map_of_emptied: "map_of (filter (\<lambda>(q, _). \<not> below d q) fs) p = (if below d p then None else map_of fs p)"
  by (induction fs) auto

text \<open>A tree that is removed takes everything below it and nothing beside it.\<close>

lemma remove_tree_run:
  assumes "resolve fs p = Some d" and "is_dir fs d" and "p \<noteq> []"
  shows "(fst (remove_tree p fs) = (if last p = up then Inl (missing p) else Inr ())) \<and>
     map_of (snd (remove_tree p fs)) q = (if below d q \<or> (last p \<noteq> up \<and> q = d) then None else map_of fs q)"
  using assms by (auto simp: remove_tree_def is_dir_def delete_conv' map_of_emptied)

lemma read_file_run: "up \<notin> set p \<Longrightarrow> parents_there fs p \<Longrightarrow> map_of fs p = Some (File c) \<Longrightarrow> read_file p fs = (Inr c, fs)"
  by (simp add: read_file_def resolve_plain)

lemma write_file_run: "up \<notin> set p \<Longrightarrow> parents_there fs p \<Longrightarrow> \<not> is_dir fs p \<Longrightarrow> write_file p c fs = (Inr (), AList.update p (File c) fs)"
  by (simp add: write_file_def resolve_plain)

end
