(* ===== verification/Certificates.thy ===== *)
theory Certificates
  imports Kafka_Admin Monitoring Local_Files
begin

text \<open>
  Certificates of managed clusters: \<open>services/cert_manager.py\<close>, \<open>api/security_tls.py\<close> and the two certificate routes of
  \<open>api/security.py\<close>.  Certificates and keys are their PEM texts; what the \<open>cryptography\<close> library does with them is the parameter
  \<open>pki\<close>.  Shown: which files the removal of a client certificate takes away, what a broker without a certificate is issued, and that a
  broker that has one keeps it when the authority of the cluster is replaced.
\<close>

section \<open>The library\<close>

text \<open>What the program reads of a certificate; \<open>ci_pem\<close> is the certificate encoded again.\<close>

record cert_info =
  ci_pem :: string
  ci_subject :: string
  ci_fingerprint :: string
  ci_not_before :: string
  ci_not_after :: string
  ci_serial :: int

datatype san = Dns_Name string | Ip_Address string

text \<open>The fields the program gives to a certificate builder; times are minutes from now.\<close>

record cert_request =
  cq_common_name :: string
  cq_authority :: bool
  cq_sans :: "san list option"
  cq_not_before :: int
  cq_not_after :: int
  cq_path_length :: "int option"
  cq_server :: bool
  cq_key_bits :: int

text \<open>
  \<open>pk_self\<close> makes a key and a certificate signed with it, \<open>pk_issue\<close> a key and a certificate signed with the key of an authority; the
  result is the certificate and the key.  \<open>pk_read\<close> and \<open>pk_read_key\<close> parse, \<open>pk_bundle\<close> makes a PKCS12 file.
\<close>

record 'w pki =
  pk_self :: "cert_request \<Rightarrow> ('w, string \<times> string) io"
  pk_issue :: "string \<Rightarrow> string \<Rightarrow> cert_request \<Rightarrow> ('w, string \<times> string) io"
  pk_read :: "string \<Rightarrow> exn + cert_info"
  pk_read_key :: "string \<Rightarrow> exn + unit"
  pk_bundle :: "string \<Rightarrow> string \<Rightarrow> string \<Rightarrow> string \<Rightarrow> string \<Rightarrow> exn + string"
  pk_token :: "('w, string) io"
  pk_encrypt :: "string \<Rightarrow> string"
  pk_decrypt :: "string \<Rightarrow> exn + string"
  pk_now :: "'w \<Rightarrow> string"
  pk_after :: "int \<Rightarrow> 'w \<Rightarrow> string"

section \<open>Files of a cluster\<close>

definition certs_base :: "settings \<Rightarrow> path" where
  "certs_base cfg = components (CERTS_DIR cfg)"

definition cluster_dir :: "'w disk \<Rightarrow> settings \<Rightarrow> string \<Rightarrow> ('w sys, path) io" where
  "cluster_dir D cfg cid = (let p = path_div (certs_base cfg) cid in seqm (mkdir_at D p) (ret p))"

definition next_serial :: "'w disk \<Rightarrow> settings \<Rightarrow> string \<Rightarrow> ('w sys, int) io" where
  "next_serial D cfg cid =
     bnd (cluster_dir D cfg cid) (\<lambda>dir. let serial_file = dir @ [''serial.txt''] in
     bnd (exists_at D serial_file) (\<lambda>there.
     bnd (if there then bnd (read_at D serial_file) (\<lambda>t. bnd (lift (py_int (JStr (strip t)))) (\<lambda>n. ret (n + 1))) else ret 1) (\<lambda>n.
     seqm (write_at D serial_file (show_int n)) (ret n))))"

definition write_secure :: "'w disk \<Rightarrow> path \<Rightarrow> string \<Rightarrow> ('w sys, unit) io" where
  "write_secure D p text = seqm (write_at D p text) (on_disk D ''chmod'' p (ret ()))"

section \<open>The authority\<close>

record ca_state =
  cs_present :: bool
  cs_info :: "(exn + cert_info) option"
  cs_uploaded :: bool

text \<open>\<open>"broker-*.p12"\<close>.\<close>

definition broker_p12 :: "string \<Rightarrow> bool" where
  "broker_p12 n \<longleftrightarrow> 11 \<le> length n \<and> starts_with n ''broker-'' \<and> ends_with n ''.p12''"

definition list_cluster_certificates :: "'w disk \<Rightarrow> settings \<Rightarrow> 'w pki \<Rightarrow> cluster \<Rightarrow> ('w sys, ca_state \<times> (string \<times> int) list) io" where
  "list_cluster_certificates D cfg K c =
     bnd (cluster_dir D cfg (c_id c)) (\<lambda>cdir.
     bnd (exists_at D (cdir @ [''ca.crt''])) (\<lambda>there.
     bnd (if \<not> there then ret \<lparr>cs_present = False, cs_info = None, cs_uploaded = False\<rparr>
          else bnd (attempt (bnd (read_at D (cdir @ [''ca.crt''])) (\<lambda>pem. lift (pk_read K pem)))) (\<lambda>info.
               bnd (exists_at D (cdir @ [''ca.upload.marker''])) (\<lambda>marked.
               ret \<lparr>cs_present = True, cs_info = Some info, cs_uploaded = marked\<rparr>))) (\<lambda>ca.
     bnd (names_at D cdir) (\<lambda>names.
     bnd (for_each (\<lambda>n. bnd (size_at D (cdir @ [n])) (\<lambda>size. case size of None \<Rightarrow> raise (missing (cdir @ [n])) | Some b \<Rightarrow> ret (n, b)))
            (filter broker_p12 names)) (\<lambda>rows.
     ret (ca, rows))))))"

definition or_invalid :: "string \<Rightarrow> exn + 'a \<Rightarrow> exn + 'a" where
  "or_invalid what r = (case r of Inl e \<Rightarrow> Inl (ValueError (what @ exn_str e)) | Inr x \<Rightarrow> Inr x)"

definition upload_cluster_ca :: "'w disk \<Rightarrow> settings \<Rightarrow> 'w pki \<Rightarrow> cluster \<Rightarrow> string \<Rightarrow> string option \<Rightarrow> ('w sys, string \<times> bool) io" where
  "upload_cluster_ca D cfg K c ca_cert_pem ca_key_pem =
     bnd (lift (or_invalid ''Invalid CA certificate PEM: '' (pk_read K ca_cert_pem))) (\<lambda>cert.
     seqm (if str_true ca_key_pem then lift (or_invalid ''Invalid CA private key PEM: '' (pk_read_key K (the ca_key_pem))) else ret ())
    (bnd (cluster_dir D cfg (c_id c)) (\<lambda>cdir.
     seqm (write_at D (cdir @ [''ca.crt'']) ca_cert_pem)
    (seqm (if str_true ca_key_pem then write_secure D (cdir @ [''ca.key'']) (the ca_key_pem) else ret ())
    (seqm (write_at D (cdir @ [''ca.upload.marker'']) (''uploaded by user; subject='' @ ci_subject cert @ nl))
    (ret (ci_subject cert, str_true ca_key_pem)))))))"

definition day :: int where "day = 1440"

definition ca_request :: "cluster \<Rightarrow> cert_request" where
  "ca_request c = \<lparr>cq_common_name = ''Tantor CA '' @ [CHR 0xC2, CHR 0xB7] @ '' '' @ c_name c, cq_authority = True, cq_sans = None,
     cq_not_before = -5, cq_not_after = 3650 * day, cq_path_length = Some 1, cq_server = False, cq_key_bits = 4096\<rparr>"

definition ensure_cluster_ca :: "'w disk \<Rightarrow> settings \<Rightarrow> 'w pki \<Rightarrow> cluster \<Rightarrow> ('w sys, string \<times> string) io" where
  "ensure_cluster_ca D cfg K c =
     bnd (cluster_dir D cfg (c_id c)) (\<lambda>cdir. let cert_path = cdir @ [''ca.crt'']; key_path = cdir @ [''ca.key''] in
     bnd (exists_at D cert_path) (\<lambda>cert_there.
     bnd (exists_at D key_path) (\<lambda>key_there.
     if cert_there \<and> key_there
     then bnd (read_at D cert_path) (\<lambda>cert. bnd (read_at D key_path) (\<lambda>key. ret (cert, key)))
     else bnd (on_wld (pk_self K (ca_request c))) (\<lambda>(cert_pem, key_pem).
          seqm (write_at D cert_path cert_pem)
         (seqm (write_secure D key_path key_pem)
         (ret (cert_pem, key_pem)))))))"

text \<open>The parsed authority: what was read of its certificate, and its key.\<close>

definition load_ca :: "'w disk \<Rightarrow> settings \<Rightarrow> 'w pki \<Rightarrow> cluster \<Rightarrow> ('w sys, cert_info \<times> string) io" where
  "load_ca D cfg K c =
     bnd (ensure_cluster_ca D cfg K c) (\<lambda>(cert_pem, key_pem).
     bnd (lift (pk_read K cert_pem)) (\<lambda>cert.
     seqm (lift (pk_read_key K key_pem))
     (ret (cert, key_pem))))"

definition get_ca_pem :: "'w disk \<Rightarrow> settings \<Rightarrow> 'w pki \<Rightarrow> cluster \<Rightarrow> ('w sys, string) io" where
  "get_ca_pem D cfg K c = bnd (ensure_cluster_ca D cfg K c) (\<lambda>(cert_pem, _). ret cert_pem)"

section \<open>The password of the keystores\<close>

text \<open>The row is the one the session holds.\<close>

definition ensure_tls_password :: "'w pki \<Rightarrow> string \<Rightarrow> ('w sys, string) io" where
  "ensure_tls_password K cid =
     bnd (asks (\<lambda>s. Option.bind (find_cluster (sess s) cid) c_tls_password)) (\<lambda>stored.
     if str_true stored then lift (pk_decrypt K (the stored))
     else bnd (on_wld (pk_token K)) (\<lambda>pw.
       seqm (upd_sess (\<lambda>d. d\<lparr>clusters := upd_by c_id cid (\<lambda>r. r\<lparr>c_tls_password := Some (pk_encrypt K pw)\<rparr>) (clusters d)\<rparr>))
      (seqm commit
      (ret pw))))"

definition get_tls_password :: "'w pki \<Rightarrow> string \<Rightarrow> ('w sys, string option) io" where
  "get_tls_password K cid =
     bnd (asks (\<lambda>s. Option.bind (find_cluster (sess s) cid) c_tls_password)) (\<lambda>stored.
     if str_true stored then bnd (lift (pk_decrypt K (the stored))) (\<lambda>pw. ret (Some pw)) else ret None)"

section \<open>Issuing\<close>

definition san_of :: "string \<Rightarrow> san" where
  "san_of ip = (if ipv4 ip \<noteq> None \<or> ipv6 ip \<noteq> None then Ip_Address ip else Dns_Name ip)"

definition signed_request :: "string \<Rightarrow> string list \<Rightarrow> string list \<Rightarrow> bool \<Rightarrow> int \<Rightarrow> cert_request" where
  "signed_request common_name san_dns san_ips is_server days_valid =
     \<lparr>cq_common_name = common_name, cq_authority = False, cq_sans = Some (map Dns_Name san_dns @ map san_of san_ips),
      cq_not_before = -5, cq_not_after = days_valid * day, cq_path_length = None, cq_server = is_server, cq_key_bits = 2048\<rparr>"

definition issue_signed_cert :: "'w pki \<Rightarrow> cert_info \<Rightarrow> string \<Rightarrow> string \<Rightarrow> string list \<Rightarrow> string list \<Rightarrow> bool \<Rightarrow> int \<Rightarrow>
    ('w sys, string \<times> string) io" where
  "issue_signed_cert K ca_cert ca_key common_name san_dns san_ips is_server days_valid =
     on_wld (pk_issue K (ci_pem ca_cert) ca_key (signed_request common_name san_dns san_ips is_server days_valid))"

definition make_pkcs12 :: "'w pki \<Rightarrow> string \<Rightarrow> string \<Rightarrow> string \<Rightarrow> string \<Rightarrow> string \<Rightarrow> ('w sys, string) io" where
  "make_pkcs12 K name key_pem cert_pem ca_pem password =
     seqm (lift (pk_read_key K key_pem))
    (bnd (lift (pk_read K cert_pem)) (\<lambda>cert.
     bnd (lift (pk_read K ca_pem)) (\<lambda>ca.
     lift (pk_bundle K name key_pem (ci_pem cert) (ci_pem ca) password))))"

definition make_truststore_pem :: "string \<Rightarrow> string" where
  "make_truststore_pem ca_pem = ca_pem"

record keystore =
  ks_keystore :: string
  ks_truststore :: string
  ks_password :: string

definition keystore_name :: "svc_info \<Rightarrow> string" where
  "keystore_name info = sv_ip info @ ''_'' @ show_int (sv_node_id info)"

definition broker_keystore :: "'w disk \<Rightarrow> 'w pki \<Rightarrow> path \<Rightarrow> cert_info \<Rightarrow> string \<Rightarrow> string \<Rightarrow> svc_info \<Rightarrow> ('w sys, string \<times> keystore) io" where
  "broker_keystore D K brokers_dir ca_cert ca_key password info =
     (let bkey = keystore_name info; bdir = path_div brokers_dir bkey; cert_path = bdir @ [''broker.crt'']; key_path = bdir @ [''broker.key''];
          ks_path = bdir @ [''broker.p12'']; ts_path = bdir @ [''truststore.pem''] in
      seqm (mkdir_at D bdir)
     (bnd (exists_at D cert_path) (\<lambda>cert_there.
      bnd (exists_at D key_path) (\<lambda>key_there.
      bnd (if cert_there \<and> key_there
           then bnd (read_at D cert_path) (\<lambda>cert. bnd (read_at D key_path) (\<lambda>key. ret (cert, key)))
           else bnd (issue_signed_cert K ca_cert ca_key (''kafka-broker-'' @ show_int (sv_node_id info)) [''localhost''] [sv_ip info] True 730)
                  (\<lambda>(cert, key). seqm (write_at D cert_path cert) (seqm (write_secure D key_path key) (ret (cert, key))))) (\<lambda>(cert, key).
      bnd (make_pkcs12 K (''broker-'' @ show_int (sv_node_id info)) key cert (ci_pem ca_cert) password) (\<lambda>p12.
      seqm (write_secure D ks_path p12)
     (seqm (write_secure D ts_path (make_truststore_pem (ci_pem ca_cert)))
     (ret (bkey, \<lparr>ks_keystore = path_str ks_path, ks_truststore = path_str ts_path, ks_password = password\<rparr>)))))))))"

definition materialize_broker_keystores :: "'w disk \<Rightarrow> settings \<Rightarrow> 'w pki \<Rightarrow> cluster \<Rightarrow> svc_info list \<Rightarrow> ('w sys, (string \<times> keystore) list) io" where
  "materialize_broker_keystores D cfg K c infos =
     (if \<not> c_ssl_enabled c then ret []
      else
      bnd (cluster_dir D cfg (c_id c)) (\<lambda>cdir. let brokers_dir = cdir @ [''brokers''] in
      seqm (mkdir_at D brokers_dir)
     (bnd (load_ca D cfg K c) (\<lambda>(ca_cert, ca_key).
      bnd (ensure_tls_password K (c_id c)) (\<lambda>password.
      bnd (for_each (broker_keystore D K brokers_dir ca_cert ca_key password)
             (filter (\<lambda>i. sv_role i \<in> {''broker'', ''broker_controller'', ''controller''}) infos)) (\<lambda>out.
      ret (fold (\<lambda>(k, v). AList.update k v) out [])))))))"

section \<open>Client certificates\<close>

record client_bundle =
  cb_common_name :: string
  cb_ca_pem :: string
  cb_cert_pem :: string
  cb_key_pem :: string
  cb_p12_password :: string
  cb_issued_at :: string
  cb_expires_at :: string

definition clients_dir :: "'w disk \<Rightarrow> settings \<Rightarrow> cluster \<Rightarrow> ('w sys, path) io" where
  "clients_dir D cfg c = bnd (cluster_dir D cfg (c_id c)) (\<lambda>dir. ret (dir @ [''clients'']))"

definition issue_client_cert :: "'w disk \<Rightarrow> settings \<Rightarrow> 'w pki \<Rightarrow> cluster \<Rightarrow> string \<Rightarrow> int \<Rightarrow> bool \<Rightarrow> ('w sys, client_bundle) io" where
  "issue_client_cert D cfg K c common_name ttl_days force_rotate =
     (if \<not> c_ssl_enabled c then raise (ValueError ''SSL is not enabled on this cluster'')
      else
      bnd (clients_dir D cfg c) (\<lambda>clients. let cdir = path_div clients common_name in
      bnd (exists_at D cdir) (\<lambda>there.
      if there \<and> \<not> force_rotate
      then raise (ValueError (''Client certificate for '' @ sq @ common_name @ sq @ '' already exists. Use rotation to replace it.''))
      else
      bnd (load_ca D cfg K c) (\<lambda>(ca_cert, ca_key).
      bnd (issue_signed_cert K ca_cert ca_key common_name [] [] False ttl_days) (\<lambda>(cert_pem, key_pem).
      bnd (ensure_tls_password K (c_id c)) (\<lambda>password.
      seqm (mkdir_at D cdir)
     (seqm (write_at D (cdir @ [''client.crt'']) cert_pem)
     (seqm (write_secure D (cdir @ [''client.key'']) key_pem)
     (bnd (make_pkcs12 K common_name key_pem cert_pem (ci_pem ca_cert) password) (\<lambda>p12.
      seqm (write_secure D (cdir @ [''client.p12'']) p12)
     (bnd (asks wld) (\<lambda>w.
      ret \<lparr>cb_common_name = common_name, cb_ca_pem = ci_pem ca_cert, cb_cert_pem = cert_pem, cb_key_pem = key_pem,
        cb_p12_password = password, cb_issued_at = pk_now K w, cb_expires_at = pk_after K ttl_days w\<rparr>))))))))))))"

record client_summary =
  cy_common_name :: string
  cy_issued_at :: string
  cy_expires_at :: string
  cy_serial_number :: string

definition client_row :: "'w disk \<Rightarrow> 'w pki \<Rightarrow> path \<Rightarrow> string \<Rightarrow> ('w sys, client_summary list) io" where
  "client_row D K clients name = (let cert_file = clients @ [name, ''client.crt''] in
     bnd (exists_at D cert_file) (\<lambda>there.
     if \<not> there then ret []
     else bnd (read_at D cert_file) (\<lambda>pem. bnd (lift (pk_read K pem)) (\<lambda>cert.
       ret [\<lparr>cy_common_name = name, cy_issued_at = ci_not_before cert, cy_expires_at = ci_not_after cert,
             cy_serial_number = show_int (ci_serial cert)\<rparr>]))))"

definition list_client_certs :: "'w disk \<Rightarrow> settings \<Rightarrow> 'w pki \<Rightarrow> cluster \<Rightarrow> ('w sys, client_summary list) io" where
  "list_client_certs D cfg K c =
     bnd (clients_dir D cfg c) (\<lambda>clients.
     bnd (exists_at D clients) (\<lambda>there.
     if \<not> there then ret []
     else bnd (names_at D clients) (\<lambda>names. bnd (for_each (client_row D K clients) (sort names)) (\<lambda>rows. ret (concat rows)))))"

definition revoke_client_cert :: "'w disk \<Rightarrow> settings \<Rightarrow> cluster \<Rightarrow> string \<Rightarrow> ('w sys, bool) io" where
  "revoke_client_cert D cfg c common_name =
     bnd (clients_dir D cfg c) (\<lambda>clients. let cdir = path_div clients common_name in
     bnd (exists_at D cdir) (\<lambda>there.
     if \<not> there then ret False else seqm (rmtree_at D cdir) (ret True)))"

section \<open>Routes\<close>

record tls_state =
  tl_ssl_enabled :: bool
  tl_mtls_required :: bool
  tl_ca_present :: bool
  tl_ssl_listener_port :: int

definition get_managed_cluster :: "string \<Rightarrow> ('w sys, cluster) io" where
  "get_managed_cluster cid = bnd (asks (\<lambda>s. find_cluster (sess s) cid)) (\<lambda>c. case c of
     None \<Rightarrow> raise (HTTPException 404 ''Cluster not found'')
   | Some x \<Rightarrow> if or_str (c_kind x) ''managed'' = ''external''
       then raise (HTTPException 400 ''TLS management is for Tantor-deployed clusters; for external clusters configure SSL on the source cluster'')
       else ret x)"

definition get_tls_state :: "'w disk \<Rightarrow> settings \<Rightarrow> string \<Rightarrow> ('w sys, tls_state) io" where
  "get_tls_state D cfg cid =
     bnd (get_managed_cluster cid) (\<lambda>c.
     bnd (lift (strict_config (c_config_json c))) (\<lambda>config.
     bnd (exists_at D (path_div (certs_base cfg) (c_id c) @ [''ca.crt''])) (\<lambda>present.
     bnd (lift (as_dict config)) (\<lambda>d.
     bnd (lift (py_int (jget_default d ''ssl_listener_port'' (JInt 9096)))) (\<lambda>port.
     ret \<lparr>tl_ssl_enabled = c_ssl_enabled c, tl_mtls_required = c_mtls_required c, tl_ca_present = present, tl_ssl_listener_port = port\<rparr>)))))"

definition set_tls_state :: "'w disk \<Rightarrow> settings \<Rightarrow> 'w pki \<Rightarrow> string \<Rightarrow> bool \<Rightarrow> bool \<Rightarrow> ('w sys, tls_state) io" where
  "set_tls_state D cfg K cid ssl_enabled mtls_required =
     bnd (get_managed_cluster cid) (\<lambda>c.
     seqm (upd_sess (\<lambda>d. d\<lparr>clusters := upd_by c_id cid (\<lambda>r. r\<lparr>c_ssl_enabled := ssl_enabled, c_mtls_required := mtls_required \<and> ssl_enabled\<rparr>) (clusters d)\<rparr>))
    (seqm (if ssl_enabled then drop_result (ensure_cluster_ca D cfg K c) else ret ())
    (seqm commit
    (get_tls_state D cfg cid))))"

definition download_ca :: "'w disk \<Rightarrow> settings \<Rightarrow> 'w pki \<Rightarrow> string \<Rightarrow> ('w sys, string) io" where
  "download_ca D cfg K cid =
     bnd (get_managed_cluster cid) (\<lambda>c.
     if \<not> c_ssl_enabled c then raise (HTTPException 400 ''SSL is not enabled on this cluster'') else get_ca_pem D cfg K c)"

definition list_client_certs_route :: "'w disk \<Rightarrow> settings \<Rightarrow> 'w pki \<Rightarrow> string \<Rightarrow> ('w sys, client_summary list) io" where
  "list_client_certs_route D cfg K cid = bnd (get_managed_cluster cid) (list_client_certs D cfg K)"

definition valid_client_request :: "string \<Rightarrow> int \<Rightarrow> bool" where
  "valid_client_request common_name ttl_days \<longleftrightarrow>
     1 \<le> length (codepoints common_name) \<and> length (codepoints common_name) \<le> 120 \<and> 1 \<le> ttl_days \<and> ttl_days \<le> 3650"

definition issue_client_cert_route :: "'w disk \<Rightarrow> settings \<Rightarrow> 'w pki \<Rightarrow> string \<Rightarrow> string \<Rightarrow> int \<Rightarrow> bool \<Rightarrow> ('w sys, client_bundle) io" where
  "issue_client_cert_route D cfg K cid common_name ttl_days force_rotate =
     (if \<not> valid_client_request common_name ttl_days then raise (HTTPException 422 ''validation error'')
      else
      bnd (get_managed_cluster cid) (\<lambda>c.
      if \<not> c_ssl_enabled c then raise (HTTPException 400 ''Enable SSL on the cluster first'')
      else catch (issue_client_cert D cfg K c common_name ttl_days force_rotate)
        (\<lambda>e. if is_value_error e then raise (HTTPException 400 (exn_str e)) else raise e)))"

definition revoke_client_cert_route :: "'w disk \<Rightarrow> settings \<Rightarrow> string \<Rightarrow> string \<Rightarrow> ('w sys, unit) io" where
  "revoke_client_cert_route D cfg cid common_name =
     bnd (get_managed_cluster cid) (\<lambda>c.
     bnd (revoke_client_cert D cfg c common_name) (\<lambda>removed.
     if removed then ret () else raise (HTTPException 404 ''Client cert not found'')))"

definition list_certificates_route :: "'w disk \<Rightarrow> settings \<Rightarrow> 'w pki \<Rightarrow> string \<Rightarrow> ('w sys, ca_state \<times> (string \<times> int) list) io" where
  "list_certificates_route D cfg K cid = bnd (asks (\<lambda>s. find_cluster (sess s) cid)) (\<lambda>c. case c of
     None \<Rightarrow> raise (HTTPException 404 ''Cluster not found'') | Some x \<Rightarrow> list_cluster_certificates D cfg K x)"

definition upload_certificate_ca :: "'w disk \<Rightarrow> settings \<Rightarrow> 'w pki \<Rightarrow> fresh \<Rightarrow> user \<Rightarrow> string \<Rightarrow> string \<Rightarrow> string option \<Rightarrow> ('w sys, string \<times> bool) io" where
  "upload_certificate_ca D cfg K fr actor cid cert_pem key_pem = bnd (asks (\<lambda>s. find_cluster (sess s) cid)) (\<lambda>c. case c of
     None \<Rightarrow> raise (HTTPException 404 ''Cluster not found'')
   | Some x \<Rightarrow> bad_request (bnd (upload_cluster_ca D cfg K x cert_pem key_pem) (\<lambda>result.
       seqm (audit fr (Some actor) cid ''ca_uploaded'' ''certificate'' ''cluster_ca'' (Some (fst result)))
      (seqm commit
      (ret result)))))"

section \<open>What the removal of a client certificate takes away\<close>

definition plain_name :: "string \<Rightarrow> bool" where
  "plain_name n \<longleftrightarrow> n \<noteq> [] \<and> n \<noteq> ''.'' \<and> n \<noteq> up \<and> CHR ''/'' \<notin> set n"

lemma split_whole: "c \<notin> set s \<Longrightarrow> split_on c s = [s]"
  by (induction s) auto

lemma path_div_plain: "plain_name n \<Longrightarrow> path_div p n = p @ [n]"
  by (cases n) (auto simp: plain_name_def path_div_def starts_with_def components_def split_whole)

lemma path_div_up: "path_div p up = p @ [up]"
  by (simp add: path_div_def starts_with_def components_def)

text \<open>The directories of a cluster and of its clients are there.\<close>

definition clients_there :: "files \<Rightarrow> path \<Rightarrow> bool" where
  "clients_there fs dir \<longleftrightarrow> up \<notin> set dir \<and> parents_there fs dir \<and> is_dir fs dir \<and> is_dir fs (dir @ [''clients''])"

lemma cluster_dir_run:
  assumes "disk_ok D" and "clients_there (on_files D s) (path_div (certs_base cfg) cid)"
  shows "\<exists>t. cluster_dir D cfg cid s = (Inr (path_div (certs_base cfg) cid), t) \<and> on_files D t = on_files D s"
  using assms by (simp add: cluster_dir_def Let_def seqm_run mkdir_at_def on_disk_run clients_there_def make_dir_there on_files_set)

lemma clients_walk: "up \<notin> set dir \<Longrightarrow> parents_there fs dir \<Longrightarrow> is_dir fs dir \<Longrightarrow> is_dir fs (dir @ [''clients'']) \<Longrightarrow>
    resolve fs (dir @ [''clients'', up]) = Some dir"
proof -
  have step: "walk fs acc (cs @ [x, up]) = Some (acc @ cs)"
    if "up \<notin> set cs" "x \<noteq> up" "\<forall>n \<le> length cs. is_dir fs (acc @ take n cs)" "is_dir fs (acc @ cs @ [x])" for acc cs x
    using that
  proof (induction cs arbitrary: acc)
    case (Cons c cs)
    have "is_dir fs (acc @ [c])" using Cons.prems(3)[rule_format, of 1] by simp
    moreover have "\<forall>n \<le> length cs. is_dir fs ((acc @ [c]) @ take n cs)"
      using Cons.prems(3) by (metis Suc_le_mono append.assoc append_Cons append_Nil length_Cons take_Suc_Cons)
    ultimately show ?case using Cons.IH[of "acc @ [c]"] Cons.prems by auto
  qed simp
  assume "up \<notin> set dir" "parents_there fs dir" "is_dir fs dir" "is_dir fs (dir @ [''clients''])"
  then show ?thesis using step[of dir "''clients''" "[]"] by (auto simp: resolve_def parents_there_def le_less)
qed

lemma parents_clients: "clients_there fs dir \<Longrightarrow> parents_there fs (dir @ [''clients'', n])"
  by (auto simp: clients_there_def parents_there_def less_Suc_eq take_Cons split: nat.split)

text \<open>
Claim C25.  Removing the certificate of a client whose name is the name of a file takes away that client's directory with what is
  below it, and nothing else.  But the name is not checked: with the name \<open>..\<close> the request takes away every file of the
  cluster, the key of its authority and the keystores of its brokers among them, and then fails.
\<close>

theorem revocation_scope:
  assumes "disk_ok D" and "dir = path_div (certs_base cfg) (c_id c)" and "clients_there (on_files D s) dir"
    and "plain_name name \<and> is_dir (on_files D s) (dir @ [''clients'', name]) \<or> name = up"
  shows "case revoke_client_cert D cfg c name s of (r, t) \<Rightarrow>
    if name = up
    then isl r \<and> map_of (on_files D t) p = (if below dir p then None else map_of (on_files D s) p)
    else r = Inr True \<and> map_of (on_files D t) p =
      (if p = dir @ [''clients'', name] \<or> below (dir @ [''clients'', name]) p then None else map_of (on_files D s) p)"
proof -
  let ?fs = "on_files D s" and ?cdir = "dir @ [''clients'', name]"
  obtain u where u: "cluster_dir D cfg (c_id c) s = (Inr dir, u)" "on_files D u = ?fs"
    using cluster_dir_run[OF assms(1), of s cfg "c_id c"] assms(2,3) by auto
  have cdir: "path_div (dir @ [''clients'']) name = ?cdir" using assms(4) path_div_plain path_div_up by fastforce
  define d where "d = (if name = up then dir else ?cdir)"
  have there: "resolve ?fs ?cdir = Some d" "is_dir ?fs d"
    using assms(3,4) clients_walk[of dir ?fs] parents_clients[OF assms(3), of name]
    by (auto simp: d_def clients_there_def plain_name_def intro!: resolve_plain)
  have ex: "path_exists ?fs ?cdir" using there by (auto simp: path_exists_def is_dir_def)
  have "revoke_client_cert D cfg c name s = bnd (\<lambda>_. (Inr True, u)) (\<lambda>_. seqm (rmtree_at D ?cdir) (ret True)) s"
    unfolding revoke_client_cert_def clients_dir_def
    by (simp add: bnd_run u cdir Let_def exists_at_def ex del: append_assoc)
  also have "\<dots> = (case fst (remove_tree ?cdir ?fs) of Inl e \<Rightarrow> Inl e | Inr _ \<Rightarrow> Inr True,
      u\<lparr>wld := dk_set D (snd (remove_tree ?cdir ?fs)) (wld u)\<rparr>)"
    by (simp add: bnd_run seqm_run rmtree_at_def on_disk_run[OF assms(1)] u split: sum.split)
  finally have run: "revoke_client_cert D cfg c name s = (case fst (remove_tree ?cdir ?fs) of Inl e \<Rightarrow> Inl e | Inr _ \<Rightarrow> Inr True,
      u\<lparr>wld := dk_set D (snd (remove_tree ?cdir ?fs)) (wld u)\<rparr>)" .
  show ?thesis unfolding run using remove_tree_run[OF there, of p]
    by (auto simp: on_files_set[OF assms(1)] d_def)
qed

definition cert_files :: files where
  "cert_files = [([''certs''], Dir), ([''certs'', ''c1''], Dir), ([''certs'', ''c1'', ''ca.key''], File ''key''),
     ([''certs'', ''c1'', ''clients''], Dir), ([''certs'', ''c1'', ''clients'', ''bob''], Dir)]"

definition cert_settings :: settings where
  "cert_settings = (default_settings [])\<lparr>CERTS_DIR := ''/certs''\<rparr>"

lemma cert_dir: "path_div (certs_base cert_settings) (c_id (bare_cluster ''c1'' ''east'')) = [''certs'', ''c1'']"
  by code_simp

lemma cert_files_there: "clients_there cert_files [''certs'', ''c1'']"
  by (auto simp: clients_there_def parents_there_def is_dir_def cert_files_def less_Suc_eq)

theorem revocation_scope_witness:
  "case revoke_client_cert plain_disk cert_settings (bare_cluster ''c1'' ''east'') up (plain_sys cert_files) of (r, t) \<Rightarrow>
     isl r \<and> map_of (on_files plain_disk t) [''certs'', ''c1'', ''ca.key''] = None"
proof -
  have "disk_ok plain_disk" by (simp add: disk_ok_def plain_disk_def)
  moreover have "clients_there (on_files plain_disk (plain_sys cert_files)) [''certs'', ''c1'']"
    using cert_files_there by (simp add: on_files_def plain_disk_def plain_sys_def)
  moreover have "below [''certs'', ''c1''] [''certs'', ''c1'', ''ca.key'']" by (simp add: below_def)
  ultimately show ?thesis
    using revocation_scope[where D = plain_disk and s = "plain_sys cert_files" and name = up and p = "[''certs'', ''c1'', ''ca.key'']",
        OF _ cert_dir[symmetric]] by (auto split: prod.splits)
qed

section \<open>The certificate of a broker\<close>

lemma is_dir_write: "p \<noteq> q \<Longrightarrow> is_dir (AList.update q (File c) fs) p \<longleftrightarrow> is_dir fs p"
  by (simp add: is_dir_def update_conv')

lemma parents_write: "length p \<le> length q \<Longrightarrow> parents_there (AList.update q (File c) fs) p \<longleftrightarrow> parents_there fs p"
  unfolding parents_there_def by (metis is_dir_write length_take min.absorb4 nat_less_le not_less)

lemma write_secure_run:
  assumes "disk_ok D" and "up \<notin> set p" and "parents_there (on_files D s) p" and "\<not> is_dir (on_files D s) p"
  shows "\<exists>t. write_secure D p c s = (Inr (), t) \<and> on_files D t = AList.update p (File c) (on_files D s)"
  using assms by (simp add: write_secure_def seqm_run write_at_def on_disk_run write_file_run on_files_set)

lemma read_at_run:
  assumes "disk_ok D" and "up \<notin> set p" and "parents_there (on_files D s) p" and "map_of (on_files D s) p = Some (File c)"
  shows "\<exists>t. read_at D p s = (Inr c, t) \<and> on_files D t = on_files D s"
  using assms by (simp add: read_at_def on_disk_run read_file_run on_files_set)

lemma still_pkcs12: "still (make_pkcs12 K name key cert ca pw)"
  unfolding make_pkcs12_def by (intro keeps_io.rel_intros)

text \<open>
  A broker whose certificate and key are on the disk keeps them, whatever the authority of the cluster is now: exactly two files
  are written, a keystore of the old certificate and a truststore with the certificate of the present authority, which need
  not have signed it.
\<close>

lemma broker_certificate_kept:
  assumes "disk_ok D" and "bdir = path_div brokers_dir (keystore_name info)"
    and "up \<notin> set bdir" and "parents_there (on_files D s) bdir" and "is_dir (on_files D s) bdir"
    and "map_of (on_files D s) (bdir @ [''broker.crt'']) = Some (File cert)"
    and "map_of (on_files D s) (bdir @ [''broker.key'']) = Some (File key)"
    and "\<not> is_dir (on_files D s) (bdir @ [''broker.p12''])" and "\<not> is_dir (on_files D s) (bdir @ [''truststore.pem''])"
    and "pk_read_key K key = Inr ()" and "pk_read K cert = Inr c" and "pk_read K (ci_pem ca_cert) = Inr ca"
    and "pk_bundle K (''broker-'' @ show_int (sv_node_id info)) key (ci_pem c) (ci_pem ca) password = Inr p12"
  shows "case broker_keystore D K brokers_dir ca_cert ca_key password info s of (r, t) \<Rightarrow>
     r = Inr (keystore_name info, \<lparr>ks_keystore = path_str (bdir @ [''broker.p12'']),
       ks_truststore = path_str (bdir @ [''truststore.pem'']), ks_password = password\<rparr>) \<and>
     map_of (on_files D t) = (map_of (on_files D s))
       (bdir @ [''broker.p12''] \<mapsto> File p12, bdir @ [''truststore.pem''] \<mapsto> File (ci_pem ca_cert))"
proof -
  let ?fs = "on_files D s" and ?name = "''broker-'' @ show_int (sv_node_id info)"
  let ?crt = "bdir @ [''broker.crt'']" and ?key = "bdir @ [''broker.key'']" and ?p12 = "bdir @ [''broker.p12'']"
    and ?ts = "bdir @ [''truststore.pem'']"
  have par: "parents_there ?fs (bdir @ [x])" for x
    using assms(4,5) by (auto simp: parents_there_def less_Suc_eq)
  have no_up: "up \<notin> set ?crt" "up \<notin> set ?key" "up \<notin> set ?p12" "up \<notin> set ?ts" using assms(3) by simp_all
  obtain s1 where s1: "mkdir_at D bdir s = (Inr (), s1)" "on_files D s1 = ?fs"
    using assms(3-5) by (simp add: mkdir_at_def on_disk_run[OF assms(1)] make_dir_there on_files_set[OF assms(1)])
  have ex: "path_exists ?fs ?crt" "path_exists ?fs ?key"
    using assms(6,7) no_up par by (simp_all add: path_exists_def resolve_plain)
  obtain s2 where s2: "read_at D ?crt s1 = (Inr cert, s2)" "on_files D s2 = ?fs"
    using read_at_run[OF assms(1) no_up(1), of s1 cert] par assms(6) s1(2) by auto
  obtain s3 where s3: "read_at D ?key s2 = (Inr key, s3)" "on_files D s3 = ?fs"
    using read_at_run[OF assms(1) no_up(2), of s2 key] par assms(7) s2(2) by auto
  have here: "exists_at D ?crt s1 = (Inr True, s1)" "exists_at D ?key s1 = (Inr True, s1)" using ex s1(2) by (simp_all add: exists_at_def)
  let ?reads = "bnd (read_at D ?crt) (\<lambda>cert. bnd (read_at D ?key) (\<lambda>key. ret (cert, key)))"
  have reads: "?reads s1 = (Inr (cert, key), s3)" using s2 s3 by (simp add: bnd_def)
  have after: "broker_keystore D K brokers_dir ca_cert ca_key password info s = bnd (make_pkcs12 K ?name key cert (ci_pem ca_cert) password) (\<lambda>p12.
      seqm (write_secure D ?p12 p12) (seqm (write_secure D ?ts (make_truststore_pem (ci_pem ca_cert)))
        (ret (keystore_name info, \<lparr>ks_keystore = path_str ?p12, ks_truststore = path_str ?ts, ks_password = password\<rparr>)))) s3"
    unfolding broker_keystore_def Let_def assms(2)[symmetric] seqm_def bnd_Inr[of "mkdir_at D bdir" s, OF s1(1)]
      bnd_Inr[of "exists_at D ?crt" s1, OF here(1)] bnd_Inr[of "exists_at D ?key" s1, OF here(2)] simp_thms if_True
      bnd_Inr[of ?reads s1, OF reads] prod.case ..
  have made: "make_pkcs12 K ?name key cert (ci_pem ca_cert) password s3 = (Inr p12, s3)"
    using assms(10-13) by (simp add: make_pkcs12_def bnd_run seqm_run)
  obtain s4 where s4: "write_secure D ?p12 p12 s3 = (Inr (), s4)" "on_files D s4 = AList.update ?p12 (File p12) ?fs"
    using write_secure_run[OF assms(1) no_up(3), of s3 p12] par assms(8) s3(2) by auto
  have "parents_there (on_files D s4) ?ts" "\<not> is_dir (on_files D s4) ?ts"
    unfolding s4(2) using par assms(9) by (simp_all add: parents_write is_dir_write)
  then obtain s5 where s5: "write_secure D ?ts (ci_pem ca_cert) s4 = (Inr (), s5)"
      "on_files D s5 = AList.update ?ts (File (ci_pem ca_cert)) (AList.update ?p12 (File p12) ?fs)"
    using write_secure_run[OF assms(1) no_up(4), of s4 "ci_pem ca_cert"] s4(2) by auto
  have "broker_keystore D K brokers_dir ca_cert ca_key password info s =
      (Inr (keystore_name info, \<lparr>ks_keystore = path_str ?p12, ks_truststore = path_str ?ts, ks_password = password\<rparr>), s5)"
    unfolding after bnd_Inr[of "make_pkcs12 K ?name key cert (ci_pem ca_cert) password" s3, OF made]
    by (simp add: seqm_run s4 s5 make_truststore_pem_def)
  then show ?thesis by (simp add: s5(2) update_conv')
qed

lemma make_dirs_new: "up \<notin> set (p @ cs @ [n]) \<Longrightarrow> \<forall>k \<le> length cs. is_dir fs (p @ take k cs) \<Longrightarrow> parents_there fs p \<Longrightarrow>
    map_of fs (p @ cs @ [n]) = None \<Longrightarrow> make_dirs p (cs @ [n]) fs = (Inr (), AList.update (p @ cs @ [n]) Dir fs)"
proof (induction cs arbitrary: p)
  case Nil
  have "parents_there fs (p @ [n])" using Nil(2,3) unfolding parents_there_def by (auto simp: less_Suc_eq)
  then have "resolve fs (p @ [n]) = Some (p @ [n])" using Nil(1) by (intro resolve_plain) auto
  with Nil(4) show ?case by (simp add: is_dir_def)
next
  case (Cons c cs)
  have p: "is_dir fs p" and pc: "is_dir fs (p @ [c])" using Cons.prems(2)[rule_format, of 0] Cons.prems(2)[rule_format, of 1] by auto
  have there: "parents_there fs (p @ [c])" using Cons.prems(3) p unfolding parents_there_def by (auto simp: less_Suc_eq)
  have "resolve fs (p @ [c]) = Some (p @ [c])" using Cons.prems(1) there by (intro resolve_plain) auto
  moreover have "\<forall>k \<le> length cs. is_dir fs ((p @ [c]) @ take k cs)"
    using Cons.prems(2) by (metis Suc_le_mono append.assoc append_Cons append_Nil length_Cons take_Suc_Cons)
  then have "make_dirs (p @ [c]) (cs @ [n]) fs = (Inr (), AList.update ((p @ [c]) @ cs @ [n]) Dir fs)"
    using Cons.prems(1,4) there by (intro Cons.IH) auto
  ultimately show ?case using pc by simp
qed

lemma mkdir_at_run:
  assumes "disk_ok D" "up \<notin> set (d @ [n])" "parents_there (on_files D s) d" "is_dir (on_files D s) d"
    and "map_of (on_files D s) (d @ [n]) \<in> {None, Some Dir}"
  shows "\<exists>t. mkdir_at D (d @ [n]) s = (Inr (), t) \<and> map_of (on_files D t) = (map_of (on_files D s))(d @ [n] \<mapsto> Dir)"
proof (cases "map_of (on_files D s) (d @ [n])")
  case None
  have "\<forall>k \<le> length d. is_dir (on_files D s) ([] @ take k d)" using assms(3,4) by (auto simp: parents_there_def le_less)
  from make_dirs_new[OF _ this, of n] None assms(2) have "make_dir (d @ [n]) (on_files D s) = (Inr (), AList.update (d @ [n]) Dir (on_files D s))"
    by (simp add: make_dir_def parents_there_def)
  then show ?thesis using assms(1) by (simp add: mkdir_at_def on_disk_run on_files_set update_conv')
next
  case (Some x)
  then have dir: "map_of (on_files D s) (d @ [n]) = Some Dir" using assms(5) by auto
  then have "make_dir (d @ [n]) (on_files D s) = (Inr (), on_files D s)"
    using assms(2-4) by (intro make_dir_there) (auto simp: parents_there_def is_dir_def less_Suc_eq)
  then show ?thesis using assms(1) dir by (simp add: mkdir_at_def on_disk_run on_files_set fun_upd_idem)
qed

text \<open>Operations in a directory that is there; all that matters of the files is what they map to.\<close>

definition dir_ready :: "'w disk \<Rightarrow> path \<Rightarrow> 'w sys \<Rightarrow> bool" where
  "dir_ready D d s \<longleftrightarrow> up \<notin> set d \<and> parents_there (on_files D s) d \<and> is_dir (on_files D s) d"

lemma ready_upd:
  assumes "dir_ready D d s" and "length d \<le> length p" and "d \<noteq> p" and "map_of (on_files D t) = (map_of (on_files D s))(p \<mapsto> x)"
  shows "dir_ready D d t"
proof -
  have "is_dir (on_files D t) q" if "is_dir (on_files D s) q" "q \<noteq> p" for q using that assms(4) by (simp add: is_dir_def)
  moreover have "take n d \<noteq> p" if "n < length d" for n using that assms(2) by (metis length_take min.absorb4 not_less)
  ultimately show ?thesis using assms(1,3) by (simp add: dir_ready_def parents_there_def)
qed

lemma ready_file:
  assumes "dir_ready D d s" "n \<noteq> up"
  shows "up \<notin> set (d @ [n])" "parents_there (on_files D s) (d @ [n])"
  using assms by (auto simp: dir_ready_def parents_there_def less_Suc_eq)

lemma write_into:
  assumes "disk_ok D" "dir_ready D d s" "n \<noteq> up" "map_of (on_files D s) (d @ [n]) \<noteq> Some Dir"
  shows "\<exists>t. write_secure D (d @ [n]) c s = (Inr (), t) \<and> map_of (on_files D t) = (map_of (on_files D s))(d @ [n] \<mapsto> File c) \<and> dir_ready D d t"
    "\<exists>t. write_at D (d @ [n]) c s = (Inr (), t) \<and> map_of (on_files D t) = (map_of (on_files D s))(d @ [n] \<mapsto> File c) \<and> dir_ready D d t"
proof -
  have run: "write_file (d @ [n]) c (on_files D s) = (Inr (), AList.update (d @ [n]) (File c) (on_files D s))"
    using ready_file[OF assms(2,3)] assms(4) by (intro write_file_run) (auto simp: is_dir_def)
  have ready: "dir_ready D d t" if "map_of (on_files D t) = (map_of (on_files D s))(d @ [n] \<mapsto> File c)" for t
    using that by (intro ready_upd[OF assms(2)]) auto
  show "\<exists>t. write_secure D (d @ [n]) c s = (Inr (), t) \<and> map_of (on_files D t) = (map_of (on_files D s))(d @ [n] \<mapsto> File c) \<and> dir_ready D d t"
    "\<exists>t. write_at D (d @ [n]) c s = (Inr (), t) \<and> map_of (on_files D t) = (map_of (on_files D s))(d @ [n] \<mapsto> File c) \<and> dir_ready D d t"
    using assms(1) by (auto simp: write_secure_def seqm_run write_at_def on_disk_run run on_files_set update_conv' intro!: ready)
qed

lemma mkdir_ready:
  assumes "disk_ok D" "dir_ready D d s" "n \<noteq> up" "map_of (on_files D s) (d @ [n]) \<in> {None, Some Dir}"
  shows "\<exists>t. mkdir_at D (d @ [n]) s = (Inr (), t) \<and> map_of (on_files D t) = (map_of (on_files D s))(d @ [n] \<mapsto> Dir) \<and> dir_ready D (d @ [n]) t"
proof -
  obtain t where t: "mkdir_at D (d @ [n]) s = (Inr (), t)" "map_of (on_files D t) = (map_of (on_files D s))(d @ [n] \<mapsto> Dir)"
    using mkdir_at_run[of D d n s] assms by (auto simp: dir_ready_def)
  then have "dir_ready D d t" by (intro ready_upd[OF assms(2)]) auto
  with t assms(3) have "dir_ready D (d @ [n]) t" by (auto simp: dir_ready_def parents_there_def less_Suc_eq is_dir_def)
  with t show ?thesis by blast
qed

lemma exists_ready: "dir_ready D d s \<Longrightarrow> n \<noteq> up \<Longrightarrow> exists_at D (d @ [n]) s = (Inr (map_of (on_files D s) (d @ [n]) \<noteq> None), s)"
  using ready_file[of D d s n] by (simp add: exists_at_def path_exists_def resolve_plain)

text \<open>
  Claim C26.  A broker for which the certificate or the key is missing on the disk gets both issued by the authority it is given: a server
  certificate for the name \<open>kafka-broker-\<close> and its node id, \<open>localhost\<close> and its address, valid for two years.  Both are stored in the
  directory of the broker, which is made if it is not there, with a keystore of exactly this certificate and key
  under the given password and a truststore with the certificate of the authority; these four files are all that changes, and the
  two stores are what is returned.  The library is assumed to issue and to bundle without failing and without touching the
  files, and the disk not to fail.
\<close>

theorem broker_certificate_issued:
  assumes "disk_ok D" and "plain_name (keystore_name info)" and bdir: "bdir = brokers_dir @ [keystore_name info]"
    and "up \<notin> set brokers_dir" and "parents_there (on_files D s) brokers_dir" and "is_dir (on_files D s) brokers_dir"
    and "map_of (on_files D s) bdir \<in> {None, Some Dir}"
    and "map_of (on_files D s) (bdir @ [''broker.crt'']) = None \<or> map_of (on_files D s) (bdir @ [''broker.key'']) = None"
    and "list_all (\<lambda>n. map_of (on_files D s) (bdir @ [n]) \<noteq> Some Dir) [''broker.crt'', ''broker.key'', ''broker.p12'', ''truststore.pem'']"
    and "\<And>w. pk_issue K (ci_pem ca_cert) ca_key \<lparr>cq_common_name = ''kafka-broker-'' @ show_int (sv_node_id info), cq_authority = False,
        cq_sans = Some [Dns_Name ''localhost'', san_of (sv_ip info)], cq_not_before = -5, cq_not_after = 730 * 1440, cq_path_length = None,
        cq_server = True, cq_key_bits = 2048\<rparr> w = (Inr (cert w, key w), after w)"
    and "\<And>w. dk_files D (after w) = dk_files D w" and "\<And>w. pk_read_key K (key w) = Inr ()" and "\<And>w. pk_read K (cert w) = Inr (parsed w)"
    and "pk_read K (ci_pem ca_cert) = Inr ca"
    and "\<And>w. pk_bundle K (''broker-'' @ show_int (sv_node_id info)) (key w) (ci_pem (parsed w)) (ci_pem ca) password = Inr (p12 w)"
  shows "\<exists>t w. broker_keystore D K brokers_dir ca_cert ca_key password info s =
       (Inr (keystore_name info, \<lparr>ks_keystore = path_str (bdir @ [''broker.p12'']), ks_truststore = path_str (bdir @ [''truststore.pem'']),
          ks_password = password\<rparr>), t) \<and>
     map_of (on_files D t) = (map_of (on_files D s))(bdir \<mapsto> Dir, bdir @ [''broker.crt''] \<mapsto> File (cert w), bdir @ [''broker.key''] \<mapsto> File (key w),
       bdir @ [''broker.p12''] \<mapsto> File (p12 w), bdir @ [''truststore.pem''] \<mapsto> File (ci_pem ca_cert))"
proof -
  let ?name = "''broker-'' @ show_int (sv_node_id info)" and ?f = "\<lambda>n. bdir @ [n]" and ?m = "map_of (on_files D s)"
  have dir: "path_div brokers_dir (keystore_name info) = bdir" using assms(2) bdir by (simp add: path_div_plain)
  have free: "?m (?f ''broker.crt'') \<noteq> Some Dir" "?m (?f ''broker.key'') \<noteq> Some Dir" "?m (?f ''broker.p12'') \<noteq> Some Dir"
    "?m (?f ''truststore.pem'') \<noteq> Some Dir" using assms(9) by simp_all
  have names: "''broker.crt'' \<noteq> up" "''broker.key'' \<noteq> up" "''broker.p12'' \<noteq> up" "''truststore.pem'' \<noteq> up" by simp_all
  have "keystore_name info \<noteq> up" using assms(2) by (simp add: plain_name_def)
  with mkdir_ready[OF assms(1), of brokers_dir s "keystore_name info"] assms(4-7)
  obtain s1 where s1: "mkdir_at D bdir s = (Inr (), s1)" "map_of (on_files D s1) = ?m(bdir \<mapsto> Dir)" "dir_ready D bdir s1"
    unfolding bdir by (auto simp: dir_ready_def)
  have e1: "exists_at D (?f ''broker.crt'') s1 = (Inr (?m (?f ''broker.crt'') \<noteq> None), s1)"
    "exists_at D (?f ''broker.key'') s1 = (Inr (?m (?f ''broker.key'') \<noteq> None), s1)"
    by (simp_all add: exists_ready[OF s1(3)] s1(2))
  have new: "\<not> (?m (?f ''broker.crt'') \<noteq> None \<and> ?m (?f ''broker.key'') \<noteq> None)" using assms(8) by (simp only: de_Morgan_conj not_not)
  let ?w = "wld s1" and ?s2 = "s1\<lparr>wld := after (wld s1)\<rparr>"
  have issued: "issue_signed_cert K ca_cert ca_key (''kafka-broker-'' @ show_int (sv_node_id info)) [''localhost''] [sv_ip info] True 730 s1 =
      (Inr (cert ?w, key ?w), ?s2)"
    using assms(10)[of ?w] by (simp add: issue_signed_cert_def signed_request_def on_wld_def day_def)
  have files2: "on_files D ?s2 = on_files D s1" by (simp add: on_files_def assms(11))
  then have m2: "map_of (on_files D ?s2) = ?m(bdir \<mapsto> Dir)" and ready2: "dir_ready D bdir ?s2" using s1(2,3) by (simp_all add: dir_ready_def)
  obtain s3 where s3: "write_at D (?f ''broker.crt'') (cert ?w) ?s2 = (Inr (), s3)"
      "map_of (on_files D s3) = ?m(bdir \<mapsto> Dir, ?f ''broker.crt'' \<mapsto> File (cert ?w))" "dir_ready D bdir s3"
    using write_into(2)[OF assms(1) ready2 names(1), of "cert ?w"] free m2 by auto
  obtain s4 where s4: "write_secure D (?f ''broker.key'') (key ?w) s3 = (Inr (), s4)"
      "map_of (on_files D s4) = ?m(bdir \<mapsto> Dir, ?f ''broker.crt'' \<mapsto> File (cert ?w), ?f ''broker.key'' \<mapsto> File (key ?w))" "dir_ready D bdir s4"
    using write_into(1)[OF assms(1) s3(3) names(2), of "key ?w"] free s3(2) by auto
  have made: "make_pkcs12 K ?name (key ?w) (cert ?w) (ci_pem ca_cert) password s4 = (Inr (p12 ?w), s4)"
    using assms(12-15) by (simp add: make_pkcs12_def bnd_run seqm_run)
  obtain s5 where s5: "write_secure D (?f ''broker.p12'') (p12 ?w) s4 = (Inr (), s5)"
      "map_of (on_files D s5) = (map_of (on_files D s4))(?f ''broker.p12'' \<mapsto> File (p12 ?w))" "dir_ready D bdir s5"
    using write_into(1)[OF assms(1) s4(3) names(3), of "p12 ?w"] free s4(2) by auto
  obtain s6 where s6: "write_secure D (?f ''truststore.pem'') (ci_pem ca_cert) s5 = (Inr (), s6)"
      "map_of (on_files D s6) = (map_of (on_files D s5))(?f ''truststore.pem'' \<mapsto> File (ci_pem ca_cert))"
    using write_into(1)[OF assms(1) s5(3) names(4), of "ci_pem ca_cert"] free s4(2) s5(2) by auto
  have "broker_keystore D K brokers_dir ca_cert ca_key password info s =
       (Inr (keystore_name info, \<lparr>ks_keystore = path_str (?f ''broker.p12''), ks_truststore = path_str (?f ''truststore.pem''), ks_password = password\<rparr>), s6)"
    unfolding broker_keystore_def Let_def dir
    by (simp only: seqm_run s1(1) bnd_run e1 issued s3(1) s4(1) made s5(1) s6(1) if_not_P[OF new] prod.case sum.case make_truststore_pem_def ret_def)
  moreover have "map_of (on_files D s6) = ?m(bdir \<mapsto> Dir, ?f ''broker.crt'' \<mapsto> File (cert ?w), ?f ''broker.key'' \<mapsto> File (key ?w),
       ?f ''broker.p12'' \<mapsto> File (p12 ?w), ?f ''truststore.pem'' \<mapsto> File (ci_pem ca_cert))"
    by (simp only: s4(2) s5(2) s6(2))
  ultimately show ?thesis by (intro exI conjI)
qed

text \<open>A broker, and the authority \<open>new\<close>.\<close>

definition text_pki :: "files pki" where
  "text_pki = \<lparr>pk_self = (\<lambda>_. ret (''new'', ''key'')), pk_issue = (\<lambda>_ _ _. ret (''fresh'', ''key'')),
     pk_read = (\<lambda>t. Inr \<lparr>ci_pem = t, ci_subject = [], ci_fingerprint = [], ci_not_before = [], ci_not_after = [], ci_serial = 1\<rparr>),
     pk_read_key = (\<lambda>_. Inr ()), pk_bundle = (\<lambda>n k c a p. Inr (c @ a)), pk_token = ret ''pw'', pk_encrypt = (\<lambda>t. t),
     pk_decrypt = (\<lambda>t. Inr t), pk_now = (\<lambda>_. []), pk_after = (\<lambda>_ _. [])\<rparr>"

definition broker_info :: svc_info where
  "broker_info = \<lparr>sv_role = ''broker'', sv_node_id = 1, sv_ip = ''a'', sv_host_id = ''h'', sv_controller_port = None\<rparr>"

definition new_authority :: cert_info where
  "new_authority = \<lparr>ci_pem = ''new'', ci_subject = [], ci_fingerprint = [], ci_not_before = [], ci_not_after = [], ci_serial = 1\<rparr>"

theorem broker_certificate_issued_witness:
  "\<exists>t. broker_keystore plain_disk text_pki [''b''] new_authority ''key'' ''pw'' broker_info (plain_sys [([''b''], Dir)]) =
     (Inr (''a_1'', \<lparr>ks_keystore = ''/b/a_1/broker.p12'', ks_truststore = ''/b/a_1/truststore.pem'', ks_password = ''pw''\<rparr>), t) \<and>
   map_of (on_files plain_disk t) [''b'', ''a_1'', ''broker.p12''] = Some (File ''freshnew'') \<and>
   map_of (on_files plain_disk t) [''b'', ''a_1'', ''truststore.pem''] = Some (File ''new'')"
proof -
  let ?fs = "[([''b''], Dir)]"
  have ok: "disk_ok plain_disk" by (simp add: disk_ok_def plain_disk_def)
  have fs: "on_files plain_disk (plain_sys ?fs) = ?fs" by (simp add: on_files_def plain_disk_def plain_sys_def)
  have name: "keystore_name broker_info = ''a_1''" "plain_name ''a_1''" by code_simp+
  have dirs: "up \<notin> set [''b'']" "parents_there ?fs [''b'']" "is_dir ?fs [''b'']" by (simp_all add: parents_there_def is_dir_def)
  have there: "map_of ?fs [''b'', ''a_1''] \<in> {None, Some Dir}" "map_of ?fs ([''b'', ''a_1''] @ [''broker.crt'']) = None \<or> map_of ?fs ([''b'', ''a_1''] @ [''broker.key'']) = None"
    "list_all (\<lambda>n. map_of ?fs ([''b'', ''a_1''] @ [n]) \<noteq> Some Dir) [''broker.crt'', ''broker.key'', ''broker.p12'', ''truststore.pem'']" by simp_all
  have paths: "path_str ([''b'', ''a_1''] @ [''broker.p12'']) = ''/b/a_1/broker.p12''" "path_str ([''b'', ''a_1''] @ [''truststore.pem'']) = ''/b/a_1/truststore.pem''"
    by code_simp+
  have lib: "pk_issue text_pki a b q w = (Inr (''fresh'', ''key''), w)" "dk_files plain_disk w = dk_files plain_disk w" "pk_read_key text_pki x = Inr ()"
    "pk_read text_pki ''fresh'' = Inr (new_authority\<lparr>ci_pem := ''fresh''\<rparr>)" "pk_read text_pki (ci_pem new_authority) = Inr new_authority"
    "pk_bundle text_pki n x (ci_pem (new_authority\<lparr>ci_pem := ''fresh''\<rparr>)) (ci_pem new_authority) pw = Inr ''freshnew''" for a b q w x n pw
    by (simp_all add: text_pki_def new_authority_def ret_def)
  from broker_certificate_issued[OF ok, of broker_info "[''b'', ''a_1'']" "[''b'']" "plain_sys ?fs", unfolded fs name, OF name(2) _ dirs there,
      where cert = "\<lambda>_. ''fresh''" and key = "\<lambda>_. ''key''" and after = "\<lambda>w. w", OF _ lib]
  obtain t where t: "broker_keystore plain_disk text_pki [''b''] new_authority ''key'' ''pw'' broker_info (plain_sys ?fs) =
     (Inr (''a_1'', \<lparr>ks_keystore = ''/b/a_1/broker.p12'', ks_truststore = ''/b/a_1/truststore.pem'', ks_password = ''pw''\<rparr>), t)"
   "map_of (on_files plain_disk t) = (map_of ?fs)([''b'', ''a_1''] \<mapsto> Dir, [''b'', ''a_1''] @ [''broker.crt''] \<mapsto> File ''fresh'', [''b'', ''a_1''] @ [''broker.key''] \<mapsto> File ''key'',
       [''b'', ''a_1''] @ [''broker.p12''] \<mapsto> File ''freshnew'', [''b'', ''a_1''] @ [''truststore.pem''] \<mapsto> File (ci_pem new_authority))"
    unfolding paths by auto
  then show ?thesis by (simp add: new_authority_def)
qed

end
