(* ===== verification/Spec2Isabelle.thy ===== *)
theory Spec2Isabelle
  imports Auth Agents Agent_Registry Agent_Transport Port_Preflight Cluster_Paths Cluster_Manager Rolling_Restart Upgrade_Manager Config_Manager
    Alert_Manager Config_Generator Agent_Deployer Kafka_Reading External_Admin Kafka_Admin Ssh_Pool Host_Api Cluster_Api
    Monitoring Local_Files Certificates
begin

text \<open>
  Tantor manages Apache Kafka clusters: a FastAPI backend keeps clusters, hosts, services, users and agents in a
  database and drives the hosts over SSH or through a small agent that connects back to it.  This
  development models the backend (\<open>backend/app\<close>) and proves properties of its own logic.

  Foundations.  \<open>Py_Prelude\<close> has Python values, strings, integers and dicts, \<open>Py_Text\<close> the lemmas on texts and lines;
  \<open>Shell_Words\<close> has Python's \<open>shlex.split\<close> and a POSIX shell's reading of a line, which agree; \<open>Io_Monad\<close> has exceptions, state
  and the loops of the code, and the locale \<open>io_preorder\<close> by which frame and invariant arguments pass
  through the combinators; \<open>Models\<close> has the rows of \<open>models/*.py\<close>, the session and committed tables, the
  locale \<open>keyed_table\<close> of lookups and updates by key, and \<open>remote\<close>, the interface to everything outside the
  process.  Code that is not in the repository (PyJWT, bcrypt, ldap3, Paramiko, systemd, the agent) is a
  parameter; what is assumed of it is a named hypothesis (\<open>jwt_ok\<close>, \<open>clock_ok\<close>).

  Components, in the order of the theories.
  \<open>Auth\<close> is \<open>services/auth_service.py\<close>, \<open>services/ldap_service.py\<close>, \<open>api/deps.py\<close> and \<open>api/auth.py\<close>: tokens, logins and
  the administration of users; \<open>auth_run\<close> is any sequence of the requests that write users.
  \<open>Agents\<close> is \<open>services/agent_auth.py\<close> and the handlers of \<open>api/agents.py\<close>; the locale \<open>agent_invariant\<close> states what
  every request may do to a row.
  \<open>Agent_Registry\<close> is \<open>services/agent_registry.py\<close> and the receive loop: session objects are named by their socket,
  \<open>live_step\<close> is one step of the worker and \<open>live_reach\<close> its reachable states.
  \<open>Agent_Transport\<close> is \<open>services/agent_transport.py\<close>.
  \<open>Port_Preflight\<close> is \<open>services/port_preflight.py\<close>.
  \<open>Cluster_Paths\<close> is \<open>services/cluster_paths.py\<close>.
  \<open>Cluster_Manager\<close> is \<open>services/cluster_manager.py\<close>: the locale \<open>unit_driver\<close> states what stopping a unit needs of a
  driver and is interpreted on the SSH and on the agent operations.
  \<open>Rolling_Restart\<close> is \<open>services/rolling_restart_manager.py\<close> and its routes: the locale \<open>restart_rounds\<close> states what one
  round may do to units, and is interpreted on the rounds of managed and of external clusters and, in the next
  theory, of upgrades.  \<open>yields\<close> of \<open>Io_Monad\<close> reduces a handler to the steps that matter for the database, or for the
  units.
  \<open>Upgrade_Manager\<close> is \<open>services/upgrade_manager.py\<close> and \<open>api/upgrades.py\<close>.
  \<open>Config_Manager\<close> is \<open>services/config_manager.py\<close> and \<open>api/broker_config.py\<close>.
  \<open>Alert_Manager\<close> is \<open>services/alert_manager.py\<close>, \<open>api/alerts.py\<close> and the push of rules in
  \<open>services/monitoring_deployer.py\<close>: rows are rendered into YAML files and a shell command, which is read back with
  the quoting rules of a POSIX shell; the webhook keeps incidents.
  \<open>Config_Generator\<close> is \<open>services/config_generator.py\<close> with the templates of properties files and systemd units;
  what it renders is read back with the parser of \<open>Config_Manager\<close>.
  \<open>Agent_Deployer\<close> is \<open>services/agent_deployer.py\<close>: \<open>seen\<close> is what matters of the database during a deployment, and
  \<open>yields\<close> reduces the steps to it.

  \<open>Kafka_Output\<close> has the parsers of \<open>services/kafka_admin.py\<close> for what the Kafka tools print, and \<open>Kafka_Reading\<close> what they
  read back.
  \<open>External_Admin\<close> is \<open>services/external_admin.py\<close>: kafka-python is the record \<open>kafka_py\<close> of steps of the outside world.
  \<open>Kafka_Admin\<close> is the rest of \<open>services/kafka_admin.py\<close> with \<open>api/topics.py\<close>, \<open>api/rebalance.py\<close> and \<open>api/security.py\<close>: every operation
  goes to \<open>External_Admin\<close> for an external cluster, and otherwise runs a Kafka tool through the agent or over SSH and
  reads its output with \<open>Kafka_Output\<close>.

  \<open>Ssh_Pool\<close> is \<open>services/ssh_manager.py\<close>: \<open>acquire\<close> is the abstract pool the dictionary implements, \<open>pool_reach\<close> the states of threads
  that share it; the other theories see hosts through \<open>remote\<close>.
  \<open>Host_Api\<close> is \<open>api/hosts.py\<close> with \<open>services/prereq_checker.py\<close>, and \<open>Cluster_Api\<close> is \<open>api/clusters.py\<close>, which composes the components:
  paths, ports, hosts, lifecycle and the rows of deployments.

  \<open>Monitoring\<close> is the rest of \<open>services/monitoring_deployer.py\<close>: the scripts that install the stack, and the row that records it; what
  matters of the database is \<open>views\<close>, and \<open>yields\<close> reduces a deployment to it.
  \<open>Local_Files\<close> has files and directories by path, as \<open>pathlib\<close> and the kernel see them, and \<open>disk\<close>, the view of the outside world
  as such files; \<open>disk_ok\<close> is what is assumed of it.  \<open>Certificates\<close> is \<open>services/cert_manager.py\<close> and \<open>api/security_tls.py\<close>: the
  authority of a cluster, the keystores of its brokers and the certificates of its clients are files; the \<open>cryptography\<close> library is the
  record \<open>pki\<close>.

  Bounds.  The polling loops have the number of rounds of the code (30 for a stop, 60 and 24 for health, 30 for
  replicas) and are structural.  The only loop without a structural measure is the wait for ports; its model has fuel of the timeout plus
  two rounds, and \<open>wait_fuel_enough\<close> shows that more fuel never changes the outcome.

  Limits.  Time is counted in whole seconds.  Requests are atomic: two requests that interleave on the same rows
  are not modelled, except for the connections of agents.  Strings are UTF-8 byte sequences and only ASCII
  characters count as white space, digits or letters with case.  Logging is left out.  The Ansible
  deployment over SSH (\<open>services/deployer.py\<close>), the queries of \<open>services/monitoring_manager.py\<close>, and the clients of ksqlDB, Connect and
  Schema Registry are not modelled.  A failing file operation other than those of \<open>Local_Files\<close> (a full disk, a missing right) is not
  modelled either.
\<close>

end
